(* ===== verification/Prelude.thy ===== *)
theory Prelude
  imports Main "HOL-Library.Word" "HOL-Library.Monad_Syntax"
begin

text \<open>
  Shared vocabulary of the development.

  Machine integers are words of the C width.  An object in memory (a buffer, a payload, an array)
  is a list, and every access to it is checked: the result type is an option, and \<^const>\<open>None\<close>
  stands for undefined behaviour, an access outside the object.  A C function that returns 0 or -1
  returns a value of type \<open>'a ret\<close>: \<open>Fail\<close> for -1, \<open>Ok\<close> with the output parameters for 0.  So a
  decoder has type \<open>bytes \<Rightarrow> 'a ret option\<close>, and memory safety of a decoder is the statement that
  its result is never \<^const>\<open>None\<close>.

  The theory also holds the two loop combinators used for C counting loops and the list and word
  lemmas that all components share.
\<close>

unbundle bit_operations_syntax

type_synonym u8 = "8 word"
type_synonym u16 = "16 word"
type_synonym u32 = "32 word"
type_synonym u64 = "64 word"
type_synonym bytes = "u8 list"

datatype 'a ret = Fail | Ok 'a

text \<open>
  \<open>bindR m f\<close> is the C idiom of calling a function, returning -1 when it returned -1, and going on
  with its outputs otherwise.
\<close>

definition bindR :: "'a ret option \<Rightarrow> ('a \<Rightarrow> 'b ret option) \<Rightarrow> 'b ret option" where
  "bindR m f = Option.bind m (\<lambda>r. case r of Fail \<Rightarrow> Some Fail | Ok x \<Rightarrow> f x)"

lemma bindR_simps [simp]:
  "bindR None f = None" "bindR (Some Fail) f = Some Fail" "bindR (Some (Ok x)) f = f x"
  by (simp_all add: bindR_def)

lemma bindR_eq_Ok: "bindR m f = Some (Ok y) \<longleftrightarrow> (\<exists>x. m = Some (Ok x) \<and> f x = Some (Ok y))"
  by (auto simp: bindR_def bind_eq_Some_conv split: ret.split_asm)

lemma bindR_safe:
  assumes "\<exists>r. m = Some r" and "\<And>x. m = Some (Ok x) \<Longrightarrow> \<exists>r. f x = Some r"
  shows "\<exists>r. bindR m f = Some r"
  using assms by (auto simp: bindR_def split: ret.split)

named_theorems layout \<open>rewriting of sequential buffer writes into one contiguous write\<close>
named_theorems len_simps \<open>lengths of encoded fields\<close>

abbreviation (input) UINT16_MAX :: nat where "UINT16_MAX \<equiv> 65535"
abbreviation (input) UINT32_MAX :: u32 where "UINT32_MAX \<equiv> 0xFFFFFFFF"
abbreviation (input) UINT64_MAX :: u64 where "UINT64_MAX \<equiv> 0xFFFFFFFFFFFFFFFF"
abbreviation (input) SIZE_MAX :: nat where "SIZE_MAX \<equiv> 18446744073709551615"

section \<open>Checked access to arrays\<close>

definition rd :: "'a list \<Rightarrow> nat \<Rightarrow> 'a option" where
  "rd p i = (if i < length p then Some (p ! i) else None)"

definition poke :: "nat \<Rightarrow> 'a list \<Rightarrow> 'a list \<Rightarrow> 'a list option" where
  "poke off bs out = (if off + length bs \<le> length out
     then Some (take off out @ bs @ drop (off + length bs) out) else None)"

definition slice :: "'a list \<Rightarrow> nat \<Rightarrow> nat \<Rightarrow> 'a list option" where
  "slice p off n = (if off + n \<le> length p then Some (take n (drop off p)) else None)"

lemma rd_None_iff [simp]: "rd p i = None \<longleftrightarrow> length p \<le> i"
  by (auto simp: rd_def)

lemma rd_Some: "i < length p \<Longrightarrow> rd p i = Some (p ! i)"
  by (simp add: rd_def)

lemma rd_SomeD: "rd p i = Some x \<Longrightarrow> i < length p \<and> x = p ! i"
  by (auto simp: rd_def split: if_splits)

lemma slice_None_iff [simp]: "slice p off n = None \<longleftrightarrow> length p < off + n"
  by (auto simp: slice_def)

lemma slice_Some: "off + n \<le> length p \<Longrightarrow> slice p off n = Some (take n (drop off p))"
  by (simp add: slice_def)

lemma poke_None_iff [simp]: "poke off bs out = None \<longleftrightarrow> length out < off + length bs"
  by (auto simp: poke_def)

lemma poke_Some: "off + length bs \<le> length out \<Longrightarrow>
    poke off bs out = Some (take off out @ bs @ drop (off + length bs) out)"
  by (simp add: poke_def)

lemma poke_update [simp]: "i < length xs \<Longrightarrow> poke i [x] xs = Some (xs[i := x])"
  by (simp add: poke_Some upd_conv_take_nth_drop)

lemma poke_length: "poke off bs out = Some out' \<Longrightarrow> length out' = length out"
  by (auto simp: poke_def split: if_splits)

text \<open>Two writes to adjacent ranges are one write of the concatenation.\<close>

lemma poke_poke [layout]:
  assumes "off' = off + length bs"
  shows "Option.bind (poke off bs out) (poke off' bs') = poke off (bs @ bs') out"
proof (cases "off + length bs \<le> length out")
  case True
  then show ?thesis
    using assms by (simp add: poke_def add.commute add.left_commute)
next
  case False
  then show ?thesis
    by (simp add: poke_def)
qed

lemma poke_poke_bind [layout]:
  assumes "off' = off + length bs"
  shows "Option.bind (poke off bs out) (\<lambda>out. Option.bind (poke off' bs' out) f)
       = Option.bind (poke off (bs @ bs') out) f"
  using poke_poke [OF assms, of out bs'] by (metis Option.bind_assoc)

text \<open>A later write of a range that an earlier, larger write covered replaces it there.\<close>

lemma poke_over:
  assumes "off \<le> off'" and "off' + length bs' \<le> off + length bs"
  shows "Option.bind (poke off bs out) (poke off' bs')
       = poke off (take (off' - off) bs @ bs' @ drop (off' - off + length bs') bs) out"
proof (cases "off + length bs \<le> length out")
  case True
  have split: "length (take (off' - off) bs @ bs' @ drop (off' - off + length bs') bs) = length bs"
    using assms by simp
  have l: "length (take off out) = off"
    using True by simp
  have hd: "take off' (take off out @ bs @ drop (off + length bs) out)
      = take off out @ take (off' - off) bs"
    using assms True by (simp add: l)
  have tl: "drop (off' + length bs') (take off out @ bs @ drop (off + length bs) out)
      = drop (off' - off + length bs') bs @ drop (off + length bs) out"
    using assms True by (simp add: l)
  show ?thesis
    using assms True by (simp add: poke_Some split hd tl del: take_append drop_append)
next
  case False
  then show ?thesis
    using assms by (simp add: poke_def)
qed

lemma poke_Nil: "off \<le> length out \<Longrightarrow> poke off [] out = Some out"
  by (simp add: poke_def)

lemma map_option_bind: "map_option f x = Option.bind x (\<lambda>y. Some (f y))"
  by (cases x) auto

text \<open>Adjacent slices join; used to rebuild a payload from the fields that were read from it.\<close>

named_theorems join \<open>joining adjacent slices of one list\<close>

lemma take_drop_join [join]:
  "j = m + n \<Longrightarrow> take n (drop m xs) @ take k (drop j xs) = take (n + k) (drop m xs)"
  by (simp only: take_add drop_drop add.commute [of n m])

lemma take_drop_join_append [join]:
  "j = m + n \<Longrightarrow> take n (drop m xs) @ take k (drop j xs) @ rest = take (n + k) (drop m xs) @ rest"
  by (metis append_assoc take_drop_join)

lemma take_join [join]:
  "take n xs @ take k (drop n xs) = take (n + k) xs"
  "take n xs @ take k (drop n xs) @ rest = take (n + k) xs @ rest"
  by (simp_all add: take_add)

lemma drop_join [join]:
  "j = m + n \<Longrightarrow> take n (drop m xs) @ drop j xs = drop m xs"
  by (metis add.commute append_take_drop_id drop_drop)

lemma take2_drop: "Suc i < length xs \<Longrightarrow> take 2 (drop i xs) = [xs ! i, xs ! Suc i]"
  by (metis Cons_nth_drop_Suc Suc_lessD numeral_2_eq_2 take0 take_Suc_Cons)

lemma nth_as_take_drop: "i < length xs \<Longrightarrow> [xs ! i] = take 1 (drop i xs)"
  by (simp add: take_Suc_conv_app_nth Cons_nth_drop_Suc [symmetric])

section \<open>Counting loops\<close>

text \<open>
  \<open>for_loop i n body s\<close> runs \<open>body\<close> for the counters \<open>i, \<dots>, i + n - 1\<close>; \<open>for_ret\<close> is the same for
  a body that may return -1 out of the enclosing function.
\<close>

fun for_loop :: "nat \<Rightarrow> nat \<Rightarrow> (nat \<Rightarrow> 's \<Rightarrow> 's option) \<Rightarrow> 's \<Rightarrow> 's option" where
  "for_loop i 0 body s = Some s"
| "for_loop i (Suc n) body s = Option.bind (body i s) (for_loop (Suc i) n body)"

fun for_ret :: "nat \<Rightarrow> nat \<Rightarrow> (nat \<Rightarrow> 's \<Rightarrow> 's ret option) \<Rightarrow> 's \<Rightarrow> 's ret option" where
  "for_ret i 0 body s = Some (Ok s)"
| "for_ret i (Suc n) body s = bindR (body i s) (for_ret (Suc i) n body)"

lemma for_loop_cong [fundef_cong]:
  assumes "i = i'" and "n = n'" and "s = s'"
    and "\<And>k t. i' \<le> k \<Longrightarrow> k < i' + n' \<Longrightarrow> body k t = body' k t"
  shows "for_loop i n body s = for_loop i' n' body' s'"
  using assms
proof (induction n arbitrary: i s i' n' s')
  case 0
  then show ?case by auto
next
  case (Suc n)
  have hd: "body i' s' = body' i' s'"
    using Suc.prems by auto
  have tl: "for_loop (Suc i') n body t = for_loop (Suc i') n body' t" for t
    by (rule Suc.IH) (use Suc.prems in auto)
  have "for_loop (Suc i') n body = for_loop (Suc i') n body'"
    by (rule ext) (rule tl)
  with Suc.prems hd show ?case
    by auto
qed

text \<open>A loop whose body writes record \<open>i\<close> of width \<open>w\<close> writes the concatenation of the records.\<close>

lemma for_loop_poke:
  assumes w: "\<And>k. i \<le> k \<Longrightarrow> k < i + n \<Longrightarrow> length (rec k) = w"
    and body: "\<And>k out. i \<le> k \<Longrightarrow> k < i + n \<Longrightarrow> body k out = poke (base + k * w) (rec k) out"
    and base: "base + (i + n) * w \<le> length out"
  shows "for_loop i n body out = poke (base + i * w) (concat (map rec [i..<i + n])) out"
  using assms
proof (induction n arbitrary: i out)
  case 0
  then show ?case by (simp add: poke_Nil)
next
  case (Suc n)
  let ?tl = "concat (map rec [Suc i..<Suc i + n])"
  have step: "body i out = poke (base + i * w) (rec i) out"
    using Suc.prems by simp
  have rest: "for_loop (Suc i) n body out' = poke (base + Suc i * w) ?tl out'"
    if "length out' = length out" for out'
    by (rule Suc.IH) (use Suc.prems that in \<open>auto simp: algebra_simps\<close>)
  have "for_loop i (Suc n) body out
      = Option.bind (poke (base + i * w) (rec i) out) (for_loop (Suc i) n body)"
    by (simp add: step)
  also have "\<dots> = Option.bind (poke (base + i * w) (rec i) out) (poke (base + Suc i * w) ?tl)"
    by (rule Option.bind_cong) (simp_all add: rest poke_length del: upt_Suc)
  also have "\<dots> = poke (base + i * w) (rec i @ ?tl) out"
    by (rule poke_poke) (use Suc.prems(1)[of i] in simp)
  also have "rec i @ ?tl = concat (map rec [i..<i + Suc n])"
    by (subst upt_conv_Cons) auto
  finally show ?case .
qed

text \<open>Invariant rule for loops: they end without undefined behaviour, in a state with the invariant.\<close>

lemma for_loop_invariant:
  assumes "I i s"
    and step: "\<And>k t. i \<le> k \<Longrightarrow> k < i + n \<Longrightarrow> I k t \<Longrightarrow> \<exists>t'. body k t = Some t' \<and> I (Suc k) t'"
  shows "\<exists>t. for_loop i n body s = Some t \<and> I (i + n) t"
  using assms
proof (induction n arbitrary: i s)
  case 0
  then show ?case by simp
next
  case (Suc n)
  obtain t where t: "body i s = Some t" "I (Suc i) t"
    using Suc.prems by force
  have "\<exists>t'. for_loop (Suc i) n body t = Some t' \<and> I (Suc i + n) t'"
    by (rule Suc.IH) (use Suc.prems t in auto)
  with t show ?case by simp
qed

text \<open>A loop that replaces element \<open>k\<close> by \<open>g k\<close> in turn \<open>k\<close>, the elements before it already replaced.\<close>

lemma for_loop_update:
  assumes len: "length vals = n"
    and step: "\<And>k vs. k < n \<Longrightarrow> length vs = n \<Longrightarrow> (\<And>j. j < n \<Longrightarrow> vs ! j = (if j < k then g j else vals ! j))
      \<Longrightarrow> body k vs = Some (vs[k := g k])"
  shows "for_loop 0 n body vals = Some (map g [0..<n])"
proof -
  let ?I = "\<lambda>k vs. length vs = n \<and> (\<forall>j<n. vs ! j = (if j < k then g j else vals ! j))"
  have "\<exists>vs. for_loop 0 n body vals = Some vs \<and> ?I (0 + n) vs"
  proof (rule for_loop_invariant)
    show "?I 0 vals" using len by simp
  next
    fix k vs
    assume k: "k < 0 + n" and I: "?I k vs"
    then have "body k vs = Some (vs[k := g k])"
      by (intro step) auto
    moreover have "?I (Suc k) (vs[k := g k])"
      using I k by (auto simp: nth_list_update less_Suc_eq)
    ultimately show "\<exists>t'. body k vs = Some t' \<and> ?I (Suc k) t'"
      by blast
  qed
  then show ?thesis
    by (auto intro!: nth_equalityI)
qed

text \<open>Invariant rule for loops that may return early: no undefined behaviour, and the invariant.\<close>

lemma for_ret_invariant:
  assumes "I i s"
    and step: "\<And>k t. i \<le> k \<Longrightarrow> k < i + n \<Longrightarrow> I k t \<Longrightarrow>
      \<exists>r. body k t = Some r \<and> (\<forall>t'. r = Ok t' \<longrightarrow> I (Suc k) t')"
  shows "\<exists>r. for_ret i n body s = Some r \<and> (\<forall>t. r = Ok t \<longrightarrow> I (i + n) t)"
  using assms
proof (induction n arbitrary: i s)
  case 0
  then show ?case by simp
next
  case (Suc n)
  obtain r where r: "body i s = Some r" "\<forall>t'. r = Ok t' \<longrightarrow> I (Suc i) t'"
    using Suc.prems by force
  show ?case
  proof (cases r)
    case Fail
    with r show ?thesis by simp
  next
    case (Ok t)
    have "\<exists>q. for_ret (Suc i) n body t = Some q \<and> (\<forall>t'. q = Ok t' \<longrightarrow> I (Suc i + n) t')"
      by (rule Suc.IH) (use Suc.prems r Ok in auto)
    with r Ok show ?thesis by simp
  qed
qed

section \<open>Lists\<close>

lemma length_concat_const:
  "(\<And>x. x \<in> set xs \<Longrightarrow> length (f x) = w) \<Longrightarrow> length (concat (map f xs)) = length xs * w"
  by (induction xs) auto

lemma nth_chunk_concat:
  assumes "\<And>x. x \<in> set xs \<Longrightarrow> length (f x) = w" and "i < length xs"
  shows "take w (drop (i * w) (concat (map f xs) @ rest)) = f (xs ! i)"
  using assms
proof (induction xs arbitrary: i)
  case Nil
  then show ?case by simp
next
  case (Cons x xs)
  show ?case
  proof (cases i)
    case 0
    with Cons.prems show ?thesis by simp
  next
    case (Suc j)
    have "drop (w + j * w) (f x @ concat (map f xs) @ rest) = drop (j * w) (concat (map f xs) @ rest)"
      using Cons.prems by simp
    with Suc Cons show ?thesis by (simp del: drop_append)
  qed
qed

section \<open>Words\<close>

lemma unat_le_max:
  "unat (a :: u8) \<le> 255" "unat (b :: u16) \<le> 65535" "unat (c :: u32) \<le> 4294967295"
  "unat (d :: u64) \<le> 18446744073709551615"
  using unsigned_less [of a, where ?'a = nat] unsigned_less [of b, where ?'a = nat]
    unsigned_less [of c, where ?'a = nat] unsigned_less [of d, where ?'a = nat]
  by simp_all

lemma unat_of_nat_small:
  "n < 2 ^ 8 \<Longrightarrow> unat (of_nat n :: u8) = n" "n < 2 ^ 16 \<Longrightarrow> unat (of_nat n :: u16) = n"
  "n < 2 ^ 32 \<Longrightarrow> unat (of_nat n :: u32) = n" "n < 2 ^ 64 \<Longrightarrow> unat (of_nat n :: u64) = n"
  by (simp_all add: unat_of_nat)

end
