(* ===== verification/Wire.thy ===== *)
theory Wire
  imports Prelude
begin

text \<open>
  Byte-order primitives: the static helpers at the top of \<^verbatim>\<open>protocol.c\<close> (repeated in
  \<^verbatim>\<open>catalog.c\<close>), which write and read big-endian integers and doubles at an offset of a buffer.
  A double is its IEEE-754 bit pattern, so that \<^verbatim>\<open>put_double\<close>, a \<^verbatim>\<open>memcpy\<close> of the bits followed by
  \<^verbatim>\<open>put_u64\<close>, is \<open>put_u64\<close> on the pattern.

  The lemmas show that each writer is one contiguous write of a fixed number of bytes, that each
  reader stays inside the buffer exactly when the field fits, and that the two are inverse to each
  other in both directions.
\<close>

type_synonym double = u64

definition put_u8 :: "bytes \<Rightarrow> nat \<Rightarrow> u8 \<Rightarrow> bytes option" where
  "put_u8 out off value = poke off [value] out"

definition put_u16 :: "bytes \<Rightarrow> nat \<Rightarrow> u16 \<Rightarrow> bytes option" where
  "put_u16 out off value = do {
     out \<leftarrow> poke off [ucast (drop_bit 8 value)] out;
     poke (off + 1) [ucast value] out }"

definition put_u32 :: "bytes \<Rightarrow> nat \<Rightarrow> u32 \<Rightarrow> bytes option" where
  "put_u32 out off value = do {
     out \<leftarrow> poke off [ucast (drop_bit 24 value)] out;
     out \<leftarrow> poke (off + 1) [ucast (drop_bit 16 value)] out;
     out \<leftarrow> poke (off + 2) [ucast (drop_bit 8 value)] out;
     poke (off + 3) [ucast value] out }"

definition put_u64 :: "bytes \<Rightarrow> nat \<Rightarrow> u64 \<Rightarrow> bytes option" where
  "put_u64 out off value = do {
     out \<leftarrow> put_u32 out off (ucast (drop_bit 32 value));
     put_u32 out (off + 4) (ucast value) }"

definition get_u16 :: "bytes \<Rightarrow> nat \<Rightarrow> u16 option" where
  "get_u16 p off = do {
     b0 \<leftarrow> rd p off;
     b1 \<leftarrow> rd p (off + 1);
     Some (push_bit 8 (ucast b0) OR ucast b1) }"

definition get_u32 :: "bytes \<Rightarrow> nat \<Rightarrow> u32 option" where
  "get_u32 p off = do {
     b0 \<leftarrow> rd p off;
     b1 \<leftarrow> rd p (off + 1);
     b2 \<leftarrow> rd p (off + 2);
     b3 \<leftarrow> rd p (off + 3);
     Some (push_bit 24 (ucast b0) OR push_bit 16 (ucast b1) OR push_bit 8 (ucast b2) OR ucast b3) }"

definition get_u64 :: "bytes \<Rightarrow> nat \<Rightarrow> u64 option" where
  "get_u64 p off = do {
     hi \<leftarrow> get_u32 p off;
     lo \<leftarrow> get_u32 p (off + 4);
     Some (push_bit 32 (ucast hi) OR ucast lo) }"

definition put_double :: "bytes \<Rightarrow> nat \<Rightarrow> double \<Rightarrow> bytes option" where
  "put_double out off value = put_u64 out off value"

definition get_double :: "bytes \<Rightarrow> nat \<Rightarrow> double option" where
  "get_double p off = get_u64 p off"

section \<open>The bytes of a field\<close>

definition be16 :: "u16 \<Rightarrow> bytes" where
  "be16 v = [ucast (drop_bit 8 v), ucast v]"

definition be32 :: "u32 \<Rightarrow> bytes" where
  "be32 v = [ucast (drop_bit 24 v), ucast (drop_bit 16 v), ucast (drop_bit 8 v), ucast v]"

definition be64 :: "u64 \<Rightarrow> bytes" where
  "be64 v = be32 (ucast (drop_bit 32 v)) @ be32 (ucast v)"

lemma length_be [simp, len_simps]:
  "length (be16 v) = 2" "length (be32 w) = 4" "length (be64 x) = 8"
  by (simp_all add: be16_def be32_def be64_def)

lemma put_u8_poke [layout]: "put_u8 out off v = poke off [v] out"
  by (simp add: put_u8_def)

lemma put_u16_poke [layout]: "put_u16 out off v = poke off (be16 v) out"
  by (simp add: put_u16_def be16_def layout)

lemma put_u32_poke [layout]: "put_u32 out off v = poke off (be32 v) out"
  by (simp add: put_u32_def be32_def layout)

lemma put_u64_poke [layout]: "put_u64 out off v = poke off (be64 v) out"
  by (simp add: put_u64_def be64_def layout)

lemma put_double_poke [layout]: "put_double out off v = poke off (be64 v) out"
  by (simp add: put_double_def layout)

section \<open>Readers as slices\<close>

definition of_be16 :: "bytes \<Rightarrow> u16" where
  "of_be16 bs = push_bit 8 (ucast (bs ! 0)) OR ucast (bs ! 1)"

definition of_be32 :: "bytes \<Rightarrow> u32" where
  "of_be32 bs = push_bit 24 (ucast (bs ! 0)) OR push_bit 16 (ucast (bs ! 1))
     OR push_bit 8 (ucast (bs ! 2)) OR ucast (bs ! 3)"

definition of_be64 :: "bytes \<Rightarrow> u64" where
  "of_be64 bs = push_bit 32 (ucast (of_be32 (take 4 bs))) OR ucast (of_be32 (drop 4 bs))"

lemma get_u16_slice: "get_u16 p off = map_option of_be16 (slice p off 2)"
  by (auto simp: get_u16_def slice_def of_be16_def rd_def)

lemma get_u32_slice: "get_u32 p off = map_option of_be32 (slice p off 4)"
  by (auto simp: get_u32_def slice_def of_be32_def rd_def)

lemma get_u64_slice: "get_u64 p off = map_option of_be64 (slice p off 8)"
  by (auto simp: get_u64_def get_u32_slice slice_def of_be64_def take_drop add.commute)

lemma get_double_slice: "get_double p off = map_option of_be64 (slice p off 8)"
  by (simp add: get_double_def get_u64_slice)

lemmas get_slice = get_u16_slice get_u32_slice get_u64_slice get_double_slice

lemma get_None_iff [simp]:
  "get_u16 p off = None \<longleftrightarrow> length p < off + 2"
  "get_u32 p off = None \<longleftrightarrow> length p < off + 4"
  "get_u64 p off = None \<longleftrightarrow> length p < off + 8"
  "get_double p off = None \<longleftrightarrow> length p < off + 8"
  by (simp_all add: get_slice)

section \<open>Round trips of the fields\<close>

lemma of_be16_be16 [simp]: "of_be16 (be16 v) = v"
  unfolding of_be16_def be16_def
  by (rule bit_word_eqI) (auto simp: bit_simps)

lemma of_be32_be32 [simp]: "of_be32 (be32 v) = v"
proof (rule bit_word_eqI)
  fix n
  assume "n < LENGTH(32)"
  then consider "n < 8" | "8 \<le> n" "n < 16" | "16 \<le> n" "n < 24" | "24 \<le> n" "n < 32"
    by fastforce
  then show "bit (of_be32 (be32 v)) n \<longleftrightarrow> bit v n"
    by cases (auto simp: of_be32_def be32_def bit_simps)
qed

lemma of_be64_be64 [simp]: "of_be64 (be64 v) = v"
proof -
  have "take 4 (be64 v) = be32 (ucast (drop_bit 32 v))" and "drop 4 (be64 v) = be32 (ucast v)"
    by (simp_all add: be64_def)
  then have "of_be64 (be64 v) = push_bit 32 (ucast (ucast (drop_bit 32 v) :: u32)) OR ucast (ucast v :: u32)"
    by (simp add: of_be64_def)
  also have "\<dots> = v"
    by (rule bit_word_eqI) (auto simp: bit_simps)
  finally show ?thesis .
qed

lemma bit_beyond: "LENGTH('a) \<le> n \<Longrightarrow> bit (w :: 'a::len word) n \<longleftrightarrow> False"
  by (auto dest: bit_imp_le_length)

lemma length2_cases: "length bs = 2 \<Longrightarrow> \<exists>a b. bs = [a, b]"
  by (auto simp: numeral_eq_Suc length_Suc_conv)

lemma length4_cases: "length bs = 4 \<Longrightarrow> \<exists>a b c d. bs = [a, b, c, d]"
  by (auto simp: numeral_eq_Suc length_Suc_conv)

lemma be16_of_be16 [simp]: "length bs = 2 \<Longrightarrow> be16 (of_be16 bs) = bs"
  by (drule length2_cases, clarsimp simp: of_be16_def be16_def)
     (auto intro!: bit_word_eqI simp: bit_simps bit_beyond)

lemma be32_of_be32 [simp]: "length bs = 4 \<Longrightarrow> be32 (of_be32 bs) = bs"
  by (drule length4_cases, clarsimp simp: of_be32_def be32_def)
     (auto intro!: bit_word_eqI simp: bit_simps bit_beyond)

lemma be64_of_be64 [simp]:
  assumes "length bs = 8"
  shows "be64 (of_be64 bs) = bs"
proof -
  let ?h = "of_be32 (take 4 bs)" and ?l = "of_be32 (drop 4 bs)"
  have "ucast (drop_bit 32 (of_be64 bs)) = ?h" and "ucast (of_be64 bs) = ?l"
    by (auto intro!: bit_word_eqI simp: of_be64_def bit_simps bit_beyond)
  then have "be64 (of_be64 bs) = be32 ?h @ be32 ?l"
    by (simp add: be64_def)
  also have "\<dots> = bs"
    using assms by simp
  finally show ?thesis .
qed

end
