(* ===== verification/Protocol.thy ===== *)
theory Protocol
  imports Wire
begin

text \<open>
  The fixed-layout messages of the wire protocol: \<^verbatim>\<open>include/roadcast_protocol.h\<close> and the header,
  HELLO, WELCOME, index-request and HEARTBEAT codecs of \<^verbatim>\<open>src/protocol.c\<close>.  An encoder writes into a
  caller's buffer (the list \<open>out\<close>); a decoder reads a payload, the list of its \<^verbatim>\<open>len\<close> bytes.

  For every message: the encoder is one write of a named byte layout, the decoder never reads outside
  its input, decoding an encoded value gives it back, and whatever the decoder accepts is exactly the
  encoding of what it returned, so that no message has two representations.
\<close>

section \<open>Constants and data of the protocol header file\<close>

abbreviation (input) ROADCAST_MAGIC :: u32 where "ROADCAST_MAGIC \<equiv> 0x52444354"
abbreviation (input) ROADCAST_PROTOCOL_VERSION :: u16 where "ROADCAST_PROTOCOL_VERSION \<equiv> 3"
abbreviation (input) ROADCAST_HEADER_SIZE :: nat where "ROADCAST_HEADER_SIZE \<equiv> 32"
abbreviation (input) ROADCAST_FRAME_WIRE_SIZE :: nat where "ROADCAST_FRAME_WIRE_SIZE \<equiv> 28"
abbreviation (input) ROADCAST_BATCH_PREFIX_SIZE :: nat where "ROADCAST_BATCH_PREFIX_SIZE \<equiv> 20"
abbreviation (input) ROADCAST_SIGNAL_WIRE_SIZE :: nat where "ROADCAST_SIGNAL_WIRE_SIZE \<equiv> 40"
abbreviation (input) ROADCAST_WELCOME_SIZE :: nat where "ROADCAST_WELCOME_SIZE \<equiv> 36"
abbreviation (input) ROADCAST_HEARTBEAT_SIZE :: nat where "ROADCAST_HEARTBEAT_SIZE \<equiv> 40"
abbreviation (input) ROADCAST_SCHEMA_REQUEST_SIZE :: nat where "ROADCAST_SCHEMA_REQUEST_SIZE \<equiv> 4"
abbreviation (input) ROADCAST_SCHEMA_CHUNK_PREFIX_SIZE :: nat where "ROADCAST_SCHEMA_CHUNK_PREFIX_SIZE \<equiv> 24"
abbreviation (input) ROADCAST_SCHEMA_ENTRY_FIXED_SIZE :: nat where "ROADCAST_SCHEMA_ENTRY_FIXED_SIZE \<equiv> 44"
abbreviation (input) ROADCAST_SCHEMA_NAME_MAX :: nat where "ROADCAST_SCHEMA_NAME_MAX \<equiv> 63"
abbreviation (input) ROADCAST_SCHEMA_UNIT_MAX :: nat where "ROADCAST_SCHEMA_UNIT_MAX \<equiv> 15"
abbreviation (input) ROADCAST_MAX_PAYLOAD :: nat where "ROADCAST_MAX_PAYLOAD \<equiv> 65536"

text \<open>The enumeration of message types; the header field is a plain 16-bit number.\<close>

abbreviation (input) ROADCAST_MSG_HELLO :: u16 where "ROADCAST_MSG_HELLO \<equiv> 1"
abbreviation (input) ROADCAST_MSG_WELCOME :: u16 where "ROADCAST_MSG_WELCOME \<equiv> 2"
abbreviation (input) ROADCAST_MSG_GET_SNAPSHOT :: u16 where "ROADCAST_MSG_GET_SNAPSHOT \<equiv> 3"
abbreviation (input) ROADCAST_MSG_SNAPSHOT :: u16 where "ROADCAST_MSG_SNAPSHOT \<equiv> 4"
abbreviation (input) ROADCAST_MSG_SUBSCRIBE_ALL :: u16 where "ROADCAST_MSG_SUBSCRIBE_ALL \<equiv> 5"
abbreviation (input) ROADCAST_MSG_UPDATE_BATCH :: u16 where "ROADCAST_MSG_UPDATE_BATCH \<equiv> 6"
abbreviation (input) ROADCAST_MSG_HEARTBEAT :: u16 where "ROADCAST_MSG_HEARTBEAT \<equiv> 7"
abbreviation (input) ROADCAST_MSG_RESYNC_REQUIRED :: u16 where "ROADCAST_MSG_RESYNC_REQUIRED \<equiv> 8"
abbreviation (input) ROADCAST_MSG_SUBSCRIBED :: u16 where "ROADCAST_MSG_SUBSCRIBED \<equiv> 9"
abbreviation (input) ROADCAST_MSG_PING :: u16 where "ROADCAST_MSG_PING \<equiv> 10"
abbreviation (input) ROADCAST_MSG_PONG :: u16 where "ROADCAST_MSG_PONG \<equiv> 11"
abbreviation (input) ROADCAST_MSG_GET_SCHEMA :: u16 where "ROADCAST_MSG_GET_SCHEMA \<equiv> 12"
abbreviation (input) ROADCAST_MSG_SCHEMA_CHUNK :: u16 where "ROADCAST_MSG_SCHEMA_CHUNK \<equiv> 13"
abbreviation (input) ROADCAST_MSG_GET_SIGNAL_SNAPSHOT :: u16 where "ROADCAST_MSG_GET_SIGNAL_SNAPSHOT \<equiv> 14"
abbreviation (input) ROADCAST_MSG_SIGNAL_SNAPSHOT_CHUNK :: u16 where "ROADCAST_MSG_SIGNAL_SNAPSHOT_CHUNK \<equiv> 15"
abbreviation (input) ROADCAST_MSG_SIGNAL_UPDATE_BATCH :: u16 where "ROADCAST_MSG_SIGNAL_UPDATE_BATCH \<equiv> 16"

abbreviation (input) ROADCAST_CAP_RAW_CAN :: u32 where "ROADCAST_CAP_RAW_CAN \<equiv> 1"
abbreviation (input) ROADCAST_CAP_DECODED_CAN :: u32 where "ROADCAST_CAP_DECODED_CAN \<equiv> 2"
abbreviation (input) ROADCAST_ITEM_CAN_SIGNAL :: u8 where "ROADCAST_ITEM_CAN_SIGNAL \<equiv> 2"
abbreviation (input) ROADCAST_SOURCE_RAW_CAN :: u8 where "ROADCAST_SOURCE_RAW_CAN \<equiv> 1"
abbreviation (input) ROADCAST_SCHEMA_FLAG_SIGNED :: u8 where "ROADCAST_SCHEMA_FLAG_SIGNED \<equiv> 1"
abbreviation (input) ROADCAST_SCHEMA_FLAG_CALIBRATED :: u8 where "ROADCAST_SCHEMA_FLAG_CALIBRATED \<equiv> 2"

abbreviation (input) ROADCAST_OBSERVATION_UNAVAILABLE :: u8 where "ROADCAST_OBSERVATION_UNAVAILABLE \<equiv> 0"
abbreviation (input) ROADCAST_OBSERVATION_NEVER_OBSERVED :: u8 where "ROADCAST_OBSERVATION_NEVER_OBSERVED \<equiv> 1"
abbreviation (input) ROADCAST_OBSERVATION_VALID :: u8 where "ROADCAST_OBSERVATION_VALID \<equiv> 2"
abbreviation (input) ROADCAST_OBSERVATION_INVALID :: u8 where "ROADCAST_OBSERVATION_INVALID \<equiv> 3"

abbreviation (input) ROADCAST_SOURCE_STATE_UNAVAILABLE :: u8 where "ROADCAST_SOURCE_STATE_UNAVAILABLE \<equiv> 0"
abbreviation (input) ROADCAST_SOURCE_STATE_AVAILABLE :: u8 where "ROADCAST_SOURCE_STATE_AVAILABLE \<equiv> 1"
abbreviation (input) ROADCAST_SOURCE_STATE_DEGRADED :: u8 where "ROADCAST_SOURCE_STATE_DEGRADED \<equiv> 2"

record roadcast_frame =
  f_can_id :: u16
  f_state :: u8
  f_data :: bytes
  f_first_observed_ns :: u64
  f_last_change_ns :: u64

record roadcast_header =
  h_version :: u16
  h_type :: u16
  h_flags :: u32
  h_payload_bytes :: u32
  h_sequence :: u64
  h_timestamp_ns :: u64

record roadcast_signal_value =
  sv_raw :: u64
  sv_physical :: double
  sv_first_observed_ns :: u64
  sv_last_change_ns :: u64
  sv_state :: u8
  sv_calibrated :: u8

record roadcast_signal_update =
  su_index :: u32
  su_value :: roadcast_signal_value

text \<open>\<open>se_name\<close> and \<open>se_unit\<close> are the bytes copied before the terminating NUL.\<close>

record roadcast_schema_entry =
  se_stable_id :: u64
  se_index :: u32
  se_invalid_signal_index :: u32
  se_can_id :: u16
  se_kind :: u8
  se_source :: u8
  se_width :: u8
  se_flags :: u8
  se_scale :: double
  se_offset :: double
  se_name :: bytes
  se_unit :: bytes

text \<open>The output parameters of the WELCOME and HEARTBEAT codecs.\<close>

record welcome_fields =
  w_hz :: u32
  w_frame_count :: u32
  w_signal_count :: u32
  w_max_request_payload :: u32
  w_max_response_payload :: u32
  w_capabilities :: u32
  w_schema_version :: u32
  w_schema_hash :: u64

record heartbeat_fields =
  hb_sample_sequence :: u64
  hb_change_sequence :: u64
  hb_dropped_batches :: u64
  hb_coalesced_samples :: u64
  hb_effective_hz_millihz :: u32
  hb_source_state :: u8

text \<open>The records in cleared memory.\<close>

definition zero_frame :: roadcast_frame where
  "zero_frame = \<lparr>f_can_id = 0, f_state = 0, f_data = replicate 8 0, f_first_observed_ns = 0, f_last_change_ns = 0\<rparr>"

definition zero_signal :: roadcast_signal_value where
  "zero_signal = \<lparr>sv_raw = 0, sv_physical = 0, sv_first_observed_ns = 0, sv_last_change_ns = 0, sv_state = 0,
     sv_calibrated = 0\<rparr>"

section \<open>Codecs\<close>

definition roadcast_encode_header :: "bytes \<Rightarrow> roadcast_header \<Rightarrow> bytes option" where
  "roadcast_encode_header out header = do {
     out \<leftarrow> put_u32 out 0 ROADCAST_MAGIC;
     out \<leftarrow> put_u16 out 4 (h_version header);
     out \<leftarrow> put_u16 out 6 (h_type header);
     out \<leftarrow> put_u32 out 8 (h_flags header);
     out \<leftarrow> put_u32 out 12 (h_payload_bytes header);
     out \<leftarrow> put_u64 out 16 (h_sequence header);
     put_u64 out 24 (h_timestamp_ns header) }"

definition roadcast_decode_header :: "bytes \<Rightarrow> roadcast_header ret option" where
  "roadcast_decode_header p = do {
     magic \<leftarrow> get_u32 p 0;
     if magic \<noteq> ROADCAST_MAGIC then Some Fail
     else do {
       version \<leftarrow> get_u16 p 4;
       ty \<leftarrow> get_u16 p 6;
       flags \<leftarrow> get_u32 p 8;
       payload_bytes \<leftarrow> get_u32 p 12;
       sequence \<leftarrow> get_u64 p 16;
       timestamp_ns \<leftarrow> get_u64 p 24;
       if unat payload_bytes > ROADCAST_MAX_PAYLOAD then Some Fail
       else Some (Ok \<lparr>h_version = version, h_type = ty, h_flags = flags,
              h_payload_bytes = payload_bytes, h_sequence = sequence, h_timestamp_ns = timestamp_ns\<rparr>) } }"

definition roadcast_encode_hello :: "bytes \<Rightarrow> (nat \<times> bytes) option" where
  "roadcast_encode_hello out = do {
     out \<leftarrow> put_u16 out 0 ROADCAST_PROTOCOL_VERSION;
     out \<leftarrow> put_u16 out 2 ROADCAST_PROTOCOL_VERSION;
     out \<leftarrow> put_u32 out 4 (ROADCAST_CAP_RAW_CAN OR ROADCAST_CAP_DECODED_CAN);
     Some (8, out) }"

definition roadcast_decode_hello :: "bytes \<Rightarrow> (u16 \<times> u16 \<times> u32) ret option" where
  "roadcast_decode_hello payload =
     (if length payload \<noteq> 8 then Some Fail
      else do {
        min_version \<leftarrow> get_u16 payload 0;
        max_version \<leftarrow> get_u16 payload 2;
        capabilities \<leftarrow> get_u32 payload 4;
        Some (Ok (min_version, max_version, capabilities)) })"

definition roadcast_encode_welcome :: "bytes \<Rightarrow> welcome_fields \<Rightarrow> (nat \<times> bytes) option" where
  "roadcast_encode_welcome out w = do {
     out \<leftarrow> put_u32 out 0 (w_hz w);
     out \<leftarrow> put_u32 out 4 (w_frame_count w);
     out \<leftarrow> put_u32 out 8 (w_signal_count w);
     out \<leftarrow> put_u32 out 12 (w_max_request_payload w);
     out \<leftarrow> put_u32 out 16 (w_max_response_payload w);
     out \<leftarrow> put_u32 out 20 (w_capabilities w);
     out \<leftarrow> put_u32 out 24 (w_schema_version w);
     out \<leftarrow> put_u64 out 28 (w_schema_hash w);
     Some (ROADCAST_WELCOME_SIZE, out) }"

definition roadcast_decode_welcome :: "bytes \<Rightarrow> welcome_fields ret option" where
  "roadcast_decode_welcome payload =
     (if length payload \<noteq> ROADCAST_WELCOME_SIZE then Some Fail
      else do {
        hz \<leftarrow> get_u32 payload 0;
        frame_count \<leftarrow> get_u32 payload 4;
        signal_count \<leftarrow> get_u32 payload 8;
        max_request_payload \<leftarrow> get_u32 payload 12;
        max_response_payload \<leftarrow> get_u32 payload 16;
        capabilities \<leftarrow> get_u32 payload 20;
        schema_version \<leftarrow> get_u32 payload 24;
        schema_hash \<leftarrow> get_u64 payload 28;
        Some (Ok \<lparr>w_hz = hz, w_frame_count = frame_count, w_signal_count = signal_count,
          w_max_request_payload = max_request_payload, w_max_response_payload = max_response_payload,
          w_capabilities = capabilities, w_schema_version = schema_version,
          w_schema_hash = schema_hash\<rparr>) })"

definition roadcast_encode_index_request :: "bytes \<Rightarrow> u32 \<Rightarrow> (nat \<times> bytes) option" where
  "roadcast_encode_index_request out start_index = do {
     out \<leftarrow> put_u32 out 0 start_index;
     Some (ROADCAST_SCHEMA_REQUEST_SIZE, out) }"

definition roadcast_decode_index_request :: "bytes \<Rightarrow> u32 ret option" where
  "roadcast_decode_index_request payload =
     (if length payload \<noteq> ROADCAST_SCHEMA_REQUEST_SIZE then Some Fail
      else do {
        start_index \<leftarrow> get_u32 payload 0;
        Some (Ok start_index) })"

definition roadcast_encode_heartbeat :: "bytes \<Rightarrow> heartbeat_fields \<Rightarrow> (nat \<times> bytes) option" where
  "roadcast_encode_heartbeat out hb = do {
     out \<leftarrow> put_u64 out 0 (hb_sample_sequence hb);
     out \<leftarrow> put_u64 out 8 (hb_change_sequence hb);
     out \<leftarrow> put_u64 out 16 (hb_dropped_batches hb);
     out \<leftarrow> put_u64 out 24 (hb_coalesced_samples hb);
     out \<leftarrow> put_u32 out 32 (hb_effective_hz_millihz hb);
     out \<leftarrow> put_u8 out 36 (hb_source_state hb);
     out \<leftarrow> poke 37 [0, 0, 0] out;
     Some (ROADCAST_HEARTBEAT_SIZE, out) }"

definition roadcast_decode_heartbeat :: "bytes \<Rightarrow> heartbeat_fields ret option" where
  "roadcast_decode_heartbeat payload =
     (if length payload \<noteq> ROADCAST_HEARTBEAT_SIZE then Some Fail
      else do {
        st \<leftarrow> rd payload 36;
        r37 \<leftarrow> rd payload 37;
        r38 \<leftarrow> rd payload 38;
        r39 \<leftarrow> rd payload 39;
        if st > ROADCAST_SOURCE_STATE_DEGRADED \<or> r37 \<noteq> 0 \<or> r38 \<noteq> 0 \<or> r39 \<noteq> 0 then Some Fail
        else do {
          sample_sequence \<leftarrow> get_u64 payload 0;
          change_sequence \<leftarrow> get_u64 payload 8;
          dropped_batches \<leftarrow> get_u64 payload 16;
          coalesced_samples \<leftarrow> get_u64 payload 24;
          effective_hz_millihz \<leftarrow> get_u32 payload 32;
          Some (Ok \<lparr>hb_sample_sequence = sample_sequence, hb_change_sequence = change_sequence,
            hb_dropped_batches = dropped_batches, hb_coalesced_samples = coalesced_samples,
            hb_effective_hz_millihz = effective_hz_millihz, hb_source_state = st\<rparr>) } })"

section \<open>Layouts\<close>

definition header_bytes :: "roadcast_header \<Rightarrow> bytes" where
  "header_bytes h = be32 ROADCAST_MAGIC @ be16 (h_version h) @ be16 (h_type h) @ be32 (h_flags h)
     @ be32 (h_payload_bytes h) @ be64 (h_sequence h) @ be64 (h_timestamp_ns h)"

definition hello_bytes :: "u16 \<Rightarrow> u16 \<Rightarrow> u32 \<Rightarrow> bytes" where
  "hello_bytes lo hi caps = be16 lo @ be16 hi @ be32 caps"

definition welcome_bytes :: "welcome_fields \<Rightarrow> bytes" where
  "welcome_bytes w = be32 (w_hz w) @ be32 (w_frame_count w) @ be32 (w_signal_count w)
     @ be32 (w_max_request_payload w) @ be32 (w_max_response_payload w) @ be32 (w_capabilities w)
     @ be32 (w_schema_version w) @ be64 (w_schema_hash w)"

definition heartbeat_bytes :: "heartbeat_fields \<Rightarrow> bytes" where
  "heartbeat_bytes hb = be64 (hb_sample_sequence hb) @ be64 (hb_change_sequence hb)
     @ be64 (hb_dropped_batches hb) @ be64 (hb_coalesced_samples hb)
     @ be32 (hb_effective_hz_millihz hb) @ [hb_source_state hb, 0, 0, 0]"

lemma length_layouts [simp, len_simps]:
  "length (header_bytes h) = 32" "length (hello_bytes lo hi caps) = 8"
  "length (welcome_bytes w) = 36" "length (heartbeat_bytes hb) = 40"
  by (simp_all add: header_bytes_def hello_bytes_def welcome_bytes_def heartbeat_bytes_def)

lemma encode_header_poke:
  "roadcast_encode_header out h = poke 0 (header_bytes h) out"
  by (simp add: roadcast_encode_header_def header_bytes_def layout)

lemma encode_hello_poke:
  "roadcast_encode_hello out
     = map_option (Pair 8) (poke 0 (hello_bytes ROADCAST_PROTOCOL_VERSION ROADCAST_PROTOCOL_VERSION 3) out)"
  by (simp add: roadcast_encode_hello_def hello_bytes_def layout map_option_bind)

lemma encode_welcome_poke:
  "roadcast_encode_welcome out w = map_option (Pair 36) (poke 0 (welcome_bytes w) out)"
  by (simp add: roadcast_encode_welcome_def welcome_bytes_def layout map_option_bind)

lemma encode_index_request_poke:
  "roadcast_encode_index_request out i = map_option (Pair 4) (poke 0 (be32 i) out)"
  by (simp add: roadcast_encode_index_request_def layout map_option_bind)

lemma encode_heartbeat_poke:
  "roadcast_encode_heartbeat out hb = map_option (Pair 40) (poke 0 (heartbeat_bytes hb) out)"
  by (simp add: roadcast_encode_heartbeat_def heartbeat_bytes_def layout map_option_bind)

section \<open>Decoders: safety, round trip, unique representation\<close>

lemma decode_header_safe:
  "length p = ROADCAST_HEADER_SIZE \<Longrightarrow> \<exists>r. roadcast_decode_header p = Some r"
  by (simp add: roadcast_decode_header_def get_slice slice_Some)

lemma decode_header_bytes:
  "roadcast_decode_header (header_bytes h @ rest)
     = Some (if unat (h_payload_bytes h) > ROADCAST_MAX_PAYLOAD then Fail else Ok h)"
  by (simp add: roadcast_decode_header_def header_bytes_def get_slice slice_Some)

lemma header_bytes_decode:
  assumes "roadcast_decode_header p = Some (Ok h)" and "length p = ROADCAST_HEADER_SIZE"
  shows "header_bytes h = p \<and> unat (h_payload_bytes h) \<le> ROADCAST_MAX_PAYLOAD"
proof -
  have m: "of_be32 (take 4 p) = ROADCAST_MAGIC"
    using assms by (auto simp: roadcast_decode_header_def get_slice slice_Some split: if_splits)
  have "be32 ROADCAST_MAGIC = take 4 (drop 0 p)"
    using assms(2) by (simp flip: m)
  then show ?thesis
    using assms
    by (auto simp: roadcast_decode_header_def header_bytes_def get_slice slice_Some join
        split: if_splits)
qed

lemma decode_hello_bytes:
  "roadcast_decode_hello (hello_bytes lo hi caps) = Some (Ok (lo, hi, caps))"
  by (simp add: roadcast_decode_hello_def) (simp add: hello_bytes_def get_slice slice_Some)

lemma hello_bytes_decode:
  "roadcast_decode_hello p = Some (Ok (lo, hi, caps)) \<Longrightarrow> p = hello_bytes lo hi caps"
  by (auto simp: roadcast_decode_hello_def hello_bytes_def get_slice slice_Some join split: if_splits)

lemma decode_welcome_bytes:
  "roadcast_decode_welcome (welcome_bytes w) = Some (Ok w)"
  by (simp add: roadcast_decode_welcome_def) (simp add: welcome_bytes_def get_slice slice_Some)

lemma welcome_decode:
  "roadcast_decode_welcome p = Some (Ok w) \<Longrightarrow> p = welcome_bytes w"
  by (auto simp: roadcast_decode_welcome_def welcome_bytes_def get_slice slice_Some join split: if_splits)

lemma decode_index_request_bytes:
  "roadcast_decode_index_request (be32 i) = Some (Ok i)"
  by (simp add: roadcast_decode_index_request_def get_slice slice_Some)

lemma index_request_decode:
  "roadcast_decode_index_request p = Some (Ok i) \<Longrightarrow> p = be32 i"
  by (auto simp: roadcast_decode_index_request_def get_slice slice_Some split: if_splits)

lemma decode_heartbeat_bytes:
  "hb_source_state hb \<le> ROADCAST_SOURCE_STATE_DEGRADED \<Longrightarrow>
     roadcast_decode_heartbeat (heartbeat_bytes hb) = Some (Ok hb)"
  by (simp add: roadcast_decode_heartbeat_def)
     (simp add: heartbeat_bytes_def get_slice slice_Some rd_def nth_append)

lemma heartbeat_decode:
  assumes "roadcast_decode_heartbeat p = Some (Ok hb)"
  shows "p = heartbeat_bytes hb \<and> hb_source_state hb \<le> ROADCAST_SOURCE_STATE_DEGRADED"
proof -
  from assms have len: "length p = 40"
    by (auto simp: roadcast_decode_heartbeat_def split: if_splits)
  have "drop 36 p = [p ! 36, p ! 37, p ! 38, p ! 39]"
    using len by (simp add: Cons_nth_drop_Suc [symmetric])
  moreover have "p = take 36 p @ drop 36 p"
    by simp
  ultimately have tail: "p = take 36 p @ [p ! 36, p ! 37, p ! 38, p ! 39]"
    by metis
  show ?thesis
    using assms tail
    by (auto simp: roadcast_decode_heartbeat_def heartbeat_bytes_def get_slice slice_Some rd_def len
        join not_less split: if_splits)
qed

lemma small_decoders_safe:
  "\<exists>r. roadcast_decode_hello p = Some r" "\<exists>r. roadcast_decode_welcome p = Some r"
  "\<exists>r. roadcast_decode_index_request p = Some r" "\<exists>r. roadcast_decode_heartbeat p = Some r"
  by (simp_all add: roadcast_decode_hello_def roadcast_decode_welcome_def
      roadcast_decode_index_request_def roadcast_decode_heartbeat_def get_slice slice_Some rd_def)

section \<open>Properties\<close>

text \<open>
  C26: The header codec is exact.  A 32-byte buffer decodes to a header if and only if encoding that header
  produces the buffer and its payload length is within the protocol limit: every header round-trips, no two
  buffers decode to the same header, and nothing else (wrong magic, oversized payload) is accepted.
\<close>

theorem header_codec_exact:
  assumes "length p = ROADCAST_HEADER_SIZE"
  shows "roadcast_decode_header p = Some (Ok h) \<longleftrightarrow>
    roadcast_encode_header (replicate ROADCAST_HEADER_SIZE 0) h = Some p
    \<and> unat (h_payload_bytes h) \<le> ROADCAST_MAX_PAYLOAD"
  using assms header_bytes_decode [of p h] decode_header_bytes [of h "[]"]
  by (auto simp: encode_header_poke poke_Some)

theorem header_codec_exact_witness:
  "roadcast_decode_header (header_bytes \<lparr>h_version = 3, h_type = 1, h_flags = 0, h_payload_bytes = 8,
      h_sequence = 7, h_timestamp_ns = 9\<rparr>)
    = Some (Ok \<lparr>h_version = 3, h_type = 1, h_flags = 0, h_payload_bytes = 8, h_sequence = 7, h_timestamp_ns = 9\<rparr>)"
  by (subst header_codec_exact) (simp_all add: encode_header_poke poke_Some)

text \<open>
  C27: HELLO, WELCOME, index requests and HEARTBEAT survive the wire: what an encoder writes at the start of
  any buffer that is large enough decodes to the same fields, and the encoder leaves the rest of the buffer
  alone.  A HEARTBEAT needs a source state that the protocol defines.
\<close>

theorem small_messages_roundtrip:
  assumes "64 \<le> length out" and "hb_source_state hb \<le> ROADCAST_SOURCE_STATE_DEGRADED"
  shows "(\<exists>n o1. roadcast_encode_hello out = Some (n, o1) \<and> drop n o1 = drop n out
      \<and> roadcast_decode_hello (take n o1) = Some (Ok (ROADCAST_PROTOCOL_VERSION, ROADCAST_PROTOCOL_VERSION,
          ROADCAST_CAP_RAW_CAN OR ROADCAST_CAP_DECODED_CAN)))
    \<and> (\<exists>n o1. roadcast_encode_welcome out w = Some (n, o1) \<and> drop n o1 = drop n out
      \<and> roadcast_decode_welcome (take n o1) = Some (Ok w))
    \<and> (\<exists>n o1. roadcast_encode_index_request out i = Some (n, o1) \<and> drop n o1 = drop n out
      \<and> roadcast_decode_index_request (take n o1) = Some (Ok i))
    \<and> (\<exists>n o1. roadcast_encode_heartbeat out hb = Some (n, o1) \<and> drop n o1 = drop n out
      \<and> roadcast_decode_heartbeat (take n o1) = Some (Ok hb))"
  using assms
  by (simp add: encode_hello_poke encode_welcome_poke encode_index_request_poke encode_heartbeat_poke
      poke_Some decode_hello_bytes decode_welcome_bytes decode_index_request_bytes decode_heartbeat_bytes)

theorem small_messages_roundtrip_witness:
  "\<exists>n o1. roadcast_encode_heartbeat (replicate 64 0) \<lparr>hb_sample_sequence = 5, hb_change_sequence = 4,
      hb_dropped_batches = 3, hb_coalesced_samples = 2, hb_effective_hz_millihz = 20000, hb_source_state = 2\<rparr>
        = Some (n, o1) \<and> drop n o1 = drop n (replicate 64 0)
      \<and> roadcast_decode_heartbeat (take n o1) = Some (Ok \<lparr>hb_sample_sequence = 5, hb_change_sequence = 4,
      hb_dropped_batches = 3, hb_coalesced_samples = 2, hb_effective_hz_millihz = 20000, hb_source_state = 2\<rparr>)"
  using small_messages_roundtrip [of "replicate 64 0"] by simp

end
