(* ===== verification/Client_Io.thy ===== *)
theory Client_Io
  imports Posix Protocol
begin

text \<open>
  The socket of the client library, the first part of \<^verbatim>\<open>src/client.c\<close>: waiting for a descriptor, writing and
  reading a number of bytes before a deadline, and connecting.

  The socket, the clock and the allocator are the parameter \<open>net\<close>; its answers are indexed by the number of calls
  made so far, so that every behaviour of the daemon and of the system is some \<open>net\<close>.  \<open>n_stop\<close> is the stop flag,
  which another thread sets.  A loop that does not return
  is \<^const>\<open>None\<close>, as is undefined behaviour.

  The lemmas: whatever the peer does, every operation returns, and reading gives either all the bytes asked for or a
  failure.
\<close>

record net =
  n_clock :: "nat \<Rightarrow> u64"
  n_alloc :: "nat \<Rightarrow> bool"
  n_socket :: "nat \<Rightarrow> int"
  n_fcntl :: "nat \<Rightarrow> int"
  n_connect :: "nat \<Rightarrow> bytes \<Rightarrow> nat \<Rightarrow> int \<times> int"
  n_so_error :: "nat \<Rightarrow> int \<times> int"
  n_poll :: "nat \<Rightarrow> u16 \<Rightarrow> int \<Rightarrow> int \<times> int \<times> u16"
  n_send :: "nat \<Rightarrow> bytes \<Rightarrow> int \<times> int"
  n_recv :: "nat \<Rightarrow> nat \<Rightarrow> int \<times> int \<times> bytes"
  n_thread :: "nat \<Rightarrow> bool"
  n_stop :: "nat \<Rightarrow> bool"

abbreviation (input) CLIENT_READ_TIMEOUT_MS :: u64 where "CLIENT_READ_TIMEOUT_MS \<equiv> 3000"
abbreviation (input) CLIENT_SETUP_TIMEOUT_MS :: u64 where "CLIENT_SETUP_TIMEOUT_MS \<equiv> 10000"
abbreviation (input) POLLIN :: u16 where "POLLIN \<equiv> 1"
abbreviation (input) POLLOUT :: u16 where "POLLOUT \<equiv> 4"
abbreviation (input) POLLERR :: u16 where "POLLERR \<equiv> 8"
abbreviation (input) POLLHUP :: u16 where "POLLHUP \<equiv> 16"
abbreviation (input) POLLNVAL :: u16 where "POLLNVAL \<equiv> 32"

section \<open>Operations\<close>

text \<open>
  The address as the bytes of \<^verbatim>\<open>sun_path\<close>, 108 of them, and the length of the address, in which \<^verbatim>\<open>sun_path\<close> is at
  offset 2.  The name is the string without its NUL; 64 is the character \<^verbatim>\<open>@\<close>.
\<close>

definition fill_unix_address :: "bytes \<Rightarrow> (bytes \<times> nat) option" where
  "fill_unix_address name = (let address = replicate 108 (0 :: u8); len = length name in
     if len = 0 \<or> len \<ge> length address then Some (address, 0)
     else do {
       c \<leftarrow> rd name 0;
       if c = 64 then do {
         address \<leftarrow> poke 0 [0] address;
         rest \<leftarrow> slice name 1 (len - 1);
         address \<leftarrow> poke 1 rest address;
         Some (address, 2 + len) }
       else do {
         address \<leftarrow> poke 0 (name @ [0]) address;
         Some (address, 2 + len + 1) } })"

definition set_nonblocking :: "net \<Rightarrow> nat \<Rightarrow> bool \<times> nat" where
  "set_nonblocking net n = (let flags = n_fcntl net n in
     if flags < 0 then (False, Suc n) else (n_fcntl net (Suc n) \<ge> 0, Suc (Suc n)))"

partial_function (option) wait_descriptor :: "net \<Rightarrow> u16 \<Rightarrow> u64 \<Rightarrow> nat \<Rightarrow> (bool \<times> nat) option" where
  "wait_descriptor net events deadline_ns n = (let now = n_clock net n in
     if now \<ge> deadline_ns then Some (False, Suc n)
     else let timeout_ms = sint (ucast ((deadline_ns - now + 999999) div 1000000) :: 32 word) in
       if timeout_ms \<le> 0 then Some (False, Suc n)
       else (case n_poll net (Suc n) events timeout_ms of (result, errno, revents) \<Rightarrow>
         if result > 0 then
           (if events AND POLLIN \<noteq> 0 then
              (if revents AND POLLIN \<noteq> 0 then Some (True, Suc (Suc n))
               else if revents AND (POLLERR OR POLLHUP OR POLLNVAL) \<noteq> 0 then Some (False, Suc (Suc n))
               else Some (True, Suc (Suc n)))
            else if events AND POLLOUT \<noteq> 0 then
              (if revents AND POLLOUT \<noteq> 0 then Some (True, Suc (Suc n))
               else if revents AND (POLLERR OR POLLHUP OR POLLNVAL) \<noteq> 0 then Some (False, Suc (Suc n))
               else Some (True, Suc (Suc n)))
            else Some (True, Suc (Suc n)))
         else if result < 0 then
           (if errno = EINTR then wait_descriptor net events deadline_ns (Suc (Suc n)) else Some (False, Suc (Suc n)))
         else Some (False, Suc (Suc n))))"

definition connect_socket :: "net \<Rightarrow> bytes \<Rightarrow> u64 \<Rightarrow> nat \<Rightarrow> (int \<times> nat) option" where
  "connect_socket net socket_name deadline_ns n = (let fd = n_socket net n; n = Suc n in
     if fd < 0 then Some (- 1, n)
     else (case set_nonblocking net n of (ok, n) \<Rightarrow>
       if \<not> ok then Some (- 1, n)
       else do {
         (address, len) \<leftarrow> fill_unix_address socket_name;
         if len = 0 then Some (- 1, n)
         else (case n_connect net n address len of (rc, errno) \<Rightarrow>
           if rc < 0 then
             (if errno = EINPROGRESS \<or> errno = EAGAIN then do {
                (ready, n) \<leftarrow> wait_descriptor net POLLOUT deadline_ns (Suc n);
                if \<not> ready then Some (- 1, n)
                else (case n_so_error net n of (result, so_error) \<Rightarrow>
                  if result < 0 \<or> so_error \<noteq> 0 then Some (- 1, Suc n) else Some (fd, Suc n)) }
              else Some (- 1, Suc n))
           else Some (fd, Suc n)) }))"

partial_function (option) write_all :: "net \<Rightarrow> bytes \<Rightarrow> u64 \<Rightarrow> nat \<Rightarrow> (bool \<times> nat) option" where
  "write_all net data deadline_ns n = (if data = [] then Some (True, n)
     else (case n_send net n data of (written, errno) \<Rightarrow>
       if written > 0 then write_all net (drop (nat written) data) deadline_ns (Suc n)
       else if written < 0 then
         (if errno = EINTR then write_all net data deadline_ns (Suc n)
          else if errno = EAGAIN then do {
            (ready, n) \<leftarrow> wait_descriptor net POLLOUT deadline_ns (Suc n);
            if ready then write_all net data deadline_ns n else Some (False, n) }
          else Some (False, Suc n))
       else Some (False, Suc n)))"

text \<open>The bytes read so far are the third argument; they are in the output buffer also after a failure.\<close>

partial_function (option) read_exact :: "net \<Rightarrow> nat \<Rightarrow> bytes \<Rightarrow> u64 \<Rightarrow> nat \<Rightarrow> (bool \<times> bytes \<times> nat) option" where
  "read_exact net len got deadline_ns n = (if length got \<ge> len then Some (True, got, n)
     else (case n_recv net n (len - length got) of (count, errno, data) \<Rightarrow>
       if count > 0 then read_exact net len (got @ data) deadline_ns (Suc n)
       else if count = 0 then Some (False, got, Suc n)
       else if errno = EINTR then read_exact net len got deadline_ns (Suc n)
       else if errno = EAGAIN then do {
         (ready, n) \<leftarrow> wait_descriptor net POLLIN deadline_ns (Suc n);
         if ready then read_exact net len got deadline_ns n else Some (False, got, n) }
       else Some (False, got, Suc n)))"

section \<open>What the system guarantees\<close>

text \<open>
  A call transfers no more than it was asked to, no call is interrupted for ever, and time passes every deadline.
  Nothing is assumed of the peer.
\<close>

definition net_ok :: "net \<Rightarrow> bool" where
  "net_ok net \<longleftrightarrow> (\<forall>n len. case n_recv net n len of (count, errno, data) \<Rightarrow> 0 < count \<longrightarrow> length data = nat count \<and> length data \<le> len)
     \<and> (\<forall>n len. \<exists>k. fst (snd (n_recv net (n + k) len)) \<noteq> EINTR)
     \<and> (\<forall>n data. \<exists>k. snd (n_send net (n + k) data) \<noteq> EINTR)
     \<and> (\<forall>d. \<exists>N. \<forall>n \<ge> N. d \<le> n_clock net n)"

lemma net_okD:
  assumes "net_ok net"
  shows "\<exists>k. fst (snd (n_recv net (n + k) len)) \<noteq> EINTR" and "\<exists>k. snd (n_send net (n + k) data) \<noteq> EINTR"
    and "\<exists>N. \<forall>n \<ge> N. d \<le> n_clock net n"
  using assms unfolding net_ok_def by blast+

lemma net_ok_recv:
  assumes "net_ok net" and "n_recv net n len = (count, errno, data)" and "0 < count"
  shows "data \<noteq> [] \<and> length data \<le> len"
proof -
  have "case n_recv net n len of (count, errno, data) \<Rightarrow> 0 < count \<longrightarrow> length data = nat count \<and> length data \<le> len"
    using assms(1) unfolding net_ok_def by (elim conjE) (drule spec, drule spec, assumption)
  with assms(2,3) show ?thesis by (cases data) auto
qed

text \<open>From some call on nothing more arrives.\<close>

definition quiet_from :: "net \<Rightarrow> nat \<Rightarrow> bool" where
  "quiet_from net N \<longleftrightarrow> (\<forall>n \<ge> N. \<forall>len. fst (n_recv net n len) \<le> 0)"

lemma quiet_from_later: "quiet_from net N \<Longrightarrow> N \<le> n \<Longrightarrow> quiet_from net n"
  by (simp add: quiet_from_def)

lemma wait_branches:
  assumes "P x" and "P y" and "\<not> a \<Longrightarrow> P t" and "\<not> a \<Longrightarrow> P w"
  shows "P (if a then x else if b then x
    else if c then (if d then (if e then t else if f then y else t) else if d' then (if e' then t else if f then y else t) else t)
    else if r then (if i then w else y) else y)"
  using assms by (simp split: if_split)

lemma wait_descriptor_cases:
  obtains (stop) m where "wait_descriptor net events deadline n = Some (False, m)" and "n < m"
  | (ready) "wait_descriptor net events deadline n = Some (True, Suc (Suc n))" and "n_clock net n < deadline"
  | (again) "wait_descriptor net events deadline n = wait_descriptor net events deadline (Suc (Suc n))"
      and "n_clock net n < deadline"
proof -
  define timeout where "timeout = sint (ucast ((deadline - n_clock net n + 999999) div 1000000) :: 32 word)"
  obtain result errno revents where p: "n_poll net (Suc n) events timeout = (result, errno, revents)"
    by (metis surj_pair)
  let ?P = "\<lambda>w. (\<exists>m > n. w = Some (False, m)) \<or> w = Some (True, Suc (Suc n)) \<and> \<not> deadline \<le> n_clock net n
    \<or> w = wait_descriptor net events deadline (Suc (Suc n)) \<and> \<not> deadline \<le> n_clock net n"
  have "?P (wait_descriptor net events deadline n)"
    unfolding wait_descriptor.simps [of net events deadline n] Let_def timeout_def [symmetric] p prod.case
    by (rule wait_branches [where P = ?P]) auto
  then show thesis using stop ready again by (meson not_le)
qed

text \<open>Waiting ends, and a descriptor is ready only before the deadline.\<close>

lemma wait_descriptor_run:
  assumes "net_ok net"
  obtains ready m where "wait_descriptor net events deadline n = Some (ready, m)" and "n < m"
    and "ready \<longrightarrow> (\<exists>c \<ge> n. n_clock net c < deadline)"
proof -
  obtain N where N: "\<forall>n \<ge> N. deadline \<le> n_clock net n" using net_okD(3) [OF assms] by blast
  have "\<exists>ready m. wait_descriptor net events deadline n = Some (ready, m) \<and> n < m
      \<and> (ready \<longrightarrow> (\<exists>c \<ge> n. n_clock net c < deadline))"
  proof (induction "N - n" arbitrary: n rule: less_induct)
    case less
    show ?case
    proof (cases rule: wait_descriptor_cases [of net events deadline n])
      case (stop m)
      then show ?thesis by blast
    next
      case ready
      then show ?thesis by auto
    next
      case again
      then have "\<not> N \<le> n" using N by (meson not_le)
      then have "N - Suc (Suc n) < N - n" by simp
      from less [OF this] again show ?thesis by auto
    qed
  qed
  with that show thesis by blast
qed

lemma write_all_step:
  assumes "data \<noteq> []" and "n_send net n data = (written, errno)"
  shows "write_all net data deadline n = (if written > 0 then write_all net (drop (nat written) data) deadline (Suc n)
    else if written < 0 \<and> errno = EINTR then write_all net data deadline (Suc n)
    else if written < 0 \<and> errno = EAGAIN then Option.bind (wait_descriptor net POLLOUT deadline (Suc n))
      (\<lambda>(ready, n). if ready then write_all net data deadline n else Some (False, n))
    else Some (False, Suc n))"
  by (subst write_all.simps) (simp add: assms)

lemma read_exact_step:
  assumes "length got < len" and "n_recv net n (len - length got) = (count, errno, data)"
  shows "read_exact net len got deadline n = (if count > 0 then read_exact net len (got @ data) deadline (Suc n)
    else if count < 0 \<and> errno = EINTR then read_exact net len got deadline (Suc n)
    else if count < 0 \<and> errno = EAGAIN then Option.bind (wait_descriptor net POLLIN deadline (Suc n))
      (\<lambda>(ready, n). if ready then read_exact net len got deadline n else Some (False, got, n))
    else Some (False, got, Suc n))"
  using assms(1) by (subst read_exact.simps) (simp add: assms(2))

text \<open>
  Both loops repeat a call until it makes progress.  A repetition that goes on only at an interrupted call, or before
  the deadline, comes to an end.
\<close>

lemma repetition_ends:
  assumes "\<And>n. Q n \<or> interrupted n \<and> (Q (Suc n) \<longrightarrow> Q n) \<or> n < (N :: nat) \<and> (\<exists>k > n. Q k \<longrightarrow> Q n)"
    and "\<And>n. \<exists>k. \<not> interrupted (n + k)"
  shows "Q n"
proof -
  have late: "Q n" if "N \<le> n" for n
  proof -
    obtain k where "\<not> interrupted (n + k)" using assms(2) by blast
    then show ?thesis using that
    proof (induction k arbitrary: n)
      case 0
      then show ?case using assms(1) [of n] by auto
    next
      case (Suc k)
      then have "Q (Suc n)" by simp
      with Suc.prems show ?case using assms(1) [of n] by auto
    qed
  qed
  show ?thesis
  proof (induction "N - n" arbitrary: n rule: less_induct)
    case less
    have "Q k" if "n < k" for k
      using late [of k] less [of k] that by (cases "N \<le> k") auto
    then show ?case using assms(1) [of n] by auto
  qed
qed

text \<open>One round of each loop: it fails, or it makes progress.\<close>

definition write_round :: "net \<Rightarrow> bytes \<Rightarrow> u64 \<Rightarrow> nat \<Rightarrow> (bool \<times> nat) option \<Rightarrow> bool" where
  "write_round net data deadline n w \<longleftrightarrow> (\<exists>m > n. w = Some (False, m))
     \<or> (\<exists>k m. n < m \<and> 0 < k \<and> w = write_all net (drop k data) deadline m)"

definition read_round :: "net \<Rightarrow> nat \<Rightarrow> bytes \<Rightarrow> u64 \<Rightarrow> nat \<Rightarrow> (bool \<times> bytes \<times> nat) option \<Rightarrow> bool" where
  "read_round net len got deadline n w \<longleftrightarrow> (\<exists>m > n. w = Some (False, got, m))
     \<or> (\<exists>data m. n < m \<and> \<not> quiet_from net n \<and> data \<noteq> [] \<and> length (got @ data) \<le> len
         \<and> w = read_exact net len (got @ data) deadline m)"

lemma write_round_stop: "n < m \<Longrightarrow> write_round net data deadline n (Some (False, m))"
  unfolding write_round_def by blast

lemma read_round_stop: "n < m \<Longrightarrow> read_round net len got deadline n (Some (False, got, m))"
  unfolding read_round_def by blast

lemma write_round_earlier: "write_round net data deadline k w \<Longrightarrow> n < k \<Longrightarrow> write_round net data deadline n w"
  using less_trans [of n k] unfolding write_round_def by blast

lemma read_round_earlier: "read_round net len got deadline k w \<Longrightarrow> n < k \<Longrightarrow> read_round net len got deadline n w"
  using less_trans [of n k] quiet_from_later [of net n k] unfolding read_round_def by (metis less_imp_le)

lemma ready_before:
  assumes "\<forall>n \<ge> N. deadline \<le> n_clock net n" and "\<exists>c \<ge> Suc n. n_clock net c < deadline"
  shows "n < N"
  using assms by (meson not_le Suc_le_lessD less_trans)

lemma write_all_round:
  assumes net: "net_ok net" and data: "data \<noteq> []"
  shows "write_round net data deadline n (write_all net data deadline n)" (is "?Q n")
proof -
  obtain N where N: "\<forall>n \<ge> N. deadline \<le> n_clock net n" using net_okD(3) [OF net] by blast
  show ?thesis
  proof (rule repetition_ends [where N = N and interrupted = "\<lambda>n. snd (n_send net n data) = EINTR"])
    fix n
    obtain written errno where w: "n_send net n data = (written, errno)" by fastforce
    note step = write_all_step [OF data w, of deadline]
    obtain ready k where r: "wait_descriptor net POLLOUT deadline (Suc n) = Some (ready, k)" "Suc n < k"
        "ready \<longrightarrow> (\<exists>c \<ge> Suc n. n_clock net c < deadline)"
      by (rule wait_descriptor_run [OF net])
    have k: "n < k" using r(2) by simp
    consider (progress) "written > 0" | (again) "written < 0" "errno = EINTR"
      | (ready) "written < 0" "errno = EAGAIN" ready | (wait) "written < 0" "errno = EAGAIN" "\<not> ready"
      | (stop) "\<not> written > 0" "\<not> (written < 0 \<and> errno = EINTR)" "\<not> (written < 0 \<and> errno = EAGAIN)"
      by blast
    then show "?Q n \<or> snd (n_send net n data) = EINTR \<and> (?Q (Suc n) \<longrightarrow> ?Q n) \<or> n < N \<and> (\<exists>k > n. ?Q k \<longrightarrow> ?Q n)"
    proof cases
      case progress
      then have "write_all net data deadline n = write_all net (drop (nat written) data) deadline (Suc n)" "0 < nat written"
        unfolding step by simp_all
      then have "?Q n" unfolding write_round_def by blast
      then show ?thesis ..
    next
      case again
      then have "write_all net data deadline n = write_all net data deadline (Suc n)" unfolding step by simp
      with again w write_round_earlier [OF _ lessI] show ?thesis by simp
    next
      case ready
      then have "write_all net data deadline n = write_all net data deadline k" unfolding step r(1) by simp
      then have "?Q k \<longrightarrow> ?Q n" using write_round_earlier [OF _ k] by simp
      moreover have "n < N" using ready_before [OF N] r(3) ready(3) by blast
      ultimately show ?thesis using k by blast
    next
      case wait
      then have "write_all net data deadline n = Some (False, k)" unfolding step r(1) by simp
      then show ?thesis using write_round_stop [OF k] by simp
    next
      case stop
      then have "write_all net data deadline n = Some (False, Suc n)" unfolding step by (simp only: if_False)
      then show ?thesis using write_round_stop [OF lessI] by simp
    qed
  qed (rule net_okD(2) [OF net])
qed

lemma read_exact_round:
  assumes net: "net_ok net" and short: "length got < len"
  shows "read_round net len got deadline n (read_exact net len got deadline n)" (is "?Q n")
proof -
  obtain N where N: "\<forall>n \<ge> N. deadline \<le> n_clock net n" using net_okD(3) [OF net] by blast
  let ?recv = "\<lambda>n. n_recv net n (len - length got)"
  show ?thesis
  proof (rule repetition_ends [where N = N and interrupted = "\<lambda>n. fst (snd (?recv n)) = EINTR"])
    fix n
    obtain count errno data where c: "?recv n = (count, errno, data)" by (metis surj_pair)
    note step = read_exact_step [OF short c, of deadline]
    obtain ready k where r: "wait_descriptor net POLLIN deadline (Suc n) = Some (ready, k)" "Suc n < k"
        "ready \<longrightarrow> (\<exists>c \<ge> Suc n. n_clock net c < deadline)"
      by (rule wait_descriptor_run [OF net])
    have k: "n < k" using r(2) by simp
    consider (progress) "count > 0" | (again) "count < 0" "errno = EINTR"
      | (ready) "count < 0" "errno = EAGAIN" ready | (wait) "count < 0" "errno = EAGAIN" "\<not> ready"
      | (stop) "\<not> count > 0" "\<not> (count < 0 \<and> errno = EINTR)" "\<not> (count < 0 \<and> errno = EAGAIN)"
      by blast
    then show "?Q n \<or> fst (snd (?recv n)) = EINTR \<and> (?Q (Suc n) \<longrightarrow> ?Q n) \<or> n < N \<and> (\<exists>k > n. ?Q k \<longrightarrow> ?Q n)"
    proof cases
      case progress
      have d: "data \<noteq> []" "length (got @ data) \<le> len"
        using net_ok_recv [OF net c progress] short by auto
      have "\<not> quiet_from net n"
        using progress c unfolding quiet_from_def by (metis fst_conv not_le order_refl)
      moreover have "read_exact net len got deadline n = read_exact net len (got @ data) deadline (Suc n)"
        unfolding step using progress by simp
      ultimately have "?Q n" using d unfolding read_round_def by blast
      then show ?thesis ..
    next
      case again
      then have "read_exact net len got deadline n = read_exact net len got deadline (Suc n)" unfolding step by simp
      with again c read_round_earlier [OF _ lessI] show ?thesis by simp
    next
      case ready
      then have "read_exact net len got deadline n = read_exact net len got deadline k" unfolding step r(1) by simp
      then have "?Q k \<longrightarrow> ?Q n" using read_round_earlier [OF _ k] by simp
      moreover have "n < N" using ready_before [OF N] r(3) ready(3) by blast
      ultimately show ?thesis using k by blast
    next
      case wait
      then have "read_exact net len got deadline n = Some (False, got, k)" unfolding step r(1) by simp
      then show ?thesis using read_round_stop [OF k] by simp
    next
      case stop
      then have "read_exact net len got deadline n = Some (False, got, Suc n)" unfolding step by (simp only: if_False)
      then show ?thesis using read_round_stop [OF lessI] by simp
    qed
  qed (rule net_okD(1) [OF net])
qed

lemma write_all_run:
  assumes net: "net_ok net"
  obtains ok m where "write_all net data deadline n = Some (ok, m)" and "n \<le> m"
proof -
  have "\<exists>ok m. write_all net data deadline n = Some (ok, m) \<and> n \<le> m"
  proof (induction data arbitrary: n rule: length_induct)
    case (1 data)
    show ?case
    proof (cases "data = []")
      case True
      then have "write_all net data deadline n = Some (True, n)" by (subst write_all.simps) simp
      then show ?thesis by blast
    next
      case False
      have "length (drop k data) < length data" if "0 < k" for k using that False by (cases data) auto
      then show ?thesis
        using write_all_round [OF net False, of deadline n] 1 unfolding write_round_def
        by (elim disjE exE conjE) (blast intro: less_imp_le, metis less_imp_le order_trans)
    qed
  qed
  with that show thesis by blast
qed

text \<open>Reading gives all the bytes or reports a failure; bytes come only from a peer that is not yet quiet.\<close>

lemma read_exact_run:
  assumes net: "net_ok net" and len: "length got \<le> len"
  obtains ok tail m where "read_exact net len got deadline n = Some (ok, got @ tail, m)" and "n \<le> m"
    and "length (got @ tail) \<le> len" and "ok \<longleftrightarrow> length (got @ tail) = len"
    and "tail \<noteq> [] \<longrightarrow> n < m \<and> \<not> quiet_from net n"
proof -
  have "\<exists>ok tail m. read_exact net len got deadline n = Some (ok, got @ tail, m) \<and> n \<le> m \<and> length (got @ tail) \<le> len
      \<and> (ok \<longleftrightarrow> length (got @ tail) = len) \<and> (tail \<noteq> [] \<longrightarrow> n < m \<and> \<not> quiet_from net n)"
    using len
  proof (induction "len - length got" arbitrary: n got rule: less_induct)
    case less
    show ?case
    proof (cases "length got = len")
      case True
      then have "read_exact net len got deadline n = Some (True, got @ [], n)" by (subst read_exact.simps) simp
      with True show ?thesis by (intro exI [of _ True] exI [of _ "[]"] exI [of _ n]) simp
    next
      case False
      then have short: "length got < len" using less.prems by simp
      consider m where "n < m" "read_exact net len got deadline n = Some (False, got, m)"
        | data m where "n < m" "\<not> quiet_from net n" "data \<noteq> []" "length (got @ data) \<le> len"
          "read_exact net len got deadline n = read_exact net len (got @ data) deadline m"
        using read_exact_round [OF net short, of deadline n] unfolding read_round_def by blast
      then show ?thesis
      proof cases
        case 1
        then show ?thesis using short by (intro exI [of _ False] exI [of _ "[]"] exI [of _ m]) simp
      next
        case (2 data m)
        have "len - length (got @ data) < len - length got" using 2(3) short by (cases data) auto
        from less.hyps [OF this 2(4), of m] obtain ok tail k where
          "read_exact net len (got @ data) deadline m = Some (ok, (got @ data) @ tail, k)" "m \<le> k"
          "length ((got @ data) @ tail) \<le> len" "ok \<longleftrightarrow> length ((got @ data) @ tail) = len" by blast
        with 2 show ?thesis by (intro exI [of _ ok] exI [of _ "data @ tail"] exI [of _ k]) simp
      qed
    qed
  qed
  with that show thesis by blast
qed

lemma fill_unix_address_safe:
  "\<exists>address len. fill_unix_address name = Some (address, len) \<and> length address = 108
    \<and> (len = 0 \<longleftrightarrow> name = [] \<or> 108 \<le> length name)"
proof -
  define address where "address = replicate 108 (0 :: u8)"
  have a: "length address = 108" by (simp add: address_def)
  have fill: "fill_unix_address name = (if length name = 0 \<or> length name \<ge> length address then Some (address, 0)
     else do {
       c \<leftarrow> rd name 0;
       if c = 64 then do {
         address \<leftarrow> poke 0 [0] address;
         rest \<leftarrow> slice name 1 (length name - 1);
         address \<leftarrow> poke 1 rest address;
         Some (address, 2 + length name) }
       else do {
         address \<leftarrow> poke 0 (name @ [0]) address;
         Some (address, 2 + length name + 1) } })"
    by (simp only: fill_unix_address_def Let_def address_def)
  show ?thesis
  proof (cases "length name = 0 \<or> length name \<ge> 108")
    case True
    then show ?thesis unfolding fill using a by auto
  next
    case False
    then show ?thesis
      unfolding fill using a by (cases name) (auto simp: rd_Some slice_Some poke_Some)
  qed
qed

lemma connect_socket_run:
  assumes net: "net_ok net"
  obtains fd m where "connect_socket net name deadline n = Some (fd, m)" and "n < m"
proof -
  obtain address len where a: "fill_unix_address name = Some (address, len)" using fill_unix_address_safe by blast
  obtain ok k where s: "set_nonblocking net (Suc n) = (ok, k)" by fastforce
  then have k: "n < k" by (auto simp: set_nonblocking_def Let_def split: if_splits)
  obtain rc errno where c: "n_connect net k address len = (rc, errno)" by fastforce
  obtain ready j where w: "wait_descriptor net POLLOUT deadline (Suc k) = Some (ready, j)" "Suc k < j"
    by (rule wait_descriptor_run [OF net])
  obtain x y where so: "n_so_error net j = (x, y)" by fastforce
  have "\<exists>fd m. connect_socket net name deadline n = Some (fd, m) \<and> n < m"
    unfolding connect_socket_def Let_def s prod.case a Option.bind.simps c w(1) so
    using k w(2) by auto
  with that show thesis by blast
qed

end
