(* ===== verification/Batches.thy ===== *)
theory Batches
  imports Protocol
begin

text \<open>
  Frame and signal batches of \<^verbatim>\<open>src/protocol.c\<close>: a 20-byte prefix followed by fixed-width records.

  The two codecs share their structure.  The locale \<open>record_codec\<close> states what a record codec
  promises (width, safety, round trip, unique representation) and carries the argument from one
  record to a whole batch; it is interpreted on the frame record and on the signal record.
\<close>

section \<open>Frame batches\<close>

definition encode_frame_record :: "bytes \<Rightarrow> nat \<Rightarrow> roadcast_frame \<Rightarrow> bytes option" where
  "encode_frame_record out record frame = do {
     out \<leftarrow> put_u16 out record (f_can_id frame);
     out \<leftarrow> put_u8 out (record + 2) (f_state frame);
     out \<leftarrow> put_u8 out (record + 3) 0;
     out \<leftarrow> poke (record + 4) (f_data frame) out;
     out \<leftarrow> put_u64 out (record + 12) (f_first_observed_ns frame);
     put_u64 out (record + 20) (f_last_change_ns frame) }"

definition decode_frame_record :: "bytes \<Rightarrow> nat \<Rightarrow> roadcast_frame ret option" where
  "decode_frame_record payload record = do {
     st \<leftarrow> rd payload (record + 2);
     pad \<leftarrow> rd payload (record + 3);
     if st > ROADCAST_OBSERVATION_VALID \<or> pad \<noteq> 0 then Some Fail
     else do {
       can_id \<leftarrow> get_u16 payload record;
       dat \<leftarrow> slice payload (record + 4) 8;
       first_observed_ns \<leftarrow> get_u64 payload (record + 12);
       last_change_ns \<leftarrow> get_u64 payload (record + 20);
       Some (Ok \<lparr>f_can_id = can_id, f_state = st, f_data = dat,
         f_first_observed_ns = first_observed_ns, f_last_change_ns = last_change_ns\<rparr>) } }"

text \<open>The prefix and its checks are the same code in both batch codecs.\<close>

definition encode_batch_prefix :: "bytes \<Rightarrow> u64 \<Rightarrow> u32 \<Rightarrow> u32 \<Rightarrow> nat \<Rightarrow> bytes option" where
  "encode_batch_prefix out sample_sequence total_count start_index count = do {
     out \<leftarrow> put_u64 out 0 sample_sequence;
     out \<leftarrow> put_u32 out 8 total_count;
     out \<leftarrow> put_u32 out 12 start_index;
     out \<leftarrow> put_u16 out 16 (of_nat count);
     put_u16 out 18 0 }"

definition decode_batch_prefix :: "nat \<Rightarrow> bytes \<Rightarrow> nat \<Rightarrow> (u64 \<times> u32 \<times> u32 \<times> nat) ret option" where
  "decode_batch_prefix wire_size payload cap =
     (if length payload < ROADCAST_BATCH_PREFIX_SIZE then Some Fail
      else do {
        r18 \<leftarrow> rd payload 18;
        r19 \<leftarrow> rd payload 19;
        if r18 \<noteq> 0 \<or> r19 \<noteq> 0 then Some Fail
        else do {
          count16 \<leftarrow> get_u16 payload 16;
          let count = unat count16;
          if count > (SIZE_MAX - ROADCAST_BATCH_PREFIX_SIZE) div wire_size then Some Fail
          else if ROADCAST_BATCH_PREFIX_SIZE + count * wire_size \<noteq> length payload \<or> count > cap
          then Some Fail
          else do {
            sample_sequence \<leftarrow> get_u64 payload 0;
            total_count \<leftarrow> get_u32 payload 8;
            start_index \<leftarrow> get_u32 payload 12;
            if start_index \<noteq> UINT32_MAX \<and>
               (start_index > total_count \<or> count > unat (total_count - start_index))
            then Some Fail
            else Some (Ok (sample_sequence, total_count, start_index, count)) } } })"

text \<open>The record loop of the decoders: record \<open>i\<close> is decoded at \<open>base + i * w\<close> and appended.\<close>

definition decode_records ::
    "(bytes \<Rightarrow> nat \<Rightarrow> 'a ret option) \<Rightarrow> nat \<Rightarrow> bytes \<Rightarrow> nat \<Rightarrow> nat \<Rightarrow> 'a list ret option" where
  "decode_records dec w payload base count =
     for_ret 0 count (\<lambda>i acc. bindR (dec payload (base + i * w)) (\<lambda>x. Some (Ok (acc @ [x])))) []"

definition roadcast_encode_frame_batch ::
    "bytes \<Rightarrow> nat \<Rightarrow> u64 \<Rightarrow> u32 \<Rightarrow> u32 \<Rightarrow> roadcast_frame list \<Rightarrow> u16 list option \<Rightarrow> nat
      \<Rightarrow> (nat \<times> bytes) option" where
  "roadcast_encode_frame_batch out cap sample_sequence total_count start_index frames indices count =
     (if count > UINT16_MAX then Some (0, out)
      else if count > (SIZE_MAX - ROADCAST_BATCH_PREFIX_SIZE) div ROADCAST_FRAME_WIRE_SIZE
      then Some (0, out)
      else let needed = ROADCAST_BATCH_PREFIX_SIZE + count * ROADCAST_FRAME_WIRE_SIZE in
        if needed > cap then Some (0, out)
        else do {
          out \<leftarrow> encode_batch_prefix out sample_sequence total_count start_index count;
          out \<leftarrow> for_loop 0 count (\<lambda>i out. do {
            k \<leftarrow> (case indices of Some ix \<Rightarrow> map_option unat (rd ix i) | None \<Rightarrow> Some i);
            frame \<leftarrow> rd frames k;
            encode_frame_record out (ROADCAST_BATCH_PREFIX_SIZE + i * ROADCAST_FRAME_WIRE_SIZE) frame }) out;
          Some (needed, out) })"

definition roadcast_decode_frame_batch ::
    "bytes \<Rightarrow> nat \<Rightarrow> (u64 \<times> u32 \<times> u32 \<times> roadcast_frame list) ret option" where
  "roadcast_decode_frame_batch payload frame_cap =
     bindR (decode_batch_prefix ROADCAST_FRAME_WIRE_SIZE payload frame_cap)
       (\<lambda>(sample_sequence, total_count, start_index, count).
         bindR (decode_records decode_frame_record ROADCAST_FRAME_WIRE_SIZE payload
                  ROADCAST_BATCH_PREFIX_SIZE count)
           (\<lambda>frames. Some (Ok (sample_sequence, total_count, start_index, frames))))"

section \<open>Signal batches\<close>

definition encode_signal_record :: "bytes \<Rightarrow> nat \<Rightarrow> u32 \<Rightarrow> roadcast_signal_value \<Rightarrow> bytes option" where
  "encode_signal_record out record index v = do {
     out \<leftarrow> put_u32 out record index;
     out \<leftarrow> put_u8 out (record + 4) (sv_state v);
     out \<leftarrow> put_u8 out (record + 5) (if sv_calibrated v \<noteq> 0 then 1 else 0);
     out \<leftarrow> put_u16 out (record + 6) 0;
     out \<leftarrow> put_u64 out (record + 8) (sv_raw v);
     out \<leftarrow> put_double out (record + 16) (sv_physical v);
     out \<leftarrow> put_u64 out (record + 24) (sv_first_observed_ns v);
     put_u64 out (record + 32) (sv_last_change_ns v) }"

definition decode_signal_record :: "bytes \<Rightarrow> nat \<Rightarrow> roadcast_signal_update ret option" where
  "decode_signal_record payload record = do {
     st \<leftarrow> rd payload (record + 4);
     cal \<leftarrow> rd payload (record + 5);
     pad \<leftarrow> get_u16 payload (record + 6);
     if st > ROADCAST_OBSERVATION_INVALID \<or> cal > 1 \<or> pad \<noteq> 0 then Some Fail
     else do {
       index \<leftarrow> get_u32 payload record;
       raw \<leftarrow> get_u64 payload (record + 8);
       physical \<leftarrow> get_double payload (record + 16);
       first_observed_ns \<leftarrow> get_u64 payload (record + 24);
       last_change_ns \<leftarrow> get_u64 payload (record + 32);
       Some (Ok \<lparr>su_index = index, su_value = \<lparr>sv_raw = raw, sv_physical = physical,
         sv_first_observed_ns = first_observed_ns, sv_last_change_ns = last_change_ns,
         sv_state = st, sv_calibrated = cal\<rparr>\<rparr>) } }"

definition roadcast_encode_signal_batch ::
    "bytes \<Rightarrow> nat \<Rightarrow> u64 \<Rightarrow> u32 \<Rightarrow> u32 \<Rightarrow> roadcast_signal_value list \<Rightarrow> u32 list option \<Rightarrow> nat
      \<Rightarrow> (nat \<times> bytes) option" where
  "roadcast_encode_signal_batch out capacity sample_sequence total_count start_index signals indices count =
     (if count > UINT16_MAX \<or>
         count > (SIZE_MAX - ROADCAST_BATCH_PREFIX_SIZE) div ROADCAST_SIGNAL_WIRE_SIZE
      then Some (0, out)
      else let needed = ROADCAST_BATCH_PREFIX_SIZE + count * ROADCAST_SIGNAL_WIRE_SIZE in
        if needed > capacity then Some (0, out)
        else do {
          out \<leftarrow> encode_batch_prefix out sample_sequence total_count start_index count;
          out \<leftarrow> for_loop 0 count (\<lambda>i out. do {
            index \<leftarrow> (case indices of Some ix \<Rightarrow> rd ix i | None \<Rightarrow> Some (of_nat i));
            v \<leftarrow> rd signals (unat index);
            encode_signal_record out (ROADCAST_BATCH_PREFIX_SIZE + i * ROADCAST_SIGNAL_WIRE_SIZE) index v }) out;
          Some (needed, out) })"

definition roadcast_decode_signal_batch ::
    "bytes \<Rightarrow> nat \<Rightarrow> (u64 \<times> u32 \<times> u32 \<times> roadcast_signal_update list) ret option" where
  "roadcast_decode_signal_batch payload update_capacity =
     bindR (decode_batch_prefix ROADCAST_SIGNAL_WIRE_SIZE payload update_capacity)
       (\<lambda>(sample_sequence, total_count, start_index, count).
         bindR (decode_records decode_signal_record ROADCAST_SIGNAL_WIRE_SIZE payload
                  ROADCAST_BATCH_PREFIX_SIZE count)
           (\<lambda>updates. Some (Ok (sample_sequence, total_count, start_index, updates))))"

section \<open>Layouts\<close>

definition batch_prefix_bytes :: "u64 \<Rightarrow> u32 \<Rightarrow> u32 \<Rightarrow> nat \<Rightarrow> bytes" where
  "batch_prefix_bytes sq tot start count = be64 sq @ be32 tot @ be32 start @ be16 (of_nat count) @ be16 0"

definition frame_record_bytes :: "roadcast_frame \<Rightarrow> bytes" where
  "frame_record_bytes f = be16 (f_can_id f) @ [f_state f, 0] @ f_data f
     @ be64 (f_first_observed_ns f) @ be64 (f_last_change_ns f)"

definition signal_record_bytes :: "roadcast_signal_update \<Rightarrow> bytes" where
  "signal_record_bytes u = be32 (su_index u)
     @ [sv_state (su_value u), if sv_calibrated (su_value u) \<noteq> 0 then 1 else 0] @ be16 0
     @ be64 (sv_raw (su_value u)) @ be64 (sv_physical (su_value u))
     @ be64 (sv_first_observed_ns (su_value u)) @ be64 (sv_last_change_ns (su_value u))"

definition batch_bytes :: "('a \<Rightarrow> bytes) \<Rightarrow> u64 \<Rightarrow> u32 \<Rightarrow> u32 \<Rightarrow> 'a list \<Rightarrow> bytes" where
  "batch_bytes enc sq tot start xs =
     batch_prefix_bytes sq tot start (length xs) @ concat (map enc xs)"

definition frame_wf :: "roadcast_frame \<Rightarrow> bool" where
  "frame_wf f \<longleftrightarrow> length (f_data f) = 8 \<and> f_state f \<le> ROADCAST_OBSERVATION_VALID"

definition value_wf :: "roadcast_signal_value \<Rightarrow> bool" where
  "value_wf v \<longleftrightarrow> sv_state v \<le> ROADCAST_OBSERVATION_INVALID \<and> sv_calibrated v \<le> 1"

definition update_wf :: "roadcast_signal_update \<Rightarrow> bool" where
  "update_wf u \<longleftrightarrow> sv_state (su_value u) \<le> ROADCAST_OBSERVATION_INVALID
     \<and> sv_calibrated (su_value u) \<le> 1"

definition page_ok :: "u32 \<Rightarrow> u32 \<Rightarrow> nat \<Rightarrow> bool" where
  "page_ok tot start count \<longleftrightarrow>
     start = UINT32_MAX \<or> (start \<le> tot \<and> count \<le> unat (tot - start))"

lemma length_batch_prefix [simp, len_simps]: "length (batch_prefix_bytes sq tot start n) = 20"
  by (simp add: batch_prefix_bytes_def)

lemma length_frame_record [simp, len_simps]: "frame_wf f \<Longrightarrow> length (frame_record_bytes f) = 28"
  by (simp add: frame_record_bytes_def frame_wf_def)

lemma length_signal_record [simp, len_simps]: "length (signal_record_bytes u) = 40"
  by (simp add: signal_record_bytes_def)

lemma encode_batch_prefix_poke:
  "encode_batch_prefix out sq tot start n = poke 0 (batch_prefix_bytes sq tot start n) out"
  by (simp add: encode_batch_prefix_def batch_prefix_bytes_def layout)

lemma encode_frame_record_poke:
  "frame_wf f \<Longrightarrow> encode_frame_record out off f = poke off (frame_record_bytes f) out"
  by (simp add: encode_frame_record_def frame_record_bytes_def frame_wf_def layout)

lemma encode_signal_record_poke:
  "encode_signal_record out off i v = poke off (signal_record_bytes \<lparr>su_index = i, su_value = v\<rparr>) out"
  by (simp add: encode_signal_record_def signal_record_bytes_def layout)

lemma decode_prefix_safe: "\<exists>r. decode_batch_prefix w p cap = Some r"
  by (simp add: decode_batch_prefix_def get_slice slice_Some rd_def Let_def)

lemma decode_prefix_Ok:
  assumes "decode_batch_prefix w p cap = Some (Ok (sq, tot, start, n))"
  shows "take 20 p = batch_prefix_bytes sq tot start n \<and> length p = 20 + n * w \<and> n \<le> cap
    \<and> n \<le> UINT16_MAX \<and> page_ok tot start n"
proof -
  have "20 \<le> length p"
    using assms by (auto simp: decode_batch_prefix_def split: if_splits)
  then have r: "take 2 (drop 18 p) = [p ! 18, p ! 19]"
    by (simp add: take2_drop)
  have be0: "be16 0 = [0, 0]"
    by (simp add: be16_def)
  have split: "take 20 p = take 18 p @ take 2 (drop 18 p)"
    by (simp add: join)
  have "start = of_be32 (take 4 (drop 12 p))"
    using assms by (auto simp: decode_batch_prefix_def get_slice slice_Some rd_def Let_def split: if_splits)
  then have st: "be32 start = take 4 (drop 12 p)"
    using \<open>20 \<le> length p\<close> by simp
  show ?thesis
    using assms unfolding split r batch_prefix_bytes_def st
    by (auto simp: decode_batch_prefix_def get_slice slice_Some rd_def Let_def
        page_ok_def be0 not_less join unat_le_max split: if_splits)
qed

lemma decode_prefix_bytes:
  assumes "n \<le> UINT16_MAX" and "length rest = n * w" and "0 < w" and "w \<le> 1000" and "n \<le> cap"
    and "page_ok tot start n"
  shows "decode_batch_prefix w (batch_prefix_bytes sq tot start n @ rest) cap
       = Some (Ok (sq, tot, start, n))"
proof -
  have u: "unat (of_nat n :: u16) = n"
    using assms(1) by (simp add: unat_of_nat_small)
  have be0: "be16 0 = [0, 0]"
    by (simp add: be16_def)
  have "n * w \<le> 65535 * 1000"
    using assms by (intro mult_le_mono) auto
  then have "n \<le> (SIZE_MAX - 20) div w"
    using assms(3) by (simp add: less_eq_div_iff_mult_less_eq)
  then show ?thesis
    using assms
    by (auto simp: decode_batch_prefix_def get_slice slice_Some rd_def Let_def u page_ok_def nth_append
        batch_prefix_bytes_def be0)
qed

section \<open>From a record to a batch\<close>

locale record_codec =
  fixes w :: nat
    and wf :: "'a \<Rightarrow> bool"
    and enc :: "'a \<Rightarrow> bytes"
    and dec :: "bytes \<Rightarrow> nat \<Rightarrow> 'a ret option"
  assumes width: "wf x \<Longrightarrow> length (enc x) = w"
    and w_pos: "0 < w" "w \<le> 1000"
    and dec_safe: "off + w \<le> length p \<Longrightarrow> \<exists>r. dec p off = Some r"
    and dec_enc: "off + w \<le> length p \<Longrightarrow> wf x \<Longrightarrow> take w (drop off p) = enc x \<Longrightarrow>
      dec p off = Some (Ok x)"
    and enc_dec: "off + w \<le> length p \<Longrightarrow> dec p off = Some (Ok x) \<Longrightarrow>
      wf x \<and> take w (drop off p) = enc x"
begin

lemma records_safe:
  assumes "base + n * w \<le> length p"
  shows "\<exists>r. decode_records dec w p base n = Some r"
proof -
  have "\<exists>r. for_ret 0 n (\<lambda>i acc. bindR (dec p (base + i * w)) (\<lambda>x. Some (Ok (acc @ [x])))) [] = Some r
      \<and> (\<forall>t. r = Ok t \<longrightarrow> True)"
  proof (rule for_ret_invariant [where I = "\<lambda>_ _. True"])
    fix k :: nat and t :: "'a list"
    assume "k < 0 + n"
    then have "Suc k * w \<le> n * w"
      by (intro mult_le_mono) auto
    then have "base + k * w + w \<le> length p"
      using assms by simp
    then obtain r where "dec p (base + k * w) = Some r"
      using dec_safe by blast
    then show "\<exists>r. bindR (dec p (base + k * w)) (\<lambda>x. Some (Ok (t @ [x]))) = Some r
        \<and> (\<forall>t'. r = Ok t' \<longrightarrow> True)"
      by (cases r) auto
  qed simp
  then show ?thesis
    by (auto simp: decode_records_def)
qed

lemma records_step_enc:
  assumes "\<forall>x \<in> set xs. wf x" and "i + length ys = length xs" and "ys = drop i xs"
    and "take (length xs * w) (drop base p) = concat (map enc xs)" and "base + length xs * w \<le> length p"
  shows "for_ret i (length ys) (\<lambda>i acc. bindR (dec p (base + i * w)) (\<lambda>x. Some (Ok (acc @ [x])))) acc = Some (Ok (acc @ ys))"
  using assms(2,3)
proof (induction ys arbitrary: i acc)
  case Nil
  then show ?case by simp
next
  case (Cons y ys)
  have i: "i < length xs"
    using Cons.prems(1) by simp
  then have "drop i xs = xs ! i # drop (Suc i) xs"
    by (simp add: Cons_nth_drop_Suc)
  with Cons.prems(2) have y: "y = xs ! i" and ys: "ys = drop (Suc i) xs"
    by simp_all
  have "Suc i * w \<le> length xs * w"
    using i by (intro mult_le_mono) auto
  then have fit: "base + i * w + w \<le> length p" and le: "i * w + w \<le> length xs * w"
    using assms(5) by auto
  have "take w (drop (i * w) (take (length xs * w) (drop base p) @ [])) = enc y"
    using nth_chunk_concat [of xs enc w i "[]"] assms(1) width i
    by (simp add: assms(4) y)
  moreover have "take w (drop (i * w) (take (length xs * w) (drop base p) @ []))
      = take w (drop (base + i * w) p)"
    using le by (simp add: drop_take min_absorb1 add.commute)
  ultimately have "take w (drop (base + i * w) p) = enc y"
    by simp
  then have "dec p (base + i * w) = Some (Ok y)"
    using dec_enc fit assms(1) i y by simp
  moreover have "for_ret (Suc i) (length ys) (\<lambda>i acc. bindR (dec p (base + i * w)) (\<lambda>x. Some (Ok (acc @ [x])))) (acc @ [y])
      = Some (Ok ((acc @ [y]) @ ys))"
    by (rule Cons.IH) (use Cons.prems ys in auto)
  ultimately show ?case
    by simp
qed

lemma records_decode_encode:
  assumes "\<forall>x \<in> set xs. wf x" and "length pre = base"
  shows "decode_records dec w (pre @ concat (map enc xs)) base (length xs) = Some (Ok xs)"
proof -
  have len: "length (concat (map enc xs)) = length xs * w"
    using assms width by (simp add: length_concat_const)
  show ?thesis
    using records_step_enc [where i = 0 and ys = xs and xs = xs and p = "pre @ concat (map enc xs)"
        and acc = "[]" and base = base] assms len
    by (simp add: decode_records_def)
qed

lemma records_encode_decode:
  assumes "decode_records dec w p base n = Some (Ok xs)" and "base + n * w \<le> length p"
  shows "length xs = n \<and> (\<forall>x \<in> set xs. wf x) \<and> take (n * w) (drop base p) = concat (map enc xs)"
proof -
  let ?body = "\<lambda>i acc. bindR (dec p (base + i * w)) (\<lambda>x. Some (Ok (acc @ [x])))"
  let ?I = "\<lambda>i acc. length acc = i \<and> (\<forall>x \<in> set acc. wf x)
      \<and> take (i * w) (drop base p) = concat (map enc acc)"
  have "\<exists>r. for_ret 0 n ?body [] = Some r \<and> (\<forall>t. r = Ok t \<longrightarrow> ?I (0 + n) t)"
  proof (rule for_ret_invariant)
    fix k t
    assume k: "k < 0 + n" and I: "?I k t"
    have "Suc k * w \<le> n * w"
      using k by (intro mult_le_mono) auto
    then have fit: "base + k * w + w \<le> length p"
      using assms(2) by simp
    obtain r where r: "dec p (base + k * w) = Some r"
      using dec_safe [OF fit] by blast
    show "\<exists>r. ?body k t = Some r \<and> (\<forall>t'. r = Ok t' \<longrightarrow> ?I (Suc k) t')"
    proof (cases r)
      case Fail
      with r show ?thesis by simp
    next
      case (Ok x)
      have x: "wf x \<and> take w (drop (base + k * w) p) = enc x"
        using enc_dec [OF fit] r Ok by simp
      have "take (Suc k * w) (drop base p) = take (k * w) (drop base p) @ enc x"
        using x by (simp add: take_add add.commute [of w] add.commute [of base])
      with x I r Ok show ?thesis by simp
    qed
  qed simp
  with assms(1) show ?thesis
    by (auto simp: decode_records_def)
qed

lemma batch_decode_encode:
  assumes "\<forall>x \<in> set xs. wf x" and "length xs \<le> UINT16_MAX" and "length xs \<le> cap"
    and "page_ok tot start (length xs)"
  shows "decode_batch_prefix w (batch_bytes enc sq tot start xs) cap = Some (Ok (sq, tot, start, length xs))
    \<and> decode_records dec w (batch_bytes enc sq tot start xs) ROADCAST_BATCH_PREFIX_SIZE (length xs)
        = Some (Ok xs)"
proof
  have len: "length (concat (map enc xs)) = length xs * w"
    using assms width by (simp add: length_concat_const)
  show "decode_batch_prefix w (batch_bytes enc sq tot start xs) cap = Some (Ok (sq, tot, start, length xs))"
    unfolding batch_bytes_def
    by (rule decode_prefix_bytes) (use assms len w_pos in auto)
  show "decode_records dec w (batch_bytes enc sq tot start xs) 20 (length xs) = Some (Ok xs)"
    unfolding batch_bytes_def using assms by (simp add: records_decode_encode)
qed

lemma batch_encode_decode:
  assumes "decode_batch_prefix w p cap = Some (Ok (sq, tot, start, n))"
    and "decode_records dec w p ROADCAST_BATCH_PREFIX_SIZE n = Some (Ok xs)"
  shows "p = batch_bytes enc sq tot start xs \<and> (\<forall>x \<in> set xs. wf x) \<and> length xs \<le> cap
    \<and> length xs \<le> UINT16_MAX \<and> page_ok tot start (length xs)"
proof -
  note pre = decode_prefix_Ok [OF assms(1)]
  have body: "length xs = n \<and> (\<forall>x \<in> set xs. wf x) \<and> take (n * w) (drop 20 p) = concat (map enc xs)"
    by (rule records_encode_decode [OF assms(2)]) (use pre in simp)
  have "take (n * w) (drop 20 p) = drop 20 p"
    using pre by simp
  with body have "drop 20 p = concat (map enc xs)"
    by metis
  then have "p = take 20 p @ concat (map enc xs)"
    by (metis append_take_drop_id)
  with pre body show ?thesis
    by (simp add: batch_bytes_def)
qed

lemma batch_records_safe:
  assumes "decode_batch_prefix w p cap = Some (Ok (sq, tot, start, n))"
  shows "\<exists>r. decode_records dec w p ROADCAST_BATCH_PREFIX_SIZE n = Some r"
  using decode_prefix_Ok [OF assms] by (intro records_safe) simp

end

section \<open>The two record codecs\<close>

lemma slice_window:
  "off + w \<le> length p \<Longrightarrow> a + n \<le> w \<Longrightarrow> slice (take w (drop off p)) a n = slice p (off + a) n"
  by (auto simp: slice_def drop_take min_absorb1 add.commute)

lemma rd_window:
  "off + w \<le> length p \<Longrightarrow> a < w \<Longrightarrow> rd (take w (drop off p)) a = rd p (off + a)"
  by (simp add: rd_def)

text \<open>A record is decoded from its own window of the payload.\<close>

lemma decode_frame_record_window:
  assumes "off + 28 \<le> length p"
  shows "decode_frame_record p off = decode_frame_record (take 28 (drop off p)) 0"
  using assms by (simp add: decode_frame_record_def get_slice slice_window rd_window
      cong: if_cong)

lemma decode_signal_record_window:
  assumes "off + 40 \<le> length p"
  shows "decode_signal_record p off = decode_signal_record (take 40 (drop off p)) 0"
  using assms by (simp add: decode_signal_record_def get_slice slice_window rd_window
      cong: if_cong)

lemma u8_flag: "(c :: u8) \<le> 1 \<Longrightarrow> c = 0 \<or> c = 1"
  by unat_arith

lemma frame_record_window_inv:
  assumes "length q = 28" and "decode_frame_record q 0 = Some (Ok f)"
  shows "frame_wf f \<and> q = frame_record_bytes f"
proof -
  have mid: "[q ! 2, q ! 3] = take 2 (drop 2 q)"
    using assms(1) by (simp add: take2_drop)
  have r: "q ! 3 = 0" and f: "f = \<lparr>f_can_id = of_be16 (take 2 q), f_state = q ! 2, f_data = take 8 (drop 4 q),
      f_first_observed_ns = of_be64 (take 8 (drop 12 q)), f_last_change_ns = of_be64 (take 8 (drop 20 q))\<rparr>"
      and wf: "q ! 2 \<le> 2"
    using assms by (auto simp: decode_frame_record_def get_slice slice_Some rd_Some not_less
        simp del: add_2_eq_Suc add_2_eq_Suc' split: if_splits)
  have "frame_record_bytes f = take 2 q @ [q ! 2, q ! 3] @ take 8 (drop 4 q) @ take 8 (drop 12 q) @ take 8 (drop 20 q)"
    using assms(1) by (simp add: f frame_record_bytes_def r)
  also have "\<dots> = q"
    using assms(1) unfolding mid by (simp add: join)
  finally show ?thesis
    using assms(1) wf by (simp add: frame_wf_def f)
qed

lemma signal_record_window_inv:
  assumes "length q = 40" and "decode_signal_record q 0 = Some (Ok u)"
  shows "update_wf u \<and> q = signal_record_bytes u"
proof -
  have mid: "[q ! 4, q ! 5] = take 2 (drop 4 q)"
    using assms(1) by (simp add: take2_drop)
  have r: "of_be16 (take 2 (drop 6 q)) = 0" and wf: "q ! 4 \<le> 3" "q ! 5 \<le> 1"
    and u: "u = \<lparr>su_index = of_be32 (take 4 q), su_value = \<lparr>sv_raw = of_be64 (take 8 (drop 8 q)),
        sv_physical = of_be64 (take 8 (drop 16 q)), sv_first_observed_ns = of_be64 (take 8 (drop 24 q)),
        sv_last_change_ns = of_be64 (take 8 (drop 32 q)), sv_state = q ! 4, sv_calibrated = q ! 5\<rparr>\<rparr>"
    using assms by (auto simp: decode_signal_record_def get_slice slice_Some rd_Some not_less split: if_splits)
  have pad: "be16 0 = take 2 (drop 6 q)"
    using assms(1) by (simp flip: r)
  have cal: "(if q ! 5 \<noteq> 0 then 1 else 0) = q ! 5"
    using u8_flag [OF wf(2)] by auto
  have "signal_record_bytes u = take 4 q @ [q ! 4, q ! 5] @ take 2 (drop 6 q) @ take 8 (drop 8 q)
      @ take 8 (drop 16 q) @ take 8 (drop 24 q) @ take 8 (drop 32 q)"
    using assms(1) cal by (simp add: u signal_record_bytes_def pad)
  also have "\<dots> = q"
    using assms(1) unfolding mid by (simp add: join)
  finally show ?thesis
    using wf by (simp add: update_wf_def u)
qed

lemma frame_record_window_enc:
  "frame_wf f \<Longrightarrow> decode_frame_record (frame_record_bytes f) 0 = Some (Ok f)"
  by (simp add: decode_frame_record_def frame_record_bytes_def frame_wf_def get_slice slice_Some rd_Some
      nth_append not_less)

lemma signal_record_window_enc:
  assumes "update_wf u"
  shows "decode_signal_record (signal_record_bytes u) 0 = Some (Ok u)"
proof -
  have "sv_calibrated (su_value u) = 0 \<or> sv_calibrated (su_value u) = 1"
    using assms u8_flag by (simp add: update_wf_def)
  then show ?thesis
    using assms
    by (auto simp: decode_signal_record_def signal_record_bytes_def update_wf_def get_slice slice_Some rd_Some
        nth_append not_less)
qed

interpretation frame_codec: record_codec 28 frame_wf frame_record_bytes decode_frame_record
proof unfold_locales
  fix p :: bytes and off :: nat and f
  assume fit: "off + 28 \<le> length p"
  show "\<exists>r. decode_frame_record p off = Some r"
    using fit by (simp add: decode_frame_record_def get_slice slice_Some rd_Some)
  show "frame_wf f \<Longrightarrow> take 28 (drop off p) = frame_record_bytes f \<Longrightarrow> decode_frame_record p off = Some (Ok f)"
    using fit by (simp add: decode_frame_record_window [OF fit] frame_record_window_enc)
  show "decode_frame_record p off = Some (Ok f) \<Longrightarrow> frame_wf f \<and> take 28 (drop off p) = frame_record_bytes f"
    using fit frame_record_window_inv [of "take 28 (drop off p)" f]
    by (simp add: decode_frame_record_window [OF fit])
qed simp_all

interpretation signal_codec: record_codec 40 update_wf signal_record_bytes decode_signal_record
proof unfold_locales
  fix p :: bytes and off :: nat and u
  assume fit: "off + 40 \<le> length p"
  show "\<exists>r. decode_signal_record p off = Some r"
    using fit by (simp add: decode_signal_record_def get_slice slice_Some rd_Some)
  show "update_wf u \<Longrightarrow> take 40 (drop off p) = signal_record_bytes u \<Longrightarrow> decode_signal_record p off = Some (Ok u)"
    using fit by (simp add: decode_signal_record_window [OF fit] signal_record_window_enc)
  show "decode_signal_record p off = Some (Ok u) \<Longrightarrow> update_wf u \<and> take 40 (drop off p) = signal_record_bytes u"
    using fit signal_record_window_inv [of "take 40 (drop off p)" u]
    by (simp add: decode_signal_record_window [OF fit])
qed simp_all

section \<open>Whole batches\<close>

text \<open>The frames, and the indexed signals, that an encoder call selects.\<close>

definition selected_frames :: "roadcast_frame list \<Rightarrow> u16 list option \<Rightarrow> nat \<Rightarrow> roadcast_frame list" where
  "selected_frames frames indices count = map (\<lambda>i. case indices of
     Some ix \<Rightarrow> frames ! unat (ix ! i) | None \<Rightarrow> frames ! i) [0..<count]"

definition selected_updates ::
    "roadcast_signal_value list \<Rightarrow> u32 list option \<Rightarrow> nat \<Rightarrow> roadcast_signal_update list" where
  "selected_updates signals indices count = map (\<lambda>i. case indices of
     Some ix \<Rightarrow> \<lparr>su_index = ix ! i, su_value = signals ! unat (ix ! i)\<rparr>
   | None \<Rightarrow> \<lparr>su_index = of_nat i, su_value = signals ! unat (of_nat i :: u32)\<rparr>) [0..<count]"

definition indices_ok :: "('i \<Rightarrow> nat) \<Rightarrow> nat \<Rightarrow> 'i list option \<Rightarrow> nat \<Rightarrow> bool" where
  "indices_ok to_nat n indices count \<longleftrightarrow> (case indices of
     Some ix \<Rightarrow> count \<le> length ix \<and> (\<forall>i < count. to_nat (ix ! i) < n) | None \<Rightarrow> count \<le> n)"

lemma length_selected [simp]:
  "length (selected_frames fs ix n) = n" "length (selected_updates vs jx n) = n"
  by (simp_all add: selected_frames_def selected_updates_def)

lemma encode_records_write:
  assumes "\<And>i out. i < n \<Longrightarrow> body i out = poke (20 + i * w) (enc (xs ! i)) out"
    and "\<And>x. x \<in> set xs \<Longrightarrow> length (enc x) = w" and "length xs = n" and "20 + n * w \<le> length out"
  shows "Option.bind (encode_batch_prefix out sq tot start n) (for_loop 0 n body)
       = Some (batch_bytes enc sq tot start xs @ drop (20 + n * w) out)"
proof -
  let ?xs = "concat (map (\<lambda>i. enc (xs ! i)) [0..<n])"
  have "map (\<lambda>i. enc (xs ! i)) [0..<n] = map enc xs"
    using assms(3) by (auto intro: nth_equalityI)
  then have cat: "?xs = concat (map enc xs)"
    by simp
  have len: "length (concat (map enc xs)) = n * w"
    using assms by (simp add: length_concat_const)
  have loop: "for_loop 0 n body out' = poke 20 ?xs out'" if "length out' = length out" for out'
    using for_loop_poke [of 0 n "\<lambda>i. enc (xs ! i)" w body 20 out'] assms that by simp
  have "Option.bind (encode_batch_prefix out sq tot start n) (for_loop 0 n body)
      = Option.bind (poke 0 (batch_prefix_bytes sq tot start n) out) (poke 20 ?xs)"
    unfolding encode_batch_prefix_poke by (rule Option.bind_cong) (simp_all add: loop poke_length)
  also have "\<dots> = poke 0 (batch_bytes enc sq tot start xs) out"
    using assms(3) by (simp add: layout batch_bytes_def cat)
  also have "\<dots> = Some (batch_bytes enc sq tot start xs @ drop (20 + n * w) out)"
    using assms len by (simp add: poke_def batch_bytes_def)
  finally show ?thesis .
qed

lemma encode_frame_batch_eq:
  assumes "count \<le> UINT16_MAX" and "20 + count * 28 \<le> cap" and "cap \<le> length out"
    and ix: "indices_ok unat (length frames) indices count"
    and wf: "\<forall>f \<in> set (selected_frames frames indices count). frame_wf f"
  shows "roadcast_encode_frame_batch out cap sq tot start frames indices count
       = Some (20 + count * 28, batch_bytes frame_record_bytes sq tot start
           (selected_frames frames indices count) @ drop (20 + count * 28) out)"
proof -
  let ?body = "\<lambda>i out. do {
      k \<leftarrow> (case indices of Some ix \<Rightarrow> map_option unat (rd ix i) | None \<Rightarrow> Some i);
      frame \<leftarrow> rd frames k;
      encode_frame_record out (20 + i * 28) frame }"
  have "?body i out' = poke (20 + i * 28) (frame_record_bytes (selected_frames frames indices count ! i)) out'"
    if i: "i < count" for i out'
  proof -
    have "frame_wf (selected_frames frames indices count ! i)"
      using wf i by simp
    then show ?thesis
      using ix i by (cases indices)
        (auto simp: selected_frames_def indices_ok_def rd_Some encode_frame_record_poke)
  qed
  then have "Option.bind (encode_batch_prefix out sq tot start count) (for_loop 0 count ?body)
      = Some (batch_bytes frame_record_bytes sq tot start (selected_frames frames indices count)
          @ drop (20 + count * 28) out)"
    by (intro encode_records_write) (use assms in auto)
  then have "Option.bind (encode_batch_prefix out sq tot start count) (\<lambda>out.
        Option.bind (for_loop 0 count ?body out) (\<lambda>out. Some (20 + count * 28, out)))
      = Some (20 + count * 28, batch_bytes frame_record_bytes sq tot start
          (selected_frames frames indices count) @ drop (20 + count * 28) out)"
    by (simp flip: Option.bind_assoc)
  then show ?thesis
    using assms by (simp add: roadcast_encode_frame_batch_def Let_def)
qed

lemma encode_signal_batch_eq:
  assumes "count \<le> UINT16_MAX" and "20 + count * 40 \<le> cap" and "cap \<le> length out"
    and ix: "indices_ok unat (length signals) indices count"
  shows "roadcast_encode_signal_batch out cap sq tot start signals indices count
       = Some (20 + count * 40, batch_bytes signal_record_bytes sq tot start
           (selected_updates signals indices count) @ drop (20 + count * 40) out)"
proof -
  let ?body = "\<lambda>i out. do {
      index \<leftarrow> (case indices of Some ix \<Rightarrow> rd ix i | None \<Rightarrow> Some (of_nat i));
      v \<leftarrow> rd signals (unat index);
      encode_signal_record out (20 + i * 40) index v }"
  have "?body i out' = poke (20 + i * 40) (signal_record_bytes (selected_updates signals indices count ! i)) out'"
    if i: "i < count" for i out'
  proof -
    have "unat (of_nat i :: u32) = i"
      using i assms(1) by (intro unat_of_nat_small) simp
    then show ?thesis
      using ix i by (cases indices)
        (auto simp: selected_updates_def indices_ok_def rd_Some encode_signal_record_poke)
  qed
  then have "Option.bind (encode_batch_prefix out sq tot start count) (for_loop 0 count ?body)
      = Some (batch_bytes signal_record_bytes sq tot start (selected_updates signals indices count)
          @ drop (20 + count * 40) out)"
    by (intro encode_records_write) (use assms in auto)
  then have "Option.bind (encode_batch_prefix out sq tot start count) (\<lambda>out.
        Option.bind (for_loop 0 count ?body out) (\<lambda>out. Some (20 + count * 40, out)))
      = Some (20 + count * 40, batch_bytes signal_record_bytes sq tot start
          (selected_updates signals indices count) @ drop (20 + count * 40) out)"
    by (simp flip: Option.bind_assoc)
  then show ?thesis
    using assms by (simp add: roadcast_encode_signal_batch_def Let_def)
qed

lemma length_frame_batch:
  "\<forall>f \<in> set fs. frame_wf f \<Longrightarrow> length (batch_bytes frame_record_bytes sq tot start fs) = 20 + length fs * 28"
  by (simp add: batch_bytes_def length_concat_const)

lemma length_signal_batch:
  "length (batch_bytes signal_record_bytes sq tot start us) = 20 + length us * 40"
  by (simp add: batch_bytes_def length_concat_const)

lemma decode_frame_batch_safe: "\<exists>r. roadcast_decode_frame_batch p cap = Some r"
  unfolding roadcast_decode_frame_batch_def
  by (intro bindR_safe decode_prefix_safe) (auto dest: frame_codec.batch_records_safe intro!: bindR_safe)

lemma decode_signal_batch_safe: "\<exists>r. roadcast_decode_signal_batch p cap = Some r"
  unfolding roadcast_decode_signal_batch_def
  by (intro bindR_safe decode_prefix_safe) (auto dest: signal_codec.batch_records_safe intro!: bindR_safe)

text \<open>The decoders accept exactly the layouts of well-formed batches that fit the caller's array.\<close>

lemma decode_frame_batch_iff:
  "roadcast_decode_frame_batch p cap = Some (Ok (sq, tot, start, fs)) \<longleftrightarrow>
     p = batch_bytes frame_record_bytes sq tot start fs \<and> (\<forall>f \<in> set fs. frame_wf f)
     \<and> length fs \<le> cap \<and> length fs \<le> UINT16_MAX \<and> page_ok tot start (length fs)"
  (is "?l \<longleftrightarrow> ?r")
proof
  assume ?l
  then obtain n where "decode_batch_prefix 28 p cap = Some (Ok (sq, tot, start, n))"
      and "decode_records decode_frame_record 28 p 20 n = Some (Ok fs)"
    by (auto simp: roadcast_decode_frame_batch_def bindR_eq_Ok)
  then show ?r
    by (rule frame_codec.batch_encode_decode)
next
  assume ?r
  then show ?l
    using frame_codec.batch_decode_encode [of fs cap tot start sq]
    by (simp add: roadcast_decode_frame_batch_def)
qed

lemma decode_signal_batch_iff:
  "roadcast_decode_signal_batch p cap = Some (Ok (sq, tot, start, us)) \<longleftrightarrow>
     p = batch_bytes signal_record_bytes sq tot start us \<and> (\<forall>u \<in> set us. update_wf u)
     \<and> length us \<le> cap \<and> length us \<le> UINT16_MAX \<and> page_ok tot start (length us)"
  (is "?l \<longleftrightarrow> ?r")
proof
  assume ?l
  then obtain n where "decode_batch_prefix 40 p cap = Some (Ok (sq, tot, start, n))"
      and "decode_records decode_signal_record 40 p 20 n = Some (Ok us)"
    by (auto simp: roadcast_decode_signal_batch_def bindR_eq_Ok)
  then show ?r
    by (rule signal_codec.batch_encode_decode)
next
  assume ?r
  then show ?l
    using signal_codec.batch_decode_encode [of us cap tot start sq]
    by (simp add: roadcast_decode_signal_batch_def)
qed

lemma selected_frames_None: "selected_frames fs None (length fs) = fs"
  by (auto intro!: nth_equalityI simp: selected_frames_def)

section \<open>Properties\<close>

text \<open>
  C18: The frame batch codec is exact.  For any payload and any array capacity, the decoder accepts with a
  given batch if and only if encoding that batch yields the payload byte for byte, its records are well formed,
  they fit the caller's array and the 16-bit count, and a paged batch stays inside its total.  So batches
  round-trip, have one representation only, and nothing malformed is accepted.
\<close>

theorem frame_batch_codec_exact:
  "roadcast_decode_frame_batch p cap = Some (Ok (sq, tot, start, fs)) \<longleftrightarrow>
     length p = 20 + length fs * 28
     \<and> roadcast_encode_frame_batch (replicate (length p) 0) (length p) sq tot start fs None (length fs)
         = Some (length p, p)
     \<and> (\<forall>f \<in> set fs. length (f_data f) = 8 \<and> f_state f \<le> ROADCAST_OBSERVATION_VALID)
     \<and> length fs \<le> cap \<and> length fs \<le> UINT16_MAX
     \<and> (start = UINT32_MAX \<or> start \<le> tot \<and> length fs \<le> unat (tot - start))"
  (is "?l \<longleftrightarrow> ?len \<and> ?enc \<and> ?wf \<and> ?cap \<and> ?max \<and> ?page")
proof -
  have "?len \<and> ?enc \<longleftrightarrow> p = batch_bytes frame_record_bytes sq tot start fs" if wf: "?wf" and m: "?max"
  proof -
    have "\<forall>f \<in> set fs. frame_wf f"
      using wf by (simp add: frame_wf_def)
    with m show ?thesis
      using encode_frame_batch_eq [of "length fs" "length p" "replicate (length p) 0" fs None sq tot start]
        length_frame_batch [of fs sq tot start]
      by (auto simp: indices_ok_def selected_frames_None)
  qed
  then show ?thesis
    unfolding decode_frame_batch_iff by (auto simp: frame_wf_def page_ok_def)
qed

theorem frame_batch_codec_exact_witness:
  "roadcast_decode_frame_batch (batch_bytes frame_record_bytes 9 111 0
       [\<lparr>f_can_id = 0x2F1, f_state = 2, f_data = [1, 2, 3, 4, 5, 6, 7, 8],
         f_first_observed_ns = 4, f_last_change_ns = 5\<rparr>]) 71
     = Some (Ok (9, 111, 0, [\<lparr>f_can_id = 0x2F1, f_state = 2, f_data = [1, 2, 3, 4, 5, 6, 7, 8],
         f_first_observed_ns = 4, f_last_change_ns = 5\<rparr>]))"
  unfolding frame_batch_codec_exact
  by (subst length_frame_batch, simp add: frame_wf_def)
    (simp add: encode_frame_batch_eq indices_ok_def selected_frames_def frame_wf_def length_frame_batch)

text \<open>
  C21: A signal batch carries the selected values.  With indices inside the value array, the encoder writes
  exactly 20 + 40 bytes per signal, and the decoder gives back the indices and the values in order.
\<close>

theorem signal_batch_roundtrip:
  assumes "length ix \<le> UINT16_MAX" and "20 + length ix * 40 \<le> cap" and "cap \<le> length out"
    and "\<forall>i \<in> set ix. unat i < length signals"
    and "\<forall>i \<in> set ix. sv_state (signals ! unat i) \<le> ROADCAST_OBSERVATION_INVALID
      \<and> sv_calibrated (signals ! unat i) \<le> 1"
    and "start = UINT32_MAX \<or> start \<le> tot \<and> length ix \<le> unat (tot - start)"
  shows "\<exists>out'. roadcast_encode_signal_batch out cap sq tot start signals (Some ix) (length ix)
       = Some (20 + length ix * 40, out') \<and> length out' = length out
     \<and> roadcast_decode_signal_batch (take (20 + length ix * 40) out') (length ix)
       = Some (Ok (sq, tot, start, map (\<lambda>i. \<lparr>su_index = i, su_value = signals ! unat i\<rparr>) ix))"
proof -
  let ?us = "map (\<lambda>i. \<lparr>su_index = i, su_value = signals ! unat i\<rparr>) ix"
  have "selected_updates signals (Some ix) (length ix) = ?us"
    by (auto intro!: nth_equalityI simp: selected_updates_def)
  then have enc: "roadcast_encode_signal_batch out cap sq tot start signals (Some ix) (length ix)
      = Some (20 + length ix * 40, batch_bytes signal_record_bytes sq tot start ?us @ drop (20 + length ix * 40) out)"
    using encode_signal_batch_eq [of "length ix" cap out signals "Some ix" sq tot start] assms(1-4)
    by (simp add: indices_ok_def)
  have len: "length (batch_bytes signal_record_bytes sq tot start ?us) = 20 + length ix * 40"
    by (simp add: length_signal_batch)
  have "roadcast_decode_signal_batch (batch_bytes signal_record_bytes sq tot start ?us) (length ix)
      = Some (Ok (sq, tot, start, ?us))"
    unfolding decode_signal_batch_iff using assms(1,5,6) by (auto simp: update_wf_def page_ok_def)
  with enc len assms(2,3) show ?thesis by simp
qed

theorem signal_batch_roundtrip_witness:
  "\<exists>out'. roadcast_encode_signal_batch (replicate 100 0) 100 8 815 UINT32_MAX
       [\<lparr>sv_raw = 3, sv_physical = 7, sv_first_observed_ns = 1, sv_last_change_ns = 2, sv_state = 2, sv_calibrated = 1\<rparr>]
       (Some [0, 0]) (length [0 :: u32, 0]) = Some (100, out') \<and> length out' = 100"
  using signal_batch_roundtrip [of "[0, 0]" 100 "replicate 100 0"
      "[\<lparr>sv_raw = 3, sv_physical = 7, sv_first_observed_ns = 1, sv_last_change_ns = 2, sv_state = 2, sv_calibrated = 1\<rparr>]"
      UINT32_MAX 815 8]
  by auto


text \<open>
  C28: A frame batch that does not fit is refused and nothing is written: the encoder returns 0 and leaves the
  buffer alone when the count exceeds 16 bits or the records exceed the capacity.
\<close>

theorem frame_batch_refused:
  assumes "count > UINT16_MAX \<or> 20 + count * 28 > cap"
  shows "roadcast_encode_frame_batch out cap sq tot start fs ix count = Some (0, out)"
  using assms by (auto simp: roadcast_encode_frame_batch_def)

theorem frame_batch_refused_witness:
  "roadcast_encode_frame_batch [] 2016 1 111 0 [] None 72 = Some (0, [])"
  by (rule frame_batch_refused) simp

end
