(* ===== verification/Schema.thy ===== *)
theory Schema
  imports Protocol
begin

text \<open>
  The client side of schema discovery: \<^verbatim>\<open>roadcast_decode_schema_chunk\<close> of \<^verbatim>\<open>src/protocol.c\<close>.  A chunk
  is a 24-byte prefix and a run of variable-length entries.  \<^verbatim>\<open>size_t\<close> subtraction wraps, and the
  model keeps the wrap (\<open>sub_size\<close>), so that the bounds argument is a theorem and not an artefact of
  truncated subtraction.

  The lemmas: the decoder never reads outside the payload; it accepts exactly the layouts of
  well-formed entry runs.
\<close>

definition sub_size :: "nat \<Rightarrow> nat \<Rightarrow> nat" where
  "sub_size a b = (if b \<le> a then a - b else a + 2 ^ 64 - b)"

definition decode_schema_entry ::
    "bytes \<Rightarrow> u32 \<Rightarrow> u32 \<Rightarrow> nat \<Rightarrow> nat \<Rightarrow> (roadcast_schema_entry \<times> nat) ret option" where
  "decode_schema_entry payload total_count start_index i offset =
    (if sub_size (length payload) offset < ROADCAST_SCHEMA_ENTRY_FIXED_SIZE then Some Fail
     else do {
       name16 \<leftarrow> get_u16 payload (offset + 22);
       unit16 \<leftarrow> get_u16 payload (offset + 24);
       pad \<leftarrow> get_u16 payload (offset + 26);
       let name_length = unat name16;
       let unit_length = unat unit16;
       if pad \<noteq> 0 \<or> name_length > ROADCAST_SCHEMA_NAME_MAX \<or> unit_length > ROADCAST_SCHEMA_UNIT_MAX \<or>
          name_length + unit_length >
            sub_size (sub_size (length payload) offset) ROADCAST_SCHEMA_ENTRY_FIXED_SIZE
       then Some Fail
       else do {
         stable_id \<leftarrow> get_u64 payload offset;
         index \<leftarrow> get_u32 payload (offset + 8);
         invalid_signal_index \<leftarrow> get_u32 payload (offset + 12);
         can_id \<leftarrow> get_u16 payload (offset + 16);
         kind \<leftarrow> rd payload (offset + 18);
         src \<leftarrow> rd payload (offset + 19);
         width \<leftarrow> rd payload (offset + 20);
         flags \<leftarrow> rd payload (offset + 21);
         sc \<leftarrow> get_double payload (offset + 28);
         ofs \<leftarrow> get_double payload (offset + 36);
         name \<leftarrow> slice payload (offset + ROADCAST_SCHEMA_ENTRY_FIXED_SIZE) name_length;
         unit \<leftarrow> slice payload (offset + ROADCAST_SCHEMA_ENTRY_FIXED_SIZE + name_length) unit_length;
         if index \<noteq> start_index + of_nat i \<or> kind \<noteq> ROADCAST_ITEM_CAN_SIGNAL \<or>
            src \<noteq> ROADCAST_SOURCE_RAW_CAN \<or> width = 0 \<or> width > 64 \<or>
            (invalid_signal_index \<ge> total_count \<and> invalid_signal_index \<noteq> UINT32_MAX)
         then Some Fail
         else Some (Ok (\<lparr>se_stable_id = stable_id, se_index = index,
           se_invalid_signal_index = invalid_signal_index, se_can_id = can_id, se_kind = kind,
           se_source = src, se_width = width, se_flags = flags, se_scale = sc, se_offset = ofs,
           se_name = name, se_unit = unit\<rparr>,
           offset + ROADCAST_SCHEMA_ENTRY_FIXED_SIZE + name_length + unit_length)) } })"

definition roadcast_decode_schema_chunk ::
    "bytes \<Rightarrow> nat \<Rightarrow> (u32 \<times> u32 \<times> u32 \<times> u64 \<times> roadcast_schema_entry list) ret option" where
  "roadcast_decode_schema_chunk payload entry_capacity =
    (if length payload < ROADCAST_SCHEMA_CHUNK_PREFIX_SIZE then Some Fail
     else do {
       schema_version \<leftarrow> get_u32 payload 0;
       total_count \<leftarrow> get_u32 payload 4;
       start_index \<leftarrow> get_u32 payload 8;
       count \<leftarrow> get_u32 payload 12;
       schema_hash \<leftarrow> get_u64 payload 16;
       if unat count > entry_capacity \<or> start_index > total_count \<or>
          count > total_count - start_index
       then Some Fail
       else bindR (for_ret 0 (unat count) (\<lambda>i (entries, offset).
                bindR (decode_schema_entry payload total_count start_index i offset)
                  (\<lambda>(entry, offset'). Some (Ok (entries @ [entry], offset'))))
              ([], ROADCAST_SCHEMA_CHUNK_PREFIX_SIZE))
            (\<lambda>(entries, offset).
               if offset \<noteq> length payload then Some Fail
               else Some (Ok (schema_version, total_count, start_index, schema_hash, entries))) })"

section \<open>Layout\<close>

definition schema_entry_bytes :: "roadcast_schema_entry \<Rightarrow> bytes" where
  "schema_entry_bytes e = be64 (se_stable_id e) @ be32 (se_index e) @ be32 (se_invalid_signal_index e)
     @ be16 (se_can_id e) @ [se_kind e, se_source e, se_width e, se_flags e]
     @ be16 (of_nat (length (se_name e))) @ be16 (of_nat (length (se_unit e))) @ be16 0
     @ be64 (se_scale e) @ be64 (se_offset e) @ se_name e @ se_unit e"

definition schema_prefix_bytes :: "u32 \<Rightarrow> u32 \<Rightarrow> u32 \<Rightarrow> u32 \<Rightarrow> u64 \<Rightarrow> bytes" where
  "schema_prefix_bytes version tot start count hash = be32 version @ be32 tot @ be32 start @ be32 count @ be64 hash"

definition entry_size :: "roadcast_schema_entry \<Rightarrow> nat" where
  "entry_size e = 44 + length (se_name e) + length (se_unit e)"

definition entry_wf :: "u32 \<Rightarrow> u32 \<Rightarrow> nat \<Rightarrow> roadcast_schema_entry \<Rightarrow> bool" where
  "entry_wf tot start i e \<longleftrightarrow> se_index e = start + of_nat i \<and> se_kind e = ROADCAST_ITEM_CAN_SIGNAL
     \<and> se_source e = ROADCAST_SOURCE_RAW_CAN \<and> 0 < se_width e \<and> se_width e \<le> 64
     \<and> (se_invalid_signal_index e < tot \<or> se_invalid_signal_index e = UINT32_MAX)
     \<and> length (se_name e) \<le> ROADCAST_SCHEMA_NAME_MAX \<and> length (se_unit e) \<le> ROADCAST_SCHEMA_UNIT_MAX"

lemma length_schema_entry [simp, len_simps]: "length (schema_entry_bytes e) = entry_size e"
  by (simp add: schema_entry_bytes_def entry_size_def)

lemma length_schema_prefix [simp, len_simps]: "length (schema_prefix_bytes v t s c h) = 24"
  by (simp add: schema_prefix_bytes_def)

lemma entry_size_bounds: "44 \<le> entry_size e" "entry_wf tot start i e \<Longrightarrow> entry_size e \<le> 122"
  by (simp_all add: entry_size_def entry_wf_def)

section \<open>Decoding one entry\<close>

lemma decode_entry_safe:
  assumes "offset \<le> length p"
  shows "\<exists>r. decode_schema_entry p tot start i offset = Some r
    \<and> (\<forall>e off'. r = Ok (e, off') \<longrightarrow> off' \<le> length p)"
proof (cases "length p - offset < 44")
  case True
  then show ?thesis
    using assms by (simp add: decode_schema_entry_def sub_size_def)
next
  case False
  then show ?thesis
    using assms
    by (auto simp: decode_schema_entry_def sub_size_def get_slice slice_Some rd_Some Let_def)
qed

lemma decode_entry_bytes:
  assumes "p = pre @ schema_entry_bytes e @ rest" and "entry_wf tot start i e"
  shows "decode_schema_entry p tot start i (length pre) = Some (Ok (e, length pre + entry_size e))"
proof -
  have n: "unat (of_nat (length (se_name e)) :: u16) = length (se_name e)"
    and u: "unat (of_nat (length (se_unit e)) :: u16) = length (se_unit e)"
    using assms(2) by (simp_all add: entry_wf_def unat_of_nat_small)
  have len: "length p = length pre + entry_size e + length rest"
    using assms(1) by simp
  have dp: "drop (length pre + k) p = drop k (schema_entry_bytes e @ rest)" for k
    using assms(1) by simp
  have np: "k < entry_size e \<Longrightarrow> p ! (length pre + k) = schema_entry_bytes e ! k" for k
    using assms(1) by (simp add: nth_append)
  have d0: "drop (length pre) p = schema_entry_bytes e @ rest"
    using dp [of 0] by simp
  obtain f where f: "schema_entry_bytes e = f @ se_name e @ se_unit e" "length f = 44"
    by (rule that [of "be64 (se_stable_id e) @ be32 (se_index e)
      @ be32 (se_invalid_signal_index e) @ be16 (se_can_id e) @ [se_kind e, se_source e, se_width e, se_flags e]
      @ be16 (of_nat (length (se_name e))) @ be16 (of_nat (length (se_unit e))) @ be16 0
      @ be64 (se_scale e) @ be64 (se_offset e)"]) (simp_all add: schema_entry_bytes_def)
  have strs: "take (length (se_name e)) (drop 44 (schema_entry_bytes e @ rest)) = se_name e"
    "take (length (se_unit e)) (drop (44 + length (se_name e)) (schema_entry_bytes e @ rest)) = se_unit e"
    by (simp_all add: f)
  have lens: "of_be16 (take 2 (drop 22 (schema_entry_bytes e @ rest))) = of_nat (length (se_name e))"
    "of_be16 (take 2 (drop 24 (schema_entry_bytes e @ rest))) = of_nat (length (se_unit e))"
    "of_be16 (take 2 (drop 26 (schema_entry_bytes e @ rest))) = 0"
    by (simp_all add: schema_entry_bytes_def)
  have fields: "of_be64 (take 8 (schema_entry_bytes e @ rest)) = se_stable_id e"
    "of_be32 (take 4 (drop 8 (schema_entry_bytes e @ rest))) = se_index e"
    "of_be32 (take 4 (drop 12 (schema_entry_bytes e @ rest))) = se_invalid_signal_index e"
    "of_be16 (take 2 (drop 16 (schema_entry_bytes e @ rest))) = se_can_id e"
    "schema_entry_bytes e ! 18 = se_kind e" "schema_entry_bytes e ! 19 = se_source e"
    "schema_entry_bytes e ! 20 = se_width e" "schema_entry_bytes e ! 21 = se_flags e"
    "of_be64 (take 8 (drop 28 (schema_entry_bytes e @ rest))) = se_scale e"
    "of_be64 (take 8 (drop 36 (schema_entry_bytes e @ rest))) = se_offset e"
    by (simp_all add: schema_entry_bytes_def nth_append)
  have fits: "entry_size e = 44 + length (se_name e) + length (se_unit e)"
    by (simp add: entry_size_def)
  show ?thesis
    using assms(2)
    by (auto simp: decode_schema_entry_def sub_size_def get_slice slice_Some rd_Some Let_def len dp np d0
        strs lens fields n u fits entry_wf_def not_less add.assoc simp del: take_append drop_append)
qed

section \<open>Decoding a chunk\<close>

lemma decode_schema_chunk_safe: "\<exists>r. roadcast_decode_schema_chunk p cap = Some r"
proof (cases "length p < 24")
  case True
  then show ?thesis
    by (simp add: roadcast_decode_schema_chunk_def)
next
  case False
  let ?body = "\<lambda>tot start i (entries, offset). bindR (decode_schema_entry p tot start i offset)
      (\<lambda>(entry, offset'). Some (Ok (entries @ [entry], offset')))"
  have loop: "\<exists>r. for_ret 0 n (?body tot start) ([], 24) = Some r" for n tot start
  proof -
    have "\<exists>r. for_ret 0 n (?body tot start) ([], 24) = Some r
        \<and> (\<forall>t. r = Ok t \<longrightarrow> (\<lambda>_ s. snd s \<le> length p) (0 + n) t)"
    proof (rule for_ret_invariant)
      fix k and t :: "roadcast_schema_entry list \<times> nat"
      assume "snd t \<le> length p"
      then obtain r where "decode_schema_entry p tot start k (snd t) = Some r"
          "\<forall>e off'. r = Ok (e, off') \<longrightarrow> off' \<le> length p"
        using decode_entry_safe by blast
      then show "\<exists>r. ?body tot start k t = Some r \<and> (\<forall>t'. r = Ok t' \<longrightarrow> snd t' \<le> length p)"
        by (cases r; cases t) auto
    qed (use False in simp)
    then show ?thesis by blast
  qed
  show ?thesis
    using False
    by (auto simp: roadcast_decode_schema_chunk_def get_slice slice_Some intro!: bindR_safe loop)
qed

lemma decode_entries_bytes:
  assumes "p = pre @ concat (map schema_entry_bytes es) @ rest"
    and "\<forall>j < length es. entry_wf tot start (i + j) (es ! j)"
  shows "for_ret i (length es) (\<lambda>i (entries, offset). bindR (decode_schema_entry p tot start i offset)
      (\<lambda>(entry, offset'). Some (Ok (entries @ [entry], offset')))) (acc, length pre)
    = Some (Ok (acc @ es, length pre + length (concat (map schema_entry_bytes es))))"
  using assms
proof (induction es arbitrary: pre i acc)
  case Nil
  then show ?case by simp
next
  case (Cons e es)
  have "entry_wf tot start i e"
    using Cons.prems(2) by force
  then have hd: "decode_schema_entry p tot start i (length pre) = Some (Ok (e, length pre + entry_size e))"
    by (intro decode_entry_bytes) (use Cons.prems(1) in simp_all)
  have "\<forall>j < length es. entry_wf tot start (Suc i + j) (es ! j)"
    using Cons.prems(2) by force
  then have "for_ret (Suc i) (length es) (\<lambda>i (entries, offset). bindR (decode_schema_entry p tot start i offset)
      (\<lambda>(entry, offset'). Some (Ok (entries @ [entry], offset')))) (acc @ [e], length (pre @ schema_entry_bytes e))
    = Some (Ok ((acc @ [e]) @ es, length (pre @ schema_entry_bytes e) + length (concat (map schema_entry_bytes es))))"
    by (intro Cons.IH) (use Cons.prems(1) in simp_all)
  with hd show ?case
    by (simp add: add.assoc)
qed

definition schema_chunk_bytes :: "u32 \<Rightarrow> u32 \<Rightarrow> u32 \<Rightarrow> u64 \<Rightarrow> roadcast_schema_entry list \<Rightarrow> bytes" where
  "schema_chunk_bytes version tot start hash es =
     schema_prefix_bytes version tot start (of_nat (length es)) hash @ concat (map schema_entry_bytes es)"

lemma decode_schema_chunk_bytes:
  assumes "\<forall>i < length es. entry_wf tot start i (es ! i)" and "length es \<le> cap"
    and "start \<le> tot" and "length es \<le> unat (tot - start)"
  shows "roadcast_decode_schema_chunk (schema_chunk_bytes version tot start hash es) cap
       = Some (Ok (version, tot, start, hash, es))"
proof -
  let ?p = "schema_chunk_bytes version tot start hash es"
  have n: "unat (of_nat (length es) :: u32) = length es"
    using assms(4) unat_le_max(3) [of "tot - start"] by (intro unat_of_nat_small) simp
  have cnt: "(of_nat (length es) :: u32) \<le> tot - start"
    using assms(4) by (simp add: word_le_nat_alt n)
  have loop: "for_ret 0 (length es) (\<lambda>i (entries, offset). bindR (decode_schema_entry ?p tot start i offset)
      (\<lambda>(entry, offset'). Some (Ok (entries @ [entry], offset')))) ([], 24)
    = Some (Ok (es, length ?p))"
    using decode_entries_bytes [where p = ?p and es = es and i = 0 and acc = "[]" and rest = "[]"
        and pre = "schema_prefix_bytes version tot start (of_nat (length es)) hash"] assms(1)
    by (simp add: schema_chunk_bytes_def)
  have pre: "of_be32 (take 4 ?p) = version" "of_be32 (take 4 (drop 4 ?p)) = tot"
    "of_be32 (take 4 (drop 8 ?p)) = start" "of_be32 (take 4 (drop 12 ?p)) = of_nat (length es)"
    "of_be64 (take 8 (drop 16 ?p)) = hash"
    by (simp_all add: schema_chunk_bytes_def schema_prefix_bytes_def)
  have "24 \<le> length ?p"
    by (simp add: schema_chunk_bytes_def)
  then show ?thesis
    using assms(2,3) cnt
    by (simp add: roadcast_decode_schema_chunk_def get_slice slice_Some pre n loop not_less)
qed

section \<open>Only layouts are accepted\<close>

lemma decode_entry_fields:
  assumes "decode_schema_entry p tot start i off = Some (Ok (e, off'))" and "off \<le> length p"
  defines "n \<equiv> unat (of_be16 (take 2 (drop (off + 22) p)))"
    and "u \<equiv> unat (of_be16 (take 2 (drop (off + 24) p)))"
  shows "off + 44 + n + u \<le> length p" and "off' = off + 44 + n + u" and "n \<le> 63" and "u \<le> 15"
    and "of_be16 (take 2 (drop (off + 26) p)) = 0"
    and "e = \<lparr>se_stable_id = of_be64 (take 8 (drop off p)), se_index = of_be32 (take 4 (drop (off + 8) p)),
       se_invalid_signal_index = of_be32 (take 4 (drop (off + 12) p)),
       se_can_id = of_be16 (take 2 (drop (off + 16) p)), se_kind = p ! (off + 18), se_source = p ! (off + 19),
       se_width = p ! (off + 20), se_flags = p ! (off + 21), se_scale = of_be64 (take 8 (drop (off + 28) p)),
       se_offset = of_be64 (take 8 (drop (off + 36) p)), se_name = take n (drop (off + 44) p),
       se_unit = take u (drop (off + 44 + n) p)\<rparr>"
    and "of_be32 (take 4 (drop (off + 8) p)) = start + of_nat i" and "p ! (off + 18) = 2" and "p ! (off + 19) = 1"
    and "0 < p ! (off + 20)" and "p ! (off + 20) \<le> 64"
    and "of_be32 (take 4 (drop (off + 12) p)) < tot \<or> of_be32 (take 4 (drop (off + 12) p)) = UINT32_MAX"
proof -
  have "44 \<le> length p - off"
    using assms(1,2) by (auto simp: decode_schema_entry_def sub_size_def split: if_splits)
  then have len: "off + 44 \<le> length p"
    using assms(2) by simp
  note fields = assms(1) [unfolded decode_schema_entry_def, simplified sub_size_def, simplified]
  show "off + 44 + n + u \<le> length p" "off' = off + 44 + n + u" "n \<le> 63" "u \<le> 15"
    "of_be16 (take 2 (drop (off + 26) p)) = 0"
    and "e = \<lparr>se_stable_id = of_be64 (take 8 (drop off p)), se_index = of_be32 (take 4 (drop (off + 8) p)),
       se_invalid_signal_index = of_be32 (take 4 (drop (off + 12) p)),
       se_can_id = of_be16 (take 2 (drop (off + 16) p)), se_kind = p ! (off + 18), se_source = p ! (off + 19),
       se_width = p ! (off + 20), se_flags = p ! (off + 21), se_scale = of_be64 (take 8 (drop (off + 28) p)),
       se_offset = of_be64 (take 8 (drop (off + 36) p)), se_name = take n (drop (off + 44) p),
       se_unit = take u (drop (off + 44 + n) p)\<rparr>"
    and "of_be32 (take 4 (drop (off + 8) p)) = start + of_nat i" "p ! (off + 18) = 2" "p ! (off + 19) = 1"
    "0 < p ! (off + 20)" "p ! (off + 20) \<le> 64"
    "of_be32 (take 4 (drop (off + 12) p)) < tot \<or> of_be32 (take 4 (drop (off + 12) p)) = UINT32_MAX"
    using fields len unfolding n_def u_def
    by (auto simp: get_slice slice_Some rd_Some Let_def not_less not_le word_gt_0 split: if_splits)
qed

lemma decode_entry_inv:
  assumes "decode_schema_entry p tot start i off = Some (Ok (e, off'))" and "off \<le> length p"
  shows "entry_wf tot start i e" and "off' = off + entry_size e" and "off' \<le> length p"
    and "take (entry_size e) (drop off p) = schema_entry_bytes e"
proof -
  note f = decode_entry_fields [OF assms]
  define n where "n = unat (of_be16 (take 2 (drop (off + 22) p)))"
  define u where "u = unat (of_be16 (take 2 (drop (off + 24) p)))"
  note g = f [folded n_def u_def]
  note e = g(6)
  have nl: "length (se_name e) = n" "length (se_unit e) = u"
    using g(1) by (simp_all add: e)
  show "off' = off + entry_size e" "off' \<le> length p"
    using g(1,2) nl by (simp_all add: entry_size_def)
  show "entry_wf tot start i e"
    using g(3,4) nl g(7-12) by (simp add: entry_wf_def) (simp add: e)
  have "[p ! (off + 18), p ! (off + 19), p ! (off + 20), p ! (off + 21)] = take 4 (drop (off + 18) p)"
    using g(1) by (auto intro!: nth_equalityI simp: nth_Cons' less_Suc_eq numeral_eq_Suc)
  then have tags: "[se_kind e, se_source e, se_width e, se_flags e] = take 4 (drop (off + 18) p)"
    by (simp add: e)
  have nums: "be64 (se_stable_id e) = take 8 (drop off p)" "be32 (se_index e) = take 4 (drop (off + 8) p)"
    "be32 (se_invalid_signal_index e) = take 4 (drop (off + 12) p)" "be16 (se_can_id e) = take 2 (drop (off + 16) p)"
    "be64 (se_scale e) = take 8 (drop (off + 28) p)" "be64 (se_offset e) = take 8 (drop (off + 36) p)"
    "se_name e = take n (drop (off + 44) p)" "se_unit e = take u (drop (off + 44 + n) p)"
    using g(1) by (simp_all add: e)
  have lens: "be16 (of_nat n) = take 2 (drop (off + 22) p)" "be16 (of_nat u) = take 2 (drop (off + 24) p)"
    using g(1) by (simp_all add: n_def u_def)
  have zero: "be16 0 = take 2 (drop (off + 26) p)"
    using g(1) by (simp flip: g(5))
  show "take (entry_size e) (drop off p) = schema_entry_bytes e"
    unfolding schema_entry_bytes_def tags nl lens zero nums(1-6) entry_size_def
    unfolding nums(7,8) by (simp add: join add.assoc)
qed

lemma decode_entries_inv:
  assumes "for_ret 0 n (\<lambda>i (entries, offset). bindR (decode_schema_entry p tot start i offset)
      (\<lambda>(entry, offset'). Some (Ok (entries @ [entry], offset')))) ([], 24) = Some (Ok (es, off))"
    and "24 \<le> length p"
  shows "length es = n \<and> off \<le> length p \<and> 24 \<le> off \<and> take (off - 24) (drop 24 p) = concat (map schema_entry_bytes es)
    \<and> (\<forall>j < n. entry_wf tot start j (es ! j))"
proof -
  let ?body = "\<lambda>i (entries, offset). bindR (decode_schema_entry p tot start i offset)
      (\<lambda>(entry, offset'). Some (Ok (entries @ [entry], offset')))"
  let ?I = "\<lambda>k (es, off). length es = k \<and> off \<le> length p \<and> 24 \<le> off
    \<and> take (off - 24) (drop 24 p) = concat (map schema_entry_bytes es) \<and> (\<forall>j < k. entry_wf tot start j (es ! j))"
  have "\<exists>r. for_ret 0 n ?body ([], 24) = Some r \<and> (\<forall>t. r = Ok t \<longrightarrow> ?I (0 + n) t)"
  proof (rule for_ret_invariant)
    show "?I 0 ([], 24)"
      using assms(2) by simp
  next
    fix k and t :: "roadcast_schema_entry list \<times> nat"
    assume I: "?I k t"
    obtain es o1 where t: "t = (es, o1)"
      by (cases t)
    obtain r where r: "decode_schema_entry p tot start k o1 = Some r"
      using decode_entry_safe [of o1 p tot start k] I t by auto
    show "\<exists>r. ?body k t = Some r \<and> (\<forall>t'. r = Ok t' \<longrightarrow> ?I (Suc k) t')"
    proof (cases r)
      case (Ok q)
      obtain e o2 where q: "q = (e, o2)"
        by (cases q)
      have o1: "o1 \<le> length p"
        using I t by simp
      note inv = decode_entry_inv [OF r [unfolded Ok q] o1]
      have "24 \<le> o1"
        using I t by simp
      with inv(2) have "o2 - 24 = o1 - 24 + entry_size e" "drop (o1 - 24) (drop 24 p) = drop o1 p"
        by simp_all
      then have "take (o2 - 24) (drop 24 p) = take (o1 - 24) (drop 24 p) @ take (entry_size e) (drop o1 p)"
        by (simp only: take_add)
      with inv I t r Ok q show ?thesis
        by (auto simp: nth_append less_Suc_eq)
    qed (use r t in auto)
  qed
  with assms(1) show ?thesis by auto
qed

lemma decode_schema_chunk_iff:
  "roadcast_decode_schema_chunk p cap = Some (Ok (version, tot, start, hash, es)) \<longleftrightarrow>
    p = schema_chunk_bytes version tot start hash es \<and> (\<forall>i < length es. entry_wf tot start i (es ! i))
    \<and> length es \<le> cap \<and> start \<le> tot \<and> length es \<le> unat (tot - start)"
  (is "?l \<longleftrightarrow> ?r")
proof
  assume ?r
  then show ?l
    using decode_schema_chunk_bytes by blast
next
  assume l: ?l
  then have len: "24 \<le> length p"
    by (auto simp: roadcast_decode_schema_chunk_def split: if_splits)
  let ?n = "of_be32 (take 4 (drop 12 p))"
  have pre: "version = of_be32 (take 4 p)" "tot = of_be32 (take 4 (drop 4 p))"
    "start = of_be32 (take 4 (drop 8 p))" "hash = of_be64 (take 8 (drop 16 p))"
    "unat ?n \<le> cap" "start \<le> tot" "?n \<le> tot - start"
    and loop: "for_ret 0 (unat ?n) (\<lambda>i (entries, offset). bindR (decode_schema_entry p tot start i offset)
      (\<lambda>(entry, offset'). Some (Ok (entries @ [entry], offset')))) ([], 24) = Some (Ok (es, length p))"
    using l len
    by (auto simp: roadcast_decode_schema_chunk_def get_slice slice_Some bindR_eq_Ok not_less split: if_splits)
  note inv = decode_entries_inv [OF loop len]
  have n: "of_nat (length es) = ?n"
    using inv by simp
  have "p = take 24 p @ concat (map schema_entry_bytes es)"
    using inv by (metis append_take_drop_id length_drop order_refl take_all)
  moreover have "take 24 p = schema_prefix_bytes version tot start (of_nat (length es)) hash"
    using len by (simp add: schema_prefix_bytes_def n pre(1-4) join)
  ultimately show ?r
    using inv pre(5-7) by (simp add: schema_chunk_bytes_def word_le_nat_alt)
qed

section \<open>Properties\<close>

text \<open>
  C22: Schema chunks from the network are decoded safely: for any payload and array capacity no byte outside the
  payload is read, and an accepted chunk fills at most the capacity, consists of entries with consecutive
  indices from its start index, widths from 1 to 64 and names and units within their buffers, and stays inside
  the announced total.
\<close>

theorem schema_chunk_safe:
  "\<exists>r. roadcast_decode_schema_chunk p cap = Some r \<and> (\<forall>version tot start hash es.
     r = Ok (version, tot, start, hash, es) \<longrightarrow> length es \<le> cap \<and> unat start + length es \<le> unat tot
       \<and> (\<forall>i < length es. se_index (es ! i) = start + of_nat i \<and> 1 \<le> se_width (es ! i) \<and> se_width (es ! i) \<le> 64
           \<and> length (se_name (es ! i)) \<le> ROADCAST_SCHEMA_NAME_MAX \<and> length (se_unit (es ! i)) \<le> ROADCAST_SCHEMA_UNIT_MAX))"
proof -
  obtain r where r: "roadcast_decode_schema_chunk p cap = Some r"
    using decode_schema_chunk_safe by blast
  show ?thesis
  proof (intro exI conjI allI impI)
    show "roadcast_decode_schema_chunk p cap = Some r" by (rule r)
  next
    fix version tot start hash es
    assume "r = Ok (version, tot, start, hash, es)"
    with r have c: "roadcast_decode_schema_chunk p cap = Some (Ok (version, tot, start, hash, es))"
      by simp
    note c = c [unfolded decode_schema_chunk_iff]
    then show "length es \<le> cap" by blast
    from c show "unat start + length es \<le> unat tot"
      using unat_sub [of start tot] by (auto simp: word_le_nat_alt)
    fix i assume "i < length es"
    with c have "entry_wf tot start i (es ! i)" by blast
    then show "se_index (es ! i) = start + of_nat i" "1 \<le> se_width (es ! i)" "se_width (es ! i) \<le> 64"
      "length (se_name (es ! i)) \<le> ROADCAST_SCHEMA_NAME_MAX" "length (se_unit (es ! i)) \<le> ROADCAST_SCHEMA_UNIT_MAX"
      by (auto simp: entry_wf_def word_le_nat_alt word_less_nat_alt)
  qed
qed

theorem schema_chunk_safe_witness:
  "\<exists>r. roadcast_decode_schema_chunk (schema_chunk_bytes 1 1 0 7
      [\<lparr>se_stable_id = 5, se_index = 0, se_invalid_signal_index = UINT32_MAX, se_can_id = 0x2F1, se_kind = 2,
        se_source = 1, se_width = 8, se_flags = 2, se_scale = 0, se_offset = 0, se_name = [65, 66], se_unit = [67]\<rparr>]) 1
      = Some r \<and> r \<noteq> Fail"
proof -
  let ?e = "\<lparr>se_stable_id = 5, se_index = 0, se_invalid_signal_index = UINT32_MAX, se_can_id = 0x2F1, se_kind = 2,
        se_source = 1, se_width = 8, se_flags = 2, se_scale = 0, se_offset = 0, se_name = [65, 66], se_unit = [67]\<rparr>"
  have "roadcast_decode_schema_chunk (schema_chunk_bytes 1 1 0 7 [?e]) 1 = Some (Ok (1, 1, 0, 7, [?e]))"
    by (rule decode_schema_chunk_bytes) (simp_all add: entry_wf_def)
  with schema_chunk_safe [of "schema_chunk_bytes 1 1 0 7 [?e]" 1] show ?thesis
    by auto
qed

end
