(* ===== verification/Client.thy ===== *)
theory Client
  imports Client_Io Batches Schema
begin

text \<open>
  The client library, \<^verbatim>\<open>src/client.c\<close> and \<^verbatim>\<open>include/roadcast_client.h\<close>: the handshake, schema discovery, the snapshot,
  the subscription, the reader thread with its live updates and resynchronisations, and the functions that read the
  cache.

  Arrays are lists, and an access outside one is \<^const>\<open>None\<close>, as is a loop that does not return.  Memory that the code
  does not clear is cleared here; its contents are never read.  The code that runs under \<^verbatim>\<open>cache_lock\<close> is one step.
  What a failed attempt leaves in buffers that are freed or never looked at again is not kept.
\<close>

abbreviation (input) CLIENT_MAX_FRAMES :: u32 where "CLIENT_MAX_FRAMES \<equiv> 65535"
abbreviation (input) CLIENT_MAX_SIGNALS :: u32 where "CLIENT_MAX_SIGNALS \<equiv> 100000"
abbreviation (input) CAN_ID_LOOKUP_CAP :: nat where "CAN_ID_LOOKUP_CAP \<equiv> 2048"

abbreviation (input) ROADCAST_CLIENT_OK :: int where "ROADCAST_CLIENT_OK \<equiv> 0"
abbreviation (input) ROADCAST_CLIENT_ERR_ARGUMENT :: int where "ROADCAST_CLIENT_ERR_ARGUMENT \<equiv> - 1"
abbreviation (input) ROADCAST_CLIENT_ERR_SOCKET :: int where "ROADCAST_CLIENT_ERR_SOCKET \<equiv> - 2"
abbreviation (input) ROADCAST_CLIENT_ERR_HANDSHAKE :: int where "ROADCAST_CLIENT_ERR_HANDSHAKE \<equiv> - 3"
abbreviation (input) ROADCAST_CLIENT_ERR_PROTOCOL :: int where "ROADCAST_CLIENT_ERR_PROTOCOL \<equiv> - 4"
abbreviation (input) ROADCAST_CLIENT_ERR_SCHEMA :: int where "ROADCAST_CLIENT_ERR_SCHEMA \<equiv> - 5"
abbreviation (input) ROADCAST_CLIENT_ERR_SNAPSHOT :: int where "ROADCAST_CLIENT_ERR_SNAPSHOT \<equiv> - 6"
abbreviation (input) ROADCAST_CLIENT_ERR_MEMORY :: int where "ROADCAST_CLIENT_ERR_MEMORY \<equiv> - 7"
abbreviation (input) ROADCAST_CLIENT_ERR_THREAD :: int where "ROADCAST_CLIENT_ERR_THREAD \<equiv> - 8"

record roadcast_client =
  k_fd :: int
  k_reader_started :: bool
  k_payload :: bytes
  k_payload_capacity :: nat
  k_frame_scratch :: "roadcast_frame list"
  k_frame_scratch_capacity :: nat
  k_signal_scratch :: "roadcast_signal_update list"
  k_signal_scratch_capacity :: nat
  k_schema :: "roadcast_schema_entry list"
  k_frames :: "roadcast_frame list"
  k_signals :: "roadcast_signal_value list"
  k_can_id_to_index :: "u16 list"
  k_hz :: u32
  k_frame_count :: u32
  k_signal_count :: u32
  k_schema_version :: u32
  k_schema_hash :: u64
  k_max_request_payload :: u32
  k_max_response_payload :: u32
  k_sample_sequence :: u64
  k_change_sequence :: u64
  k_sample_timestamp_ns :: u64
  k_dropped_batches :: u64
  k_coalesced_samples :: u64
  k_resynchronizations :: u64
  k_effective_hz_millihz :: u32
  k_source_state :: u8
  k_connected :: bool

record synchronization =
  sy_frames :: "roadcast_frame list"
  sy_signals :: "roadcast_signal_value list"
  sy_sample_sequence :: u64
  sy_change_sequence :: u64
  sy_sample_timestamp_ns :: u64

section \<open>Messages\<close>

definition op_deadline :: "net \<Rightarrow> u64 \<Rightarrow> nat \<Rightarrow> u64" where
  "op_deadline net max_deadline_ns n = (let op_deadline_ns = n_clock net n + CLIENT_READ_TIMEOUT_MS * 1000000 in
     if max_deadline_ns \<noteq> 0 then if max_deadline_ns < op_deadline_ns then max_deadline_ns else op_deadline_ns
     else op_deadline_ns)"

definition send_message :: "net \<Rightarrow> roadcast_client \<Rightarrow> u16 \<Rightarrow> bytes \<Rightarrow> nat \<Rightarrow> u64 \<Rightarrow> nat \<Rightarrow> (bool \<times> nat) option" where
  "send_message net c ty payload payload_length max_deadline_ns n =
    (if payload_length > unat (k_max_request_payload c) then Some (False, n)
     else do {
       let deadline_ns = op_deadline net max_deadline_ns n;
       header_bytes \<leftarrow> roadcast_encode_header (replicate ROADCAST_HEADER_SIZE 0)
         \<lparr>h_version = ROADCAST_PROTOCOL_VERSION, h_type = ty, h_flags = 0, h_payload_bytes = of_nat payload_length,
           h_sequence = 0, h_timestamp_ns = n_clock net (Suc n)\<rparr>;
       (ok, n) \<leftarrow> write_all net header_bytes deadline_ns (Suc (Suc n));
       if \<not> ok then Some (False, n)
       else if payload_length \<noteq> 0 then do {
         data \<leftarrow> slice payload 0 payload_length;
         write_all net data deadline_ns n }
       else Some (True, n) })"

definition read_message :: "net \<Rightarrow> roadcast_client \<Rightarrow> u64 \<Rightarrow> nat \<Rightarrow> ((roadcast_header \<times> roadcast_client) ret \<times> nat) option" where
  "read_message net c max_deadline_ns n = do {
     let deadline_ns = op_deadline net max_deadline_ns n;
     (ok, header_bytes, n) \<leftarrow> read_exact net ROADCAST_HEADER_SIZE [] deadline_ns (Suc n);
     if \<not> ok then Some (Fail, n)
     else do {
       decoded \<leftarrow> roadcast_decode_header header_bytes;
       case decoded of
         Fail \<Rightarrow> Some (Fail, n)
       | Ok header \<Rightarrow>
           if h_version header \<noteq> ROADCAST_PROTOCOL_VERSION \<or> h_flags header \<noteq> 0
              \<or> unat (h_payload_bytes header) > k_payload_capacity c
           then Some (Fail, n)
           else if h_payload_bytes header \<noteq> 0 then do {
             (ok, data, n) \<leftarrow> read_exact net (unat (h_payload_bytes header)) [] deadline_ns n;
             payload \<leftarrow> poke 0 data (k_payload c);
             if \<not> ok then Some (Fail, n) else Some (Ok (header, c\<lparr>k_payload := payload\<rparr>), n) }
           else Some (Ok (header, c), n) } }"

text \<open>The payload of the message just read.\<close>

definition message_payload :: "roadcast_client \<Rightarrow> roadcast_header \<Rightarrow> bytes option" where
  "message_payload c header = slice (k_payload c) 0 (unat (h_payload_bytes header))"

text \<open>A request with a start index, and the answer to it.\<close>

definition request_from :: "net \<Rightarrow> roadcast_client \<Rightarrow> u16 \<Rightarrow> u32 \<Rightarrow> u64 \<Rightarrow> nat
    \<Rightarrow> ((roadcast_header \<times> roadcast_client) ret \<times> nat) option" where
  "request_from net c ty next_index deadline_ns n = do {
     (len, request) \<leftarrow> roadcast_encode_index_request (replicate ROADCAST_SCHEMA_REQUEST_SIZE 0) next_index;
     (sent, n) \<leftarrow> send_message net c ty request ROADCAST_SCHEMA_REQUEST_SIZE deadline_ns n;
     if \<not> sent then Some (Fail, n) else read_message net c deadline_ns n }"

section \<open>Schema discovery\<close>

definition accept_schema_chunk :: "roadcast_client \<Rightarrow> u32 \<Rightarrow> roadcast_header \<Rightarrow> (roadcast_client \<times> u32) ret option" where
  "accept_schema_chunk c next_index header =
    (if h_type header \<noteq> ROADCAST_MSG_SCHEMA_CHUNK then Some Fail
     else do {
       payload \<leftarrow> message_payload c header;
       bindR (roadcast_decode_schema_chunk payload (unat (k_signal_count c - next_index)))
         (\<lambda>(schema_version, total_count, start_index, schema_hash, entries). do {
           schema \<leftarrow> poke (unat next_index) entries (k_schema c);
           if schema_version \<noteq> k_schema_version c \<or> schema_hash \<noteq> k_schema_hash c \<or> total_count \<noteq> k_signal_count c
              \<or> start_index \<noteq> next_index \<or> length entries = 0
           then Some Fail
           else Some (Ok (c\<lparr>k_schema := schema\<rparr>, next_index + of_nat (length entries))) }) })"

partial_function (option) request_schema :: "net \<Rightarrow> u64 \<Rightarrow> roadcast_client \<Rightarrow> u32 \<Rightarrow> nat \<Rightarrow> (roadcast_client ret \<times> nat) option" where
  "request_schema net deadline_ns c next_index n = (if next_index < k_signal_count c then do {
       (answer, n) \<leftarrow> request_from net c ROADCAST_MSG_GET_SCHEMA next_index deadline_ns n;
       case answer of
         Fail \<Rightarrow> Some (Fail, n)
       | Ok (header, c) \<Rightarrow> do {
           accepted \<leftarrow> accept_schema_chunk c next_index header;
           case accepted of
             Fail \<Rightarrow> Some (Fail, n)
           | Ok (c, next_index) \<Rightarrow> request_schema net deadline_ns c next_index n } }
     else Some (Ok c, n))"

section \<open>The snapshot\<close>

definition accept_frame_chunk ::
    "roadcast_client \<Rightarrow> synchronization \<Rightarrow> u32 \<Rightarrow> roadcast_header \<Rightarrow> (synchronization \<times> u32) ret option" where
  "accept_frame_chunk c sync next_index header =
    (if h_type header \<noteq> ROADCAST_MSG_SNAPSHOT then Some Fail
     else do {
       payload \<leftarrow> message_payload c header;
       bindR (roadcast_decode_frame_batch payload (unat (k_frame_count c - next_index)))
         (\<lambda>(sample_sequence, total_count, start_index, frames). do {
           stored \<leftarrow> poke (unat next_index) frames (sy_frames sync);
           let sync = sync\<lparr>sy_frames := stored\<rparr>;
           if total_count \<noteq> k_frame_count c \<or> start_index \<noteq> next_index \<or> length frames = 0 then Some Fail
           else if next_index = 0
           then Some (Ok (sync\<lparr>sy_sample_sequence := sample_sequence, sy_change_sequence := h_sequence header,
             sy_sample_timestamp_ns := h_timestamp_ns header\<rparr>, next_index + of_nat (length frames)))
           else if sample_sequence \<noteq> sy_sample_sequence sync \<or> h_sequence header \<noteq> sy_change_sequence sync
              \<or> h_timestamp_ns header \<noteq> sy_sample_timestamp_ns sync
           then Some Fail
           else Some (Ok (sync, next_index + of_nat (length frames))) }) })"

text \<open>\<^verbatim>\<open>can_id_to_index\<close> is filled from an array of frames.\<close>

definition index_frames :: "nat \<Rightarrow> roadcast_frame list \<Rightarrow> u16 list \<Rightarrow> u16 list option" where
  "index_frames count frames table = for_loop 0 count (\<lambda>i table. do {
     frame \<leftarrow> rd frames i;
     if unat (f_can_id frame) < CAN_ID_LOOKUP_CAP then poke (unat (f_can_id frame)) [of_nat i] table
     else Some table }) table"

partial_function (option) request_frames :: "net \<Rightarrow> u64 \<Rightarrow> roadcast_client \<Rightarrow> synchronization \<Rightarrow> u32 \<Rightarrow> nat
    \<Rightarrow> ((roadcast_client \<times> synchronization) ret \<times> nat) option" where
  "request_frames net deadline_ns c sync next_index n = (if next_index < k_frame_count c then do {
       (answer, n) \<leftarrow> request_from net c ROADCAST_MSG_GET_SNAPSHOT next_index deadline_ns n;
       case answer of
         Fail \<Rightarrow> Some (Fail, n)
       | Ok (header, c) \<Rightarrow> do {
           accepted \<leftarrow> accept_frame_chunk c sync next_index header;
           case accepted of
             Fail \<Rightarrow> Some (Fail, n)
           | Ok (sync, next_index) \<Rightarrow> request_frames net deadline_ns c sync next_index n } }
     else Some (Ok (c, sync), n))"

definition request_frame_snapshot :: "net \<Rightarrow> u64 \<Rightarrow> roadcast_client \<Rightarrow> synchronization \<Rightarrow> nat
    \<Rightarrow> ((roadcast_client \<times> synchronization) ret \<times> nat) option" where
  "request_frame_snapshot net deadline_ns c sync n = do {
     (r, n) \<leftarrow> request_frames net deadline_ns c sync 0 n;
     case r of
       Fail \<Rightarrow> Some (Fail, n)
     | Ok (c, sync) \<Rightarrow> do {
         table \<leftarrow> index_frames (unat (k_frame_count c)) (sy_frames sync) (k_can_id_to_index c);
         Some (Ok (c\<lparr>k_can_id_to_index := table\<rparr>, sync), n) } }"

definition accept_signal_chunk ::
    "roadcast_client \<Rightarrow> synchronization \<Rightarrow> u32 \<Rightarrow> roadcast_header \<Rightarrow> (roadcast_client \<times> synchronization \<times> u32) ret option" where
  "accept_signal_chunk c sync next_index header =
    (if h_type header \<noteq> ROADCAST_MSG_SIGNAL_SNAPSHOT_CHUNK \<or> h_sequence header \<noteq> sy_change_sequence sync
        \<or> h_timestamp_ns header \<noteq> sy_sample_timestamp_ns sync
     then Some Fail
     else do {
       payload \<leftarrow> message_payload c header;
       bindR (roadcast_decode_signal_batch payload (k_signal_scratch_capacity c))
         (\<lambda>(sample_sequence, total_count, start_index, updates). do {
           scratch \<leftarrow> poke 0 updates (k_signal_scratch c);
           let c = c\<lparr>k_signal_scratch := scratch\<rparr>;
           if sample_sequence \<noteq> sy_sample_sequence sync \<or> total_count \<noteq> k_signal_count c \<or> start_index \<noteq> next_index
              \<or> length updates = 0
           then Some Fail
           else bindR (for_ret 0 (length updates) (\<lambda>i signals. do {
               update \<leftarrow> rd scratch i;
               if unat (su_index update) \<noteq> unat next_index + i \<or> su_index update \<ge> k_signal_count c then Some Fail
               else map_option Ok (poke (unat (su_index update)) [su_value update] signals) }) (sy_signals sync))
             (\<lambda>signals. Some (Ok (c, sync\<lparr>sy_signals := signals\<rparr>, next_index + of_nat (length updates)))) }) })"

partial_function (option) request_signal_snapshot :: "net \<Rightarrow> u64 \<Rightarrow> roadcast_client \<Rightarrow> synchronization \<Rightarrow> u32 \<Rightarrow> nat
    \<Rightarrow> ((roadcast_client \<times> synchronization) ret \<times> nat) option" where
  "request_signal_snapshot net deadline_ns c sync next_index n = (if next_index < k_signal_count c then do {
       (answer, n) \<leftarrow> request_from net c ROADCAST_MSG_GET_SIGNAL_SNAPSHOT next_index deadline_ns n;
       case answer of
         Fail \<Rightarrow> Some (Fail, n)
       | Ok (header, c) \<Rightarrow> do {
           accepted \<leftarrow> accept_signal_chunk c sync next_index header;
           case accepted of
             Fail \<Rightarrow> Some (Fail, n)
           | Ok (c, sync, next_index) \<Rightarrow> request_signal_snapshot net deadline_ns c sync next_index n } }
     else Some (Ok (c, sync), n))"

section \<open>Update batches\<close>

definition decode_frame_batch :: "roadcast_client \<Rightarrow> roadcast_header \<Rightarrow> (u64 \<times> nat \<times> roadcast_client) ret option" where
  "decode_frame_batch c header = do {
     payload \<leftarrow> message_payload c header;
     bindR (roadcast_decode_frame_batch payload (k_frame_scratch_capacity c))
       (\<lambda>(sample_sequence, total_count, start_index, frames). do {
         scratch \<leftarrow> poke 0 frames (k_frame_scratch c);
         if total_count \<noteq> k_frame_count c \<or> start_index \<noteq> UINT32_MAX then Some Fail
         else Some (Ok (sample_sequence, length frames, c\<lparr>k_frame_scratch := scratch\<rparr>)) }) }"

text \<open>The index of a frame in the cache, \<^verbatim>\<open>UINT16_MAX\<close> for an identifier that has none.\<close>

definition frame_target :: "roadcast_client \<Rightarrow> u16 \<Rightarrow> u16 option" where
  "frame_target c can_id = (if unat can_id < CAN_ID_LOOKUP_CAP then rd (k_can_id_to_index c) (unat can_id) else Some 0xFFFF)"

text \<open>
  The loop of \<^verbatim>\<open>apply_decoded_frames\<close> from record \<open>i\<close> on; the records before one that is refused stay applied.
\<close>

fun apply_frames :: "roadcast_client \<Rightarrow> nat \<Rightarrow> nat \<Rightarrow> roadcast_frame list \<Rightarrow> (bool \<times> roadcast_frame list) option" where
  "apply_frames c i 0 frames = Some (True, frames)"
| "apply_frames c i (Suc k) frames = do {
     frame \<leftarrow> rd (k_frame_scratch c) i;
     target \<leftarrow> frame_target c (f_can_id frame);
     if unat target \<ge> unat (k_frame_count c) then Some (False, frames)
     else do {
       frames \<leftarrow> poke (unat target) [frame] frames;
       apply_frames c (Suc i) k frames } }"

definition apply_decoded_frames :: "roadcast_client \<Rightarrow> synchronization \<Rightarrow> roadcast_header \<Rightarrow> u64 \<Rightarrow> nat
    \<Rightarrow> (bool \<times> synchronization) option" where
  "apply_decoded_frames c sync header sample_sequence frame_count = do {
     (ok, frames) \<leftarrow> apply_frames c 0 frame_count (sy_frames sync);
     let sync = sync\<lparr>sy_frames := frames\<rparr>;
     if \<not> ok then Some (False, sync)
     else Some (True, sync\<lparr>sy_sample_sequence := sample_sequence, sy_change_sequence := h_sequence header,
       sy_sample_timestamp_ns := h_timestamp_ns header\<rparr>) }"

definition apply_frame_batch :: "roadcast_client \<Rightarrow> synchronization \<Rightarrow> roadcast_header
    \<Rightarrow> (roadcast_client \<times> synchronization) ret option" where
  "apply_frame_batch c sync header = bindR (decode_frame_batch c header) (\<lambda>(sample_sequence, frame_count, c). do {
     (ok, sync) \<leftarrow> apply_decoded_frames c sync header sample_sequence frame_count;
     Some (if ok then Ok (c, sync) else Fail) })"

definition decode_signal_batch :: "roadcast_client \<Rightarrow> roadcast_header \<Rightarrow> (u64 \<times> nat \<times> roadcast_client) ret option" where
  "decode_signal_batch c header = do {
     payload \<leftarrow> message_payload c header;
     bindR (roadcast_decode_signal_batch payload (k_signal_scratch_capacity c))
       (\<lambda>(sample_sequence, total_count, start_index, updates). do {
         scratch \<leftarrow> poke 0 updates (k_signal_scratch c);
         if total_count \<noteq> k_signal_count c \<or> start_index \<noteq> UINT32_MAX then Some Fail
         else Some (Ok (sample_sequence, length updates, c\<lparr>k_signal_scratch := scratch\<rparr>)) }) }"

fun apply_signals :: "roadcast_client \<Rightarrow> nat \<Rightarrow> nat \<Rightarrow> roadcast_signal_value list \<Rightarrow> (bool \<times> roadcast_signal_value list) option" where
  "apply_signals c i 0 signals = Some (True, signals)"
| "apply_signals c i (Suc k) signals = do {
     update \<leftarrow> rd (k_signal_scratch c) i;
     if su_index update \<ge> k_signal_count c then Some (False, signals)
     else do {
       signals \<leftarrow> poke (unat (su_index update)) [su_value update] signals;
       apply_signals c (Suc i) k signals } }"

definition apply_decoded_signals :: "roadcast_client \<Rightarrow> synchronization \<Rightarrow> roadcast_header \<Rightarrow> u64 \<Rightarrow> nat
    \<Rightarrow> (bool \<times> synchronization) option" where
  "apply_decoded_signals c sync header sample_sequence update_count = do {
     (ok, signals) \<leftarrow> apply_signals c 0 update_count (sy_signals sync);
     let sync = sync\<lparr>sy_signals := signals\<rparr>;
     if \<not> ok then Some (False, sync)
     else Some (True, sync\<lparr>sy_sample_sequence := sample_sequence, sy_change_sequence := h_sequence header,
       sy_sample_timestamp_ns := h_timestamp_ns header\<rparr>) }"

definition apply_signal_batch :: "roadcast_client \<Rightarrow> synchronization \<Rightarrow> roadcast_header
    \<Rightarrow> (roadcast_client \<times> synchronization) ret option" where
  "apply_signal_batch c sync header = bindR (decode_signal_batch c header) (\<lambda>(sample_sequence, update_count, c). do {
     (ok, sync) \<leftarrow> apply_decoded_signals c sync header sample_sequence update_count;
     Some (if ok then Ok (c, sync) else Fail) })"

section \<open>Subscribing and synchronising\<close>

partial_function (option) await_subscribed :: "net \<Rightarrow> u64 \<Rightarrow> roadcast_client \<Rightarrow> synchronization \<Rightarrow> nat
    \<Rightarrow> ((roadcast_client \<times> synchronization) ret \<times> nat) option" where
  "await_subscribed net deadline_ns c sync n = do {
     (answer, n) \<leftarrow> read_message net c deadline_ns n;
     case answer of
       Fail \<Rightarrow> Some (Fail, n)
     | Ok (header, c) \<Rightarrow>
         if h_type header = ROADCAST_MSG_SUBSCRIBED
         then Some (Ok (c, sync\<lparr>sy_change_sequence := h_sequence header, sy_sample_timestamp_ns := h_timestamp_ns header\<rparr>), n)
         else do {
           applied \<leftarrow> (if h_type header = ROADCAST_MSG_UPDATE_BATCH then apply_frame_batch c sync header
             else if h_type header = ROADCAST_MSG_SIGNAL_UPDATE_BATCH then apply_signal_batch c sync header
             else Some Fail);
           case applied of
             Fail \<Rightarrow> Some (Fail, n)
           | Ok (c, sync) \<Rightarrow> await_subscribed net deadline_ns c sync n } }"

definition complete_subscription :: "net \<Rightarrow> u64 \<Rightarrow> roadcast_client \<Rightarrow> synchronization \<Rightarrow> nat
    \<Rightarrow> ((roadcast_client \<times> synchronization) ret \<times> nat) option" where
  "complete_subscription net deadline_ns c sync n = do {
     (sent, n) \<leftarrow> send_message net c ROADCAST_MSG_SUBSCRIBE_ALL [] 0 deadline_ns n;
     if \<not> sent then Some (Fail, n) else await_subscribed net deadline_ns c sync n }"

definition initialize_synchronization :: "net \<Rightarrow> roadcast_client \<Rightarrow> nat \<Rightarrow> synchronization ret \<times> nat" where
  "initialize_synchronization net c n =
    (if \<not> n_alloc net n \<or> \<not> n_alloc net (Suc n) then (Fail, Suc (Suc n))
     else (Ok \<lparr>sy_frames = replicate (unat (k_frame_count c)) zero_frame,
       sy_signals = replicate (unat (k_signal_count c)) zero_signal,
       sy_sample_sequence = 0, sy_change_sequence = 0, sy_sample_timestamp_ns = 0\<rparr>, Suc (Suc n)))"

text \<open>The client is returned also after a failure: \<^verbatim>\<open>can_id_to_index\<close> may have changed.\<close>

definition synchronize :: "net \<Rightarrow> u64 \<Rightarrow> roadcast_client \<Rightarrow> synchronization \<Rightarrow> nat
    \<Rightarrow> (synchronization ret \<times> roadcast_client \<times> nat) option" where
  "synchronize net deadline_ns c sync n = do {
     (r, n) \<leftarrow> request_frame_snapshot net deadline_ns c sync n;
     case r of
       Fail \<Rightarrow> Some (Fail, c, n)
     | Ok (c, sync) \<Rightarrow> do {
         (r, n) \<leftarrow> request_signal_snapshot net deadline_ns c sync 0 n;
         case r of
           Fail \<Rightarrow> Some (Fail, c, n)
         | Ok (c, sync) \<Rightarrow> do {
             (r, n) \<leftarrow> complete_subscription net deadline_ns c sync n;
             case r of
               Fail \<Rightarrow> Some (Fail, c, n)
             | Ok (c, sync) \<Rightarrow> Some (Ok sync, c, n) } } }"

definition commit_synchronization :: "roadcast_client \<Rightarrow> synchronization \<Rightarrow> roadcast_client option" where
  "commit_synchronization c sync = do {
     new_frames \<leftarrow> slice (sy_frames sync) 0 (unat (k_frame_count c));
     frames \<leftarrow> poke 0 new_frames (k_frames c);
     new_signals \<leftarrow> slice (sy_signals sync) 0 (unat (k_signal_count c));
     signals \<leftarrow> poke 0 new_signals (k_signals c);
     table \<leftarrow> for_loop 0 CAN_ID_LOOKUP_CAP (\<lambda>i table. poke i [0xFFFF] table) (k_can_id_to_index c);
     table \<leftarrow> index_frames (unat (k_frame_count c)) frames table;
     Some (c\<lparr>k_frames := frames, k_signals := signals, k_sample_sequence := sy_sample_sequence sync,
       k_change_sequence := sy_change_sequence sync, k_sample_timestamp_ns := sy_sample_timestamp_ns sync,
       k_connected := True, k_can_id_to_index := table\<rparr>) }"

definition resynchronize :: "net \<Rightarrow> roadcast_client \<Rightarrow> nat \<Rightarrow> (bool \<times> roadcast_client \<times> nat) option" where
  "resynchronize net c n = do {
     let resync_deadline_ns = n_clock net n + CLIENT_SETUP_TIMEOUT_MS * 1000000;
     case initialize_synchronization net c (Suc n) of
       (Fail, n) \<Rightarrow> Some (False, c, n)
     | (Ok sync, n) \<Rightarrow> do {
         (result, c, n) \<leftarrow> synchronize net resync_deadline_ns c sync n;
         case result of
           Fail \<Rightarrow> Some (False, c, n)
         | Ok sync \<Rightarrow> do {
             c \<leftarrow> commit_synchronization c sync;
             Some (True, c\<lparr>k_resynchronizations := k_resynchronizations c + 1\<rparr>, n) } } }"

section \<open>Live updates\<close>

text \<open>The arrays of the synchronisation are those of the cache.\<close>

definition cache_of :: "roadcast_client \<Rightarrow> synchronization" where
  "cache_of c = \<lparr>sy_frames = k_frames c, sy_signals = k_signals c, sy_sample_sequence = k_sample_sequence c,
     sy_change_sequence = k_change_sequence c, sy_sample_timestamp_ns = k_sample_timestamp_ns c\<rparr>"

definition apply_live_frame_batch :: "roadcast_client \<Rightarrow> roadcast_header \<Rightarrow> (bool \<times> roadcast_client) option" where
  "apply_live_frame_batch c header = do {
     decoded \<leftarrow> decode_frame_batch c header;
     case decoded of
       Fail \<Rightarrow> Some (False, c)
     | Ok (sample_sequence, frame_count, c) \<Rightarrow> do {
         (ok, sync) \<leftarrow> apply_decoded_frames c (cache_of c) header sample_sequence frame_count;
         let c = c\<lparr>k_frames := sy_frames sync\<rparr>;
         Some (ok, if ok then c\<lparr>k_sample_sequence := sy_sample_sequence sync, k_change_sequence := sy_change_sequence sync,
           k_sample_timestamp_ns := sy_sample_timestamp_ns sync\<rparr> else c) } }"

definition apply_live_signal_batch :: "roadcast_client \<Rightarrow> roadcast_header \<Rightarrow> (bool \<times> roadcast_client) option" where
  "apply_live_signal_batch c header = do {
     decoded \<leftarrow> decode_signal_batch c header;
     case decoded of
       Fail \<Rightarrow> Some (False, c)
     | Ok (sample_sequence, update_count, c) \<Rightarrow> do {
         (ok, sync) \<leftarrow> apply_decoded_signals c (cache_of c) header sample_sequence update_count;
         let c = c\<lparr>k_signals := sy_signals sync\<rparr>;
         Some (ok, if ok then c\<lparr>k_sample_sequence := sy_sample_sequence sync, k_change_sequence := sy_change_sequence sync,
           k_sample_timestamp_ns := sy_sample_timestamp_ns sync\<rparr> else c) } }"

definition apply_heartbeat :: "roadcast_client \<Rightarrow> roadcast_header \<Rightarrow> (bool \<times> roadcast_client) option" where
  "apply_heartbeat c header = do {
     payload \<leftarrow> message_payload c header;
     decoded \<leftarrow> roadcast_decode_heartbeat payload;
     case decoded of
       Fail \<Rightarrow> Some (False, c)
     | Ok hb \<Rightarrow>
         if hb_change_sequence hb \<noteq> h_sequence header then Some (False, c)
         else Some (True, c\<lparr>k_sample_sequence := hb_sample_sequence hb, k_change_sequence := hb_change_sequence hb,
           k_sample_timestamp_ns := h_timestamp_ns header, k_dropped_batches := hb_dropped_batches hb,
           k_coalesced_samples := hb_coalesced_samples hb, k_effective_hz_millihz := hb_effective_hz_millihz hb,
           k_source_state := hb_source_state hb\<rparr>) }"

definition mark_disconnected :: "roadcast_client \<Rightarrow> roadcast_client" where
  "mark_disconnected c = c\<lparr>k_connected := False\<rparr>"

text \<open>The \<^verbatim>\<open>switch\<close> of the reader thread.\<close>

definition handle_message :: "net \<Rightarrow> roadcast_client \<Rightarrow> roadcast_header \<Rightarrow> nat \<Rightarrow> (bool \<times> roadcast_client \<times> nat) option" where
  "handle_message net c header n =
    (if h_type header = ROADCAST_MSG_UPDATE_BATCH then map_option (\<lambda>(ok, c). (ok, c, n)) (apply_live_frame_batch c header)
     else if h_type header = ROADCAST_MSG_SIGNAL_UPDATE_BATCH
     then map_option (\<lambda>(ok, c). (ok, c, n)) (apply_live_signal_batch c header)
     else if h_type header = ROADCAST_MSG_HEARTBEAT then map_option (\<lambda>(ok, c). (ok, c, n)) (apply_heartbeat c header)
     else if h_type header = ROADCAST_MSG_RESYNC_REQUIRED
     then if h_payload_bytes header = 0 then resynchronize net c n else Some (False, c, n)
     else Some (False, c, n))"

text \<open>One round of its loop, and whether there is another.\<close>

definition reader_round :: "net \<Rightarrow> roadcast_client \<Rightarrow> nat \<Rightarrow> (bool \<times> roadcast_client \<times> nat) option" where
  "reader_round net c n = (if n_stop net n then Some (False, c, n)
     else do {
       (answer, n) \<leftarrow> read_message net c 0 (Suc n);
       case answer of
         Fail \<Rightarrow> Some (False, c, n)
       | Ok (header, c) \<Rightarrow> handle_message net c header n })"

partial_function (option) reader_thread_main :: "net \<Rightarrow> roadcast_client \<Rightarrow> nat \<Rightarrow> (roadcast_client \<times> nat) option" where
  "reader_thread_main net c n = do {
     (again, c, n) \<leftarrow> reader_round net c n;
     if again then reader_thread_main net c n else Some (mark_disconnected c, n) }"

section \<open>Connecting\<close>

definition perform_handshake :: "net \<Rightarrow> u64 \<Rightarrow> roadcast_client \<Rightarrow> nat \<Rightarrow> (roadcast_client ret \<times> nat) option" where
  "perform_handshake net deadline_ns c n = do {
     (hello_length, hello) \<leftarrow> roadcast_encode_hello (replicate 8 0);
     (sent, n) \<leftarrow> send_message net c ROADCAST_MSG_HELLO hello hello_length deadline_ns n;
     if \<not> sent then Some (Fail, n)
     else do {
       (answer, n) \<leftarrow> read_message net c deadline_ns n;
       case answer of
         Fail \<Rightarrow> Some (Fail, n)
       | Ok (header, c) \<Rightarrow>
           if h_type header \<noteq> ROADCAST_MSG_WELCOME then Some (Fail, n)
           else do {
             payload \<leftarrow> message_payload c header;
             decoded \<leftarrow> roadcast_decode_welcome payload;
             case decoded of
               Fail \<Rightarrow> Some (Fail, n)
             | Ok w \<Rightarrow>
                 if w_capabilities w AND ROADCAST_CAP_RAW_CAN = 0 \<or> w_capabilities w AND ROADCAST_CAP_DECODED_CAN = 0
                    \<or> w_frame_count w = 0 \<or> w_frame_count w > CLIENT_MAX_FRAMES
                    \<or> w_signal_count w = 0 \<or> w_signal_count w > CLIENT_MAX_SIGNALS
                    \<or> unat (w_max_request_payload w) < 8
                    \<or> unat (w_max_response_payload w) < ROADCAST_WELCOME_SIZE
                    \<or> unat (w_max_response_payload w) > ROADCAST_MAX_PAYLOAD
                 then Some (Fail, n)
                 else Some (Ok (c\<lparr>k_hz := w_hz w, k_frame_count := w_frame_count w, k_signal_count := w_signal_count w,
                   k_max_request_payload := w_max_request_payload w, k_max_response_payload := w_max_response_payload w,
                   k_schema_version := w_schema_version w, k_schema_hash := w_schema_hash w\<rparr>), n) } } }"

text \<open>The client after \<^verbatim>\<open>calloc\<close> and the first initialisations.\<close>

definition new_client :: roadcast_client where
  "new_client = \<lparr>k_fd = - 1, k_reader_started = False, k_payload = replicate ROADCAST_WELCOME_SIZE 0,
     k_payload_capacity = ROADCAST_WELCOME_SIZE, k_frame_scratch = [], k_frame_scratch_capacity = 0,
     k_signal_scratch = [], k_signal_scratch_capacity = 0, k_schema = [], k_frames = [], k_signals = [],
     k_can_id_to_index = replicate CAN_ID_LOOKUP_CAP 0xFFFF, k_hz = 0, k_frame_count = 0, k_signal_count = 0,
     k_schema_version = 0, k_schema_hash = 0, k_max_request_payload = 8, k_max_response_payload = 0,
     k_sample_sequence = 0, k_change_sequence = 0, k_sample_timestamp_ns = 0, k_dropped_batches = 0,
     k_coalesced_samples = 0, k_resynchronizations = 0, k_effective_hz_millihz = 0, k_source_state = 0,
     k_connected = False\<rparr>"

definition zero_schema_entry :: roadcast_schema_entry where
  "zero_schema_entry = \<lparr>se_stable_id = 0, se_index = 0, se_invalid_signal_index = 0, se_can_id = 0, se_kind = 0, se_source = 0,
     se_width = 0, se_flags = 0, se_scale = 0, se_offset = 0, se_name = [], se_unit = []\<rparr>"

text \<open>The buffers whose sizes the handshake has fixed; the five allocations are all made before any is tested.\<close>

definition allocate_cache :: "net \<Rightarrow> roadcast_client \<Rightarrow> nat \<Rightarrow> roadcast_client ret \<times> nat" where
  "allocate_cache net c n = (let m = unat (k_max_response_payload c) in
     if \<not> n_alloc net n then (Fail, Suc n)
     else let c = c\<lparr>k_payload := take m (k_payload c) @ replicate (m - length (k_payload c)) 0, k_payload_capacity := m,
         k_schema := replicate (unat (k_signal_count c)) zero_schema_entry,
         k_frames := replicate (unat (k_frame_count c)) zero_frame,
         k_signals := replicate (unat (k_signal_count c)) zero_signal,
         k_frame_scratch_capacity := (m - ROADCAST_BATCH_PREFIX_SIZE) div ROADCAST_FRAME_WIRE_SIZE,
         k_signal_scratch_capacity := (m - ROADCAST_BATCH_PREFIX_SIZE) div ROADCAST_SIGNAL_WIRE_SIZE,
         k_frame_scratch := replicate ((m - ROADCAST_BATCH_PREFIX_SIZE) div ROADCAST_FRAME_WIRE_SIZE) zero_frame,
         k_signal_scratch := replicate ((m - ROADCAST_BATCH_PREFIX_SIZE) div ROADCAST_SIGNAL_WIRE_SIZE)
           \<lparr>su_index = 0, su_value = zero_signal\<rparr>\<rparr>
       in if \<forall>i \<in> {1..5}. n_alloc net (n + i) then (Ok c, n + 6) else (Fail, n + 6))"

text \<open>What follows the handshake, up to the creation of the reader thread; a failure is an error code.\<close>

definition setup_client :: "net \<Rightarrow> u64 \<Rightarrow> roadcast_client \<Rightarrow> nat \<Rightarrow> ((int + roadcast_client) \<times> nat) option" where
  "setup_client net setup_deadline_ns c n =
    (case allocate_cache net c n of
       (Fail, n) \<Rightarrow> Some (Inl ROADCAST_CLIENT_ERR_MEMORY, n)
     | (Ok c, n) \<Rightarrow> do {
         (r, n) \<leftarrow> request_schema net setup_deadline_ns c 0 n;
         case r of
           Fail \<Rightarrow> Some (Inl ROADCAST_CLIENT_ERR_SCHEMA, n)
         | Ok c \<Rightarrow>
             (case initialize_synchronization net c n of
                (Fail, n) \<Rightarrow> Some (Inl ROADCAST_CLIENT_ERR_MEMORY, n)
              | (Ok sync, n) \<Rightarrow> do {
                  (result, c, n) \<leftarrow> synchronize net setup_deadline_ns c sync n;
                  case result of
                    Fail \<Rightarrow> Some (Inl ROADCAST_CLIENT_ERR_SNAPSHOT, n)
                  | Ok sync \<Rightarrow> do {
                      c \<leftarrow> commit_synchronization c sync;
                      if \<not> n_thread net n then Some (Inl ROADCAST_CLIENT_ERR_THREAD, Suc n)
                      else Some (Inr (c\<lparr>k_reader_started := True\<rparr>), Suc n) } }) })"

definition roadcast_client_connect :: "net \<Rightarrow> bytes option \<Rightarrow> nat \<Rightarrow> ((int + roadcast_client) \<times> nat) option" where
  "roadcast_client_connect net socket_name n = (case socket_name of
     None \<Rightarrow> Some (Inl ROADCAST_CLIENT_ERR_ARGUMENT, n)
   | Some name \<Rightarrow>
       if c_string name = [] then Some (Inl ROADCAST_CLIENT_ERR_ARGUMENT, n)
       else if \<not> n_alloc net n then Some (Inl ROADCAST_CLIENT_ERR_MEMORY, Suc n)
       else if \<not> n_alloc net (Suc n) then Some (Inl ROADCAST_CLIENT_ERR_MEMORY, n + 2)
       else if \<not> n_alloc net (n + 2) then Some (Inl ROADCAST_CLIENT_ERR_MEMORY, n + 3)
       else do {
         let setup_deadline_ns = n_clock net (n + 3) + CLIENT_SETUP_TIMEOUT_MS * 1000000;
         (fd, n) \<leftarrow> connect_socket net (c_string name) setup_deadline_ns (n + 4);
         if fd < 0 then Some (Inl ROADCAST_CLIENT_ERR_SOCKET, n)
         else do {
           (r, n) \<leftarrow> perform_handshake net setup_deadline_ns (new_client\<lparr>k_fd := fd\<rparr>) n;
           case r of
             Fail \<Rightarrow> Some (Inl ROADCAST_CLIENT_ERR_HANDSHAKE, n)
           | Ok c \<Rightarrow> setup_client net setup_deadline_ns c n } })"

text \<open>What closing does, in order; the last is freeing all memory.\<close>

datatype release = Stop_Reader | Shutdown_Socket | Join_Reader | Close_Socket | Free_Memory

definition roadcast_client_close :: "roadcast_client option \<Rightarrow> release list" where
  "roadcast_client_close client = (case client of
     None \<Rightarrow> []
   | Some c \<Rightarrow> [Stop_Reader] @ (if k_fd c \<ge> 0 then [Shutdown_Socket] else []) @ (if k_reader_started c then [Join_Reader] else [])
       @ (if k_fd c \<ge> 0 then [Close_Socket] else []) @ [Free_Memory])"

section \<open>Reading the cache\<close>

text \<open>A pointer argument is \<^const>\<open>None\<close> when it is NULL.  A result that is not written is \<^const>\<open>None\<close>.\<close>

record roadcast_client_status_t =
  t_hz :: u32
  t_frame_count :: u32
  t_signal_count :: u32
  t_schema_version :: u32
  t_schema_hash :: u64
  t_sample_sequence :: u64
  t_change_sequence :: u64
  t_sample_timestamp_ns :: u64
  t_dropped_batches :: u64
  t_coalesced_samples :: u64
  t_resynchronizations :: u64
  t_effective_hz_millihz :: u32
  t_source_state :: u8
  t_connected :: bool

definition roadcast_client_status :: "roadcast_client option \<Rightarrow> bool \<Rightarrow> int \<times> roadcast_client_status_t option" where
  "roadcast_client_status client has_status = (case client of
     Some c \<Rightarrow> if has_status then (ROADCAST_CLIENT_OK, Some \<lparr>t_hz = k_hz c, t_frame_count = k_frame_count c,
         t_signal_count = k_signal_count c, t_schema_version = k_schema_version c, t_schema_hash = k_schema_hash c,
         t_sample_sequence = k_sample_sequence c, t_change_sequence = k_change_sequence c,
         t_sample_timestamp_ns = k_sample_timestamp_ns c, t_dropped_batches = k_dropped_batches c,
         t_coalesced_samples = k_coalesced_samples c, t_resynchronizations = k_resynchronizations c,
         t_effective_hz_millihz = k_effective_hz_millihz c, t_source_state = k_source_state c, t_connected = k_connected c\<rparr>)
       else (ROADCAST_CLIENT_ERR_ARGUMENT, None)
   | None \<Rightarrow> (ROADCAST_CLIENT_ERR_ARGUMENT, None))"

definition roadcast_client_schema_at :: "roadcast_client option \<Rightarrow> u32 \<Rightarrow> roadcast_schema_entry option option" where
  "roadcast_client_schema_at client index = (case client of
     None \<Rightarrow> Some None
   | Some c \<Rightarrow> if index \<ge> k_signal_count c then Some None else map_option Some (rd (k_schema c) (unat index)))"

text \<open>The search of both find functions, from index \<open>i\<close> with \<open>k\<close> entries left.\<close>

fun find_schema :: "(roadcast_schema_entry \<Rightarrow> bool) \<Rightarrow> roadcast_schema_entry list \<Rightarrow> nat \<Rightarrow> nat \<Rightarrow> int option" where
  "find_schema P schema i 0 = Some (- 1)"
| "find_schema P schema i (Suc k) = do {
     entry \<leftarrow> rd schema i;
     if P entry then Some (int i) else find_schema P schema (Suc i) k }"

definition roadcast_client_find_signal :: "roadcast_client option \<Rightarrow> bytes option \<Rightarrow> int option" where
  "roadcast_client_find_signal client name = (case (client, name) of
     (Some c, Some name) \<Rightarrow> find_schema (\<lambda>entry. c_string (se_name entry) = c_string name) (k_schema c) 0 (unat (k_signal_count c))
   | _ \<Rightarrow> Some ROADCAST_CLIENT_ERR_ARGUMENT)"

definition roadcast_client_find_signal_by_stable_id :: "roadcast_client option \<Rightarrow> u64 \<Rightarrow> int option" where
  "roadcast_client_find_signal_by_stable_id client stable_id = (case client of
     Some c \<Rightarrow> find_schema (\<lambda>entry. se_stable_id entry = stable_id) (k_schema c) 0 (unat (k_signal_count c))
   | None \<Rightarrow> Some ROADCAST_CLIENT_ERR_ARGUMENT)"

text \<open>The values before an index that is refused are written.\<close>

fun copy_signals :: "roadcast_client \<Rightarrow> u32 list \<Rightarrow> nat \<Rightarrow> nat \<Rightarrow> roadcast_signal_value list \<Rightarrow> (int \<times> roadcast_signal_value list) option" where
  "copy_signals c indices i 0 values = Some (ROADCAST_CLIENT_OK, values)"
| "copy_signals c indices i (Suc k) values = do {
     index \<leftarrow> rd indices i;
     if index \<ge> k_signal_count c then Some (ROADCAST_CLIENT_ERR_ARGUMENT, values)
     else do {
       v \<leftarrow> rd (k_signals c) (unat index);
       values \<leftarrow> poke i [v] values;
       copy_signals c indices (Suc i) k values } }"

definition roadcast_client_read_signals :: "roadcast_client option \<Rightarrow> u32 list option \<Rightarrow> nat \<Rightarrow> roadcast_signal_value list option
    \<Rightarrow> (int \<times> roadcast_signal_value list option) option" where
  "roadcast_client_read_signals client indices count values = (case client of
     None \<Rightarrow> Some (ROADCAST_CLIENT_ERR_ARGUMENT, values)
   | Some c \<Rightarrow>
       if indices = None \<and> count \<noteq> 0 \<or> values = None \<and> count \<noteq> 0 then Some (ROADCAST_CLIENT_ERR_ARGUMENT, values)
       else if count = 0 then Some (ROADCAST_CLIENT_OK, values)
       else do {
         indices \<leftarrow> indices;
         values \<leftarrow> values;
         (rc, values) \<leftarrow> copy_signals c indices 0 count values;
         Some (rc, Some values) })"

definition roadcast_client_read_signal :: "roadcast_client option \<Rightarrow> u32 \<Rightarrow> roadcast_signal_value list option
    \<Rightarrow> (int \<times> roadcast_signal_value list option) option" where
  "roadcast_client_read_signal client index values = roadcast_client_read_signals client (Some [index]) 1 values"

definition roadcast_client_read_frame :: "roadcast_client option \<Rightarrow> u16 \<Rightarrow> bool \<Rightarrow> (int \<times> roadcast_frame option) option" where
  "roadcast_client_read_frame client can_id has_frame = (case client of
     None \<Rightarrow> Some (ROADCAST_CLIENT_ERR_ARGUMENT, None)
   | Some c \<Rightarrow>
       if \<not> has_frame then Some (ROADCAST_CLIENT_ERR_ARGUMENT, None)
       else do {
         target \<leftarrow> frame_target c can_id;
         if unat target < unat (k_frame_count c) then do {
           frame \<leftarrow> rd (k_frames c) (unat target);
           Some (ROADCAST_CLIENT_OK, Some frame) }
         else Some (ROADCAST_CLIENT_ERR_ARGUMENT, None) })"

definition roadcast_client_read_all :: "roadcast_client option \<Rightarrow> roadcast_signal_value list option \<Rightarrow> nat
    \<Rightarrow> (int \<times> roadcast_signal_value list option) option" where
  "roadcast_client_read_all client values capacity = (case (client, values) of
     (Some c, Some vs) \<Rightarrow>
       if capacity < unat (k_signal_count c) then Some (ROADCAST_CLIENT_ERR_ARGUMENT, values)
       else do {
         signals \<leftarrow> slice (k_signals c) 0 (unat (k_signal_count c));
         vs \<leftarrow> poke 0 signals vs;
         Some (int (unat (k_signal_count c)), Some vs) }
   | _ \<Rightarrow> Some (ROADCAST_CLIENT_ERR_ARGUMENT, values))"

definition roadcast_client_sample_age_ns :: "roadcast_client option \<Rightarrow> u64 \<Rightarrow> int" where
  "roadcast_client_sample_age_ns client now = (case client of
     None \<Rightarrow> - 1
   | Some c \<Rightarrow>
       if \<not> k_connected c \<or> k_sample_timestamp_ns c = 0 \<or> k_sample_timestamp_ns c > now then - 1
       else let age = now - k_sample_timestamp_ns c in
         if uint age > 9223372036854775807 then 9223372036854775807 else uint age)"

definition roadcast_client_error_string :: "int \<Rightarrow> string" where
  "roadcast_client_error_string error =
    (if error = ROADCAST_CLIENT_OK then ''ok''
     else if error = ROADCAST_CLIENT_ERR_ARGUMENT then ''invalid argument''
     else if error = ROADCAST_CLIENT_ERR_SOCKET then ''socket connection failed''
     else if error = ROADCAST_CLIENT_ERR_HANDSHAKE then ''protocol handshake failed''
     else if error = ROADCAST_CLIENT_ERR_PROTOCOL then ''malformed protocol message''
     else if error = ROADCAST_CLIENT_ERR_SCHEMA then ''schema discovery failed''
     else if error = ROADCAST_CLIENT_ERR_SNAPSHOT then ''snapshot or subscription failed''
     else if error = ROADCAST_CLIENT_ERR_MEMORY then ''native allocation failed''
     else if error = ROADCAST_CLIENT_ERR_THREAD then ''reader thread creation failed''
     else ''unknown client error'')"

end
