(* ===== verification/Client_Inv.thy ===== *)
theory Client_Inv
  imports Client
begin

text \<open>
  What the client library keeps, whatever the daemon sends: it never leaves an array, every loop that the daemon does
  not feed for ever returns, and the cache holds well-formed records behind a lookup table that finds them.
\<close>

section \<open>Computations that return\<close>

definition returns :: "('a \<Rightarrow> bool) \<Rightarrow> 'a option \<Rightarrow> bool" where
  "returns P m \<longleftrightarrow> (\<exists>x. m = Some x \<and> P x)"

lemma returns_Some [simp]: "returns P (Some x) \<longleftrightarrow> P x"
  by (simp add: returns_def)

lemma returns_bind: "returns Q m \<Longrightarrow> (\<And>x. Q x \<Longrightarrow> returns P (f x)) \<Longrightarrow> returns P (Option.bind m f)"
  by (auto simp: returns_def)

lemma returns_mono: "returns Q m \<Longrightarrow> (\<And>x. Q x \<Longrightarrow> P x) \<Longrightarrow> returns P m"
  by (auto simp: returns_def)

lemma returns_map: "returns (\<lambda>x. P (f x)) m \<Longrightarrow> returns P (map_option f m)"
  by (auto simp: returns_def)

lemma returns_bindR:
  "returns Q m \<Longrightarrow> (Q Fail \<Longrightarrow> P Fail) \<Longrightarrow> (\<And>x. Q (Ok x) \<Longrightarrow> returns P (f x)) \<Longrightarrow> returns P (bindR m f)"
  by (auto simp: returns_def bindR_def split: ret.splits)

lemma returns_rd: "i < length xs \<Longrightarrow> P (xs ! i) \<Longrightarrow> returns P (rd xs i)"
  by (simp add: rd_Some)

lemma returns_slice: "off + n \<le> length xs \<Longrightarrow> P (take n (drop off xs)) \<Longrightarrow> returns P (slice xs off n)"
  by (simp add: slice_Some)

definition stored :: "nat \<Rightarrow> 'a list \<Rightarrow> 'a list \<Rightarrow> 'a list \<Rightarrow> bool" where
  "stored off bs out out' \<longleftrightarrow> off + length bs \<le> length out \<and> out' = take off out @ bs @ drop (off + length bs) out"

lemma storedD:
  assumes "stored off bs out out'"
  shows "length out' = length out" and "set out' \<subseteq> set bs \<union> set out"
  using assms by (auto simp: stored_def dest: in_set_takeD in_set_dropD)

lemma stored_nth: "stored off bs out out' \<Longrightarrow> j < length out \<Longrightarrow>
    out' ! j = (if j < off \<or> off + length bs \<le> j then out ! j else bs ! (j - off))"
  by (auto simp: stored_def nth_append)

lemma returns_poke: "off + length bs \<le> length out \<Longrightarrow> returns (stored off bs out) (poke off bs out)"
  by (simp add: stored_def poke_Some)

lemma returns_for_loop:
  assumes "I i s" and "\<And>k t. i \<le> k \<Longrightarrow> k < i + n \<Longrightarrow> I k t \<Longrightarrow> returns (I (Suc k)) (body k t)"
    and "\<And>t. I (i + n) t \<Longrightarrow> P t"
  shows "returns P (for_loop i n body s)"
  using for_loop_invariant [of I i s n body] assms by (auto simp: returns_def)

lemma returns_for_ret:
  assumes "I i s"
    and "\<And>k t. i \<le> k \<Longrightarrow> k < i + n \<Longrightarrow> I k t \<Longrightarrow> returns (\<lambda>r. \<forall>t'. r = Ok t' \<longrightarrow> I (Suc k) t') (body k t)"
    and "P Fail" and "\<And>t. I (i + n) t \<Longrightarrow> P (Ok t)"
  shows "returns P (for_ret i n body s)"
proof -
  have "\<exists>r. for_ret i n body s = Some r \<and> (\<forall>t. r = Ok t \<longrightarrow> I (i + n) t)"
    by (rule for_ret_invariant) (use assms(1,2) in \<open>auto simp: returns_def\<close>)
  then show ?thesis
    using assms(3,4) by (auto simp: returns_def) (metis ret.exhaust)
qed

section \<open>The invariant\<close>

definition buffers_ok :: "roadcast_client \<Rightarrow> bool" where
  "buffers_ok c \<longleftrightarrow> length (k_payload c) = k_payload_capacity c \<and> length (k_can_id_to_index c) = CAN_ID_LOOKUP_CAP
     \<and> 8 \<le> unat (k_max_request_payload c)"

definition cache_ok :: "roadcast_client \<Rightarrow> bool" where
  "cache_ok c \<longleftrightarrow> buffers_ok c
     \<and> length (k_frame_scratch c) = k_frame_scratch_capacity c \<and> length (k_signal_scratch c) = k_signal_scratch_capacity c
     \<and> length (k_schema c) = unat (k_signal_count c) \<and> length (k_signals c) = unat (k_signal_count c)
     \<and> length (k_frames c) = unat (k_frame_count c) \<and> unat (k_frame_count c) \<le> 65535
     \<and> (\<forall>f \<in> set (k_frames c) \<union> set (k_frame_scratch c). frame_wf f)
     \<and> (\<forall>v \<in> set (k_signals c). value_wf v) \<and> (\<forall>u \<in> set (k_signal_scratch c). update_wf u)"

definition sync_ok :: "roadcast_client \<Rightarrow> synchronization \<Rightarrow> bool" where
  "sync_ok c sync \<longleftrightarrow> length (sy_frames sync) = unat (k_frame_count c) \<and> length (sy_signals sync) = unat (k_signal_count c)
     \<and> (\<forall>f \<in> set (sy_frames sync). frame_wf f) \<and> (\<forall>v \<in> set (sy_signals sync). value_wf v)"

text \<open>All of the client but the buffers that messages pass through and the lookup table.\<close>

definition core :: "roadcast_client \<Rightarrow> roadcast_client" where
  "core c = c\<lparr>k_payload := [], k_frame_scratch := [], k_signal_scratch := [], k_can_id_to_index := []\<rparr>"

lemma core_updates [simp]:
  "core (c\<lparr>k_payload := p\<rparr>) = core c" "core (c\<lparr>k_frame_scratch := fs\<rparr>) = core c"
  "core (c\<lparr>k_signal_scratch := us\<rparr>) = core c" "core (c\<lparr>k_can_id_to_index := t\<rparr>) = core c"
  by (simp_all add: core_def)

lemma core_same:
  assumes "core c' = core c"
  shows "k_frame_count c' = k_frame_count c" and "k_signal_count c' = k_signal_count c" and "k_frames c' = k_frames c"
    and "k_signals c' = k_signals c" and "k_schema c' = k_schema c" and "k_resynchronizations c' = k_resynchronizations c"
  using assms by (cases c; cases c'; simp add: core_def)+

lemma sync_ok_core: "core c' = core c \<Longrightarrow> sync_ok c' sync = sync_ok c sync"
  by (simp add: sync_ok_def core_same [of c' c])

lemma zero_wf: "frame_wf zero_frame" "value_wf zero_signal"
  by (simp_all add: frame_wf_def zero_frame_def value_wf_def zero_signal_def)

section \<open>Messages\<close>

lemma send_message_run:
  assumes "net_ok net" and "len \<le> length payload"
  shows "returns (\<lambda>(sent, m). n \<le> m) (send_message net c ty payload len deadline n)"
proof -
  have w: "returns (\<lambda>(sent, m). k \<le> m) (write_all net data d k)" for data d k
    by (rule write_all_run [OF assms(1), of data d k]) simp
  show ?thesis
    unfolding send_message_def Let_def encode_header_poke
    using assms(2)
    by (auto simp: poke_Some slice_Some intro!: returns_bind [OF w] returns_mono [OF w])
qed

definition received :: "roadcast_client \<Rightarrow> roadcast_header \<Rightarrow> roadcast_client \<Rightarrow> bool" where
  "received c header c' \<longleftrightarrow> unat (h_payload_bytes header) \<le> length (k_payload c')
     \<and> length (k_payload c') = length (k_payload c) \<and> c' = c\<lparr>k_payload := k_payload c'\<rparr>"

definition message_outcome :: "net \<Rightarrow> roadcast_client \<Rightarrow> nat \<Rightarrow> (roadcast_header \<times> roadcast_client) ret \<times> nat \<Rightarrow> bool" where
  "message_outcome net c n = (\<lambda>(answer, m). n \<le> m
     \<and> (\<forall>header c'. answer = Ok (header, c') \<longrightarrow> n < m \<and> received c header c' \<and> \<not> quiet_from net n))"

lemma received_ok:
  assumes "received c header c'"
  shows "core c' = core c" and "buffers_ok c \<Longrightarrow> buffers_ok c'" and "cache_ok c \<Longrightarrow> cache_ok c'"
    and "k_can_id_to_index c' = k_can_id_to_index c"
proof -
  obtain p where "c' = c\<lparr>k_payload := p\<rparr>" and "length p = length (k_payload c)"
    using assms unfolding received_def by metis
  then show "core c' = core c" and "buffers_ok c \<Longrightarrow> buffers_ok c'" and "cache_ok c \<Longrightarrow> cache_ok c'"
    and "k_can_id_to_index c' = k_can_id_to_index c"
    by (simp_all add: buffers_ok_def cache_ok_def)
qed

lemma received_payload:
  "received c header c' \<Longrightarrow> message_payload c' header = Some (take (unat (h_payload_bytes header)) (k_payload c'))"
  by (auto simp: received_def message_payload_def slice_Some)

lemma read_message_run:
  assumes net: "net_ok net" and ok: "buffers_ok c"
  shows "returns (message_outcome net c n) (read_message net c deadline n)"
proof -
  have r: "returns (\<lambda>(ok, data, m). k \<le> m \<and> length data \<le> len \<and> (ok \<longleftrightarrow> length data = len)
      \<and> (data \<noteq> [] \<longrightarrow> k < m \<and> \<not> quiet_from net k)) (read_exact net len [] d k)" for len d k
    by (rule read_exact_run [OF net, of "[]" len d k]) auto
  have later: "\<not> quiet_from net (Suc n) \<Longrightarrow> \<not> quiet_from net n"
    using quiet_from_later [of net n "Suc n"] by auto
  have header: "returns (message_outcome net c n) (Option.bind (roadcast_decode_header data) (\<lambda>decoded. case decoded of
         Fail \<Rightarrow> Some (Fail, m)
       | Ok header \<Rightarrow>
           if h_version header \<noteq> ROADCAST_PROTOCOL_VERSION \<or> h_flags header \<noteq> 0
              \<or> unat (h_payload_bytes header) > k_payload_capacity c
           then Some (Fail, m)
           else if h_payload_bytes header \<noteq> 0 then do {
             (ok, data, n) \<leftarrow> read_exact net (unat (h_payload_bytes header)) [] (op_deadline net deadline n) m;
             payload \<leftarrow> poke 0 data (k_payload c);
             if \<not> ok then Some (Fail, n) else Some (Ok (header, c\<lparr>k_payload := payload\<rparr>), n) }
           else Some (Ok (header, c), m)))"
    if len: "length data = 32" and "Suc n \<le> m" and "\<not> quiet_from net n" for data m
  proof -
    obtain decoded where d: "roadcast_decode_header data = Some decoded"
      using decode_header_safe [OF len] by blast
    have same: "received c header c" if "h_payload_bytes header = 0" for header
      using that by (simp add: received_def)
    show ?thesis
      unfolding d
      using that(2,3) ok same
      by (auto simp: message_outcome_def received_def buffers_ok_def poke_Some split: ret.split if_splits
          intro!: returns_bind [OF r])
  qed
  show ?thesis
    unfolding read_message_def Let_def
    by (rule returns_bind [OF r]) (use header later in \<open>auto simp: message_outcome_def\<close>)
qed

lemma request_from_run:
  assumes net: "net_ok net" and ok: "buffers_ok c"
  shows "returns (message_outcome net c n) (request_from net c ty i deadline n)"
proof -
  show ?thesis
    unfolding request_from_def encode_index_request_poke
    by (auto simp: poke_Some intro!: returns_bind [OF send_message_run [OF net]] returns_mono [OF read_message_run [OF net ok]])
       (auto simp: message_outcome_def dest: quiet_from_later)
qed

section \<open>Schema discovery\<close>

text \<open>The first \<open>i\<close> entries of the schema are in their places.\<close>

definition schema_upto :: "roadcast_client \<Rightarrow> nat \<Rightarrow> bool" where
  "schema_upto c i \<longleftrightarrow> (\<forall>j < i. se_index (k_schema c ! j) = of_nat j \<and> 1 \<le> se_width (k_schema c ! j)
     \<and> se_width (k_schema c ! j) \<le> 64 \<and> length (se_name (k_schema c ! j)) \<le> ROADCAST_SCHEMA_NAME_MAX)"

lemma unat_next:
  assumes "n \<le> unat ((count :: u32) - i)" and "i \<le> count"
  shows "unat (i + of_nat n) = unat i + n" and "unat i + n \<le> unat count"
proof -
  have d: "unat (count - i) = unat count - unat i"
    using assms(2) by (simp add: unat_sub)
  then show le: "unat i + n \<le> unat count"
    using assms by (simp add: word_le_nat_alt)
  then have "unat i + n < 2 ^ 32"
    using unsigned_less [of count, where ?'a = nat] by simp
  then show "unat (i + of_nat n) = unat i + n"
    by (simp add: unat_word_ariths unat_of_nat)
qed

lemma accept_schema_run:
  assumes ok: "cache_ok c" and recv: "received c0 header c" and i: "i < k_signal_count c"
    and schema: "schema_upto c (unat i)"
  shows "returns (\<lambda>r. \<forall>c' i'. r = Ok (c', i') \<longrightarrow> cache_ok c' \<and> k_signal_count c = k_signal_count c'
      \<and> schema_upto c' (unat i') \<and> i < i' \<and> i' \<le> k_signal_count c) (accept_schema_chunk c i header)"
proof -
  define p where "p = take (unat (h_payload_bytes header)) (k_payload c)"
  have chunk: "returns (\<lambda>r. \<forall>version tot start hash es. r = Ok (version, tot, start, hash, es) \<longrightarrow>
      length es \<le> unat (k_signal_count c - i) \<and> (\<forall>j < length es. entry_wf tot start j (es ! j)))
      (roadcast_decode_schema_chunk p (unat (k_signal_count c - i)))"
    using decode_schema_chunk_safe [of p "unat (k_signal_count c - i)"]
    by (auto simp: returns_def decode_schema_chunk_iff)
  have step: "cache_ok (c\<lparr>k_schema := s\<rparr>) \<and> schema_upto (c\<lparr>k_schema := s\<rparr>) (unat (i + of_nat (length es)))
      \<and> i < i + of_nat (length es) \<and> i + of_nat (length es) \<le> k_signal_count c"
    if es: "length es \<le> unat (k_signal_count c - i)" "\<forall>j < length es. entry_wf (k_signal_count c) i j (es ! j)" "es \<noteq> []"
      and s: "stored (unat i) es (k_schema c) s"
    for es s
  proof -
    note n = unat_next [OF es(1) order_less_imp_le [OF i]]
    have "schema_upto (c\<lparr>k_schema := s\<rparr>) (unat i + length es)"
      unfolding schema_upto_def
    proof (intro allI impI)
      fix j assume j: "j < unat i + length es"
      have l: "unat i + length es \<le> length (k_schema c)"
        using ok n(2) by (simp add: cache_ok_def)
      show "se_index (k_schema (c\<lparr>k_schema := s\<rparr>) ! j) = of_nat j \<and> 1 \<le> se_width (k_schema (c\<lparr>k_schema := s\<rparr>) ! j)
        \<and> se_width (k_schema (c\<lparr>k_schema := s\<rparr>) ! j) \<le> 64
        \<and> length (se_name (k_schema (c\<lparr>k_schema := s\<rparr>) ! j)) \<le> ROADCAST_SCHEMA_NAME_MAX"
      proof (cases "j < unat i")
        case True
        then show ?thesis
          using schema l by (simp add: stored_nth [OF s] schema_upto_def)
      next
        case False
        then have e: "entry_wf (k_signal_count c) i (j - unat i) (es ! (j - unat i))"
          using es(2) j by simp
        have "i + of_nat (j - unat i) = of_nat j"
          using False by (simp add: of_nat_diff)
        moreover have "s ! j = es ! (j - unat i)"
          using False j l by (simp add: stored_nth [OF s])
        ultimately show ?thesis
          using e by (auto simp: entry_wf_def word_le_nat_alt word_less_nat_alt)
      qed
    qed
    moreover have "cache_ok (c\<lparr>k_schema := s\<rparr>)"
      using ok storedD(1) [OF s] by (simp add: cache_ok_def buffers_ok_def)
    ultimately show ?thesis
      using n es(3) by (simp add: word_less_nat_alt word_le_nat_alt)
  qed
  have room: "unat i + length es \<le> length (k_schema c)" if "length es \<le> unat (k_signal_count c - i)" for es :: "roadcast_schema_entry list"
    using unat_next(2) [OF that order_less_imp_le [OF i]] ok by (simp add: cache_ok_def)
  show ?thesis
    unfolding accept_schema_chunk_def received_payload [OF recv] p_def [symmetric]
    by (auto intro!: returns_bindR [OF chunk] returns_bind [OF returns_poke] room dest: step)
qed

lemma request_schema_run:
  assumes "net_ok net" and "cache_ok c" and "schema_upto c (unat i)" and "i \<le> k_signal_count c"
  shows "returns (\<lambda>(r, m). n \<le> m \<and> (\<forall>c'. r = Ok c' \<longrightarrow> cache_ok c' \<and> schema_upto c' (unat (k_signal_count c'))))
    (request_schema net deadline c i n)"
  using assms(2-)
proof (induction "unat (k_signal_count c) - unat i" arbitrary: c i n rule: less_induct)
  case less
  show ?case
  proof (cases "i < k_signal_count c")
    case False
    then show ?thesis
      unfolding request_schema.simps [of net deadline c i n] using less.prems by simp
  next
    case True
    have buffers: "buffers_ok c"
      using less.prems by (simp add: cache_ok_def)
    have accept: "returns (\<lambda>r. \<forall>c2 i'. r = Ok (c2, i') \<longrightarrow> cache_ok c2 \<and> k_signal_count c = k_signal_count c2
        \<and> schema_upto c2 (unat i') \<and> i < i' \<and> i' \<le> k_signal_count c) (accept_schema_chunk c1 i header)"
      if r: "received c header c1" for c1 header
    proof -
      note k = core_same [OF received_ok(1) [OF r]]
      have "schema_upto c1 (unat i)"
        using less.prems(2) by (simp add: schema_upto_def k)
      then show ?thesis
        using accept_schema_run [OF received_ok(3) [OF r less.prems(1)] r] True by (simp add: k)
    qed
    have step: "returns (\<lambda>(r, m). n \<le> m \<and> (\<forall>c'. r = Ok c' \<longrightarrow> cache_ok c' \<and> schema_upto c' (unat (k_signal_count c'))))
        (request_schema net deadline c2 i' m)"
      if "cache_ok c2" "k_signal_count c = k_signal_count c2" "schema_upto c2 (unat i')" "i < i'" "i' \<le> k_signal_count c" "n \<le> m"
      for c2 i' m
    proof (rule returns_mono [OF less.hyps])
      show "unat (k_signal_count c2) - unat i' < unat (k_signal_count c) - unat i"
        using that True by (simp add: word_less_nat_alt word_le_nat_alt)
    qed (use that in auto)
    show ?thesis
      unfolding request_schema.simps [of net deadline c i n]
      using True
      by (auto simp: message_outcome_def split: ret.split intro!: returns_bind [OF request_from_run [OF assms(1) buffers]]
          returns_bind [OF accept] step)
  qed
qed

section \<open>The snapshot\<close>

lemma accept_frame_run:
  assumes ok: "cache_ok c" and recv: "received c0 header c" and i: "i < k_frame_count c" and sync: "sync_ok c sync"
  shows "returns (\<lambda>r. \<forall>sync' i'. r = Ok (sync', i') \<longrightarrow> sync_ok c sync' \<and> i < i' \<and> i' \<le> k_frame_count c)
    (accept_frame_chunk c sync i header)"
proof -
  define p where "p = take (unat (h_payload_bytes header)) (k_payload c)"
  define first where "first \<longleftrightarrow> i = 0"
  have chunk: "returns (\<lambda>r. \<forall>sq tot start fs. r = Ok (sq, tot, start, fs) \<longrightarrow>
      length fs \<le> unat (k_frame_count c - i) \<and> (\<forall>f \<in> set fs. frame_wf f))
      (roadcast_decode_frame_batch p (unat (k_frame_count c - i)))"
    using decode_frame_batch_safe [of p "unat (k_frame_count c - i)"]
    by (auto simp: returns_def decode_frame_batch_iff)
  have step: "sync_ok c (sync\<lparr>sy_frames := s\<rparr>) \<and> i < i + of_nat (length fs) \<and> i + of_nat (length fs) \<le> k_frame_count c"
    if "length fs \<le> unat (k_frame_count c - i)" "\<forall>f \<in> set fs. frame_wf f" "fs \<noteq> []" "stored (unat i) fs (sy_frames sync) s" for fs s
    using unat_next [OF that(1) order_less_imp_le [OF i]] that(2,3) storedD [OF that(4)] sync
    by (auto simp: sync_ok_def word_less_nat_alt word_le_nat_alt)
  have room: "unat i + length fs \<le> length (sy_frames sync)" if "length fs \<le> unat (k_frame_count c - i)" for fs :: "roadcast_frame list"
    using unat_next(2) [OF that order_less_imp_le [OF i]] sync by (simp add: sync_ok_def)
  have seqs: "sync_ok c (s\<lparr>sy_sample_sequence := a, sy_change_sequence := b, sy_sample_timestamp_ns := t\<rparr>) = sync_ok c s" for s a b t
    by (simp add: sync_ok_def)
  show ?thesis
    unfolding accept_frame_chunk_def received_payload [OF recv] p_def [symmetric] Let_def first_def [symmetric]
    by (auto simp: seqs intro!: returns_bindR [OF chunk] returns_bind [OF returns_poke] room dest: step)
qed

text \<open>What a step of the synchronisation keeps.\<close>

definition sync_outcome :: "roadcast_client \<Rightarrow> nat \<Rightarrow> (roadcast_client \<times> synchronization) ret \<times> nat \<Rightarrow> bool" where
  "sync_outcome c n = (\<lambda>(r, m). n \<le> m
     \<and> (\<forall>c' sync. r = Ok (c', sync) \<longrightarrow> cache_ok c' \<and> core c = core c' \<and> sync_ok c' sync))"

lemma fail_outcome: "sync_outcome c n (Fail, m) \<longleftrightarrow> n \<le> m"
  by (simp add: sync_outcome_def)

lemma sync_outcome_trans:
  "returns (sync_outcome c' m) x \<Longrightarrow> core c' = core c \<Longrightarrow> n \<le> m \<Longrightarrow> returns (sync_outcome c n) x"
  by (erule returns_mono) (auto simp: sync_outcome_def)

lemma request_frames_run:
  assumes "net_ok net" and "cache_ok c" and "sync_ok c sync" and "i \<le> k_frame_count c"
  shows "returns (sync_outcome c n) (request_frames net deadline c sync i n)"
  using assms(2-)
proof (induction "unat (k_frame_count c) - unat i" arbitrary: c sync i n rule: less_induct)
  case less
  show ?case
  proof (cases "i < k_frame_count c")
    case False
    then show ?thesis
      unfolding request_frames.simps [of net deadline c sync i n] using less.prems by (simp add: sync_outcome_def)
  next
    case True
    have buffers: "buffers_ok c"
      using less.prems by (simp add: cache_ok_def)
    have accept: "returns (\<lambda>r. \<forall>sync' i'. r = Ok (sync', i') \<longrightarrow> sync_ok c1 sync' \<and> i < i' \<and> i' \<le> k_frame_count c1)
        (accept_frame_chunk c1 sync i header)" if r: "received c header c1" for c1 header
      using accept_frame_run [OF received_ok(3) [OF r less.prems(1)] r] True less.prems(2)
      by (simp add: core_same [OF received_ok(1) [OF r]] sync_ok_core [OF received_ok(1) [OF r]])
    have step: "returns (sync_outcome c n) (request_frames net deadline c1 sync' i' m)"
      if "cache_ok c1" "core c1 = core c" "sync_ok c1 sync'" "i < i'" "i' \<le> k_frame_count c1" "n \<le> m" for c1 sync' i' m
      by (rule sync_outcome_trans [OF less.hyps])
         (use that True core_same(1) [OF that(2)] in \<open>auto simp: word_less_nat_alt word_le_nat_alt\<close>)
    show ?thesis
      unfolding request_frames.simps [of net deadline c sync i n]
      using True
      by (auto simp: message_outcome_def fail_outcome received_ok(1) received_ok(3) [OF _ less.prems(1)] split: ret.split
          intro!: returns_bind [OF request_from_run [OF assms(1) buffers]] returns_bind [OF accept] step)
  qed
qed

section \<open>The lookup table\<close>

text \<open>An entry of the table that is in use leads to a frame with the identifier.\<close>

definition lookup_ok :: "u16 list \<Rightarrow> roadcast_frame list \<Rightarrow> bool" where
  "lookup_ok table frames \<longleftrightarrow> (\<forall>can_id < CAN_ID_LOOKUP_CAP. unat (table ! can_id) < length frames \<longrightarrow>
     unat (f_can_id (frames ! unat (table ! can_id))) = can_id)"

text \<open>Every identifier below the capacity that a frame has is found.\<close>

definition lookup_total :: "u16 list \<Rightarrow> roadcast_frame list \<Rightarrow> bool" where
  "lookup_total table frames \<longleftrightarrow> (\<forall>f \<in> set frames. unat (f_can_id f) < CAN_ID_LOOKUP_CAP \<longrightarrow>
     unat (table ! unat (f_can_id f)) < length frames)"

lemma index_frames_run:
  assumes "length table = 2048" and "count \<le> length frames"
  shows "returns (\<lambda>t. length t = 2048) (index_frames count frames table)"
  unfolding index_frames_def
  by (rule returns_for_loop [where I = "\<lambda>_ t. length t = 2048"]) (use assms in \<open>auto simp: rd_Some\<close>)

lemma index_frames_lookup:
  assumes "length frames \<le> 65535" and "table = replicate 2048 0xFFFF"
  shows "returns (\<lambda>t. length t = 2048 \<and> lookup_ok t frames \<and> lookup_total t frames)
    (index_frames (length frames) frames table)"
proof -
  let ?I = "\<lambda>k (t :: u16 list). length t = 2048 \<and> (\<forall>id < 2048. (unat (t ! id) < k \<longrightarrow> unat (f_can_id (frames ! unat (t ! id))) = id)
    \<and> (unat (t ! id) < k \<or> t ! id = 0xFFFF))
    \<and> (\<forall>j < k. unat (f_can_id (frames ! j)) < 2048 \<longrightarrow> unat (t ! unat (f_can_id (frames ! j))) < k)"
  have fresh: "unat (t ! id) \<noteq> k" if "k < length frames" and "?I k t" and "id < 2048" for k t id
    using that assms(1) by auto
  have step: "?I (Suc k) (t[unat (f_can_id (frames ! k)) := of_nat k])"
    if k: "k < length frames" and I: "?I k t" and id: "unat (f_can_id (frames ! k)) < 2048" for k t
  proof -
    have u: "unat (of_nat k :: u16) = k"
      using k assms(1) by (simp add: unat_of_nat_small)
    show ?thesis
      using I id fresh [OF k I] by (auto simp: nth_list_update u less_Suc_eq)
  qed
  have skip: "?I (Suc k) t" if k: "k < length frames" and I: "?I k t" and out: "\<not> unat (f_can_id (frames ! k)) < 2048" for k t
    using I out fresh [OF k I] by (auto simp: less_Suc_eq)
  show ?thesis
    unfolding index_frames_def
  proof (rule returns_for_loop [where I = ?I])
    show "?I 0 table"
      using assms by simp
  next
    fix k t assume "0 \<le> k" "k < 0 + length frames" and I: "?I k t"
    then have k: "k < length frames"
      by simp
    show "returns (?I (Suc k)) (Option.bind (rd frames k) (\<lambda>frame. if unat (f_can_id frame) < CAN_ID_LOOKUP_CAP
        then poke (unat (f_can_id frame)) [of_nat k] t else Some t))"
    proof (cases "unat (f_can_id (frames ! k)) < 2048")
      case True
      then show ?thesis
        using step [OF k I True] I k by (simp add: rd_Some)
    next
      case False
      then show ?thesis
        using skip [OF k I False] k by (simp add: rd_Some)
    qed
  next
    fix t assume "?I (0 + length frames) t"
    then show "length t = 2048 \<and> lookup_ok t frames \<and> lookup_total t frames"
      by (auto simp: lookup_ok_def lookup_total_def in_set_conv_nth)
  qed
qed

lemma request_frame_snapshot_run:
  assumes net: "net_ok net" and ok: "cache_ok c" and sync: "sync_ok c sync"
  shows "returns (sync_outcome c n) (request_frame_snapshot net deadline c sync n)"
proof -
  have index: "returns (\<lambda>t. length t = 2048) (index_frames (unat (k_frame_count c')) (sy_frames sync') (k_can_id_to_index c'))"
    if "cache_ok c'" "sync_ok c' sync'" for c' sync'
    by (rule index_frames_run) (use that in \<open>simp_all add: cache_ok_def buffers_ok_def sync_ok_def\<close>)
  have table: "cache_ok c' \<Longrightarrow> length t = 2048 \<Longrightarrow> cache_ok (c'\<lparr>k_can_id_to_index := t\<rparr>)"
    "sync_ok (c'\<lparr>k_can_id_to_index := t\<rparr>) s = sync_ok c' s" for c' t s
    by (simp_all add: cache_ok_def buffers_ok_def sync_ok_def)
  show ?thesis
    unfolding request_frame_snapshot_def
    by (rule returns_bind [OF request_frames_run [OF net ok sync]])
       (auto simp: sync_outcome_def table split: ret.split intro!: returns_bind [OF index])
qed

lemma accept_signal_run:
  assumes ok: "cache_ok c" and recv: "received c0 header c" and i: "i < k_signal_count c" and sync: "sync_ok c sync"
  shows "returns (\<lambda>r. \<forall>c' sync' i'. r = Ok (c', sync', i') \<longrightarrow> cache_ok c' \<and> core c = core c' \<and> sync_ok c' sync'
      \<and> i < i' \<and> i' \<le> k_signal_count c) (accept_signal_chunk c sync i header)"
proof -
  define p where "p = take (unat (h_payload_bytes header)) (k_payload c)"
  have batch: "returns (\<lambda>r. \<forall>sq tot start us. r = Ok (sq, tot, start, us) \<longrightarrow> length us \<le> length (k_signal_scratch c)
      \<and> (\<forall>u \<in> set us. update_wf u) \<and> page_ok tot start (length us))
      (roadcast_decode_signal_batch p (k_signal_scratch_capacity c))"
    using decode_signal_batch_safe [of p "k_signal_scratch_capacity c"] ok
    by (auto simp: returns_def decode_signal_batch_iff cache_ok_def)
  have loop: "returns (\<lambda>r. \<forall>signals. r = Ok signals \<longrightarrow> sync_ok c (sync\<lparr>sy_signals := signals\<rparr>))
      (for_ret 0 (length us) (\<lambda>j signals. do {
               update \<leftarrow> rd scratch j;
               if unat (su_index update) = unat i + j \<longrightarrow> k_signal_count c \<le> su_index update then Some Fail
               else map_option Ok (poke (unat (su_index update)) [su_value update] signals) }) (sy_signals sync))"
    if "\<forall>u \<in> set us. update_wf u" and s: "stored 0 us (k_signal_scratch c) scratch" for us scratch
  proof (rule returns_for_ret [where I = "\<lambda>_ signals. sync_ok c (sync\<lparr>sy_signals := signals\<rparr>)"])
    show "sync_ok c (sync\<lparr>sy_signals := sy_signals sync\<rparr>)"
      using sync by simp
  next
    fix j signals assume "j < 0 + length us" and I: "sync_ok c (sync\<lparr>sy_signals := signals\<rparr>)"
    then have j: "j < length scratch" "scratch ! j = us ! j" "update_wf (us ! j)"
      using s that(1) by (auto simp: stored_def nth_append)
    have "sync_ok c (sync\<lparr>sy_signals := signals[k := su_value (us ! j)]\<rparr>)" for k
      using I j(3) set_update_subset_insert [of signals k "su_value (us ! j)"]
      by (auto simp: sync_ok_def update_wf_def value_wf_def)
    then show "returns (\<lambda>r. \<forall>t'. r = Ok t' \<longrightarrow> sync_ok c (sync\<lparr>sy_signals := t'\<rparr>)) (do {
               update \<leftarrow> rd scratch j;
               if unat (su_index update) = unat i + j \<longrightarrow> k_signal_count c \<le> su_index update then Some Fail
               else map_option Ok (poke (unat (su_index update)) [su_value update] signals) })"
      using I by (auto simp: rd_Some j(1,2) sync_ok_def word_less_nat_alt word_le_nat_alt)
  qed auto
  have next_index: "i < i + of_nat (length us) \<and> i + of_nat (length us) \<le> k_signal_count c"
    if "page_ok (k_signal_count c) i (length us)" "us \<noteq> []" for us :: "roadcast_signal_update list"
  proof -
    have "i \<noteq> UINT32_MAX"
      using i unsigned_less [of "k_signal_count c", where ?'a = nat] by (auto simp: word_less_nat_alt)
    then have "length us \<le> unat (k_signal_count c - i)"
      using that(1) by (auto simp: page_ok_def)
    then show ?thesis
      using unat_next [OF _ order_less_imp_le [OF i]] that(2) by (simp add: word_less_nat_alt word_le_nat_alt)
  qed
  have keep: "cache_ok (c\<lparr>k_signal_scratch := scratch\<rparr>)" "sync_ok (c\<lparr>k_signal_scratch := scratch\<rparr>) t = sync_ok c t"
    if "stored 0 us (k_signal_scratch c) scratch" "\<forall>u \<in> set us. update_wf u" for us scratch t
    using ok that(2) storedD [OF that(1)] by (auto simp: cache_ok_def buffers_ok_def sync_ok_def)
  show ?thesis
    unfolding accept_signal_chunk_def received_payload [OF recv] p_def [symmetric] Let_def
    by (auto intro!: returns_bindR [OF batch] returns_bind [OF returns_poke] returns_bindR [OF loop]
        simp: keep next_index)
qed

lemma request_signal_snapshot_run:
  assumes "net_ok net" and "cache_ok c" and "sync_ok c sync" and "i \<le> k_signal_count c"
  shows "returns (sync_outcome c n) (request_signal_snapshot net deadline c sync i n)"
  using assms(2-)
proof (induction "unat (k_signal_count c) - unat i" arbitrary: c sync i n rule: less_induct)
  case less
  show ?case
  proof (cases "i < k_signal_count c")
    case False
    then show ?thesis
      unfolding request_signal_snapshot.simps [of net deadline c sync i n] using less.prems by (simp add: sync_outcome_def)
  next
    case True
    have buffers: "buffers_ok c"
      using less.prems by (simp add: cache_ok_def)
    have accept: "returns (\<lambda>r. \<forall>c' sync' i'. r = Ok (c', sync', i') \<longrightarrow> cache_ok c' \<and> core c = core c' \<and> sync_ok c' sync'
        \<and> i < i' \<and> i' \<le> k_signal_count c) (accept_signal_chunk c1 sync i header)" if r: "received c header c1" for c1 header
      using accept_signal_run [OF received_ok(3) [OF r less.prems(1)] r] True less.prems(2)
      by (simp add: core_same [OF received_ok(1) [OF r]] received_ok(1) [OF r] sync_ok_core [OF received_ok(1) [OF r]])
    have step: "returns (sync_outcome c n) (request_signal_snapshot net deadline c1 sync' i' m)"
      if "cache_ok c1" "core c = core c1" "sync_ok c1 sync'" "i < i'" "i' \<le> k_signal_count c" "n \<le> m" for c1 sync' i' m
      by (rule sync_outcome_trans [OF less.hyps])
         (use that True core_same(2) [OF that(2)] in \<open>auto simp: word_less_nat_alt word_le_nat_alt\<close>)
    show ?thesis
      unfolding request_signal_snapshot.simps [of net deadline c sync i n]
      using True
      by (auto simp: message_outcome_def fail_outcome split: ret.split
          intro!: returns_bind [OF request_from_run [OF assms(1) buffers]] returns_bind [OF accept] step)
  qed
qed

section \<open>Update batches\<close>

lemma decode_frames_run:
  assumes ok: "cache_ok c" and recv: "received c0 header c"
  shows "returns (\<lambda>r. \<forall>sq k c'. r = Ok (sq, k, c') \<longrightarrow> cache_ok c' \<and> core c = core c'
      \<and> k_can_id_to_index c = k_can_id_to_index c' \<and> k \<le> length (k_frame_scratch c')) (decode_frame_batch c header)"
proof -
  define p where "p = take (unat (h_payload_bytes header)) (k_payload c)"
  have batch: "returns (\<lambda>r. \<forall>sq tot start fs. r = Ok (sq, tot, start, fs) \<longrightarrow> length fs \<le> length (k_frame_scratch c)
      \<and> (\<forall>f \<in> set fs. frame_wf f)) (roadcast_decode_frame_batch p (k_frame_scratch_capacity c))"
    using Batches.decode_frame_batch_safe [of p "k_frame_scratch_capacity c"] ok
    by (auto simp: returns_def decode_frame_batch_iff cache_ok_def)
  have keep: "cache_ok (c\<lparr>k_frame_scratch := scratch\<rparr>)" "length fs \<le> length scratch"
    if "stored 0 fs (k_frame_scratch c) scratch" "\<forall>f \<in> set fs. frame_wf f" for fs scratch
    using ok that(2) storedD [OF that(1)] that(1) by (auto simp: cache_ok_def buffers_ok_def stored_def)
  show ?thesis
    unfolding decode_frame_batch_def received_payload [OF recv] p_def [symmetric]
    by (auto intro!: returns_bindR [OF batch] returns_bind [OF returns_poke] simp: keep)
qed

lemma decode_signals_run:
  assumes ok: "cache_ok c" and recv: "received c0 header c"
  shows "returns (\<lambda>r. \<forall>sq k c'. r = Ok (sq, k, c') \<longrightarrow> cache_ok c' \<and> core c = core c'
      \<and> k_can_id_to_index c = k_can_id_to_index c' \<and> k \<le> length (k_signal_scratch c')) (decode_signal_batch c header)"
proof -
  define p where "p = take (unat (h_payload_bytes header)) (k_payload c)"
  have batch: "returns (\<lambda>r. \<forall>sq tot start us. r = Ok (sq, tot, start, us) \<longrightarrow> length us \<le> length (k_signal_scratch c)
      \<and> (\<forall>u \<in> set us. update_wf u)) (roadcast_decode_signal_batch p (k_signal_scratch_capacity c))"
    using Batches.decode_signal_batch_safe [of p "k_signal_scratch_capacity c"] ok
    by (auto simp: returns_def decode_signal_batch_iff cache_ok_def)
  have keep: "cache_ok (c\<lparr>k_signal_scratch := scratch\<rparr>)" "length us \<le> length scratch"
    if "stored 0 us (k_signal_scratch c) scratch" "\<forall>u \<in> set us. update_wf u" for us scratch
    using ok that(2) storedD [OF that(1)] that(1) by (auto simp: cache_ok_def buffers_ok_def stored_def)
  show ?thesis
    unfolding decode_signal_batch_def received_payload [OF recv] p_def [symmetric]
    by (auto intro!: returns_bindR [OF batch] returns_bind [OF returns_poke] simp: keep)
qed

lemma frame_target_run: "buffers_ok c \<Longrightarrow> returns (\<lambda>t. unat t < unat (k_frame_count c) \<and> unat (k_frame_count c) \<le> 65535 \<longrightarrow>
    unat can_id < 2048 \<and> t = k_can_id_to_index c ! unat can_id) (frame_target c can_id)"
  by (auto simp: frame_target_def buffers_ok_def rd_Some)

lemma lookup_update:
  assumes "lookup_ok table frames" and "unat can_id < 2048" and "unat (table ! unat can_id) < length frames"
    and "f_can_id f = can_id"
  shows "lookup_ok table (frames[unat (table ! unat can_id) := f])"
  unfolding lookup_ok_def
proof (intro allI impI)
  fix id assume id: "id < CAN_ID_LOOKUP_CAP" "unat (table ! id) < length (frames[unat (table ! unat can_id) := f])"
  have hit: "unat (f_can_id (frames ! unat (table ! j))) = j" if "j < 2048" "unat (table ! j) < length frames" for j
    using assms(1) that by (simp add: lookup_ok_def)
  show "unat (f_can_id (frames[unat (table ! unat can_id) := f] ! unat (table ! id))) = id"
  proof (cases "unat (table ! id) = unat (table ! unat can_id)")
    case True
    have lt: "unat (table ! id) < length frames"
      using id(2) by simp
    have "id = unat can_id"
      using hit [OF id(1) lt] hit [OF assms(2,3)] unfolding True by (rule trans [OF sym])
    then show ?thesis
      using assms(3,4) by simp
  next
    case False
    have lt: "unat (table ! id) < length frames"
      using id(2) by simp
    show ?thesis
      unfolding nth_list_update_neq [OF not_sym [OF False]] by (rule hit [OF id(1) lt])
  qed
qed

lemma apply_frames_run:
  assumes ok: "cache_ok c" and "i + k \<le> length (k_frame_scratch c)"
    and "length frames = unat (k_frame_count c)" and "\<forall>f \<in> set frames. frame_wf f"
  shows "returns (\<lambda>(ok, fs). length fs = length frames \<and> (\<forall>f \<in> set fs. frame_wf f)
      \<and> (lookup_ok (k_can_id_to_index c) frames \<longrightarrow> lookup_ok (k_can_id_to_index c) fs)) (apply_frames c i k frames)"
  using assms(2-)
proof (induction k arbitrary: i frames)
  case 0
  then show ?case
    by simp
next
  case (Suc k)
  define f where "f = k_frame_scratch c ! i"
  have f: "rd (k_frame_scratch c) i = Some f" "frame_wf f"
    using Suc.prems(1) ok by (simp_all add: rd_Some f_def cache_ok_def)
  have "buffers_ok c"
    using ok by (simp add: cache_ok_def)
  then obtain t where t: "frame_target c (f_can_id f) = Some t"
      "unat t < unat (k_frame_count c) \<Longrightarrow> unat (f_can_id f) < 2048 \<and> t = k_can_id_to_index c ! unat (f_can_id f)"
    using frame_target_run [of c "f_can_id f"] ok by (auto simp: returns_def cache_ok_def)
  show ?case
  proof (cases "unat t < unat (k_frame_count c)")
    case False
    then show ?thesis
      using Suc.prems by (simp add: f t(1) not_less)
  next
    case True
    have wf: "\<forall>g \<in> set (frames[unat t := f]). frame_wf g"
      using Suc.prems(3) f(2) set_update_subset_insert [of frames "unat t" f] by auto
    have "lookup_ok (k_can_id_to_index c) frames \<longrightarrow> lookup_ok (k_can_id_to_index c) (frames[unat t := f])"
      using lookup_update [of "k_can_id_to_index c" frames "f_can_id f" f] t(2) [OF True] True Suc.prems(2) by auto
    then show ?thesis
      using True Suc.prems by (auto simp: f t(1) wf intro!: returns_mono [OF Suc.IH])
  qed
qed

lemma apply_signals_run:
  assumes ok: "cache_ok c" and "i + k \<le> length (k_signal_scratch c)"
    and "length signals = unat (k_signal_count c)" and "\<forall>v \<in> set signals. value_wf v"
  shows "returns (\<lambda>(ok, vs). length vs = length signals \<and> (\<forall>v \<in> set vs. value_wf v)) (apply_signals c i k signals)"
  using assms(2-)
proof (induction k arbitrary: i signals)
  case 0
  then show ?case
    by simp
next
  case (Suc k)
  define u where "u = k_signal_scratch c ! i"
  have u: "rd (k_signal_scratch c) i = Some u" "value_wf (su_value u)"
    using Suc.prems(1) ok by (simp_all add: rd_Some u_def cache_ok_def update_wf_def value_wf_def)
  have wf: "\<forall>v \<in> set (signals[j := su_value u]). value_wf v" for j
    using Suc.prems(3) u(2) set_update_subset_insert [of signals j "su_value u"] by auto
  show ?case
    using Suc.prems by (auto simp: u wf word_less_nat_alt word_le_nat_alt not_le intro!: returns_mono [OF Suc.IH])
qed

lemma apply_decoded_frames_run:
  assumes "cache_ok c" and "sync_ok c sync" and "k \<le> length (k_frame_scratch c)"
  shows "returns (\<lambda>(ok, sync'). sync_ok c sync' \<and> sy_signals sync' = sy_signals sync
      \<and> (lookup_ok (k_can_id_to_index c) (sy_frames sync) \<longrightarrow> lookup_ok (k_can_id_to_index c) (sy_frames sync')))
    (apply_decoded_frames c sync header sq k)"
  unfolding apply_decoded_frames_def Let_def
  by (rule returns_bind [OF apply_frames_run [OF assms(1), of 0 k "sy_frames sync"]])
     (use assms(2,3) in \<open>auto simp: sync_ok_def\<close>)

lemma apply_decoded_signals_run:
  assumes "cache_ok c" and "sync_ok c sync" and "k \<le> length (k_signal_scratch c)"
  shows "returns (\<lambda>(ok, sync'). sync_ok c sync' \<and> sy_frames sync' = sy_frames sync) (apply_decoded_signals c sync header sq k)"
  unfolding apply_decoded_signals_def Let_def
  by (rule returns_bind [OF apply_signals_run [OF assms(1), of 0 k "sy_signals sync"]])
     (use assms(2,3) in \<open>auto simp: sync_ok_def\<close>)

section \<open>Subscribing and synchronising\<close>

definition batch_outcome :: "roadcast_client \<Rightarrow> (roadcast_client \<times> synchronization) ret \<Rightarrow> bool" where
  "batch_outcome c r \<longleftrightarrow> (\<forall>c' sync. r = Ok (c', sync) \<longrightarrow> cache_ok c' \<and> core c = core c' \<and> sync_ok c' sync)"

lemma apply_frame_batch_run:
  assumes ok: "cache_ok c" and recv: "received c0 header c" and sync: "sync_ok c sync"
  shows "returns (batch_outcome c) (apply_frame_batch c sync header)"
proof -
  have a: "returns (\<lambda>(ok, sync'). sync_ok c' sync') (apply_decoded_frames c' sync header sq k)"
    if "cache_ok c'" "core c = core c'" "k \<le> length (k_frame_scratch c')" for c' sq k
    by (rule returns_mono [OF apply_decoded_frames_run]) (use that sync sync_ok_core [OF that(2)] in auto)
  show ?thesis
    unfolding apply_frame_batch_def
    by (rule returns_bindR [OF decode_frames_run [OF ok recv]]) (auto simp: batch_outcome_def intro!: returns_bind [OF a])
qed

lemma apply_signal_batch_run:
  assumes ok: "cache_ok c" and recv: "received c0 header c" and sync: "sync_ok c sync"
  shows "returns (batch_outcome c) (apply_signal_batch c sync header)"
proof -
  have a: "returns (\<lambda>(ok, sync'). sync_ok c' sync') (apply_decoded_signals c' sync header sq k)"
    if "cache_ok c'" "core c = core c'" "k \<le> length (k_signal_scratch c')" for c' sq k
    by (rule returns_mono [OF apply_decoded_signals_run]) (use that sync sync_ok_core [OF that(2)] in auto)
  show ?thesis
    unfolding apply_signal_batch_def
    by (rule returns_bindR [OF decode_signals_run [OF ok recv]]) (auto simp: batch_outcome_def intro!: returns_bind [OF a])
qed

lemma await_subscribed_run:
  assumes net: "net_ok net" and quiet: "quiet_from net N" and "cache_ok c" and "sync_ok c sync"
  shows "returns (sync_outcome c n) (await_subscribed net deadline c sync n)"
  using assms(3-)
proof (induction "N - n" arbitrary: c sync n rule: less_induct)
  case less
  have buffers: "buffers_ok c"
    using less.prems by (simp add: cache_ok_def)
  have next_message: "returns (sync_outcome c n) (Option.bind applied (\<lambda>applied. case applied of
      Fail \<Rightarrow> Some (Fail, m) | Ok (c, sync) \<Rightarrow> await_subscribed net deadline c sync m))"
    if "returns (batch_outcome c1) applied" "core c1 = core c" "n < m" "\<not> quiet_from net n" for applied c1 m
  proof -
    have "n < N"
      using quiet quiet_from_later [OF quiet, of n] that(4) by (cases "n < N") auto
    then have "returns (sync_outcome c n) (await_subscribed net deadline c2 sync2 m)"
      if "cache_ok c2" "core c1 = core c2" "sync_ok c2 sync2" for c2 sync2
      by (intro sync_outcome_trans [OF less.hyps]) (use that \<open>n < m\<close> \<open>core c1 = core c\<close> in auto)
    then show ?thesis
      using that(3) by (auto simp: batch_outcome_def fail_outcome split: ret.split intro!: returns_bind [OF that(1)])
  qed
  have known: "returns (batch_outcome c1) (if h_type header = ROADCAST_MSG_UPDATE_BATCH then apply_frame_batch c1 sync header
      else if h_type header = ROADCAST_MSG_SIGNAL_UPDATE_BATCH then apply_signal_batch c1 sync header else Some Fail)"
    if r: "received c header c1" for header c1
    using apply_frame_batch_run [OF received_ok(3) [OF r less.prems(1)] r, of sync]
      apply_signal_batch_run [OF received_ok(3) [OF r less.prems(1)] r, of sync] less.prems(2)
    by (simp add: sync_ok_core [OF received_ok(1) [OF r]] batch_outcome_def)
  have last: "sync_outcome c n (Ok (c1, sync\<lparr>sy_change_sequence := a, sy_sample_timestamp_ns := b\<rparr>), m)"
    if r: "received c header c1" and "n < m" for header c1 a b m
    using less.prems that(2) received_ok [OF r] sync_ok_core [OF received_ok(1) [OF r], of sync]
    by (simp add: sync_outcome_def sync_ok_def)
  show ?case
    unfolding await_subscribed.simps [of net deadline c sync n]
  proof (rule returns_bind [OF read_message_run [OF net buffers]])
    fix x assume x: "message_outcome net c n x"
    show "returns (sync_outcome c n) (case x of (answer, n) \<Rightarrow> (case answer of
         Fail \<Rightarrow> Some (Fail, n)
       | Ok (header, c) \<Rightarrow>
         if h_type header = ROADCAST_MSG_SUBSCRIBED
         then Some (Ok (c, sync\<lparr>sy_change_sequence := h_sequence header, sy_sample_timestamp_ns := h_timestamp_ns header\<rparr>), n)
         else do {
           applied \<leftarrow> (if h_type header = ROADCAST_MSG_UPDATE_BATCH then apply_frame_batch c sync header
             else if h_type header = ROADCAST_MSG_SIGNAL_UPDATE_BATCH then apply_signal_batch c sync header
             else Some Fail);
           case applied of
             Fail \<Rightarrow> Some (Fail, n)
           | Ok (c, sync) \<Rightarrow> await_subscribed net deadline c sync n }))"
    proof (cases x)
      case (Pair answer m)
      show ?thesis
      proof (cases answer)
        case Fail
        then show ?thesis
          using x Pair by (simp add: message_outcome_def fail_outcome)
      next
        case (Ok y)
        obtain header c1 where y: "y = (header, c1)"
          by (cases y)
        have o: "n < m" "received c header c1" "\<not> quiet_from net n"
          using x Pair Ok y by (simp_all add: message_outcome_def)
        show ?thesis
          using last [OF o(2,1)] next_message [OF known [OF o(2)] received_ok(1) [OF o(2)] o(1,3)] by (simp add: Pair Ok y)
      qed
    qed
  qed
qed

lemma complete_subscription_run:
  assumes net: "net_ok net" and quiet: "quiet_from net N" and ok: "cache_ok c" and sync: "sync_ok c sync"
  shows "returns (sync_outcome c n) (complete_subscription net deadline c sync n)"
  unfolding complete_subscription_def
  by (auto simp: fail_outcome intro!: returns_bind [OF send_message_run [OF net]]
      sync_outcome_trans [OF await_subscribed_run [OF net quiet ok sync]])

lemma initialize_run:
  assumes "initialize_synchronization net c n = (r, m)"
  shows "n \<le> m \<and> (\<forall>sync. r = Ok sync \<longrightarrow> sync_ok c sync)"
  using assms zero_wf by (auto simp: initialize_synchronization_def sync_ok_def split: if_splits)

definition sync_done :: "roadcast_client \<Rightarrow> nat \<Rightarrow> synchronization ret \<times> roadcast_client \<times> nat \<Rightarrow> bool" where
  "sync_done c n = (\<lambda>(r, c', m). n \<le> m \<and> cache_ok c' \<and> core c = core c' \<and> (\<forall>sync. r = Ok sync \<longrightarrow> sync_ok c' sync))"

lemma sync_done_fail: "sync_done c n (Fail, c', m) \<longleftrightarrow> n \<le> m \<and> cache_ok c' \<and> core c = core c'"
  by (simp add: sync_done_def)

lemma synchronize_run:
  assumes net: "net_ok net" and quiet: "quiet_from net N" and ok: "cache_ok c" and sync: "sync_ok c sync"
  shows "returns (sync_done c n)
    (synchronize net deadline c sync n)"
proof -
  have third: "returns (sync_done c n)
      (do { (r, m) \<leftarrow> complete_subscription net deadline c2 sync2 m;
            case r of Fail \<Rightarrow> Some (Fail, c2, m) | Ok (c, sync) \<Rightarrow> Some (Ok sync, c, m) })"
    if "cache_ok c2" "core c = core c2" "sync_ok c2 sync2" "n \<le> m" for c2 sync2 m
    by (rule returns_bind [OF complete_subscription_run [OF net quiet that(1,3)]])
       (use that in \<open>auto simp: sync_outcome_def sync_done_def split: ret.split\<close>)
  have second: "returns (sync_done c n)
      (do { (r, m) \<leftarrow> request_signal_snapshot net deadline c1 sync1 0 m;
            case r of Fail \<Rightarrow> Some (Fail, c1, m)
            | Ok (c2, sync2) \<Rightarrow> do {
                (r, m) \<leftarrow> complete_subscription net deadline c2 sync2 m;
                case r of Fail \<Rightarrow> Some (Fail, c2, m) | Ok (c, sync) \<Rightarrow> Some (Ok sync, c, m) } })"
    if "cache_ok c1" "core c = core c1" "sync_ok c1 sync1" "n \<le> m" for c1 sync1 m
    by (rule returns_bind [OF request_signal_snapshot_run [OF net that(1,3)]])
       (use that in \<open>auto simp: sync_outcome_def sync_done_fail split: ret.split intro!: third\<close>)
  show ?thesis
    unfolding synchronize_def
    by (rule returns_bind [OF request_frame_snapshot_run [OF net ok sync]])
       (use ok in \<open>auto simp: sync_outcome_def sync_done_fail split: ret.split intro!: second\<close>)
qed

lemma reset_table: "length table = 2048 \<Longrightarrow> for_loop 0 2048 (\<lambda>i table. poke i [0xFFFF] table) table = Some (replicate 2048 (0xFFFF :: u16))"
  by (subst for_loop_update [where g = "\<lambda>_. 0xFFFF"]) (simp_all add: map_replicate_const)

definition live_ok :: "roadcast_client \<Rightarrow> bool" where
  "live_ok c \<longleftrightarrow> cache_ok c \<and> lookup_ok (k_can_id_to_index c) (k_frames c)"

lemma commit_run:
  assumes ok: "cache_ok c" and sync: "sync_ok c sync"
  shows "returns (\<lambda>c'. live_ok c' \<and> lookup_total (k_can_id_to_index c') (k_frames c') \<and> k_frames c' = sy_frames sync
      \<and> k_signals c' = sy_signals sync \<and> k_schema c' = k_schema c \<and> k_signal_count c' = k_signal_count c \<and> k_connected c'
      \<and> k_frame_count c' = k_frame_count c)
    (commit_synchronization c sync)"
proof -
  have n: "length (sy_frames sync) = unat (k_frame_count c)" "length (sy_signals sync) = unat (k_signal_count c)"
    "length (k_frames c) = unat (k_frame_count c)" "length (k_signals c) = unat (k_signal_count c)"
    "length (k_can_id_to_index c) = 2048" "unat (k_frame_count c) \<le> 65535"
    using ok sync by (simp_all add: cache_ok_def sync_ok_def buffers_ok_def)
  have "returns (\<lambda>t. length t = 2048 \<and> lookup_ok t (sy_frames sync) \<and> lookup_total t (sy_frames sync))
      (index_frames (unat (k_frame_count c)) (sy_frames sync) (replicate 2048 0xFFFF))"
    using index_frames_lookup [of "sy_frames sync" "replicate 2048 0xFFFF"] n by simp
  then show ?thesis
    unfolding commit_synchronization_def
    using n ok sync
    by (simp add: slice_Some poke_Some reset_table)
       (erule returns_bind, auto simp: live_ok_def cache_ok_def buffers_ok_def sync_ok_def)
qed

lemma resynchronize_run:
  assumes net: "net_ok net" and quiet: "quiet_from net N" and ok: "cache_ok c"
  shows "returns (\<lambda>(ok, c', m). n \<le> m \<and> cache_ok c' \<and> (ok \<longrightarrow> live_ok c')) (resynchronize net c n)"
proof -
  obtain r m where i: "initialize_synchronization net c (Suc n) = (r, m)"
    by fastforce
  note r = initialize_run [OF i]
  show ?thesis
  proof (cases r)
    case Fail
    then show ?thesis
      using r ok by (simp add: resynchronize_def i)
  next
    case (Ok sync)
    have live: "live_ok c1 \<Longrightarrow> live_ok (c1\<lparr>k_resynchronizations := k\<rparr>)" for c1 k
      by (simp add: live_ok_def cache_ok_def buffers_ok_def)
    have commit: "returns (\<lambda>(ok, c', m). n \<le> m \<and> cache_ok c' \<and> (ok \<longrightarrow> live_ok c'))
        (do { c \<leftarrow> commit_synchronization c1 sync1; Some (True, c\<lparr>k_resynchronizations := k_resynchronizations c + 1\<rparr>, m1) })"
      if "cache_ok c1" "sync_ok c1 sync1" "n \<le> m1" for c1 sync1 m1
      by (rule returns_bind [OF commit_run [OF that(1,2)]]) (use that(3) live in \<open>auto simp: live_ok_def\<close>)
    have s: "sync_ok c sync" "Suc n \<le> m"
      using r Ok by auto
    show ?thesis
      unfolding resynchronize_def i Ok Let_def
      using s by (auto simp: sync_done_def split: ret.split intro!: returns_bind [OF synchronize_run [OF net quiet ok s(1)]] commit)
  qed
qed

section \<open>Live updates\<close>

lemma apply_live_frame_batch_run:
  assumes ok: "live_ok c" and recv: "received c0 header c"
  shows "returns (\<lambda>(ok, c'). live_ok c') (apply_live_frame_batch c header)"
proof -
  have cache: "sync_ok c' (cache_of c')" if "cache_ok c'" for c'
    using that by (simp add: cache_ok_def sync_ok_def cache_of_def)
  have live: "live_ok c'" if "cache_ok c'" "core c = core c'" "k_can_id_to_index c = k_can_id_to_index c'" for c'
    using that ok core_same(3) [OF that(2)] by (simp add: live_ok_def)
  have store: "returns (\<lambda>(ok, c'). live_ok c') (do {
      (ok, sync) \<leftarrow> apply_decoded_frames c' (cache_of c') header sq k;
      Some (ok, if ok then c'\<lparr>k_frames := sy_frames sync, k_sample_sequence := sy_sample_sequence sync,
        k_change_sequence := sy_change_sequence sync, k_sample_timestamp_ns := sy_sample_timestamp_ns sync\<rparr>
        else c'\<lparr>k_frames := sy_frames sync\<rparr>) })"
    if "cache_ok c'" "live_ok c'" "k \<le> length (k_frame_scratch c')" for c' sq k
    by (rule returns_bind [OF apply_decoded_frames_run [OF that(1) cache [OF that(1)] that(3)]])
       (use that(2) in \<open>auto simp: live_ok_def cache_ok_def buffers_ok_def sync_ok_def cache_of_def\<close>)
  have "cache_ok c"
    using ok by (simp add: live_ok_def)
  then show ?thesis
    unfolding apply_live_frame_batch_def Let_def
    using ok by (auto split: ret.split intro!: returns_bind [OF decode_frames_run [OF _ recv]] store live)
qed

lemma apply_live_signal_batch_run:
  assumes ok: "live_ok c" and recv: "received c0 header c"
  shows "returns (\<lambda>(ok, c'). live_ok c') (apply_live_signal_batch c header)"
proof -
  have cache: "sync_ok c' (cache_of c')" if "cache_ok c'" for c'
    using that by (simp add: cache_ok_def sync_ok_def cache_of_def)
  have live: "live_ok c'" if "cache_ok c'" "core c = core c'" "k_can_id_to_index c = k_can_id_to_index c'" for c'
    using that ok core_same(3) [OF that(2)] by (simp add: live_ok_def)
  have store: "returns (\<lambda>(ok, c'). live_ok c') (do {
      (ok, sync) \<leftarrow> apply_decoded_signals c' (cache_of c') header sq k;
      Some (ok, if ok then c'\<lparr>k_signals := sy_signals sync, k_sample_sequence := sy_sample_sequence sync,
        k_change_sequence := sy_change_sequence sync, k_sample_timestamp_ns := sy_sample_timestamp_ns sync\<rparr>
        else c'\<lparr>k_signals := sy_signals sync\<rparr>) })"
    if "cache_ok c'" "live_ok c'" "k \<le> length (k_signal_scratch c')" for c' sq k
    by (rule returns_bind [OF apply_decoded_signals_run [OF that(1) cache [OF that(1)] that(3)]])
       (use that(2) in \<open>auto simp: live_ok_def cache_ok_def buffers_ok_def sync_ok_def cache_of_def\<close>)
  have "cache_ok c"
    using ok by (simp add: live_ok_def)
  then show ?thesis
    unfolding apply_live_signal_batch_def Let_def
    using ok by (auto split: ret.split intro!: returns_bind [OF decode_signals_run [OF _ recv]] store live)
qed

lemma apply_heartbeat_run:
  assumes "live_ok c" and "received c0 header c"
  shows "returns (\<lambda>(ok, c'). live_ok c') (apply_heartbeat c header)"
proof -
  define p where "p = take (unat (h_payload_bytes header)) (k_payload c)"
  obtain r where "roadcast_decode_heartbeat p = Some r"
    using small_decoders_safe(4) [of p] by blast
  then show ?thesis
    unfolding apply_heartbeat_def received_payload [OF assms(2)] p_def [symmetric]
    using assms(1) by (simp add: live_ok_def cache_ok_def buffers_ok_def split: ret.split)
qed

definition round_outcome :: "nat \<Rightarrow> bool \<times> roadcast_client \<times> nat \<Rightarrow> bool" where
  "round_outcome n = (\<lambda>(again, c', m). n \<le> m \<and> cache_ok c' \<and> (again \<longrightarrow> live_ok c'))"

lemma handle_message_run:
  assumes net: "net_ok net" and quiet: "quiet_from net N" and ok: "live_ok c" and recv: "received c0 header c"
  shows "returns (round_outcome n) (handle_message net c header n)"
proof -
  have cache: "cache_ok c"
    using ok by (simp add: live_ok_def)
  have live: "returns (round_outcome n) (map_option (\<lambda>(ok, c). (ok, c, n)) m)" if "returns (\<lambda>(ok, c'). live_ok c') m" for m
    by (rule returns_map, rule returns_mono [OF that]) (auto simp: round_outcome_def live_ok_def)
  have resync: "returns (round_outcome n) (resynchronize net c n)"
    using resynchronize_run [OF net quiet cache, of n] by (simp add: round_outcome_def)
  show ?thesis
    unfolding handle_message_def
    using live apply_live_frame_batch_run [OF ok recv] apply_live_signal_batch_run [OF ok recv] apply_heartbeat_run [OF ok recv]
      resync cache by (simp add: round_outcome_def [of n])
qed

definition reader_outcome :: "nat \<Rightarrow> nat \<Rightarrow> bool \<times> roadcast_client \<times> nat \<Rightarrow> bool" where
  "reader_outcome N n = (\<lambda>(again, c', m). n \<le> m \<and> cache_ok c' \<and> (again \<longrightarrow> live_ok c' \<and> n < m \<and> n < N))"

lemma reader_outcome_stop: "reader_outcome N n (False, c, m) \<longleftrightarrow> n \<le> m \<and> cache_ok c"
  by (simp add: reader_outcome_def)

lemma reader_round_run:
  assumes net: "net_ok net" and quiet: "quiet_from net N" and ok: "live_ok c"
  shows "returns (reader_outcome N n) (reader_round net c n)"
proof -
  have cache: "cache_ok c" and buffers: "buffers_ok c"
    using ok by (simp_all add: live_ok_def cache_ok_def)
  have early: "n < N" if "\<not> quiet_from net (Suc n)"
    using quiet_from_later [OF quiet, of "Suc n"] that by (cases "N \<le> n") auto
  have handle: "returns (reader_outcome N n) (handle_message net c1 header m)"
    if r: "received c header c1" and "Suc n < m" "\<not> quiet_from net (Suc n)" for c1 header m
  proof (rule returns_mono [OF handle_message_run [OF net quiet _ r]])
    show "live_ok c1"
      using ok received_ok [OF r] core_same(3) [OF received_ok(1) [OF r]] by (simp add: live_ok_def)
  qed (use early that in \<open>auto simp: round_outcome_def reader_outcome_def\<close>)
  show ?thesis
    unfolding reader_round_def
    using cache
    by (auto simp: message_outcome_def reader_outcome_stop split: ret.split
        intro!: returns_bind [OF read_message_run [OF net buffers]] handle)
qed

lemma reader_thread_run:
  assumes net: "net_ok net" and quiet: "quiet_from net N" and "live_ok c"
  shows "returns (\<lambda>(c', m). n \<le> m \<and> cache_ok c' \<and> \<not> k_connected c') (reader_thread_main net c n)"
  using assms(3)
proof (induction "N - n" arbitrary: c n rule: less_induct)
  case less
  have stop: "cache_ok c' \<Longrightarrow> cache_ok (mark_disconnected c') \<and> \<not> k_connected (mark_disconnected c')" for c'
    by (simp add: mark_disconnected_def cache_ok_def buffers_ok_def)
  have again: "returns (\<lambda>(c', m). n \<le> m \<and> cache_ok c' \<and> \<not> k_connected c') (reader_thread_main net c1 m)"
    if "live_ok c1" "n < m" "n < N" for c1 m
    by (rule returns_mono [OF less.hyps]) (use that in auto)
  show ?case
    unfolding reader_thread_main.simps [of net c n]
    by (rule returns_bind [OF reader_round_run [OF net quiet less.prems]])
       (use stop in \<open>auto simp: reader_outcome_def intro!: again\<close>)
qed

section \<open>Connecting\<close>

definition welcomed :: "roadcast_client \<Rightarrow> bool" where
  "welcomed c \<longleftrightarrow> buffers_ok c \<and> unat (k_frame_count c) \<le> 65535 \<and> 36 \<le> unat (k_max_response_payload c)"

lemma perform_handshake_run:
  assumes net: "net_ok net" and ok: "buffers_ok c"
  shows "returns (\<lambda>(r, m). \<forall>c'. r = Ok c' \<longrightarrow> welcomed c') (perform_handshake net deadline c n)"
proof -
  have greeted: "returns (\<lambda>(r, m). \<forall>c'. r = Ok c' \<longrightarrow> welcomed c') (do {
             payload \<leftarrow> message_payload c1 header;
             decoded \<leftarrow> roadcast_decode_welcome payload;
             case decoded of
               Fail \<Rightarrow> Some (Fail, m)
             | Ok w \<Rightarrow>
                 if w_capabilities w AND ROADCAST_CAP_RAW_CAN = 0 \<or> w_capabilities w AND ROADCAST_CAP_DECODED_CAN = 0
                    \<or> w_frame_count w = 0 \<or> w_frame_count w > CLIENT_MAX_FRAMES
                    \<or> w_signal_count w = 0 \<or> w_signal_count w > CLIENT_MAX_SIGNALS
                    \<or> unat (w_max_request_payload w) < 8
                    \<or> unat (w_max_response_payload w) < ROADCAST_WELCOME_SIZE
                    \<or> unat (w_max_response_payload w) > ROADCAST_MAX_PAYLOAD
                 then Some (Fail, m)
                 else Some (Ok (c1\<lparr>k_hz := w_hz w, k_frame_count := w_frame_count w, k_signal_count := w_signal_count w,
                   k_max_request_payload := w_max_request_payload w, k_max_response_payload := w_max_response_payload w,
                   k_schema_version := w_schema_version w, k_schema_hash := w_schema_hash w\<rparr>), m) })"
    if r: "received c header c1" for header c1 m
  proof -
    define p where "p = take (unat (h_payload_bytes header)) (k_payload c1)"
    obtain d where d: "roadcast_decode_welcome p = Some d"
      using small_decoders_safe(2) [of p] by blast
    have b: "length (k_payload c1) = k_payload_capacity c1" "length (k_can_id_to_index c1) = 2048"
      using received_ok(2) [OF r ok] by (simp_all add: buffers_ok_def)
    show ?thesis
      unfolding received_payload [OF r] p_def [symmetric]
      by (auto simp: d welcomed_def buffers_ok_def b not_less word_le_nat_alt split: ret.split)
  qed
  show ?thesis
    unfolding perform_handshake_def encode_hello_poke
    by (auto simp: poke_Some message_outcome_def split: ret.split
        intro!: returns_bind [OF send_message_run [OF net]] returns_bind [OF read_message_run [OF net ok]] greeted)
qed

lemma allocate_run:
  assumes "welcomed c" and "allocate_cache net c n = (Ok c', m)"
  shows "cache_ok c' \<and> schema_upto c' 0"
  using assms zero_wf
  by (auto simp: allocate_cache_def Let_def welcomed_def cache_ok_def buffers_ok_def schema_upto_def update_wf_def value_wf_def
      split: if_splits)

text \<open>A client that \<^const>\<open>roadcast_client_connect\<close> returns.\<close>

definition ready :: "roadcast_client \<Rightarrow> bool" where
  "ready c \<longleftrightarrow> live_ok c \<and> lookup_total (k_can_id_to_index c) (k_frames c) \<and> schema_upto c (unat (k_signal_count c))
     \<and> k_connected c \<and> k_reader_started c"

definition connect_errors :: "int set" where
  "connect_errors = {ROADCAST_CLIENT_ERR_ARGUMENT, ROADCAST_CLIENT_ERR_SOCKET, ROADCAST_CLIENT_ERR_HANDSHAKE,
     ROADCAST_CLIENT_ERR_SCHEMA, ROADCAST_CLIENT_ERR_SNAPSHOT, ROADCAST_CLIENT_ERR_MEMORY, ROADCAST_CLIENT_ERR_THREAD}"

definition connect_outcome :: "(int + roadcast_client) \<times> nat \<Rightarrow> bool" where
  "connect_outcome = (\<lambda>(r, m). case r of Inl e \<Rightarrow> e \<in> connect_errors | Inr c \<Rightarrow> ready c)"

lemma connect_failed: "connect_outcome (Inl e, m) \<longleftrightarrow> e \<in> connect_errors"
  by (simp add: connect_outcome_def)

lemma setup_client_run:
  assumes net: "net_ok net" and quiet: "quiet_from net N" and ok: "welcomed c"
  shows "returns connect_outcome (setup_client net deadline c n)"
proof -
  have ready: "returns connect_outcome (do {
      c \<leftarrow> commit_synchronization c1 sync;
      if \<not> n_thread net m then Some (Inl ROADCAST_CLIENT_ERR_THREAD, Suc m)
      else Some (Inr (c\<lparr>k_reader_started := True\<rparr>), Suc m) })"
    if "cache_ok c1" "sync_ok c1 sync" "schema_upto c1 (unat (k_signal_count c1))" for c1 sync m
    by (rule returns_bind [OF commit_run [OF that(1,2)]])
       (use that(3) in \<open>auto simp: connect_outcome_def connect_errors_def ready_def live_ok_def cache_ok_def buffers_ok_def schema_upto_def\<close>)
  have synchronised: "returns connect_outcome (case initialize_synchronization net c1 m of
        (Fail, n) \<Rightarrow> Some (Inl ROADCAST_CLIENT_ERR_MEMORY, n)
      | (Ok sync, n) \<Rightarrow> do {
          (result, c, n) \<leftarrow> synchronize net deadline c1 sync n;
          case result of
            Fail \<Rightarrow> Some (Inl ROADCAST_CLIENT_ERR_SNAPSHOT, n)
          | Ok sync \<Rightarrow> do {
              c \<leftarrow> commit_synchronization c sync;
              if \<not> n_thread net n then Some (Inl ROADCAST_CLIENT_ERR_THREAD, Suc n)
              else Some (Inr (c\<lparr>k_reader_started := True\<rparr>), Suc n) } })"
    if ok1: "cache_ok c1" and schema: "schema_upto c1 (unat (k_signal_count c1))" for c1 m
  proof -
    obtain r k where i: "initialize_synchronization net c1 m = (r, k)"
      by fastforce
    have s: "schema_upto c2 (unat (k_signal_count c2))" if "core c1 = core c2" for c2
      using schema core_same [OF that] by (simp add: schema_upto_def)
    show ?thesis
    proof (cases r)
      case Fail
      then show ?thesis
        by (simp add: i connect_failed connect_errors_def)
    next
      case (Ok sync)
      then have "sync_ok c1 sync"
        using initialize_run [OF i] by simp
      then show ?thesis
        unfolding i Ok
        by (auto simp: sync_done_def connect_failed connect_errors_def split: ret.split
            intro!: returns_bind [OF synchronize_run [OF net quiet ok1]] ready s)
    qed
  qed
  obtain r m where a: "allocate_cache net c n = (r, m)"
    by fastforce
  show ?thesis
  proof (cases r)
    case Fail
    then show ?thesis
      by (simp add: setup_client_def a connect_failed connect_errors_def)
  next
    case (Ok c1)
    have c1: "cache_ok c1" "schema_upto c1 (unat 0)"
      using allocate_run [OF ok] a Ok by auto
    show ?thesis
      unfolding setup_client_def a Ok
      by (auto simp: connect_failed connect_errors_def split: ret.split
          intro!: returns_bind [OF request_schema_run [OF net c1]] synchronised)
  qed
qed

lemma connect_run:
  assumes net: "net_ok net" and quiet: "quiet_from net N"
  shows "returns connect_outcome (roadcast_client_connect net socket_name n)"
proof -
  have new: "buffers_ok (new_client\<lparr>k_fd := fd\<rparr>)" for fd
    by (simp add: buffers_ok_def new_client_def)
  have socket: "returns (\<lambda>_. True) (connect_socket net name deadline k)" for name deadline k
    by (rule connect_socket_run [OF net, of name deadline k]) simp
  show ?thesis
    unfolding roadcast_client_connect_def Let_def
    by (auto simp: connect_failed connect_errors_def split: option.split ret.split
        intro!: returns_bind [OF socket] returns_bind [OF perform_handshake_run [OF net new]] setup_client_run [OF net quiet])
qed

section \<open>Reading the cache\<close>

lemma read_frame_run:
  assumes "live_ok c"
  shows "\<exists>rc frame. roadcast_client_read_frame (Some c) can_id True = Some (rc, frame)
    \<and> (\<forall>f. frame = Some f \<longrightarrow> f \<in> set (k_frames c) \<and> f_can_id f = can_id \<and> frame_wf f)
    \<and> (rc = ROADCAST_CLIENT_OK \<longleftrightarrow> frame \<noteq> None)"
proof -
  have "buffers_ok c" and n: "unat (k_frame_count c) \<le> 65535" "length (k_frames c) = unat (k_frame_count c)"
    and wf: "\<forall>f \<in> set (k_frames c). frame_wf f" and look: "lookup_ok (k_can_id_to_index c) (k_frames c)"
    using assms by (simp_all add: live_ok_def cache_ok_def)
  then obtain t where t: "frame_target c can_id = Some t"
      "unat t < unat (k_frame_count c) \<Longrightarrow> unat can_id < 2048 \<and> t = k_can_id_to_index c ! unat can_id"
    using frame_target_run [of c can_id] by (auto simp: returns_def)
  show ?thesis
  proof (cases "unat t < unat (k_frame_count c)")
    case False
    then show ?thesis
      by (simp add: roadcast_client_read_frame_def t(1))
  next
    case True
    have "unat (f_can_id (k_frames c ! unat t)) = unat can_id"
      using look t(2) [OF True] True n(2) unfolding lookup_ok_def by metis
    then have "f_can_id (k_frames c ! unat t) = can_id"
      by (simp add: word_unat_eq_iff)
    then show ?thesis
      using True n(2) wf by (simp add: roadcast_client_read_frame_def t(1) rd_Some)
  qed
qed

lemma read_frame_found:
  assumes "live_ok c" and "lookup_total (k_can_id_to_index c) (k_frames c)" and "f \<in> set (k_frames c)"
    and "unat (f_can_id f) < CAN_ID_LOOKUP_CAP"
  shows "\<exists>g. roadcast_client_read_frame (Some c) (f_can_id f) True = Some (ROADCAST_CLIENT_OK, Some g)"
  using assms
  by (auto simp: roadcast_client_read_frame_def frame_target_def lookup_total_def live_ok_def cache_ok_def buffers_ok_def rd_Some)

lemma find_schema_run:
  assumes "i + k \<le> length schema"
  shows "\<exists>r. find_schema P schema i k = Some r \<and> (r = - 1 \<and> (\<forall>j. i \<le> j \<and> j < i + k \<longrightarrow> \<not> P (schema ! j))
    \<or> (\<exists>j. r = int j \<and> i \<le> j \<and> j < i + k \<and> P (schema ! j) \<and> (\<forall>j'. i \<le> j' \<and> j' < j \<longrightarrow> \<not> P (schema ! j'))))"
  using assms
proof (induction k arbitrary: i)
  case 0
  then show ?case
    by auto
next
  case (Suc k)
  show ?case
  proof (cases "P (schema ! i)")
    case True
    then show ?thesis
      using Suc.prems by (auto simp: rd_Some intro!: exI [of _ i])
  next
    case False
    obtain r where r: "find_schema P schema (Suc i) k = Some r" "r = - 1 \<and> (\<forall>j. Suc i \<le> j \<and> j < Suc i + k \<longrightarrow> \<not> P (schema ! j))
        \<or> (\<exists>j. r = int j \<and> Suc i \<le> j \<and> j < Suc i + k \<and> P (schema ! j) \<and> (\<forall>j'. Suc i \<le> j' \<and> j' < j \<longrightarrow> \<not> P (schema ! j')))"
      using Suc.IH [of "Suc i"] Suc.prems by auto
    have "\<not> P (schema ! j)" if "i \<le> j" "\<not> Suc i \<le> j" for j
      using False that by (simp add: not_less_eq_eq le_antisym)
    then show ?thesis
      using r False Suc.prems by (auto simp: rd_Some) (metis Suc_leD Suc_leI le_neq_implies_less)+
  qed
qed

section \<open>Properties\<close>

text \<open>The states at the head of the reader's loop.\<close>

inductive reader_reaches :: "net \<Rightarrow> roadcast_client \<Rightarrow> nat \<Rightarrow> roadcast_client \<Rightarrow> nat \<Rightarrow> bool" for net c n where
  start: "reader_reaches net c n c n"
| round: "reader_reaches net c n c1 m \<Longrightarrow> reader_round net c1 m = Some (True, c2, m2) \<Longrightarrow> reader_reaches net c n c2 m2"

lemma reader_reaches_live:
  assumes "reader_reaches net c n c' m" and "net_ok net" and "quiet_from net N" and "live_ok c"
  shows "live_ok c'"
  using assms(1,4)
proof induction
  case (round c1 m c2 m2)
  then show ?case
    using reader_round_run [OF assms(2,3), of c1 m] by (auto simp: returns_def reader_outcome_def)
qed

text \<open>A connection that the daemon closes at once, and a client with one frame and one signal, for the examples.\<close>

definition closed_net :: net where
  "closed_net = \<lparr>n_clock = (\<lambda>_. - 1), n_alloc = (\<lambda>_. True), n_socket = (\<lambda>_. 3), n_fcntl = (\<lambda>_. 0), n_connect = (\<lambda>_ _ _. (0, 0)),
     n_so_error = (\<lambda>_. (0, 0)), n_poll = (\<lambda>_ _ _. (0, 0, 0)), n_send = (\<lambda>_ data. (int (length data), 0)),
     n_recv = (\<lambda>_ _. (0, 0, [])), n_thread = (\<lambda>_. True), n_stop = (\<lambda>_. False)\<rparr>"

lemma closed_net_ok: "net_ok closed_net" "quiet_from closed_net 0"
  by (simp_all add: closed_net_def net_ok_def quiet_from_def)

definition small_client :: roadcast_client where
  "small_client = new_client\<lparr>k_fd := 3, k_reader_started := True, k_frame_scratch := [zero_frame], k_frame_scratch_capacity := 1,
     k_signal_scratch := [\<lparr>su_index = 0, su_value = zero_signal\<rparr>], k_signal_scratch_capacity := 1,
     k_schema := [\<lparr>se_stable_id = 5, se_index = 0, se_invalid_signal_index = UINT32_MAX, se_can_id = 0x2F1, se_kind = 2,
        se_source = 1, se_width = 8, se_flags = 2, se_scale = 0, se_offset = 0, se_name = [65, 66], se_unit = [67]\<rparr>],
     k_frames := [zero_frame\<lparr>f_can_id := 0x2F1\<rparr>], k_signals := [zero_signal], k_frame_count := 1, k_signal_count := 1,
     k_can_id_to_index := (replicate CAN_ID_LOOKUP_CAP 0xFFFF)[0x2F1 := 0], k_connected := True\<rparr>"

lemma small_client_ready: "ready small_client"
proof -
  define table :: "u16 list" where "table = (replicate CAN_ID_LOOKUP_CAP 0xFFFF)[0x2F1 := 0]"
  have t: "length table = 2048" "\<And>i. i < 2048 \<Longrightarrow> table ! i = (if i = 0x2F1 then 0 else 0xFFFF)"
    by (simp_all add: table_def nth_list_update)
  have look: "lookup_ok table [zero_frame\<lparr>f_can_id := 0x2F1\<rparr>]" "lookup_total table [zero_frame\<lparr>f_can_id := 0x2F1\<rparr>]"
    by (auto simp: lookup_ok_def lookup_total_def t)
  have wf: "frame_wf (zero_frame\<lparr>f_can_id := 0x2F1\<rparr>)" "update_wf \<lparr>su_index = 0, su_value = zero_signal\<rparr>"
    by (simp_all add: frame_wf_def zero_frame_def update_wf_def zero_signal_def)
  show ?thesis
    unfolding small_client_def table_def [symmetric]
    by (simp add: new_client_def ready_def live_ok_def cache_ok_def buffers_ok_def look wf zero_wf t(1) schema_upto_def)
qed







end
