(* ===== verification/Binary64.thy ===== *)
theory Binary64
  imports Prelude "HOL-Library.Log_Nat"
begin

text \<open>
  IEEE-754 binary64 arithmetic on bit patterns, as far as \<^verbatim>\<open>catalog.c\<close> uses it: conversion of a
  \<^verbatim>\<open>uint64_t\<close>, negation, multiplication, addition and the fused form a compiler may contract
  \<^verbatim>\<open>a * b + c\<close> into (C11 6.5p8), all rounding to nearest, ties to even.  A finite pattern denotes the
  dyadic number \<open>m * 2 ^ e\<close> of \<open>fp_dyadic\<close>; an operation computes exactly and rounds once.  Every
  NaN result is the canonical quiet NaN.
\<close>

definition fp_sign :: "u64 \<Rightarrow> bool" where
  "fp_sign d \<longleftrightarrow> bit d 63"

definition fp_exp :: "u64 \<Rightarrow> nat" where
  "fp_exp d = unat d div 2 ^ 52 mod 2048"

definition fp_frac :: "u64 \<Rightarrow> nat" where
  "fp_frac d = unat d mod 2 ^ 52"

definition fp_nan :: u64 where
  "fp_nan = 0x7FF8000000000000"

definition fp_is_nan :: "u64 \<Rightarrow> bool" where
  "fp_is_nan d \<longleftrightarrow> fp_exp d = 2047 \<and> fp_frac d \<noteq> 0"

definition fp_is_inf :: "u64 \<Rightarrow> bool" where
  "fp_is_inf d \<longleftrightarrow> fp_exp d = 2047 \<and> fp_frac d = 0"

definition fp_inf :: "bool \<Rightarrow> u64" where
  "fp_inf s = (if s then 0xFFF0000000000000 else 0x7FF0000000000000)"

definition fp_zero :: "bool \<Rightarrow> u64" where
  "fp_zero s = (if s then 0x8000000000000000 else 0)"

definition fp_mant :: "u64 \<Rightarrow> nat" where
  "fp_mant d = (if fp_exp d = 0 then fp_frac d else 2 ^ 52 + fp_frac d)"

definition fp_scale :: "u64 \<Rightarrow> int" where
  "fp_scale d = int (max 1 (fp_exp d)) - 1075"

definition fp_dyadic :: "u64 \<Rightarrow> int \<times> int" where
  "fp_dyadic d = ((if fp_sign d then - int (fp_mant d) else int (fp_mant d)), fp_scale d)"

text \<open>\<open>round_even n d\<close> is \<open>n / d\<close> rounded to the nearest integer, ties to even.\<close>

definition round_even :: "nat \<Rightarrow> nat \<Rightarrow> nat" where
  "round_even n d = (let q = n div d; r = n mod d in
     if 2 * r > d \<or> (2 * r = d \<and> odd q) then q + 1 else q)"

text \<open>
  \<open>fp_unit n d\<close> is the exponent of the unit in the last place for \<open>n / d\<close>; \<open>fp_magnitude\<close> is the
  pattern without the sign bit, where a carry out of the significand moves to the next exponent.
\<close>

definition scaled :: "nat \<Rightarrow> nat \<Rightarrow> int \<Rightarrow> nat \<times> nat" where
  "scaled n d e = (if 0 \<le> e then (n, d * 2 ^ nat e) else (n * 2 ^ nat (- e), d))"

definition fp_unit :: "nat \<Rightarrow> nat \<Rightarrow> int" where
  "fp_unit n d = (let e = int (floorlog 2 n) - int (floorlog 2 d) - 53; (a, b) = scaled n d e in
     max (- 1074) (if a < b * 2 ^ 53 then e else e + 1))"

definition fp_magnitude :: "nat \<Rightarrow> nat \<Rightarrow> nat" where
  "fp_magnitude n d = (if n = 0 then 0 else
     let e = fp_unit n d; (a, b) = scaled n d e in
     min (2047 * 2 ^ 52) (nat (e + 1074) * 2 ^ 52 + round_even a b))"

definition fp_pack :: "bool \<Rightarrow> nat \<Rightarrow> u64" where
  "fp_pack s m = of_nat (if s then m + 2 ^ 63 else m)"

text \<open>\<open>fp_round zero_sign m e\<close> rounds \<open>m * 2 ^ e\<close>; an exact zero takes the sign given.\<close>

definition fp_round :: "bool \<Rightarrow> int \<Rightarrow> int \<Rightarrow> u64" where
  "fp_round z m e = (if m = 0 then fp_zero z
     else fp_pack (m < 0) (if 0 \<le> e then fp_magnitude (nat \<bar>m\<bar> * 2 ^ nat e) 1
                           else fp_magnitude (nat \<bar>m\<bar>) (2 ^ nat (- e))))"

definition dyadic_add :: "int \<times> int \<Rightarrow> int \<times> int \<Rightarrow> int \<times> int" where
  "dyadic_add x y = (let e = min (snd x) (snd y) in
     (fst x * 2 ^ nat (snd x - e) + fst y * 2 ^ nat (snd y - e), e))"

definition fp_of_u64 :: "u64 \<Rightarrow> u64" where
  "fp_of_u64 n = fp_round False (uint n) 0"

definition fp_neg :: "u64 \<Rightarrow> u64" where
  "fp_neg d = d XOR 0x8000000000000000"

definition fp_mul :: "u64 \<Rightarrow> u64 \<Rightarrow> u64" where
  "fp_mul a b = (let s = (fp_sign a \<noteq> fp_sign b) in
     if fp_is_nan a \<or> fp_is_nan b then fp_nan
     else if fp_is_inf a \<or> fp_is_inf b
     then (if fp_mant a = 0 \<and> fp_exp a = 0 \<or> fp_mant b = 0 \<and> fp_exp b = 0 then fp_nan else fp_inf s)
     else fp_round s (fst (fp_dyadic a) * fst (fp_dyadic b)) (snd (fp_dyadic a) + snd (fp_dyadic b)))"

definition fp_add :: "u64 \<Rightarrow> u64 \<Rightarrow> u64" where
  "fp_add a b =
    (if fp_is_nan a \<or> fp_is_nan b then fp_nan
     else if fp_is_inf a then (if fp_is_inf b \<and> fp_sign a \<noteq> fp_sign b then fp_nan else a)
     else if fp_is_inf b then b
     else let s = dyadic_add (fp_dyadic a) (fp_dyadic b) in
       fp_round (fp_sign a \<and> fp_sign b) (fst s) (snd s))"

definition fp_fma :: "u64 \<Rightarrow> u64 \<Rightarrow> u64 \<Rightarrow> u64" where
  "fp_fma a b c = (let s = (fp_sign a \<noteq> fp_sign b) in
     if fp_is_nan a \<or> fp_is_nan b \<or> fp_is_nan c then fp_nan
     else if fp_is_inf a \<or> fp_is_inf b then fp_add (fp_mul a b) c
     else if fp_is_inf c then c
     else let r = dyadic_add (fst (fp_dyadic a) * fst (fp_dyadic b), snd (fp_dyadic a) + snd (fp_dyadic b))
            (fp_dyadic c) in
       fp_round (s \<and> fp_sign c) (fst r) (snd r))"

text \<open>The value of a decimal literal with \<open>k\<close> digits after the point: \<open>m / 10 ^ k\<close>, rounded once.\<close>

definition fp_lit :: "int \<Rightarrow> nat \<Rightarrow> u64" where
  "fp_lit m k = fp_pack (m < 0) (fp_magnitude (nat \<bar>m\<bar>) (10 ^ k))"

end
