(* ===== verification/Frames.thy ===== *)
theory Frames
  imports Prelude
begin

text \<open>The generated CAN identifier table of \<^verbatim>\<open>include/roadcast_frames.h\<close>.\<close>

definition ROADCAST_CAN_IDS :: "u16 list" where
  "ROADCAST_CAN_IDS = [
    0x085, 0x0A6, 0x0B7, 0x0BA, 0x0E0, 0x114, 0x122, 0x123, 0x124, 0x125, 0x128, 0x12F,
    0x139, 0x150, 0x160, 0x161, 0x162, 0x165, 0x169, 0x176, 0x178, 0x17A, 0x17B, 0x191,
    0x1A1, 0x1A2, 0x1A3, 0x1A5, 0x1A6, 0x1B0, 0x1E2, 0x1EB, 0x1F0, 0x1FB, 0x211, 0x212,
    0x214, 0x218, 0x220, 0x221, 0x225, 0x226, 0x250, 0x255, 0x260, 0x26D, 0x26F, 0x272,
    0x274, 0x27F, 0x281, 0x283, 0x284, 0x285, 0x286, 0x287, 0x288, 0x28B, 0x290, 0x292,
    0x294, 0x295, 0x297, 0x299, 0x29A, 0x29B, 0x29F, 0x2AB, 0x2B1, 0x2C1, 0x2C2, 0x2C3,
    0x2C4, 0x2C5, 0x2C6, 0x2C8, 0x2C9, 0x2CA, 0x2CD, 0x2D2, 0x2D8, 0x2DF, 0x2E0, 0x2E2,
    0x2E4, 0x2EA, 0x2F1, 0x2F2, 0x2F4, 0x2FC, 0x2FD, 0x2FE, 0x2FF, 0x315, 0x339, 0x354,
    0x359, 0x374, 0x380, 0x390, 0x392, 0x3A2, 0x3F0, 0x3F1, 0x3F6, 0x3F7, 0x3FD, 0x3FE,
    0x680, 0x7C1, 0x7DF]"

abbreviation (input) ROADCAST_FRAME_COUNT :: nat where "ROADCAST_FRAME_COUNT \<equiv> 111"

lemma length_ROADCAST_CAN_IDS [simp]: "length ROADCAST_CAN_IDS = ROADCAST_FRAME_COUNT"
  by (simp add: ROADCAST_CAN_IDS_def)

text \<open>The identifiers are strictly increasing, so no two frames share one.\<close>

lemma ROADCAST_CAN_IDS_sorted: "sorted_wrt (<) (map unat ROADCAST_CAN_IDS)"
proof -
  have "successively (<) (map unat ROADCAST_CAN_IDS)"
    by (simp add: ROADCAST_CAN_IDS_def)
  then show ?thesis
    by (simp add: successively_conv_sorted_wrt transp_on_def)
qed

lemma ROADCAST_CAN_IDS_distinct: "distinct ROADCAST_CAN_IDS"
  using ROADCAST_CAN_IDS_sorted strict_sorted_iff distinct_map by blast

lemma ROADCAST_CAN_IDS_small: "\<forall>c \<in> set ROADCAST_CAN_IDS. unat c < 2048"
  by (simp add: ROADCAST_CAN_IDS_def)

end
