(* ===== verification/Catalog.thy ===== *)
theory Catalog
  imports Schema Binary64 Frames
begin

text \<open>
  The signal catalogue: \<^verbatim>\<open>include/roadcast_catalog.h\<close> and \<^verbatim>\<open>src/catalog.c\<close>.  The generated tables
  \<^verbatim>\<open>ROADCAST_SIGNALS\<close> and \<^verbatim>\<open>ROADCAST_CAN_IDS\<close> are arguments here (\<open>sigs\<close>, \<open>ids\<close>), and \<open>catalog_ok\<close> says
  what the decoder needs of them; the theory \<^verbatim>\<open>Catalog_Table\<close> holds the generated tables themselves and
  proves it of them.  A shift by the width of its operand or more and a read outside a frame are
  undefined behaviour and give \<^const>\<open>None\<close>.  The flag \<open>fc\<close> says whether the compiler contracts
  \<^verbatim>\<open>numeric * scale + offset\<close> into a fused operation, which C11 leaves open.
\<close>

abbreviation (input) ROADCAST_SIGNAL_COUNT :: nat where "ROADCAST_SIGNAL_COUNT \<equiv> 815"
abbreviation (input) ROADCAST_SCHEMA_VERSION :: u32 where "ROADCAST_SCHEMA_VERSION \<equiv> 1"

record roadcast_signal_part =
  sp_word :: u8
  sp_offset :: u8
  sp_bits :: u8

record roadcast_signal_definition =
  sd_stable_id :: u64
  sd_name :: string
  sd_unit :: string
  sd_parts :: "roadcast_signal_part list"
  sd_invalid_signal_index :: u32
  sd_can_id :: u16
  sd_frame_index :: u16
  sd_part_count :: u8
  sd_width :: u8
  sd_is_signed :: u8
  sd_calibrated :: u8
  sd_scale :: double
  sd_offset :: double

text \<open>A positional initialiser of the generated part arrays.\<close>

abbreviation (input) part_lit :: "u8 \<Rightarrow> u8 \<Rightarrow> u8 \<Rightarrow> roadcast_signal_part" where
  "part_lit w off b \<equiv> \<lparr>sp_word = w, sp_offset = off, sp_bits = b\<rparr>"

section \<open>Decoding signals\<close>

definition read_le32 :: "bytes \<Rightarrow> nat \<Rightarrow> u32 option" where
  "read_le32 input off = do {
     b0 \<leftarrow> rd input off;
     b1 \<leftarrow> rd input (off + 1);
     b2 \<leftarrow> rd input (off + 2);
     b3 \<leftarrow> rd input (off + 3);
     Some (ucast b0 OR push_bit 8 (ucast b1) OR push_bit 16 (ucast b2) OR push_bit 24 (ucast b3)) }"

definition extract_part :: "bytes \<Rightarrow> roadcast_signal_part \<Rightarrow> u32 option" where
  "extract_part frame part = do {
     word \<leftarrow> read_le32 frame (unat (sp_word part));
     let shift = unat ((32 :: u32) - ucast (sp_offset part) - ucast (sp_bits part));
     let msk = (if sp_bits part \<ge> 32 then UINT32_MAX else push_bit (unat (sp_bits part)) 1 - 1);
     if shift \<ge> 32 then None else Some (drop_bit shift word AND msk) }"

definition roadcast_decode_signal_raw :: "roadcast_signal_definition \<Rightarrow> bytes \<Rightarrow> u64 option" where
  "roadcast_decode_signal_raw definition frame =
     for_loop 0 (unat (sd_part_count definition)) (\<lambda>i value. do {
       part \<leftarrow> rd (sd_parts definition) i;
       field \<leftarrow> extract_part frame part;
       if unat (sp_bits part) \<ge> 64 then None
       else Some (push_bit (unat (sp_bits part)) value OR ucast field) }) 0"

definition roadcast_decode_signal_physical ::
    "bool \<Rightarrow> roadcast_signal_definition \<Rightarrow> u64 \<Rightarrow> double option" where
  "roadcast_decode_signal_physical fc definition raw = do {
     numeric \<leftarrow>
       (if sd_is_signed definition \<noteq> 0 \<and> sd_width definition > 0
        then if unat (sd_width definition) - 1 \<ge> 64 then None
        else if raw AND push_bit (unat (sd_width definition) - 1) 1 \<noteq> 0
        then if sd_width definition = 64
          then Some (fp_neg (fp_add (fp_of_u64 (UINT64_MAX - raw)) (fp_of_u64 1)))
          else Some (fp_neg (fp_of_u64 (push_bit (unat (sd_width definition)) 1 - raw)))
        else Some (fp_of_u64 raw)
        else Some (fp_of_u64 raw));
     Some (if fc then fp_fma numeric (sd_scale definition) (sd_offset definition)
           else fp_add (fp_mul numeric (sd_scale definition)) (sd_offset definition)) }"

text \<open>The body of the first loop of \<^verbatim>\<open>roadcast_decode_signals\<close>.\<close>

definition decode_signal_value ::
    "bool \<Rightarrow> roadcast_frame list \<Rightarrow> roadcast_signal_definition \<Rightarrow> roadcast_signal_value option" where
  "decode_signal_value fc frames definition = do {
     frame \<leftarrow> rd frames (unat (sd_frame_index definition));
     raw \<leftarrow> roadcast_decode_signal_raw definition (f_data frame);
     physical \<leftarrow> roadcast_decode_signal_physical fc definition raw;
     Some \<lparr>sv_raw = raw, sv_physical = physical, sv_first_observed_ns = f_first_observed_ns frame,
       sv_last_change_ns = f_last_change_ns frame, sv_state = f_state frame,
       sv_calibrated = sd_calibrated definition\<rparr> }"

definition mark_invalid ::
    "roadcast_signal_definition list \<Rightarrow> nat \<Rightarrow> roadcast_signal_value list \<Rightarrow> roadcast_signal_value list option" where
  "mark_invalid sigs i vals = do {
     definition \<leftarrow> rd sigs i;
     v \<leftarrow> rd vals i;
     let invalid_index = sd_invalid_signal_index definition;
     if sv_state v = ROADCAST_OBSERVATION_VALID \<and> invalid_index \<noteq> UINT32_MAX
     then do {
       w \<leftarrow> rd vals (unat invalid_index);
       if sv_raw w \<noteq> 0 then Some (vals[i := v\<lparr>sv_state := ROADCAST_OBSERVATION_INVALID\<rparr>]) else Some vals }
     else Some vals }"

definition roadcast_decode_signals ::
    "bool \<Rightarrow> roadcast_signal_definition list \<Rightarrow> roadcast_frame list \<Rightarrow> roadcast_signal_value list
      \<Rightarrow> roadcast_signal_value list option" where
  "roadcast_decode_signals fc sigs frames vals = do {
     vals \<leftarrow> for_loop 0 (length sigs) (\<lambda>i vals. do {
       definition \<leftarrow> rd sigs i;
       v \<leftarrow> decode_signal_value fc frames definition;
       poke i [v] vals }) vals;
     for_loop 0 (length sigs) (mark_invalid sigs) vals }"

section \<open>Encoding the schema\<close>

text \<open>The bytes of a C string before its terminator; \<^verbatim>\<open>strlen\<close> is their number.\<close>

definition c_str :: "string \<Rightarrow> bytes" where
  "c_str s = map of_char (takeWhile (\<lambda>c. c \<noteq> CHR 0x00) s)"

definition encode_schema_entry :: "bytes \<Rightarrow> nat \<Rightarrow> nat \<Rightarrow> roadcast_signal_definition \<Rightarrow> bytes option" where
  "encode_schema_entry out entry i definition = do {
     let name_length = length (c_str (sd_name definition));
     let unit_length = length (c_str (sd_unit definition));
     out \<leftarrow> put_u64 out entry (sd_stable_id definition);
     out \<leftarrow> put_u32 out (entry + 8) (of_nat i);
     out \<leftarrow> put_u32 out (entry + 12) (sd_invalid_signal_index definition);
     out \<leftarrow> put_u16 out (entry + 16) (sd_can_id definition);
     out \<leftarrow> put_u8 out (entry + 18) ROADCAST_ITEM_CAN_SIGNAL;
     out \<leftarrow> put_u8 out (entry + 19) ROADCAST_SOURCE_RAW_CAN;
     out \<leftarrow> put_u8 out (entry + 20) (sd_width definition);
     out \<leftarrow> put_u8 out (entry + 21)
       ((if sd_is_signed definition \<noteq> 0 then ROADCAST_SCHEMA_FLAG_SIGNED else 0) OR
        (if sd_calibrated definition \<noteq> 0 then ROADCAST_SCHEMA_FLAG_CALIBRATED else 0));
     out \<leftarrow> put_u16 out (entry + 22) (of_nat name_length);
     out \<leftarrow> put_u16 out (entry + 24) (of_nat unit_length);
     out \<leftarrow> put_u16 out (entry + 26) 0;
     out \<leftarrow> put_double out (entry + 28) (sd_scale definition);
     out \<leftarrow> put_double out (entry + 36) (sd_offset definition);
     out \<leftarrow> poke (entry + ROADCAST_SCHEMA_ENTRY_FIXED_SIZE) (c_str (sd_name definition)) out;
     poke (entry + ROADCAST_SCHEMA_ENTRY_FIXED_SIZE + name_length) (c_str (sd_unit definition)) out }"

text \<open>The loop over the catalogue, on the definitions from \<open>i\<close> on; it stops at the first that does not fit.\<close>

fun encode_schema_entries ::
    "nat \<Rightarrow> roadcast_signal_definition list \<Rightarrow> nat \<Rightarrow> nat \<Rightarrow> u32 \<Rightarrow> bytes \<Rightarrow> (nat \<times> u32 \<times> bytes) option" where
  "encode_schema_entries capacity [] i len count out = Some (len, count, out)"
| "encode_schema_entries capacity (definition # rest) i len count out =
    (let entry_length = ROADCAST_SCHEMA_ENTRY_FIXED_SIZE + length (c_str (sd_name definition))
           + length (c_str (sd_unit definition)) in
     if entry_length > sub_size capacity len then Some (len, count, out)
     else do {
       out \<leftarrow> encode_schema_entry out len i definition;
       encode_schema_entries capacity rest (Suc i) (len + entry_length) (count + 1) out })"

definition roadcast_encode_schema_chunk ::
    "roadcast_signal_definition list \<Rightarrow> u64 \<Rightarrow> bytes \<Rightarrow> nat \<Rightarrow> u32 \<Rightarrow> (nat \<times> u32 \<times> bytes) option" where
  "roadcast_encode_schema_chunk sigs schema_hash out capacity start_index =
    (if capacity < ROADCAST_SCHEMA_CHUNK_PREFIX_SIZE \<or> unat start_index \<ge> length sigs then Some (0, 0, out)
     else do {
       out \<leftarrow> put_u32 out 0 ROADCAST_SCHEMA_VERSION;
       out \<leftarrow> put_u32 out 4 (of_nat (length sigs));
       out \<leftarrow> put_u32 out 8 start_index;
       out \<leftarrow> put_u32 out 12 0;
       out \<leftarrow> put_u64 out 16 schema_hash;
       (len, count, out) \<leftarrow> encode_schema_entries capacity (drop (unat start_index) sigs) (unat start_index)
         ROADCAST_SCHEMA_CHUNK_PREFIX_SIZE 0 out;
       out \<leftarrow> put_u32 out 12 count;
       Some (if count \<noteq> 0 then len else 0, count, out) })"

section \<open>What the decoder needs of a catalogue\<close>

definition part_ok :: "roadcast_signal_part \<Rightarrow> bool" where
  "part_ok p \<longleftrightarrow> unat (sp_word p) + 4 \<le> 8 \<and> 1 \<le> unat (sp_bits p)
     \<and> unat (sp_offset p) + unat (sp_bits p) \<le> 32"

definition parts_width :: "roadcast_signal_part list \<Rightarrow> nat" where
  "parts_width ps = sum_list (map (unat \<circ> sp_bits) ps)"

definition signal_ok :: "u16 list \<Rightarrow> nat \<Rightarrow> roadcast_signal_definition \<Rightarrow> bool" where
  "signal_ok ids n d \<longleftrightarrow> list_all part_ok (sd_parts d) \<and> length (sd_parts d) = unat (sd_part_count d)
     \<and> parts_width (sd_parts d) = unat (sd_width d) \<and> 1 \<le> unat (sd_width d) \<and> unat (sd_width d) \<le> 64
     \<and> rd ids (unat (sd_frame_index d)) = Some (sd_can_id d)
     \<and> (sd_invalid_signal_index d = UINT32_MAX \<or> unat (sd_invalid_signal_index d) < n)
     \<and> length (c_str (sd_name d)) \<le> ROADCAST_SCHEMA_NAME_MAX
     \<and> length (c_str (sd_unit d)) \<le> ROADCAST_SCHEMA_UNIT_MAX
     \<and> unat (sd_calibrated d) \<le> 1"

definition catalog_ok :: "u16 list \<Rightarrow> roadcast_signal_definition list \<Rightarrow> bool" where
  "catalog_ok ids sigs \<longleftrightarrow> list_all (signal_ok ids (length sigs)) sigs \<and> length sigs < 2 ^ 32 - 1
     \<and> length ids < 2 ^ 16 \<and> 0 < length sigs \<and> 0 < length ids"

text \<open>An explicit invalid flag lives in the frame of the signal it qualifies.\<close>

definition same_frame_ref :: "roadcast_signal_definition list \<Rightarrow> nat \<Rightarrow> roadcast_signal_definition \<Rightarrow> bool" where
  "same_frame_ref sigs base d \<longleftrightarrow> sd_invalid_signal_index d = UINT32_MAX \<or>
     base \<le> unat (sd_invalid_signal_index d) \<and>
     (case rd sigs (unat (sd_invalid_signal_index d) - base) of None \<Rightarrow> False
      | Some e \<Rightarrow> sd_frame_index e = sd_frame_index d)"

definition invalid_same_frame :: "roadcast_signal_definition list \<Rightarrow> bool" where
  "invalid_same_frame sigs \<longleftrightarrow> list_all (same_frame_ref sigs 0) sigs"

text \<open>
  The generated table is checked in blocks: \<open>block_ok\<close> is what is evaluated on a block whose first entry has
  the index \<open>base\<close>.
\<close>

definition block_ok :: "u16 list \<Rightarrow> nat \<Rightarrow> nat \<Rightarrow> nat \<Rightarrow> roadcast_signal_definition list \<Rightarrow> bool" where
  "block_ok ids n base len block \<longleftrightarrow>
     list_all (\<lambda>d. signal_ok ids n d \<and> same_frame_ref block base d) block \<and> length block = len"

fun blocks_ok :: "u16 list \<Rightarrow> nat \<Rightarrow> nat \<Rightarrow> roadcast_signal_definition list list \<Rightarrow> bool" where
  "blocks_ok ids n base [] \<longleftrightarrow> True"
| "blocks_ok ids n base (b # bs) \<longleftrightarrow> block_ok ids n base (length b) b \<and> blocks_ok ids n (base + length b) bs"

lemmas signal_eval = block_ok_def signal_ok_def same_frame_ref_def part_ok_def parts_width_def rd_def c_str_def
  ROADCAST_CAN_IDS_def

lemma same_frame_ref_extend:
  assumes "same_frame_ref block (length before) d"
  shows "same_frame_ref (before @ block @ rest) 0 d"
proof (cases "sd_invalid_signal_index d = UINT32_MAX")
  case False
  with assms have "length before \<le> unat (sd_invalid_signal_index d)"
    "unat (sd_invalid_signal_index d) - length before < length block"
    by (auto simp: same_frame_ref_def rd_def split: if_splits option.splits)
  with assms False show ?thesis
    by (auto simp: same_frame_ref_def rd_def nth_append)
qed (simp add: same_frame_ref_def)

lemma blocks_ok_sound:
  assumes "blocks_ok ids n (length before) bs"
  shows "list_all (\<lambda>d. signal_ok ids n d \<and> same_frame_ref (before @ concat bs) 0 d) (concat bs)"
  using assms
proof (induction bs arbitrary: before)
  case (Cons b bs)
  then have head: "block_ok ids n (length before) (length b) b"
    and "blocks_ok ids n (length (before @ b)) bs"
    by auto
  from Cons.IH [OF this(2)]
  have "list_all (\<lambda>d. signal_ok ids n d \<and> same_frame_ref (before @ b @ concat bs) 0 d) (concat bs)"
    by simp
  moreover have "list_all (\<lambda>d. signal_ok ids n d \<and> same_frame_ref (before @ b @ concat bs) 0 d) b"
    using head by (auto simp: block_ok_def list_all_iff intro: same_frame_ref_extend)
  ultimately show ?case by simp
qed simp

lemma block_ok_length: "block_ok ids n base len b \<Longrightarrow> length b = len"
  by (simp add: block_ok_def)

end
