(* ===== verification/Signals.thy ===== *)
theory Signals
  imports Catalog
begin

text \<open>
  What the decoders of \<^verbatim>\<open>src/catalog.c\<close> compute.  A reference definition over natural numbers
  (\<open>raw_nat\<close>: the little-endian words of a frame, cut by division and remainder, concatenated from the most
  significant part) is shown equal to the shifting and masking code, and
  \<^verbatim>\<open>roadcast_decode_signals\<close> to the pointwise \<open>signal_of\<close>.  The locale \<open>catalogue\<close> is the
  contract between the decoder and the generated tables.
\<close>

section \<open>Reference definitions\<close>

fun le_nat :: "bytes \<Rightarrow> nat" where
  "le_nat [] = 0"
| "le_nat (b # bs) = unat b + 256 * le_nat bs"

definition field_nat :: "bytes \<Rightarrow> roadcast_signal_part \<Rightarrow> nat" where
  "field_nat data p = le_nat (take 4 (drop (unat (sp_word p)) data))
     div 2 ^ (32 - unat (sp_offset p) - unat (sp_bits p)) mod 2 ^ unat (sp_bits p)"

fun raw_nat :: "bytes \<Rightarrow> nat \<Rightarrow> roadcast_signal_part list \<Rightarrow> nat" where
  "raw_nat data v [] = v"
| "raw_nat data v (p # ps) = raw_nat data (v * 2 ^ unat (sp_bits p) + field_nat data p) ps"

section \<open>Words\<close>

lemma or_push_bit_nat: "f < 2 ^ n \<Longrightarrow> push_bit n v OR f = v * 2 ^ n + (f :: nat)"
proof -
  assume "f < 2 ^ n"
  then have "take_bit n f = f"
    by (simp add: take_bit_nat_eq_self)
  then have "push_bit n v AND f = 0"
    by (metis and_zero_eq bit_eq_iff bit_and_iff bit_push_bit_iff_nat bit_take_bit_iff not_le bit_0_eq)
  then show ?thesis
    by (simp add: disjunctive_add_eq_or [symmetric] push_bit_eq_mult)
qed

lemma unat_shift_or:
  fixes v :: "'a :: len word"
  assumes "unat f < 2 ^ n" and "unat v * 2 ^ n < 2 ^ LENGTH('a)"
  shows "unat (push_bit n v OR f) = unat v * 2 ^ n + unat f"
proof -
  have "unat (push_bit n v) = push_bit n (unat v)"
    using assms(2) by (simp only: unsigned_push_bit_eq) (simp add: push_bit_eq_mult take_bit_nat_eq_self)
  then show ?thesis
    using assms(1) by (simp add: unsigned_or_eq or_push_bit_nat)
qed

lemma read_le32_le_nat:
  assumes "off + 4 \<le> length input"
  obtains w where "read_le32 input off = Some w" and "unat w = le_nat (take 4 (drop off input))"
proof
  let ?b = "\<lambda>k. ucast (input ! (off + k)) :: u32"
  let ?w = "?b 0 OR push_bit 8 (?b 1) OR push_bit 16 (?b 2) OR push_bit 24 (?b 3)"
  show "read_le32 input off = Some ?w"
    using assms by (simp add: read_le32_def rd_Some)
  have c: "unat (ucast x :: u32) = unat x" for x :: u8
    using unat_le_max(1) [of x] by (simp add: unsigned_ucast_eq take_bit_eq_mod)
  have b: "unat (?b k) < 256" for k
    using unat_le_max(1) [of "input ! (off + k)"] by (simp add: c)
  have w: "?w = push_bit 8 (push_bit 8 (push_bit 8 (?b 3) OR ?b 2) OR ?b 1) OR ?b 0"
    by (rule bit_eqI) (auto simp: bit_simps)
  have u: "unat (push_bit 8 (v :: u32) OR ?b k) = unat v * 256 + unat (?b k)" if "unat v < 16777216" for v k
    using unat_shift_or [of "?b k" 8 v] b [of k] that by simp
  have "unat ?w = unat (?b 0) + 256 * (unat (?b 1) + 256 * (unat (?b 2) + 256 * unat (?b 3)))"
  proof -
    have 2: "unat (push_bit 8 (?b 3) OR ?b 2) = unat (?b 3) * 256 + unat (?b 2)"
      by (rule u) (rule less_trans [OF b], simp)
    have 1: "unat (push_bit 8 (push_bit 8 (?b 3) OR ?b 2) OR ?b 1)
        = unat (push_bit 8 (?b 3) OR ?b 2) * 256 + unat (?b 1)"
      by (rule u) (use 2 b [of 2] b [of 3] in linarith)
    have "unat ?w = unat (push_bit 8 (push_bit 8 (?b 3) OR ?b 2) OR ?b 1) * 256 + unat (?b 0)"
      unfolding w by (rule u) (use 1 2 b [of 1] b [of 2] b [of 3] in linarith)
    then have e: "unat ?w = ((unat (?b 3) * 256 + unat (?b 2)) * 256 + unat (?b 1)) * 256 + unat (?b 0)"
      by (simp only: 1 2)
    show ?thesis
      unfolding e by simp
  qed
  moreover have "take 4 (drop off input) = [input ! off, input ! (off + 1), input ! (off + 2), input ! (off + 3)]"
    using assms by (simp add: list_eq_iff_nth_eq nth_Cons' numeral_eq_Suc All_less_Suc)
  ultimately show "unat ?w = le_nat (take 4 (drop off input))"
    by (simp add: c)
qed


section \<open>One signal\<close>

lemma extract_part_field:
  assumes "part_ok p" and "length data = 8"
  obtains f where "extract_part data p = Some f" and "unat f = field_nat data p"
    and "unat f < 2 ^ unat (sp_bits p)"
proof -
  obtain w where w: "read_le32 data (unat (sp_word p)) = Some w"
    and wn: "unat w = le_nat (take 4 (drop (unat (sp_word p)) data))"
    using assms by (elim read_le32_le_nat [rotated 1]) (auto simp: part_ok_def)
  let ?sh = "unat ((32 :: u32) - ucast (sp_offset p) - ucast (sp_bits p))"
  let ?n = "unat (sp_bits p)"
  have sum: "unat (sp_offset p) + ?n \<le> 32" "1 \<le> ?n"
    using assms(1) by (auto simp: part_ok_def)
  have o: "unat (ucast (sp_offset p) :: u32) = unat (sp_offset p)" "unat (ucast (sp_bits p) :: u32) = ?n"
    using unat_le_max(1) [of "sp_offset p"] unat_le_max(1) [of "sp_bits p"]
    by (simp_all add: unsigned_ucast_eq take_bit_eq_mod)
  have "unat ((32 :: u32) - ucast (sp_offset p)) = 32 - unat (sp_offset p)"
    using sum by (subst unat_sub) (auto simp: o word_le_nat_alt)
  then have sh: "?sh = 32 - unat (sp_offset p) - ?n"
    using sum by (subst unat_sub) (auto simp: o word_le_nat_alt)
  have m: "(if sp_bits p \<ge> 32 then UINT32_MAX else push_bit ?n 1 - 1) = mask ?n"
  proof (cases "sp_bits p \<ge> 32")
    case True
    with sum have "?n = 32" by (simp add: word_le_nat_alt)
    with True show ?thesis by (simp add: mask_eq_exp_minus_1)
  next
    case False
    then show ?thesis by (simp add: mask_eq_exp_minus_1)
  qed
  let ?f = "drop_bit ?sh w AND mask ?n"
  have "extract_part data p = Some ?f"
    using sum sh m by (simp add: extract_part_def w Let_def)
  moreover have f: "unat ?f = field_nat data p"
  proof -
    have "unat ?f = take_bit ?n (drop_bit ?sh (unat w))"
      using unsigned_less [of w, where ?'a = nat]
      by (simp only: take_bit_eq_mask [symmetric] unsigned_take_bit_eq unsigned_drop_bit_eq)
        (simp add: take_bit_nat_eq_self)
    then show ?thesis
      by (simp only: field_nat_def wn [symmetric] sh drop_bit_eq_div take_bit_eq_mod)
  qed
  moreover have "unat ?f < 2 ^ ?n"
    unfolding f by (simp add: field_nat_def)
  ultimately show thesis by (rule that)
qed

lemma field_nat_less: "field_nat data p < 2 ^ unat (sp_bits p)"
  by (simp add: field_nat_def)

lemma raw_nat_less: "v < 2 ^ n \<Longrightarrow> raw_nat data v ps < 2 ^ (n + parts_width ps)"
proof (induction ps arbitrary: v n)
  case (Cons p ps)
  let ?b = "unat (sp_bits p)"
  have "v * 2 ^ ?b + field_nat data p < (v + 1) * 2 ^ ?b"
    using field_nat_less [of data p] by simp
  also have "\<dots> \<le> 2 ^ n * 2 ^ ?b"
    using Cons.prems by (intro mult_le_mono1) simp
  finally have "v * 2 ^ ?b + field_nat data p < 2 ^ (n + ?b)"
    by (simp add: power_add)
  from Cons.IH [OF this] show ?case
    by (simp add: parts_width_def add.assoc)
qed (simp add: parts_width_def)

lemma raw_loop:
  assumes "list_all part_ok (drop i ps)" and "length data = 8" and "i \<le> length ps"
    and "unat v < 2 ^ n" and "n + parts_width (drop i ps) \<le> 64"
  shows "\<exists>r. for_loop i (length ps - i) (\<lambda>i value. do {
       part \<leftarrow> rd ps i;
       field \<leftarrow> extract_part data part;
       if unat (sp_bits part) \<ge> 64 then None
       else Some (push_bit (unat (sp_bits part)) value OR ucast field) }) (v :: u64) = Some r
     \<and> unat r = raw_nat data (unat v) (drop i ps)"
  using assms
proof (induction "length ps - i" arbitrary: i v n)
  case (Suc k)
  have i: "i < length ps" and k: "length ps - Suc i = k"
    using Suc.hyps(2) by auto
  let ?p = "ps ! i"
  let ?b = "unat (sp_bits ?p)"
  have ps: "drop i ps = ?p # drop (Suc i) ps"
    using i by (simp add: Cons_nth_drop_Suc)
  have p: "part_ok ?p" and rest: "list_all part_ok (drop (Suc i) ps)"
    using Suc.prems(1) by (auto simp: ps)
  have w: "n + ?b + parts_width (drop (Suc i) ps) \<le> 64"
    using Suc.prems(5) by (simp add: ps parts_width_def)
  obtain f where f: "extract_part data ?p = Some f" "unat f = field_nat data ?p" "unat f < 2 ^ ?b"
    using extract_part_field [OF p Suc.prems(2)] .
  have uf: "unat (ucast f :: u64) = unat f"
    using unat_le_max(3) [of f] by (simp add: unsigned_ucast_eq take_bit_eq_mod)
  have "(unat v + 1) * 2 ^ ?b \<le> 2 ^ n * 2 ^ ?b"
    using Suc.prems(4) by (intro mult_le_mono1) simp
  moreover have "(2 :: nat) ^ n * 2 ^ ?b \<le> 2 ^ 64"
    unfolding power_add [symmetric] using w by (intro power_increasing) auto
  ultimately have lt: "unat v * 2 ^ ?b + 2 ^ ?b \<le> 2 ^ n * 2 ^ ?b" "unat v * 2 ^ ?b < 2 ^ 64"
    using zero_less_power [of "2 :: nat" ?b] by (simp_all only: distrib_right mult_1) linarith
  let ?v = "push_bit ?b v OR ucast f"
  have v: "unat ?v = unat v * 2 ^ ?b + field_nat data ?p"
    using unat_shift_or [of "ucast f" ?b v] f lt uf by simp
  have "unat ?v < 2 ^ (n + ?b)"
    using lt f by (simp add: v power_add)
  from Suc.hyps(1) [OF k [symmetric] rest Suc.prems(2) _ this w] i
  show ?case
    using p f v unfolding Suc.hyps(2) [symmetric]
    by (simp add: k rd_Some part_ok_def ps)
qed simp

text \<open>The raw value never runs into undefined behaviour and is the number the parts spell.\<close>

lemma decode_signal_raw_nat:
  assumes "signal_ok ids n d" and "length data = 8"
  obtains r where "roadcast_decode_signal_raw d data = Some r" and "unat r = raw_nat data 0 (sd_parts d)"
    and "unat r < 2 ^ unat (sd_width d)"
proof -
  have "list_all part_ok (sd_parts d)" "parts_width (sd_parts d) = unat (sd_width d)"
    and l: "length (sd_parts d) = unat (sd_part_count d)" and w: "unat (sd_width d) \<le> 64"
    using assms(1) by (auto simp: signal_ok_def)
  with raw_loop [of 0 "sd_parts d" data 0 0] assms(2) raw_nat_less [of 0 0 data "sd_parts d"] that
  show thesis
    by (auto simp: roadcast_decode_signal_raw_def)
qed


lemma decode_physical_defined:
  assumes "signal_ok ids n d"
  obtains x where "roadcast_decode_signal_physical fc d r = Some x"
proof -
  have "unat (sd_width d) - 1 < 64"
    using assms by (auto simp: signal_ok_def)
  with that show thesis
    by (cases "\<exists>x. roadcast_decode_signal_physical fc d r = Some x")
      (auto simp: roadcast_decode_signal_physical_def Let_def split: if_splits)
qed

section \<open>All signals\<close>

definition frames_ok :: "u16 list \<Rightarrow> roadcast_frame list \<Rightarrow> bool" where
  "frames_ok ids frames \<longleftrightarrow> length frames = length ids \<and> list_all (\<lambda>f. length (f_data f) = 8) frames"

abbreviation frame_of :: "roadcast_frame list \<Rightarrow> roadcast_signal_definition \<Rightarrow> roadcast_frame" where
  "frame_of frames d \<equiv> frames ! unat (sd_frame_index d)"

abbreviation raw_of :: "roadcast_frame list \<Rightarrow> roadcast_signal_definition \<Rightarrow> nat" where
  "raw_of frames d \<equiv> raw_nat (f_data (frame_of frames d)) 0 (sd_parts d)"

text \<open>The state of a signal: that of its frame, or invalid when a valid frame carries its invalid flag.\<close>

definition signal_state :: "roadcast_signal_definition list \<Rightarrow> roadcast_frame list \<Rightarrow> roadcast_signal_definition \<Rightarrow> u8" where
  "signal_state sigs frames d =
    (if f_state (frame_of frames d) = ROADCAST_OBSERVATION_VALID \<and> sd_invalid_signal_index d \<noteq> UINT32_MAX
        \<and> raw_of frames (sigs ! unat (sd_invalid_signal_index d)) \<noteq> 0
     then ROADCAST_OBSERVATION_INVALID else f_state (frame_of frames d))"

text \<open>\<open>v\<close> is the value of the signal \<open>d\<close> in the frames, timestamps apart.\<close>

definition value_agrees ::
    "bool \<Rightarrow> roadcast_frame list \<Rightarrow> roadcast_signal_definition \<Rightarrow> roadcast_signal_value \<Rightarrow> bool" where
  "value_agrees fc frames d v \<longleftrightarrow> unat (sv_raw v) = raw_of frames d
     \<and> roadcast_decode_signal_physical fc d (sv_raw v) = Some (sv_physical v)
     \<and> sv_calibrated v = sd_calibrated d"

definition times_agree :: "roadcast_frame list \<Rightarrow> roadcast_signal_definition \<Rightarrow> roadcast_signal_value \<Rightarrow> bool" where
  "times_agree frames d v \<longleftrightarrow> sv_first_observed_ns v = f_first_observed_ns (frame_of frames d)
     \<and> sv_last_change_ns v = f_last_change_ns (frame_of frames d)"

lemma frame_of_ok:
  assumes "signal_ok ids n d" and "frames_ok ids frames"
  shows "rd frames (unat (sd_frame_index d)) = Some (frame_of frames d)"
    and "length (f_data (frame_of frames d)) = 8"
proof -
  have "unat (sd_frame_index d) < length frames"
    using assms by (auto simp: signal_ok_def frames_ok_def dest: rd_SomeD)
  then show "rd frames (unat (sd_frame_index d)) = Some (frame_of frames d)"
    and "length (f_data (frame_of frames d)) = 8"
    using assms(2) by (auto simp: rd_Some frames_ok_def list_all_length)
qed

lemma decode_signal_value_agrees:
  assumes d: "signal_ok ids n d" and frames: "frames_ok ids frames"
  obtains v where "decode_signal_value fc frames d = Some v" and "value_agrees fc frames d v"
    and "times_agree frames d v" and "sv_state v = f_state (frame_of frames d)"
proof -
  obtain r where "roadcast_decode_signal_raw d (f_data (frame_of frames d)) = Some r" "unat r = raw_of frames d"
    using decode_signal_raw_nat [OF d frame_of_ok(2) [OF d frames]] .
  moreover obtain x where "roadcast_decode_signal_physical fc d r = Some x"
    using decode_physical_defined [OF d] .
  ultimately show thesis
    using frame_of_ok(1) [OF d frames] that
    by (simp add: decode_signal_value_def value_agrees_def times_agree_def)
qed

text \<open>The first loop decodes every signal from its frame, the second marks the flagged ones.\<close>

lemma decode_values_loop:
  assumes sigs: "list_all (signal_ok ids n) sigs" and frames: "frames_ok ids frames"
    and len: "length vals = length sigs"
  shows "\<exists>vs. for_loop 0 (length sigs) (\<lambda>i vals. do {
       definition \<leftarrow> rd sigs i;
       v \<leftarrow> decode_signal_value fc frames definition;
       poke i [v] vals }) vals = Some vs \<and> length vs = length sigs
     \<and> (\<forall>i<length sigs. value_agrees fc frames (sigs ! i) (vs ! i) \<and> times_agree frames (sigs ! i) (vs ! i)
          \<and> sv_state (vs ! i) = f_state (frame_of frames (sigs ! i)))"
proof -
  let ?ok = "\<lambda>vs i. value_agrees fc frames (sigs ! i) (vs ! i) \<and> times_agree frames (sigs ! i) (vs ! i)
    \<and> sv_state (vs ! i) = f_state (frame_of frames (sigs ! i))"
  let ?body = "\<lambda>i vals. do {
       definition \<leftarrow> rd sigs i;
       v \<leftarrow> decode_signal_value fc frames definition;
       poke i [v] vals }"
  have "\<exists>vs. for_loop 0 (length sigs) ?body vals = Some vs \<and> length vs = length sigs
      \<and> (\<forall>i < 0 + length sigs. ?ok vs i)"
  proof (rule for_loop_invariant)
    show "length vals = length sigs \<and> (\<forall>i<0. ?ok vals i)"
      using len by simp
  next
    fix k vs
    assume k: "k < 0 + length sigs" and I: "length vs = length sigs \<and> (\<forall>i<k. ?ok vs i)"
    have "signal_ok ids n (sigs ! k)"
      using sigs k by (simp add: list_all_length)
    then obtain v where v: "decode_signal_value fc frames (sigs ! k) = Some v"
      "value_agrees fc frames (sigs ! k) v" "times_agree frames (sigs ! k) v"
      "sv_state v = f_state (frame_of frames (sigs ! k))"
      using decode_signal_value_agrees [OF _ frames] by blast
    have "?body k vs = Some (vs[k := v])"
      using k I v(1) by (simp add: rd_Some poke_Some upd_conv_take_nth_drop)
    moreover have "length (vs[k := v]) = length sigs \<and> (\<forall>i<Suc k. ?ok (vs[k := v]) i)"
      using I k v by (auto simp: nth_list_update less_Suc_eq)
    ultimately show "\<exists>t'. ?body k vs = Some t' \<and> length t' = length sigs \<and> (\<forall>i<Suc k. ?ok t' i)"
      by blast
  qed
  then show ?thesis by simp
qed

definition marked :: "roadcast_signal_definition \<Rightarrow> roadcast_signal_value list \<Rightarrow> roadcast_signal_value \<Rightarrow> roadcast_signal_value" where
  "marked d vs v = (if sv_state v = ROADCAST_OBSERVATION_VALID \<and> sd_invalid_signal_index d \<noteq> UINT32_MAX
       \<and> sv_raw (vs ! unat (sd_invalid_signal_index d)) \<noteq> 0
     then v\<lparr>sv_state := ROADCAST_OBSERVATION_INVALID\<rparr> else v)"

lemma sv_marked [simp]:
  "sv_raw (marked d vs v) = sv_raw v" "sv_physical (marked d vs v) = sv_physical v"
  "sv_calibrated (marked d vs v) = sv_calibrated v"
  "sv_first_observed_ns (marked d vs v) = sv_first_observed_ns v"
  "sv_last_change_ns (marked d vs v) = sv_last_change_ns v"
  by (simp_all add: marked_def)

lemma mark_invalid_marked:
  assumes "signal_ok ids (length sigs) (sigs ! k)" and k: "k < length sigs" and "length vs = length sigs"
  shows "mark_invalid sigs k vs = Some (vs[k := marked (sigs ! k) vs (vs ! k)])"
proof -
  have "sd_invalid_signal_index (sigs ! k) \<noteq> UINT32_MAX
      \<Longrightarrow> unat (sd_invalid_signal_index (sigs ! k)) < length vs"
    using assms by (auto simp: signal_ok_def)
  then show ?thesis
    using assms by (auto simp: mark_invalid_def marked_def rd_Some Let_def)
qed

lemma mark_loop:
  assumes sigs: "list_all (signal_ok ids (length sigs)) sigs" and len: "length vals = length sigs"
  shows "for_loop 0 (length sigs) (mark_invalid sigs) vals
    = Some (map (\<lambda>i. marked (sigs ! i) vals (vals ! i)) [0..<length sigs])"
proof -
  let ?new = "\<lambda>i. marked (sigs ! i) vals (vals ! i)"
  let ?I = "\<lambda>k vs. length vs = length sigs \<and> (\<forall>i<length sigs. vs ! i = (if i < k then ?new i else vals ! i))"
  have "\<exists>vs. for_loop 0 (length sigs) (mark_invalid sigs) vals = Some vs \<and> ?I (0 + length sigs) vs"
  proof (rule for_loop_invariant)
    show "?I 0 vals" using len by simp
  next
    fix k vs
    assume k: "k < 0 + length sigs" and I: "?I k vs"
    have ok: "signal_ok ids (length sigs) (sigs ! k)"
      using sigs k by (simp add: list_all_length)
    have "marked (sigs ! k) vs (vs ! k) = ?new k"
    proof (cases "sd_invalid_signal_index (sigs ! k) = UINT32_MAX")
      case True
      with I k show ?thesis by (simp add: marked_def)
    next
      case False
      with ok have "unat (sd_invalid_signal_index (sigs ! k)) < length sigs"
        by (simp add: signal_ok_def)
      then have "sv_raw (vs ! unat (sd_invalid_signal_index (sigs ! k)))
          = sv_raw (vals ! unat (sd_invalid_signal_index (sigs ! k)))"
        using I by simp
      with I k show ?thesis by (simp add: marked_def)
    qed
    then have "mark_invalid sigs k vs = Some (vs[k := ?new k])"
      using mark_invalid_marked [OF ok] k I by simp
    moreover have "?I (Suc k) (vs[k := ?new k])"
      using I k by (auto simp: nth_list_update less_Suc_eq)
    ultimately show "\<exists>t'. mark_invalid sigs k vs = Some t' \<and> ?I (Suc k) t'"
      by blast
  qed
  then show ?thesis
    by (auto intro!: nth_equalityI)
qed

lemma decode_signals_agrees:
  assumes cat: "catalog_ok ids sigs" and frames: "frames_ok ids frames" and len: "length vals = length sigs"
  obtains vs where "roadcast_decode_signals fc sigs frames vals = Some vs" and "length vs = length sigs"
    and "\<And>i. i < length sigs \<Longrightarrow> value_agrees fc frames (sigs ! i) (vs ! i)"
    and "\<And>i. i < length sigs \<Longrightarrow> times_agree frames (sigs ! i) (vs ! i)"
    and "\<And>i. i < length sigs \<Longrightarrow> sv_state (vs ! i) = signal_state sigs frames (sigs ! i)"
proof -
  have sigs: "list_all (signal_ok ids (length sigs)) sigs"
    using cat by (simp add: catalog_ok_def)
  obtain vs where vs: "roadcast_decode_signals fc sigs frames vals
        = for_loop 0 (length sigs) (mark_invalid sigs) vs" and l: "length vs = length sigs"
    and ok: "\<And>i. i < length sigs \<Longrightarrow> value_agrees fc frames (sigs ! i) (vs ! i) \<and> times_agree frames (sigs ! i) (vs ! i)
        \<and> sv_state (vs ! i) = f_state (frame_of frames (sigs ! i))"
    using decode_values_loop [OF sigs frames len, of fc]
    by (auto simp: roadcast_decode_signals_def)
  let ?out = "map (\<lambda>i. marked (sigs ! i) vs (vs ! i)) [0..<length sigs]"
  have state: "sv_state (?out ! i) = signal_state sigs frames (sigs ! i)" if i: "i < length sigs" for i
  proof (cases "sd_invalid_signal_index (sigs ! i) = UINT32_MAX")
    case True
    with ok i show ?thesis by (simp add: marked_def signal_state_def)
  next
    case False
    let ?j = "unat (sd_invalid_signal_index (sigs ! i))"
    have "?j < length sigs"
      using False sigs i by (auto simp: list_all_length signal_ok_def)
    then have "sv_raw (vs ! ?j) = 0 \<longleftrightarrow> raw_of frames (sigs ! ?j) = 0"
      using ok [of ?j] by (auto simp: value_agrees_def unat_eq_0)
    with ok [OF i] i False show ?thesis by (simp add: marked_def signal_state_def)
  qed
  show thesis
  proof (rule that [of ?out])
    show "roadcast_decode_signals fc sigs frames vals = Some ?out"
      using vs mark_loop [OF sigs l] by simp
    show "value_agrees fc frames (sigs ! i) (?out ! i)" if "i < length sigs" for i
      using ok [OF that] that by (simp add: value_agrees_def)
    show "times_agree frames (sigs ! i) (?out ! i)" if "i < length sigs" for i
      using ok [OF that] that by (simp add: times_agree_def)
  qed (use state in auto)
qed

section \<open>The contract of a catalogue\<close>

text \<open>
  The decoder, the schema encoder and the daemon rely on a catalogue through this interface only; it is
  interpreted on the generated tables in \<^verbatim>\<open>Catalog_Table\<close>.
\<close>

locale catalogue =
  fixes ids :: "u16 list" and sigs :: "roadcast_signal_definition list"
  assumes ok: "catalog_ok ids sigs" and same_frame: "invalid_same_frame sigs"
begin

lemma signal_ok_nth: "i < length sigs \<Longrightarrow> signal_ok ids (length sigs) (sigs ! i)"
  using ok by (simp add: catalog_ok_def list_all_length)

lemma frame_index_less: "i < length sigs \<Longrightarrow> unat (sd_frame_index (sigs ! i)) < length ids"
  using signal_ok_nth [of i] by (auto simp: signal_ok_def dest: rd_SomeD)

lemma invalid_index_less:
  "i < length sigs \<Longrightarrow> sd_invalid_signal_index (sigs ! i) \<noteq> UINT32_MAX
    \<Longrightarrow> unat (sd_invalid_signal_index (sigs ! i)) < length sigs"
  using signal_ok_nth [of i] by (auto simp: signal_ok_def)

lemma invalid_frame:
  "i < length sigs \<Longrightarrow> sd_invalid_signal_index (sigs ! i) \<noteq> UINT32_MAX
    \<Longrightarrow> sd_frame_index (sigs ! unat (sd_invalid_signal_index (sigs ! i))) = sd_frame_index (sigs ! i)"
  using same_frame by (auto simp: invalid_same_frame_def list_all_length same_frame_ref_def rd_def
      split: if_splits option.splits)

lemma decode_signals_ok:
  assumes "frames_ok ids frames" and "length vals = length sigs"
  obtains vs where "roadcast_decode_signals fc sigs frames vals = Some vs" and "length vs = length sigs"
    and "\<And>i. i < length sigs \<Longrightarrow> value_agrees fc frames (sigs ! i) (vs ! i)"
    and "\<And>i. i < length sigs \<Longrightarrow> times_agree frames (sigs ! i) (vs ! i)"
    and "\<And>i. i < length sigs \<Longrightarrow> sv_state (vs ! i) = signal_state sigs frames (sigs ! i)"
  by (rule decode_signals_agrees [OF ok assms]) (rule that)

end

section \<open>Properties\<close>

text \<open>
  C24: Raw extraction is exact and free of undefined behaviour: for every definition whose parts fit the frame,
  no shift reaches the width of its operand, no byte outside the eight of the frame is read, and the result is
  the number spelled by the parts, most significant first, hence below two to the declared width.
\<close>

theorem decode_signal_raw_exact:
  assumes "signal_ok ids n d" and "length data = 8"
  shows "\<exists>r. roadcast_decode_signal_raw d data = Some r \<and> unat r = raw_nat data 0 (sd_parts d)
    \<and> unat r < 2 ^ unat (sd_width d)"
  using decode_signal_raw_nat [OF assms] by metis

theorem decode_signal_raw_exact_witness:
  "\<exists>r. roadcast_decode_signal_raw \<lparr>sd_stable_id = 1, sd_name = ''n'', sd_unit = '''',
      sd_parts = [part_lit 0 8 8, part_lit 0 0 4], sd_invalid_signal_index = 4294967295, sd_can_id = 0x2F1,
      sd_frame_index = 0, sd_part_count = 2, sd_width = 12, sd_is_signed = 0, sd_calibrated = 0,
      sd_scale = 0, sd_offset = 0\<rparr> [1, 2, 0xBC, 0x5A, 5, 6, 7, 8] = Some r \<and> unat r = 0xBC5"
proof -
  let ?d = "\<lparr>sd_stable_id = 1, sd_name = ''n'', sd_unit = '''',
      sd_parts = [part_lit 0 8 8, part_lit 0 0 4], sd_invalid_signal_index = 4294967295, sd_can_id = 0x2F1,
      sd_frame_index = 0, sd_part_count = 2, sd_width = 12, sd_is_signed = 0, sd_calibrated = 0,
      sd_scale = 0, sd_offset = 0\<rparr>"
  have "signal_ok [0x2F1] 1 ?d"
    by (simp add: signal_eval)
  from decode_signal_raw_exact [OF this, of "[1, 2, 0xBC, 0x5A, 5, 6, 7, 8]"] show ?thesis
    by (auto simp: field_nat_def)
qed

end
