(* ===== verification/Schema_Encoding.thy ===== *)
theory Schema_Encoding
  imports Signals
begin

text \<open>
  The server side of schema discovery, \<^verbatim>\<open>roadcast_encode_schema_chunk\<close> of \<^verbatim>\<open>src/catalog.c\<close>: a chunk is the
  layout that the decoder of \<^verbatim>\<open>Schema\<close> accepts, holding the longest run of entries that fits
  (\<open>schema_run\<close>), and never an empty one when an entry of the largest size fits.
\<close>

definition entry_of :: "nat \<Rightarrow> roadcast_signal_definition \<Rightarrow> roadcast_schema_entry" where
  "entry_of i d = \<lparr>se_stable_id = sd_stable_id d, se_index = of_nat i,
     se_invalid_signal_index = sd_invalid_signal_index d, se_can_id = sd_can_id d,
     se_kind = ROADCAST_ITEM_CAN_SIGNAL, se_source = ROADCAST_SOURCE_RAW_CAN, se_width = sd_width d,
     se_flags = (if sd_is_signed d \<noteq> 0 then ROADCAST_SCHEMA_FLAG_SIGNED else 0) OR
        (if sd_calibrated d \<noteq> 0 then ROADCAST_SCHEMA_FLAG_CALIBRATED else 0),
     se_scale = sd_scale d, se_offset = sd_offset d, se_name = c_str (sd_name d), se_unit = c_str (sd_unit d)\<rparr>"

fun schema_run :: "nat \<Rightarrow> nat \<Rightarrow> nat \<Rightarrow> roadcast_signal_definition list \<Rightarrow> roadcast_schema_entry list" where
  "schema_run capacity len i [] = []"
| "schema_run capacity len i (d # ds) = (let e = entry_of i d in
     if entry_size e > capacity - len then [] else e # schema_run capacity (len + entry_size e) (Suc i) ds)"

definition schema_of :: "roadcast_signal_definition list \<Rightarrow> roadcast_schema_entry list" where
  "schema_of sigs = map (\<lambda>i. entry_of i (sigs ! i)) [0..<length sigs]"

abbreviation entries_bytes :: "roadcast_schema_entry list \<Rightarrow> bytes" where
  "entries_bytes es \<equiv> concat (map schema_entry_bytes es)"

lemma entry_size_entry_of:
  "entry_size (entry_of i d) = 44 + length (c_str (sd_name d)) + length (c_str (sd_unit d))"
  by (simp add: entry_size_def entry_of_def)

lemma encode_schema_entry_poke:
  "encode_schema_entry out off i d = poke off (schema_entry_bytes (entry_of i d)) out"
  by (simp add: encode_schema_entry_def schema_entry_bytes_def entry_of_def layout Let_def add.assoc
      del: add_2_eq_Suc add_2_eq_Suc')

lemma encode_schema_entries_poke:
  assumes "len \<le> capacity" and "capacity \<le> length out"
  shows "encode_schema_entries capacity ds i len count out
    = Option.bind (poke len (entries_bytes (schema_run capacity len i ds)) out) (\<lambda>out.
        Some (len + length (entries_bytes (schema_run capacity len i ds)),
              count + of_nat (length (schema_run capacity len i ds)), out))"
  using assms
proof (induction ds arbitrary: i len count out)
  case Nil
  then show ?case by (simp add: poke_Nil)
next
  case (Cons d ds)
  let ?e = "entry_of i d"
  let ?run = "schema_run capacity (len + entry_size ?e) (Suc i) ds"
  show ?case
  proof (cases "entry_size ?e > capacity - len")
    case True
    with Cons.prems show ?thesis
      by (simp add: entry_size_entry_of sub_size_def Let_def poke_Nil)
  next
    case False
    have IH: "encode_schema_entries capacity ds (Suc i) (len + entry_size ?e) (count + 1) out'
      = Option.bind (poke (len + entry_size ?e) (entries_bytes ?run) out') (\<lambda>out.
        Some (len + entry_size ?e + length (entries_bytes ?run), count + 1 + of_nat (length ?run), out))"
      if "length out' = length out" for out'
      by (rule Cons.IH) (use Cons.prems False that in auto)
    have "encode_schema_entries capacity (d # ds) i len count out
      = Option.bind (poke len (schema_entry_bytes ?e) out)
          (encode_schema_entries capacity ds (Suc i) (len + entry_size ?e) (count + 1))"
      using False Cons.prems by (simp add: entry_size_entry_of sub_size_def Let_def encode_schema_entry_poke add.assoc)
    also have "\<dots> = Option.bind (poke len (schema_entry_bytes ?e) out) (\<lambda>out'.
        Option.bind (poke (len + entry_size ?e) (entries_bytes ?run) out') (\<lambda>out.
        Some (len + entry_size ?e + length (entries_bytes ?run), count + 1 + of_nat (length ?run), out)))"
      by (rule Option.bind_cong [OF refl], rule IH) (simp add: poke_length)
    also have "\<dots> = Option.bind (poke len (schema_entry_bytes ?e @ entries_bytes ?run) out) (\<lambda>out.
        Some (len + entry_size ?e + length (entries_bytes ?run), count + 1 + of_nat (length ?run), out))"
      by (rule poke_poke_bind) simp
    finally show ?thesis
      using False by (simp add: Let_def add.assoc)
  qed
qed

lemma schema_run_fits: "len \<le> capacity \<Longrightarrow> len + length (entries_bytes (schema_run capacity len i ds)) \<le> capacity"
  by (induction ds arbitrary: len i) (auto simp: Let_def add.assoc [symmetric])

lemma length_schema_run: "length (schema_run capacity len i ds) \<le> length ds"
  by (induction ds arbitrary: len i) (auto simp: Let_def)

lemma nth_schema_run: "j < length (schema_run capacity len i ds) \<Longrightarrow>
    schema_run capacity len i ds ! j = entry_of (i + j) (ds ! j)"
proof (induction ds arbitrary: len i j)
  case (Cons d ds)
  then show ?case by (cases j) (auto simp: Let_def split: if_splits)
qed simp

definition chunk_entries :: "roadcast_signal_definition list \<Rightarrow> nat \<Rightarrow> u32 \<Rightarrow> roadcast_schema_entry list" where
  "chunk_entries sigs capacity start = schema_run capacity 24 (unat start) (drop (unat start) sigs)"

lemma encode_schema_chunk_eq:
  fixes hash :: u64
  assumes "24 \<le> capacity" and "capacity \<le> length out" and "unat start < length sigs"
  defines "es \<equiv> chunk_entries sigs capacity start"
  defines "chunk \<equiv> schema_chunk_bytes ROADCAST_SCHEMA_VERSION (of_nat (length sigs)) start hash es"
  shows "roadcast_encode_schema_chunk sigs hash out capacity start
    = Some (if (of_nat (length es) :: u32) \<noteq> 0 then length chunk else 0, of_nat (length es),
        chunk @ drop (length chunk) out)"
    and "length chunk \<le> capacity"
proof -
  have es: "es = schema_run capacity 24 (unat start) (drop (unat start) sigs)"
    by (simp add: es_def chunk_entries_def)
  have fit: "24 + length (entries_bytes es) \<le> capacity"
    unfolding es by (rule schema_run_fits) (use assms in simp)
  then show "length chunk \<le> capacity"
    by (simp add: chunk_def schema_chunk_bytes_def)
  let ?pre = "\<lambda>c. schema_prefix_bytes ROADCAST_SCHEMA_VERSION (of_nat (length sigs)) start c hash"
  let ?r = "\<lambda>out. Some (if (of_nat (length es) :: u32) \<noteq> 0 then length chunk else 0, of_nat (length es) :: u32, out)"
  let ?put = "\<lambda>out. put_u32 out 12 (of_nat (length es))"
  have "roadcast_encode_schema_chunk sigs hash out capacity start
      = Option.bind (poke 0 (?pre 0) out) (\<lambda>out.
          Option.bind (encode_schema_entries capacity (drop (unat start) sigs) (unat start) 24 0 out)
            (\<lambda>(len, count, out). Option.bind (put_u32 out 12 count) (\<lambda>out. Some (if count \<noteq> 0 then len else 0, count, out))))"
    using assms by (simp add: roadcast_encode_schema_chunk_def schema_prefix_bytes_def layout not_le)
  also have "\<dots> = Option.bind (poke 0 (?pre 0) out) (\<lambda>out.
          Option.bind (poke 24 (entries_bytes es) out) (\<lambda>out. Option.bind (?put out) ?r))"
    using assms(1,2)
    by (intro Option.bind_cong [OF refl], subst encode_schema_entries_poke)
      (auto simp: poke_length es [symmetric] chunk_def schema_chunk_bytes_def Option.bind_assoc)
  also have "\<dots> = Option.bind (poke 0 (?pre 0 @ entries_bytes es) out) (\<lambda>out. Option.bind (?put out) ?r)"
    by (rule poke_poke_bind) simp
  also have "\<dots> = Option.bind (poke 0 chunk out) ?r"
  proof -
    have "Option.bind (poke 0 (?pre 0 @ entries_bytes es) out) ?put = poke 0 chunk out"
      by (simp add: put_u32_poke poke_over chunk_def schema_chunk_bytes_def schema_prefix_bytes_def)
    then show ?thesis
      by (simp add: Option.bind_assoc [symmetric])
  qed
  also have "\<dots> = ?r (chunk @ drop (length chunk) out)"
    using fit assms(2) by (simp add: poke_Some chunk_def schema_chunk_bytes_def)
  finally show "roadcast_encode_schema_chunk sigs hash out capacity start
    = Some (if (of_nat (length es) :: u32) \<noteq> 0 then length chunk else 0, of_nat (length es),
        chunk @ drop (length chunk) out)" .
qed

lemma schema_run_nonempty:
  assumes "len + 122 \<le> capacity" and "signal_ok ids n d"
  shows "schema_run capacity len i (d # ds) \<noteq> []"
  using assms by (auto simp: Let_def entry_size_entry_of signal_ok_def)

context catalogue
begin

lemma length_sigs: "length sigs < 2 ^ 32 - 1" "unat (of_nat (length sigs) :: u32) = length sigs"
  using ok by (simp_all add: catalog_ok_def unat_of_nat_small)

lemma entry_wf_entry_of:
  assumes "unat start + j < length sigs"
  shows "entry_wf (of_nat (length sigs)) start j (entry_of (unat start + j) (sigs ! (unat start + j)))"
proof -
  let ?d = "sigs ! (unat start + j)"
  have d: "signal_ok ids (length sigs) ?d"
    using assms by (rule signal_ok_nth)
  have "sd_invalid_signal_index ?d < of_nat (length sigs) \<or> sd_invalid_signal_index ?d = UINT32_MAX"
    using d length_sigs(2) by (auto simp: signal_ok_def word_less_nat_alt)
  moreover have "0 < sd_width ?d" "sd_width ?d \<le> 64"
    using d by (auto simp: signal_ok_def word_less_nat_alt word_le_nat_alt)
  ultimately show ?thesis
    using d by (simp add: entry_wf_def entry_of_def signal_ok_def)
qed

lemma chunk_entries_take:
  "chunk_entries sigs capacity start
    = take (length (chunk_entries sigs capacity start)) (drop (unat start) (schema_of sigs))"
proof (rule nth_equalityI)
  show "length (chunk_entries sigs capacity start)
      = length (take (length (chunk_entries sigs capacity start)) (drop (unat start) (schema_of sigs)))"
    using length_schema_run [of capacity 24 "unat start" "drop (unat start) sigs"]
    by (simp add: chunk_entries_def schema_of_def)
next
  fix j assume j: "j < length (chunk_entries sigs capacity start)"
  then have "unat start + j < length sigs"
    using length_schema_run [of capacity 24 "unat start" "drop (unat start) sigs"]
    by (simp add: chunk_entries_def)
  with j nth_schema_run [of j capacity 24 "unat start" "drop (unat start) sigs"]
  show "chunk_entries sigs capacity start ! j
      = take (length (chunk_entries sigs capacity start)) (drop (unat start) (schema_of sigs)) ! j"
    by (simp add: chunk_entries_def schema_of_def)
qed

lemma chunk_entries_nonempty:
  assumes "146 \<le> capacity" and "unat start < length sigs"
  shows "chunk_entries sigs capacity start \<noteq> []"
  unfolding chunk_entries_def Cons_nth_drop_Suc [OF assms(2), symmetric]
  by (rule schema_run_nonempty [OF _ signal_ok_nth [OF assms(2)]]) (use assms(1) in simp)

lemma chunk_entries_length: "length (chunk_entries sigs capacity start) \<le> length sigs - unat start"
  using length_schema_run [of capacity 24 "unat start" "drop (unat start) sigs"]
  by (simp add: chunk_entries_def)

lemma schema_chunk_roundtrip:
  assumes "146 \<le> capacity" and "capacity \<le> length out" and start: "unat start < length sigs"
  obtains len count out' where "roadcast_encode_schema_chunk sigs hash out capacity start = Some (len, count, out')"
    and "0 < unat count" and "len \<le> capacity" and "length out' = length out"
    and "unat start + unat count \<le> length sigs"
    and "\<And>cap. unat count \<le> cap \<Longrightarrow> roadcast_decode_schema_chunk (take len out') cap
      = Some (Ok (ROADCAST_SCHEMA_VERSION, of_nat (length sigs), start, hash,
          take (unat count) (drop (unat start) (schema_of sigs))))"
proof -
  let ?es = "chunk_entries sigs capacity start"
  let ?chunk = "schema_chunk_bytes ROADCAST_SCHEMA_VERSION (of_nat (length sigs)) start hash ?es"
  have l: "length ?es \<le> length sigs - unat start"
    by (rule chunk_entries_length)
  then have count: "unat (of_nat (length ?es) :: u32) = length ?es"
    using length_sigs(1) by (intro unat_of_nat_small) simp
  have ne: "length ?es \<noteq> 0"
    using chunk_entries_nonempty [OF assms(1) start] by simp
  then have nz: "(of_nat (length ?es) :: u32) \<noteq> 0"
    using count by (metis unat_0)
  note enc = encode_schema_chunk_eq [of capacity out start sigs hash, OF _ assms(2) start]
  have "length ?chunk \<le> capacity"
    using enc(2) assms(1) by simp
  moreover have "roadcast_encode_schema_chunk sigs hash out capacity start
      = Some (length ?chunk, of_nat (length ?es), ?chunk @ drop (length ?chunk) out)"
    using enc(1) assms(1) nz by simp
  moreover have wf: "entry_wf (of_nat (length sigs)) start i (?es ! i)" if "i < length ?es" for i
    using entry_wf_entry_of [of start i] nth_schema_run [of i capacity 24 "unat start" "drop (unat start) sigs"]
      that l by (simp add: chunk_entries_def)
  have "roadcast_decode_schema_chunk ?chunk cap
      = Some (Ok (ROADCAST_SCHEMA_VERSION, of_nat (length sigs), start, hash, ?es))" if "length ?es \<le> cap" for cap
  proof (rule decode_schema_chunk_bytes)
    have le: "start \<le> of_nat (length sigs)"
      using start by (simp add: word_le_nat_alt length_sigs(2))
    then show "start \<le> of_nat (length sigs)" .
    show "length ?es \<le> unat (of_nat (length sigs) - start)"
      using l by (simp add: unat_sub [OF le] length_sigs(2))
  qed (use wf that in auto)
  ultimately show thesis
    using that [of "length ?chunk" "of_nat (length ?es)" "?chunk @ drop (length ?chunk) out"]
      count ne l start assms(2) chunk_entries_take [of capacity start]
    by simp
qed

end

end
