(* ===== verification/Daemon_State.thy ===== *)
theory Daemon_State
  imports Schema_Encoding Batches
begin

text \<open>
  The state of the daemon, \<^verbatim>\<open>src/roadcastd.c\<close>: the structs \<^verbatim>\<open>output_slot_t\<close>, \<^verbatim>\<open>roadcast_client\<close>, \<^verbatim>\<open>stats_t\<close> and
  \<^verbatim>\<open>roadcast_server\<close> as records.  libuv and the operating system are not part of the program: what they
  answer is the parameter \<open>env\<close>, indexed by the number of calls made so far (\<open>s_calls\<close>), so that every
  possible behaviour is some \<open>env\<close>.  A client's handle is represented by \<open>c_stream\<close>, the messages that
  \<^verbatim>\<open>uv_write\<close> accepted, in order; \<^verbatim>\<open>uv_close\<close> leaves \<open>c_closing\<close> set until its callback.

  Handlers that belong to one connection act on a pair of the server and the client; \<open>with_client\<close> runs
  one of them on a slot of the client table.  Local buffers that C leaves uninitialised start as zeros; what
  is sent of them has always been written first.
\<close>

abbreviation (input) MAX_CLIENTS :: nat where "MAX_CLIENTS \<equiv> 16"
abbreviation (input) MAX_CLIENTS_PER_UID :: nat where "MAX_CLIENTS_PER_UID \<equiv> 8"
abbreviation (input) CLIENT_INPUT_CAP :: nat where "CLIENT_INPUT_CAP \<equiv> 4096"
abbreviation (input) CLIENT_MESSAGE_CAP :: nat where "CLIENT_MESSAGE_CAP \<equiv> 2048"
abbreviation (input) HELLO_TIMEOUT_NS :: u64 where "HELLO_TIMEOUT_NS \<equiv> 2000000000"
abbreviation (input) SETUP_TIMEOUT_NS :: u64 where "SETUP_TIMEOUT_NS \<equiv> 10000000000"

text \<open>The derived sizes are computed as the macros compute them.\<close>

definition SIGNALS_PER_MESSAGE :: nat where
  "SIGNALS_PER_MESSAGE = (CLIENT_MESSAGE_CAP - ROADCAST_HEADER_SIZE - ROADCAST_BATCH_PREFIX_SIZE) div ROADCAST_SIGNAL_WIRE_SIZE"

definition FRAMES_PER_MESSAGE :: nat where
  "FRAMES_PER_MESSAGE = (CLIENT_MESSAGE_CAP - ROADCAST_HEADER_SIZE - ROADCAST_BATCH_PREFIX_SIZE) div ROADCAST_FRAME_WIRE_SIZE"

definition FRAME_BATCH_CHUNKS :: nat where
  "FRAME_BATCH_CHUNKS = (ROADCAST_FRAME_COUNT + FRAMES_PER_MESSAGE - 1) div FRAMES_PER_MESSAGE"

definition SIGNAL_BATCH_CHUNKS :: nat where
  "SIGNAL_BATCH_CHUNKS = (ROADCAST_SIGNAL_COUNT + SIGNALS_PER_MESSAGE - 1) div SIGNALS_PER_MESSAGE"

definition CLIENT_QUEUE_SLOTS :: nat where
  "CLIENT_QUEUE_SLOTS = FRAME_BATCH_CHUNKS + SIGNAL_BATCH_CHUNKS + 1"

lemma derived_sizes [simp]:
  "SIGNALS_PER_MESSAGE = 49" "FRAMES_PER_MESSAGE = 71" "FRAME_BATCH_CHUNKS = 2" "SIGNAL_BATCH_CHUNKS = 17"
  "CLIENT_QUEUE_SLOTS = 20"
  by (simp_all add: SIGNALS_PER_MESSAGE_def FRAMES_PER_MESSAGE_def FRAME_BATCH_CHUNKS_def
      SIGNAL_BATCH_CHUNKS_def CLIENT_QUEUE_SLOTS_def)

record env =
  e_clock :: "nat \<Rightarrow> u64"
  e_calloc :: "nat \<Rightarrow> bool"
  e_write_queue_size :: "nat \<Rightarrow> nat"
  e_uv_write :: "nat \<Rightarrow> int"
  e_uv_pipe_init :: "nat \<Rightarrow> int"
  e_uv_accept :: "nat \<Rightarrow> int"
  e_uv_fileno :: "nat \<Rightarrow> int"
  e_getsockopt_peercred :: "nat \<Rightarrow> int \<times> nat \<times> u32 \<times> int"
  e_uv_read_start :: "nat \<Rightarrow> int"

record output_slot =
  o_length :: nat
  o_in_use :: bool
  o_data :: bytes

record client =
  c_active :: bool
  c_closing :: bool
  c_greeted :: bool
  c_subscribed :: bool
  c_needs_resync :: bool
  c_resync_queued :: bool
  c_input :: bytes
  c_input_length :: nat
  c_output :: "output_slot list"
  c_pending_bytes :: nat
  c_dropped_batches :: u64
  c_hello_deadline_ns :: u64
  c_setup_deadline_ns :: u64
  c_peer_uid :: u32
  c_peer_pid :: int
  c_snapshot_frames :: "roadcast_frame list"
  c_snapshot_signals :: "roadcast_signal_value list"
  c_snapshot_sample_sequence :: u64
  c_snapshot_change_sequence :: u64
  c_snapshot_timestamp_ns :: u64
  c_snapshot_next_frame_index :: u32
  c_snapshot_next_index :: u32
  c_catchup_frame_indices :: "u16 list"
  c_catchup_signal_indices :: "u32 list"
  c_catchup_frame_count :: nat
  c_catchup_frame_offset :: nat
  c_catchup_signal_count :: nat
  c_catchup_signal_offset :: nat
  c_catchup_sample_sequence :: u64
  c_catchup_change_sequence :: u64
  c_catchup_timestamp_ns :: u64
  c_snapshot_active :: bool
  c_snapshot_frames_complete :: bool
  c_snapshot_complete :: bool
  c_catchup_active :: bool
  c_catchup_waiting_for_capacity :: bool
  c_catchup_resumption_reported :: bool
  c_stream :: "bytes list"

record stats =
  st_ticks :: u64
  st_changed_frames :: u64
  st_coalesced_samples :: u64
  st_queue_drops :: u64
  st_source_errors_at_start :: u64
  st_fallback_batches_at_start :: u64
  st_hello_timeouts :: u64
  st_setup_timeouts :: u64
  st_peer_limit_rejections :: u64
  st_serialized_chunks :: u64

record server =
  s_clients :: "client list"
  s_frames :: "roadcast_frame list"
  s_signals :: "roadcast_signal_value list"
  s_sample_sequence :: u64
  s_change_sequence :: u64
  s_sample_timestamp_ns :: u64
  s_coalesced_samples :: u64
  s_heartbeat_previous_sequence :: u64
  s_heartbeat_previous_ns :: u64
  s_effective_hz_millihz :: u32
  s_hz :: u32
  s_client_queue_slots :: u32
  s_stats :: stats
  s_shutting_down :: bool
  s_calls :: nat

text \<open>A client after \<^verbatim>\<open>memset(client, 0, sizeof(*client))\<close>, its handle gone.\<close>

definition zero_client :: client where
  "zero_client = \<lparr>c_active = False, c_closing = False, c_greeted = False, c_subscribed = False,
     c_needs_resync = False, c_resync_queued = False, c_input = replicate CLIENT_INPUT_CAP 0, c_input_length = 0,
     c_output = replicate CLIENT_QUEUE_SLOTS \<lparr>o_length = 0, o_in_use = False, o_data = replicate CLIENT_MESSAGE_CAP 0\<rparr>,
     c_pending_bytes = 0, c_dropped_batches = 0, c_hello_deadline_ns = 0, c_setup_deadline_ns = 0,
     c_peer_uid = 0, c_peer_pid = 0, c_snapshot_frames = replicate ROADCAST_FRAME_COUNT zero_frame,
     c_snapshot_signals = replicate ROADCAST_SIGNAL_COUNT zero_signal, c_snapshot_sample_sequence = 0,
     c_snapshot_change_sequence = 0, c_snapshot_timestamp_ns = 0, c_snapshot_next_frame_index = 0,
     c_snapshot_next_index = 0, c_catchup_frame_indices = replicate ROADCAST_FRAME_COUNT 0,
     c_catchup_signal_indices = replicate ROADCAST_SIGNAL_COUNT 0, c_catchup_frame_count = 0,
     c_catchup_frame_offset = 0, c_catchup_signal_count = 0, c_catchup_signal_offset = 0,
     c_catchup_sample_sequence = 0, c_catchup_change_sequence = 0, c_catchup_timestamp_ns = 0,
     c_snapshot_active = False, c_snapshot_frames_complete = False, c_snapshot_complete = False,
     c_catchup_active = False, c_catchup_waiting_for_capacity = False, c_catchup_resumption_reported = False,
     c_stream = []\<rparr>"

definition zero_stats :: stats where
  "zero_stats = \<lparr>st_ticks = 0, st_changed_frames = 0, st_coalesced_samples = 0, st_queue_drops = 0,
     st_source_errors_at_start = 0, st_fallback_batches_at_start = 0, st_hello_timeouts = 0, st_setup_timeouts = 0,
     st_peer_limit_rejections = 0, st_serialized_chunks = 0\<rparr>"

section \<open>Calls out of the program\<close>

type_synonym conn = "server \<times> client"

definition called :: "server \<Rightarrow> server" where
  "called s = s\<lparr>s_calls := Suc (s_calls s)\<rparr>"

definition monotonic_ns :: "env \<Rightarrow> server \<Rightarrow> u64 \<times> server" where
  "monotonic_ns e s = (e_clock e (s_calls s), called s)"

definition uv_stream_get_write_queue_size :: "env \<Rightarrow> server \<Rightarrow> nat \<times> server" where
  "uv_stream_get_write_queue_size e s = (e_write_queue_size e (s_calls s), called s)"

text \<open>Runs a handler of one connection on the client table; its result is dropped.\<close>

definition with_client :: "nat \<Rightarrow> (conn \<Rightarrow> ('a \<times> conn) option) \<Rightarrow> server \<Rightarrow> ('a \<times> server) option" where
  "with_client i f s = do {
     c \<leftarrow> rd (s_clients s) i;
     (r, s, c) \<leftarrow> f (s, c);
     clients \<leftarrow> poke i [c] (s_clients s);
     Some (r, s\<lparr>s_clients := clients\<rparr>) }"

end
