(* ===== verification/Daemon_Queue.thy ===== *)
theory Daemon_Queue
  imports Daemon_State
begin

text \<open>
  The bounded output queue of a connection: \<^verbatim>\<open>find_output_slot\<close>, \<^verbatim>\<open>client_queue_message\<close>,
  \<^verbatim>\<open>client_has_output_capacity\<close>, \<^verbatim>\<open>maybe_queue_resync\<close>, \<^verbatim>\<open>client_close\<close> and the accounting part of
  \<^verbatim>\<open>on_client_write\<close>.  A C function that returns 0 or -1 gives \<^const>\<open>True\<close> or \<^const>\<open>False\<close> beside the new state.

  The lemmas: the queue invariant \<open>queue_inv\<close> (the byte count is the sum of the slots in use, each holding
  one message within the slot) is kept, a full queue refuses or drops without touching the queue, and an
  accepted message reaches the stream unchanged.
\<close>

section \<open>Operations\<close>

fun find_slot :: "output_slot list \<Rightarrow> nat \<Rightarrow> nat \<Rightarrow> nat option option" where
  "find_slot outs i 0 = Some None"
| "find_slot outs i (Suc n) = do {
     slot \<leftarrow> rd outs i;
     if \<not> o_in_use slot then Some (Some i) else find_slot outs (Suc i) n }"

definition find_output_slot :: "conn \<Rightarrow> nat option option" where
  "find_output_slot = (\<lambda>(s, c). find_slot (c_output c) 0 (unat (s_client_queue_slots s)))"

definition queue_byte_limit :: "server \<Rightarrow> nat" where
  "queue_byte_limit s = unat (s_client_queue_slots s) * CLIENT_MESSAGE_CAP"

definition message_header :: "u16 \<Rightarrow> u64 \<Rightarrow> u64 \<Rightarrow> nat \<Rightarrow> roadcast_header" where
  "message_header ty sq ts payload_length = \<lparr>h_version = ROADCAST_PROTOCOL_VERSION, h_type = ty, h_flags = 0,
     h_payload_bytes = of_nat payload_length, h_sequence = sq, h_timestamp_ns = ts\<rparr>"

text \<open>The branch of \<^verbatim>\<open>client_queue_message\<close> that runs out of capacity.\<close>

definition queue_overflow :: "env \<Rightarrow> bool \<Rightarrow> conn \<Rightarrow> (bool \<times> conn) option" where
  "queue_overflow e droppable = (\<lambda>(s, c).
     if \<not> droppable then Some (False, s, c)
     else let (now, s) = monotonic_ns e s in
       Some (True, s\<lparr>s_stats := (s_stats s)\<lparr>st_queue_drops := st_queue_drops (s_stats s) + 1\<rparr>\<rparr>,
         c\<lparr>c_dropped_batches := c_dropped_batches c + 1, c_needs_resync := True, c_subscribed := False,
           c_setup_deadline_ns := now + SETUP_TIMEOUT_NS\<rparr>))"

text \<open>The header and the payload are written into the slot's buffer.\<close>

definition fill_slot :: "bytes \<Rightarrow> roadcast_header \<Rightarrow> bytes \<Rightarrow> nat \<Rightarrow> bytes option" where
  "fill_slot data header payload payload_length = do {
     data \<leftarrow> roadcast_encode_header data header;
     if payload_length \<noteq> 0 then do {
       p \<leftarrow> slice payload 0 payload_length;
       poke ROADCAST_HEADER_SIZE p data }
     else Some data }"

text \<open>The branch that fills the slot \<open>i\<close> and hands it to libuv.\<close>

definition queue_write ::
    "env \<Rightarrow> nat \<Rightarrow> u16 \<Rightarrow> u64 \<Rightarrow> u64 \<Rightarrow> bytes \<Rightarrow> nat \<Rightarrow> conn \<Rightarrow> (bool \<times> conn) option" where
  "queue_write e i ty sequence timestamp_ns payload payload_length = (\<lambda>(s, c). do {
     let message_length = ROADCAST_HEADER_SIZE + payload_length;
     slot \<leftarrow> rd (c_output c) i;
     data \<leftarrow> fill_slot (o_data slot) (message_header ty sequence timestamp_ns payload_length) payload payload_length;
     let c = c\<lparr>c_output := (c_output c)[i := \<lparr>o_length = message_length, o_in_use = True, o_data = data\<rparr>],
         c_pending_bytes := c_pending_bytes c + message_length\<rparr>;
     buffer \<leftarrow> slice data 0 message_length;
     let result = e_uv_write e (s_calls s);
     let s = called s;
     if result < 0
     then Some (False, s, c\<lparr>c_output := (c_output c)[i := \<lparr>o_length = 0, o_in_use = False, o_data = data\<rparr>],
       c_pending_bytes := c_pending_bytes c - message_length\<rparr>)
     else Some (True, s, c\<lparr>c_stream := c_stream c @ [buffer]\<rparr>) })"

definition client_queue_message ::
    "env \<Rightarrow> u16 \<Rightarrow> u64 \<Rightarrow> u64 \<Rightarrow> bytes \<Rightarrow> nat \<Rightarrow> bool \<Rightarrow> conn \<Rightarrow> (bool \<times> conn) option" where
  "client_queue_message e ty sequence timestamp_ns payload payload_length droppable = (\<lambda>(s, c).
     if \<not> c_active c \<or> payload_length > ROADCAST_MAX_PAYLOAD \<or>
        ROADCAST_HEADER_SIZE + payload_length > CLIENT_MESSAGE_CAP
     then Some (False, s, c)
     else do {
       let message_length = ROADCAST_HEADER_SIZE + payload_length;
       let (libuv_pending, s) = uv_stream_get_write_queue_size e s;
       slot \<leftarrow> find_output_slot (s, c);
       case slot of
         None \<Rightarrow> queue_overflow e droppable (s, c)
       | Some i \<Rightarrow>
           if c_pending_bytes c + message_length > queue_byte_limit s \<or>
              libuv_pending + message_length > queue_byte_limit s
           then queue_overflow e droppable (s, c)
           else queue_write e i ty sequence timestamp_ns payload payload_length (s, c) })"

definition client_has_output_capacity :: "env \<Rightarrow> conn \<Rightarrow> (bool \<times> conn) option" where
  "client_has_output_capacity e = (\<lambda>(s, c). do {
     let (libuv_pending, s) = uv_stream_get_write_queue_size e s;
     slot \<leftarrow> find_output_slot (s, c);
     Some (slot \<noteq> None \<and> c_pending_bytes c + CLIENT_MESSAGE_CAP \<le> queue_byte_limit s \<and>
       libuv_pending + CLIENT_MESSAGE_CAP \<le> queue_byte_limit s, s, c) })"

definition client_close :: "client \<Rightarrow> client" where
  "client_close c = (if \<not> c_active c \<or> c_closing c then c
     else c\<lparr>c_active := False, c_closing := True\<rparr>)"

definition maybe_queue_resync :: "env \<Rightarrow> conn \<Rightarrow> conn option" where
  "maybe_queue_resync e = (\<lambda>(s, c).
     if \<not> c_active c \<or> \<not> c_greeted c \<or> \<not> c_needs_resync c \<or> c_resync_queued c \<or> c_pending_bytes c \<noteq> 0
     then Some (s, c)
     else do {
       (ok, s, c) \<leftarrow> client_queue_message e ROADCAST_MSG_RESYNC_REQUIRED (s_change_sequence s)
         (s_sample_timestamp_ns s) [] 0 False (s, c);
       if \<not> ok then Some (s, client_close c)
       else Some (s, c\<lparr>c_resync_queued := True\<rparr>) })"

text \<open>The first half of \<^verbatim>\<open>on_client_write\<close>: the slot \<open>i\<close> of the finished request is released.\<close>

definition release_slot :: "nat \<Rightarrow> client \<Rightarrow> client option" where
  "release_slot i c = do {
     slot \<leftarrow> rd (c_output c) i;
     Some (c\<lparr>c_pending_bytes :=
         (if c_pending_bytes c \<ge> o_length slot then c_pending_bytes c - o_length slot else 0),
       c_output := (c_output c)[i := slot\<lparr>o_length := 0, o_in_use := False\<rparr>]\<rparr>) }"

section \<open>The queue invariant\<close>

definition slot_wf :: "output_slot \<Rightarrow> bool" where
  "slot_wf slot \<longleftrightarrow> length (o_data slot) = CLIENT_MESSAGE_CAP \<and>
     (if o_in_use slot then ROADCAST_HEADER_SIZE \<le> o_length slot \<and> o_length slot \<le> CLIENT_MESSAGE_CAP
      else o_length slot = 0)"

definition queue_inv :: "server \<Rightarrow> client \<Rightarrow> bool" where
  "queue_inv s c \<longleftrightarrow> length (c_output c) = CLIENT_QUEUE_SLOTS \<and> list_all slot_wf (c_output c)
     \<and> unat (s_client_queue_slots s) \<le> CLIENT_QUEUE_SLOTS
     \<and> list_all (\<lambda>slot. \<not> o_in_use slot) (drop (unat (s_client_queue_slots s)) (c_output c))
     \<and> c_pending_bytes c = sum_list (map o_length (c_output c))"

text \<open>The slots still free of those the queue may use.\<close>

definition free_slots :: "server \<Rightarrow> client \<Rightarrow> nat" where
  "free_slots s c = length (filter (\<lambda>slot. \<not> o_in_use slot) (take (unat (s_client_queue_slots s)) (c_output c)))"

text \<open>A server that differs only in what a queue operation may change of it.\<close>

definition server_same :: "server \<Rightarrow> server \<Rightarrow> bool" where
  "server_same s s' \<longleftrightarrow> s' = s\<lparr>s_calls := s_calls s', s_stats := s_stats s'\<rparr>"

definition message_bytes :: "u16 \<Rightarrow> u64 \<Rightarrow> u64 \<Rightarrow> bytes \<Rightarrow> bytes" where
  "message_bytes ty sq ts payload = header_bytes (message_header ty sq ts (length payload)) @ payload"

lemma length_message [simp, len_simps]: "length (message_bytes ty sq ts payload) = 32 + length payload"
  by (simp add: message_bytes_def)

lemma server_same_refl [simp, intro]: "server_same s s"
  by (simp add: server_same_def)

lemma server_same_called [simp]: "server_same s (called s)"
  by (simp add: server_same_def called_def)

lemma server_same_trans [trans]: "server_same s t \<Longrightarrow> server_same t u \<Longrightarrow> server_same s u"
  by (cases s; cases t; cases u) (simp add: server_same_def)

lemma server_sameD:
  assumes "server_same s s'"
  shows "s_clients s' = s_clients s" "s_frames s' = s_frames s" "s_signals s' = s_signals s"
    "s_sample_sequence s' = s_sample_sequence s" "s_change_sequence s' = s_change_sequence s"
    "s_sample_timestamp_ns s' = s_sample_timestamp_ns s" "s_client_queue_slots s' = s_client_queue_slots s"
    "s_hz s' = s_hz s" "s_shutting_down s' = s_shutting_down s" "s_coalesced_samples s' = s_coalesced_samples s"
    "s_effective_hz_millihz s' = s_effective_hz_millihz s"
  by (subst assms [unfolded server_same_def], simp)+

lemma queue_inv_same: "server_same s s' \<Longrightarrow> queue_inv s' c = queue_inv s c"
  by (simp add: queue_inv_def server_sameD)

lemma free_slots_same: "server_same s s' \<Longrightarrow> free_slots s' c = free_slots s c"
  by (simp add: free_slots_def server_sameD)

lemma sum_list_update_nat:
  "i < length xs \<Longrightarrow> sum_list (xs[i := v]) + xs ! i = sum_list xs + (v :: nat)"
  by (induction xs arbitrary: i) (auto split: nat.splits simp: nth_Cons')

lemma find_slot_spec:
  assumes "i + n \<le> length outs"
  shows "(\<exists>j. find_slot outs i n = Some (Some j) \<and> i \<le> j \<and> j < i + n \<and> \<not> o_in_use (outs ! j))
    \<or> find_slot outs i n = Some None \<and> (\<forall>j. i \<le> j \<and> j < i + n \<longrightarrow> o_in_use (outs ! j))"
  using assms
proof (induction n arbitrary: i)
  case (Suc n)
  show ?case
  proof (cases "o_in_use (outs ! i)")
    case True
    then show ?thesis
      using Suc.IH [of "Suc i"] Suc.prems
      by (auto simp: rd_Some) (metis Suc_leI le_neq_implies_less)+
  qed (use Suc.prems in \<open>auto simp: rd_Some\<close>)
qed auto

lemma find_output_slot_cases:
  assumes "queue_inv s c"
  obtains i where "find_output_slot (s, c) = Some (Some i)" and "i < unat (s_client_queue_slots s)"
      and "i < length (c_output c)" and "\<not> o_in_use (c_output c ! i)"
    | "find_output_slot (s, c) = Some None" and "free_slots s c = 0"
proof -
  let ?n = "unat (s_client_queue_slots s)"
  have n: "0 + ?n \<le> length (c_output c)"
    using assms by (simp add: queue_inv_def)
  from find_slot_spec [OF this] consider
      (found) j where "find_slot (c_output c) 0 ?n = Some (Some j)" "j < ?n" "\<not> o_in_use (c_output c ! j)"
    | (full) "find_slot (c_output c) 0 ?n = Some None" "\<forall>j < ?n. o_in_use (c_output c ! j)"
    by auto
  then show thesis
  proof cases
    case found
    with n that(1) show thesis by (simp add: find_output_slot_def)
  next
    case full
    then have "\<forall>x \<in> set (take ?n (c_output c)). o_in_use x"
      by (auto simp: in_set_conv_nth)
    with full that(2) show thesis
      by (auto simp: find_output_slot_def free_slots_def filter_empty_conv)
  qed
qed

lemma slot_wf_free: "slot_wf slot \<Longrightarrow> \<not> o_in_use slot \<Longrightarrow> o_length slot = 0"
  by (simp add: slot_wf_def)

lemma queue_inv_slot: "queue_inv s c \<Longrightarrow> i < length (c_output c) \<Longrightarrow> slot_wf (c_output c ! i)"
  by (simp add: queue_inv_def list_all_length)

text \<open>Writing a free slot: the invariant with the bytes of the slot added.\<close>

lemma queue_inv_update:
  assumes inv: "queue_inv s c" and i: "i < unat (s_client_queue_slots s)" and "\<not> o_in_use (c_output c ! i)"
    and wf: "slot_wf slot"
  shows "queue_inv s (c\<lparr>c_output := (c_output c)[i := slot], c_pending_bytes := c_pending_bytes c + o_length slot\<rparr>)"
proof -
  let ?n = "unat (s_client_queue_slots s)"
  have l: "i < length (c_output c)" and n: "?n \<le> length (c_output c)"
    using inv i by (auto simp: queue_inv_def)
  have "o_length (c_output c ! i) = 0"
    using slot_wf_free [OF queue_inv_slot [OF inv l]] assms(3) by simp
  with sum_list_update_nat [of i "map o_length (c_output c)" "o_length slot"] l
  have "sum_list (map o_length ((c_output c)[i := slot])) = sum_list (map o_length (c_output c)) + o_length slot"
    by (simp add: map_update)
  moreover have "drop ?n ((c_output c)[i := slot]) = drop ?n (c_output c)"
    using i by (simp add: drop_update_cancel)
  moreover have "list_all slot_wf ((c_output c)[i := slot])"
    using inv wf l by (auto simp: queue_inv_def list_all_length nth_list_update)
  ultimately show ?thesis
    using inv by (simp add: queue_inv_def)
qed

lemma free_slots_use:
  assumes "i < unat (s_client_queue_slots s)" and "i < length (c_output c)" and "\<not> o_in_use (c_output c ! i)"
    and "o_in_use slot"
  shows "Suc (free_slots s (c\<lparr>c_output := (c_output c)[i := slot]\<rparr>)) = free_slots s c"
proof -
  let ?n = "unat (s_client_queue_slots s)" and ?P = "\<lambda>slot. \<not> o_in_use slot"
  let ?xs = "take ?n (c_output c)"
  have i: "i < length ?xs"
    using assms(1,2) by simp
  have "filter ?P (?xs[i := slot]) = filter ?P (take i ?xs) @ filter ?P (drop (Suc i) ?xs)"
    using i assms(4) by (simp add: upd_conv_take_nth_drop)
  moreover have "filter ?P ?xs = filter ?P (take i ?xs) @ ?xs ! i # filter ?P (drop (Suc i) ?xs)"
    using i assms(1,3) by (subst id_take_nth_drop [OF i]) simp
  moreover have "take ?n ((c_output c)[i := slot]) = ?xs[i := slot]"
    by (simp add: take_update_swap)
  ultimately show ?thesis
    by (simp add: free_slots_def)
qed

lemma pending_bound:
  assumes "queue_inv s c"
  shows "c_pending_bytes c + free_slots s c * CLIENT_MESSAGE_CAP \<le> queue_byte_limit s"
proof -
  let ?n = "unat (s_client_queue_slots s)" and ?P = "\<lambda>slot. \<not> o_in_use slot"
  have wf: "list_all slot_wf (take ?n (c_output c))" "list_all slot_wf (drop ?n (c_output c))"
    using assms by (auto simp: queue_inv_def list_all_iff dest: in_set_takeD in_set_dropD)
  have "sum_list (map o_length xs) + length (filter ?P xs) * 2048 \<le> length xs * 2048" if "list_all slot_wf xs" for xs
    using that by (induction xs) (auto simp: slot_wf_def split: if_splits)
  note this [OF wf(1)]
  moreover have "sum_list (map o_length (drop ?n (c_output c))) = 0"
    using assms wf(2) by (auto simp: queue_inv_def list_all_iff sum_list_eq_0_iff slot_wf_free)
  moreover have "sum_list (map o_length (c_output c))
      = sum_list (map o_length (take ?n (c_output c))) + sum_list (map o_length (drop ?n (c_output c)))"
    by (metis append_take_drop_id map_append sum_list_append)
  moreover have "c_pending_bytes c = sum_list (map o_length (c_output c))" "?n \<le> length (c_output c)"
    using assms by (simp_all add: queue_inv_def)
  ultimately show ?thesis
    unfolding free_slots_def queue_byte_limit_def by (simp only: length_take min_absorb2)
qed

section \<open>Queueing a message\<close>

lemma queue_write_cases:
  assumes inv: "queue_inv s c" and i: "i < unat (s_client_queue_slots s)" and free: "\<not> o_in_use (c_output c ! i)"
    and len: "32 + n \<le> CLIENT_MESSAGE_CAP" and payload: "n \<le> length payload"
  obtains (refused) data where
      "queue_write e i ty sq ts payload n (s, c) = Some (False, called s,
         c\<lparr>c_output := (c_output c)[i := \<lparr>o_length = 0, o_in_use = False, o_data = data\<rparr>]\<rparr>)"
      and "length data = CLIENT_MESSAGE_CAP"
    | (sent) data where
      "queue_write e i ty sq ts payload n (s, c) = Some (True, called s,
         c\<lparr>c_output := (c_output c)[i := \<lparr>o_length = 32 + n, o_in_use = True, o_data = data\<rparr>],
           c_pending_bytes := c_pending_bytes c + (32 + n),
           c_stream := c_stream c @ [message_bytes ty sq ts (take n payload)]\<rparr>)"
      and "length data = CLIENT_MESSAGE_CAP" and "take (32 + n) data = message_bytes ty sq ts (take n payload)"
proof -
  have l: "i < length (c_output c)"
    using inv i by (simp add: queue_inv_def)
  let ?d = "o_data (c_output c ! i)"
  have dl: "length ?d = 2048"
    using queue_inv_slot [OF inv l] by (simp add: slot_wf_def)
  let ?h = "message_header ty sq ts n"
  let ?data = "header_bytes ?h @ take n payload @ drop (32 + n) ?d"
  have msg: "message_bytes ty sq ts (take n payload) = header_bytes ?h @ take n payload"
    using payload by (simp add: message_bytes_def min_def)
  have data: "fill_slot ?d ?h payload n = Some ?data"
    using dl len payload by (auto simp: fill_slot_def encode_header_poke poke_Some slice_Some min_def add.commute)
  have buf: "slice ?data 0 (32 + n) = Some (message_bytes ty sq ts (take n payload))"
    using payload dl len by (simp add: slice_Some msg min_def)
  have ld: "length ?data = 2048"
    using dl len payload by (simp add: min_def)
  have run: "queue_write e i ty sq ts payload n (s, c) =
    (if e_uv_write e (s_calls s) < 0 then Some (False, called s,
         c\<lparr>c_output := (c_output c)[i := \<lparr>o_length = 0, o_in_use = False, o_data = ?data\<rparr>]\<rparr>)
     else Some (True, called s,
         c\<lparr>c_output := (c_output c)[i := \<lparr>o_length = 32 + n, o_in_use = True, o_data = ?data\<rparr>],
           c_pending_bytes := c_pending_bytes c + (32 + n),
           c_stream := c_stream c @ [message_bytes ty sq ts (take n payload)]\<rparr>))"
    using l data buf by (simp add: queue_write_def rd_Some Let_def)
  have tk: "take (32 + n) ?data = message_bytes ty sq ts (take n payload)"
    using buf ld len by (simp add: slice_def split: if_splits)
  show thesis
  proof (cases "e_uv_write e (s_calls s) < 0")
    case True
    with run ld that(1) [of ?data] show thesis by simp
  next
    case False
    with run ld tk that(2) [of ?data] show thesis by simp
  qed
qed

text \<open>
  What queueing does to a client: \<open>queue_only\<close> touches nothing but the slots and the byte count, and
  \<open>sent\<close> appends one message to the stream as well.
\<close>

definition queue_only :: "client \<Rightarrow> client \<Rightarrow> bool" where
  "queue_only c c' \<longleftrightarrow> c' = c\<lparr>c_output := c_output c', c_pending_bytes := c_pending_bytes c'\<rparr>"

definition sent :: "bytes \<Rightarrow> client \<Rightarrow> client \<Rightarrow> bool" where
  "sent msg c c' \<longleftrightarrow> c' = c\<lparr>c_output := c_output c', c_pending_bytes := c_pending_bytes c',
     c_stream := c_stream c @ [msg]\<rparr>"

definition dropped :: "u64 \<Rightarrow> client \<Rightarrow> client" where
  "dropped now c = c\<lparr>c_dropped_batches := c_dropped_batches c + 1, c_needs_resync := True, c_subscribed := False,
     c_setup_deadline_ns := now + SETUP_TIMEOUT_NS\<rparr>"

lemma queue_only_refl [simp, intro]: "queue_only c c"
  by (simp add: queue_only_def)

text \<open>What queueing leaves alone.\<close>

lemma queue_onlyD:
  assumes "queue_only c c'"
  shows "c_active c' = c_active c" "c_closing c' = c_closing c" "c_greeted c' = c_greeted c" "c_subscribed c' =
    c_subscribed c" "c_needs_resync c' = c_needs_resync c" "c_resync_queued c' = c_resync_queued c" "c_input c' =
    c_input c" "c_input_length c' = c_input_length c" "c_dropped_batches c' = c_dropped_batches c"
    "c_hello_deadline_ns c' = c_hello_deadline_ns c" "c_setup_deadline_ns c' = c_setup_deadline_ns c" "c_peer_uid
    c' = c_peer_uid c" "c_peer_pid c' = c_peer_pid c" "c_snapshot_frames c' = c_snapshot_frames c"
    "c_snapshot_signals c' = c_snapshot_signals c" "c_snapshot_sample_sequence c' = c_snapshot_sample_sequence c"
    "c_snapshot_change_sequence c' = c_snapshot_change_sequence c" "c_snapshot_timestamp_ns c' =
    c_snapshot_timestamp_ns c" "c_snapshot_next_frame_index c' = c_snapshot_next_frame_index c"
    "c_snapshot_next_index c' = c_snapshot_next_index c" "c_catchup_frame_indices c' = c_catchup_frame_indices c"
    "c_catchup_signal_indices c' = c_catchup_signal_indices c" "c_catchup_frame_count c' = c_catchup_frame_count
    c" "c_catchup_frame_offset c' = c_catchup_frame_offset c" "c_catchup_signal_count c' = c_catchup_signal_count
    c" "c_catchup_signal_offset c' = c_catchup_signal_offset c" "c_catchup_sample_sequence c' =
    c_catchup_sample_sequence c" "c_catchup_change_sequence c' = c_catchup_change_sequence c"
    "c_catchup_timestamp_ns c' = c_catchup_timestamp_ns c" "c_snapshot_active c' = c_snapshot_active c"
    "c_snapshot_frames_complete c' = c_snapshot_frames_complete c" "c_snapshot_complete c' = c_snapshot_complete
    c" "c_catchup_active c' = c_catchup_active c" "c_catchup_waiting_for_capacity c' =
    c_catchup_waiting_for_capacity c" "c_catchup_resumption_reported c' = c_catchup_resumption_reported c"
    "c_stream c' = c_stream c"
  by (subst assms [unfolded queue_only_def], simp)+

lemma sentD:
  assumes "sent msg c c'"
  shows "c_active c' = c_active c" "c_closing c' = c_closing c" "c_greeted c' = c_greeted c" "c_subscribed c' =
    c_subscribed c" "c_needs_resync c' = c_needs_resync c" "c_resync_queued c' = c_resync_queued c" "c_input c' =
    c_input c" "c_input_length c' = c_input_length c" "c_dropped_batches c' = c_dropped_batches c"
    "c_hello_deadline_ns c' = c_hello_deadline_ns c" "c_setup_deadline_ns c' = c_setup_deadline_ns c" "c_peer_uid
    c' = c_peer_uid c" "c_peer_pid c' = c_peer_pid c" "c_snapshot_frames c' = c_snapshot_frames c"
    "c_snapshot_signals c' = c_snapshot_signals c" "c_snapshot_sample_sequence c' = c_snapshot_sample_sequence c"
    "c_snapshot_change_sequence c' = c_snapshot_change_sequence c" "c_snapshot_timestamp_ns c' =
    c_snapshot_timestamp_ns c" "c_snapshot_next_frame_index c' = c_snapshot_next_frame_index c"
    "c_snapshot_next_index c' = c_snapshot_next_index c" "c_catchup_frame_indices c' = c_catchup_frame_indices c"
    "c_catchup_signal_indices c' = c_catchup_signal_indices c" "c_catchup_frame_count c' = c_catchup_frame_count
    c" "c_catchup_frame_offset c' = c_catchup_frame_offset c" "c_catchup_signal_count c' = c_catchup_signal_count
    c" "c_catchup_signal_offset c' = c_catchup_signal_offset c" "c_catchup_sample_sequence c' =
    c_catchup_sample_sequence c" "c_catchup_change_sequence c' = c_catchup_change_sequence c"
    "c_catchup_timestamp_ns c' = c_catchup_timestamp_ns c" "c_snapshot_active c' = c_snapshot_active c"
    "c_snapshot_frames_complete c' = c_snapshot_frames_complete c" "c_snapshot_complete c' = c_snapshot_complete
    c" "c_catchup_active c' = c_catchup_active c" "c_catchup_waiting_for_capacity c' =
    c_catchup_waiting_for_capacity c" "c_catchup_resumption_reported c' = c_catchup_resumption_reported c"
    "c_stream c' = c_stream c @ [msg]"
  by (subst assms [unfolded sent_def], simp)+

lemma queue_inv_dropped [simp]: "queue_inv s (dropped now c) = queue_inv s c"
  by (simp add: queue_inv_def dropped_def)

lemma free_slots_cong: "c_output c' = c_output c \<Longrightarrow> free_slots s c' = free_slots s c"
  by (simp add: free_slots_def)

lemma queue_inv_cong:
  "c_output c' = c_output c \<Longrightarrow> c_pending_bytes c' = c_pending_bytes c \<Longrightarrow> queue_inv s c' = queue_inv s c"
  by (simp add: queue_inv_def)

lemma queue_overflow_cases:
  obtains (refused) "\<not> droppable" and "queue_overflow e droppable (s, c) = Some (False, s, c)"
    | (dropped) s' now where "droppable" and "queue_overflow e droppable (s, c) = Some (True, s', dropped now c)"
      and "server_same s s'"
proof (cases droppable)
  case True
  then show thesis
    by (intro that(2)) (auto simp: queue_overflow_def dropped_def monotonic_ns_def server_same_def called_def)
qed (auto simp: queue_overflow_def intro: that(1))

lemma queue_message_cases:
  assumes inv: "queue_inv s c" and payload: "n \<le> length payload"
  obtains (refused) s' c' where "client_queue_message e ty sq ts payload n droppable (s, c) = Some (False, s', c')"
      and "server_same s s'" and "queue_only c c'" and "queue_inv s' c'"
    | (dropped) s' now where "droppable"
      and "client_queue_message e ty sq ts payload n droppable (s, c) = Some (True, s', dropped now c)"
      and "server_same s s'" and "queue_inv s' (dropped now c)" and "c_active c"
    | (sent) s' c' where "client_queue_message e ty sq ts payload n droppable (s, c) = Some (True, s', c')"
      and "server_same s s'" and "sent (message_bytes ty sq ts (take n payload)) c c'" and "queue_inv s' c'"
      and "Suc (free_slots s' c') = free_slots s c" and "c_active c"
proof -
  let ?run = "client_queue_message e ty sq ts payload n droppable (s, c)"
  note R = refused and D = dropped and S = sent
  note called_inv = queue_inv_same [OF server_same_called, THEN iffD2]
  show thesis
  proof (cases "\<not> c_active c \<or> n > ROADCAST_MAX_PAYLOAD \<or> ROADCAST_HEADER_SIZE + n > CLIENT_MESSAGE_CAP")
    case True
    with inv show thesis
      by (intro R [of s c]) (auto simp: client_queue_message_def)
  next
    case False
    then have ok: "c_active c" "32 + n \<le> CLIENT_MESSAGE_CAP" by auto
    have inv1: "queue_inv (called s) c"
      using inv by (rule called_inv)
    let ?over = "queue_overflow e droppable (called s, c)"
    have overflow: thesis if run: "?run = ?over"
    proof (cases rule: queue_overflow_cases [of droppable e "called s" c])
      case refused
      with run inv1 show ?thesis by (intro R [of "called s" c]) auto
    next
      case (dropped s' now)
      then have "server_same s s'"
        using server_same_called server_same_trans by blast
      with dropped run inv inv1 ok show ?thesis
        by (intro D [of s' now]) (auto simp: queue_inv_same)
    qed
    show thesis
    proof (cases rule: find_output_slot_cases [OF inv1])
      case (1 i)
      note slot = 1
      let ?full = "c_pending_bytes c + (32 + n) > queue_byte_limit (called s) \<or>
        e_write_queue_size e (s_calls s) + (32 + n) > queue_byte_limit (called s)"
      have run: "?run = (if ?full then ?over else queue_write e i ty sq ts payload n (called s, c))"
        using False 1 by (simp add: client_queue_message_def uv_stream_get_write_queue_size_def Let_def)
      show thesis
      proof (cases ?full)
        case True
        with run overflow show thesis by presburger
      next
        case full: False
        let ?s = "called (called s)"
        have same: "server_same s ?s"
          using server_same_called server_same_trans by blast
        show thesis
        proof (cases rule: queue_write_cases [OF inv1 slot(2) slot(4) ok(2) payload, of e ty sq ts])
          case (1 data)
          let ?c = "c\<lparr>c_output := (c_output c)[i := \<lparr>o_length = 0, o_in_use = False, o_data = data\<rparr>]\<rparr>"
          have "queue_inv (called s) (?c\<lparr>c_pending_bytes := c_pending_bytes c + 0\<rparr>)"
            using queue_inv_update [OF inv1 slot(2) slot(4), of "\<lparr>o_length = 0, o_in_use = False, o_data = data\<rparr>"] 1(2)
            by (simp add: slot_wf_def)
          then have "queue_inv ?s ?c"
            by (simp add: queue_inv_def called_def)
          with 1 run full same show thesis
            by (intro R [of ?s ?c]) (auto simp: queue_only_def)
        next
          case (2 data)
          let ?slot = "\<lparr>o_length = 32 + n, o_in_use = True, o_data = data\<rparr>"
          let ?c = "c\<lparr>c_output := (c_output c)[i := ?slot], c_pending_bytes := c_pending_bytes c + (32 + n),
             c_stream := c_stream c @ [message_bytes ty sq ts (take n payload)]\<rparr>"
          have "queue_inv (called s) (c\<lparr>c_output := (c_output c)[i := ?slot],
              c_pending_bytes := c_pending_bytes c + (32 + n)\<rparr>)"
            using queue_inv_update [OF inv1 slot(2) slot(4), of ?slot] 2(2) ok(2) by (simp add: slot_wf_def)
          then have "queue_inv ?s ?c"
            by (simp add: queue_inv_def called_def)
          moreover have "Suc (free_slots ?s ?c) = free_slots s c"
            using free_slots_use [of i "called s" c ?slot] slot(2-4) by (simp add: free_slots_def called_def)
          ultimately show thesis
            using 2 run full same ok(1) by (intro S [of ?s ?c]) (auto simp: sent_def)
        qed
      qed
    next
      case 2
      then have "?run = ?over"
        using False by (simp add: client_queue_message_def uv_stream_get_write_queue_size_def Let_def)
      then show thesis by (rule overflow)
    qed
  qed
qed

lemma has_capacity_run:
  assumes "queue_inv s c"
  obtains b where "client_has_output_capacity e (s, c) = Some (b, called s, c)" and "b \<Longrightarrow> 0 < free_slots s c"
proof -
  have inv1: "queue_inv (called s) c"
    using assms queue_inv_same [OF server_same_called] by blast
  show thesis
  proof (cases rule: find_output_slot_cases [OF inv1])
    case (1 i)
    have "c_output c ! i = take (unat (s_client_queue_slots s)) (c_output c) ! i"
      "i < length (take (unat (s_client_queue_slots s)) (c_output c))"
      using 1 by (simp_all add: called_def)
    then have "c_output c ! i \<in> set (take (unat (s_client_queue_slots s)) (c_output c))"
      by (metis nth_mem)
    with 1 have "0 < free_slots s c"
      by (auto simp: free_slots_def filter_empty_conv)
    with 1 that show thesis
      by (simp add: client_has_output_capacity_def uv_stream_get_write_queue_size_def Let_def)
  next
    case 2
    with that [of False] show thesis
      by (simp add: client_has_output_capacity_def uv_stream_get_write_queue_size_def Let_def)
  qed
qed

text \<open>The byte count never falls short of a slot, so the guard of \<^verbatim>\<open>on_client_write\<close> never clamps.\<close>

lemma pending_covers:
  assumes "queue_inv s c" and "i < length (c_output c)"
  shows "o_length (c_output c ! i) \<le> c_pending_bytes c"
  using assms by (auto simp: queue_inv_def intro!: member_le_sum_list)

lemma release_slot_run:
  assumes inv: "queue_inv s c" and i: "i < length (c_output c)"
  obtains c' where "release_slot i c = Some c'" and "queue_only c c'" and "queue_inv s c'"
    and "c_pending_bytes c = c_pending_bytes c' + o_length (c_output c ! i)"
    and "free_slots s c' = free_slots s c + (if o_in_use (c_output c ! i) then 1 else 0)"
proof -
  let ?slot = "c_output c ! i" and ?n = "unat (s_client_queue_slots s)"
  let ?new = "?slot\<lparr>o_length := 0, o_in_use := False\<rparr>"
  let ?c = "c\<lparr>c_pending_bytes := c_pending_bytes c - o_length ?slot, c_output := (c_output c)[i := ?new]\<rparr>"
  have le: "o_length ?slot \<le> c_pending_bytes c"
    by (rule pending_covers [OF assms])
  have run: "release_slot i c = Some ?c"
    using i le by (simp add: release_slot_def rd_Some)
  have "sum_list (map o_length ((c_output c)[i := ?new])) + o_length ?slot = sum_list (map o_length (c_output c))"
    using sum_list_update_nat [of i "map o_length (c_output c)" 0] i by (simp add: map_update)
  moreover have "slot_wf ?slot"
    by (rule queue_inv_slot [OF inv i])
  ultimately have "queue_inv s ?c"
    using inv i le by (auto simp: queue_inv_def list_all_length nth_list_update slot_wf_def split: if_splits)
  moreover have "free_slots s ?c = free_slots s c + (if o_in_use ?slot then 1 else 0)"
  proof (cases "o_in_use ?slot")
    case True
    have used: "i < ?n"
    proof (rule ccontr)
      assume "\<not> i < ?n"
      then have "drop ?n (c_output c) ! (i - ?n) = ?slot" "i - ?n < length (drop ?n (c_output c))"
        using i by simp_all
      with True inv show False
        unfolding queue_inv_def list_all_length by metis
    qed
    have "Suc (free_slots s (?c\<lparr>c_output := (c_output ?c)[i := ?slot]\<rparr>)) = free_slots s ?c"
      by (rule free_slots_use) (use used i True in auto)
    moreover have "free_slots s (?c\<lparr>c_output := (c_output ?c)[i := ?slot]\<rparr>) = free_slots s c"
      by (rule free_slots_cong) simp
    ultimately show ?thesis using True by simp
  next
    case False
    then have "?new = ?slot"
      using slot_wf_free [OF queue_inv_slot [OF inv i]] by (metis (full_types) output_slot.surjective output_slot.update_convs(1,2))
    then show ?thesis using False by (simp add: free_slots_def)
  qed
  ultimately show thesis
    using that [OF run] le by (auto simp: queue_only_def)
qed

lemma client_close_simps [simp]:
  "c_output (client_close c) = c_output c" "c_pending_bytes (client_close c) = c_pending_bytes c"
  "c_stream (client_close c) = c_stream c" "queue_inv s (client_close c) = queue_inv s c"
  "\<not> c_active (client_close c) \<or> c_closing c"
  by (auto simp: client_close_def queue_inv_def)

lemma maybe_queue_resync_run:
  assumes inv: "queue_inv s c"
  obtains (quiet) "maybe_queue_resync e (s, c) = Some (s, c)"
    | (closed) s' c' where "maybe_queue_resync e (s, c) = Some (s', client_close c')" and "server_same s s'"
      and "queue_only c c'" and "queue_inv s' c'"
    | (queued) s' c' where "maybe_queue_resync e (s, c) = Some (s', c'\<lparr>c_resync_queued := True\<rparr>)"
      and "server_same s s'" and "queue_inv s' c'" and "c_needs_resync c" and "c_greeted c"
      and "sent (message_bytes ROADCAST_MSG_RESYNC_REQUIRED (s_change_sequence s) (s_sample_timestamp_ns s) []) c c'"
proof (cases "\<not> c_active c \<or> \<not> c_greeted c \<or> \<not> c_needs_resync c \<or> c_resync_queued c \<or> c_pending_bytes c \<noteq> 0")
  case True
  then show thesis
    by (intro quiet) (simp add: maybe_queue_resync_def)
next
  case False
  note Q = quiet and C = closed and S = queued
  show thesis
  proof (cases rule: queue_message_cases [OF inv, of 0 "[]" e ROADCAST_MSG_RESYNC_REQUIRED
        "s_change_sequence s" "s_sample_timestamp_ns s" False])
    case (2 s' c')
    with False show thesis
      by (intro C [of s' c']) (auto simp: maybe_queue_resync_def)
  next
    case (4 s' c')
    with False show thesis
      by (intro S [of s' c']) (auto simp: maybe_queue_resync_def)
  qed auto
qed

section \<open>A peer that takes everything\<close>

text \<open>Writes succeed and nothing piles up in libuv.\<close>

definition accepting :: "env \<Rightarrow> bool" where
  "accepting e \<longleftrightarrow> (\<forall>k. 0 \<le> e_uv_write e k \<and> e_write_queue_size e k = 0)"

lemma accepting_capacity:
  assumes acc: "accepting e" and inv: "queue_inv s c" and free: "0 < free_slots s c"
  shows "client_has_output_capacity e (s, c) = Some (True, called s, c)"
proof -
  have inv1: "queue_inv (called s) c" and free1: "0 < free_slots (called s) c"
    using inv free queue_inv_same [OF server_same_called] free_slots_same [OF server_same_called] by auto
  have "c_pending_bytes c + 2048 \<le> queue_byte_limit (called s)"
    using pending_bound [OF inv1] free1 by (cases "free_slots (called s) c") auto
  moreover obtain i where "find_output_slot (called s, c) = Some (Some i)"
    using find_output_slot_cases [OF inv1] free1 by (metis less_numeral_extra(3))
  ultimately show ?thesis
    using acc by (simp add: client_has_output_capacity_def uv_stream_get_write_queue_size_def accepting_def)
qed

lemma accepting_sends:
  assumes acc: "accepting e" and inv: "queue_inv s c" and free: "0 < free_slots s c" and act: "c_active c" and n: "n \<le> 2016"
  shows "client_queue_message e ty sq ts p n d (s, c) \<noteq> Some (False, sc')"
proof -
  have inv1: "queue_inv (called s) c" and free1: "0 < free_slots (called s) c"
    using inv free queue_inv_same [OF server_same_called] free_slots_same [OF server_same_called] by auto
  have "c_pending_bytes c + 2048 \<le> queue_byte_limit (called s)"
    using pending_bound [OF inv1] free1 by (cases "free_slots (called s) c") auto
  moreover obtain i where "find_output_slot (called s, c) = Some (Some i)"
    using find_output_slot_cases [OF inv1] free1 by (metis less_numeral_extra(3))
  moreover have "\<not> e_uv_write e k < 0" "e_write_queue_size e k = 0" for k
    using acc by (auto simp: accepting_def not_less)
  ultimately show ?thesis
    using act n
    by (auto simp: client_queue_message_def uv_stream_get_write_queue_size_def queue_write_def Let_def
        split: Option.bind_splits)
qed

end
