(* ===== verification/Daemon_Session.thy ===== *)
theory Daemon_Session
  imports Daemon_Queue
begin

text \<open>
  A connection's session with the daemon, \<^verbatim>\<open>src/roadcastd.c\<close>: the frozen snapshot and its paging, the catch-up
  rounds between snapshot and live stream, schema chunks, the command dispatcher and the input parser.
  Loops: the catch-up loop is \<open>drive_loop\<close> over the step \<open>drive_step\<close>, the parser \<open>input_loop\<close> over
  \<open>input_step\<close>; both are total functions with termination proofs.  The catalogue is an argument
  (\<open>sigs\<close>, \<open>schema_hash\<close>).
\<close>

abbreviation (input) PAYLOAD_CAP :: nat where "PAYLOAD_CAP \<equiv> CLIENT_MESSAGE_CAP - ROADCAST_HEADER_SIZE"

section \<open>Snapshots\<close>

definition begin_snapshot :: "env \<Rightarrow> conn \<Rightarrow> conn" where
  "begin_snapshot e = (\<lambda>(s, c). let (now, s') = monotonic_ns e s in
     (s', c\<lparr>c_snapshot_frames := s_frames s, c_snapshot_signals := s_signals s,
       c_snapshot_sample_sequence := s_sample_sequence s, c_snapshot_change_sequence := s_change_sequence s,
       c_snapshot_timestamp_ns := s_sample_timestamp_ns s, c_snapshot_next_frame_index := 0,
       c_snapshot_next_index := 0, c_snapshot_active := True, c_snapshot_frames_complete := False,
       c_snapshot_complete := False, c_setup_deadline_ns := now + SETUP_TIMEOUT_NS,
       c_needs_resync := False, c_resync_queued := False\<rparr>))"

text \<open>The bookkeeping after a page has been queued.\<close>

definition advance_frames :: "nat \<Rightarrow> client \<Rightarrow> client" where
  "advance_frames count c = (let c = c\<lparr>c_snapshot_next_frame_index := c_snapshot_next_frame_index c + of_nat count\<rparr> in
     if c_snapshot_next_frame_index c = of_nat ROADCAST_FRAME_COUNT then c\<lparr>c_snapshot_frames_complete := True\<rparr> else c)"

definition advance_signals :: "nat \<Rightarrow> client \<Rightarrow> client" where
  "advance_signals count c = (let c = c\<lparr>c_snapshot_next_index := c_snapshot_next_index c + of_nat count\<rparr> in
     if c_snapshot_next_index c = of_nat ROADCAST_SIGNAL_COUNT
     then c\<lparr>c_snapshot_active := False, c_snapshot_complete := True\<rparr> else c)"

definition queue_frame_snapshot_chunk :: "env \<Rightarrow> u32 \<Rightarrow> conn \<Rightarrow> (bool \<times> conn) option" where
  "queue_frame_snapshot_chunk e start_index sc =
    (let (s, c) = (if start_index = 0 \<and> \<not> c_snapshot_active (snd sc) then begin_snapshot e sc else sc) in
     if \<not> c_snapshot_active c \<or> c_snapshot_frames_complete c \<or> start_index \<noteq> c_snapshot_next_frame_index c \<or>
        unat start_index \<ge> ROADCAST_FRAME_COUNT
     then Some (False, s, c)
     else do {
       let count = min (ROADCAST_FRAME_COUNT - unat start_index) FRAMES_PER_MESSAGE;
       (len, payload) \<leftarrow> roadcast_encode_frame_batch (replicate PAYLOAD_CAP 0) PAYLOAD_CAP
         (c_snapshot_sample_sequence c) (of_nat ROADCAST_FRAME_COUNT) start_index
         (drop (unat start_index) (c_snapshot_frames c)) None count;
       if len = 0 then Some (False, s, c)
       else do {
         (ok, s, c) \<leftarrow> client_queue_message e ROADCAST_MSG_SNAPSHOT (c_snapshot_change_sequence c)
           (c_snapshot_timestamp_ns c) payload len False (s, c);
         if \<not> ok then Some (False, s, c)
         else Some (True, s, advance_frames count c) } })"

definition queue_signal_snapshot_chunk :: "env \<Rightarrow> u32 \<Rightarrow> conn \<Rightarrow> (bool \<times> conn) option" where
  "queue_signal_snapshot_chunk e start_index = (\<lambda>(s, c).
     if \<not> c_snapshot_active c \<or> \<not> c_snapshot_frames_complete c \<or> start_index \<noteq> c_snapshot_next_index c \<or>
        unat start_index \<ge> ROADCAST_SIGNAL_COUNT
     then Some (False, s, c)
     else do {
       let count = min (ROADCAST_SIGNAL_COUNT - unat start_index) SIGNALS_PER_MESSAGE;
       let indices = map (\<lambda>i. start_index + of_nat i) [0..<count];
       (len, payload) \<leftarrow> roadcast_encode_signal_batch (replicate PAYLOAD_CAP 0) PAYLOAD_CAP
         (c_snapshot_sample_sequence c) (of_nat ROADCAST_SIGNAL_COUNT) start_index
         (c_snapshot_signals c) (Some indices) count;
       if len = 0 then Some (False, s, c)
       else do {
         (ok, s, c) \<leftarrow> client_queue_message e ROADCAST_MSG_SIGNAL_SNAPSHOT_CHUNK (c_snapshot_change_sequence c)
           (c_snapshot_timestamp_ns c) payload len False (s, c);
         if \<not> ok then Some (False, s, c)
         else Some (True, s, advance_signals count c) } })"

definition queue_schema_chunk ::
    "env \<Rightarrow> roadcast_signal_definition list \<Rightarrow> u64 \<Rightarrow> u32 \<Rightarrow> conn \<Rightarrow> (bool \<times> conn) option" where
  "queue_schema_chunk e sigs schema_hash start_index = (\<lambda>(s, c). do {
     (len, encoded_count, payload) \<leftarrow>
       roadcast_encode_schema_chunk sigs schema_hash (replicate PAYLOAD_CAP 0) PAYLOAD_CAP start_index;
     if len = 0 \<or> encoded_count = 0 then Some (False, s, c)
     else client_queue_message e ROADCAST_MSG_SCHEMA_CHUNK (s_change_sequence s) (s_sample_timestamp_ns s)
       payload len False (s, c) })"

section \<open>Catch-up\<close>

definition signal_differs :: "roadcast_signal_value \<Rightarrow> roadcast_signal_value \<Rightarrow> bool" where
  "signal_differs a b \<longleftrightarrow> sv_raw a \<noteq> sv_raw b \<or> sv_state a \<noteq> sv_state b \<or>
     sv_first_observed_ns a \<noteq> sv_first_observed_ns b \<or> sv_last_change_ns a \<noteq> sv_last_change_ns b"

definition frame_differs :: "roadcast_frame \<Rightarrow> roadcast_frame \<Rightarrow> bool" where
  "frame_differs a b \<longleftrightarrow> f_state a \<noteq> f_state b \<or> f_data a \<noteq> f_data b"

text \<open>
  The scan of two arrays that collects the indices at which they differ into a fixed index array:
  \<^verbatim>\<open>indices[count++] = (type)i\<close>.
\<close>

definition collect_changed ::
    "('a \<Rightarrow> 'a \<Rightarrow> bool) \<Rightarrow> nat \<Rightarrow> 'a list \<Rightarrow> 'a list \<Rightarrow> ('w :: len) word list
      \<Rightarrow> ('w word list \<times> nat) option" where
  "collect_changed differs n xs ys indices = for_loop 0 n (\<lambda>i (indices, count). do {
     x \<leftarrow> rd xs i;
     y \<leftarrow> rd ys i;
     if differs x y then do {
       indices \<leftarrow> poke count [of_nat i] indices;
       Some (indices, count + 1) }
     else Some (indices, count) }) (indices, 0)"

definition next_round :: "server \<Rightarrow> u16 list \<Rightarrow> nat \<Rightarrow> u32 list \<Rightarrow> nat \<Rightarrow> client \<Rightarrow> client" where
  "next_round s frame_indices frame_count signal_indices signal_count c =
     c\<lparr>c_catchup_frame_indices := frame_indices, c_catchup_frame_count := frame_count,
       c_catchup_frame_offset := 0, c_catchup_signal_indices := signal_indices,
       c_catchup_signal_count := signal_count, c_catchup_signal_offset := 0,
       c_snapshot_frames := s_frames s, c_snapshot_signals := s_signals s,
       c_catchup_sample_sequence := s_sample_sequence s, c_catchup_change_sequence := s_change_sequence s,
       c_catchup_timestamp_ns := s_sample_timestamp_ns s\<rparr>"

definition begin_catchup_round :: "conn \<Rightarrow> conn option" where
  "begin_catchup_round = (\<lambda>(s, c). do {
     (frame_indices, frame_count) \<leftarrow> collect_changed frame_differs ROADCAST_FRAME_COUNT
       (s_frames s) (c_snapshot_frames c) (c_catchup_frame_indices c);
     (signal_indices, signal_count) \<leftarrow> collect_changed signal_differs ROADCAST_SIGNAL_COUNT
       (s_signals s) (c_snapshot_signals c) (c_catchup_signal_indices c);
     Some (s, next_round s frame_indices frame_count signal_indices signal_count c) })"

definition send_catchup_frames :: "env \<Rightarrow> conn \<Rightarrow> (bool \<times> conn) option" where
  "send_catchup_frames e = (\<lambda>(s, c). do {
     let count = min (c_catchup_frame_count c - c_catchup_frame_offset c) FRAMES_PER_MESSAGE;
     (len, payload) \<leftarrow> roadcast_encode_frame_batch (replicate PAYLOAD_CAP 0) PAYLOAD_CAP
       (c_catchup_sample_sequence c) (of_nat ROADCAST_FRAME_COUNT) UINT32_MAX (c_snapshot_frames c)
       (Some (drop (c_catchup_frame_offset c) (c_catchup_frame_indices c))) count;
     if len = 0 then Some (False, s, c)
     else do {
       (ok, s, c) \<leftarrow> client_queue_message e ROADCAST_MSG_UPDATE_BATCH (c_catchup_change_sequence c)
         (c_catchup_timestamp_ns c) payload len False (s, c);
       if \<not> ok then Some (False, s, c)
       else Some (True, s, c\<lparr>c_catchup_frame_offset := c_catchup_frame_offset c + count\<rparr>) } })"

definition send_catchup_signals :: "env \<Rightarrow> conn \<Rightarrow> (bool \<times> conn) option" where
  "send_catchup_signals e = (\<lambda>(s, c). do {
     let count = min (c_catchup_signal_count c - c_catchup_signal_offset c) SIGNALS_PER_MESSAGE;
     (len, payload) \<leftarrow> roadcast_encode_signal_batch (replicate PAYLOAD_CAP 0) PAYLOAD_CAP
       (c_catchup_sample_sequence c) (of_nat ROADCAST_SIGNAL_COUNT) UINT32_MAX (c_snapshot_signals c)
       (Some (drop (c_catchup_signal_offset c) (c_catchup_signal_indices c))) count;
     if len = 0 then Some (False, s, c)
     else do {
       (ok, s, c) \<leftarrow> client_queue_message e ROADCAST_MSG_SIGNAL_UPDATE_BATCH (c_catchup_change_sequence c)
         (c_catchup_timestamp_ns c) payload len False (s, c);
       if \<not> ok then Some (False, s, c)
       else Some (True, s, c\<lparr>c_catchup_signal_offset := c_catchup_signal_offset c + count\<rparr>) } })"

text \<open>One turn of the loop of \<^verbatim>\<open>drive_subscription_catchup\<close>: go round again, return -1, or leave the loop.\<close>

datatype turn = Again | Abort | Leave

definition drive_step :: "env \<Rightarrow> conn \<Rightarrow> (turn \<times> conn) option" where
  "drive_step e = (\<lambda>(s, c).
     if \<not> c_active c \<or> \<not> c_catchup_active c then Some (Leave, s, c)
     else do {
       (capacity, s, c) \<leftarrow> client_has_output_capacity e (s, c);
       if \<not> capacity then Some (Leave, s, c)
       else if c_catchup_frame_offset c < c_catchup_frame_count c then do {
         (ok, s, c) \<leftarrow> send_catchup_frames e (s, c);
         Some (if ok then Again else Abort, s, c) }
       else if c_catchup_signal_offset c < c_catchup_signal_count c then do {
         (ok, s, c) \<leftarrow> send_catchup_signals e (s, c);
         Some (if ok then Again else Abort, s, c) }
       else do {
         (s, c) \<leftarrow> begin_catchup_round (s, c);
         if c_catchup_frame_count c \<noteq> 0 \<or> c_catchup_signal_count c \<noteq> 0 then Some (Again, s, c)
         else do {
           (ok, s, c) \<leftarrow> client_queue_message e ROADCAST_MSG_SUBSCRIBED (s_change_sequence s)
             (s_sample_timestamp_ns s) [] 0 False (s, c);
           if \<not> ok then Some (Abort, s, c)
           else Some (Again, s, c\<lparr>c_catchup_active := False, c_subscribed := True, c_setup_deadline_ns := 0\<rparr>) } } })"

section \<open>The catch-up loop\<close>

lemma find_slot_SomeD:
  "find_slot outs i n = Some (Some j) \<Longrightarrow> i \<le> j \<and> j < i + n \<and> j < length outs \<and> \<not> o_in_use (outs ! j)"
  by (induction outs i n rule: find_slot.induct)
    (auto split: if_splits Option.bind_splits dest!: rd_SomeD)

text \<open>A message that must not be dropped and was accepted took a free slot; nothing else of the session changed.\<close>

lemma queue_message_accepted:
  assumes "client_queue_message e ty sq ts payload n False (s, c) = Some (True, s', c')"
  shows "Suc (free_slots s' c') = free_slots s c" and "server_same s s'" and "\<exists>msg. sent msg c c'"
proof -
  obtain i where i: "find_output_slot (called s, c) = Some (Some i)"
    and w: "queue_write e i ty sq ts payload n (called s, c) = Some (True, s', c')"
    using assms
    by (auto simp: client_queue_message_def uv_stream_get_write_queue_size_def queue_overflow_def Let_def
        split: if_splits Option.bind_splits option.splits)
  have free: "i < unat (s_client_queue_slots s)" "i < length (c_output c)" "\<not> o_in_use (c_output c ! i)"
    using i by (auto simp: find_output_slot_def called_def dest: find_slot_SomeD)
  obtain data msg where s': "s' = called (called s)"
    and c': "c' = c\<lparr>c_output := (c_output c)[i := \<lparr>o_length = 32 + n, o_in_use = True, o_data = data\<rparr>],
      c_pending_bytes := c_pending_bytes c + (32 + n), c_stream := c_stream c @ [msg]\<rparr>"
    using w by (auto simp: queue_write_def Let_def split: if_splits Option.bind_splits)
  let ?slot = "\<lparr>o_length = 32 + n, o_in_use = True, o_data = data\<rparr>"
  have "free_slots s' c' = free_slots s (c\<lparr>c_output := (c_output c)[i := ?slot]\<rparr>)"
    by (simp add: free_slots_def s' c' called_def)
  with free_slots_use [OF free, of ?slot] show "Suc (free_slots s' c') = free_slots s c"
    by simp
  show "server_same s s'"
    unfolding s' using server_same_called server_same_trans by blast
  show "\<exists>msg. sent msg c c'"
    unfolding c' by (auto simp: sent_def)
qed

definition catchup_pending :: "client \<Rightarrow> bool" where
  "catchup_pending c \<longleftrightarrow> c_catchup_frame_offset c < c_catchup_frame_count c
     \<or> c_catchup_signal_offset c < c_catchup_signal_count c"

definition drive_measure :: "conn \<Rightarrow> nat" where
  "drive_measure = (\<lambda>(s, c). if c_catchup_active c
     then 2 * free_slots s c + (if catchup_pending c then 1 else 2) else 0)"

lemma send_catchup_decreases:
  assumes "send_catchup_frames e (s, c) = Some (True, s', c') \<or> send_catchup_signals e (s, c) = Some (True, s', c')"
    and "c_catchup_active c" and "catchup_pending c"
  shows "drive_measure (s', c') < drive_measure (s, c)"
proof -
  obtain ty sq ts p n c1 where q: "client_queue_message e ty sq ts p n False (s, c) = Some (True, s', c1)"
    and c': "c_output c' = c_output c1" "c_catchup_active c' = c_catchup_active c1"
    using assms(1)
    by (auto simp: send_catchup_frames_def send_catchup_signals_def Let_def split: if_splits Option.bind_splits)
  have "free_slots s' c' = free_slots s' c1"
    by (rule free_slots_cong) (rule c')
  with queue_message_accepted(1) [OF q] queue_message_accepted(3) [OF q] assms(2,3) c'
  show ?thesis
    by (auto simp: drive_measure_def dest: sentD)
qed

lemma begin_catchup_round_same:
  assumes "begin_catchup_round (s, c) = Some (s', c')"
  shows "s' = s" and "c_output c' = c_output c" and "c_catchup_active c' = c_catchup_active c"
    and "c_catchup_frame_offset c' = 0" and "c_catchup_signal_offset c' = 0"
  using assms by (auto simp: begin_catchup_round_def next_round_def split: Option.bind_splits)

lemma has_capacity_same:
  assumes "client_has_output_capacity e (s, c) = Some (b, s', c')"
  shows "s' = called s" and "c' = c"
  using assms
  by (auto simp: client_has_output_capacity_def uv_stream_get_write_queue_size_def Let_def split: Option.bind_splits)

lemma drive_measure_called [simp]: "drive_measure (called s, c) = drive_measure (s, c)"
  by (simp add: drive_measure_def free_slots_def called_def)

lemma drive_step_decreases:
  assumes "drive_step e (s, c) = Some (Again, s', c')"
  shows "drive_measure (s', c') < drive_measure (s, c)"
proof -
  have act: "c_active c" "c_catchup_active c"
    using assms by (auto simp: drive_step_def split: if_splits)
  obtain b s1 c1 where cap: "client_has_output_capacity e (s, c) = Some (b, s1, c1)"
    using assms act by (auto simp: drive_step_def split: Option.bind_splits)
  note same = has_capacity_same [OF cap]
  consider (send) "catchup_pending c"
      "send_catchup_frames e (called s, c) = Some (True, s', c') \<or> send_catchup_signals e (called s, c) = Some (True, s', c')"
    | (round) "\<not> catchup_pending c" "begin_catchup_round (called s, c) = Some (s', c')"
        "c_catchup_frame_count c' \<noteq> 0 \<or> c_catchup_signal_count c' \<noteq> 0"
    | (subscribed) "\<not> c_catchup_active c'"
    using assms act cap same
    by (auto simp: drive_step_def catchup_pending_def split: if_splits Option.bind_splits)
  then show ?thesis
  proof cases
    case send
    with send_catchup_decreases [of e "called s" c s' c'] act show ?thesis by simp
  next
    case round
    note r = begin_catchup_round_same [OF round(2)]
    have "catchup_pending c'"
      using r(4,5) round(3) by (auto simp: catchup_pending_def)
    moreover have "free_slots s' c' = free_slots s c"
      using r(1,2) by (simp add: free_slots_def called_def)
    ultimately show ?thesis
      using round(1) act r(3) by (simp add: drive_measure_def)
  next
    case subscribed
    with act show ?thesis by (simp add: drive_measure_def)
  qed
qed

function drive_loop :: "env \<Rightarrow> conn \<Rightarrow> (bool \<times> conn) option" where
  "drive_loop e sc = (case drive_step e sc of
     None \<Rightarrow> None
   | Some (Again, sc') \<Rightarrow> drive_loop e sc'
   | Some (Abort, sc') \<Rightarrow> Some (False, sc')
   | Some (Leave, sc') \<Rightarrow> Some (True, sc'))"
  by pat_completeness auto
termination
proof (relation "measure (drive_measure \<circ> snd)")
  fix e sc r t sc'
  assume "drive_step e sc = Some r" "(t, sc') = r" "t = Again"
  then show "((e, sc'), e, sc) \<in> measure (drive_measure \<circ> snd)"
    using drive_step_decreases by (cases sc; cases sc') auto
qed simp

declare drive_loop.simps [simp del]

definition drive_subscription_catchup :: "env \<Rightarrow> conn \<Rightarrow> (bool \<times> conn) option" where
  "drive_subscription_catchup e = (\<lambda>(s, c). do {
     (s, c) \<leftarrow> (if c_catchup_waiting_for_capacity c then do {
         (capacity, s, c) \<leftarrow> client_has_output_capacity e (s, c);
         Some (s, if capacity
           then c\<lparr>c_catchup_waiting_for_capacity := False, c_catchup_resumption_reported := True\<rparr> else c) }
       else Some (s, c));
     (ok, s, c) \<leftarrow> drive_loop e (s, c);
     if \<not> ok then Some (False, s, c)
     else if c_active c \<and> c_catchup_active c then do {
       (capacity, s, c) \<leftarrow> client_has_output_capacity e (s, c);
       Some (True, s, if \<not> capacity then c\<lparr>c_catchup_waiting_for_capacity := True\<rparr> else c) }
     else Some (True, s, c) })"

definition queue_subscription_catchup :: "env \<Rightarrow> conn \<Rightarrow> (bool \<times> conn) option" where
  "queue_subscription_catchup e = (\<lambda>(s, c). do {
     (s, c) \<leftarrow> begin_catchup_round (s, c\<lparr>c_catchup_active := True\<rparr>);
     drive_subscription_catchup e (s, c) })"

section \<open>Commands\<close>

definition welcome_of :: "u64 \<Rightarrow> server \<Rightarrow> welcome_fields" where
  "welcome_of schema_hash s = \<lparr>w_hz = s_hz s, w_frame_count = of_nat ROADCAST_FRAME_COUNT,
     w_signal_count = of_nat ROADCAST_SIGNAL_COUNT,
     w_max_request_payload = of_nat (CLIENT_INPUT_CAP - ROADCAST_HEADER_SIZE),
     w_max_response_payload = of_nat (CLIENT_MESSAGE_CAP - ROADCAST_HEADER_SIZE),
     w_capabilities = ROADCAST_CAP_RAW_CAN OR ROADCAST_CAP_DECODED_CAN,
     w_schema_version = ROADCAST_SCHEMA_VERSION, w_schema_hash = schema_hash\<rparr>"

definition process_hello :: "env \<Rightarrow> u64 \<Rightarrow> bytes \<Rightarrow> conn \<Rightarrow> (bool \<times> conn) option" where
  "process_hello e schema_hash payload = (\<lambda>(s, c).
     if c_greeted c then Some (False, s, c)
     else do {
       r \<leftarrow> roadcast_decode_hello payload;
       case r of
         Fail \<Rightarrow> Some (False, s, c)
       | Ok (min_version, max_version, capabilities) \<Rightarrow>
           if min_version > ROADCAST_PROTOCOL_VERSION \<or> max_version < ROADCAST_PROTOCOL_VERSION
           then Some (False, s, c)
           else do {
             (len, welcome) \<leftarrow> roadcast_encode_welcome (replicate ROADCAST_WELCOME_SIZE 0) (welcome_of schema_hash s);
             (ok, s, c) \<leftarrow> client_queue_message e ROADCAST_MSG_WELCOME (s_change_sequence s)
               (s_sample_timestamp_ns s) welcome len False (s, c);
             if \<not> ok then Some (False, s, c)
             else let (now, s) = monotonic_ns e s in
               Some (True, s, c\<lparr>c_greeted := True, c_hello_deadline_ns := 0,
                 c_setup_deadline_ns := now + SETUP_TIMEOUT_NS\<rparr>) } })"

text \<open>The three commands with a start index check the greeting, decode the index and go on.\<close>

definition index_command ::
    "bytes \<Rightarrow> (u32 \<Rightarrow> conn \<Rightarrow> (bool \<times> conn) option) \<Rightarrow> conn \<Rightarrow> (bool \<times> conn) option" where
  "index_command payload handle = (\<lambda>(s, c).
     if \<not> c_greeted c then Some (False, s, c)
     else do {
       r \<leftarrow> roadcast_decode_index_request payload;
       case r of Fail \<Rightarrow> Some (False, s, c) | Ok start_index \<Rightarrow> handle start_index (s, c) })"

definition process_command ::
    "env \<Rightarrow> roadcast_signal_definition list \<Rightarrow> u64 \<Rightarrow> roadcast_header \<Rightarrow> bytes \<Rightarrow> conn \<Rightarrow> (bool \<times> conn) option" where
  "process_command e sigs schema_hash header payload = (\<lambda>(s, c).
     if h_version header \<noteq> ROADCAST_PROTOCOL_VERSION \<or> h_flags header \<noteq> 0 then Some (False, s, c)
     else if h_type header = ROADCAST_MSG_HELLO then process_hello e schema_hash payload (s, c)
     else if h_type header = ROADCAST_MSG_GET_SNAPSHOT
     then index_command payload (queue_frame_snapshot_chunk e) (s, c)
     else if h_type header = ROADCAST_MSG_SUBSCRIBE_ALL
     then if \<not> c_greeted c \<or> h_payload_bytes header \<noteq> 0 \<or> c_needs_resync c \<or> \<not> c_snapshot_complete c
       then Some (False, s, c) else queue_subscription_catchup e (s, c)
     else if h_type header = ROADCAST_MSG_PING
     then if \<not> c_greeted c \<or> h_payload_bytes header \<noteq> 0 then Some (False, s, c)
       else client_queue_message e ROADCAST_MSG_PONG (s_change_sequence s) (s_sample_timestamp_ns s) [] 0 False (s, c)
     else if h_type header = ROADCAST_MSG_GET_SCHEMA
     then index_command payload (queue_schema_chunk e sigs schema_hash) (s, c)
     else if h_type header = ROADCAST_MSG_GET_SIGNAL_SNAPSHOT
     then index_command payload (queue_signal_snapshot_chunk e) (s, c)
     else Some (False, s, c))"

section \<open>Input\<close>

text \<open>
  One turn of the loop of \<^verbatim>\<open>process_client_input\<close>; \<open>consumed\<close> is the loop variable.  The payload a command
  sees is the slice of the input buffer that its header announces.
\<close>

definition input_step ::
    "env \<Rightarrow> roadcast_signal_definition list \<Rightarrow> u64 \<Rightarrow> nat \<Rightarrow> conn \<Rightarrow> (turn \<times> nat \<times> conn) option" where
  "input_step e sigs schema_hash consumed = (\<lambda>(s, c).
     if sub_size (c_input_length c) consumed < ROADCAST_HEADER_SIZE then Some (Leave, consumed, s, c)
     else do {
       hdr \<leftarrow> slice (c_input c) consumed ROADCAST_HEADER_SIZE;
       r \<leftarrow> roadcast_decode_header hdr;
       case r of
         Fail \<Rightarrow> Some (Abort, consumed, s, c)
       | Ok header \<Rightarrow>
           if unat (h_payload_bytes header) > CLIENT_INPUT_CAP - ROADCAST_HEADER_SIZE
           then Some (Abort, consumed, s, c)
           else do {
             let message_length = ROADCAST_HEADER_SIZE + unat (h_payload_bytes header);
             if sub_size (c_input_length c) consumed < message_length then Some (Leave, consumed, s, c)
             else do {
               payload \<leftarrow> slice (c_input c) (consumed + ROADCAST_HEADER_SIZE) (unat (h_payload_bytes header));
               (ok, s, c) \<leftarrow> process_command e sigs schema_hash header payload (s, c);
               Some (if ok then Again else Abort, if ok then consumed + message_length else consumed, s, c) } } })"

text \<open>No command touches the input buffer, opens or closes the connection, or changes its peer.\<close>

definition keeps_peer :: "client \<Rightarrow> client \<Rightarrow> bool" where
  "keeps_peer c c' \<longleftrightarrow> c_active c' = c_active c \<and> c_closing c' = c_closing c \<and> c_peer_uid c' = c_peer_uid c"

definition keeps_link :: "client \<Rightarrow> client \<Rightarrow> bool" where
  "keeps_link c c' \<longleftrightarrow> c_input c' = c_input c \<and> c_input_length c' = c_input_length c \<and> keeps_peer c c'"

lemma keeps_link_refl [simp]: "keeps_link c c"
  by (simp add: keeps_link_def keeps_peer_def)

lemma keeps_link_trans: "keeps_link c d \<Longrightarrow> keeps_link d f \<Longrightarrow> keeps_link c f"
  by (auto simp: keeps_link_def keeps_peer_def)

lemma keeps_link_advance [simp]:
  "keeps_link c (advance_frames n d) = keeps_link c d" "keeps_link c (advance_signals n d) = keeps_link c d"
  by (simp_all add: keeps_link_def keeps_peer_def advance_frames_def advance_signals_def Let_def)

lemma keeps_link_snapshot: "keeps_link c (snd (begin_snapshot e (s, c)))"
  by (simp add: keeps_link_def keeps_peer_def begin_snapshot_def monotonic_ns_def)

lemma queue_message_input:
  "client_queue_message e ty sq ts p n dr (s, c) = Some (r, s', c') \<Longrightarrow> keeps_link c c'"
  by (auto simp: client_queue_message_def queue_overflow_def queue_write_def monotonic_ns_def keeps_link_def keeps_peer_def
      uv_stream_get_write_queue_size_def Let_def split: if_splits Option.bind_splits option.splits)

lemma frame_chunk_input:
  assumes "queue_frame_snapshot_chunk e i (s, c) = Some (r, s', c')"
  shows "keeps_link c c'"
proof -
  obtain s1 c1 where start: "(if i = 0 \<and> \<not> c_snapshot_active c then begin_snapshot e (s, c) else (s, c)) = (s1, c1)"
    by (metis surj_pair)
  have "keeps_link c c1"
    using start keeps_link_snapshot [of c e s] by (auto split: if_splits)
  moreover have "keeps_link c1 c'"
    using assms start unfolding queue_frame_snapshot_chunk_def
    by (auto simp: Let_def split: if_splits Option.bind_splits dest!: queue_message_input)
  ultimately show ?thesis by (rule keeps_link_trans)
qed

lemma snapshot_chunks_input:
  "queue_signal_snapshot_chunk e i (s, c) = Some (r, s', c') \<Longrightarrow> keeps_link c c'"
  "queue_schema_chunk e sigs h i (s, c) = Some (r, s', c') \<Longrightarrow> keeps_link c c'"
  by (auto simp: queue_signal_snapshot_chunk_def queue_schema_chunk_def Let_def
      split: if_splits Option.bind_splits dest!: queue_message_input)

lemma catchup_input:
  "begin_catchup_round (s, c) = Some (s', c') \<Longrightarrow> keeps_link c c'"
  "send_catchup_frames e (s, c) = Some (r, s', c') \<Longrightarrow> keeps_link c c'"
  "send_catchup_signals e (s, c) = Some (r, s', c') \<Longrightarrow> keeps_link c c'"
  by (auto simp: begin_catchup_round_def next_round_def send_catchup_frames_def send_catchup_signals_def Let_def keeps_link_def keeps_peer_def
      split: if_splits Option.bind_splits dest!: queue_message_input [unfolded keeps_link_def keeps_peer_def])

lemma drive_step_input: "drive_step e (s, c) = Some (r, s', c') \<Longrightarrow> keeps_link c c'"
  by (auto simp: drive_step_def keeps_link_def keeps_peer_def split: if_splits Option.bind_splits
      dest!: has_capacity_same catchup_input [unfolded keeps_link_def keeps_peer_def] queue_message_input [unfolded keeps_link_def keeps_peer_def])

lemma drive_loop_input: "drive_loop e sc = Some (r, sc') \<Longrightarrow> keeps_link (snd sc) (snd sc')"
proof (induction e sc rule: drive_loop.induct)
  case (1 e sc)
  obtain t sc1 where t: "drive_step e sc = Some (t, sc1)"
    using "1.prems" by (subst (asm) drive_loop.simps) (auto split: option.splits)
  have "keeps_link (snd sc) (snd sc1)"
    using t drive_step_input by (cases sc; cases sc1) auto
  moreover have "(case t of Again \<Rightarrow> drive_loop e sc1 | Abort \<Rightarrow> Some (False, sc1) | Leave \<Rightarrow> Some (True, sc1)) = Some (r, sc')"
    using "1.prems" t by (subst (asm) drive_loop.simps) simp
  ultimately show ?case
    using "1.IH" [OF t refl] by (cases t) (auto intro: keeps_link_trans)
qed

lemma drive_catchup_input:
  "drive_subscription_catchup e (s, c) = Some (r, s', c') \<Longrightarrow> keeps_link c c'"
  "queue_subscription_catchup e (s, c) = Some (r, s', c') \<Longrightarrow> keeps_link c c'"
proof -
  show drive: "keeps_link c c'" if "drive_subscription_catchup e (s, c) = Some (r, s', c')" for r s c s' c'
    using that
    by (auto simp: drive_subscription_catchup_def keeps_link_def keeps_peer_def split: if_splits Option.bind_splits
        dest!: has_capacity_same drive_loop_input [unfolded keeps_link_def keeps_peer_def])
  show "queue_subscription_catchup e (s, c) = Some (r, s', c') \<Longrightarrow> keeps_link c c'"
    by (auto simp: queue_subscription_catchup_def split: Option.bind_splits
        dest!: drive catchup_input(1) simp: keeps_link_def keeps_peer_def)
qed

lemma process_command_input:
  assumes "process_command e sigs h header payload (s, c) = Some (r, s', c')"
  shows "keeps_link c c'"
proof -
  have "process_hello e h payload (s, c) = Some (r, s', c') \<Longrightarrow> keeps_link c c'"
    by (auto simp: process_hello_def monotonic_ns_def keeps_link_def keeps_peer_def
        split: if_splits Option.bind_splits ret.splits dest!: queue_message_input [unfolded keeps_link_def keeps_peer_def])
  moreover have index: "keeps_link c c'" if "index_command payload handle (s, c) = Some (r, s', c')"
      "\<And>i. handle i (s, c) = Some (r, s', c') \<Longrightarrow> keeps_link c c'" for handle
    using that by (auto simp: index_command_def split: if_splits Option.bind_splits ret.splits)
  moreover note index [OF _ frame_chunk_input] index [OF _ snapshot_chunks_input(1)]
    index [OF _ snapshot_chunks_input(2)]
  ultimately show ?thesis
    using assms queue_message_input [of e] drive_catchup_input(2) [of e]
    by (auto simp: process_command_def split: if_splits)
qed

lemma input_step_again:
  assumes "input_step e sigs h consumed (s, c) = Some (Again, consumed', s', c')"
  shows "consumed + 32 \<le> consumed'" and "keeps_link c c'" and "consumed' \<le> length (c_input c)"
  using assms
  by (auto simp: input_step_def Let_def slice_def split: if_splits Option.bind_splits ret.splits
      dest: process_command_input)

function input_loop ::
    "env \<Rightarrow> roadcast_signal_definition list \<Rightarrow> u64 \<Rightarrow> nat \<Rightarrow> conn \<Rightarrow> (bool \<times> nat \<times> conn) option" where
  "input_loop e sigs schema_hash consumed sc = (case input_step e sigs schema_hash consumed sc of
     None \<Rightarrow> None
   | Some (Again, consumed', sc') \<Rightarrow> input_loop e sigs schema_hash consumed' sc'
   | Some (Abort, consumed', sc') \<Rightarrow> Some (False, consumed', sc')
   | Some (Leave, consumed', sc') \<Rightarrow> Some (True, consumed', sc'))"
  by pat_completeness auto
termination
proof (relation "measure (\<lambda>(e, sigs, h, consumed, sc). length (c_input (snd sc)) - consumed)")
  fix e sigs h consumed sc r t q consumed' sc'
  assume "input_step e sigs h consumed sc = Some r" "(t, q) = r" "(consumed', sc') = q" "t = Again"
  then have "input_step e sigs h consumed (fst sc, snd sc) = Some (Again, consumed', fst sc', snd sc')"
    by auto
  from input_step_again [OF this]
  show "((e, sigs, h, consumed', sc'), e, sigs, h, consumed, sc)
      \<in> measure (\<lambda>(e, sigs, h, consumed, sc). length (c_input (snd sc)) - consumed)"
    by (auto simp: keeps_link_def)
qed simp

declare input_loop.simps [simp del]

definition process_client_input ::
    "env \<Rightarrow> roadcast_signal_definition list \<Rightarrow> u64 \<Rightarrow> conn \<Rightarrow> (bool \<times> conn) option" where
  "process_client_input e sigs schema_hash sc = do {
     (ok, consumed, s, c) \<leftarrow> input_loop e sigs schema_hash 0 sc;
     if \<not> ok then Some (False, s, c)
     else do {
       c \<leftarrow> (if consumed \<noteq> 0 then do {
           rest \<leftarrow> slice (c_input c) consumed (sub_size (c_input_length c) consumed);
           input \<leftarrow> poke 0 rest (c_input c);
           Some (c\<lparr>c_input := input, c_input_length := sub_size (c_input_length c) consumed\<rparr>) }
         else Some c);
       Some (c_input_length c \<noteq> length (c_input c), s, c) } }"

end
