(* ===== verification/Daemon_Session_Inv.thy ===== *)
theory Daemon_Session_Inv
  imports Daemon_Session
begin

text \<open>
  The invariant of a connection (\<open>conn_inv\<close>) and the proof that every session operation keeps it and runs
  without undefined behaviour.
\<close>

section \<open>The invariant\<close>

definition frames_wf :: "roadcast_frame list \<Rightarrow> bool" where
  "frames_wf fs \<longleftrightarrow> length fs = ROADCAST_FRAME_COUNT \<and> list_all frame_wf fs"

definition signals_wf :: "roadcast_signal_value list \<Rightarrow> bool" where
  "signals_wf vs \<longleftrightarrow> length vs = ROADCAST_SIGNAL_COUNT \<and> list_all value_wf vs"

text \<open>An index array of which the first \<open>count\<close> entries are in use, \<open>off\<close> of them already sent.\<close>

definition indices_wf :: "nat \<Rightarrow> ('w :: len) word list \<Rightarrow> nat \<Rightarrow> nat \<Rightarrow> bool" where
  "indices_wf n ix count off \<longleftrightarrow> length ix = n \<and> count \<le> n \<and> off \<le> count \<and> (\<forall>i < count. unat (ix ! i) < n)"

definition session_inv :: "client \<Rightarrow> bool" where
  "session_inv c \<longleftrightarrow> frames_wf (c_snapshot_frames c) \<and> signals_wf (c_snapshot_signals c)
     \<and> indices_wf ROADCAST_FRAME_COUNT (c_catchup_frame_indices c) (c_catchup_frame_count c) (c_catchup_frame_offset c)
     \<and> indices_wf ROADCAST_SIGNAL_COUNT (c_catchup_signal_indices c) (c_catchup_signal_count c) (c_catchup_signal_offset c)
     \<and> unat (c_snapshot_next_frame_index c) \<le> ROADCAST_FRAME_COUNT
     \<and> unat (c_snapshot_next_index c) \<le> ROADCAST_SIGNAL_COUNT
     \<and> length (c_input c) = CLIENT_INPUT_CAP \<and> c_input_length c \<le> CLIENT_INPUT_CAP
     \<and> (c_subscribed c \<or> c_snapshot_active c \<or> c_snapshot_complete c \<or> c_catchup_active c \<longrightarrow> c_greeted c)
     \<and> (c_snapshot_active c \<and> c_snapshot_frames_complete c \<longrightarrow> unat (c_snapshot_next_frame_index c) = ROADCAST_FRAME_COUNT)
     \<and> (c_resync_queued c \<longrightarrow> c_needs_resync c)
     \<and> \<not> (c_snapshot_active c \<and> c_snapshot_complete c)"

definition server_data_wf :: "server \<Rightarrow> bool" where
  "server_data_wf s \<longleftrightarrow> frames_wf (s_frames s) \<and> signals_wf (s_signals s)"

definition conn_inv :: "conn \<Rightarrow> bool" where
  "conn_inv = (\<lambda>(s, c). server_data_wf s \<and> queue_inv s c \<and> session_inv c)"

definition handler_ok :: "(conn \<Rightarrow> ('r \<times> conn) option) \<Rightarrow> conn \<Rightarrow> bool" where
  "handler_ok run sc \<longleftrightarrow> (\<exists>r sc'. run sc = Some (r, sc') \<and> server_same (fst sc) (fst sc') \<and> conn_inv sc')"

definition result_ok :: "server \<Rightarrow> ('r \<times> conn) option \<Rightarrow> bool" where
  "result_ok s res \<longleftrightarrow> (\<exists>r sc'. res = Some (r, sc') \<and> server_same s (fst sc') \<and> conn_inv sc')"

lemma result_ok_Some [simp]: "result_ok s (Some (r, s', c')) \<longleftrightarrow> server_same s s' \<and> conn_inv (s', c')"
  by (auto simp: result_ok_def)

lemma handler_ok_result: "handler_ok run (s, c) = result_ok s (run (s, c))"
  by (simp add: handler_ok_def result_ok_def)

lemma handler_okI: "run (s, c) = Some (r, s', c') \<Longrightarrow> server_same s s' \<Longrightarrow> conn_inv (s', c') \<Longrightarrow> handler_ok run (s, c)"
  by (auto simp: handler_ok_def)

lemma handler_okE:
  assumes "handler_ok run (s, c)"
  obtains r s' c' where "run (s, c) = Some (r, s', c')" and "server_same s s'" and "conn_inv (s', c')"
  using assms by (auto simp: handler_ok_def)

lemma conn_inv_same: "server_same s s' \<Longrightarrow> conn_inv (s', c) = conn_inv (s, c)"
  by (simp add: conn_inv_def server_data_wf_def server_sameD queue_inv_same)

lemma conn_inv_called [simp]: "conn_inv (called s, c) = conn_inv (s, c)"
  by (rule conn_inv_same) simp

lemma session_inv_queue_only: "queue_only c c' \<Longrightarrow> session_inv c' = session_inv c"
  by (subst queue_only_def [THEN iffD1]) (auto simp: session_inv_def)

lemma session_inv_sent: "sent msg c c' \<Longrightarrow> session_inv c' = session_inv c"
  by (subst sent_def [THEN iffD1]) (auto simp: session_inv_def)

lemma session_inv_dropped: "session_inv c \<Longrightarrow> session_inv (dropped now c)"
  by (simp add: session_inv_def dropped_def)

lemma session_inv_close [simp]: "session_inv (client_close c) = session_inv c"
  by (simp add: session_inv_def client_close_def)

lemma conn_inv_close [simp]: "conn_inv (s, client_close c) = conn_inv (s, c)"
  by (simp add: conn_inv_def)

text \<open>Queueing, for a client with the invariant: refused, dropped or sent.\<close>

lemma queue_conn_cases:
  assumes inv: "conn_inv (s, c)" and payload: "n \<le> length payload"
  obtains (refused) s' c' where "client_queue_message e ty sq ts payload n droppable (s, c) = Some (False, s', c')"
      and "server_same s s'" and "queue_only c c'" and "conn_inv (s', c')"
      and "n \<le> 2016 \<Longrightarrow> c_active c \<Longrightarrow> \<not> (accepting e \<and> 0 < free_slots s c)"
    | (dropped) s' now where "droppable"
      and "client_queue_message e ty sq ts payload n droppable (s, c) = Some (True, s', dropped now c)"
      and "server_same s s'" and "conn_inv (s', dropped now c)"
    | (sent) s' c' where "client_queue_message e ty sq ts payload n droppable (s, c) = Some (True, s', c')"
      and "server_same s s'" and "sent (message_bytes ty sq ts (take n payload)) c c'" and "conn_inv (s', c')"
      and "Suc (free_slots s' c') = free_slots s c"
proof -
  note R = refused and D = dropped and S = sent
  have q: "queue_inv s c" and i: "session_inv c" and d: "server_data_wf s"
    using inv by (auto simp: conn_inv_def)
  have d': "server_data_wf s'" if "server_same s s'" for s'
    using d that by (simp add: server_data_wf_def server_sameD)
  show thesis
  proof (cases rule: queue_message_cases [OF q payload, of e ty sq ts droppable])
    case (1 s' c')
    have "\<not> (accepting e \<and> 0 < free_slots s c)" if "n \<le> 2016" "c_active c"
      using accepting_sends [OF _ q _ that(2,1)] 1(1) by metis
    with 1 i d' show thesis
      by (intro R [of s' c']) (auto simp: conn_inv_def session_inv_queue_only)
  next
    case (2 s' now)
    with i d' show thesis
      by (intro D [of s' now]) (auto simp: conn_inv_def session_inv_dropped)
  next
    case (3 s' c')
    with i d' show thesis
      by (intro S [of s' c']) (auto simp: conn_inv_def session_inv_sent)
  qed
qed

lemma queue_message_ok:
  "conn_inv (s, c) \<Longrightarrow> n \<le> length payload \<Longrightarrow> handler_ok (client_queue_message e ty sq ts payload n droppable) (s, c)"
  by (rule queue_conn_cases [where e = e and ty = ty and sq = sq and ts = ts and droppable = droppable])
    (auto intro: handler_okI)

section \<open>Encoded payloads\<close>

text \<open>What the session layer sends fits the payload buffer, and its encoders run without undefined behaviour.\<close>

lemma frames_wf_nth: "frames_wf fs \<Longrightarrow> i < ROADCAST_FRAME_COUNT \<Longrightarrow> frame_wf (fs ! i)"
  by (simp add: frames_wf_def list_all_length)

lemma encode_frames_from:
  assumes "frames_wf fs" and "k + n \<le> ROADCAST_FRAME_COUNT" and "n \<le> FRAMES_PER_MESSAGE"
  shows "roadcast_encode_frame_batch (replicate 2016 0) 2016 sq tot start (drop k fs) None n
    = Some (20 + n * 28, batch_bytes frame_record_bytes sq tot start (take n (drop k fs))
        @ replicate (2016 - (20 + n * 28)) 0)"
proof -
  have sel: "selected_frames (drop k fs) None n = take n (drop k fs)"
    using assms by (auto intro!: nth_equalityI simp: selected_frames_def frames_wf_def)
  have "\<forall>f \<in> set (take n (drop k fs)). frame_wf f"
    using assms(1) by (auto simp: frames_wf_def list_all_iff dest: in_set_takeD in_set_dropD)
  then show ?thesis
    using assms by (subst encode_frame_batch_eq) (auto simp: sel indices_ok_def frames_wf_def)
qed

lemma encode_frames_indexed:
  assumes "frames_wf fs" and "indices_wf ROADCAST_FRAME_COUNT ix count off" and "off + n \<le> count"
    and "n \<le> FRAMES_PER_MESSAGE"
  shows "roadcast_encode_frame_batch (replicate 2016 0) 2016 sq tot start fs (Some (drop off ix)) n
    = Some (20 + n * 28, batch_bytes frame_record_bytes sq tot start (map (\<lambda>i. fs ! unat i) (take n (drop off ix)))
        @ replicate (2016 - (20 + n * 28)) 0)"
proof -
  have n: "off + n \<le> length ix"
    using assms(2,3) by (simp add: indices_wf_def)
  have sel: "selected_frames fs (Some (drop off ix)) n = map (\<lambda>i. fs ! unat i) (take n (drop off ix))"
    using n by (auto intro!: nth_equalityI simp: selected_frames_def)
  have ix: "unat (ix ! (off + i)) < 111" if "i < n" for i
    using assms(2,3) that by (simp add: indices_wf_def)
  have "\<forall>f \<in> set (map (\<lambda>i. fs ! unat i) (take n (drop off ix))). frame_wf f"
    using n ix frames_wf_nth [OF assms(1)] by (auto simp: in_set_conv_nth)
  then show ?thesis
    using assms n ix by (subst encode_frame_batch_eq) (auto simp: sel indices_ok_def frames_wf_def)
qed

lemma encode_signals_indexed:
  assumes "signals_wf vs" and "n \<le> length ix" and "\<And>i. i < n \<Longrightarrow> unat (ix ! i) < ROADCAST_SIGNAL_COUNT"
    and "n \<le> SIGNALS_PER_MESSAGE"
  shows "roadcast_encode_signal_batch (replicate 2016 0) 2016 sq tot start vs (Some ix) n
    = Some (20 + n * 40, batch_bytes signal_record_bytes sq tot start
          (map (\<lambda>i. \<lparr>su_index = i, su_value = vs ! unat i\<rparr>) (take n ix)) @ replicate (2016 - (20 + n * 40)) 0)"
proof -
  have sel: "selected_updates vs (Some ix) n = map (\<lambda>i. \<lparr>su_index = i, su_value = vs ! unat i\<rparr>) (take n ix)"
    using assms(2) by (auto intro!: nth_equalityI simp: selected_updates_def)
  show ?thesis
    using assms by (subst encode_signal_batch_eq) (auto simp: sel indices_ok_def signals_wf_def)
qed

lemma catchup_indices_drop:
  assumes "indices_wf m ix count off" and "off + n \<le> count"
  shows "n \<le> length (drop off ix)" and "\<And>i. i < n \<Longrightarrow> unat (drop off ix ! i) < m"
  using assms by (auto simp: indices_wf_def)

lemma length_batch_frames:
  assumes "frames_wf fs" and "k + n \<le> ROADCAST_FRAME_COUNT"
  shows "length (batch_bytes frame_record_bytes sq tot start (take n (drop k fs))) = 20 + n * 28"
  using assms by (subst length_frame_batch) (auto simp: frames_wf_def list_all_iff dest: in_set_takeD in_set_dropD)

section \<open>Snapshots\<close>

lemma begin_snapshot_inv:
  assumes "conn_inv (s, c)" and "c_greeted c" and "begin_snapshot e (s, c) = (s', c')"
  shows "server_same s s'" and "conn_inv (s', c')" and "c_snapshot_active c'"
proof -
  show same: "server_same s s'" "c_snapshot_active c'"
    using assms(3) by (auto simp: begin_snapshot_def monotonic_ns_def)
  have "queue_inv s' c' = queue_inv s c"
    using assms(3) by (auto simp: begin_snapshot_def monotonic_ns_def queue_inv_def called_def)
  moreover have "session_inv c'"
  proof -
    have "session_inv c" "server_data_wf s"
      using assms(1) by (simp_all add: conn_inv_def)
    moreover have "c' = snd (begin_snapshot e (s, c))"
      using assms(3) by simp
    ultimately show ?thesis
      using assms(2) by (simp add: begin_snapshot_def monotonic_ns_def server_data_wf_def session_inv_def)
  qed
  ultimately show "conn_inv (s', c')"
    using assms(1) same by (auto simp: conn_inv_def server_data_wf_def server_sameD)
qed

lemma conn_invD:
  assumes "conn_inv (s, c)"
  shows "queue_inv s c" "session_inv c" "server_data_wf s"
  using assms by (auto simp: conn_inv_def)

lemma conn_inv_update:
  assumes "conn_inv (s, c)" and "c_output c' = c_output c" and "c_pending_bytes c' = c_pending_bytes c"
    and "session_inv c'"
  shows "conn_inv (s, c')"
  using assms queue_inv_cong [OF assms(2,3), of s] by (simp add: conn_inv_def)

lemma unat_advance: "unat (a :: u32) + n < 2 ^ 32 \<Longrightarrow> unat (a + of_nat n) = unat a + n"
  by (subst unat_add_lem [THEN iffD1]) (auto simp: unat_of_nat_small)

lemma advance_frames_inv:
  assumes "conn_inv (s, c)" and "unat (c_snapshot_next_frame_index c) + n \<le> ROADCAST_FRAME_COUNT"
    and "\<not> c_snapshot_frames_complete c"
  shows "conn_inv (s, advance_frames n c)"
proof (rule conn_inv_update [OF assms(1)])
  have u: "unat (c_snapshot_next_frame_index c + of_nat n) = unat (c_snapshot_next_frame_index c) + n"
    using assms(2) by (intro unat_advance) simp
  have "c_snapshot_next_frame_index c + of_nat n = of_nat 111 \<Longrightarrow> unat (c_snapshot_next_frame_index c) + n = 111"
    unfolding u [symmetric] by simp
  then show "session_inv (advance_frames n c)"
    using conn_invD(2) [OF assms(1)] assms(2,3) u by (auto simp: session_inv_def advance_frames_def Let_def)
qed (simp_all add: advance_frames_def Let_def)

lemma advance_signals_inv:
  assumes "conn_inv (s, c)" and "unat (c_snapshot_next_index c) + n \<le> ROADCAST_SIGNAL_COUNT"
    and "c_snapshot_active c"
  shows "conn_inv (s, advance_signals n c)"
proof (rule conn_inv_update [OF assms(1)])
  have "unat (c_snapshot_next_index c + of_nat n) = unat (c_snapshot_next_index c) + n"
    using assms(2) by (intro unat_advance) simp
  then show "session_inv (advance_signals n c)"
    using conn_invD(2) [OF assms(1)] assms(2,3) by (auto simp: session_inv_def advance_signals_def Let_def)
qed (simp_all add: advance_signals_def Let_def)

definition frame_page :: "client \<Rightarrow> u32 \<Rightarrow> bytes" where
  "frame_page c start = message_bytes ROADCAST_MSG_SNAPSHOT (c_snapshot_change_sequence c) (c_snapshot_timestamp_ns c)
     (batch_bytes frame_record_bytes (c_snapshot_sample_sequence c) (of_nat ROADCAST_FRAME_COUNT) start
       (take (min (ROADCAST_FRAME_COUNT - unat start) FRAMES_PER_MESSAGE) (drop (unat start) (c_snapshot_frames c))))"

definition signal_page :: "client \<Rightarrow> u32 \<Rightarrow> bytes" where
  "signal_page c start = message_bytes ROADCAST_MSG_SIGNAL_SNAPSHOT_CHUNK (c_snapshot_change_sequence c)
     (c_snapshot_timestamp_ns c)
     (batch_bytes signal_record_bytes (c_snapshot_sample_sequence c) (of_nat ROADCAST_SIGNAL_COUNT) start
       (map (\<lambda>i. \<lparr>su_index = start + of_nat i, su_value = c_snapshot_signals c ! (unat start + i)\<rparr>)
         [0..<min (ROADCAST_SIGNAL_COUNT - unat start) SIGNALS_PER_MESSAGE]))"

text \<open>A frame page is sent from the frozen snapshot at the expected index, or nothing is sent.\<close>

lemma frame_chunk_run:
  fixes start :: u32
  assumes inv: "conn_inv (s0, c0)" and greeted: "c_greeted c0"
  defines "start_snapshot \<equiv> start = 0 \<and> \<not> c_snapshot_active c0"
  obtains (refused) s' c' where "queue_frame_snapshot_chunk e start (s0, c0) = Some (False, s', c')"
      and "server_same s0 s'" and "conn_inv (s', c')"
    | (page) s c s' c' where "(s, c) = (if start_snapshot then begin_snapshot e (s0, c0) else (s0, c0))"
      and "c_snapshot_active c" and "\<not> c_snapshot_frames_complete c" and "start = c_snapshot_next_frame_index c"
      and "unat start < ROADCAST_FRAME_COUNT"
      and "server_same s0 s'" and "sent (frame_page c start) c c'"
      and "queue_frame_snapshot_chunk e start (s0, c0) = Some (True, s',
        advance_frames (min (ROADCAST_FRAME_COUNT - unat start) FRAMES_PER_MESSAGE) c')"
      and "conn_inv (s', advance_frames (min (ROADCAST_FRAME_COUNT - unat start) FRAMES_PER_MESSAGE) c')"
proof -
  obtain s c where sc: "(s, c) = (if start_snapshot then begin_snapshot e (s0, c0) else (s0, c0))"
    by (metis surj_pair)
  have same0: "server_same s0 s" and inv1: "conn_inv (s, c)"
    using sc inv greeted begin_snapshot_inv [OF inv greeted, of e s c] by (auto split: if_splits)
  let ?bad = "\<not> c_snapshot_active c \<or> c_snapshot_frames_complete c \<or> start \<noteq> c_snapshot_next_frame_index c \<or>
        unat start \<ge> ROADCAST_FRAME_COUNT"
  let ?n = "min (ROADCAST_FRAME_COUNT - unat start) FRAMES_PER_MESSAGE"
  let ?p = "batch_bytes frame_record_bytes (c_snapshot_sample_sequence c) (of_nat 111) start
       (take ?n (drop (unat start) (c_snapshot_frames c)))"
  have sc': "(if start = 0 \<and> \<not> c_snapshot_active c0 then begin_snapshot e (s0, c0) else (s0, c0)) = (s, c)"
    using sc by (simp add: start_snapshot_def)
  show thesis
  proof (cases ?bad)
    case True
    with sc' same0 inv1 show thesis
      by (intro refused [of s c]) (auto simp: queue_frame_snapshot_chunk_def)
  next
    case False
    have wf: "frames_wf (c_snapshot_frames c)"
      using conn_invD(2) [OF inv1] by (simp add: session_inv_def)
    have fits: "unat start + ?n \<le> ROADCAST_FRAME_COUNT" "?n \<le> FRAMES_PER_MESSAGE"
      using False by auto
    note enc = encode_frames_from [OF wf fits, of "c_snapshot_sample_sequence c" "of_nat 111" start]
    have plen: "length ?p = 20 + ?n * 28"
      by (rule length_batch_frames [OF wf fits(1)])
    let ?pay = "?p @ replicate (2016 - (20 + ?n * 28)) 0"
    have le: "20 + ?n * 28 \<le> length ?pay" and tk: "take (20 + ?n * 28) ?pay = ?p"
      using plen by simp_all
    let ?run = "client_queue_message e ROADCAST_MSG_SNAPSHOT (c_snapshot_change_sequence c)
      (c_snapshot_timestamp_ns c) ?pay (20 + ?n * 28) False (s, c)"
    have run: "queue_frame_snapshot_chunk e start (s0, c0) = Option.bind ?run (\<lambda>(ok, s, c).
      if \<not> ok then Some (False, s, c) else Some (True, s, advance_frames ?n c))"
      unfolding queue_frame_snapshot_chunk_def using sc' False enc by (simp add: Let_def cong: if_cong)
    show thesis
    proof (cases rule: queue_conn_cases [OF inv1 le, of e ROADCAST_MSG_SNAPSHOT "c_snapshot_change_sequence c"
          "c_snapshot_timestamp_ns c" False])
      case (1 s' c')
      with run same0 server_same_trans show thesis
        by (intro refused [of s' c']) auto
    next
      case (3 s' c')
      have c': "c_snapshot_next_frame_index c' = start" "\<not> c_snapshot_frames_complete c'" "c_snapshot_active c'"
        using False by (auto simp: sentD [OF 3(3)])
      have "queue_frame_snapshot_chunk e start (s0, c0) = Some (True, s', advance_frames ?n c')"
        using run 3(1) by simp
      moreover have "conn_inv (s', advance_frames ?n c')"
        by (rule advance_frames_inv [OF 3(4)]) (use c' fits False in auto)
      moreover have "server_same s0 s'"
        using same0 3(2) by (rule server_same_trans)
      moreover have "sent (frame_page c start) c c'"
        using 3(3) tk by (simp add: frame_page_def)
      ultimately show thesis
        using False sc by (intro page [of s c s' c']) simp_all
    qed auto
  qed
qed

lemma signal_chunk_run:
  fixes start :: u32
  assumes inv: "conn_inv (s, c)"
  obtains (refused) s' c' where "queue_signal_snapshot_chunk e start (s, c) = Some (False, s', c')"
      and "server_same s s'" and "conn_inv (s', c')"
    | (page) s' c' where "c_snapshot_active c" and "c_snapshot_frames_complete c"
      and "start = c_snapshot_next_index c" and "unat start < ROADCAST_SIGNAL_COUNT"
      and "server_same s s'" and "sent (signal_page c start) c c'"
      and "queue_signal_snapshot_chunk e start (s, c) = Some (True, s',
        advance_signals (min (ROADCAST_SIGNAL_COUNT - unat start) SIGNALS_PER_MESSAGE) c')"
      and "conn_inv (s', advance_signals (min (ROADCAST_SIGNAL_COUNT - unat start) SIGNALS_PER_MESSAGE) c')"
proof (cases "\<not> c_snapshot_active c \<or> \<not> c_snapshot_frames_complete c \<or> start \<noteq> c_snapshot_next_index c \<or>
        unat start \<ge> ROADCAST_SIGNAL_COUNT")
  case True
  with inv show thesis
    by (intro refused [of s c]) (auto simp: queue_signal_snapshot_chunk_def)
next
  case False
  note R = refused and G = page
  let ?n = "min (ROADCAST_SIGNAL_COUNT - unat start) SIGNALS_PER_MESSAGE"
  let ?ix = "map (\<lambda>i. start + of_nat i) [0..<?n] :: u32 list"
  have wf: "signals_wf (c_snapshot_signals c)"
    using conn_invD(2) [OF inv] by (simp add: session_inv_def)
  have u: "unat (start + of_nat i) = unat start + i" if "i < ?n" for i
    using that False by (intro unat_advance) auto
  let ?us = "map (\<lambda>i. \<lparr>su_index = start + of_nat i, su_value = c_snapshot_signals c ! (unat start + i)\<rparr>) [0..<?n]"
  let ?p = "batch_bytes signal_record_bytes (c_snapshot_sample_sequence c) (of_nat 815) start ?us"
  have us: "map (\<lambda>i. \<lparr>su_index = i, su_value = c_snapshot_signals c ! unat i\<rparr>) (take ?n ?ix) = ?us"
    using u by (auto simp: take_map)
  have enc: "roadcast_encode_signal_batch (replicate 2016 0) 2016 (c_snapshot_sample_sequence c) (of_nat 815) start
      (c_snapshot_signals c) (Some ?ix) ?n = Some (20 + ?n * 40, ?p @ replicate (2016 - (20 + ?n * 40)) 0)"
    unfolding us [symmetric] by (rule encode_signals_indexed [OF wf]) (use u False in auto)
  have plen: "length ?p = 20 + ?n * 40"
    by (simp add: length_signal_batch)
  let ?pay = "?p @ replicate (2016 - (20 + ?n * 40)) 0"
  have le: "20 + ?n * 40 \<le> length ?pay" and tk: "take (20 + ?n * 40) ?pay = ?p"
    using plen by simp_all
  let ?run = "client_queue_message e ROADCAST_MSG_SIGNAL_SNAPSHOT_CHUNK (c_snapshot_change_sequence c)
    (c_snapshot_timestamp_ns c) ?pay (20 + ?n * 40) False (s, c)"
  have run: "queue_signal_snapshot_chunk e start (s, c) = Option.bind ?run (\<lambda>(ok, s, c).
    if \<not> ok then Some (False, s, c) else Some (True, s, advance_signals ?n c))"
    unfolding queue_signal_snapshot_chunk_def using False enc by (simp add: Let_def cong: if_cong)
  show thesis
  proof (cases rule: queue_conn_cases [OF inv le, of e ROADCAST_MSG_SIGNAL_SNAPSHOT_CHUNK
        "c_snapshot_change_sequence c" "c_snapshot_timestamp_ns c" False])
    case (1 s' c')
    with run show thesis
      by (intro R [of s' c']) auto
  next
    case (3 s' c')
    have c': "c_snapshot_next_index c' = start" "c_snapshot_active c'"
      using False by (auto simp: sentD [OF 3(3)])
    have "queue_signal_snapshot_chunk e start (s, c) = Some (True, s', advance_signals ?n c')"
      using run 3(1) by simp
    moreover have "conn_inv (s', advance_signals ?n c')"
      by (rule advance_signals_inv [OF 3(4)]) (use c' False in auto)
    moreover have "sent (signal_page c start) c c'"
      using 3(3) tk by (simp add: signal_page_def)
    ultimately show thesis
      using 3(2) False by (intro G [of s' c']) simp_all
  qed auto
qed

section \<open>Catch-up\<close>

definition changed_indices :: "('a \<Rightarrow> 'a \<Rightarrow> bool) \<Rightarrow> nat \<Rightarrow> 'a list \<Rightarrow> 'a list \<Rightarrow> nat list" where
  "changed_indices differs n xs ys = filter (\<lambda>i. differs (xs ! i) (ys ! i)) [0..<n]"

lemma length_changed: "length (changed_indices d n xs ys) \<le> n"
  unfolding changed_indices_def by (metis diff_zero length_filter_le length_upt)

lemma changed_less: "i \<in> set (changed_indices d n xs ys) \<Longrightarrow> i < n"
  by (simp add: changed_indices_def)

lemma collect_changed_run:
  fixes ix :: "'w :: len word list"
  assumes "length xs = n" and "length ys = n" and "length ix = n"
  obtains ix' where "collect_changed d n xs ys ix = Some (ix', length (changed_indices d n xs ys))"
    and "length ix' = n" and "take (length (changed_indices d n xs ys)) ix' = map of_nat (changed_indices d n xs ys)"
proof -
  let ?chg = "\<lambda>k. filter (\<lambda>i. d (xs ! i) (ys ! i)) [0..<k]"
  let ?I = "\<lambda>k (ix' :: 'w word list, count). length ix' = n \<and> count = length (?chg k) \<and> take count ix' = map of_nat (?chg k)"
  let ?body = "\<lambda>i (indices :: 'w word list, count). do {
     x \<leftarrow> rd xs i;
     y \<leftarrow> rd ys i;
     if d x y then do {
       indices \<leftarrow> poke count [of_nat i] indices;
       Some (indices, count + 1) }
     else Some (indices, count) }"
  have "\<exists>t. for_loop 0 n ?body (ix, 0) = Some t \<and> ?I (0 + n) t"
  proof (rule for_loop_invariant)
    show "?I 0 (ix, 0)"
      using assms by simp
  next
    fix k and t :: "'w word list \<times> nat"
    assume k: "k < 0 + n" and I: "?I k t"
    obtain ix1 count where t: "t = (ix1, count)" by (cases t)
    have "length (?chg k) \<le> k"
      by (metis diff_zero length_filter_le length_upt)
    with I t k assms show "\<exists>t'. ?body k t = Some t' \<and> ?I (Suc k) t'"
      by (auto simp: rd_Some poke_Some)
  qed
  then show thesis
    using that by (auto simp: collect_changed_def changed_indices_def)
qed

lemma indices_wf_changed:
  fixes ix :: "'w :: len word list"
  assumes "length ix = n" and "n \<le> 2 ^ LENGTH('w)"
    and "take (length (changed_indices d n xs ys)) ix = map of_nat (changed_indices d n xs ys)"
  shows "indices_wf n ix (length (changed_indices d n xs ys)) 0"
proof -
  let ?chg = "changed_indices d n xs ys"
  have "unat (ix ! i) < n" if "i < length ?chg" for i
  proof -
    have "ix ! i = take (length ?chg) ix ! i"
      using that by simp
    also have "\<dots> = of_nat (?chg ! i)"
      using that by (simp add: assms(3))
    finally have "ix ! i = of_nat (?chg ! i)" .
    moreover have "?chg ! i < n"
      using that by (metis changed_less nth_mem)
    ultimately show ?thesis
      using assms(2) by (simp add: unat_of_nat)
  qed
  then show ?thesis
    using assms(1) length_changed [of d n xs ys] by (simp add: indices_wf_def)
qed

lemma catchup_round_run:
  assumes inv: "conn_inv (s, c)"
  defines "fchg \<equiv> changed_indices frame_differs ROADCAST_FRAME_COUNT (s_frames s) (c_snapshot_frames c)"
    and "schg \<equiv> changed_indices signal_differs ROADCAST_SIGNAL_COUNT (s_signals s) (c_snapshot_signals c)"
  obtains fi si where "begin_catchup_round (s, c) = Some (s, next_round s fi (length fchg) si (length schg) c)"
    and "take (length fchg) fi = map of_nat fchg" and "take (length schg) si = map of_nat schg"
    and "conn_inv (s, next_round s fi (length fchg) si (length schg) c)"
proof -
  have sess: "session_inv c" and data: "server_data_wf s"
    using conn_invD [OF inv] by auto
  have len: "length (s_frames s) = 111" "length (c_snapshot_frames c) = 111" "length (c_catchup_frame_indices c) = 111"
    "length (s_signals s) = 815" "length (c_snapshot_signals c) = 815" "length (c_catchup_signal_indices c) = 815"
    using sess data by (auto simp: session_inv_def server_data_wf_def frames_wf_def signals_wf_def indices_wf_def)
  obtain fi where fi: "collect_changed frame_differs 111 (s_frames s) (c_snapshot_frames c) (c_catchup_frame_indices c)
      = Some (fi, length fchg)" "length fi = 111" "take (length fchg) fi = map of_nat fchg"
    unfolding fchg_def by (rule collect_changed_run [OF len(1-3)])
  obtain si where si: "collect_changed signal_differs 815 (s_signals s) (c_snapshot_signals c) (c_catchup_signal_indices c)
      = Some (si, length schg)" "length si = 815" "take (length schg) si = map of_nat schg"
    unfolding schg_def by (rule collect_changed_run [OF len(4-6)])
  show thesis
  proof (rule that [of fi si])
    show "begin_catchup_round (s, c) = Some (s, next_round s fi (length fchg) si (length schg) c)"
      using fi(1) si(1) by (simp add: begin_catchup_round_def)
    have "indices_wf 111 fi (length fchg) 0" "indices_wf 815 si (length schg) 0"
      unfolding fchg_def schg_def
      by (rule indices_wf_changed; use fi(2,3) si(2,3) in \<open>simp add: fchg_def schg_def\<close>)+
    then show "conn_inv (s, next_round s fi (length fchg) si (length schg) c)"
      using sess data by (intro conn_inv_update [OF inv]) (auto simp: next_round_def session_inv_def server_data_wf_def)
  qed (fact fi(3) si(3))+
qed

definition catchup_frame_message :: "client \<Rightarrow> bytes" where
  "catchup_frame_message c = message_bytes ROADCAST_MSG_UPDATE_BATCH (c_catchup_change_sequence c) (c_catchup_timestamp_ns c)
     (batch_bytes frame_record_bytes (c_catchup_sample_sequence c) (of_nat ROADCAST_FRAME_COUNT) UINT32_MAX
       (map (\<lambda>i. c_snapshot_frames c ! unat i)
         (take (min (c_catchup_frame_count c - c_catchup_frame_offset c) FRAMES_PER_MESSAGE)
           (drop (c_catchup_frame_offset c) (c_catchup_frame_indices c)))))"

definition catchup_signal_message :: "client \<Rightarrow> bytes" where
  "catchup_signal_message c = message_bytes ROADCAST_MSG_SIGNAL_UPDATE_BATCH (c_catchup_change_sequence c)
     (c_catchup_timestamp_ns c)
     (batch_bytes signal_record_bytes (c_catchup_sample_sequence c) (of_nat ROADCAST_SIGNAL_COUNT) UINT32_MAX
       (map (\<lambda>i. \<lparr>su_index = i, su_value = c_snapshot_signals c ! unat i\<rparr>)
         (take (min (c_catchup_signal_count c - c_catchup_signal_offset c) SIGNALS_PER_MESSAGE)
           (drop (c_catchup_signal_offset c) (c_catchup_signal_indices c)))))"

lemma send_frames_run:
  assumes inv: "conn_inv (s, c)"
  defines "n \<equiv> min (c_catchup_frame_count c - c_catchup_frame_offset c) FRAMES_PER_MESSAGE"
  obtains (refused) s' c' where "send_catchup_frames e (s, c) = Some (False, s', c')"
      and "server_same s s'" and "conn_inv (s', c')" and "c_active c \<Longrightarrow> \<not> (accepting e \<and> 0 < free_slots s c)"
    | (batch) s' c' where "send_catchup_frames e (s, c)
        = Some (True, s', c'\<lparr>c_catchup_frame_offset := c_catchup_frame_offset c + n\<rparr>)"
      and "server_same s s'" and "sent (catchup_frame_message c) c c'"
      and "conn_inv (s', c'\<lparr>c_catchup_frame_offset := c_catchup_frame_offset c + n\<rparr>)"
      and "Suc (free_slots s' c') = free_slots s c"
proof -
  have sess: "session_inv c"
    using conn_invD [OF inv] by auto
  have wf: "frames_wf (c_snapshot_frames c)"
    and ix: "indices_wf 111 (c_catchup_frame_indices c) (c_catchup_frame_count c) (c_catchup_frame_offset c)"
    using sess by (auto simp: session_inv_def)
  have n: "c_catchup_frame_offset c + n \<le> c_catchup_frame_count c" "n \<le> FRAMES_PER_MESSAGE"
    using ix by (auto simp: n_def indices_wf_def)
  let ?p = "batch_bytes frame_record_bytes (c_catchup_sample_sequence c) (of_nat 111) UINT32_MAX
    (map (\<lambda>i. c_snapshot_frames c ! unat i) (take n (drop (c_catchup_frame_offset c) (c_catchup_frame_indices c))))"
  note enc = encode_frames_indexed [OF wf ix n, of "c_catchup_sample_sequence c" "of_nat 111" UINT32_MAX]
  have plen: "length ?p = 20 + n * 28"
    using n ix frames_wf_nth [OF wf]
    by (subst length_frame_batch) (auto simp: in_set_conv_nth indices_wf_def)
  let ?pay = "?p @ replicate (2016 - (20 + n * 28)) 0"
  have le: "20 + n * 28 \<le> length ?pay" and tk: "take (20 + n * 28) ?pay = ?p"
    using plen by simp_all
  let ?run = "client_queue_message e ROADCAST_MSG_UPDATE_BATCH (c_catchup_change_sequence c)
    (c_catchup_timestamp_ns c) ?pay (20 + n * 28) False (s, c)"
  have run: "send_catchup_frames e (s, c) = Option.bind ?run (\<lambda>(ok, s, c).
    if \<not> ok then Some (False, s, c)
    else Some (True, s, c\<lparr>c_catchup_frame_offset := c_catchup_frame_offset c + n\<rparr>))"
    unfolding send_catchup_frames_def using enc by (simp add: Let_def n_def cong: if_cong)
  show thesis
  proof (cases rule: queue_conn_cases [OF inv le, of e ROADCAST_MSG_UPDATE_BATCH
        "c_catchup_change_sequence c" "c_catchup_timestamp_ns c" False])
    case (1 s' c')
    have "c_active c \<Longrightarrow> \<not> (accepting e \<and> 0 < free_slots s c)"
      using 1(5) n(2) by simp
    with 1 run show thesis
      by (intro refused [of s' c']) simp_all
  next
    case (3 s' c')
    let ?c = "c'\<lparr>c_catchup_frame_offset := c_catchup_frame_offset c + n\<rparr>"
    have "conn_inv (s', ?c)"
      using conn_invD(2) [OF 3(4)] n(1)
      by (intro conn_inv_update [OF 3(4)]) (auto simp: session_inv_def indices_wf_def sentD [OF 3(3)])
    with 3 run tk show thesis
      by (intro batch [of s' c']) (auto simp: catchup_frame_message_def n_def sentD [OF 3(3)])
  qed auto
qed

lemma send_signals_run:
  assumes inv: "conn_inv (s, c)"
  defines "n \<equiv> min (c_catchup_signal_count c - c_catchup_signal_offset c) SIGNALS_PER_MESSAGE"
  obtains (refused) s' c' where "send_catchup_signals e (s, c) = Some (False, s', c')"
      and "server_same s s'" and "conn_inv (s', c')" and "c_active c \<Longrightarrow> \<not> (accepting e \<and> 0 < free_slots s c)"
    | (batch) s' c' where "send_catchup_signals e (s, c)
        = Some (True, s', c'\<lparr>c_catchup_signal_offset := c_catchup_signal_offset c + n\<rparr>)"
      and "server_same s s'" and "sent (catchup_signal_message c) c c'"
      and "conn_inv (s', c'\<lparr>c_catchup_signal_offset := c_catchup_signal_offset c + n\<rparr>)"
      and "Suc (free_slots s' c') = free_slots s c"
proof -
  have sess: "session_inv c"
    using conn_invD [OF inv] by auto
  have wf: "signals_wf (c_snapshot_signals c)"
    and ix: "indices_wf 815 (c_catchup_signal_indices c) (c_catchup_signal_count c) (c_catchup_signal_offset c)"
    using sess by (auto simp: session_inv_def)
  have n: "c_catchup_signal_offset c + n \<le> c_catchup_signal_count c" "n \<le> SIGNALS_PER_MESSAGE"
    using ix by (auto simp: n_def indices_wf_def)
  let ?ix = "drop (c_catchup_signal_offset c) (c_catchup_signal_indices c)"
  let ?p = "batch_bytes signal_record_bytes (c_catchup_sample_sequence c) (of_nat 815) UINT32_MAX
    (map (\<lambda>i. \<lparr>su_index = i, su_value = c_snapshot_signals c ! unat i\<rparr>) (take n ?ix))"
  note d = catchup_indices_drop [OF ix n(1)]
  note enc = encode_signals_indexed [OF wf d n(2), of "c_catchup_sample_sequence c" "of_nat 815" UINT32_MAX]
  have plen: "length ?p = 20 + n * 40"
    using d(1) by (subst length_signal_batch) auto
  let ?pay = "?p @ replicate (2016 - (20 + n * 40)) 0"
  have le: "20 + n * 40 \<le> length ?pay" and tk: "take (20 + n * 40) ?pay = ?p"
    using plen by simp_all
  let ?run = "client_queue_message e ROADCAST_MSG_SIGNAL_UPDATE_BATCH (c_catchup_change_sequence c)
    (c_catchup_timestamp_ns c) ?pay (20 + n * 40) False (s, c)"
  have run: "send_catchup_signals e (s, c) = Option.bind ?run (\<lambda>(ok, s, c).
    if \<not> ok then Some (False, s, c)
    else Some (True, s, c\<lparr>c_catchup_signal_offset := c_catchup_signal_offset c + n\<rparr>))"
    unfolding send_catchup_signals_def using enc by (simp add: Let_def n_def cong: if_cong)
  show thesis
  proof (cases rule: queue_conn_cases [OF inv le, of e ROADCAST_MSG_SIGNAL_UPDATE_BATCH
        "c_catchup_change_sequence c" "c_catchup_timestamp_ns c" False])
    case (1 s' c')
    have "c_active c \<Longrightarrow> \<not> (accepting e \<and> 0 < free_slots s c)"
      using 1(5) n(2) by simp
    with 1 run show thesis
      by (intro refused [of s' c']) simp_all
  next
    case (3 s' c')
    let ?c = "c'\<lparr>c_catchup_signal_offset := c_catchup_signal_offset c + n\<rparr>"
    have "conn_inv (s', ?c)"
      using conn_invD(2) [OF 3(4)] n(1)
      by (intro conn_inv_update [OF 3(4)]) (auto simp: session_inv_def indices_wf_def sentD [OF 3(3)])
    with 3 run tk show thesis
      by (intro batch [of s' c']) (auto simp: catchup_signal_message_def n_def sentD [OF 3(3)])
  qed auto
qed

text \<open>One turn of the catch-up loop.\<close>

lemma drive_step_run:
  assumes inv: "conn_inv (s, c)"
  defines "fchg \<equiv> changed_indices frame_differs ROADCAST_FRAME_COUNT (s_frames s) (c_snapshot_frames c)"
    and "schg \<equiv> changed_indices signal_differs ROADCAST_SIGNAL_COUNT (s_signals s) (c_snapshot_signals c)"
    and "fn \<equiv> min (c_catchup_frame_count c - c_catchup_frame_offset c) FRAMES_PER_MESSAGE"
    and "sn \<equiv> min (c_catchup_signal_count c - c_catchup_signal_offset c) SIGNALS_PER_MESSAGE"
  obtains (idle) "\<not> c_active c \<or> \<not> c_catchup_active c" and "drive_step e (s, c) = Some (Leave, s, c)"
    | (full) "\<not> (accepting e \<and> 0 < free_slots s c)" and "drive_step e (s, c) = Some (Leave, called s, c)"
    | (refused) s' c' where "drive_step e (s, c) = Some (Abort, s', c')" and "server_same s s'" and "conn_inv (s', c')"
      and "\<not> (accepting e \<and> 0 < free_slots s c)"
    | (frames) s' c' where "c_active c" and "c_catchup_active c" and "c_catchup_frame_offset c < c_catchup_frame_count c"
      and "drive_step e (s, c) = Some (Again, s', c'\<lparr>c_catchup_frame_offset := c_catchup_frame_offset c + fn\<rparr>)"
      and "server_same s s'" and "sent (catchup_frame_message c) c c'"
      and "conn_inv (s', c'\<lparr>c_catchup_frame_offset := c_catchup_frame_offset c + fn\<rparr>)"
      and "Suc (free_slots s' c') = free_slots s c"
    | (signals) s' c' where "c_active c" and "c_catchup_active c" and "\<not> c_catchup_frame_offset c < c_catchup_frame_count c"
      and "c_catchup_signal_offset c < c_catchup_signal_count c"
      and "drive_step e (s, c) = Some (Again, s', c'\<lparr>c_catchup_signal_offset := c_catchup_signal_offset c + sn\<rparr>)"
      and "server_same s s'" and "sent (catchup_signal_message c) c c'"
      and "conn_inv (s', c'\<lparr>c_catchup_signal_offset := c_catchup_signal_offset c + sn\<rparr>)"
      and "Suc (free_slots s' c') = free_slots s c"
    | (round) fi si where "c_active c" and "c_catchup_active c" and "\<not> catchup_pending c" and "fchg \<noteq> [] \<or> schg \<noteq> []"
      and "drive_step e (s, c) = Some (Again, called s, next_round (called s) fi (length fchg) si (length schg) c)"
      and "take (length fchg) fi = map of_nat fchg" and "take (length schg) si = map of_nat schg"
      and "conn_inv (called s, next_round (called s) fi (length fchg) si (length schg) c)"
    | (subscribed) fi si s' c' where "c_active c" and "c_catchup_active c" and "\<not> catchup_pending c" and "fchg = []" and "schg = []"
      and "drive_step e (s, c)
        = Some (Again, s', c'\<lparr>c_catchup_active := False, c_subscribed := True, c_setup_deadline_ns := 0\<rparr>)"
      and "server_same s s'"
      and "sent (message_bytes ROADCAST_MSG_SUBSCRIBED (s_change_sequence s) (s_sample_timestamp_ns s) [])
        (next_round (called s) fi 0 si 0 c) c'"
      and "conn_inv (s', c'\<lparr>c_catchup_active := False, c_subscribed := True, c_setup_deadline_ns := 0\<rparr>)"
proof (cases "c_active c \<and> c_catchup_active c")
  case False
  then show thesis
    by (intro idle) (auto simp: drive_step_def)
next
  case act: True
  obtain b where cap: "client_has_output_capacity e (s, c) = Some (b, called s, c)"
    using has_capacity_run [OF conn_invD(1) [OF inv]] by metis
  have inv1: "conn_inv (called s, c)"
    using inv by simp
  have same: "server_same s s'" if "server_same (called s) s'" for s'
    using server_same_called server_same_trans that by blast
  have free: "free_slots (called s) c = free_slots s c"
    by (rule free_slots_same) simp
  note R = refused
  show thesis
  proof (cases b)
    case False
    then have "\<not> (accepting e \<and> 0 < free_slots s c)"
      using accepting_capacity [OF _ conn_invD(1) [OF inv], of e] cap by auto
    with False act cap show thesis
      by (intro full) (simp_all add: drive_step_def)
  next
    case b: True
    consider (f) "c_catchup_frame_offset c < c_catchup_frame_count c"
      | (g) "\<not> c_catchup_frame_offset c < c_catchup_frame_count c" "c_catchup_signal_offset c < c_catchup_signal_count c"
      | (r) "\<not> c_catchup_frame_offset c < c_catchup_frame_count c" "\<not> c_catchup_signal_offset c < c_catchup_signal_count c"
      by blast
    then show thesis
    proof cases
      case f
      show thesis
      proof (cases rule: send_frames_run [OF inv1, of e])
        case (1 s' c')
        with act b cap f free same show thesis
          by (intro R [of s' c']) (simp_all add: drive_step_def)
      next
        case (2 s' c')
        with act b cap f free same show thesis
          by (intro frames [of s' c']) (simp_all add: drive_step_def fn_def)
      qed
    next
      case g
      show thesis
      proof (cases rule: send_signals_run [OF inv1, of e])
        case (1 s' c')
        with act b cap g free same show thesis
          by (intro R [of s' c']) (simp_all add: drive_step_def)
      next
        case (2 s' c')
        with act b cap g free same show thesis
          by (intro signals [of s' c']) (simp_all add: drive_step_def sn_def)
      qed
    next
      case r
      have pend: "\<not> catchup_pending c"
        using r by (simp add: catchup_pending_def)
      have data: "s_frames (called s) = s_frames s" "s_signals (called s) = s_signals s"
        by (simp_all add: called_def)
      obtain fi si where round_run: "begin_catchup_round (called s, c)
          = Some (called s, next_round (called s) fi (length fchg) si (length schg) c)"
        "take (length fchg) fi = map of_nat fchg" "take (length schg) si = map of_nat schg"
        "conn_inv (called s, next_round (called s) fi (length fchg) si (length schg) c)"
        by (rule catchup_round_run [OF inv1]) (simp only: fchg_def schg_def data)
      let ?c1 = "next_round (called s) fi (length fchg) si (length schg) c"
      have counts: "c_catchup_frame_count ?c1 = length fchg" "c_catchup_signal_count ?c1 = length schg"
        "free_slots (called s) ?c1 = free_slots s c" "c_active ?c1" "c_catchup_active ?c1"
        using act free by (simp_all add: next_round_def free_slots_def)
      show thesis
      proof (cases "fchg = [] \<and> schg = []")
        case False
        then have "drive_step e (s, c) = Some (Again, called s, ?c1)"
          using act b cap r round_run(1) counts by (auto simp: drive_step_def)
        with False act pend round_run show thesis
          by (intro round [of fi si]) auto
      next
        case True
        let ?q = "client_queue_message e ROADCAST_MSG_SUBSCRIBED (s_change_sequence s) (s_sample_timestamp_ns s)
          [] 0 False (called s, ?c1)"
        have step: "drive_step e (s, c) = Option.bind ?q (\<lambda>(ok, s, c). if \<not> ok then Some (Abort, s, c)
           else Some (Again, s, c\<lparr>c_catchup_active := False, c_subscribed := True, c_setup_deadline_ns := 0\<rparr>))"
          using act b cap r round_run(1) counts True by (simp add: drive_step_def) (simp add: called_def)
        show thesis
        proof (cases rule: queue_conn_cases [OF round_run(4), of 0 "[]" e ROADCAST_MSG_SUBSCRIBED
              "s_change_sequence s" "s_sample_timestamp_ns s" False])
          case (2 s' c')
          with step same counts show thesis
            by (intro R [of s' c']) simp_all
        next
          case (4 s' c')
          have inv2: "session_inv c'" "c_greeted c'"
            using conn_invD(2) [OF 4(4)] conn_invD(2) [OF round_run(4)] counts(5)
            by (auto simp: sentD [OF 4(3)] session_inv_def)
          let ?c2 = "c'\<lparr>c_catchup_active := False, c_subscribed := True, c_setup_deadline_ns := 0\<rparr>"
          have "conn_inv (s', ?c2)"
            by (rule conn_inv_update [OF 4(4)]) (use inv2 in \<open>simp_all add: session_inv_def\<close>)
          with 4 step same act pend True show thesis
            by (intro subscribed [of s' c' fi si]) (simp_all add: called_def)
        qed auto
      qed
    qed
  qed
qed

lemma drive_step_ok:
  assumes inv: "conn_inv (s, c)"
  shows "handler_ok (drive_step e) (s, c)"
  by (cases rule: drive_step_run [OF inv, of e]) (use inv in \<open>auto intro: handler_okI\<close>)

lemma drive_loop_ok:
  assumes "conn_inv sc"
  shows "handler_ok (drive_loop e) sc"
  using assms
proof (induction e sc rule: drive_loop.induct)
  case (1 e sc)
  obtain s c where sc: "sc = (s, c)" by (cases sc)
  obtain t s' c' where step: "drive_step e (s, c) = Some (t, s', c')" "server_same s s'" "conn_inv (s', c')"
    using drive_step_ok [of s c e] "1.prems" sc by (auto elim: handler_okE)
  have loop: "drive_loop e sc = (case t of Again \<Rightarrow> drive_loop e (s', c') | Abort \<Rightarrow> Some (False, s', c')
      | Leave \<Rightarrow> Some (True, s', c'))"
    using step(1) sc by (subst drive_loop.simps) simp
  show ?case
  proof (cases t)
    case Again
    have "handler_ok (drive_loop e) (s', c')"
      by (rule "1.IH") (use step sc Again in auto)
    with loop Again step(2) sc show ?thesis
      by (auto simp: handler_ok_def intro: server_same_trans)
  qed (use loop step sc in \<open>auto simp: handler_ok_def\<close>)
qed

lemma drive_catchup_ok:
  assumes inv: "conn_inv (s, c)"
  shows "handler_ok (drive_subscription_catchup e) (s, c)"
proof -
  have capacity: "\<exists>b. client_has_output_capacity e (s, c) = Some (b, called s, c)" if "conn_inv (s, c)" for s c
    using has_capacity_run [OF conn_invD(1) [OF that]] by metis
  have flags: "conn_inv (s, c\<lparr>c_catchup_waiting_for_capacity := False, c_catchup_resumption_reported := True\<rparr>)"
    "conn_inv (s, c\<lparr>c_catchup_waiting_for_capacity := True\<rparr>)" if "conn_inv (s, c)" for s c
    by (rule conn_inv_update [OF that]; use conn_invD(2) [OF that] in \<open>simp add: session_inv_def\<close>)+
  obtain s1 c1 where pre: "(if c_catchup_waiting_for_capacity c then do {
         (capacity, s, c) \<leftarrow> client_has_output_capacity e (s, c);
         Some (s, if capacity
           then c\<lparr>c_catchup_waiting_for_capacity := False, c_catchup_resumption_reported := True\<rparr> else c) }
       else Some (s, c)) = Some (s1, c1)" "server_same s s1" "conn_inv (s1, c1)"
    using inv capacity [OF inv] flags(1) [of "called s" c] by (cases "c_catchup_waiting_for_capacity c") auto
  obtain r s2 c2 where loop: "drive_loop e (s1, c1) = Some (r, s2, c2)" "server_same s1 s2" "conn_inv (s2, c2)"
    using drive_loop_ok [OF pre(3), of e] by (auto elim: handler_okE)
  have same: "server_same s s2"
    using pre(2) loop(2) by (rule server_same_trans)
  have run: "drive_subscription_catchup e (s, c) = (if \<not> r then Some (False, s2, c2)
     else if c_active c2 \<and> c_catchup_active c2 then do {
       (capacity, s, c) \<leftarrow> client_has_output_capacity e (s2, c2);
       Some (True, s, if \<not> capacity then c\<lparr>c_catchup_waiting_for_capacity := True\<rparr> else c) }
     else Some (True, s2, c2))"
    unfolding drive_subscription_catchup_def using pre(1) loop(1) by simp
  obtain b where b: "client_has_output_capacity e (s2, c2) = Some (b, called s2, c2)"
    using capacity [OF loop(3)] by blast
  have "server_same s (called s2)"
    using same server_same_called server_same_trans by blast
  with run b same loop(3) flags(2) [of "called s2" c2] show ?thesis
    by (auto simp: handler_ok_def)
qed

lemma subscribe_ok:
  assumes inv: "conn_inv (s, c)" and "c_greeted c"
  shows "handler_ok (queue_subscription_catchup e) (s, c)"
proof -
  have "conn_inv (s, c\<lparr>c_catchup_active := True\<rparr>)"
    using conn_invD(2) [OF inv] assms(2) by (intro conn_inv_update [OF inv]) (auto simp: session_inv_def)
  then obtain c1 where r: "begin_catchup_round (s, c\<lparr>c_catchup_active := True\<rparr>) = Some (s, c1)" "conn_inv (s, c1)"
    using catchup_round_run by metis
  from drive_catchup_ok [OF r(2), of e] r(1) show ?thesis
    by (simp add: handler_ok_def queue_subscription_catchup_def)
qed

section \<open>Commands and input\<close>

lemma refuse_ok: "conn_inv (s, c) \<Longrightarrow> result_ok s (Some (False, s, c))"
  by simp

lemma handler_result: "handler_ok run (s, c) \<Longrightarrow> result_ok s (run (s, c))"
  by (simp only: handler_ok_result)

lemma greeted_inv:
  assumes inv: "conn_inv (s, c)"
  shows "conn_inv (s, c\<lparr>c_greeted := True, c_hello_deadline_ns := 0, c_setup_deadline_ns := d\<rparr>)"
proof (rule conn_inv_update [OF inv])
  show "session_inv (c\<lparr>c_greeted := True, c_hello_deadline_ns := 0, c_setup_deadline_ns := d\<rparr>)"
    using conn_invD(2) [OF inv] by (simp add: session_inv_def)
qed simp_all

lemma process_hello_ok:
  assumes inv: "conn_inv (s, c)"
  shows "result_ok s (process_hello e h payload (s, c))"
proof -
  obtain r where dec: "roadcast_decode_hello payload = Some r"
    using small_decoders_safe(1) by blast
  show ?thesis
  proof (cases r)
    case Fail
    then show ?thesis
      using dec refuse_ok [OF inv] by (simp add: process_hello_def)
  next
    case (Ok x)
    obtain lo hi caps where x: "x = (lo, hi, caps)"
      by (cases x)
    let ?w = "welcome_bytes (welcome_of h s)"
    have enc: "roadcast_encode_welcome (replicate 36 0) (welcome_of h s) = Some (36, ?w)"
      by (simp add: encode_welcome_poke poke_Some)
    obtain ok s1 c1 where q: "client_queue_message e ROADCAST_MSG_WELCOME (s_change_sequence s)
        (s_sample_timestamp_ns s) ?w 36 False (s, c) = Some (ok, s1, c1)"
      and same: "server_same s s1" and inv1: "conn_inv (s1, c1)"
      by (rule handler_okE [OF queue_message_ok [OF inv, of 36 ?w]]) auto
    have "server_same s (called s1)"
      using same server_same_called by (rule server_same_trans)
    moreover have "conn_inv (called s1, c1\<lparr>c_greeted := True, c_hello_deadline_ns := 0,
        c_setup_deadline_ns := e_clock e (s_calls s1) + SETUP_TIMEOUT_NS\<rparr>)"
      by (rule greeted_inv) (simp add: inv1)
    ultimately show ?thesis
      using dec Ok x enc q same inv1 inv
      by (simp add: process_hello_def monotonic_ns_def split: if_split)
  qed
qed

lemma index_command_ok:
  assumes inv: "conn_inv (s, c)" and handle: "\<And>i. c_greeted c \<Longrightarrow> result_ok s (handle i (s, c))"
  shows "result_ok s (index_command payload handle (s, c))"
proof -
  obtain r where dec: "roadcast_decode_index_request payload = Some r"
    using small_decoders_safe(3) by blast
  show ?thesis
  proof (cases "c_greeted c")
    case True
    then show ?thesis
      using dec handle [OF True] refuse_ok [OF inv] by (cases r) (simp_all add: index_command_def)
  qed (use refuse_ok [OF inv] in \<open>simp add: index_command_def\<close>)
qed

lemma frame_chunk_ok:
  assumes "conn_inv (s, c)" and "c_greeted c"
  shows "result_ok s (queue_frame_snapshot_chunk e i (s, c))"
  by (rule frame_chunk_run [OF assms, of e i]) simp_all

lemma signal_chunk_ok:
  assumes "conn_inv (s, c)"
  shows "result_ok s (queue_signal_snapshot_chunk e i (s, c))"
  by (rule signal_chunk_run [OF assms, of e i]) simp_all

context catalogue
begin

lemma schema_chunk_ok:
  assumes inv: "conn_inv (s, c)"
  shows "handler_ok (queue_schema_chunk e sigs h start) (s, c)"
proof (cases "unat start < length sigs")
  case False
  then show ?thesis
    using inv by (auto simp: handler_ok_def queue_schema_chunk_def roadcast_encode_schema_chunk_def)
next
  case True
  obtain len count out where enc: "roadcast_encode_schema_chunk sigs h (replicate 2016 0) 2016 start = Some (len, count, out)"
    and len: "len \<le> 2016" "length out = 2016"
    by (rule schema_chunk_roundtrip [OF _ _ True, of 2016 "replicate 2016 0"]) auto
  then have "len \<le> length out" by simp
  from queue_message_ok [OF inv this, of e ROADCAST_MSG_SCHEMA_CHUNK "s_change_sequence s" "s_sample_timestamp_ns s" False]
  show ?thesis
    using enc inv by (auto simp: handler_ok_def queue_schema_chunk_def)
qed


lemma process_command_ok:
  assumes inv: "conn_inv (s, c)"
  shows "result_ok s (process_command e sigs h header payload (s, c))"
proof -
  note ok = refuse_ok [OF inv] process_hello_ok [OF inv]
    index_command_ok [OF inv, of "queue_frame_snapshot_chunk e", OF frame_chunk_ok [OF inv]]
    index_command_ok [OF inv, of "queue_signal_snapshot_chunk e", OF signal_chunk_ok [OF inv]]
    index_command_ok [OF inv, of "queue_schema_chunk e sigs h", OF handler_result [OF schema_chunk_ok [OF inv]]]
    handler_result [OF queue_message_ok [OF inv, of 0 "[]"]]
  have sub: "c_greeted c \<Longrightarrow> result_ok s (queue_subscription_catchup e (s, c))"
    by (rule handler_result [OF subscribe_ok [OF inv]])
  show ?thesis
    unfolding process_command_def prod.case by (simp add: ok sub inv split: if_split)
qed

end

section \<open>Input\<close>

context catalogue
begin

text \<open>
  A turn of the parser: it stops with less than a full buffer left over, fails, or consumes one whole message.
\<close>

lemma input_step_run:
  assumes inv: "conn_inv (s, c)" and consumed: "consumed \<le> c_input_length c"
  obtains t consumed' s' c' where "input_step e sigs h consumed (s, c) = Some (t, consumed', s', c')"
    and "server_same s s'" and "conn_inv (s', c')" and "keeps_link c c'"
    and "consumed' \<le> c_input_length c'"
    and "t = Leave \<Longrightarrow> c_input_length c' - consumed' < CLIENT_INPUT_CAP"
proof (cases "c_input_length c - consumed < 32")
  case True
  then show thesis
    using consumed inv by (intro that [of Leave consumed s c]) (simp_all add: input_step_def sub_size_def)
next
  case False
  have len: "length (c_input c) = 4096" "c_input_length c \<le> 4096"
    using conn_invD(2) [OF inv] by (auto simp: session_inv_def)
  let ?hdr = "take 32 (drop consumed (c_input c))"
  have hdr: "slice (c_input c) consumed 32 = Some ?hdr" and hl: "length ?hdr = 32"
    using False len consumed by (auto simp: slice_Some)
  obtain r where r: "roadcast_decode_header ?hdr = Some r"
    using decode_header_safe [OF hl] by blast
  have sub: "sub_size (c_input_length c) consumed = c_input_length c - consumed"
    using consumed by (simp add: sub_size_def)
  show thesis
  proof (cases r)
    case Fail
    then show thesis
      using False hdr r sub consumed inv
      by (intro that [of Abort consumed s c]) (simp_all add: input_step_def)
  next
    case (Ok header)
    let ?n = "unat (h_payload_bytes header)"
    have step: "input_step e sigs h consumed (s, c) = (if ?n > 4064 then Some (Abort, consumed, s, c)
      else if c_input_length c - consumed < 32 + ?n then Some (Leave, consumed, s, c)
      else do {
        payload \<leftarrow> slice (c_input c) (consumed + 32) ?n;
        (ok, s, c) \<leftarrow> process_command e sigs h header payload (s, c);
        Some (if ok then Again else Abort, if ok then consumed + (32 + ?n) else consumed, s, c) })"
      using False hdr r sub Ok by (simp add: input_step_def Let_def)
    consider (big) "?n > 4064" | (part) "?n \<le> 4064" "c_input_length c - consumed < 32 + ?n"
      | (whole) "?n \<le> 4064" "32 + ?n \<le> c_input_length c - consumed"
      by linarith
    then show thesis
    proof cases
      case big
      with step consumed inv show thesis by (intro that [of Abort consumed s c]) simp_all
    next
      case part
      with step consumed inv show thesis by (intro that [of Leave consumed s c]) simp_all
    next
      case whole
      let ?p = "take ?n (drop (consumed + 32) (c_input c))"
      have p: "slice (c_input c) (consumed + 32) ?n = Some ?p"
        using whole len consumed by (intro slice_Some) linarith
      obtain ok s' c' where cmd: "process_command e sigs h header ?p (s, c) = Some (ok, s', c')"
        and same: "server_same s s'" and inv': "conn_inv (s', c')"
        using process_command_ok [OF inv, of e h header ?p] by (auto simp: result_ok_def)
      have keeps: "keeps_link c c'"
        by (rule process_command_input [OF cmd])
      show thesis
        by (rule that [of "if ok then Again else Abort" "if ok then consumed + (32 + ?n) else consumed" s' c'])
          (use step whole p cmd same inv' keeps consumed in \<open>auto simp: keeps_link_def not_less\<close>)
    qed
  qed
qed

lemma input_loop_run:
  assumes "conn_inv (s, c)" and "consumed \<le> c_input_length c"
  obtains ok consumed' s' c' where "input_loop e sigs h consumed (s, c) = Some (ok, consumed', s', c')"
    and "server_same s s'" and "conn_inv (s', c')" and "keeps_link c c'" and "consumed' \<le> c_input_length c'"
    and "ok \<Longrightarrow> c_input_length c' - consumed' < CLIENT_INPUT_CAP"
proof -
  have "\<exists>ok consumed' s' c'. input_loop e sigs h consumed (s, c) = Some (ok, consumed', s', c')
    \<and> server_same s s' \<and> conn_inv (s', c') \<and> keeps_link c c' \<and> consumed' \<le> c_input_length c'
    \<and> (ok \<longrightarrow> c_input_length c' - consumed' < CLIENT_INPUT_CAP)"
    using assms
  proof (induction "length (c_input c) - consumed" arbitrary: consumed s c rule: less_induct)
    case less
    obtain t k s' c' where step: "input_step e sigs h consumed (s, c) = Some (t, k, s', c')"
      and same: "server_same s s'" and inv: "conn_inv (s', c')" and keeps: "keeps_link c c'"
      and k: "k \<le> c_input_length c'" and rest: "t = Leave \<Longrightarrow> c_input_length c' - k < CLIENT_INPUT_CAP"
      by (rule input_step_run [OF less.prems, of e h]) blast
    show ?case
    proof (cases t)
      case Again
      note more = input_step_again [OF step [unfolded Again]]
      have "length (c_input c') - k < length (c_input c) - consumed"
        using more by (auto simp: keeps_link_def)
      from less.hyps [OF this inv k] obtain ok k2 s2 c2 where
        loop: "input_loop e sigs h k (s', c') = Some (ok, k2, s2, c2)" "server_same s' s2" "conn_inv (s2, c2)"
          "keeps_link c' c2" "k2 \<le> c_input_length c2" "ok \<longrightarrow> c_input_length c2 - k2 < CLIENT_INPUT_CAP"
        by blast
      have "input_loop e sigs h consumed (s, c) = Some (ok, k2, s2, c2)"
        by (subst input_loop.simps) (simp add: step Again loop(1))
      with loop same keeps show ?thesis
        by (blast intro: server_same_trans keeps_link_trans)
    next
      case Abort
      have "input_loop e sigs h consumed (s, c) = Some (False, k, s', c')"
        by (subst input_loop.simps) (simp add: step Abort)
      with same inv keeps k show ?thesis by blast
    next
      case Leave
      have "input_loop e sigs h consumed (s, c) = Some (True, k, s', c')"
        by (subst input_loop.simps) (simp add: step Leave)
      with same inv keeps k rest [OF Leave] show ?thesis by blast
    qed
  qed
  then show thesis using that by blast
qed

lemma process_input_run:
  assumes inv: "conn_inv (s, c)"
  obtains ok s' c' where "process_client_input e sigs h (s, c) = Some (ok, s', c')"
    and "server_same s s'" and "conn_inv (s', c')" and "keeps_peer c c'" and "ok \<Longrightarrow> c_input_length c' < CLIENT_INPUT_CAP"
proof -
  obtain ok k s1 c1 where loop: "input_loop e sigs h 0 (s, c) = Some (ok, k, s1, c1)" "server_same s s1"
      "conn_inv (s1, c1)" "k \<le> c_input_length c1" "ok \<Longrightarrow> c_input_length c1 - k < CLIENT_INPUT_CAP"
    and keeps: "keeps_peer c c1"
    by (rule input_loop_run [OF inv, of 0 e h]) (auto simp: keeps_link_def)
  have len: "length (c_input c1) = 4096" "c_input_length c1 \<le> 4096"
    using conn_invD(2) [OF loop(3)] by (auto simp: session_inv_def)
  show thesis
  proof (cases ok)
    case False
    with loop show thesis
      by (intro that [of False s1 c1]) (simp_all add: process_client_input_def keeps)
  next
    case True
    let ?rest = "take (c_input_length c1 - k) (drop k (c_input c1))"
    let ?c = "c1\<lparr>c_input := ?rest @ drop (c_input_length c1 - k) (c_input c1), c_input_length := c_input_length c1 - k\<rparr>"
    have l: "length ?rest = c_input_length c1 - k"
      using len loop(4) by simp
    have shift: "slice (c_input c1) k (sub_size (c_input_length c1) k) = Some ?rest"
      "poke 0 ?rest (c_input c1) = Some (?rest @ drop (c_input_length c1 - k) (c_input c1))"
      using len loop(4) l by (simp_all add: slice_Some sub_size_def poke_Some)
    have inv2: "conn_inv (s1, ?c)"
    proof (rule conn_inv_update [OF loop(3)])
      show "session_inv ?c"
        using conn_invD(2) [OF loop(3)] l len by (simp add: session_inv_def)
    qed simp_all
    have "process_client_input e sigs h (s, c) = Some (True, s1, if k \<noteq> 0 then ?c else c1)"
      using loop(1,4) loop(5) [OF True] True shift len l
      by (cases "k = 0") (simp_all add: process_client_input_def sub_size_def)
    with loop(2,3) loop(5) [OF True] inv2 keeps show thesis
      by (intro that [of True s1 "if k \<noteq> 0 then ?c else c1"]) (auto simp: keeps_peer_def)
  qed
qed

end

end
