(* ===== verification/Daemon_Handlers.thy ===== *)
theory Daemon_Handlers
  imports Daemon_Session_Inv
begin

text \<open>
  The libuv callbacks that belong to one connection, \<^verbatim>\<open>src/roadcastd.c\<close>: \<^verbatim>\<open>allocate_client_input\<close>,
  \<^verbatim>\<open>on_client_read\<close> and \<^verbatim>\<open>on_client_write\<close>; the invariant \<open>server_inv\<close> of the whole client table; and the
  locale \<open>connection_handler\<close>, the contract that lets a handler run on a slot of the table, or on every
  slot in turn, without breaking that invariant.
\<close>

section \<open>Callbacks\<close>

text \<open>
  What libuv hands to the read callback: an error (\<^verbatim>\<open>bytes_read < 0\<close>, also end of file and an empty buffer),
  or the bytes it has placed in the buffer that \<^verbatim>\<open>allocate_client_input\<close> offered.
\<close>

datatype read_result = Read_error | Read_bytes bytes

text \<open>The room offered, at offset \<open>c_input_length\<close> of the input buffer; 0 for the null buffer.\<close>

definition allocate_client_input :: "client \<Rightarrow> nat" where
  "allocate_client_input c = (if \<not> c_active c \<or> c_input_length c \<ge> CLIENT_INPUT_CAP then 0
     else CLIENT_INPUT_CAP - c_input_length c)"

definition on_client_read ::
    "env \<Rightarrow> roadcast_signal_definition list \<Rightarrow> u64 \<Rightarrow> read_result \<Rightarrow> conn \<Rightarrow> (unit \<times> conn) option" where
  "on_client_read e sigs schema_hash result = (\<lambda>(s, c). case result of
     Read_error \<Rightarrow> Some ((), s, client_close c)
   | Read_bytes bs \<Rightarrow>
       if length bs = 0 then Some ((), s, c)
       else do {
         input \<leftarrow> poke (c_input_length c) bs (c_input c);
         (ok, s, c) \<leftarrow> process_client_input e sigs schema_hash
           (s, c\<lparr>c_input := input, c_input_length := c_input_length c + length bs\<rparr>);
         Some ((), s, if ok then c else client_close c) })"

definition on_client_write :: "env \<Rightarrow> nat \<Rightarrow> int \<Rightarrow> conn \<Rightarrow> (unit \<times> conn) option" where
  "on_client_write e slot status = (\<lambda>(s, c). do {
     c \<leftarrow> release_slot slot c;
     if status < 0 then Some ((), s, client_close c)
     else do {
       (ok, s, c) \<leftarrow> (if c_catchup_active c then drive_subscription_catchup e (s, c) else Some (True, s, c));
       if \<not> ok then Some ((), s, client_close c)
       else do {
         (s, c) \<leftarrow> maybe_queue_resync e (s, c);
         Some ((), s, c) } } })"

text \<open>Runs a handler on every slot of the client table, in order.\<close>

definition for_clients :: "(conn \<Rightarrow> (unit \<times> conn) option) \<Rightarrow> server \<Rightarrow> server option" where
  "for_clients f s = for_loop 0 MAX_CLIENTS (\<lambda>i s. map_option snd (with_client i f s)) s"

definition active_clients_for_uid :: "server \<Rightarrow> u32 \<Rightarrow> nat" where
  "active_clients_for_uid s uid = length (filter (\<lambda>c. c_active c \<and> c_peer_uid c = uid) (s_clients s))"

section \<open>The invariant of the client table\<close>

text \<open>A slot is free, active or closing; a free slot is all zero.\<close>

definition client_wf :: "client \<Rightarrow> bool" where
  "client_wf c \<longleftrightarrow> \<not> (c_active c \<and> c_closing c) \<and> (\<not> c_active c \<and> \<not> c_closing c \<longrightarrow> c = zero_client)"

definition server_inv :: "server \<Rightarrow> bool" where
  "server_inv s \<longleftrightarrow> length (s_clients s) = MAX_CLIENTS \<and> 1 \<le> unat (s_client_queue_slots s)
     \<and> unat (s_client_queue_slots s) \<le> CLIENT_QUEUE_SLOTS \<and> server_data_wf s
     \<and> (\<forall>c \<in> set (s_clients s). conn_inv (s, c) \<and> client_wf c)
     \<and> (\<forall>uid. active_clients_for_uid s uid \<le> MAX_CLIENTS_PER_UID)"

text \<open>What a handler may do to the link: nothing, or close it; a free slot it leaves alone.\<close>

definition link_ok :: "client \<Rightarrow> client \<Rightarrow> bool" where
  "link_ok c c' \<longleftrightarrow> c_peer_uid c' = c_peer_uid c
     \<and> (c_active c' = c_active c \<and> c_closing c' = c_closing c \<or> c_active c \<and> \<not> c_active c' \<and> c_closing c')
     \<and> (\<not> c_active c \<and> \<not> c_closing c \<longrightarrow> c' = c)"

lemma link_ok_refl [simp, intro]: "link_ok c c"
  by (simp add: link_ok_def)

lemma link_ok_trans: "link_ok c d \<Longrightarrow> link_ok d f \<Longrightarrow> link_ok c f"
  by (auto simp: link_ok_def)

lemma link_ok_close [simp, intro]: "link_ok c (client_close c)"
  by (simp add: link_ok_def client_close_def)

lemma link_ok_peer: "keeps_peer c c' \<Longrightarrow> c_active c \<or> c_closing c \<Longrightarrow> link_ok c c'"
  by (auto simp: link_ok_def keeps_peer_def)

lemma link_ok_close_after: "link_ok c d \<Longrightarrow> link_ok c (client_close d)"
  using link_ok_trans link_ok_close by blast

lemma client_wf_link: "client_wf c \<Longrightarrow> link_ok c c' \<Longrightarrow> client_wf c'"
  by (auto simp: client_wf_def link_ok_def)

lemma length_filter_update:
  assumes "P y \<Longrightarrow> P (xs ! i)"
  shows "length (filter P (xs[i := y])) \<le> length (filter P xs)"
  unfolding length_filter_conv_card
  by (rule card_mono) (use assms in \<open>auto, metis nth_list_update_eq nth_list_update_neq\<close>)

lemma server_inv_same:
  assumes "server_inv s" and "server_same s s'"
  shows "server_inv s'"
  using assms conn_inv_same [OF assms(2)]
  by (simp add: server_inv_def server_sameD server_data_wf_def active_clients_for_uid_def)

lemma server_inv_client:
  assumes inv: "server_inv s" and i: "i < MAX_CLIENTS"
  shows "conn_inv (s, s_clients s ! i)" and "client_wf (s_clients s ! i)"
  using assms by (simp_all add: server_inv_def)

text \<open>Storing a client back after a handler has run.\<close>

lemma server_inv_store:
  assumes inv: "server_inv s" and c: "conn_inv (s, c)" "client_wf c"
    and peer: "c_active c \<Longrightarrow> c_active (s_clients s ! i) \<and> c_peer_uid (s_clients s ! i) = c_peer_uid c"
  shows "server_inv (s\<lparr>s_clients := (s_clients s)[i := c]\<rparr>)"
proof -
  let ?s = "s\<lparr>s_clients := (s_clients s)[i := c]\<rparr>"
  have conn: "conn_inv (?s, d) = conn_inv (s, d)" for d
    by (simp add: conn_inv_def server_data_wf_def queue_inv_def)
  have "conn_inv (?s, d) \<and> client_wf d" if "d \<in> set (s_clients ?s)" for d
  proof -
    have "d = c \<or> d \<in> set (s_clients s)"
      using that by (auto dest: set_update_subset_insert [THEN subsetD])
    then show ?thesis
      unfolding conn using inv c by (auto simp: server_inv_def)
  qed
  moreover have "active_clients_for_uid ?s uid \<le> 8" for uid
  proof -
    have "active_clients_for_uid ?s uid \<le> active_clients_for_uid s uid"
      unfolding active_clients_for_uid_def by (simp, rule length_filter_update) (use peer in auto)
    with inv show ?thesis by (meson le_trans server_inv_def)
  qed
  ultimately show ?thesis
    using inv by (simp add: server_inv_def server_data_wf_def)
qed

section \<open>The contract of a handler\<close>

locale connection_handler =
  fixes run :: "conn \<Rightarrow> (unit \<times> conn) option" and pre :: "client \<Rightarrow> bool"
  assumes run_ok: "conn_inv (s, c) \<Longrightarrow> pre c \<Longrightarrow>
    \<exists>s' c'. run (s, c) = Some ((), s', c') \<and> server_same s s' \<and> conn_inv (s', c') \<and> link_ok c c'"
begin

lemma with_client_ok:
  assumes inv: "server_inv s" and i: "i < MAX_CLIENTS" and pre: "pre (s_clients s ! i)"
  obtains s' c' where "run (s, s_clients s ! i) = Some ((), s', c')"
    and "with_client i run s = Some ((), s'\<lparr>s_clients := (s_clients s)[i := c']\<rparr>)"
    and "server_same s s'" and "server_inv (s'\<lparr>s_clients := (s_clients s)[i := c']\<rparr>)"
proof -
  note here = server_inv_client [OF inv i]
  obtain s' c' where run: "run (s, s_clients s ! i) = Some ((), s', c')" and same: "server_same s s'"
    and inv': "conn_inv (s', c')" and link: "link_ok (s_clients s ! i) c'"
    using run_ok [OF here(1) pre] by blast
  have len: "length (s_clients s) = 16"
    using inv by (simp add: server_inv_def)
  have wc: "with_client i run s = Some ((), s'\<lparr>s_clients := (s_clients s)[i := c']\<rparr>)"
    using i len run by (simp add: with_client_def rd_Some server_sameD [OF same])
  have "server_inv (s'\<lparr>s_clients := (s_clients s')[i := c']\<rparr>)"
    by (rule server_inv_store [OF server_inv_same [OF inv same] inv' client_wf_link [OF here(2) link]])
      (use link in \<open>auto simp: link_ok_def server_sameD [OF same]\<close>)
  then have "server_inv (s'\<lparr>s_clients := (s_clients s)[i := c']\<rparr>)"
    by (simp add: server_sameD [OF same])
  with run wc same show thesis by (rule that)
qed

text \<open>
  Run on every slot, it keeps the invariant and everything but the clients, the counters and the clock; each
  slot ends as the handler left it.
\<close>

lemma for_clients_run:
  assumes inv: "server_inv s" and pre: "\<And>c. c \<in> set (s_clients s) \<Longrightarrow> pre c"
  obtains s' where "for_clients run s = Some s'" and "server_inv s'" and "server_same s (s'\<lparr>s_clients := s_clients s\<rparr>)"
    and "\<forall>i < MAX_CLIENTS. \<exists>t t'. server_same s (t\<lparr>s_clients := s_clients s\<rparr>) \<and> conn_inv (t, s_clients s ! i)
      \<and> run (t, s_clients s ! i) = Some ((), t', s_clients s' ! i)"
proof -
  let ?same = "\<lambda>t. server_same s (t\<lparr>s_clients := s_clients s\<rparr>)"
  let ?at = "\<lambda>u i. \<exists>t t'. ?same t \<and> conn_inv (t, s_clients s ! i) \<and> run (t, s_clients s ! i) = Some ((), t', s_clients u ! i)"
  let ?I = "\<lambda>k u. server_inv u \<and> ?same u \<and> (\<forall>j<16. k \<le> j \<longrightarrow> s_clients u ! j = s_clients s ! j) \<and> (\<forall>j<k. ?at u j)"
  have len: "length (s_clients s) = 16"
    using inv by (simp add: server_inv_def)
  have "\<exists>s'. for_clients run s = Some s' \<and> ?I (0 + 16) s'"
    unfolding for_clients_def
  proof (rule for_loop_invariant)
    show "?I 0 s" using inv by simp
  next
    fix k u
    assume k: "k < 0 + 16" and I: "?I k u"
    then have here: "s_clients u ! k = s_clients s ! k" by simp
    have "pre (s_clients u ! k)"
      using here k pre len by simp
    then obtain t' c' where run: "run (u, s_clients u ! k) = Some ((), t', c')"
      and step: "with_client k run u = Some ((), t'\<lparr>s_clients := (s_clients u)[k := c']\<rparr>)"
      and same: "server_same u t'" and inv': "server_inv (t'\<lparr>s_clients := (s_clients u)[k := c']\<rparr>)"
      using with_client_ok [of u k] I k by (metis add_0)
    let ?u = "t'\<lparr>s_clients := (s_clients u)[k := c']\<rparr>"
    have "?same ?u"
      using I same by (cases s; cases u; cases t') (simp add: server_same_def)
    moreover have "\<forall>j<16. Suc k \<le> j \<longrightarrow> s_clients ?u ! j = s_clients s ! j"
      using I by simp
    moreover have "?at ?u j" if j: "j < Suc k" for j
    proof (cases "j = k")
      case True
      have "s_clients ?u ! k = c'"
        using k I by (simp add: server_inv_def)
      moreover have "conn_inv (u, s_clients s ! k)"
        using server_inv_client(1) [of u k] I k here by simp
      ultimately show ?thesis
        using run I here True by metis
    next
      case False
      with j I show ?thesis by simp
    qed
    ultimately show "\<exists>u'. map_option snd (with_client k run u) = Some u' \<and> ?I (Suc k) u'"
      using step inv' by simp
  qed
  then obtain s' where "for_clients run s = Some s'" "?I 16 s'" by auto
  then show thesis by (intro that [of s']) auto
qed

lemma for_clients_ok:
  assumes "server_inv s" and "\<And>c. c \<in> set (s_clients s) \<Longrightarrow> pre c"
  shows "\<exists>s'. for_clients run s = Some s' \<and> server_inv s' \<and> server_same s (s'\<lparr>s_clients := s_clients s\<rparr>)"
  using for_clients_run [OF assms] by metis

end

section \<open>The callbacks keep the contract\<close>

lemma conn_inv_queue_only: "conn_inv (s, c) \<Longrightarrow> queue_only c c' \<Longrightarrow> queue_inv s c' \<Longrightarrow> conn_inv (s, c')"
  by (simp add: conn_inv_def session_inv_queue_only)

lemma maybe_resync_ok:
  assumes inv: "conn_inv (s, c)" and "open": "c_active c \<or> c_closing c"
  obtains s' c' where "maybe_queue_resync e (s, c) = Some (s', c')" and "server_same s s'" and "conn_inv (s', c')"
    and "link_ok c c'"
proof (cases rule: maybe_queue_resync_run [OF conn_invD(1) [OF inv], of e])
  case 1
  with inv show thesis by (intro that [of s c]) simp_all
next
  case (2 s' c')
  have "keeps_peer c c'"
    using queue_onlyD [OF 2(3)] by (simp add: keeps_peer_def)
  then have "link_ok c (client_close c')"
    using "open" by (intro link_ok_close_after link_ok_peer)
  with 2 show thesis
    using conn_inv_same [OF 2(2), of c] inv by (intro that [of s' "client_close c'"]) (simp_all add: conn_inv_queue_only)
next
  case (3 s' c')
  have "conn_inv (s', c')"
    using 3 inv by (simp add: conn_inv_def session_inv_sent server_data_wf_def server_sameD)
  then have "conn_inv (s', c'\<lparr>c_resync_queued := True\<rparr>)"
    using conn_invD(2) [OF \<open>conn_inv (s', c')\<close>] 3(4)
    by (intro conn_inv_update [OF \<open>conn_inv (s', c')\<close>]) (simp_all add: session_inv_def sentD [OF 3(6)])
  moreover have "keeps_peer c (c'\<lparr>c_resync_queued := True\<rparr>)"
    using sentD [OF 3(6)] by (simp add: keeps_peer_def)
  ultimately show thesis
    using 3 "open" by (intro that [of s' "c'\<lparr>c_resync_queued := True\<rparr>"]) (simp_all add: link_ok_peer)
qed

definition write_pre :: "nat \<Rightarrow> client \<Rightarrow> bool" where
  "write_pre slot c \<longleftrightarrow> slot < CLIENT_QUEUE_SLOTS \<and> (c_active c \<or> c_closing c)"

definition read_pre :: "read_result \<Rightarrow> client \<Rightarrow> bool" where
  "read_pre r c \<longleftrightarrow> (c_active c \<or> c_closing c)
     \<and> (case r of Read_error \<Rightarrow> True | Read_bytes bs \<Rightarrow> length bs \<le> allocate_client_input c)"

lemma catchup_after_write:
  assumes inv: "conn_inv (s, c)"
  obtains ok s' c' where
    "(if c_catchup_active c then drive_subscription_catchup e (s, c) else Some (True, s, c)) = Some (ok, s', c')"
    and "server_same s s'" and "conn_inv (s', c')" and "keeps_peer c c'"
proof (cases "c_catchup_active c")
  case True
  obtain ok s' c' where run: "drive_subscription_catchup e (s, c) = Some (ok, s', c')" "server_same s s'" "conn_inv (s', c')"
    using drive_catchup_ok [OF inv, of e] by (auto elim: handler_okE)
  with True drive_catchup_input(1) [OF run(1)] show thesis
    by (intro that [of ok s' c']) (simp_all add: keeps_link_def)
qed (use inv in \<open>auto intro!: that simp: keeps_peer_def\<close>)

interpretation written: connection_handler "on_client_write e slot status" "write_pre slot" for e slot status
proof
  fix s c
  assume inv: "conn_inv (s, c)" and pre: "write_pre slot c"
  have "slot < length (c_output c)"
    using conn_invD(1) [OF inv] pre by (simp add: queue_inv_def write_pre_def)
  then obtain c1 where rel: "release_slot slot c = Some c1" "queue_only c c1" "queue_inv s c1"
    by (rule release_slot_run [OF conn_invD(1) [OF inv]]) blast
  have inv1: "conn_inv (s, c1)"
    by (rule conn_inv_queue_only [OF inv rel(2,3)])
  have open1: "c_active c1 \<or> c_closing c1" and link1: "link_ok c c1"
    using pre queue_onlyD [OF rel(2)] by (auto simp: write_pre_def link_ok_def)
  obtain ok s2 c2 where drive: "(if c_catchup_active c1 then drive_subscription_catchup e (s, c1)
      else Some (True, s, c1)) = Some (ok, s2, c2)" "server_same s s2" "conn_inv (s2, c2)" "keeps_peer c1 c2"
    by (rule catchup_after_write [OF inv1, of e])
  have open2: "c_active c2 \<or> c_closing c2" and link2: "link_ok c c2"
    using open1 drive(4) link_ok_trans [OF link1 link_ok_peer [OF drive(4) open1]] by (auto simp: keeps_peer_def)
  obtain s3 c3 where resync: "maybe_queue_resync e (s2, c2) = Some (s3, c3)" "server_same s2 s3" "conn_inv (s3, c3)"
    "link_ok c2 c3"
    by (rule maybe_resync_ok [OF drive(3) open2, of e])
  consider "status < 0" | "\<not> status < 0" "\<not> ok" | "\<not> status < 0" "ok" by blast
  then show "\<exists>s' c'. on_client_write e slot status (s, c) = Some ((), s', c') \<and> server_same s s' \<and> conn_inv (s', c')
      \<and> link_ok c c'"
  proof cases
    case 1
    then show ?thesis
      using rel(1) inv1 link1 by (simp add: on_client_write_def link_ok_close_after)
  next
    case 2
    then show ?thesis
      using rel(1) drive link2 by (simp add: on_client_write_def link_ok_close_after)
  next
    case 3
    then show ?thesis
      using rel(1) drive(1) resync link_ok_trans [OF link2 resync(4)] server_same_trans [OF drive(2) resync(2)]
      by (simp add: on_client_write_def)
  qed
qed

context catalogue
begin

lemma on_client_read_handler: "connection_handler (on_client_read e sigs h r) (read_pre r)"
proof
  fix s c
  assume inv: "conn_inv (s, c)" and pre: "read_pre r c"
  show "\<exists>s' c'. on_client_read e sigs h r (s, c) = Some ((), s', c') \<and> server_same s s' \<and> conn_inv (s', c') \<and> link_ok c c'"
  proof (cases r)
    case Read_error
    with inv show ?thesis by (simp add: on_client_read_def)
  next
    case (Read_bytes bs)
    show ?thesis
    proof (cases "length bs = 0")
      case True
      with Read_bytes inv show ?thesis by (simp add: on_client_read_def)
    next
      case False
      let ?n = "c_input_length c"
      have len: "length (c_input c) = 4096" and n: "?n + length bs \<le> 4096"
        using conn_invD(2) [OF inv] pre False Read_bytes
        by (auto simp: session_inv_def read_pre_def allocate_client_input_def split: if_splits)
      let ?in = "take ?n (c_input c) @ bs @ drop (?n + length bs) (c_input c)"
      let ?c = "c\<lparr>c_input := ?in, c_input_length := ?n + length bs\<rparr>"
      have poke: "poke ?n bs (c_input c) = Some ?in"
        using n len by (simp add: poke_Some)
      have "conn_inv (s, ?c)"
        using conn_invD(2) [OF inv] n len by (intro conn_inv_update [OF inv]) (simp_all add: session_inv_def)
      then obtain ok s' c' where run: "process_client_input e sigs h (s, ?c) = Some (ok, s', c')"
        "server_same s s'" "conn_inv (s', c')" "keeps_peer ?c c'"
        using process_input_run [of s ?c e h] by blast
      have "link_ok c c'"
        using run(4) pre by (auto simp: link_ok_def keeps_peer_def read_pre_def)
      with Read_bytes False poke run show ?thesis
        by (simp add: on_client_read_def link_ok_close_after)
    qed
  qed
qed

end

end
