(* ===== verification/Distribution.thy ===== *)
theory Distribution
  imports Daemon_Handlers "HOL-Library.Sublist"
begin

text \<open>
  From a new sample to the subscribers, \<^verbatim>\<open>src/roadcastd.c\<close>: \<^verbatim>\<open>reconcile_signal_timestamps\<close> and
  \<^verbatim>\<open>distribute_latest_sample\<close>, in the phases the function has: which frames changed, the signals of those
  frames decoded again, explicit invalid flags, timestamps, which signals changed, the batches serialised
  once, and the broadcast.  The sample (frames, sequence, timestamp) is what \<^verbatim>\<open>sampler_read_latest\<close> copied
  out of the sampler.
\<close>

section \<open>Timestamps\<close>

text \<open>The body of the loop of \<^verbatim>\<open>reconcile_signal_timestamps\<close>.\<close>

definition reconcile_signal :: "u64 \<Rightarrow> roadcast_signal_value \<Rightarrow> roadcast_signal_value \<Rightarrow> roadcast_signal_value" where
  "reconcile_signal timestamp_ns canonical latest =
    (if sv_state latest = ROADCAST_OBSERVATION_UNAVAILABLE
     then if sv_first_observed_ns canonical \<noteq> 0
       then latest\<lparr>sv_first_observed_ns := sv_first_observed_ns canonical,
         sv_last_change_ns := sv_last_change_ns canonical, sv_raw := sv_raw canonical,
         sv_physical := sv_physical canonical\<rparr>
       else latest\<lparr>sv_first_observed_ns := 0, sv_last_change_ns := 0\<rparr>
     else if sv_first_observed_ns canonical \<noteq> 0
     then latest\<lparr>sv_first_observed_ns := sv_first_observed_ns canonical,
       sv_last_change_ns := (if sv_raw latest = sv_raw canonical \<and> sv_state latest = sv_state canonical
         then sv_last_change_ns canonical else timestamp_ns)\<rparr>
     else if sv_state latest = ROADCAST_OBSERVATION_VALID
     then latest\<lparr>sv_first_observed_ns := timestamp_ns, sv_last_change_ns := timestamp_ns\<rparr>
     else latest\<lparr>sv_first_observed_ns := 0, sv_last_change_ns := 0\<rparr>)"

definition reconcile_signal_timestamps ::
    "roadcast_signal_value list \<Rightarrow> roadcast_signal_value list \<Rightarrow> u64 \<Rightarrow> roadcast_signal_value list option" where
  "reconcile_signal_timestamps latest canonical timestamp_ns =
     for_loop 0 ROADCAST_SIGNAL_COUNT (\<lambda>i latest. do {
       l \<leftarrow> rd latest i;
       c \<leftarrow> rd canonical i;
       poke i [reconcile_signal timestamp_ns c l] latest }) latest"

section \<open>Incremental decoding\<close>

definition decode_changed_signal ::
    "bool \<Rightarrow> roadcast_signal_definition list \<Rightarrow> bool list \<Rightarrow> roadcast_frame list \<Rightarrow> nat
      \<Rightarrow> roadcast_signal_value list \<Rightarrow> roadcast_signal_value list option" where
  "decode_changed_signal fc sigs frame_changed latest i latest_signals = do {
     def \<leftarrow> rd sigs i;
     changed \<leftarrow> rd frame_changed (unat (sd_frame_index def));
     if \<not> changed then Some latest_signals
     else do {
       frame \<leftarrow> rd latest (unat (sd_frame_index def));
       raw \<leftarrow> roadcast_decode_signal_raw def (f_data frame);
       physical \<leftarrow> roadcast_decode_signal_physical fc def raw;
       v \<leftarrow> rd latest_signals i;
       poke i [v\<lparr>sv_raw := raw, sv_physical := physical, sv_state := f_state frame,
         sv_calibrated := sd_calibrated def\<rparr>] latest_signals } }"

definition mark_changed_invalid ::
    "roadcast_signal_definition list \<Rightarrow> bool list \<Rightarrow> nat
      \<Rightarrow> roadcast_signal_value list \<Rightarrow> roadcast_signal_value list option" where
  "mark_changed_invalid sigs frame_changed i latest_signals = do {
     def \<leftarrow> rd sigs i;
     let inv = sd_invalid_signal_index def;
     if inv = UINT32_MAX then Some latest_signals
     else do {
       own \<leftarrow> rd frame_changed (unat (sd_frame_index def));
       flag_def \<leftarrow> rd sigs (unat inv);
       other \<leftarrow> rd frame_changed (unat (sd_frame_index flag_def));
       if \<not> (own \<or> other) then Some latest_signals
       else do {
         v \<leftarrow> rd latest_signals i;
         w \<leftarrow> rd latest_signals (unat inv);
         if sv_state v = ROADCAST_OBSERVATION_VALID \<and> sv_raw w \<noteq> 0
         then poke i [v\<lparr>sv_state := ROADCAST_OBSERVATION_INVALID\<rparr>] latest_signals
         else Some latest_signals } } }"

definition update_signals ::
    "bool \<Rightarrow> roadcast_signal_definition list \<Rightarrow> bool list \<Rightarrow> roadcast_frame list \<Rightarrow> u64
      \<Rightarrow> roadcast_signal_value list \<Rightarrow> roadcast_signal_value list option" where
  "update_signals fc sigs frame_changed latest timestamp_ns signals = do {
     latest_signals \<leftarrow> for_loop 0 ROADCAST_SIGNAL_COUNT (decode_changed_signal fc sigs frame_changed latest) signals;
     latest_signals \<leftarrow> for_loop 0 ROADCAST_SIGNAL_COUNT (mark_changed_invalid sigs frame_changed) latest_signals;
     reconcile_signal_timestamps latest_signals signals timestamp_ns }"

section \<open>Serialising and broadcasting\<close>

text \<open>
  The chunk loops of \<^verbatim>\<open>distribute_latest_sample\<close>: \<open>enc offset count\<close> serialises one chunk, \<open>room\<close> is the
  size of the chunk array, and a chunk beyond it would be an out-of-bounds write.
\<close>

function build_chunks ::
    "nat \<Rightarrow> nat \<Rightarrow> (nat \<Rightarrow> nat \<Rightarrow> (nat \<times> bytes) option) \<Rightarrow> nat \<Rightarrow> nat \<Rightarrow> (nat \<times> bytes) list
      \<Rightarrow> (nat \<times> bytes) list option" where
  "build_chunks room per enc offset count chunks =
    (if offset < count \<and> 0 < per then do {
       let chunk_count = min (count - offset) per;
       chunk \<leftarrow> enc offset chunk_count;
       if length chunks \<ge> room then None
       else build_chunks room per enc (offset + chunk_count) count (chunks @ [chunk]) }
     else Some chunks)"
  by pat_completeness auto
termination
  by (relation "measure (\<lambda>(room, per, enc, offset, count, chunks). count - offset)") auto

declare build_chunks.simps [simp del]

fun send_chunks :: "env \<Rightarrow> u16 \<Rightarrow> u64 \<Rightarrow> u64 \<Rightarrow> (nat \<times> bytes) list \<Rightarrow> conn \<Rightarrow> conn option" where
  "send_chunks e ty sequence timestamp_ns [] sc = Some sc"
| "send_chunks e ty sequence timestamp_ns ((len, payload) # chunks) (s, c) =
    (if \<not> c_active c \<or> c_needs_resync c then Some (s, c)
     else if len = 0 then Some (s, client_close c)
     else do {
       (ok, s, c) \<leftarrow> client_queue_message e ty sequence timestamp_ns payload len True (s, c);
       if \<not> ok then Some (s, client_close c)
       else send_chunks e ty sequence timestamp_ns chunks (s, c) })"

definition broadcast_to ::
    "env \<Rightarrow> u64 \<Rightarrow> (nat \<times> bytes) list \<Rightarrow> (nat \<times> bytes) list \<Rightarrow> conn \<Rightarrow> (unit \<times> conn) option" where
  "broadcast_to e timestamp_ns frame_chunks signal_chunks = (\<lambda>(s, c).
     if \<not> c_active c \<or> \<not> c_subscribed c \<or> c_needs_resync c then Some ((), s, c)
     else do {
       (s, c) \<leftarrow> send_chunks e ROADCAST_MSG_UPDATE_BATCH (s_change_sequence s) timestamp_ns frame_chunks (s, c);
       if \<not> c_active c \<or> c_needs_resync c then Some ((), s, c)
       else do {
         (s, c) \<leftarrow> send_chunks e ROADCAST_MSG_SIGNAL_UPDATE_BATCH (s_change_sequence s) timestamp_ns signal_chunks (s, c);
         Some ((), s, c) } })"

definition is_subscriber :: "client \<Rightarrow> bool" where
  "is_subscriber c \<longleftrightarrow> c_active c \<and> c_subscribed c \<and> \<not> c_needs_resync c"

definition count_ticks :: "u64 \<Rightarrow> server \<Rightarrow> server" where
  "count_ticks elapsed_ticks s = s\<lparr>s_coalesced_samples := s_coalesced_samples s + (elapsed_ticks - 1),
     s_stats := (s_stats s)\<lparr>st_ticks := st_ticks (s_stats s) + elapsed_ticks,
       st_coalesced_samples := st_coalesced_samples (s_stats s) + (elapsed_ticks - 1)\<rparr>\<rparr>"

definition store_sample ::
    "roadcast_frame list \<Rightarrow> roadcast_signal_value list \<Rightarrow> u64 \<Rightarrow> u64 \<Rightarrow> server \<Rightarrow> server" where
  "store_sample frames signals sequence timestamp_ns s =
     count_ticks (sequence - s_sample_sequence s) (s\<lparr>s_frames := frames, s_signals := signals,
       s_sample_sequence := sequence, s_sample_timestamp_ns := timestamp_ns\<rparr>)"

definition count_changes :: "nat \<Rightarrow> server \<Rightarrow> server" where
  "count_changes changed_count s = s\<lparr>s_change_sequence := s_change_sequence s + 1,
     s_stats := (s_stats s)\<lparr>st_changed_frames := st_changed_frames (s_stats s) + of_nat changed_count\<rparr>\<rparr>"

definition count_chunks :: "nat \<Rightarrow> server \<Rightarrow> server" where
  "count_chunks n s = s\<lparr>s_stats := (s_stats s)\<lparr>st_serialized_chunks := st_serialized_chunks (s_stats s) + of_nat n\<rparr>\<rparr>"

definition distribute_latest_sample ::
    "env \<Rightarrow> bool \<Rightarrow> roadcast_signal_definition list \<Rightarrow> roadcast_frame list \<times> u64 \<times> u64 \<Rightarrow> server \<Rightarrow> server option" where
  "distribute_latest_sample e fc sigs = (\<lambda>(latest, sequence, timestamp_ns) s.
     if sequence \<le> s_sample_sequence s then Some s
     else do {
       (changed, changed_count) \<leftarrow> collect_changed frame_differs ROADCAST_FRAME_COUNT latest (s_frames s)
         (replicate ROADCAST_FRAME_COUNT 0 :: u16 list);
       let frame_changed = map2 frame_differs latest (s_frames s);
       if changed_count = 0 then Some (store_sample latest (s_signals s) sequence timestamp_ns s)
       else do {
         latest_signals \<leftarrow> update_signals fc sigs frame_changed latest timestamp_ns (s_signals s);
         (changed_signals, changed_signal_count) \<leftarrow> collect_changed signal_differs ROADCAST_SIGNAL_COUNT
           latest_signals (s_signals s) (replicate ROADCAST_SIGNAL_COUNT 0 :: u32 list);
         let s = count_changes changed_count (store_sample latest latest_signals sequence timestamp_ns s);
         if \<not> list_ex is_subscriber (s_clients s) then Some s
         else do {
           frame_chunks \<leftarrow> build_chunks FRAME_BATCH_CHUNKS FRAMES_PER_MESSAGE (\<lambda>offset count.
             roadcast_encode_frame_batch (replicate PAYLOAD_CAP 0) PAYLOAD_CAP sequence
               (of_nat ROADCAST_FRAME_COUNT) UINT32_MAX (s_frames s) (Some (drop offset changed)) count)
             0 changed_count [];
           signal_chunks \<leftarrow> build_chunks SIGNAL_BATCH_CHUNKS SIGNALS_PER_MESSAGE (\<lambda>offset count.
             roadcast_encode_signal_batch (replicate PAYLOAD_CAP 0) PAYLOAD_CAP sequence
               (of_nat ROADCAST_SIGNAL_COUNT) UINT32_MAX (s_signals s) (Some (drop offset changed_signals)) count)
             0 changed_signal_count [];
           for_clients (broadcast_to e timestamp_ns frame_chunks signal_chunks)
             (count_chunks (length frame_chunks + length signal_chunks) s) } } })"

section \<open>The reference: decode everything, then reconcile\<close>

text \<open>
  A stored value \<open>v\<close> agrees with the value \<open>w\<close> a full decode gives: the same state, and the same value unless
  the signal is unavailable after it has been observed, when the last observed value is kept.
\<close>

definition signal_agrees :: "roadcast_signal_value \<Rightarrow> roadcast_signal_value \<Rightarrow> bool" where
  "signal_agrees w v \<longleftrightarrow> sv_state v = sv_state w \<and> sv_calibrated v = sv_calibrated w
     \<and> (sv_state w = ROADCAST_OBSERVATION_UNAVAILABLE \<and> sv_first_observed_ns v \<noteq> 0
        \<or> sv_raw v = sv_raw w \<and> sv_physical v = sv_physical w)"

definition signals_agree ::
    "bool \<Rightarrow> roadcast_signal_definition list \<Rightarrow> roadcast_frame list \<Rightarrow> roadcast_signal_value list \<Rightarrow> bool" where
  "signals_agree fc sigs frames vs \<longleftrightarrow>
     (case roadcast_decode_signals fc sigs frames (replicate ROADCAST_SIGNAL_COUNT zero_signal) of
        None \<Rightarrow> False
      | Some ws \<Rightarrow> list_all2 signal_agrees ws vs)"

lemma reconcile_agrees: "signal_agrees w (reconcile_signal t c w)"
  by (simp add: signal_agrees_def reconcile_signal_def)

text \<open>The stored timestamps of the decoded value do not matter: the reconciliation sets both.\<close>

lemma reconcile_times:
  "reconcile_signal t c (v\<lparr>sv_raw := sv_raw w, sv_physical := sv_physical w, sv_state := sv_state w,
     sv_calibrated := sv_calibrated w\<rparr>) = reconcile_signal t c w"
  by (simp add: reconcile_signal_def)

lemma reconcile_unchanged: "signal_agrees w v \<Longrightarrow> reconcile_signal t v v = reconcile_signal t v w"
  by (cases v; cases w) (auto simp: signal_agrees_def reconcile_signal_def)

lemma reconcile_loop:
  assumes "length latest = ROADCAST_SIGNAL_COUNT" and "length canonical = ROADCAST_SIGNAL_COUNT"
  shows "reconcile_signal_timestamps latest canonical t = Some (map2 (reconcile_signal t) canonical latest)"
proof -
  have "reconcile_signal_timestamps latest canonical t
      = Some (map (\<lambda>i. reconcile_signal t (canonical ! i) (latest ! i)) [0..<815])"
    unfolding reconcile_signal_timestamps_def
    by (rule for_loop_update) (use assms in \<open>simp_all add: rd_Some\<close>)
  also have "map (\<lambda>i. reconcile_signal t (canonical ! i) (latest ! i)) [0..<815]
      = map2 (reconcile_signal t) canonical latest"
    by (rule nth_equalityI) (simp_all add: assms)
  finally show ?thesis .
qed

text \<open>The sizes the daemon's arrays are declared with are those of the catalogue.\<close>

locale sized_catalogue = catalogue +
  assumes sizes: "length ids = ROADCAST_FRAME_COUNT" "length sigs = ROADCAST_SIGNAL_COUNT"
begin

lemma full_decode:
  assumes "frames_ok ids frames"
  obtains ws where "roadcast_decode_signals fc sigs frames (replicate ROADCAST_SIGNAL_COUNT zero_signal) = Some ws"
    and "length ws = ROADCAST_SIGNAL_COUNT"
    and "\<And>i. i < ROADCAST_SIGNAL_COUNT \<Longrightarrow> value_agrees fc frames (sigs ! i) (ws ! i)"
    and "\<And>i. i < ROADCAST_SIGNAL_COUNT \<Longrightarrow> sv_state (ws ! i) = signal_state sigs frames (sigs ! i)"
  by (rule decode_signals_ok [OF assms, of "replicate ROADCAST_SIGNAL_COUNT zero_signal" fc])
    (auto simp: sizes intro: that)

lemma decode_raw_of:
  assumes "frames_ok ids frames" and "i < ROADCAST_SIGNAL_COUNT" and "value_agrees fc frames (sigs ! i) w"
  shows "roadcast_decode_signal_raw (sigs ! i) (f_data (frame_of frames (sigs ! i))) = Some (sv_raw w)"
proof -
  have d: "signal_ok ids (length sigs) (sigs ! i)"
    using signal_ok_nth assms(2) sizes by simp
  obtain r where "roadcast_decode_signal_raw (sigs ! i) (f_data (frame_of frames (sigs ! i))) = Some r"
      "unat r = raw_of frames (sigs ! i)"
    using decode_signal_raw_nat [OF d frame_of_ok(2) [OF d assms(1)]] .
  with assms(3) show ?thesis
    by (auto simp: value_agrees_def word_unat_eq_iff)
qed

text \<open>A value decoded afresh, its timestamps still those stored.\<close>

lemma decode_changed_loop:
  assumes frames: "frames_ok ids frames" and ws: "\<And>i. i < ROADCAST_SIGNAL_COUNT \<Longrightarrow> value_agrees fc frames (sigs ! i) (ws ! i)"
    and chg: "length frame_changed = ROADCAST_FRAME_COUNT" and len: "length vs = ROADCAST_SIGNAL_COUNT"
  shows "for_loop 0 ROADCAST_SIGNAL_COUNT (decode_changed_signal fc sigs frame_changed frames) vs
    = Some (map (\<lambda>i. if frame_changed ! unat (sd_frame_index (sigs ! i))
        then (vs ! i)\<lparr>sv_raw := sv_raw (ws ! i), sv_physical := sv_physical (ws ! i),
          sv_state := f_state (frame_of frames (sigs ! i)), sv_calibrated := sv_calibrated (ws ! i)\<rparr>
        else vs ! i) [0..<ROADCAST_SIGNAL_COUNT])"
proof (rule for_loop_update [OF len])
  fix k us
  assume k: "k < 815" and us: "length us = 815" and
    "\<And>j. j < 815 \<Longrightarrow> us ! j = (if j < k then if frame_changed ! unat (sd_frame_index (sigs ! j))
        then (vs ! j)\<lparr>sv_raw := sv_raw (ws ! j), sv_physical := sv_physical (ws ! j),
          sv_state := f_state (frame_of frames (sigs ! j)), sv_calibrated := sv_calibrated (ws ! j)\<rparr>
        else vs ! j else vs ! j)"
  then have uk: "us ! k = vs ! k" by simp
  have f: "unat (sd_frame_index (sigs ! k)) < 111"
    using frame_index_less [of k] k sizes by simp
  note defined = rd_Some [of k sigs] rd_Some [of "unat (sd_frame_index (sigs ! k))" frame_changed]
    rd_Some [of "unat (sd_frame_index (sigs ! k))" frames] rd_Some [of k us]
    decode_raw_of [OF frames k ws [OF k]]
  have fl: "length frames = 111"
    using frames sizes by (simp add: frames_ok_def)
  show "decode_changed_signal fc sigs frame_changed frames k us = Some (us[k :=
      if frame_changed ! unat (sd_frame_index (sigs ! k))
        then (vs ! k)\<lparr>sv_raw := sv_raw (ws ! k), sv_physical := sv_physical (ws ! k),
          sv_state := f_state (frame_of frames (sigs ! k)), sv_calibrated := sv_calibrated (ws ! k)\<rparr>
        else vs ! k])"
    using f fl chg k us sizes ws [OF k] uk list_update_id [of us k]
    by (simp add: decode_changed_signal_def defined value_agrees_def)
qed

lemma mark_changed_loop:
  assumes frames: "frames_ok ids frames" and ws: "\<And>i. i < ROADCAST_SIGNAL_COUNT \<Longrightarrow> value_agrees fc frames (sigs ! i) (ws ! i)"
    and state: "\<And>i. i < ROADCAST_SIGNAL_COUNT \<Longrightarrow> sv_state (ws ! i) = signal_state sigs frames (sigs ! i)"
    and chg: "length frame_changed = ROADCAST_FRAME_COUNT" and len: "length vs = ROADCAST_SIGNAL_COUNT"
  shows "for_loop 0 ROADCAST_SIGNAL_COUNT (mark_changed_invalid sigs frame_changed)
      (map (\<lambda>i. if frame_changed ! unat (sd_frame_index (sigs ! i))
        then (vs ! i)\<lparr>sv_raw := sv_raw (ws ! i), sv_physical := sv_physical (ws ! i),
          sv_state := f_state (frame_of frames (sigs ! i)), sv_calibrated := sv_calibrated (ws ! i)\<rparr>
        else vs ! i) [0..<ROADCAST_SIGNAL_COUNT])
    = Some (map (\<lambda>i. if frame_changed ! unat (sd_frame_index (sigs ! i))
        then (vs ! i)\<lparr>sv_raw := sv_raw (ws ! i), sv_physical := sv_physical (ws ! i),
          sv_state := sv_state (ws ! i), sv_calibrated := sv_calibrated (ws ! i)\<rparr>
        else vs ! i) [0..<ROADCAST_SIGNAL_COUNT])"
    (is "for_loop 0 _ _ (map ?g _) = Some (map ?h _)")
proof (rule for_loop_update)
  fix k us
  assume k: "k < 815" and us: "length us = 815"
    and I: "\<And>j. j < 815 \<Longrightarrow> us ! j = (if j < k then ?h j else map ?g [0..<815] ! j)"
  have uk: "us ! k = ?g k"
    using I k by simp
  have f: "unat (sd_frame_index (sigs ! k)) < 111"
    using frame_index_less [of k] k sizes by simp
  show "mark_changed_invalid sigs frame_changed k us = Some (us[k := ?h k])"
  proof (cases "sd_invalid_signal_index (sigs ! k) = UINT32_MAX")
    case True
    then have "?h k = us ! k"
      using state [OF k] uk by (simp add: signal_state_def)
    with True show ?thesis
      using k us sizes list_update_id [of us k] by (simp add: mark_changed_invalid_def rd_Some)
  next
    case False
    let ?j = "unat (sd_invalid_signal_index (sigs ! k))"
    have j: "?j < 815" "sd_frame_index (sigs ! ?j) = sd_frame_index (sigs ! k)"
      using False invalid_index_less [of k] invalid_frame [of k] k sizes by auto
    have raw: "frame_changed ! unat (sd_frame_index (sigs ! k)) \<Longrightarrow> sv_raw (us ! ?j) = sv_raw (ws ! ?j)"
      using I [of ?j] j by simp
    have flag: "sv_raw (ws ! ?j) = 0 \<longleftrightarrow> raw_of frames (sigs ! ?j) = 0"
      using ws [OF j(1)] by (auto simp: value_agrees_def unat_eq_0)
    show ?thesis
      using False f chg k us sizes j uk raw flag state [OF k] list_update_id [of us k]
      by (cases "vs ! k") (auto simp: mark_changed_invalid_def rd_Some signal_state_def Let_def)
  qed
qed (simp add: len)

end

context sized_catalogue
begin

text \<open>A signal whose frame has not changed decodes to the same value.\<close>

lemma decode_unchanged:
  assumes i: "i < ROADCAST_SIGNAL_COUNT" and same: "\<not> frame_differs (frame_of new (sigs ! i)) (frame_of old (sigs ! i))"
    and v: "value_agrees fc old (sigs ! i) v" "sv_state v = signal_state sigs old (sigs ! i)"
    and w: "value_agrees fc new (sigs ! i) w" "sv_state w = signal_state sigs new (sigs ! i)"
  shows "sv_raw w = sv_raw v" "sv_physical w = sv_physical v" "sv_state w = sv_state v" "sv_calibrated w = sv_calibrated v"
proof -
  have f: "f_data (frame_of new (sigs ! i)) = f_data (frame_of old (sigs ! i))"
    "f_state (frame_of new (sigs ! i)) = f_state (frame_of old (sigs ! i))"
    using same by (auto simp: frame_differs_def)
  show raw: "sv_raw w = sv_raw v"
    using v(1) w(1) f by (simp add: value_agrees_def word_unat_eq_iff)
  show "sv_physical w = sv_physical v" "sv_calibrated w = sv_calibrated v"
    using v(1) w(1) raw by (auto simp: value_agrees_def)
  have "sd_invalid_signal_index (sigs ! i) = UINT32_MAX
      \<or> sd_frame_index (sigs ! unat (sd_invalid_signal_index (sigs ! i))) = sd_frame_index (sigs ! i)"
    using invalid_frame [of i] i sizes by auto
  then show "sv_state w = sv_state v"
    using v(2) w(2) f by (auto simp: signal_state_def)
qed

lemma update_signals_eq:
  assumes new: "frames_ok ids latest" and old: "frames_ok ids frames" and agree: "signals_agree fc sigs frames vs"
    and full: "roadcast_decode_signals fc sigs latest (replicate ROADCAST_SIGNAL_COUNT zero_signal) = Some ws"
  shows "update_signals fc sigs (map2 frame_differs latest frames) latest t vs = Some (map2 (reconcile_signal t) vs ws)"
    and "length ws = ROADCAST_SIGNAL_COUNT" and "length vs = ROADCAST_SIGNAL_COUNT"
proof -
  let ?chg = "map2 frame_differs latest frames"
  let ?idx = "\<lambda>i. unat (sd_frame_index (sigs ! i))"
  obtain ws0 where ws0: "roadcast_decode_signals fc sigs frames (replicate 815 zero_signal) = Some ws0"
    "length ws0 = 815" "\<And>i. i < 815 \<Longrightarrow> value_agrees fc frames (sigs ! i) (ws0 ! i)"
    "\<And>i. i < 815 \<Longrightarrow> sv_state (ws0 ! i) = signal_state sigs frames (sigs ! i)"
    by (rule full_decode [OF old, of fc]) blast
  obtain ws' where "roadcast_decode_signals fc sigs latest (replicate 815 zero_signal) = Some ws'"
    "length ws' = 815" "\<And>i. i < 815 \<Longrightarrow> value_agrees fc latest (sigs ! i) (ws' ! i)"
    "\<And>i. i < 815 \<Longrightarrow> sv_state (ws' ! i) = signal_state sigs latest (sigs ! i)"
    by (rule full_decode [OF new, of fc]) blast
  with full have ws: "length ws = 815" "\<And>i. i < 815 \<Longrightarrow> value_agrees fc latest (sigs ! i) (ws ! i)"
    "\<And>i. i < 815 \<Longrightarrow> sv_state (ws ! i) = signal_state sigs latest (sigs ! i)"
    by auto
  show "length ws = ROADCAST_SIGNAL_COUNT" by (rule ws(1))
  have vs: "length vs = 815" "\<And>i. i < 815 \<Longrightarrow> signal_agrees (ws0 ! i) (vs ! i)"
    using agree ws0(1,2) by (auto simp: signals_agree_def list_all2_conv_all_nth)
  show "length vs = ROADCAST_SIGNAL_COUNT" by (rule vs(1))
  have fl: "length latest = 111" "length frames = 111"
    using new old sizes by (auto simp: frames_ok_def)
  then have chg: "length ?chg = 111" by simp
  let ?h = "\<lambda>i. if ?chg ! ?idx i
        then (vs ! i)\<lparr>sv_raw := sv_raw (ws ! i), sv_physical := sv_physical (ws ! i),
          sv_state := sv_state (ws ! i), sv_calibrated := sv_calibrated (ws ! i)\<rparr>
        else vs ! i"
  have "update_signals fc sigs ?chg latest t vs = reconcile_signal_timestamps (map ?h [0..<815]) vs t"
    unfolding update_signals_def
    by (simp only: decode_changed_loop [OF new ws(2) chg vs(1)] mark_changed_loop [OF new ws(2,3) chg vs(1)]
        Option.bind.bind_lunit)
  also have "\<dots> = Some (map2 (reconcile_signal t) vs (map ?h [0..<815]))"
    by (rule reconcile_loop) (simp_all add: vs(1))
  also have "map2 (reconcile_signal t) vs (map ?h [0..<815]) = map2 (reconcile_signal t) vs ws"
  proof (rule nth_equalityI)
    fix i
    assume "i < length (map2 (reconcile_signal t) vs (map ?h [0..<815]))"
    then have i: "i < 815" using vs(1) by simp
    have f: "?idx i < 111"
      using frame_index_less [of i] i sizes by simp
    have "reconcile_signal t (vs ! i) (?h i) = reconcile_signal t (vs ! i) (ws ! i)"
    proof (cases "?chg ! ?idx i")
      case True
      then show ?thesis by (simp add: reconcile_times)
    next
      case False
      then have "\<not> frame_differs (frame_of latest (sigs ! i)) (frame_of frames (sigs ! i))"
        using f fl by simp
      from decode_unchanged [OF i this ws0(3,4) [OF i] ws(2,3) [OF i]]
      have "signal_agrees (ws ! i) (vs ! i)"
        using vs(2) [OF i] by (simp add: signal_agrees_def)
      with False show ?thesis by (simp add: reconcile_unchanged)
    qed
    then show "map2 (reconcile_signal t) vs (map ?h [0..<815]) ! i = map2 (reconcile_signal t) vs ws ! i"
      using i vs(1) ws(1) by (simp split del: if_split cong: if_cong)
  qed (simp add: vs(1) ws(1))
  finally show "update_signals fc sigs ?chg latest t vs = Some (map2 (reconcile_signal t) vs ws)" .
qed

lemma reconciled_agree:
  assumes "roadcast_decode_signals fc sigs frames (replicate ROADCAST_SIGNAL_COUNT zero_signal) = Some ws"
    and "length vs = length ws"
  shows "signals_agree fc sigs frames (map2 (reconcile_signal t) vs ws)"
  using assms by (simp add: signals_agree_def list_all2_conv_all_nth reconcile_agrees)

end

section \<open>Chunks\<close>

text \<open>The spans (offset and size) of the chunks, \<open>per\<close> entries at most in each.\<close>

function chunk_spans :: "nat \<Rightarrow> nat \<Rightarrow> nat \<Rightarrow> (nat \<times> nat) list" where
  "chunk_spans per offset count = (if offset < count \<and> 0 < per
     then (offset, min (count - offset) per) # chunk_spans per (offset + min (count - offset) per) count else [])"
  by pat_completeness auto
termination
  by (relation "measure (\<lambda>(per, offset, count). count - offset)") auto

declare chunk_spans.simps [simp del]

lemma chunk_spans_bounds:
  "(k, n) \<in> set (chunk_spans per offset count) \<Longrightarrow> offset \<le> k \<and> k + n \<le> count \<and> 0 < n \<and> n \<le> per"
proof (induction per offset count rule: chunk_spans.induct)
  case (1 per offset count)
  then show ?case
    by (subst (asm) (2) chunk_spans.simps) (fastforce split: if_splits)
qed

lemma chunk_spans_number:
  assumes "0 < per"
  shows "length (chunk_spans per offset count) * per < count - offset + per"
  using assms
proof (induction per offset count rule: chunk_spans.induct)
  case (1 per offset count)
  show ?case
  proof (cases "offset < count")
    case True
    then have "length (chunk_spans per (offset + min (count - offset) per) count) * per
        < count - (offset + min (count - offset) per) + per"
      using 1 by simp
    with True "1.prems" show ?thesis
      by (subst chunk_spans.simps) (auto simp: min_def split: if_splits)
  qed (use "1.prems" in \<open>subst chunk_spans.simps, simp\<close>)
qed

text \<open>The spans cover the entries in order, without gap or overlap.\<close>

lemma chunk_spans_cover:
  assumes "0 < per" and "offset \<le> count"
  shows "concat (map (\<lambda>(k, n). take n (drop k xs)) (chunk_spans per offset count)) = take (count - offset) (drop offset xs)"
  using assms
proof (induction per offset count rule: chunk_spans.induct)
  case (1 per offset count)
  show ?case
  proof (cases "offset < count")
    case True
    let ?n = "min (count - offset) per"
    have "concat (map (\<lambda>(k, n). take n (drop k xs)) (chunk_spans per (offset + ?n) count))
        = take (count - (offset + ?n)) (drop (offset + ?n) xs)"
      using 1 True by simp
    moreover have "take (count - offset) (drop offset xs)
        = take ?n (drop offset xs) @ take (count - (offset + ?n)) (drop ?n (drop offset xs))"
    proof -
      have "?n + (count - (offset + ?n)) = count - offset" by auto
      with take_add [of ?n "count - (offset + ?n)" "drop offset xs"] show ?thesis by simp
    qed
    ultimately show ?thesis
      using True "1.prems" by (subst chunk_spans.simps) (simp add: add.commute)
  qed (use "1.prems" in \<open>subst chunk_spans.simps, simp\<close>)
qed

lemma build_chunks_spans:
  assumes "\<And>k n. (k, n) \<in> set (chunk_spans per offset count) \<Longrightarrow> enc k n = Some (f k n)"
    and "length chunks + length (chunk_spans per offset count) \<le> room"
  shows "build_chunks room per enc offset count chunks = Some (chunks @ map (\<lambda>(k, n). f k n) (chunk_spans per offset count))"
  using assms
proof (induction per offset count arbitrary: chunks rule: chunk_spans.induct)
  case (1 per offset count)
  show ?case
  proof (cases "offset < count \<and> 0 < per")
    case True
    let ?n = "min (count - offset) per"
    have spans: "chunk_spans per offset count = (offset, ?n) # chunk_spans per (offset + ?n) count"
      using True by (subst chunk_spans.simps) simp
    have "enc offset ?n = Some (f offset ?n)"
      using "1.prems"(1) spans by simp
    moreover have "length chunks < room"
      using "1.prems"(2) spans by simp
    moreover have "build_chunks room per enc (offset + ?n) count (chunks @ [f offset ?n])
        = Some ((chunks @ [f offset ?n]) @ map (\<lambda>(k, n). f k n) (chunk_spans per (offset + ?n) count))"
      by (rule "1.IH" [OF True]) (use "1.prems" spans in auto)
    ultimately show ?thesis
      using True spans by (subst build_chunks.simps) (simp add: Let_def)
  next
    case False
    then show ?thesis
      by (subst build_chunks.simps, subst chunk_spans.simps) auto
  qed
qed

section \<open>Broadcasting\<close>

definition chunk_message :: "u16 \<Rightarrow> u64 \<Rightarrow> u64 \<Rightarrow> nat \<times> bytes \<Rightarrow> bytes" where
  "chunk_message ty sequence timestamp_ns = (\<lambda>(len, payload). message_bytes ty sequence timestamp_ns (take len payload))"

definition chunk_ok :: "nat \<times> bytes \<Rightarrow> bool" where
  "chunk_ok = (\<lambda>(len, payload). 0 < len \<and> len \<le> length payload)"

text \<open>Several messages went out and nothing else of the client changed but its queue.\<close>

definition sent_all :: "bytes list \<Rightarrow> client \<Rightarrow> client \<Rightarrow> bool" where
  "sent_all msgs c c' \<longleftrightarrow> c' = c\<lparr>c_output := c_output c', c_pending_bytes := c_pending_bytes c',
     c_stream := c_stream c @ msgs\<rparr>"

lemma sent_all_Nil [simp]: "sent_all [] c c"
  by (simp add: sent_all_def)

lemma sent_all_Cons: "sent m c d \<Longrightarrow> sent_all ms d f \<Longrightarrow> sent_all (m # ms) c f"
  by (cases c; cases d; cases f) (simp add: sent_all_def sent_def)

lemma sent_all_append: "sent_all ms c d \<Longrightarrow> sent_all ns d f \<Longrightarrow> sent_all (ms @ ns) c f"
  by (cases c; cases d; cases f) (simp add: sent_all_def)

lemma sent_allD:
  assumes "sent_all msgs c c'"
  shows "c_stream c' = c_stream c @ msgs" and "c_active c' = c_active c" and "c_closing c' = c_closing c"
    and "c_peer_uid c' = c_peer_uid c" and "c_needs_resync c' = c_needs_resync c" and "c_subscribed c' = c_subscribed c"
  by (subst assms [unfolded sent_all_def], simp)+

text \<open>
  A run of chunks to one subscriber: all of them are accepted, or the client is closed, or it lost a batch
  and needs a resync; what was accepted is a prefix.
\<close>

lemma send_chunks_run:
  assumes "conn_inv (s, c)" and "c_active c" and "\<not> c_closing c" and "\<not> c_needs_resync c" and "list_all chunk_ok chunks"
  obtains (complete) s' c' where "send_chunks e ty sq ts chunks (s, c) = Some (s', c')" and "server_same s s'"
      and "conn_inv (s', c')" and "sent_all (map (chunk_message ty sq ts) chunks) c c'"
    | (stopped) s' c' msgs where "send_chunks e ty sq ts chunks (s, c) = Some (s', c')" and "server_same s s'"
      and "conn_inv (s', c')" and "link_ok c c'" and "\<not> c_active c' \<or> c_needs_resync c'"
      and "c_stream c' = c_stream c @ msgs" and "prefix msgs (map (chunk_message ty sq ts) chunks)"
  using assms
proof (induction chunks arbitrary: s c thesis)
  case Nil
  show ?case
    by (rule Nil.prems(1) [of s c]) (use Nil.prems in simp_all)
next
  case (Cons chunk chunks)
  obtain len payload where chunk: "chunk = (len, payload)" by (cases chunk)
  have len: "0 < len" "len \<le> length payload"
    using Cons.prems chunk by (auto simp: chunk_ok_def)
  let ?q = "client_queue_message e ty sq ts payload len True (s, c)"
  have unfold: "send_chunks e ty sq ts (chunk # chunks) (s, c) = Option.bind ?q (\<lambda>(ok, s, c).
      if \<not> ok then Some (s, client_close c) else send_chunks e ty sq ts chunks (s, c))"
    using chunk len(1) Cons.prems by simp
  show ?case
  proof (cases rule: queue_conn_cases [OF Cons.prems(3) len(2), of e ty sq ts True])
    case (1 s' c')
    have "keeps_peer c c'"
      using queue_onlyD [OF 1(3)] by (simp add: keeps_peer_def)
    then have "link_ok c (client_close c')"
      using Cons.prems(4) by (intro link_ok_close_after link_ok_peer) simp_all
    moreover have "\<not> c_active (client_close c')" "c_stream (client_close c') = c_stream c @ []"
      using queue_onlyD [OF 1(3)] Cons.prems(5) by (auto simp: client_close_def)
    ultimately show ?thesis
      using 1 unfold by (intro Cons.prems(2) [of s' "client_close c'" "[]"]) simp_all
  next
    case (2 s' now)
    have "send_chunks e ty sq ts chunks (s', dropped now c) = Some (s', dropped now c)"
      by (cases chunks) (auto simp: dropped_def)
    moreover have "link_ok c (dropped now c)"
      using Cons.prems(4) by (intro link_ok_peer) (simp_all add: keeps_peer_def dropped_def)
    ultimately show ?thesis
      using 2 unfold by (intro Cons.prems(2) [of s' "dropped now c" "[]"]) (simp_all add: dropped_def)
  next
    case (3 s' c')
    note same = sentD [OF 3(3)]
    have flags: "c_active c'" "\<not> c_closing c'" "\<not> c_needs_resync c'"
      using Cons.prems same by auto
    have msg: "chunk_message ty sq ts chunk = message_bytes ty sq ts (take len payload)"
      by (simp add: chunk_message_def chunk)
    have run: "send_chunks e ty sq ts (chunk # chunks) (s, c) = send_chunks e ty sq ts chunks (s', c')"
      using unfold 3(1) by simp
    have oks: "list_all chunk_ok chunks"
      using Cons.prems by simp
    show ?thesis
    proof (rule Cons.IH [OF _ _ 3(4) flags oks])
      fix s2 c2
      assume "send_chunks e ty sq ts chunks (s', c') = Some (s2, c2)" "server_same s' s2" "conn_inv (s2, c2)"
        "sent_all (map (chunk_message ty sq ts) chunks) c' c2"
      with run 3(2,3) show ?thesis
        by (intro Cons.prems(1) [of s2 c2])
          (auto simp: msg intro: sent_all_Cons server_same_trans)
    next
      fix s2 c2 msgs
      assume stop: "send_chunks e ty sq ts chunks (s', c') = Some (s2, c2)" "server_same s' s2" "conn_inv (s2, c2)"
        "link_ok c' c2" "\<not> c_active c2 \<or> c_needs_resync c2" "c_stream c2 = c_stream c' @ msgs"
        "prefix msgs (map (chunk_message ty sq ts) chunks)"
      have "link_ok c c'"
        using same Cons.prems(4) by (intro link_ok_peer) (simp_all add: keeps_peer_def)
      then have "link_ok c c2"
        using stop(4) by (rule link_ok_trans)
      moreover have "c_stream c' = c_stream c @ [chunk_message ty sq ts chunk]"
        using same msg by simp
      ultimately show ?thesis
        using run 3(2) stop
        by (intro Cons.prems(2) [of s2 c2 "chunk_message ty sq ts chunk # msgs"])
          (auto intro: server_same_trans)
    qed
  qed
qed

text \<open>The messages of one broadcast, frames before signals.\<close>

definition broadcast_messages :: "u64 \<Rightarrow> u64 \<Rightarrow> (nat \<times> bytes) list \<Rightarrow> (nat \<times> bytes) list \<Rightarrow> bytes list" where
  "broadcast_messages change_sequence timestamp_ns frame_chunks signal_chunks =
     map (chunk_message ROADCAST_MSG_UPDATE_BATCH change_sequence timestamp_ns) frame_chunks
     @ map (chunk_message ROADCAST_MSG_SIGNAL_UPDATE_BATCH change_sequence timestamp_ns) signal_chunks"

lemma broadcast_cases:
  assumes inv: "conn_inv (s, c)" and life: "\<not> (c_active c \<and> c_closing c)"
    and chunks: "list_all chunk_ok fcs" "list_all chunk_ok scs"
  obtains (skipped) "\<not> is_subscriber c" and "broadcast_to e ts fcs scs (s, c) = Some ((), s, c)"
    | (complete) s' c' where "is_subscriber c" and "broadcast_to e ts fcs scs (s, c) = Some ((), s', c')"
      and "server_same s s'" and "conn_inv (s', c')"
      and "sent_all (broadcast_messages (s_change_sequence s) ts fcs scs) c c'"
    | (stopped) s' c' msgs where "is_subscriber c" and "broadcast_to e ts fcs scs (s, c) = Some ((), s', c')"
      and "server_same s s'" and "conn_inv (s', c')" and "link_ok c c'" and "\<not> c_active c' \<or> c_needs_resync c'"
      and "c_stream c' = c_stream c @ msgs" and "prefix msgs (broadcast_messages (s_change_sequence s) ts fcs scs)"
proof (cases "is_subscriber c")
  case False
  then show thesis
    by (intro skipped) (auto simp: broadcast_to_def is_subscriber_def)
next
  case True
  then have sub: "c_active c" "c_subscribed c" "\<not> c_needs_resync c" "\<not> c_closing c"
    using life by (auto simp: is_subscriber_def)
  note C = complete [OF True] and S = stopped [OF True]
  let ?fm = "map (chunk_message ROADCAST_MSG_UPDATE_BATCH (s_change_sequence s) ts) fcs"
  let ?sm = "map (chunk_message ROADCAST_MSG_SIGNAL_UPDATE_BATCH (s_change_sequence s) ts) scs"
  have msgs: "broadcast_messages (s_change_sequence s) ts fcs scs = ?fm @ ?sm"
    by (simp add: broadcast_messages_def)
  show thesis
  proof (cases rule: send_chunks_run [OF inv sub(1,4,3) chunks(1), of e ROADCAST_MSG_UPDATE_BATCH
        "s_change_sequence s" ts])
    case (2 s1 c1 ms)
    then have "broadcast_to e ts fcs scs (s, c) = Some ((), s1, c1)"
      using sub by (auto simp: broadcast_to_def)
    with 2 show thesis
      by (intro S [of s1 c1 ms]) (auto simp: msgs)
  next
    case (1 s1 c1)
    note kept = sent_allD [OF 1(4)]
    have run: "broadcast_to e ts fcs scs (s, c) = Option.bind (send_chunks e ROADCAST_MSG_SIGNAL_UPDATE_BATCH
        (s_change_sequence s) ts scs (s1, c1)) (\<lambda>(s, c). Some ((), s, c))"
      using sub kept 1(1) by (simp add: broadcast_to_def server_sameD [OF 1(2)])
    have flags: "c_active c1" "\<not> c_closing c1" "\<not> c_needs_resync c1"
      using sub kept by auto
    show thesis
    proof (cases rule: send_chunks_run [OF 1(3) flags chunks(2), of e ROADCAST_MSG_SIGNAL_UPDATE_BATCH
          "s_change_sequence s" ts])
      case second: (1 s2 c2)
      with run 1 show thesis
        by (intro C [of s2 c2]) (auto simp: msgs intro: sent_all_append server_same_trans)
    next
      case second: (2 s2 c2 ms)
      have "link_ok c c1"
        using kept sub by (intro link_ok_peer) (simp_all add: keeps_peer_def)
      then have "link_ok c c2"
        using second(4) by (rule link_ok_trans)
      with run 1(2) kept second show thesis
        by (intro S [of s2 c2 "?fm @ ms"]) (auto simp: msgs intro: server_same_trans)
    qed
  qed
qed

text \<open>With room for every chunk nothing is dropped.\<close>

lemma accepting_keeps:
  assumes acc: "accepting e" and inv: "queue_inv s c" and free: "0 < free_slots s c" and act: "c_active c" and n: "n \<le> 2016"
    and run: "client_queue_message e ty sq ts p n d (s, c) = Some (ok, s', c')"
  shows "c_needs_resync c' = c_needs_resync c"
proof -
  have inv1: "queue_inv (called s) c" and free1: "0 < free_slots (called s) c"
    using inv free queue_inv_same [OF server_same_called] free_slots_same [OF server_same_called] by auto
  have "c_pending_bytes c + 2048 \<le> queue_byte_limit (called s)"
    using pending_bound [OF inv1] free1 by (cases "free_slots (called s) c") auto
  moreover obtain i where "find_output_slot (called s, c) = Some (Some i)"
    using find_output_slot_cases [OF inv1] free1 by (metis less_numeral_extra(3))
  moreover have "e_write_queue_size e k = 0" for k
    using acc by (auto simp: accepting_def)
  ultimately have "queue_write e i ty sq ts p n (called s, c) = Some (ok, s', c')"
    using act n run by (simp add: client_queue_message_def uv_stream_get_write_queue_size_def)
  then show ?thesis
    by (auto simp: queue_write_def Let_def split: Option.bind_splits if_splits)
qed

lemma send_chunks_accepted:
  assumes "accepting e" and "conn_inv (s, c)" and "c_active c" and "\<not> c_needs_resync c"
    and "\<forall>(len, payload) \<in> set chunks. 0 < len \<and> len \<le> length payload \<and> len \<le> 2016" and "length chunks \<le> free_slots s c"
  shows "\<exists>s' c'. send_chunks e ty sq ts chunks (s, c) = Some (s', c') \<and> server_same s s' \<and> conn_inv (s', c')
    \<and> sent_all (map (chunk_message ty sq ts) chunks) c c' \<and> free_slots s' c' + length chunks = free_slots s c"
  using assms(2-)
proof (induction chunks arbitrary: s c)
  case (Cons chunk chunks)
  obtain len payload where chunk: "chunk = (len, payload)" by (cases chunk)
  have len: "0 < len" "len \<le> length payload" "len \<le> 2016" and free: "0 < free_slots s c"
    using Cons.prems chunk by auto
  have q: "queue_inv s c"
    using Cons.prems(1) by (simp add: conn_inv_def)
  let ?q = "client_queue_message e ty sq ts payload len True (s, c)"
  have unfold: "send_chunks e ty sq ts (chunk # chunks) (s, c) = Option.bind ?q (\<lambda>(ok, s, c).
      if \<not> ok then Some (s, client_close c) else send_chunks e ty sq ts chunks (s, c))"
    using chunk len(1) Cons.prems by simp
  show ?case
  proof (cases rule: queue_conn_cases [OF Cons.prems(1) len(2), of e ty sq ts True])
    case (1 s' c')
    then show ?thesis
      using len(3) Cons.prems(2) assms(1) free by simp
  next
    case (2 s' now)
    then show ?thesis
      using accepting_keeps [OF assms(1) q free Cons.prems(2) len(3) 2(2)] Cons.prems(3) by (simp add: dropped_def)
  next
    case (3 s' c')
    have rest: "c_active c'" "\<not> c_needs_resync c'"
        "\<forall>(len, payload) \<in> set chunks. 0 < len \<and> len \<le> length payload \<and> len \<le> 2016" "length chunks \<le> free_slots s' c'"
      using sentD [OF 3(3)] Cons.prems 3(5) by simp_all
    obtain s2 c2 where r: "send_chunks e ty sq ts chunks (s', c') = Some (s2, c2)" "server_same s' s2" "conn_inv (s2, c2)"
        "sent_all (map (chunk_message ty sq ts) chunks) c' c2" "free_slots s2 c2 + length chunks = free_slots s' c'"
      using Cons.IH [OF 3(4) rest] by blast
    have "sent (chunk_message ty sq ts chunk) c c'"
      using 3(3) by (simp add: chunk_message_def chunk)
    then have "sent_all (map (chunk_message ty sq ts) (chunk # chunks)) c c2"
      using sent_all_Cons r(4) by simp
    moreover have "server_same s s2"
      by (rule server_same_trans [OF 3(2) r(2)])
    moreover have "send_chunks e ty sq ts (chunk # chunks) (s, c) = Some (s2, c2)"
      unfolding unfold 3(1) using r(1) by simp
    moreover have "free_slots s2 c2 + length (chunk # chunks) = free_slots s c"
      using r(5) 3(5) by simp
    ultimately show ?thesis
      using r(3) by blast
  qed
qed simp

lemma broadcast_accepted:
  assumes acc: "accepting e" and inv: "conn_inv (s, c)" and sub: "is_subscriber c"
    and chunks: "\<forall>(len, payload) \<in> set (fcs @ scs). 0 < len \<and> len \<le> length payload \<and> len \<le> 2016"
    and free: "length (fcs @ scs) \<le> free_slots s c" and run: "broadcast_to e ts fcs scs (s, c) = Some ((), s', c')"
  shows "sent_all (broadcast_messages (s_change_sequence s) ts fcs scs) c c'"
proof -
  have flags: "c_active c" "c_subscribed c" "\<not> c_needs_resync c"
    using sub by (auto simp: is_subscriber_def)
  obtain s1 c1 where 1: "send_chunks e ROADCAST_MSG_UPDATE_BATCH (s_change_sequence s) ts fcs (s, c) = Some (s1, c1)"
      "server_same s s1" "conn_inv (s1, c1)" "sent_all (map (chunk_message ROADCAST_MSG_UPDATE_BATCH (s_change_sequence s) ts) fcs) c c1"
      "free_slots s1 c1 + length fcs = free_slots s c"
    using send_chunks_accepted [OF acc inv flags(1,3), of fcs ROADCAST_MSG_UPDATE_BATCH "s_change_sequence s" ts] chunks free by auto
  note kept = sent_allD [OF 1(4)]
  obtain s2 c2 where 2: "send_chunks e ROADCAST_MSG_SIGNAL_UPDATE_BATCH (s_change_sequence s) ts scs (s1, c1) = Some (s2, c2)"
      "sent_all (map (chunk_message ROADCAST_MSG_SIGNAL_UPDATE_BATCH (s_change_sequence s) ts) scs) c1 c2"
    using send_chunks_accepted [OF acc 1(3), of scs ROADCAST_MSG_SIGNAL_UPDATE_BATCH "s_change_sequence s" ts] chunks free kept flags 1(5)
    by auto
  have "c' = c2"
    using run flags kept 1(1) 2(1) by (simp add: broadcast_to_def server_sameD [OF 1(2)])
  then show ?thesis
    using sent_all_append [OF 1(4) 2(2)] by (simp add: broadcast_messages_def)
qed

definition broadcast_pre :: "(nat \<times> bytes) list \<Rightarrow> (nat \<times> bytes) list \<Rightarrow> client \<Rightarrow> bool" where
  "broadcast_pre fcs scs c \<longleftrightarrow> \<not> (c_active c \<and> c_closing c) \<and> list_all chunk_ok fcs \<and> list_all chunk_ok scs"

interpretation broadcast: connection_handler "broadcast_to e ts fcs scs" "broadcast_pre fcs scs" for e ts fcs scs
proof
  fix s c
  assume inv: "conn_inv (s, c)" and pre: "broadcast_pre fcs scs c"
  then have life: "\<not> (c_active c \<and> c_closing c)" and ok: "list_all chunk_ok fcs" "list_all chunk_ok scs"
    by (auto simp: broadcast_pre_def)
  show "\<exists>s' c'. broadcast_to e ts fcs scs (s, c) = Some ((), s', c') \<and> server_same s s' \<and> conn_inv (s', c') \<and> link_ok c c'"
  proof (cases rule: broadcast_cases [OF inv life ok, of e ts])
    case 1
    with inv show ?thesis by simp
  next
    case (2 s' c')
    have "link_ok c c'"
      using sent_allD [OF 2(5)] 2(1) by (intro link_ok_peer) (simp_all add: keeps_peer_def is_subscriber_def)
    with 2 show ?thesis by blast
  qed blast
qed

section \<open>Distribution\<close>

lemma server_inv_cong:
  assumes "server_inv s" and "s_clients s' = s_clients s" and "s_client_queue_slots s' = s_client_queue_slots s"
    and "server_data_wf s'"
  shows "server_inv s'"
  using assms by (simp add: server_inv_def conn_inv_def queue_inv_def active_clients_for_uid_def)

definition frame_chunk :: "roadcast_frame list \<Rightarrow> u64 \<Rightarrow> u16 list \<Rightarrow> nat \<Rightarrow> nat \<Rightarrow> nat \<times> bytes" where
  "frame_chunk fs sequence ix k n = (20 + n * 28,
     batch_bytes frame_record_bytes sequence (of_nat ROADCAST_FRAME_COUNT) UINT32_MAX
       (map (\<lambda>i. fs ! unat i) (take n (drop k ix))) @ replicate (2016 - (20 + n * 28)) 0)"

definition signal_chunk :: "roadcast_signal_value list \<Rightarrow> u64 \<Rightarrow> u32 list \<Rightarrow> nat \<Rightarrow> nat \<Rightarrow> nat \<times> bytes" where
  "signal_chunk vs sequence ix k n = (20 + n * 40,
     batch_bytes signal_record_bytes sequence (of_nat ROADCAST_SIGNAL_COUNT) UINT32_MAX
       (map (\<lambda>i. \<lparr>su_index = i, su_value = vs ! unat i\<rparr>) (take n (drop k ix))) @ replicate (2016 - (20 + n * 40)) 0)"

lemma frame_chunks_built:
  fixes sequence :: u64
  assumes fs: "frames_wf fs" and ix: "indices_wf ROADCAST_FRAME_COUNT ix count 0"
  defines "chunks \<equiv> map (\<lambda>(k, n). frame_chunk fs sequence ix k n) (chunk_spans FRAMES_PER_MESSAGE 0 count)"
  shows "build_chunks FRAME_BATCH_CHUNKS FRAMES_PER_MESSAGE (\<lambda>offset count.
      roadcast_encode_frame_batch (replicate PAYLOAD_CAP 0) PAYLOAD_CAP sequence
        (of_nat ROADCAST_FRAME_COUNT) UINT32_MAX fs (Some (drop offset ix)) count) 0 count [] = Some chunks"
    and "list_all chunk_ok chunks"
proof -
  have count: "count \<le> 111"
    using ix by (simp add: indices_wf_def)
  have "length (chunk_spans 71 0 count) \<le> 2"
    using chunk_spans_number [of 71 0 count] count by linarith
  then have "build_chunks 2 71 (\<lambda>offset count. roadcast_encode_frame_batch (replicate 2016 0) 2016 sequence
        (of_nat 111) UINT32_MAX fs (Some (drop offset ix)) count) 0 count []
      = Some ([] @ map (\<lambda>(k, n). frame_chunk fs sequence ix k n) (chunk_spans 71 0 count))"
  proof (intro build_chunks_spans)
    fix k n
    assume "(k, n) \<in> set (chunk_spans 71 0 count)"
    then have kn: "k + n \<le> count" "n \<le> 71"
      by (auto dest: chunk_spans_bounds)
    have "indices_wf ROADCAST_FRAME_COUNT ix count k"
      using ix kn by (simp add: indices_wf_def)
    from encode_frames_indexed [OF fs this kn(1)] kn(2)
    show "roadcast_encode_frame_batch (replicate 2016 0) 2016 sequence (of_nat 111) UINT32_MAX fs (Some (drop k ix)) n
        = Some (frame_chunk fs sequence ix k n)"
      by (simp add: frame_chunk_def)
  qed simp
  then show "build_chunks FRAME_BATCH_CHUNKS FRAMES_PER_MESSAGE (\<lambda>offset count.
      roadcast_encode_frame_batch (replicate PAYLOAD_CAP 0) PAYLOAD_CAP sequence
        (of_nat ROADCAST_FRAME_COUNT) UINT32_MAX fs (Some (drop offset ix)) count) 0 count [] = Some chunks"
    by (simp add: chunks_def)
  have "chunk_ok (frame_chunk fs sequence ix k n)" if "(k, n) \<in> set (chunk_spans 71 0 count)" for k n
  proof -
    have kn: "k + n \<le> count" "n \<le> 71"
      using that by (auto dest: chunk_spans_bounds)
    have "unat (ix ! (k + i)) < 111" if "i < n" for i
      using ix kn that by (simp add: indices_wf_def)
    then have "\<forall>f \<in> set (map (\<lambda>i. fs ! unat i) (take n (drop k ix))). frame_wf f"
      using frames_wf_nth [OF fs] by (auto simp: in_set_conv_nth)
    moreover have "length (take n (drop k ix)) = n"
      using ix kn by (auto simp: indices_wf_def)
    ultimately show ?thesis
      by (simp add: chunk_ok_def frame_chunk_def length_frame_batch)
  qed
  then show "list_all chunk_ok chunks"
    by (auto simp: chunks_def list_all_iff)
qed

lemma signal_chunks_built:
  fixes sequence :: u64
  assumes vs: "signals_wf vs" and ix: "indices_wf ROADCAST_SIGNAL_COUNT ix count 0"
  defines "chunks \<equiv> map (\<lambda>(k, n). signal_chunk vs sequence ix k n) (chunk_spans SIGNALS_PER_MESSAGE 0 count)"
  shows "build_chunks SIGNAL_BATCH_CHUNKS SIGNALS_PER_MESSAGE (\<lambda>offset count.
      roadcast_encode_signal_batch (replicate PAYLOAD_CAP 0) PAYLOAD_CAP sequence
        (of_nat ROADCAST_SIGNAL_COUNT) UINT32_MAX vs (Some (drop offset ix)) count) 0 count [] = Some chunks"
    and "list_all chunk_ok chunks"
proof -
  have count: "count \<le> 815"
    using ix by (simp add: indices_wf_def)
  have "length (chunk_spans 49 0 count) \<le> 17"
    using chunk_spans_number [of 49 0 count] count by linarith
  then have "build_chunks 17 49 (\<lambda>offset count. roadcast_encode_signal_batch (replicate 2016 0) 2016 sequence
        (of_nat 815) UINT32_MAX vs (Some (drop offset ix)) count) 0 count []
      = Some ([] @ map (\<lambda>(k, n). signal_chunk vs sequence ix k n) (chunk_spans 49 0 count))"
  proof (intro build_chunks_spans)
    fix k n
    assume "(k, n) \<in> set (chunk_spans 49 0 count)"
    then have kn: "k + n \<le> count" "n \<le> 49"
      by (auto dest: chunk_spans_bounds)
    have wf: "indices_wf ROADCAST_SIGNAL_COUNT ix count k"
      using ix kn by (simp add: indices_wf_def)
    from encode_signals_indexed [OF vs catchup_indices_drop [OF wf kn(1)]] kn(2)
    show "roadcast_encode_signal_batch (replicate 2016 0) 2016 sequence (of_nat 815) UINT32_MAX vs (Some (drop k ix)) n
        = Some (signal_chunk vs sequence ix k n)"
      by (simp add: signal_chunk_def)
  qed simp
  then show "build_chunks SIGNAL_BATCH_CHUNKS SIGNALS_PER_MESSAGE (\<lambda>offset count.
      roadcast_encode_signal_batch (replicate PAYLOAD_CAP 0) PAYLOAD_CAP sequence
        (of_nat ROADCAST_SIGNAL_COUNT) UINT32_MAX vs (Some (drop offset ix)) count) 0 count [] = Some chunks"
    by (simp add: chunks_def)
  have "chunk_ok (signal_chunk vs sequence ix k n)" if "(k, n) \<in> set (chunk_spans 49 0 count)" for k n
  proof -
    have "k + n \<le> count"
      using that by (auto dest: chunk_spans_bounds)
    then have "length (take n (drop k ix)) = n"
      using ix by (auto simp: indices_wf_def)
    then show ?thesis
      by (simp add: chunk_ok_def signal_chunk_def length_signal_batch)
  qed
  then show "list_all chunk_ok chunks"
    by (auto simp: chunks_def list_all_iff)
qed

text \<open>What the chunks carry: the changed entries in order, cut into groups that fit a message.\<close>

lemma frame_groups:
  assumes wf: "frames_wf fs" and len: "length fi = ROADCAST_FRAME_COUNT" and fi: "take (length chg) fi = map of_nat chg"
    and chg: "\<forall>i \<in> set chg. i < ROADCAST_FRAME_COUNT" and count: "length chg \<le> ROADCAST_FRAME_COUNT"
  obtains groups where "concat groups = map (\<lambda>i. fs ! i) chg"
    and "map (chunk_message ty cs ts) (map (\<lambda>(k, n). frame_chunk fs sq fi k n) (chunk_spans FRAMES_PER_MESSAGE 0 (length chg)))
      = map (\<lambda>g. message_bytes ty cs ts (batch_bytes frame_record_bytes sq (of_nat ROADCAST_FRAME_COUNT) UINT32_MAX g)) groups"
    and "\<forall>g \<in> set groups. g \<noteq> [] \<and> length g \<le> FRAMES_PER_MESSAGE"
proof -
  have small: "i mod 65536 = i" if "i \<in> set chg" for i
    using chg that by fastforce
  let ?spans = "chunk_spans 71 0 (length chg)"
  let ?group = "\<lambda>(k, n). map (\<lambda>i. fs ! unat i) (take n (drop k fi))"
  have prefix_ok: "\<forall>f \<in> set (map (\<lambda>i. fs ! unat i) (take (length chg) fi)). frame_wf f"
    unfolding fi using chg frames_wf_nth [OF wf] by (auto simp: unat_of_nat)
  have msg: "chunk_message ty cs ts (frame_chunk fs sq fi k n)
      = message_bytes ty cs ts (batch_bytes frame_record_bytes sq (of_nat 111) UINT32_MAX (?group (k, n)))
    \<and> length (?group (k, n)) = n"
    if "(k, n) \<in> set ?spans" for k n
  proof -
    have kn: "k + n \<le> length chg" "n \<le> 71"
      using that by (auto dest: chunk_spans_bounds)
    then have ln: "length (take n (drop k fi)) = n"
      using len count by simp
    have "take n (drop k fi) = take n (drop k (take (length chg) fi))"
      using kn by (simp add: drop_take min_absorb1)
    then have "set (take n (drop k fi)) \<subseteq> set (take (length chg) fi)"
      by (metis set_take_subset set_drop_subset subset_trans)
    then have "\<forall>f \<in> set (?group (k, n)). frame_wf f"
      using prefix_ok by auto
    then have "length (batch_bytes frame_record_bytes sq (of_nat 111) UINT32_MAX (?group (k, n))) = 20 + n * 28"
      using ln by (simp add: length_frame_batch)
    then show ?thesis
      using ln by (simp add: chunk_message_def frame_chunk_def)
  qed
  show thesis
  proof (rule that [of "map ?group ?spans"])
    have "concat (map ?group ?spans) = map (\<lambda>i. fs ! unat i) (concat (map (\<lambda>(k, n). take n (drop k fi)) ?spans))"
      by (simp add: map_concat case_prod_unfold comp_def)
    also have "\<dots> = map (\<lambda>i. fs ! unat i) (take (length chg) fi)"
      by (subst chunk_spans_cover) simp_all
    also have "\<dots> = map (\<lambda>i. fs ! i) chg"
      unfolding fi using small by (simp add: unat_of_nat)
    finally show "concat (map ?group ?spans) = map (\<lambda>i. fs ! i) chg" .
    show "map (chunk_message ty cs ts) (map (\<lambda>(k, n). frame_chunk fs sq fi k n) (chunk_spans FRAMES_PER_MESSAGE 0 (length chg)))
      = map (\<lambda>g. message_bytes ty cs ts (batch_bytes frame_record_bytes sq (of_nat ROADCAST_FRAME_COUNT) UINT32_MAX g)) (map ?group ?spans)"
      using msg by (auto simp del: of_nat_numeral)
    show "\<forall>g \<in> set (map ?group ?spans). g \<noteq> [] \<and> length g \<le> FRAMES_PER_MESSAGE"
      using msg by (force dest: chunk_spans_bounds)
  qed
qed

lemma signal_groups:
  assumes len: "length si = ROADCAST_SIGNAL_COUNT" and si: "take (length chg) si = map of_nat chg"
    and chg: "\<forall>i \<in> set chg. i < ROADCAST_SIGNAL_COUNT" and count: "length chg \<le> ROADCAST_SIGNAL_COUNT"
  obtains groups where "concat groups = map (\<lambda>i. \<lparr>su_index = of_nat i, su_value = vs ! i\<rparr>) chg"
    and "map (chunk_message ty cs ts) (map (\<lambda>(k, n). signal_chunk vs sq si k n) (chunk_spans SIGNALS_PER_MESSAGE 0 (length chg)))
      = map (\<lambda>g. message_bytes ty cs ts (batch_bytes signal_record_bytes sq (of_nat ROADCAST_SIGNAL_COUNT) UINT32_MAX g)) groups"
    and "\<forall>g \<in> set groups. g \<noteq> [] \<and> length g \<le> SIGNALS_PER_MESSAGE"
proof -
  have small: "i mod 4294967296 = i" if "i \<in> set chg" for i
    using chg that by fastforce
  let ?spans = "chunk_spans 49 0 (length chg)"
  let ?upd = "\<lambda>i. \<lparr>su_index = i, su_value = vs ! unat i\<rparr>"
  let ?group = "\<lambda>(k, n). map ?upd (take n (drop k si))"
  have msg: "chunk_message ty cs ts (signal_chunk vs sq si k n)
      = message_bytes ty cs ts (batch_bytes signal_record_bytes sq (of_nat 815) UINT32_MAX (?group (k, n)))
    \<and> length (?group (k, n)) = n"
    if "(k, n) \<in> set ?spans" for k n
  proof -
    have kn: "k + n \<le> length chg" "n \<le> 49"
      using that by (auto dest: chunk_spans_bounds)
    then have ln: "length (take n (drop k si)) = n"
      using len count by simp
    then have "length (batch_bytes signal_record_bytes sq (of_nat 815) UINT32_MAX (?group (k, n))) = 20 + n * 40"
      by (simp add: length_signal_batch)
    then show ?thesis
      using ln by (simp add: chunk_message_def signal_chunk_def)
  qed
  show thesis
  proof (rule that [of "map ?group ?spans"])
    have "concat (map ?group ?spans) = map ?upd (concat (map (\<lambda>(k, n). take n (drop k si)) ?spans))"
      by (simp add: map_concat case_prod_unfold comp_def)
    also have "\<dots> = map ?upd (take (length chg) si)"
      by (subst chunk_spans_cover) simp_all
    also have "\<dots> = map (\<lambda>i. \<lparr>su_index = of_nat i, su_value = vs ! i\<rparr>) chg"
      unfolding si using small by (simp add: unat_of_nat)
    finally show "concat (map ?group ?spans) = map (\<lambda>i. \<lparr>su_index = of_nat i, su_value = vs ! i\<rparr>) chg" .
    show "map (chunk_message ty cs ts) (map (\<lambda>(k, n). signal_chunk vs sq si k n) (chunk_spans SIGNALS_PER_MESSAGE 0 (length chg)))
      = map (\<lambda>g. message_bytes ty cs ts (batch_bytes signal_record_bytes sq (of_nat ROADCAST_SIGNAL_COUNT) UINT32_MAX g)) (map ?group ?spans)"
      using msg by (auto simp del: of_nat_numeral)
    show "\<forall>g \<in> set (map ?group ?spans). g \<noteq> [] \<and> length g \<le> SIGNALS_PER_MESSAGE"
      using msg by (force dest: chunk_spans_bounds)
  qed
qed

definition update_messages ::
    "u64 \<Rightarrow> u64 \<Rightarrow> u64 \<Rightarrow> roadcast_frame list list \<Rightarrow> roadcast_signal_update list list \<Rightarrow> bytes list" where
  "update_messages change_sequence timestamp_ns sequence frame_groups signal_groups =
     map (\<lambda>g. message_bytes ROADCAST_MSG_UPDATE_BATCH change_sequence timestamp_ns
       (batch_bytes frame_record_bytes sequence (of_nat ROADCAST_FRAME_COUNT) UINT32_MAX g)) frame_groups
     @ map (\<lambda>g. message_bytes ROADCAST_MSG_SIGNAL_UPDATE_BATCH change_sequence timestamp_ns
       (batch_bytes signal_record_bytes sequence (of_nat ROADCAST_SIGNAL_COUNT) UINT32_MAX g)) signal_groups"

lemma store_sample_simps [simp]:
  "s_frames (store_sample fs vs sq ts s) = fs" "s_signals (store_sample fs vs sq ts s) = vs"
  "s_sample_sequence (store_sample fs vs sq ts s) = sq" "s_sample_timestamp_ns (store_sample fs vs sq ts s) = ts"
  "s_clients (store_sample fs vs sq ts s) = s_clients s"
  "s_client_queue_slots (store_sample fs vs sq ts s) = s_client_queue_slots s"
  "s_change_sequence (store_sample fs vs sq ts s) = s_change_sequence s"
  by (simp_all add: store_sample_def count_ticks_def)

lemma count_changes_simps [simp]:
  "s_frames (count_changes n s) = s_frames s" "s_signals (count_changes n s) = s_signals s"
  "s_sample_sequence (count_changes n s) = s_sample_sequence s"
  "s_sample_timestamp_ns (count_changes n s) = s_sample_timestamp_ns s" "s_clients (count_changes n s) = s_clients s"
  "s_client_queue_slots (count_changes n s) = s_client_queue_slots s"
  "s_change_sequence (count_changes n s) = s_change_sequence s + 1"
  by (simp_all add: count_changes_def)

lemma server_same_count_chunks [simp]: "server_same s (count_chunks n s)"
  by (simp add: server_same_def count_chunks_def)

context sized_catalogue
begin

lemma frames_wf_ok: "frames_wf fs \<Longrightarrow> frames_ok ids fs"
  by (auto simp: frames_wf_def frames_ok_def frame_wf_def sizes list_all_iff)

lemma full_decode_wf:
  assumes "frames_wf fs" and "roadcast_decode_signals fc sigs fs (replicate ROADCAST_SIGNAL_COUNT zero_signal) = Some ws"
  shows "signals_wf ws"
proof -
  obtain ws' where d: "roadcast_decode_signals fc sigs fs (replicate 815 zero_signal) = Some ws'" "length ws' = 815"
    "\<And>i. i < 815 \<Longrightarrow> value_agrees fc fs (sigs ! i) (ws' ! i)"
    "\<And>i. i < 815 \<Longrightarrow> sv_state (ws' ! i) = signal_state sigs fs (sigs ! i)"
    by (rule full_decode [OF frames_wf_ok [OF assms(1)], of fc]) blast
  have "value_wf (ws' ! i)" if i: "i < 815" for i
  proof -
    have "f_state (frame_of fs (sigs ! i)) \<le> 2"
      using frames_wf_nth [OF assms(1)] frame_index_less [of i] i sizes by (simp add: frame_wf_def)
    then have "f_state (frame_of fs (sigs ! i)) \<le> 3"
      by (rule order_trans) simp
    then have "sv_state (ws' ! i) \<le> 3"
      using d(4) [OF i] by (simp add: signal_state_def)
    moreover have "unat (sd_calibrated (sigs ! i)) \<le> 1"
      using signal_ok_nth [of i] i sizes by (simp add: signal_ok_def)
    then have "sv_calibrated (ws' ! i) \<le> 1"
      using d(3) [OF i] by (simp add: value_agrees_def word_le_nat_alt)
    ultimately show ?thesis by (simp add: value_wf_def)
  qed
  with d assms(2) show ?thesis by (simp add: signals_wf_def list_all_length)
qed

lemma value_wf_reconcile: "value_wf w \<Longrightarrow> value_wf (reconcile_signal t v w)"
  by (simp add: value_wf_def reconcile_signal_def)

lemma signals_agree_unchanged:
  assumes "frames_wf new" and "frames_wf old" and "\<And>i. i < ROADCAST_FRAME_COUNT \<Longrightarrow> \<not> frame_differs (new ! i) (old ! i)"
    and "signals_agree fc sigs old vs"
  shows "signals_agree fc sigs new vs"
proof -
  obtain ws where d: "roadcast_decode_signals fc sigs new (replicate 815 zero_signal) = Some ws" "length ws = 815"
    "\<And>i. i < 815 \<Longrightarrow> value_agrees fc new (sigs ! i) (ws ! i)"
    "\<And>i. i < 815 \<Longrightarrow> sv_state (ws ! i) = signal_state sigs new (sigs ! i)"
    by (rule full_decode [OF frames_wf_ok [OF assms(1)], of fc]) blast
  obtain ws' where d': "roadcast_decode_signals fc sigs old (replicate 815 zero_signal) = Some ws'" "length ws' = 815"
    "\<And>i. i < 815 \<Longrightarrow> value_agrees fc old (sigs ! i) (ws' ! i)"
    "\<And>i. i < 815 \<Longrightarrow> sv_state (ws' ! i) = signal_state sigs old (sigs ! i)"
    by (rule full_decode [OF frames_wf_ok [OF assms(2)], of fc]) blast
  have vs: "length vs = 815" "\<And>i. i < 815 \<Longrightarrow> signal_agrees (ws' ! i) (vs ! i)"
    using assms(4) d'(1,2) by (auto simp: signals_agree_def list_all2_conv_all_nth)
  have "signal_agrees (ws ! i) (vs ! i)" if i: "i < 815" for i
  proof -
    have "\<not> frame_differs (frame_of new (sigs ! i)) (frame_of old (sigs ! i))"
      using assms(3) frame_index_less [of i] i sizes by simp
    from decode_unchanged [OF i this d'(3,4) [OF i] d(3,4) [OF i]] vs(2) [OF i] show ?thesis
      by (simp add: signal_agrees_def)
  qed
  with d vs show ?thesis by (simp add: signals_agree_def list_all2_conv_all_nth)
qed

lemma update_signals_ok:
  assumes "frames_wf latest" and "frames_wf frames" and "signals_agree fc sigs frames vs"
  obtains us where "update_signals fc sigs (map2 frame_differs latest frames) latest t vs = Some us"
    and "signals_wf us" and "signals_agree fc sigs latest us"
proof -
  obtain ws where ws: "roadcast_decode_signals fc sigs latest (replicate 815 zero_signal) = Some ws"
    by (rule full_decode [OF frames_wf_ok [OF assms(1)], of fc]) blast
  note eq = update_signals_eq [OF frames_wf_ok [OF assms(1)] frames_wf_ok [OF assms(2)] assms(3) ws]
  have "signals_wf (map2 (reconcile_signal t) vs ws)"
    using full_decode_wf [OF assms(1) ws] eq(2,3)
    by (simp add: signals_wf_def list_all_length value_wf_reconcile)
  with eq reconciled_agree [OF ws] show thesis by (intro that) simp_all
qed

end

context sized_catalogue
begin

text \<open>
  A new sample: nothing but timestamps moved, or the changed frames and signals are stored and, if anyone
  listens, serialised once and broadcast to every slot.
\<close>

lemma distribute_run:
  fixes ts :: u64
  assumes inv: "server_inv s" and agree: "signals_agree fc sigs (s_frames s) (s_signals s)" and wf: "frames_wf latest"
    and new: "s_sample_sequence s < sq"
  defines "fchg \<equiv> changed_indices frame_differs ROADCAST_FRAME_COUNT latest (s_frames s)"
  obtains (unchanged) "fchg = []" and "signals_agree fc sigs latest (s_signals s)"
      and "distribute_latest_sample e fc sigs (latest, sq, ts) s = Some (store_sample latest (s_signals s) sq ts s)"
    | (changed) us fi si s1 fcs scs where "fchg \<noteq> []"
      and "update_signals fc sigs (map2 frame_differs latest (s_frames s)) latest ts (s_signals s) = Some us"
      and "signals_wf us" and "signals_agree fc sigs latest us"
      and "length fi = ROADCAST_FRAME_COUNT" and "take (length fchg) fi = map of_nat fchg"
      and "length si = ROADCAST_SIGNAL_COUNT"
      and "take (length (changed_indices signal_differs ROADCAST_SIGNAL_COUNT us (s_signals s))) si
        = map of_nat (changed_indices signal_differs ROADCAST_SIGNAL_COUNT us (s_signals s))"
      and "s1 = count_changes (length fchg) (store_sample latest us sq ts s)"
      and "fcs = map (\<lambda>(k, n). frame_chunk latest sq fi k n) (chunk_spans FRAMES_PER_MESSAGE 0 (length fchg))"
      and "scs = map (\<lambda>(k, n). signal_chunk us sq si k n) (chunk_spans SIGNALS_PER_MESSAGE 0
        (length (changed_indices signal_differs ROADCAST_SIGNAL_COUNT us (s_signals s))))"
      and "list_all chunk_ok fcs" and "list_all chunk_ok scs"
      and "distribute_latest_sample e fc sigs (latest, sq, ts) s
        = (if \<not> list_ex is_subscriber (s_clients s) then Some s1
           else for_clients (broadcast_to e ts fcs scs) (count_chunks (length fcs + length scs) s1))"
proof -
  have fwf: "frames_wf (s_frames s)" and swf: "signals_wf (s_signals s)"
    using inv by (auto simp: server_inv_def server_data_wf_def)
  have len: "length latest = 111" "length (s_frames s) = 111" "length (replicate 111 (0 :: u16)) = 111"
    using wf fwf by (auto simp: frames_wf_def)
  obtain fi where fi: "collect_changed frame_differs 111 latest (s_frames s) (replicate 111 (0 :: u16))
      = Some (fi, length fchg)"
      "length fi = 111" "take (length fchg) fi = map of_nat fchg"
    unfolding fchg_def by (rule collect_changed_run [OF len, of frame_differs])
  show thesis
  proof (cases "fchg = []")
    case True
    have "\<not> frame_differs (latest ! i) (s_frames s ! i)" if "i < 111" for i
      using True that by (auto simp: fchg_def changed_indices_def filter_empty_conv)
    then have "signals_agree fc sigs latest (s_signals s)"
      using signals_agree_unchanged [OF wf fwf _ agree] by simp
    with True fi(1) new show thesis
      by (intro unchanged) (simp_all add: distribute_latest_sample_def not_le [symmetric])
  next
    case False
    obtain us where us: "update_signals fc sigs (map2 frame_differs latest (s_frames s)) latest ts (s_signals s) = Some us"
        "signals_wf us" "signals_agree fc sigs latest us"
      by (rule update_signals_ok [OF wf fwf agree])
    let ?schg = "changed_indices signal_differs 815 us (s_signals s)"
    have slen: "length us = 815" "length (s_signals s) = 815" "length (replicate 815 (0 :: u32)) = 815"
      using us(2) swf by (auto simp: signals_wf_def)
    obtain si where si: "collect_changed signal_differs 815 us (s_signals s) (replicate 815 (0 :: u32))
        = Some (si, length ?schg)"
        "length si = 815" "take (length ?schg) si = map of_nat ?schg"
      by (rule collect_changed_run [OF slen, of signal_differs])
    have fix': "indices_wf ROADCAST_FRAME_COUNT fi (length fchg) 0"
      unfolding fchg_def by (rule indices_wf_changed) (use fi in \<open>simp_all add: fchg_def\<close>)
    have six: "indices_wf ROADCAST_SIGNAL_COUNT si (length ?schg) 0"
      by (rule indices_wf_changed) (use si in simp_all)
    note fb = frame_chunks_built [OF wf fix', of sq] and sb = signal_chunks_built [OF us(2) six, of sq]
    show thesis
    proof (rule changed [OF False us fi(2,3) si(2,3) refl refl refl fb(2) sb(2)])
      show "distribute_latest_sample e fc sigs (latest, sq, ts) s
        = (if \<not> list_ex is_subscriber (s_clients s)
           then Some (count_changes (length fchg) (store_sample latest us sq ts s))
           else for_clients (broadcast_to e ts
               (map (\<lambda>(k, n). frame_chunk latest sq fi k n) (chunk_spans FRAMES_PER_MESSAGE 0 (length fchg)))
               (map (\<lambda>(k, n). signal_chunk us sq si k n) (chunk_spans SIGNALS_PER_MESSAGE 0 (length ?schg))))
             (count_chunks (length (map (\<lambda>(k, n). frame_chunk latest sq fi k n)
                 (chunk_spans FRAMES_PER_MESSAGE 0 (length fchg)))
               + length (map (\<lambda>(k, n). signal_chunk us sq si k n) (chunk_spans SIGNALS_PER_MESSAGE 0 (length ?schg))))
               (count_changes (length fchg) (store_sample latest us sq ts s))))"
        using new False fi(1) us(1) si(1) fb(1) sb(1)
        by (simp add: distribute_latest_sample_def not_le [symmetric] Let_def)
    qed
  qed
qed

lemma distribute_ok:
  assumes inv: "server_inv s" and agree: "signals_agree fc sigs (s_frames s) (s_signals s)" and wf: "frames_wf latest"
  shows "\<exists>s'. distribute_latest_sample e fc sigs (latest, sq, ts) s = Some s' \<and> server_inv s'
    \<and> signals_agree fc sigs (s_frames s') (s_signals s')
    \<and> (if sq \<le> s_sample_sequence s then s' = s
       else s_frames s' = latest \<and> s_sample_sequence s' = sq \<and> s_sample_timestamp_ns s' = ts)"
proof (cases "sq \<le> s_sample_sequence s")
  case True
  with inv agree show ?thesis by (simp add: distribute_latest_sample_def)
next
  case False
  then have new: "s_sample_sequence s < sq" by simp
  show ?thesis
  proof (cases rule: distribute_run [OF inv agree wf new, of e ts])
    case 1
    have "server_inv (store_sample latest (s_signals s) sq ts s)"
      by (rule server_inv_cong [OF inv]) (use inv wf in \<open>simp_all add: server_inv_def server_data_wf_def\<close>)
    with 1 False show ?thesis by simp
  next
    case (2 us fi si s1 fcs scs)
    have inv1: "server_inv s1"
      by (rule server_inv_cong [OF inv]) (use 2 wf in \<open>simp_all add: server_data_wf_def\<close>)
    have data: "s_frames s1 = latest" "s_signals s1 = us" "s_sample_sequence s1 = sq" "s_sample_timestamp_ns s1 = ts"
      using 2(9) by simp_all
    show ?thesis
    proof (cases "list_ex is_subscriber (s_clients s)")
      case nobody: False
      with 2 inv1 data False show ?thesis by simp
    next
      case True
      let ?s2 = "count_chunks (length fcs + length scs) s1"
      have inv2: "server_inv ?s2"
        by (rule server_inv_same [OF inv1]) simp
      have "broadcast_pre fcs scs c" if "c \<in> set (s_clients ?s2)" for c
        using inv2 that 2(12,13) by (auto simp: server_inv_def client_wf_def broadcast_pre_def)
      from broadcast.for_clients_ok [OF inv2 this, of e ts]
      obtain s' where s': "for_clients (broadcast_to e ts fcs scs) ?s2 = Some s'" "server_inv s'"
          "server_same ?s2 (s'\<lparr>s_clients := s_clients ?s2\<rparr>)"
        by blast
      have "s_frames s' = latest" "s_signals s' = us" "s_sample_sequence s' = sq" "s_sample_timestamp_ns s' = ts"
        using server_sameD [OF s'(3)] data by (simp_all add: count_chunks_def)
      with True 2(4,14) s'(1,2) False show ?thesis by simp
    qed
  qed
qed

end

context sized_catalogue
begin

text \<open>What one subscriber gets of a sample that changed something.\<close>

lemma distribute_delivers:
  fixes ts :: u64
  assumes inv: "server_inv s" and agree: "signals_agree fc sigs (s_frames s) (s_signals s)" and wf: "frames_wf latest"
    and new: "s_sample_sequence s < sq" and i: "i < MAX_CLIENTS" and sub: "is_subscriber (s_clients s ! i)"
    and some: "changed_indices frame_differs ROADCAST_FRAME_COUNT latest (s_frames s) \<noteq> []"
  obtains s' fgroups sgroups where "distribute_latest_sample e fc sigs (latest, sq, ts) s = Some s'"
    and "s_frames s' = latest"
    and "concat fgroups = map (\<lambda>k. latest ! k) (changed_indices frame_differs ROADCAST_FRAME_COUNT latest (s_frames s))"
    and "concat sgroups = map (\<lambda>k. \<lparr>su_index = of_nat k, su_value = s_signals s' ! k\<rparr>)
      (changed_indices signal_differs ROADCAST_SIGNAL_COUNT (s_signals s') (s_signals s))"
    and "\<forall>g \<in> set fgroups. g \<noteq> [] \<and> length g \<le> FRAMES_PER_MESSAGE"
    and "\<forall>g \<in> set sgroups. g \<noteq> [] \<and> length g \<le> SIGNALS_PER_MESSAGE"
    and "sent_all (update_messages (s_change_sequence s + 1) ts sq fgroups sgroups) (s_clients s ! i) (s_clients s' ! i)
      \<or> (\<not> c_active (s_clients s' ! i) \<or> c_needs_resync (s_clients s' ! i))
        \<and> (\<exists>ms. c_stream (s_clients s' ! i) = c_stream (s_clients s ! i) @ ms
            \<and> prefix ms (update_messages (s_change_sequence s + 1) ts sq fgroups sgroups))"
    and "accepting e \<and> FRAME_BATCH_CHUNKS + SIGNAL_BATCH_CHUNKS \<le> free_slots s (s_clients s ! i) \<longrightarrow>
      sent_all (update_messages (s_change_sequence s + 1) ts sq fgroups sgroups) (s_clients s ! i) (s_clients s' ! i)"
proof (cases rule: distribute_run [OF inv agree wf new, of e ts])
  case 1
  with some show thesis by simp
next
  case (2 us fi si s1 fcs scs)
  let ?fchg = "changed_indices frame_differs 111 latest (s_frames s)"
  let ?schg = "changed_indices signal_differs 815 us (s_signals s)"
  let ?cs = "s_change_sequence s + 1"
  let ?s2 = "count_chunks (length fcs + length scs) s1"
  have listeners: "list_ex is_subscriber (s_clients s)"
    using sub i inv by (auto simp: list_ex_length server_inv_def)
  have inv1: "server_inv s1"
    by (rule server_inv_cong [OF inv]) (use 2 wf in \<open>simp_all add: server_data_wf_def\<close>)
  have inv2: "server_inv ?s2"
    by (rule server_inv_same [OF inv1]) simp
  have fields: "s_clients ?s2 = s_clients s" "s_frames ?s2 = latest" "s_signals ?s2 = us" "s_change_sequence ?s2 = ?cs"
    using 2(9) by (simp_all add: count_chunks_def)
  have pre: "broadcast_pre fcs scs c" if "c \<in> set (s_clients ?s2)" for c
    using inv2 that 2(12,13) by (auto simp: server_inv_def client_wf_def broadcast_pre_def)
  obtain s' where s': "for_clients (broadcast_to e ts fcs scs) ?s2 = Some s'"
      "server_same ?s2 (s'\<lparr>s_clients := s_clients ?s2\<rparr>)"
    and at: "\<forall>i < MAX_CLIENTS. \<exists>t t'. server_same ?s2 (t\<lparr>s_clients := s_clients ?s2\<rparr>)
      \<and> conn_inv (t, s_clients ?s2 ! i) \<and> broadcast_to e ts fcs scs (t, s_clients ?s2 ! i) = Some ((), t', s_clients s' ! i)"
    by (rule broadcast.for_clients_run [OF inv2 pre, of e ts]) blast
  let ?c = "s_clients s ! i" and ?c' = "s_clients s' ! i"
  obtain t t' where t: "server_same ?s2 (t\<lparr>s_clients := s_clients ?s2\<rparr>)" "conn_inv (t, ?c)"
      "broadcast_to e ts fcs scs (t, ?c) = Some ((), t', ?c')"
    using at i fields(1) by metis
  have ct: "s_change_sequence t = ?cs"
    using server_sameD [OF t(1)] fields(4) by simp
  have data: "s_frames s' = latest" "s_signals s' = us"
    using server_sameD [OF s'(2)] fields by simp_all
  obtain fgroups where fg: "concat fgroups = map (\<lambda>k. latest ! k) ?fchg"
      "map (chunk_message ROADCAST_MSG_UPDATE_BATCH ?cs ts) fcs = map (\<lambda>g. message_bytes ROADCAST_MSG_UPDATE_BATCH ?cs ts
        (batch_bytes frame_record_bytes sq (of_nat ROADCAST_FRAME_COUNT) UINT32_MAX g)) fgroups"
      "\<forall>g \<in> set fgroups. g \<noteq> [] \<and> length g \<le> FRAMES_PER_MESSAGE"
    unfolding 2(10) by (rule frame_groups [OF wf 2(5,6)]) (auto dest: changed_less intro: length_changed)
  obtain sgroups where sg: "concat sgroups = map (\<lambda>k. \<lparr>su_index = of_nat k, su_value = us ! k\<rparr>) ?schg"
      "map (chunk_message ROADCAST_MSG_SIGNAL_UPDATE_BATCH ?cs ts) scs = map (\<lambda>g. message_bytes ROADCAST_MSG_SIGNAL_UPDATE_BATCH ?cs ts
        (batch_bytes signal_record_bytes sq (of_nat ROADCAST_SIGNAL_COUNT) UINT32_MAX g)) sgroups"
      "\<forall>g \<in> set sgroups. g \<noteq> [] \<and> length g \<le> SIGNALS_PER_MESSAGE"
    unfolding 2(11) by (rule signal_groups [OF 2(7,8)]) (auto dest: changed_less intro: length_changed)
  have msgs: "broadcast_messages ?cs ts fcs scs = update_messages ?cs ts sq fgroups sgroups"
    by (simp only: broadcast_messages_def update_messages_def fg(2) sg(2))
  have life: "\<not> (c_active ?c \<and> c_closing ?c)"
    using server_inv_client(2) [OF inv i] by (auto simp: client_wf_def)
  have "sent_all (broadcast_messages ?cs ts fcs scs) ?c ?c' \<or> (\<not> c_active ?c' \<or> c_needs_resync ?c')
      \<and> (\<exists>ms. c_stream ?c' = c_stream ?c @ ms \<and> prefix ms (broadcast_messages ?cs ts fcs scs))"
    by (cases rule: broadcast_cases [OF t(2) life 2(12,13), of e ts]) (use t(3) sub ct in auto)
  moreover have "distribute_latest_sample e fc sigs (latest, sq, ts) s = Some s'"
    using 2(14) listeners s'(1) by simp
  moreover have "accepting e \<and> 2 + 17 \<le> free_slots s ?c \<longrightarrow> sent_all (broadcast_messages ?cs ts fcs scs) ?c ?c'"
  proof
    assume acc: "accepting e \<and> 2 + 17 \<le> free_slots s ?c"
    have "length fcs \<le> 2" "length scs \<le> 17"
      using chunk_spans_number [of 71 0 "length ?fchg"] chunk_spans_number [of 49 0 "length ?schg"]
        length_changed [of frame_differs 111 latest "s_frames s"] length_changed [of signal_differs 815 us "s_signals s"]
      unfolding 2(10,11) by simp_all
    moreover have "s_client_queue_slots t = s_client_queue_slots s"
      using server_sameD [OF t(1)] 2(9) by (simp add: count_chunks_def)
    ultimately have free: "length (fcs @ scs) \<le> free_slots t ?c"
      using acc by (simp add: free_slots_def)
    have "\<forall>(len, payload) \<in> set (fcs @ scs). 0 < len \<and> len \<le> length payload \<and> len \<le> 2016"
      using 2(12,13) unfolding 2(10,11)
      by (auto simp: list_all_iff chunk_ok_def frame_chunk_def signal_chunk_def dest: chunk_spans_bounds)
    from broadcast_accepted [OF conjunct1 [OF acc] t(2) sub this free t(3)] show "sent_all (broadcast_messages ?cs ts fcs scs) ?c ?c'"
      by (simp add: ct)
  qed
  ultimately show thesis
    using fg(1,3) sg(1,3) data unfolding msgs by (intro that [of s' fgroups sgroups]) simp_all
qed

end

end
