(* ===== verification/Daemon_Server.thy ===== *)
theory Daemon_Server
  imports Distribution
begin

text \<open>
  The event loop of the daemon, \<^verbatim>\<open>src/roadcastd.c\<close>: accepting connections, the heartbeat and statistics
  timers, closing and shutdown, and the server that \<^verbatim>\<open>main\<close> sets up.  \<open>daemon_step\<close> is one callback, \<open>event_ok\<close>
  what libuv guarantees when it makes it, and \<open>reachable\<close> the states after any sequence of callbacks.
\<close>

section \<open>Connections\<close>

fun find_client :: "client list \<Rightarrow> nat \<Rightarrow> nat option" where
  "find_client [] i = None"
| "find_client (c # cs) i = (if \<not> c_active c \<and> \<not> c_closing c then Some i else find_client cs (Suc i))"

definition find_available_client :: "server \<Rightarrow> nat option" where
  "find_available_client s = find_client (s_clients s) 0"

text \<open>
  The rejected connection lives in a handle of its own, which is closed and freed whether \<^verbatim>\<open>uv_accept\<close> succeeds
  or not; only the calls it makes are seen here.
\<close>

definition reject_connection :: "env \<Rightarrow> server \<Rightarrow> server" where
  "reject_connection e s =
    (if \<not> e_calloc e (s_calls s) then called s
     else let s = called s in
     if e_uv_pipe_init e (s_calls s) < 0 then called s
     else called (called s))"

text \<open>
  \<^verbatim>\<open>getsockopt\<close> answers with its result, the length it wrote, and the uid and pid of the peer; the length must
  be the 12 bytes of \<^verbatim>\<open>struct ucred\<close>.
\<close>

definition read_peer_credentials :: "env \<Rightarrow> server \<Rightarrow> (u32 \<times> int) option \<times> server" where
  "read_peer_credentials e s =
    (if e_uv_fileno e (s_calls s) < 0 then (None, called s)
     else case e_getsockopt_peercred e (s_calls (called s)) of (result, len, uid, pid) \<Rightarrow>
       (if result < 0 \<or> len \<noteq> 12 then None else Some (uid, pid), called (called s)))"

definition count_peer_rejection :: "server \<Rightarrow> server" where
  "count_peer_rejection s = s\<lparr>s_stats := (s_stats s)\<lparr>st_peer_limit_rejections := st_peer_limit_rejections (s_stats s) + 1\<rparr>\<rparr>"

text \<open>
  A peer that may connect gets its deadlines and starts reading.  The size of the socket's send buffer, which is
  also set here, is not part of the state.
\<close>

definition admit_client :: "env \<Rightarrow> u32 \<Rightarrow> int \<Rightarrow> conn \<Rightarrow> conn" where
  "admit_client e peer_uid peer_pid = (\<lambda>(s, c).
     let (now, s) = monotonic_ns e s;
         c = c\<lparr>c_peer_uid := peer_uid, c_peer_pid := peer_pid, c_hello_deadline_ns := now + HELLO_TIMEOUT_NS,
           c_setup_deadline_ns := now + SETUP_TIMEOUT_NS, c_active := True\<rparr>
     in (called s, if e_uv_read_start e (s_calls s) < 0 then client_close c else c))"

text \<open>The part of \<^verbatim>\<open>on_connection\<close> after the slot has been cleared.\<close>

definition accept_client :: "env \<Rightarrow> conn \<Rightarrow> conn" where
  "accept_client e = (\<lambda>(s, c).
     if e_uv_pipe_init e (s_calls s) < 0 then (called s, c)
     else let s = called s in
     if e_uv_accept e (s_calls s) < 0 then (called s, c\<lparr>c_closing := True\<rparr>)
     else case read_peer_credentials e (called s) of
       (None, s) \<Rightarrow> (count_peer_rejection s, client_close (c\<lparr>c_active := True\<rparr>))
     | (Some (peer_uid, peer_pid), s) \<Rightarrow>
         if active_clients_for_uid s peer_uid \<ge> MAX_CLIENTS_PER_UID
         then (count_peer_rejection s, client_close (c\<lparr>c_active := True\<rparr>))
         else admit_client e peer_uid peer_pid (s, c))"

definition on_connection :: "env \<Rightarrow> int \<Rightarrow> server \<Rightarrow> server option" where
  "on_connection e status s =
    (if status < 0 \<or> s_shutting_down s then Some s
     else case find_available_client s of
       None \<Rightarrow> Some (reject_connection e s)
     | Some i \<Rightarrow> map_option snd (with_client i (\<lambda>(s, c). Some ((), accept_client e (s, zero_client))) s))"

definition on_client_closed :: "conn \<Rightarrow> (unit \<times> conn) option" where
  "on_client_closed = (\<lambda>(s, c). Some ((), s, zero_client))"

definition active_client_count :: "server \<Rightarrow> nat" where
  "active_client_count s = length (filter c_active (s_clients s))"

section \<open>Timers and shutdown\<close>

definition effective_hz :: "u64 \<Rightarrow> server \<Rightarrow> server" where
  "effective_hz now s =
    (let s = (if s_heartbeat_previous_ns s \<noteq> 0 \<and> now > s_heartbeat_previous_ns s
       then let elapsed_ns = now - s_heartbeat_previous_ns s;
                elapsed_samples = s_sample_sequence s - s_heartbeat_previous_sequence s
            in s\<lparr>s_effective_hz_millihz := ucast ((elapsed_samples * 1000000000000) div elapsed_ns)\<rparr>
       else s)
     in s\<lparr>s_heartbeat_previous_ns := now, s_heartbeat_previous_sequence := s_sample_sequence s\<rparr>)"

definition heartbeat_of :: "u8 \<Rightarrow> conn \<Rightarrow> heartbeat_fields" where
  "heartbeat_of source_state = (\<lambda>(s, c). \<lparr>hb_sample_sequence = s_sample_sequence s,
     hb_change_sequence = s_change_sequence s, hb_dropped_batches = c_dropped_batches c,
     hb_coalesced_samples = s_coalesced_samples s, hb_effective_hz_millihz = s_effective_hz_millihz s,
     hb_source_state = source_state\<rparr>)"

text \<open>The body of the loop over the clients in \<^verbatim>\<open>on_heartbeat\<close>.\<close>

definition heartbeat_client :: "env \<Rightarrow> u64 \<Rightarrow> u8 \<Rightarrow> conn \<Rightarrow> (unit \<times> conn) option" where
  "heartbeat_client e now source_state = (\<lambda>(s, c).
     if c_active c \<and> \<not> c_greeted c \<and> now \<ge> c_hello_deadline_ns c
     then Some ((), s\<lparr>s_stats := (s_stats s)\<lparr>st_hello_timeouts := st_hello_timeouts (s_stats s) + 1\<rparr>\<rparr>, client_close c)
     else if c_active c \<and> c_greeted c \<and> \<not> c_subscribed c \<and> c_setup_deadline_ns c \<noteq> 0 \<and> now \<ge> c_setup_deadline_ns c
     then Some ((), s\<lparr>s_stats := (s_stats s)\<lparr>st_setup_timeouts := st_setup_timeouts (s_stats s) + 1\<rparr>\<rparr>, client_close c)
     else if \<not> c_active c \<or> \<not> c_greeted c \<or> \<not> c_subscribed c \<or> c_needs_resync c then Some ((), s, c)
     else do {
       (len, payload) \<leftarrow> roadcast_encode_heartbeat (replicate ROADCAST_HEARTBEAT_SIZE 0) (heartbeat_of source_state (s, c));
       (ok, s, c) \<leftarrow> client_queue_message e ROADCAST_MSG_HEARTBEAT (s_change_sequence s) (s_sample_timestamp_ns s)
         payload len True (s, c);
       Some ((), s, if ok then c else client_close c) })"

definition on_heartbeat :: "env \<Rightarrow> u8 \<Rightarrow> server \<Rightarrow> server option" where
  "on_heartbeat e source_state s =
    (let (now, s) = monotonic_ns e s in for_clients (heartbeat_client e now source_state) (effective_hz now s))"

text \<open>The statistics window: what is logged is not part of the state, the reset is.\<close>

definition on_stats :: "u64 \<Rightarrow> u64 \<Rightarrow> server \<Rightarrow> server" where
  "on_stats source_errors fallback_batches s = s\<lparr>s_stats := zero_stats\<lparr>st_source_errors_at_start := source_errors,
     st_fallback_batches_at_start := fallback_batches\<rparr>\<rparr>"

text \<open>Shutting down closes every client; the sampler thread and the handles of the loop are not part of this state.\<close>

definition server_shutdown :: "server \<Rightarrow> server" where
  "server_shutdown s = (if s_shutting_down s then s
     else s\<lparr>s_shutting_down := True, s_clients := map client_close (s_clients s)\<rparr>)"

section \<open>The server that main sets up\<close>

definition initial_times :: "u64 \<Rightarrow> roadcast_signal_value \<Rightarrow> roadcast_signal_value" where
  "initial_times timestamp_ns v = (if sv_state v = ROADCAST_OBSERVATION_VALID
     then v\<lparr>sv_first_observed_ns := timestamp_ns, sv_last_change_ns := timestamp_ns\<rparr>
     else v\<lparr>sv_first_observed_ns := 0, sv_last_change_ns := 0\<rparr>)"

definition initial_server ::
    "bool \<Rightarrow> roadcast_signal_definition list \<Rightarrow> u32 \<Rightarrow> u32 \<Rightarrow> roadcast_frame list \<times> u64 \<times> u64 \<Rightarrow> u64 \<Rightarrow> u64 \<Rightarrow> server option" where
  "initial_server fc sigs hz client_queue_slots = (\<lambda>(frames, sample_sequence, timestamp_ns) source_errors fallback_batches. do {
     signals \<leftarrow> roadcast_decode_signals fc sigs frames (replicate ROADCAST_SIGNAL_COUNT zero_signal);
     Some \<lparr>s_clients = replicate MAX_CLIENTS zero_client, s_frames = frames,
       s_signals = map (initial_times timestamp_ns) signals, s_sample_sequence = sample_sequence,
       s_change_sequence = 0, s_sample_timestamp_ns = timestamp_ns, s_coalesced_samples = 0,
       s_heartbeat_previous_sequence = 0, s_heartbeat_previous_ns = 0, s_effective_hz_millihz = hz * 1000,
       s_hz = hz, s_client_queue_slots = client_queue_slots,
       s_stats = zero_stats\<lparr>st_source_errors_at_start := source_errors,
         st_fallback_batches_at_start := fallback_batches\<rparr>,
       s_shutting_down = False, s_calls = 0\<rparr> })"

section \<open>Events\<close>

datatype event =
    Connection int
  | Readable nat read_result
  | Written nat nat int
  | Closed nat
  | Sample "roadcast_frame list \<times> u64 \<times> u64"
  | Heartbeat u8
  | Statistics u64 u64
  | Shutdown

definition daemon_step ::
    "env \<Rightarrow> bool \<Rightarrow> roadcast_signal_definition list \<Rightarrow> u64 \<Rightarrow> event \<Rightarrow> server \<Rightarrow> server option" where
  "daemon_step e fc sigs schema_hash ev s = (case ev of
     Connection status \<Rightarrow> on_connection e status s
   | Readable i r \<Rightarrow> map_option snd (with_client i (on_client_read e sigs schema_hash r) s)
   | Written i slot status \<Rightarrow> map_option snd (with_client i (on_client_write e slot status) s)
   | Closed i \<Rightarrow> map_option snd (with_client i on_client_closed s)
   | Sample sample \<Rightarrow> distribute_latest_sample e fc sigs sample s
   | Heartbeat source_state \<Rightarrow> on_heartbeat e source_state s
   | Statistics source_errors fallback_batches \<Rightarrow> Some (on_stats source_errors fallback_batches s)
   | Shutdown \<Rightarrow> Some (server_shutdown s))"

text \<open>
  What libuv guarantees of a callback: it belongs to a handle that is open, a read fits the buffer offered, a
  write callback names a request in flight, the close callback follows \<^verbatim>\<open>uv_close\<close>; and a sample is a whole set
  of frames, as the sampler publishes them.
\<close>

definition event_ok :: "event \<Rightarrow> server \<Rightarrow> bool" where
  "event_ok ev s \<longleftrightarrow> (case ev of
     Readable i r \<Rightarrow> i < MAX_CLIENTS \<and> read_pre r (s_clients s ! i)
   | Written i slot status \<Rightarrow> i < MAX_CLIENTS \<and> write_pre slot (s_clients s ! i)
   | Closed i \<Rightarrow> i < MAX_CLIENTS \<and> c_closing (s_clients s ! i)
   | Sample sample \<Rightarrow> frames_wf (fst sample)
   | _ \<Rightarrow> True)"

inductive reachable :: "env \<Rightarrow> bool \<Rightarrow> roadcast_signal_definition list \<Rightarrow> u64 \<Rightarrow> server \<Rightarrow> server \<Rightarrow> bool"
  for e fc sigs h s0 where
  start: "reachable e fc sigs h s0 s0"
| step: "reachable e fc sigs h s0 s \<Longrightarrow> event_ok ev s \<Longrightarrow> daemon_step e fc sigs h ev s = Some s'
    \<Longrightarrow> reachable e fc sigs h s0 s'"

section \<open>Every callback keeps the invariant\<close>

lemma find_client_Some:
  "find_client cs k = Some i \<Longrightarrow> k \<le> i \<and> i - k < length cs \<and> \<not> c_active (cs ! (i - k)) \<and> \<not> c_closing (cs ! (i - k))"
  by (induction cs k rule: find_client.induct) (auto simp: nth_Cons' split: if_splits)

lemma zero_client_inv:
  assumes "server_data_wf s" and "unat (s_client_queue_slots s) \<le> CLIENT_QUEUE_SLOTS"
  shows "conn_inv (s, zero_client)" and "client_wf zero_client"
proof -
  have "queue_inv s zero_client"
    using assms by (simp add: queue_inv_def zero_client_def slot_wf_def list_all_iff sum_list_replicate)
  moreover have "session_inv zero_client"
    by (simp add: session_inv_def zero_client_def frames_wf_def signals_wf_def indices_wf_def list_all_iff frame_wf_def
        zero_frame_def value_wf_def zero_signal_def)
  ultimately show "conn_inv (s, zero_client)"
    using assms by (simp add: conn_inv_def)
  show "client_wf zero_client"
    by (simp add: client_wf_def zero_client_def)
qed

lemma length_filter_update_Suc: "length (filter P (xs[i := y])) \<le> Suc (length (filter P xs))"
proof -
  have "{j. j < length (xs[i := y]) \<and> P (xs[i := y] ! j)} \<subseteq> insert i {j. j < length xs \<and> P (xs ! j)}"
    by (cases "i < length xs") (auto simp: nth_list_update list_update_beyond split: if_splits)
  then have "card {j. j < length (xs[i := y]) \<and> P (xs[i := y] ! j)} \<le> card (insert i {j. j < length xs \<and> P (xs ! j)})"
    by (intro card_mono) auto
  also have "\<dots> \<le> Suc (card {j. j < length xs \<and> P (xs ! j)})"
    by (simp add: card_insert_if)
  finally show ?thesis by (simp add: length_filter_conv_card)
qed

text \<open>Storing a client that has just become active.\<close>

lemma server_inv_admit:
  assumes inv: "server_inv s" and c: "conn_inv (s, c)" "client_wf c"
    and room: "c_active c \<Longrightarrow> active_clients_for_uid s (c_peer_uid c) < MAX_CLIENTS_PER_UID"
  shows "server_inv (s\<lparr>s_clients := (s_clients s)[i := c]\<rparr>)"
proof -
  let ?s = "s\<lparr>s_clients := (s_clients s)[i := c]\<rparr>"
  have conn: "conn_inv (?s, d) = conn_inv (s, d)" for d
    by (simp add: conn_inv_def server_data_wf_def queue_inv_def)
  have "conn_inv (?s, d) \<and> client_wf d" if "d \<in> set (s_clients ?s)" for d
  proof -
    have "d = c \<or> d \<in> set (s_clients s)"
      using that by (auto dest: set_update_subset_insert [THEN subsetD])
    then show ?thesis
      unfolding conn using inv c by (auto simp: server_inv_def)
  qed
  moreover have "active_clients_for_uid ?s uid \<le> 8" for uid
  proof (cases "c_active c \<and> c_peer_uid c = uid")
    case True
    have "active_clients_for_uid ?s uid \<le> Suc (active_clients_for_uid s uid)"
      unfolding active_clients_for_uid_def by (simp, rule length_filter_update_Suc)
    with True room show ?thesis by auto
  next
    case False
    have "active_clients_for_uid ?s uid \<le> active_clients_for_uid s uid"
      unfolding active_clients_for_uid_def by (simp, rule length_filter_update) (use False in auto)
    with inv show ?thesis by (meson le_trans server_inv_def)
  qed
  ultimately show ?thesis
    using inv by (simp add: server_inv_def server_data_wf_def)
qed

lemma read_peer_credentials_same:
  assumes "read_peer_credentials e s = (r, s')"
  shows "server_same s s'"
  using assms server_same_trans [OF server_same_called server_same_called]
  by (auto simp: read_peer_credentials_def split: if_splits prod.splits)

lemma accept_client_ok:
  assumes inv: "server_inv s"
  obtains s' c' where "accept_client e (s, zero_client) = (s', c')" and "server_same s s'" and "conn_inv (s', c')"
    and "client_wf c'" and "c_active c' \<Longrightarrow> active_clients_for_uid s (c_peer_uid c') < MAX_CLIENTS_PER_UID"
proof -
  obtain s' c' where run: "accept_client e (s, zero_client) = (s', c')" by (metis surj_pair)
  have zero: "session_inv zero_client" "queue_inv s zero_client"
    using zero_client_inv(1) [of s] inv by (auto simp: conn_inv_def server_inv_def)
  obtain r s2 where cred: "read_peer_credentials e (called (called s)) = (r, s2)" by (metis surj_pair)
  have same2: "server_same s s2"
    using read_peer_credentials_same [OF cred] server_same_called server_same_trans by blast
  have clients: "s_clients s2 = s_clients s"
    using server_sameD [OF same2] by simp
  consider "s' = called s" | "s' = called (called s)" | "s' = count_peer_rejection s2" | "s' = called (called s2)"
    using run cred
    by (auto simp: accept_client_def admit_client_def monotonic_ns_def Let_def split: if_splits option.splits)
  moreover have "server_same s (called (called s))" "server_same s2 (count_peer_rejection s2)"
      "server_same s2 (called (called s2))"
    by (simp_all add: server_same_def called_def count_peer_rejection_def)
  ultimately have same: "server_same s s'"
    by cases (use same2 server_same_called server_same_trans in blast)+
  have "c_output c' = c_output zero_client \<and> c_pending_bytes c' = c_pending_bytes zero_client \<and> session_inv c'
      \<and> client_wf c' \<and> (c_active c' \<longrightarrow> active_clients_for_uid s (c_peer_uid c') < 8)"
    using run zero(1) cred clients
    by (auto simp: accept_client_def admit_client_def monotonic_ns_def Let_def
        client_close_def session_inv_def client_wf_def active_clients_for_uid_def called_def zero_client_def
        split: if_splits option.splits)
  then have *: "conn_inv (s, c')" "client_wf c'" "c_active c' \<longrightarrow> active_clients_for_uid s (c_peer_uid c') < 8"
    using zero(2) inv queue_inv_cong [of c' zero_client s] by (auto simp: conn_inv_def server_inv_def)
  with run same show thesis
    by (intro that [of s' c']) (simp_all add: conn_inv_same)
qed

text \<open>Only a sample changes the data that is served.\<close>

definition same_data :: "server \<Rightarrow> server \<Rightarrow> bool" where
  "same_data s s' \<longleftrightarrow> s_frames s' = s_frames s \<and> s_signals s' = s_signals s
     \<and> s_sample_sequence s' = s_sample_sequence s \<and> s_sample_timestamp_ns s' = s_sample_timestamp_ns s"

lemma server_same_data: "server_same s s' \<Longrightarrow> same_data s s'"
  unfolding server_same_def same_data_def by (metis server.select_convs server.surjective server.update_convs)

lemma same_data_clients [simp]: "same_data s (s'\<lparr>s_clients := cs\<rparr>) = same_data s s'"
  by (simp add: same_data_def)

lemma on_connection_ok:
  assumes inv: "server_inv s"
  shows "\<exists>s'. on_connection e status s = Some s' \<and> server_inv s' \<and> same_data s s'"
proof (cases "status < 0 \<or> s_shutting_down s")
  case True
  with inv show ?thesis by (simp add: on_connection_def same_data_def)
next
  case False
  show ?thesis
  proof (cases "find_available_client s")
    case None
    have same: "server_same s (reject_connection e s)"
      by (simp add: reject_connection_def server_same_def called_def Let_def)
    show ?thesis
      using False None server_inv_same [OF inv same] server_same_data [OF same] by (simp add: on_connection_def)
  next
    case (Some i)
    have i: "i < length (s_clients s)"
      using Some find_client_Some [of "s_clients s" 0 i] by (simp add: find_available_client_def)
    obtain s' c' where run: "accept_client e (s, zero_client) = (s', c')" and same: "server_same s s'"
      and new: "conn_inv (s', c')" "client_wf c'"
      and room: "c_active c' \<Longrightarrow> active_clients_for_uid s (c_peer_uid c') < 8"
      by (rule accept_client_ok [OF inv, of e]) blast
    have "server_inv (s'\<lparr>s_clients := (s_clients s')[i := c']\<rparr>)"
      by (rule server_inv_admit [OF server_inv_same [OF inv same] new])
        (use room in \<open>simp add: active_clients_for_uid_def server_sameD [OF same]\<close>)
    with False Some i run show ?thesis
      by (simp add: on_connection_def with_client_def rd_Some server_sameD [OF same] server_same_data [OF same])
  qed
qed

text \<open>The heartbeat on one slot: nothing, a timeout, or a heartbeat sent, dropped or refused.\<close>

definition open_pre :: "client \<Rightarrow> bool" where
  "open_pre c \<longleftrightarrow> \<not> (c_active c \<and> c_closing c)"

lemma server_same_stats [simp]: "server_same s (s\<lparr>s_stats := x\<rparr>)"
  by (simp add: server_same_def)

lemma heartbeat_payload:
  "roadcast_encode_heartbeat (replicate ROADCAST_HEARTBEAT_SIZE 0) hb = Some (40, heartbeat_bytes hb)"
  by (simp add: encode_heartbeat_poke poke_Some)

interpretation heartbeat: connection_handler "heartbeat_client e now st" open_pre for e now st
proof
  fix s c
  assume inv: "conn_inv (s, c)" and pre: "open_pre c"
  let ?done = "\<lambda>r. \<exists>s' c'. r = Some ((), s', c') \<and> server_same s s' \<and> conn_inv (s', c') \<and> link_ok c c'"
  have timeout: "?done (Some ((), s\<lparr>s_stats := x\<rparr>, client_close c))" for x
    using conn_inv_same [OF server_same_stats [of s x], of c] inv by simp
  show "?done (heartbeat_client e now st (s, c))"
  proof (cases "c_active c \<and> c_greeted c \<and> c_subscribed c \<and> \<not> c_needs_resync c")
    case False
    with timeout inv show ?thesis by (auto simp: heartbeat_client_def)
  next
    case True
    let ?p = "heartbeat_bytes (heartbeat_of st (s, c))"
    have run: "heartbeat_client e now st (s, c) = Option.bind (client_queue_message e ROADCAST_MSG_HEARTBEAT
        (s_change_sequence s) (s_sample_timestamp_ns s) ?p 40 True (s, c)) (\<lambda>(ok, s, c).
        Some ((), s, if ok then c else client_close c))"
      using True by (simp add: heartbeat_client_def heartbeat_payload)
    obtain ok s' c' where q: "client_queue_message e ROADCAST_MSG_HEARTBEAT (s_change_sequence s)
        (s_sample_timestamp_ns s) ?p 40 True (s, c) = Some (ok, s', c')" "server_same s s'" "conn_inv (s', c')"
      by (rule handler_okE [OF queue_message_ok [OF inv, of 40 ?p]]) auto
    have "link_ok c c'"
      using queue_message_input [OF q(1)] True by (intro link_ok_peer) (auto simp: keeps_link_def)
    with run q show ?thesis by (simp add: link_ok_close_after)
  qed
qed

lemma effective_hz_simps [simp]:
  "s_clients (effective_hz now s) = s_clients s" "s_frames (effective_hz now s) = s_frames s"
  "s_signals (effective_hz now s) = s_signals s" "s_client_queue_slots (effective_hz now s) = s_client_queue_slots s"
  "s_sample_sequence (effective_hz now s) = s_sample_sequence s"
  "s_sample_timestamp_ns (effective_hz now s) = s_sample_timestamp_ns s"
  by (simp_all add: effective_hz_def Let_def)

lemma on_heartbeat_ok:
  assumes inv: "server_inv s"
  shows "\<exists>s'. on_heartbeat e st s = Some s' \<and> server_inv s' \<and> same_data s s'"
proof -
  let ?now = "e_clock e (s_calls s)"
  let ?s = "effective_hz ?now (called s)"
  have inv1: "server_inv ?s"
    by (rule server_inv_cong [OF inv]) (use inv in \<open>simp_all add: called_def server_inv_def server_data_wf_def\<close>)
  have "open_pre c" if "c \<in> set (s_clients ?s)" for c
    using inv1 that by (auto simp: server_inv_def client_wf_def open_pre_def)
  from heartbeat.for_clients_ok [OF inv1 this, of e ?now st]
  obtain s' where s': "for_clients (heartbeat_client e ?now st) ?s = Some s'" "server_inv s'"
      "server_same ?s (s'\<lparr>s_clients := s_clients ?s\<rparr>)"
    by blast
  have "same_data s s'"
    using server_same_data [OF s'(3)] by (simp add: same_data_def called_def)
  with s' show ?thesis by (simp add: on_heartbeat_def monotonic_ns_def)
qed

lemma on_client_closed_ok:
  assumes inv: "server_inv s" and i: "i < MAX_CLIENTS"
  shows "with_client i on_client_closed s = Some ((), s\<lparr>s_clients := (s_clients s)[i := zero_client]\<rparr>)"
    and "server_inv (s\<lparr>s_clients := (s_clients s)[i := zero_client]\<rparr>)"
proof -
  show "with_client i on_client_closed s = Some ((), s\<lparr>s_clients := (s_clients s)[i := zero_client]\<rparr>)"
    using inv i by (simp add: with_client_def on_client_closed_def rd_Some server_inv_def)
  have "\<not> c_active zero_client" by (simp add: zero_client_def)
  with inv show "server_inv (s\<lparr>s_clients := (s_clients s)[i := zero_client]\<rparr>)"
    by (intro server_inv_store zero_client_inv) (auto simp: server_inv_def)
qed

lemma length_filter_map_le: "(\<And>x. P (f x) \<Longrightarrow> P x) \<Longrightarrow> length (filter P (map f xs)) \<le> length (filter P xs)"
  by (induction xs) (auto intro: le_SucI)

lemma server_shutdown_ok:
  assumes inv: "server_inv s"
  shows "server_inv (server_shutdown s)"
proof (cases "s_shutting_down s")
  case False
  let ?s = "s\<lparr>s_shutting_down := True, s_clients := map client_close (s_clients s)\<rparr>"
  have conn: "conn_inv (?s, d) = conn_inv (s, d)" for d
    by (simp add: conn_inv_def server_data_wf_def queue_inv_def)
  have closed: "s_clients ?s = map client_close (s_clients s)" by simp
  have "conn_inv (?s, d) \<and> client_wf d" if "d \<in> set (s_clients ?s)" for d
    unfolding conn using that inv by (auto simp: server_inv_def intro: client_wf_link)
  moreover have "active_clients_for_uid ?s uid \<le> 8" for uid
  proof -
    have "active_clients_for_uid ?s uid \<le> active_clients_for_uid s uid"
      unfolding active_clients_for_uid_def closed
      by (rule length_filter_map_le) (auto simp: client_close_def split: if_splits)
    with inv show ?thesis by (meson le_trans server_inv_def)
  qed
  ultimately have "server_inv ?s"
    using inv by (simp add: server_inv_def server_data_wf_def)
  with False show ?thesis by (simp add: server_shutdown_def)
qed (use inv in \<open>simp add: server_shutdown_def\<close>)

context sized_catalogue
begin

lemma daemon_step_ok:
  assumes inv: "server_inv s" and agree: "signals_agree fc sigs (s_frames s) (s_signals s)" and ev: "event_ok ev s"
  shows "\<exists>s'. daemon_step e fc sigs h ev s = Some s' \<and> server_inv s' \<and> signals_agree fc sigs (s_frames s') (s_signals s')
    \<and> (case ev of
         Sample (latest, sq, ts) \<Rightarrow> if sq \<le> s_sample_sequence s then s' = s
           else s_frames s' = latest \<and> s_sample_sequence s' = sq \<and> s_sample_timestamp_ns s' = ts
       | _ \<Rightarrow> same_data s s')"
proof (cases ev)
  case (Connection status)
  then show ?thesis
    using on_connection_ok [OF inv, of e status] agree by (auto simp: daemon_step_def same_data_def)
next
  case (Readable i r)
  then have pre: "i < 16" "read_pre r (s_clients s ! i)"
    using ev by (auto simp: event_ok_def)
  obtain s' c' where "with_client i (on_client_read e sigs h r) s = Some ((), s'\<lparr>s_clients := (s_clients s)[i := c']\<rparr>)"
    "server_same s s'" "server_inv (s'\<lparr>s_clients := (s_clients s)[i := c']\<rparr>)"
    by (rule connection_handler.with_client_ok [OF on_client_read_handler inv pre, of e h])
  then show ?thesis
    using Readable agree server_same_data by (simp add: daemon_step_def server_sameD)
next
  case (Written i slot status)
  then have pre: "i < 16" "write_pre slot (s_clients s ! i)"
    using ev by (auto simp: event_ok_def)
  obtain s' c' where "with_client i (on_client_write e slot status) s = Some ((), s'\<lparr>s_clients := (s_clients s)[i := c']\<rparr>)"
    "server_same s s'" "server_inv (s'\<lparr>s_clients := (s_clients s)[i := c']\<rparr>)"
    by (rule written.with_client_ok [OF inv pre, of e status])
  then show ?thesis
    using Written agree server_same_data by (simp add: daemon_step_def server_sameD)
next
  case (Closed i)
  then show ?thesis
    using on_client_closed_ok [OF inv] ev agree by (simp add: daemon_step_def event_ok_def same_data_def)
next
  case (Sample sample)
  then show ?thesis
    using distribute_ok [OF inv agree, of "fst sample" e "fst (snd sample)" "snd (snd sample)"] ev
    by (auto simp: daemon_step_def event_ok_def)
next
  case (Heartbeat st)
  then show ?thesis
    using on_heartbeat_ok [OF inv, of e st] agree by (auto simp: daemon_step_def same_data_def)
next
  case (Statistics a b)
  have "server_inv (on_stats a b s)"
    by (rule server_inv_same [OF inv]) (simp add: on_stats_def)
  with Statistics agree show ?thesis by (simp add: daemon_step_def) (simp add: on_stats_def same_data_def)
next
  case Shutdown
  then show ?thesis
    using server_shutdown_ok [OF inv] agree by (simp add: daemon_step_def) (simp add: server_shutdown_def same_data_def)
qed

lemma initial_server_ok:
  assumes wf: "frames_wf frames" and slots: "1 \<le> unat slots" "unat slots \<le> CLIENT_QUEUE_SLOTS"
  obtains s where "initial_server fc sigs hz slots (frames, sq, ts) se fb = Some s" and "server_inv s"
    and "signals_agree fc sigs (s_frames s) (s_signals s)"
proof -
  obtain ws where ws: "roadcast_decode_signals fc sigs frames (replicate 815 zero_signal) = Some ws" "length ws = 815"
    by (rule full_decode [OF frames_wf_ok [OF wf], of fc])
  obtain s where s: "initial_server fc sigs hz slots (frames, sq, ts) se fb = Some s"
    using ws(1) by (simp add: initial_server_def)
  have fields: "s_clients s = replicate 16 zero_client" "s_frames s = frames" "s_signals s = map (initial_times ts) ws"
    "s_client_queue_slots s = slots"
    using s ws(1) by (auto simp: initial_server_def)
  have "value_wf v \<Longrightarrow> value_wf (initial_times ts v)" for v
    by (simp add: value_wf_def initial_times_def)
  then have data: "server_data_wf s"
    using wf full_decode_wf [OF wf ws(1)] by (simp add: server_data_wf_def fields signals_wf_def list_all_iff)
  have inactive: "\<not> c_active zero_client" by (simp add: zero_client_def)
  have "conn_inv (s, zero_client)" "client_wf zero_client"
    using zero_client_inv [OF data] slots by (simp_all add: fields)
  then have "server_inv s"
    using data slots inactive by (simp add: server_inv_def fields active_clients_for_uid_def)
  moreover have "signal_agrees w (initial_times ts w)" for w
    by (simp add: signal_agrees_def initial_times_def)
  then have "signals_agree fc sigs (s_frames s) (s_signals s)"
    using ws by (simp add: signals_agree_def fields list_all2_conv_all_nth)
  ultimately show thesis
    using s by (intro that)
qed

lemma reachable_ok:
  assumes "reachable e fc sigs h s0 s" and "server_inv s0" and "signals_agree fc sigs (s_frames s0) (s_signals s0)"
  shows "server_inv s \<and> signals_agree fc sigs (s_frames s) (s_signals s)"
  using assms
proof (induction rule: reachable.induct)
  case (step s ev s')
  then show ?case using daemon_step_ok [of s fc ev e h] by auto
qed simp

end

end
