(* ===== verification/Daemon_Progress.thy ===== *)
theory Daemon_Progress
  imports Daemon_Server
begin

text \<open>
  Progress of the daemon's session: the catch-up loop makes a bounded number of turns, a subscription on an
  empty queue to a peer that takes everything completes at once, and the heartbeat closes connections past
  their deadlines.
\<close>

section \<open>The catch-up loop is bounded\<close>

text \<open>At most \<open>n\<close> turns of the loop; \<^const>\<open>None\<close> when that is not enough.\<close>

fun drive_turns :: "nat \<Rightarrow> env \<Rightarrow> conn \<Rightarrow> (bool \<times> conn) option" where
  "drive_turns 0 e sc = None"
| "drive_turns (Suc n) e sc = (case drive_step e sc of
     None \<Rightarrow> None
   | Some (Again, sc') \<Rightarrow> drive_turns n e sc'
   | Some (Abort, sc') \<Rightarrow> Some (False, sc')
   | Some (Leave, sc') \<Rightarrow> Some (True, sc'))"

lemma drive_turns_enough: "drive_measure sc < n \<Longrightarrow> drive_turns n e sc = drive_loop e sc"
proof (induction n arbitrary: sc)
  case (Suc n)
  show ?case
  proof (cases "\<exists>sc'. drive_step e sc = Some (Again, sc')")
    case True
    then obtain s' c' where step: "drive_step e sc = Some (Again, s', c')" by auto
    have "drive_measure (s', c') < drive_measure sc"
      using drive_step_decreases [of e "fst sc" "snd sc" s' c'] step by simp
    with Suc have "drive_turns n e (s', c') = drive_loop e (s', c')" by simp
    with step show ?thesis by (subst drive_loop.simps) simp
  next
    case False
    then show ?thesis
      by (subst drive_loop.simps) (auto split: option.splits turn.splits)
  qed
qed simp

lemma drive_measure_bound:
  assumes "conn_inv (s, c)"
  shows "drive_measure (s, c) \<le> 2 * CLIENT_QUEUE_SLOTS + 2"
proof -
  have "free_slots s c \<le> length (take (unat (s_client_queue_slots s)) (c_output c))"
    unfolding free_slots_def by (rule length_filter_le)
  also have "\<dots> \<le> 20"
    using conn_invD(1) [OF assms] by (simp add: queue_inv_def)
  finally show ?thesis by (simp add: drive_measure_def)
qed

section \<open>A subscription completes\<close>

text \<open>The messages a round still has to send.\<close>

definition messages_left :: "client \<Rightarrow> nat" where
  "messages_left c =
     (c_catchup_frame_count c - c_catchup_frame_offset c + FRAMES_PER_MESSAGE - 1) div FRAMES_PER_MESSAGE
     + (c_catchup_signal_count c - c_catchup_signal_offset c + SIGNALS_PER_MESSAGE - 1) div SIGNALS_PER_MESSAGE"

lemma chunks_step:
  fixes k :: nat
  assumes "0 < k" and "0 < per"
  shows "Suc ((k - min k per + per - 1) div per) = (k + per - 1) div per"
proof (cases "k \<le> per")
  case True
  then have "(k + per - 1) div per = 1"
    using assms by (simp add: div_nat_eqI)
  with True assms show ?thesis by simp
next
  case False
  then have "k + per - 1 = (k - 1) + per" "k - min k per + per - 1 = k - 1"
    by simp_all
  moreover have "((k - 1) + per) div per = Suc ((k - 1) div per)"
    using assms(2) by (subst div_add_self2) simp_all
  ultimately show ?thesis by (simp only:)
qed

text \<open>The snapshot of the session is the server's current state: the round was begun in this very call.\<close>

definition round_current :: "conn \<Rightarrow> bool" where
  "round_current = (\<lambda>(s, c). c_snapshot_frames c = s_frames s \<and> c_snapshot_signals c = s_signals s)"

lemma changed_indices_same: "(\<And>x. \<not> d x x) \<Longrightarrow> changed_indices d n xs xs = []"
  by (simp add: changed_indices_def filter_empty_conv)

lemma drive_loop_completes:
  assumes "accepting e" and "conn_inv (s, c)" and "c_active c" and "c_catchup_active c" and "round_current (s, c)"
    and "messages_left c < free_slots s c"
  shows "\<exists>s' c'. drive_loop e (s, c) = Some (True, s', c') \<and> c_active c' \<and> c_subscribed c' \<and> \<not> c_catchup_active c'
    \<and> c_setup_deadline_ns c' = 0"
  using assms
proof (induction "drive_measure (s, c)" arbitrary: s c rule: less_induct)
  case less
  have again: "\<exists>s' c'. drive_loop e (s, c) = Some (True, s', c') \<and> c_active c' \<and> c_subscribed c'
      \<and> \<not> c_catchup_active c' \<and> c_setup_deadline_ns c' = 0"
    if step: "drive_step e (s, c) = Some (Again, s1, c1)" and "conn_inv (s1, c1)" "c_active c1" "c_catchup_active c1"
      "round_current (s1, c1)" "messages_left c1 < free_slots s1 c1" for s1 c1
  proof -
    have "\<exists>s' c'. drive_loop e (s1, c1) = Some (True, s', c') \<and> c_active c' \<and> c_subscribed c'
        \<and> \<not> c_catchup_active c' \<and> c_setup_deadline_ns c' = 0"
      by (rule less.hyps [OF drive_step_decreases [OF step]]) (use less.prems(1) that in auto)
    then show ?thesis
      using step by (subst drive_loop.simps) simp
  qed
  have free: "0 < free_slots s c"
    using less.prems(6) by simp
  show ?case
  proof (cases rule: drive_step_run [OF less.prems(2), of e])
    case 1
    with less.prems show ?thesis by simp
  next
    case 2
    with less.prems free show ?thesis by simp
  next
    case (3 s' c')
    with less.prems free show ?thesis by simp
  next
    case (4 s' c')
    let ?n = "min (c_catchup_frame_count c - c_catchup_frame_offset c) FRAMES_PER_MESSAGE"
    let ?c = "c'\<lparr>c_catchup_frame_offset := c_catchup_frame_offset c + ?n\<rparr>"
    note same = sentD [OF 4(6)] server_sameD [OF 4(5)]
    have "Suc (messages_left ?c) = messages_left c"
      using chunks_step [of "c_catchup_frame_count c - c_catchup_frame_offset c" 71] 4(3)
      by (simp add: messages_left_def same)
    moreover have "free_slots s' ?c = free_slots s' c'"
      by (rule free_slots_cong) simp
    ultimately show ?thesis
      using less.prems 4 by (intro again [OF 4(4,7)]) (auto simp: same round_current_def)
  next
    case (5 s' c')
    let ?n = "min (c_catchup_signal_count c - c_catchup_signal_offset c) SIGNALS_PER_MESSAGE"
    let ?c = "c'\<lparr>c_catchup_signal_offset := c_catchup_signal_offset c + ?n\<rparr>"
    note same = sentD [OF 5(7)] server_sameD [OF 5(6)]
    have "Suc (messages_left ?c) = messages_left c"
      using chunks_step [of "c_catchup_signal_count c - c_catchup_signal_offset c" 49] 5(4)
      by (simp add: messages_left_def same)
    moreover have "free_slots s' ?c = free_slots s' c'"
      by (rule free_slots_cong) simp
    ultimately show ?thesis
      using less.prems 5 by (intro again [OF 5(5,8)]) (auto simp: same round_current_def)
  next
    case (6 fi si)
    with less.prems(5) show ?thesis
      by (simp add: round_current_def changed_indices_same frame_differs_def signal_differs_def)
  next
    case (7 fi si s' c')
    let ?c = "c'\<lparr>c_catchup_active := False, c_subscribed := True, c_setup_deadline_ns := 0\<rparr>"
    have act: "c_active c'"
      using sentD(1) [OF 7(8)] 7(1) by (simp add: next_round_def)
    have "drive_loop e (s', ?c) = Some (True, s', ?c)"
      by (subst drive_loop.simps) (simp add: drive_step_def)
    with 7(6) act show ?thesis by (subst drive_loop.simps) simp
  qed
qed

lemma subscription_completes:
  assumes acc: "accepting e" and inv: "conn_inv (s, c)" and act: "c_active c" and "c_greeted c"
    and free: "free_slots s c = CLIENT_QUEUE_SLOTS"
  shows "\<exists>s' c'. queue_subscription_catchup e (s, c) = Some (True, s', c') \<and> c_active c' \<and> c_subscribed c'
    \<and> \<not> c_catchup_active c' \<and> c_setup_deadline_ns c' = 0"
proof -
  let ?c = "c\<lparr>c_catchup_active := True\<rparr>"
  have inv1: "conn_inv (s, ?c)"
    by (rule conn_inv_update [OF inv]) (use conn_invD(2) [OF inv] assms(4) in \<open>simp_all add: session_inv_def\<close>)
  let ?fn = "length (changed_indices frame_differs ROADCAST_FRAME_COUNT (s_frames s) (c_snapshot_frames ?c))"
  let ?sn = "length (changed_indices signal_differs ROADCAST_SIGNAL_COUNT (s_signals s) (c_snapshot_signals ?c))"
  obtain fi si where "begin_catchup_round (s, ?c) = Some (s, next_round s fi ?fn si ?sn ?c)"
    "conn_inv (s, next_round s fi ?fn si ?sn ?c)"
    by (rule catchup_round_run [OF inv1])
  then obtain r where round: "begin_catchup_round (s, ?c) = Some (s, r)" "conn_inv (s, r)"
    and r: "r = next_round s fi ?fn si ?sn ?c"
    by blast
  have fields: "c_output r = c_output c" "c_active r" "c_catchup_active r" "c_snapshot_frames r = s_frames s"
    "c_snapshot_signals r = s_signals s" "c_catchup_waiting_for_capacity r = c_catchup_waiting_for_capacity c"
    "messages_left r = (70 + ?fn) div 71 + (48 + ?sn) div 49"
    using act by (simp_all add: r next_round_def messages_left_def)
  have "(70 + ?fn) div 71 \<le> 2" "(48 + ?sn) div 49 \<le> 17"
    using length_changed [of frame_differs 111 "s_frames s" "c_snapshot_frames ?c"]
      length_changed [of signal_differs 815 "s_signals s" "c_snapshot_signals ?c"] by (simp_all add: div_le_mono)
  then have left: "messages_left r < 20"
    unfolding fields(7) by simp
  define d where "d = (if c_catchup_waiting_for_capacity c
     then r\<lparr>c_catchup_waiting_for_capacity := False, c_catchup_resumption_reported := True\<rparr> else r)"
  define t where "t = (if c_catchup_waiting_for_capacity c then called s else s)"
  have "conn_inv (s, r\<lparr>c_catchup_waiting_for_capacity := False, c_catchup_resumption_reported := True\<rparr>)"
    by (rule conn_inv_update [OF round(2)]) (use conn_invD(2) [OF round(2)] in \<open>simp_all add: session_inv_def\<close>)
  then have inv2: "conn_inv (t, d)"
    using round(2) by (simp add: d_def t_def)
  have free2: "free_slots t d = 20" "free_slots s r = 20"
    using free fields(1) by (simp_all add: free_slots_def d_def t_def called_def)
  have cur: "c_active d" "c_catchup_active d" "round_current (t, d)" "messages_left d = messages_left r"
    using fields by (simp_all add: d_def t_def round_current_def called_def messages_left_def)
  obtain s' c' where loop: "drive_loop e (t, d) = Some (True, s', c')" "c_active c'" "c_subscribed c'" "\<not> c_catchup_active c'"
      "c_setup_deadline_ns c' = 0"
    using drive_loop_completes [OF acc inv2 cur(1-3)] left cur(4) free2 by auto
  have cap: "client_has_output_capacity e (s, r) = Some (True, called s, r)"
    by (rule accepting_capacity [OF acc conn_invD(1) [OF round(2)]]) (simp add: free2)
  have "drive_subscription_catchup e (s, r) = Some (True, s', c')"
    using loop(1,4) cap fields(6)
    by (cases "c_catchup_waiting_for_capacity c") (simp_all add: drive_subscription_catchup_def d_def t_def)
  with loop round(1) show ?thesis
    by (simp add: queue_subscription_catchup_def)
qed

section \<open>Deadlines\<close>

text \<open>A connection whose setup has run out of time.\<close>

definition overdue :: "u64 \<Rightarrow> client \<Rightarrow> bool" where
  "overdue now c \<longleftrightarrow> c_active c \<and>
     (if c_greeted c then \<not> c_subscribed c \<and> c_setup_deadline_ns c \<noteq> 0 \<and> c_setup_deadline_ns c \<le> now
      else c_hello_deadline_ns c \<le> now)"

lemma heartbeat_closes:
  assumes inv: "server_inv s" and i: "i < MAX_CLIENTS" and late: "overdue (e_clock e (s_calls s)) (s_clients s ! i)"
  shows "\<exists>s'. on_heartbeat e st s = Some s' \<and> \<not> c_active (s_clients s' ! i) \<and> c_closing (s_clients s' ! i)
    \<and> c_stream (s_clients s' ! i) = c_stream (s_clients s ! i)"
proof -
  let ?now = "e_clock e (s_calls s)" and ?c = "s_clients s ! i"
  let ?s = "effective_hz ?now (called s)"
  have inv1: "server_inv ?s"
    by (rule server_inv_cong [OF inv]) (use inv in \<open>simp_all add: called_def server_inv_def server_data_wf_def\<close>)
  have pre: "open_pre c" if "c \<in> set (s_clients ?s)" for c
    using inv1 that by (auto simp: server_inv_def client_wf_def open_pre_def)
  obtain s' where s': "for_clients (heartbeat_client e ?now st) ?s = Some s'"
    and at: "\<forall>i < 16. \<exists>t t'. server_same ?s (t\<lparr>s_clients := s_clients ?s\<rparr>) \<and> conn_inv (t, s_clients ?s ! i)
      \<and> heartbeat_client e ?now st (t, s_clients ?s ! i) = Some ((), t', s_clients s' ! i)"
    by (rule heartbeat.for_clients_run [OF inv1 pre, of e ?now st]) blast
  have clients: "s_clients ?s = s_clients s"
    by (simp add: called_def)
  obtain t t' where run: "heartbeat_client e ?now st (t, ?c) = Some ((), t', s_clients s' ! i)"
    using at i unfolding clients by blast
  have open_c: "\<not> c_closing ?c"
    using server_inv_client(2) [OF inv i] late by (auto simp: client_wf_def overdue_def)
  have "s_clients s' ! i = client_close ?c"
    using run late by (auto simp: heartbeat_client_def overdue_def split: if_splits)
  then have "\<not> c_active (s_clients s' ! i)" "c_closing (s_clients s' ! i)" "c_stream (s_clients s' ! i) = c_stream ?c"
    using late open_c by (auto simp: client_close_def overdue_def)
  with s' show ?thesis by (simp add: on_heartbeat_def monotonic_ns_def)
qed

end
