(* ===== verification/Catalog_Table_1.thy ===== *)
theory Catalog_Table_1
  imports Catalog
begin

text \<open>
  Entries 0 to 209 of \<^verbatim>\<open>ROADCAST_SIGNALS\<close> in \<^verbatim>\<open>src/catalog_generated.c\<close>, ten to a block, with the
  \<^verbatim>\<open>SIGNAL_PARTS_n\<close> array of each entry written in its place.  Every block satisfies \<open>block_ok\<close>.
\<close>

definition ROADCAST_SIGNALS_00 :: "roadcast_signal_definition list" where
  "ROADCAST_SIGNALS_00 = [
    \<lparr>sd_stable_id = 0x35bcb28678e8e5b8, sd_name = ''AC_ACCompReq'', sd_unit = '''',
      sd_parts = [part_lit 0 31 1],
      sd_invalid_signal_index = 4294967295, sd_can_id = 0x2F1, sd_frame_index = 86, sd_part_count = 1,
      sd_width = 1, sd_is_signed = 0, sd_calibrated = 1, sd_scale = fp_lit 1 0, sd_offset = fp_lit 0 0\<rparr>,
    \<lparr>sd_stable_id = 0x225f40cd316c8bd4, sd_name = ''AC_AmbientTemperatureInvalid'', sd_unit = '''',
      sd_parts = [part_lit 0 30 1],
      sd_invalid_signal_index = 4294967295, sd_can_id = 0x2F1, sd_frame_index = 86, sd_part_count = 1,
      sd_width = 1, sd_is_signed = 0, sd_calibrated = 0, sd_scale = fp_lit 1 0, sd_offset = fp_lit 0 0\<rparr>,
    \<lparr>sd_stable_id = 0xf1a28fbe51d37442, sd_name = ''AC_InsideTemperatureInvalid'', sd_unit = '''',
      sd_parts = [part_lit 0 24 1],
      sd_invalid_signal_index = 4294967295, sd_can_id = 0x2F1, sd_frame_index = 86, sd_part_count = 1,
      sd_width = 1, sd_is_signed = 0, sd_calibrated = 0, sd_scale = fp_lit 1 0, sd_offset = fp_lit 0 0\<rparr>,
    \<lparr>sd_stable_id = 0x16b577fc690d42d1, sd_name = ''AC_AmbientTemperature'', sd_unit = '''',
      sd_parts = [part_lit 0 16 8],
      sd_invalid_signal_index = 1, sd_can_id = 0x2F1, sd_frame_index = 86, sd_part_count = 1,
      sd_width = 8, sd_is_signed = 0, sd_calibrated = 0, sd_scale = fp_lit 1 0, sd_offset = fp_lit 0 0\<rparr>,
    \<lparr>sd_stable_id = 0xbeb88bfebf6e5c11, sd_name = ''AC_PM25InDen'', sd_unit = '''',
      sd_parts = [part_lit 0 8 8, part_lit 0 0 4],
      sd_invalid_signal_index = 4294967295, sd_can_id = 0x2F1, sd_frame_index = 86, sd_part_count = 2,
      sd_width = 12, sd_is_signed = 0, sd_calibrated = 0, sd_scale = fp_lit 1 0, sd_offset = fp_lit 0 0\<rparr>,
    \<lparr>sd_stable_id = 0x47e0c637a5a25132, sd_name = ''AC_PM25OutDen'', sd_unit = '''',
      sd_parts = [part_lit 0 4 4, part_lit 4 24 8],
      sd_invalid_signal_index = 4294967295, sd_can_id = 0x2F1, sd_frame_index = 86, sd_part_count = 2,
      sd_width = 12, sd_is_signed = 0, sd_calibrated = 0, sd_scale = fp_lit 1 0, sd_offset = fp_lit 0 0\<rparr>,
    \<lparr>sd_stable_id = 0x684e482bc0c5bd39, sd_name = ''AC_AirInQLevel'', sd_unit = '''',
      sd_parts = [part_lit 4 21 3],
      sd_invalid_signal_index = 4294967295, sd_can_id = 0x2F1, sd_frame_index = 86, sd_part_count = 1,
      sd_width = 3, sd_is_signed = 0, sd_calibrated = 0, sd_scale = fp_lit 1 0, sd_offset = fp_lit 0 0\<rparr>,
    \<lparr>sd_stable_id = 0x43f3fae5a0ab2614, sd_name = ''AC_AirOutQLevel'', sd_unit = '''',
      sd_parts = [part_lit 4 18 3],
      sd_invalid_signal_index = 4294967295, sd_can_id = 0x2F1, sd_frame_index = 86, sd_part_count = 1,
      sd_width = 3, sd_is_signed = 0, sd_calibrated = 0, sd_scale = fp_lit 1 0, sd_offset = fp_lit 0 0\<rparr>,
    \<lparr>sd_stable_id = 0x8b7115e69c808a7f, sd_name = ''AC_PM25Sts'', sd_unit = '''',
      sd_parts = [part_lit 4 16 2],
      sd_invalid_signal_index = 4294967295, sd_can_id = 0x2F1, sd_frame_index = 86, sd_part_count = 1,
      sd_width = 2, sd_is_signed = 0, sd_calibrated = 0, sd_scale = fp_lit 1 0, sd_offset = fp_lit 0 0\<rparr>,
    \<lparr>sd_stable_id = 0xc73977972c3670f3, sd_name = ''AC_InsideTemperature'', sd_unit = '''',
      sd_parts = [part_lit 4 8 8],
      sd_invalid_signal_index = 2, sd_can_id = 0x2F1, sd_frame_index = 86, sd_part_count = 1,
      sd_width = 8, sd_is_signed = 0, sd_calibrated = 0, sd_scale = fp_lit 1 0, sd_offset = fp_lit 0 0\<rparr>]"

lemma ROADCAST_SIGNALS_00_ok: "block_ok ROADCAST_CAN_IDS 815 0 10 ROADCAST_SIGNALS_00"
  by (simp add: ROADCAST_SIGNALS_00_def signal_eval)

definition ROADCAST_SIGNALS_01 :: "roadcast_signal_definition list" where
  "ROADCAST_SIGNALS_01 = [
    \<lparr>sd_stable_id = 0x155edc354fe928ce, sd_name = ''AC_ParkingClimateStatus'', sd_unit = '''',
      sd_parts = [part_lit 4 6 2],
      sd_invalid_signal_index = 4294967295, sd_can_id = 0x2F1, sd_frame_index = 86, sd_part_count = 1,
      sd_width = 2, sd_is_signed = 0, sd_calibrated = 0, sd_scale = fp_lit 1 0, sd_offset = fp_lit 0 0\<rparr>,
    \<lparr>sd_stable_id = 0x2ec7d55fe5f32c5a, sd_name = ''AC_ParkingClimateFailStatus'', sd_unit = '''',
      sd_parts = [part_lit 4 4 2],
      sd_invalid_signal_index = 4294967295, sd_can_id = 0x2F1, sd_frame_index = 86, sd_part_count = 1,
      sd_width = 2, sd_is_signed = 0, sd_calibrated = 0, sd_scale = fp_lit 1 0, sd_offset = fp_lit 0 0\<rparr>,
    \<lparr>sd_stable_id = 0xff26e7f81d9c49bf, sd_name = ''AC_PM25PopupReq'', sd_unit = '''',
      sd_parts = [part_lit 4 2 2],
      sd_invalid_signal_index = 4294967295, sd_can_id = 0x2F1, sd_frame_index = 86, sd_part_count = 1,
      sd_width = 2, sd_is_signed = 0, sd_calibrated = 0, sd_scale = fp_lit 1 0, sd_offset = fp_lit 0 0\<rparr>,
    \<lparr>sd_stable_id = 0x7920719e96f5fb27, sd_name = ''AC_PTCHeatIndicator'', sd_unit = '''',
      sd_parts = [part_lit 4 0 1],
      sd_invalid_signal_index = 4294967295, sd_can_id = 0x2F1, sd_frame_index = 86, sd_part_count = 1,
      sd_width = 1, sd_is_signed = 0, sd_calibrated = 0, sd_scale = fp_lit 1 0, sd_offset = fp_lit 0 0\<rparr>,
    \<lparr>sd_stable_id = 0xd6d89e98425f6ff8, sd_name = ''AC_AutoState'', sd_unit = '''',
      sd_parts = [part_lit 0 31 1],
      sd_invalid_signal_index = 4294967295, sd_can_id = 0x2F2, sd_frame_index = 87, sd_part_count = 1,
      sd_width = 1, sd_is_signed = 0, sd_calibrated = 0, sd_scale = fp_lit 1 0, sd_offset = fp_lit 0 0\<rparr>,
    \<lparr>sd_stable_id = 0x9a7d39f2eef3b373, sd_name = ''AC_DisplayRequest'', sd_unit = '''',
      sd_parts = [part_lit 0 30 1],
      sd_invalid_signal_index = 4294967295, sd_can_id = 0x2F2, sd_frame_index = 87, sd_part_count = 1,
      sd_width = 1, sd_is_signed = 0, sd_calibrated = 0, sd_scale = fp_lit 1 0, sd_offset = fp_lit 0 0\<rparr>,
    \<lparr>sd_stable_id = 0xf4d65686f031207f, sd_name = ''AC_MaxAcState'', sd_unit = '''',
      sd_parts = [part_lit 0 29 1],
      sd_invalid_signal_index = 4294967295, sd_can_id = 0x2F2, sd_frame_index = 87, sd_part_count = 1,
      sd_width = 1, sd_is_signed = 0, sd_calibrated = 0, sd_scale = fp_lit 1 0, sd_offset = fp_lit 0 0\<rparr>,
    \<lparr>sd_stable_id = 0x224cec993171ead3, sd_name = ''AC_FrontDefrostState'', sd_unit = '''',
      sd_parts = [part_lit 0 28 1],
      sd_invalid_signal_index = 4294967295, sd_can_id = 0x2F2, sd_frame_index = 87, sd_part_count = 1,
      sd_width = 1, sd_is_signed = 0, sd_calibrated = 0, sd_scale = fp_lit 1 0, sd_offset = fp_lit 0 0\<rparr>,
    \<lparr>sd_stable_id = 0x026ad48f40d34e8d, sd_name = ''AC_IntakeAirState'', sd_unit = '''',
      sd_parts = [part_lit 0 26 2],
      sd_invalid_signal_index = 4294967295, sd_can_id = 0x2F2, sd_frame_index = 87, sd_part_count = 1,
      sd_width = 2, sd_is_signed = 0, sd_calibrated = 0, sd_scale = fp_lit 1 0, sd_offset = fp_lit 0 0\<rparr>,
    \<lparr>sd_stable_id = 0x2776e31f69951c90, sd_name = ''AC_AqsState'', sd_unit = '''',
      sd_parts = [part_lit 0 25 1],
      sd_invalid_signal_index = 4294967295, sd_can_id = 0x2F2, sd_frame_index = 87, sd_part_count = 1,
      sd_width = 1, sd_is_signed = 0, sd_calibrated = 0, sd_scale = fp_lit 1 0, sd_offset = fp_lit 0 0\<rparr>]"

lemma ROADCAST_SIGNALS_01_ok: "block_ok ROADCAST_CAN_IDS 815 10 10 ROADCAST_SIGNALS_01"
  by (simp add: ROADCAST_SIGNALS_01_def signal_eval)

definition ROADCAST_SIGNALS_02 :: "roadcast_signal_definition list" where
  "ROADCAST_SIGNALS_02 = [
    \<lparr>sd_stable_id = 0x747b2bb1e499503e, sd_name = ''AC_RCPState'', sd_unit = '''',
      sd_parts = [part_lit 0 24 1],
      sd_invalid_signal_index = 4294967295, sd_can_id = 0x2F2, sd_frame_index = 87, sd_part_count = 1,
      sd_width = 1, sd_is_signed = 0, sd_calibrated = 0, sd_scale = fp_lit 1 0, sd_offset = fp_lit 0 0\<rparr>,
    \<lparr>sd_stable_id = 0xd7aa5ae8917379fb, sd_name = ''AC_BlowerLevel'', sd_unit = '''',
      sd_parts = [part_lit 0 20 4],
      sd_invalid_signal_index = 4294967295, sd_can_id = 0x2F2, sd_frame_index = 87, sd_part_count = 1,
      sd_width = 4, sd_is_signed = 0, sd_calibrated = 1, sd_scale = fp_lit 1 0, sd_offset = fp_lit 0 0\<rparr>,
    \<lparr>sd_stable_id = 0x03d4f18b295d2b4c, sd_name = ''AC_SYNCState'', sd_unit = '''',
      sd_parts = [part_lit 0 19 1],
      sd_invalid_signal_index = 4294967295, sd_can_id = 0x2F2, sd_frame_index = 87, sd_part_count = 1,
      sd_width = 1, sd_is_signed = 0, sd_calibrated = 0, sd_scale = fp_lit 1 0, sd_offset = fp_lit 0 0\<rparr>,
    \<lparr>sd_stable_id = 0xa3800a6fed46c14b, sd_name = ''AC_DualState'', sd_unit = '''',
      sd_parts = [part_lit 0 18 1],
      sd_invalid_signal_index = 4294967295, sd_can_id = 0x2F2, sd_frame_index = 87, sd_part_count = 1,
      sd_width = 1, sd_is_signed = 0, sd_calibrated = 0, sd_scale = fp_lit 1 0, sd_offset = fp_lit 0 0\<rparr>,
    \<lparr>sd_stable_id = 0xe9ebc6f25c94e63b, sd_name = ''AC_IONIZERState'', sd_unit = '''',
      sd_parts = [part_lit 0 16 2],
      sd_invalid_signal_index = 4294967295, sd_can_id = 0x2F2, sd_frame_index = 87, sd_part_count = 1,
      sd_width = 2, sd_is_signed = 0, sd_calibrated = 0, sd_scale = fp_lit 1 0, sd_offset = fp_lit 0 0\<rparr>,
    \<lparr>sd_stable_id = 0x7b4cc8931d7889bd, sd_name = ''AC_AirDistributionMode'', sd_unit = '''',
      sd_parts = [part_lit 0 13 3],
      sd_invalid_signal_index = 4294967295, sd_can_id = 0x2F2, sd_frame_index = 87, sd_part_count = 1,
      sd_width = 3, sd_is_signed = 0, sd_calibrated = 0, sd_scale = fp_lit 1 0, sd_offset = fp_lit 0 0\<rparr>,
    \<lparr>sd_stable_id = 0xae131cd933b219e6, sd_name = ''AC_PressSoundReq'', sd_unit = '''',
      sd_parts = [part_lit 0 12 1],
      sd_invalid_signal_index = 4294967295, sd_can_id = 0x2F2, sd_frame_index = 87, sd_part_count = 1,
      sd_width = 1, sd_is_signed = 0, sd_calibrated = 0, sd_scale = fp_lit 1 0, sd_offset = fp_lit 0 0\<rparr>,
    \<lparr>sd_stable_id = 0x1a2735c9ddc6e8fa, sd_name = ''AC_OnState'', sd_unit = '''',
      sd_parts = [part_lit 0 11 1],
      sd_invalid_signal_index = 4294967295, sd_can_id = 0x2F2, sd_frame_index = 87, sd_part_count = 1,
      sd_width = 1, sd_is_signed = 0, sd_calibrated = 1, sd_scale = fp_lit 1 0, sd_offset = fp_lit 0 0\<rparr>,
    \<lparr>sd_stable_id = 0xb9331b2976ccc189, sd_name = ''AC_SeatHeatDispReq'', sd_unit = '''',
      sd_parts = [part_lit 0 10 1],
      sd_invalid_signal_index = 4294967295, sd_can_id = 0x2F2, sd_frame_index = 87, sd_part_count = 1,
      sd_width = 1, sd_is_signed = 0, sd_calibrated = 0, sd_scale = fp_lit 1 0, sd_offset = fp_lit 0 0\<rparr>,
    \<lparr>sd_stable_id = 0x543305caa777f162, sd_name = ''AC_RearKeyLockSts'', sd_unit = '''',
      sd_parts = [part_lit 0 9 1],
      sd_invalid_signal_index = 4294967295, sd_can_id = 0x2F2, sd_frame_index = 87, sd_part_count = 1,
      sd_width = 1, sd_is_signed = 0, sd_calibrated = 0, sd_scale = fp_lit 1 0, sd_offset = fp_lit 0 0\<rparr>]"

lemma ROADCAST_SIGNALS_02_ok: "block_ok ROADCAST_CAN_IDS 815 20 10 ROADCAST_SIGNALS_02"
  by (simp add: ROADCAST_SIGNALS_02_def signal_eval)

definition ROADCAST_SIGNALS_03 :: "roadcast_signal_definition list" where
  "ROADCAST_SIGNALS_03 = [
    \<lparr>sd_stable_id = 0xef39b91d5066e06a, sd_name = ''AC_ThirdPanelState'', sd_unit = '''',
      sd_parts = [part_lit 0 8 1],
      sd_invalid_signal_index = 4294967295, sd_can_id = 0x2F2, sd_frame_index = 87, sd_part_count = 1,
      sd_width = 1, sd_is_signed = 0, sd_calibrated = 0, sd_scale = fp_lit 1 0, sd_offset = fp_lit 0 0\<rparr>,
    \<lparr>sd_stable_id = 0xc56628076750c2b3, sd_name = ''AC_LeftSetTemperature'', sd_unit = ''degC'',
      sd_parts = [part_lit 0 3 5],
      sd_invalid_signal_index = 4294967295, sd_can_id = 0x2F2, sd_frame_index = 87, sd_part_count = 1,
      sd_width = 5, sd_is_signed = 0, sd_calibrated = 1, sd_scale = fp_lit 5 1, sd_offset = fp_lit 155 1\<rparr>,
    \<lparr>sd_stable_id = 0x4839fe0c6c9f6494, sd_name = ''AC_VentilaDryResp'', sd_unit = '''',
      sd_parts = [part_lit 0 2 1],
      sd_invalid_signal_index = 4294967295, sd_can_id = 0x2F2, sd_frame_index = 87, sd_part_count = 1,
      sd_width = 1, sd_is_signed = 0, sd_calibrated = 0, sd_scale = fp_lit 1 0, sd_offset = fp_lit 0 0\<rparr>,
    \<lparr>sd_stable_id = 0x0b470a0c5db26253, sd_name = ''AC_AirCleanResp'', sd_unit = '''',
      sd_parts = [part_lit 0 1 1],
      sd_invalid_signal_index = 4294967295, sd_can_id = 0x2F2, sd_frame_index = 87, sd_part_count = 1,
      sd_width = 1, sd_is_signed = 0, sd_calibrated = 0, sd_scale = fp_lit 1 0, sd_offset = fp_lit 0 0\<rparr>,
    \<lparr>sd_stable_id = 0x5e53bd83d14353c8, sd_name = ''AC_RightSetTemperature'', sd_unit = '''',
      sd_parts = [part_lit 4 27 5],
      sd_invalid_signal_index = 4294967295, sd_can_id = 0x2F2, sd_frame_index = 87, sd_part_count = 1,
      sd_width = 5, sd_is_signed = 0, sd_calibrated = 0, sd_scale = fp_lit 1 0, sd_offset = fp_lit 0 0\<rparr>,
    \<lparr>sd_stable_id = 0xd218f27102bab692, sd_name = ''AC_ACSwToneSetSts'', sd_unit = '''',
      sd_parts = [part_lit 4 26 1],
      sd_invalid_signal_index = 4294967295, sd_can_id = 0x2F2, sd_frame_index = 87, sd_part_count = 1,
      sd_width = 1, sd_is_signed = 0, sd_calibrated = 0, sd_scale = fp_lit 1 0, sd_offset = fp_lit 0 0\<rparr>,
    \<lparr>sd_stable_id = 0xf035ba9d22971484, sd_name = ''AC_RCPLockReminder'', sd_unit = '''',
      sd_parts = [part_lit 4 25 1],
      sd_invalid_signal_index = 4294967295, sd_can_id = 0x2F2, sd_frame_index = 87, sd_part_count = 1,
      sd_width = 1, sd_is_signed = 0, sd_calibrated = 0, sd_scale = fp_lit 1 0, sd_offset = fp_lit 0 0\<rparr>,
    \<lparr>sd_stable_id = 0x9deed899fbe032b4, sd_name = ''AC_RemoteControlSt'', sd_unit = '''',
      sd_parts = [part_lit 4 24 1],
      sd_invalid_signal_index = 4294967295, sd_can_id = 0x2F2, sd_frame_index = 87, sd_part_count = 1,
      sd_width = 1, sd_is_signed = 0, sd_calibrated = 0, sd_scale = fp_lit 1 0, sd_offset = fp_lit 0 0\<rparr>,
    \<lparr>sd_stable_id = 0x41e09e372d1853b5, sd_name = ''AC_ADSResponse'', sd_unit = '''',
      sd_parts = [part_lit 4 22 2],
      sd_invalid_signal_index = 4294967295, sd_can_id = 0x2F2, sd_frame_index = 87, sd_part_count = 1,
      sd_width = 2, sd_is_signed = 0, sd_calibrated = 0, sd_scale = fp_lit 1 0, sd_offset = fp_lit 0 0\<rparr>,
    \<lparr>sd_stable_id = 0xd2c475a61291d626, sd_name = ''AC_DrvHeatSts'', sd_unit = '''',
      sd_parts = [part_lit 4 15 1],
      sd_invalid_signal_index = 4294967295, sd_can_id = 0x2F2, sd_frame_index = 87, sd_part_count = 1,
      sd_width = 1, sd_is_signed = 0, sd_calibrated = 0, sd_scale = fp_lit 1 0, sd_offset = fp_lit 0 0\<rparr>]"

lemma ROADCAST_SIGNALS_03_ok: "block_ok ROADCAST_CAN_IDS 815 30 10 ROADCAST_SIGNALS_03"
  by (simp add: ROADCAST_SIGNALS_03_def signal_eval)

definition ROADCAST_SIGNALS_04 :: "roadcast_signal_definition list" where
  "ROADCAST_SIGNALS_04 = [
    \<lparr>sd_stable_id = 0xa911457974bbffef, sd_name = ''AC_PassHeatingSts'', sd_unit = '''',
      sd_parts = [part_lit 4 14 1],
      sd_invalid_signal_index = 4294967295, sd_can_id = 0x2F2, sd_frame_index = 87, sd_part_count = 1,
      sd_width = 1, sd_is_signed = 0, sd_calibrated = 0, sd_scale = fp_lit 1 0, sd_offset = fp_lit 0 0\<rparr>,
    \<lparr>sd_stable_id = 0x6038b41d42e89821, sd_name = ''AC_KeyTouchst'', sd_unit = '''',
      sd_parts = [part_lit 4 10 4],
      sd_invalid_signal_index = 4294967295, sd_can_id = 0x2F2, sd_frame_index = 87, sd_part_count = 1,
      sd_width = 4, sd_is_signed = 0, sd_calibrated = 0, sd_scale = fp_lit 1 0, sd_offset = fp_lit 0 0\<rparr>,
    \<lparr>sd_stable_id = 0x3978e482491a0c34, sd_name = ''AC_ECOClimateSts'', sd_unit = '''',
      sd_parts = [part_lit 4 9 1],
      sd_invalid_signal_index = 4294967295, sd_can_id = 0x2F2, sd_frame_index = 87, sd_part_count = 1,
      sd_width = 1, sd_is_signed = 0, sd_calibrated = 0, sd_scale = fp_lit 1 0, sd_offset = fp_lit 0 0\<rparr>,
    \<lparr>sd_stable_id = 0x94a6d96b7c0c23c0, sd_name = ''AC_keystate'', sd_unit = '''',
      sd_parts = [part_lit 4 3 5],
      sd_invalid_signal_index = 4294967295, sd_can_id = 0x2F2, sd_frame_index = 87, sd_part_count = 1,
      sd_width = 5, sd_is_signed = 0, sd_calibrated = 0, sd_scale = fp_lit 1 0, sd_offset = fp_lit 0 0\<rparr>,
    \<lparr>sd_stable_id = 0x7d7c00b6301928c6, sd_name = ''AC_ACComfortResp'', sd_unit = '''',
      sd_parts = [part_lit 4 1 2],
      sd_invalid_signal_index = 4294967295, sd_can_id = 0x2F2, sd_frame_index = 87, sd_part_count = 1,
      sd_width = 2, sd_is_signed = 0, sd_calibrated = 0, sd_scale = fp_lit 1 0, sd_offset = fp_lit 0 0\<rparr>,
    \<lparr>sd_stable_id = 0x48587cd49c2174db, sd_name = ''AC_CZISOpenResp'', sd_unit = '''',
      sd_parts = [part_lit 4 0 1],
      sd_invalid_signal_index = 4294967295, sd_can_id = 0x2F2, sd_frame_index = 87, sd_part_count = 1,
      sd_width = 1, sd_is_signed = 0, sd_calibrated = 0, sd_scale = fp_lit 1 0, sd_offset = fp_lit 0 0\<rparr>,
    \<lparr>sd_stable_id = 0x22efa008db68fa14, sd_name = ''BCM_RearDefrosterSts'', sd_unit = '''',
      sd_parts = [part_lit 0 30 2],
      sd_invalid_signal_index = 4294967295, sd_can_id = 0x284, sd_frame_index = 52, sd_part_count = 1,
      sd_width = 2, sd_is_signed = 0, sd_calibrated = 1, sd_scale = fp_lit 1 0, sd_offset = fp_lit 0 0\<rparr>,
    \<lparr>sd_stable_id = 0xf46968161c5bffcb, sd_name = ''BCM_WiperSts'', sd_unit = '''',
      sd_parts = [part_lit 0 24 3],
      sd_invalid_signal_index = 4294967295, sd_can_id = 0x284, sd_frame_index = 52, sd_part_count = 1,
      sd_width = 3, sd_is_signed = 0, sd_calibrated = 0, sd_scale = fp_lit 1 0, sd_offset = fp_lit 0 0\<rparr>,
    \<lparr>sd_stable_id = 0x05d323678b479f52, sd_name = ''BCM_HoodAjarStatus'', sd_unit = '''',
      sd_parts = [part_lit 0 22 2],
      sd_invalid_signal_index = 4294967295, sd_can_id = 0x284, sd_frame_index = 52, sd_part_count = 1,
      sd_width = 2, sd_is_signed = 0, sd_calibrated = 0, sd_scale = fp_lit 1 0, sd_offset = fp_lit 0 0\<rparr>,
    \<lparr>sd_stable_id = 0xbdcaa03f970e3142, sd_name = ''BCM_TrunkAjarStatus'', sd_unit = '''',
      sd_parts = [part_lit 0 21 1],
      sd_invalid_signal_index = 4294967295, sd_can_id = 0x284, sd_frame_index = 52, sd_part_count = 1,
      sd_width = 1, sd_is_signed = 0, sd_calibrated = 0, sd_scale = fp_lit 1 0, sd_offset = fp_lit 0 0\<rparr>]"

lemma ROADCAST_SIGNALS_04_ok: "block_ok ROADCAST_CAN_IDS 815 40 10 ROADCAST_SIGNALS_04"
  by (simp add: ROADCAST_SIGNALS_04_def signal_eval)

definition ROADCAST_SIGNALS_05 :: "roadcast_signal_definition list" where
  "ROADCAST_SIGNALS_05 = [
    \<lparr>sd_stable_id = 0xfe40dcaa32be4e9b, sd_name = ''BCM_RearDefrostSwitch'', sd_unit = '''',
      sd_parts = [part_lit 0 20 1],
      sd_invalid_signal_index = 4294967295, sd_can_id = 0x284, sd_frame_index = 52, sd_part_count = 1,
      sd_width = 1, sd_is_signed = 0, sd_calibrated = 0, sd_scale = fp_lit 1 0, sd_offset = fp_lit 0 0\<rparr>,
    \<lparr>sd_stable_id = 0xe365810b044fb9ff, sd_name = ''BCM_IGNOFFUnlockDoorSelectResp'', sd_unit = '''',
      sd_parts = [part_lit 0 18 2],
      sd_invalid_signal_index = 4294967295, sd_can_id = 0x284, sd_frame_index = 52, sd_part_count = 1,
      sd_width = 2, sd_is_signed = 0, sd_calibrated = 0, sd_scale = fp_lit 1 0, sd_offset = fp_lit 0 0\<rparr>,
    \<lparr>sd_stable_id = 0x8dc450acc17cd38d, sd_name = ''BCM_FollowMeHomeTimeSelectResp'', sd_unit = '''',
      sd_parts = [part_lit 0 16 2],
      sd_invalid_signal_index = 4294967295, sd_can_id = 0x284, sd_frame_index = 52, sd_part_count = 1,
      sd_width = 2, sd_is_signed = 0, sd_calibrated = 0, sd_scale = fp_lit 1 0, sd_offset = fp_lit 0 0\<rparr>,
    \<lparr>sd_stable_id = 0x574c86d2f2ddfa83, sd_name = ''BCM_AutoCloseWindowSetResp'', sd_unit = '''',
      sd_parts = [part_lit 0 9 2],
      sd_invalid_signal_index = 4294967295, sd_can_id = 0x284, sd_frame_index = 52, sd_part_count = 1,
      sd_width = 2, sd_is_signed = 0, sd_calibrated = 0, sd_scale = fp_lit 1 0, sd_offset = fp_lit 0 0\<rparr>,
    \<lparr>sd_stable_id = 0xee0f7174b5c38d56, sd_name = ''BCM_RKEUnlockSetResp'', sd_unit = '''',
      sd_parts = [part_lit 0 8 1],
      sd_invalid_signal_index = 4294967295, sd_can_id = 0x284, sd_frame_index = 52, sd_part_count = 1,
      sd_width = 1, sd_is_signed = 0, sd_calibrated = 0, sd_scale = fp_lit 1 0, sd_offset = fp_lit 0 0\<rparr>,
    \<lparr>sd_stable_id = 0xc1c4713be06fe3cb, sd_name = ''BCM_FlasherAnimControlSetResp'', sd_unit = '''',
      sd_parts = [part_lit 0 3 1],
      sd_invalid_signal_index = 4294967295, sd_can_id = 0x284, sd_frame_index = 52, sd_part_count = 1,
      sd_width = 1, sd_is_signed = 0, sd_calibrated = 0, sd_scale = fp_lit 1 0, sd_offset = fp_lit 0 0\<rparr>,
    \<lparr>sd_stable_id = 0xad84530d74e0c2a1, sd_name = ''BCM_ATWS_St'', sd_unit = '''',
      sd_parts = [part_lit 0 0 3],
      sd_invalid_signal_index = 4294967295, sd_can_id = 0x284, sd_frame_index = 52, sd_part_count = 1,
      sd_width = 3, sd_is_signed = 0, sd_calibrated = 0, sd_scale = fp_lit 1 0, sd_offset = fp_lit 0 0\<rparr>,
    \<lparr>sd_stable_id = 0x91f4f630e5b081a8, sd_name = ''BCM_VehicleSearchWarningSetResp'', sd_unit = '''',
      sd_parts = [part_lit 4 29 1],
      sd_invalid_signal_index = 4294967295, sd_can_id = 0x284, sd_frame_index = 52, sd_part_count = 1,
      sd_width = 1, sd_is_signed = 0, sd_calibrated = 0, sd_scale = fp_lit 1 0, sd_offset = fp_lit 0 0\<rparr>,
    \<lparr>sd_stable_id = 0xd3ea10cc4181bd1d, sd_name = ''BCM_FrontWiperIdleModeSetResp'', sd_unit = '''',
      sd_parts = [part_lit 4 28 1],
      sd_invalid_signal_index = 4294967295, sd_can_id = 0x284, sd_frame_index = 52, sd_part_count = 1,
      sd_width = 1, sd_is_signed = 0, sd_calibrated = 0, sd_scale = fp_lit 1 0, sd_offset = fp_lit 0 0\<rparr>,
    \<lparr>sd_stable_id = 0x2f226ef6bc4745c6, sd_name = ''BCM_RLSModeSts'', sd_unit = '''',
      sd_parts = [part_lit 4 24 2],
      sd_invalid_signal_index = 4294967295, sd_can_id = 0x284, sd_frame_index = 52, sd_part_count = 1,
      sd_width = 2, sd_is_signed = 0, sd_calibrated = 0, sd_scale = fp_lit 1 0, sd_offset = fp_lit 0 0\<rparr>]"

lemma ROADCAST_SIGNALS_05_ok: "block_ok ROADCAST_CAN_IDS 815 50 10 ROADCAST_SIGNALS_05"
  by (simp add: ROADCAST_SIGNALS_05_def signal_eval)

definition ROADCAST_SIGNALS_06 :: "roadcast_signal_definition list" where
  "ROADCAST_SIGNALS_06 = [
    \<lparr>sd_stable_id = 0xfa954d5753b0fc14, sd_name = ''BCM_RearCurtainConnectReverseSetResp'', sd_unit = '''',
      sd_parts = [part_lit 4 22 1],
      sd_invalid_signal_index = 4294967295, sd_can_id = 0x284, sd_frame_index = 52, sd_part_count = 1,
      sd_width = 1, sd_is_signed = 0, sd_calibrated = 0, sd_scale = fp_lit 1 0, sd_offset = fp_lit 0 0\<rparr>,
    \<lparr>sd_stable_id = 0x540830b390053601, sd_name = ''BCM_CornerLampSetResp'', sd_unit = '''',
      sd_parts = [part_lit 4 21 1],
      sd_invalid_signal_index = 4294967295, sd_can_id = 0x284, sd_frame_index = 52, sd_part_count = 1,
      sd_width = 1, sd_is_signed = 0, sd_calibrated = 0, sd_scale = fp_lit 1 0, sd_offset = fp_lit 0 0\<rparr>,
    \<lparr>sd_stable_id = 0xad168dd42f5e9c37, sd_name = ''BCM_ATWarnTypeSetResp'', sd_unit = '''',
      sd_parts = [part_lit 4 19 2],
      sd_invalid_signal_index = 4294967295, sd_can_id = 0x284, sd_frame_index = 52, sd_part_count = 1,
      sd_width = 2, sd_is_signed = 0, sd_calibrated = 0, sd_scale = fp_lit 1 0, sd_offset = fp_lit 0 0\<rparr>,
    \<lparr>sd_stable_id = 0xf8c3f001f955ad27, sd_name = ''BCM_DayRunLightSetResp'', sd_unit = '''',
      sd_parts = [part_lit 4 18 1],
      sd_invalid_signal_index = 4294967295, sd_can_id = 0x284, sd_frame_index = 52, sd_part_count = 1,
      sd_width = 1, sd_is_signed = 0, sd_calibrated = 0, sd_scale = fp_lit 1 0, sd_offset = fp_lit 0 0\<rparr>,
    \<lparr>sd_stable_id = 0xfc59315a965a7cd5, sd_name = ''BCM_RearWiperAutoActiveAtReverseResp'', sd_unit = '''',
      sd_parts = [part_lit 4 17 1],
      sd_invalid_signal_index = 4294967295, sd_can_id = 0x284, sd_frame_index = 52, sd_part_count = 1,
      sd_width = 1, sd_is_signed = 0, sd_calibrated = 0, sd_scale = fp_lit 1 0, sd_offset = fp_lit 0 0\<rparr>,
    \<lparr>sd_stable_id = 0xeb65e8459958ccef, sd_name = ''BCM_ReverseGearInfo'', sd_unit = '''',
      sd_parts = [part_lit 4 16 1],
      sd_invalid_signal_index = 4294967295, sd_can_id = 0x284, sd_frame_index = 52, sd_part_count = 1,
      sd_width = 1, sd_is_signed = 0, sd_calibrated = 0, sd_scale = fp_lit 1 0, sd_offset = fp_lit 0 0\<rparr>,
    \<lparr>sd_stable_id = 0xbbca6d7516ace770, sd_name = ''BCM_PowerMode'', sd_unit = '''',
      sd_parts = [part_lit 4 13 3],
      sd_invalid_signal_index = 4294967295, sd_can_id = 0x284, sd_frame_index = 52, sd_part_count = 1,
      sd_width = 3, sd_is_signed = 0, sd_calibrated = 0, sd_scale = fp_lit 1 0, sd_offset = fp_lit 0 0\<rparr>,
    \<lparr>sd_stable_id = 0xc7e017c2d2de67c4, sd_name = ''BCM_ClutchPedalBottomPosSwitch'', sd_unit = '''',
      sd_parts = [part_lit 4 12 1],
      sd_invalid_signal_index = 4294967295, sd_can_id = 0x284, sd_frame_index = 52, sd_part_count = 1,
      sd_width = 1, sd_is_signed = 0, sd_calibrated = 0, sd_scale = fp_lit 1 0, sd_offset = fp_lit 0 0\<rparr>,
    \<lparr>sd_stable_id = 0x9db8beeae69976c6, sd_name = ''BCM_WindowVentilateSetResp'', sd_unit = '''',
      sd_parts = [part_lit 4 7 1],
      sd_invalid_signal_index = 4294967295, sd_can_id = 0x284, sd_frame_index = 52, sd_part_count = 1,
      sd_width = 1, sd_is_signed = 0, sd_calibrated = 0, sd_scale = fp_lit 1 0, sd_offset = fp_lit 0 0\<rparr>,
    \<lparr>sd_stable_id = 0x2a6f4dc22be8cecf, sd_name = ''BCM_HeadLightDelaySetResp'', sd_unit = '''',
      sd_parts = [part_lit 4 5 2],
      sd_invalid_signal_index = 4294967295, sd_can_id = 0x284, sd_frame_index = 52, sd_part_count = 1,
      sd_width = 2, sd_is_signed = 0, sd_calibrated = 0, sd_scale = fp_lit 1 0, sd_offset = fp_lit 0 0\<rparr>]"

lemma ROADCAST_SIGNALS_06_ok: "block_ok ROADCAST_CAN_IDS 815 60 10 ROADCAST_SIGNALS_06"
  by (simp add: ROADCAST_SIGNALS_06_def signal_eval)

definition ROADCAST_SIGNALS_07 :: "roadcast_signal_definition list" where
  "ROADCAST_SIGNALS_07 = [
    \<lparr>sd_stable_id = 0xbe5fa5d4a2900f66, sd_name = ''BCM_RoofLightConnectLightSensorSetResp'', sd_unit = '''',
      sd_parts = [part_lit 4 4 1],
      sd_invalid_signal_index = 4294967295, sd_can_id = 0x284, sd_frame_index = 52, sd_part_count = 1,
      sd_width = 1, sd_is_signed = 0, sd_calibrated = 0, sd_scale = fp_lit 1 0, sd_offset = fp_lit 0 0\<rparr>,
    \<lparr>sd_stable_id = 0xe8f8fda23997ac00, sd_name = ''BCM_SVC_ButtonPress'', sd_unit = '''',
      sd_parts = [part_lit 4 1 1],
      sd_invalid_signal_index = 4294967295, sd_can_id = 0x284, sd_frame_index = 52, sd_part_count = 1,
      sd_width = 1, sd_is_signed = 0, sd_calibrated = 0, sd_scale = fp_lit 1 0, sd_offset = fp_lit 0 0\<rparr>,
    \<lparr>sd_stable_id = 0x086f477d3eeed0db, sd_name = ''BCM_SunroofRollCloseSetResp'', sd_unit = '''',
      sd_parts = [part_lit 4 0 1],
      sd_invalid_signal_index = 4294967295, sd_can_id = 0x284, sd_frame_index = 52, sd_part_count = 1,
      sd_width = 1, sd_is_signed = 0, sd_calibrated = 0, sd_scale = fp_lit 1 0, sd_offset = fp_lit 0 0\<rparr>,
    \<lparr>sd_stable_id = 0x911d8bcb63ffc42b, sd_name = ''IPK_FuelLowLevelWarning'', sd_unit = '''',
      sd_parts = [part_lit 0 28 1],
      sd_invalid_signal_index = 4294967295, sd_can_id = 0x26D, sd_frame_index = 45, sd_part_count = 1,
      sd_width = 1, sd_is_signed = 0, sd_calibrated = 0, sd_scale = fp_lit 1 0, sd_offset = fp_lit 0 0\<rparr>,
    \<lparr>sd_stable_id = 0x27d5c6fc6ae43adb, sd_name = ''IPK_FuelLevelSts'', sd_unit = '''',
      sd_parts = [part_lit 0 16 8],
      sd_invalid_signal_index = 4294967295, sd_can_id = 0x26D, sd_frame_index = 45, sd_part_count = 1,
      sd_width = 8, sd_is_signed = 0, sd_calibrated = 0, sd_scale = fp_lit 1 0, sd_offset = fp_lit 0 0\<rparr>,
    \<lparr>sd_stable_id = 0xa0078de50344e34b, sd_name = ''IPK_AverageVehicleSpeed'', sd_unit = '''',
      sd_parts = [part_lit 0 8 8],
      sd_invalid_signal_index = 4294967295, sd_can_id = 0x26D, sd_frame_index = 45, sd_part_count = 1,
      sd_width = 8, sd_is_signed = 0, sd_calibrated = 0, sd_scale = fp_lit 1 0, sd_offset = fp_lit 0 0\<rparr>,
    \<lparr>sd_stable_id = 0x3050f548c25e3e7f, sd_name = ''IPK_MaintanceWarningSts'', sd_unit = '''',
      sd_parts = [part_lit 0 6 1],
      sd_invalid_signal_index = 4294967295, sd_can_id = 0x26D, sd_frame_index = 45, sd_part_count = 1,
      sd_width = 1, sd_is_signed = 0, sd_calibrated = 0, sd_scale = fp_lit 1 0, sd_offset = fp_lit 0 0\<rparr>,
    \<lparr>sd_stable_id = 0xf8eb23506a5e481c, sd_name = ''IPK_LanguageMode'', sd_unit = '''',
      sd_parts = [part_lit 0 2 4],
      sd_invalid_signal_index = 4294967295, sd_can_id = 0x26D, sd_frame_index = 45, sd_part_count = 1,
      sd_width = 4, sd_is_signed = 0, sd_calibrated = 0, sd_scale = fp_lit 1 0, sd_offset = fp_lit 0 0\<rparr>,
    \<lparr>sd_stable_id = 0x086b7af3c3fa4628, sd_name = ''IPK_HUDSwitchStatus'', sd_unit = '''',
      sd_parts = [part_lit 4 31 1],
      sd_invalid_signal_index = 4294967295, sd_can_id = 0x26D, sd_frame_index = 45, sd_part_count = 1,
      sd_width = 1, sd_is_signed = 0, sd_calibrated = 0, sd_scale = fp_lit 1 0, sd_offset = fp_lit 0 0\<rparr>,
    \<lparr>sd_stable_id = 0x1fb0f43494cba295, sd_name = ''IPK_Backlightadjust'', sd_unit = '''',
      sd_parts = [part_lit 4 24 5],
      sd_invalid_signal_index = 4294967295, sd_can_id = 0x26D, sd_frame_index = 45, sd_part_count = 1,
      sd_width = 5, sd_is_signed = 0, sd_calibrated = 0, sd_scale = fp_lit 1 0, sd_offset = fp_lit 0 0\<rparr>]"

lemma ROADCAST_SIGNALS_07_ok: "block_ok ROADCAST_CAN_IDS 815 70 10 ROADCAST_SIGNALS_07"
  by (simp add: ROADCAST_SIGNALS_07_def signal_eval)

definition ROADCAST_SIGNALS_08 :: "roadcast_signal_definition list" where
  "ROADCAST_SIGNALS_08 = [
    \<lparr>sd_stable_id = 0x9c12c1568786e769, sd_name = ''IPK_vDisplay'', sd_unit = '''',
      sd_parts = [part_lit 4 16 8, part_lit 4 8 5],
      sd_invalid_signal_index = 4294967295, sd_can_id = 0x26D, sd_frame_index = 45, sd_part_count = 2,
      sd_width = 13, sd_is_signed = 0, sd_calibrated = 0, sd_scale = fp_lit 1 0, sd_offset = fp_lit 0 0\<rparr>,
    \<lparr>sd_stable_id = 0xa2a3124890d36d88, sd_name = ''IPK_OilLowPressure'', sd_unit = '''',
      sd_parts = [part_lit 4 15 1],
      sd_invalid_signal_index = 4294967295, sd_can_id = 0x26D, sd_frame_index = 45, sd_part_count = 1,
      sd_width = 1, sd_is_signed = 0, sd_calibrated = 0, sd_scale = fp_lit 1 0, sd_offset = fp_lit 0 0\<rparr>,
    \<lparr>sd_stable_id = 0xc8b75ef4e4b840d2, sd_name = ''IPK_NaviHomeSwitch'', sd_unit = '''',
      sd_parts = [part_lit 4 6 1],
      sd_invalid_signal_index = 4294967295, sd_can_id = 0x26D, sd_frame_index = 45, sd_part_count = 1,
      sd_width = 1, sd_is_signed = 0, sd_calibrated = 0, sd_scale = fp_lit 1 0, sd_offset = fp_lit 0 0\<rparr>,
    \<lparr>sd_stable_id = 0x215f3139ac866446, sd_name = ''IPK_SWOccupy'', sd_unit = '''',
      sd_parts = [part_lit 4 2 2],
      sd_invalid_signal_index = 4294967295, sd_can_id = 0x26D, sd_frame_index = 45, sd_part_count = 1,
      sd_width = 2, sd_is_signed = 0, sd_calibrated = 0, sd_scale = fp_lit 1 0, sd_offset = fp_lit 0 0\<rparr>,
    \<lparr>sd_stable_id = 0xc776ce80bb92fd14, sd_name = ''ESC_BrakePedalSwitchStatus'', sd_unit = '''',
      sd_parts = [part_lit 0 30 1],
      sd_invalid_signal_index = 4294967295, sd_can_id = 0x125, sd_frame_index = 9, sd_part_count = 1,
      sd_width = 1, sd_is_signed = 0, sd_calibrated = 0, sd_scale = fp_lit 1 0, sd_offset = fp_lit 0 0\<rparr>,
    \<lparr>sd_stable_id = 0xa1b11e3e9b412b4c, sd_name = ''ESC_ESPFailed'', sd_unit = '''',
      sd_parts = [part_lit 0 24 1],
      sd_invalid_signal_index = 4294967295, sd_can_id = 0x125, sd_frame_index = 9, sd_part_count = 1,
      sd_width = 1, sd_is_signed = 0, sd_calibrated = 0, sd_scale = fp_lit 1 0, sd_offset = fp_lit 0 0\<rparr>,
    \<lparr>sd_stable_id = 0xcb230ca06ce15d68, sd_name = ''ESC_VehicleSpeed'', sd_unit = ''km/h'',
      sd_parts = [part_lit 0 16 8, part_lit 0 8 5],
      sd_invalid_signal_index = 88, sd_can_id = 0x125, sd_frame_index = 9, sd_part_count = 2,
      sd_width = 13, sd_is_signed = 0, sd_calibrated = 1, sd_scale = fp_lit 1 0, sd_offset = fp_lit 0 0\<rparr>,
    \<lparr>sd_stable_id = 0xb8f2a2250c8c53f8, sd_name = ''ESC_PATAResponse'', sd_unit = '''',
      sd_parts = [part_lit 0 15 1],
      sd_invalid_signal_index = 4294967295, sd_can_id = 0x125, sd_frame_index = 9, sd_part_count = 1,
      sd_width = 1, sd_is_signed = 0, sd_calibrated = 0, sd_scale = fp_lit 1 0, sd_offset = fp_lit 0 0\<rparr>,
    \<lparr>sd_stable_id = 0x3c159d3534ec5203, sd_name = ''ESC_VehicleSpeedInvalid'', sd_unit = '''',
      sd_parts = [part_lit 0 13 1],
      sd_invalid_signal_index = 4294967295, sd_can_id = 0x125, sd_frame_index = 9, sd_part_count = 1,
      sd_width = 1, sd_is_signed = 0, sd_calibrated = 0, sd_scale = fp_lit 1 0, sd_offset = fp_lit 0 0\<rparr>,
    \<lparr>sd_stable_id = 0xf327440f018e5006, sd_name = ''ESC_AVHStatus'', sd_unit = '''',
      sd_parts = [part_lit 0 5 2],
      sd_invalid_signal_index = 4294967295, sd_can_id = 0x125, sd_frame_index = 9, sd_part_count = 1,
      sd_width = 2, sd_is_signed = 0, sd_calibrated = 0, sd_scale = fp_lit 1 0, sd_offset = fp_lit 0 0\<rparr>]"

lemma ROADCAST_SIGNALS_08_ok: "block_ok ROADCAST_CAN_IDS 815 80 10 ROADCAST_SIGNALS_08"
  by (simp add: ROADCAST_SIGNALS_08_def signal_eval)

definition ROADCAST_SIGNALS_09 :: "roadcast_signal_definition list" where
  "ROADCAST_SIGNALS_09 = [
    \<lparr>sd_stable_id = 0xe59caf4e4fb85ff2, sd_name = ''ESC_EPBStatus'', sd_unit = '''',
      sd_parts = [part_lit 0 3 2],
      sd_invalid_signal_index = 4294967295, sd_can_id = 0x125, sd_frame_index = 9, sd_part_count = 1,
      sd_width = 2, sd_is_signed = 0, sd_calibrated = 0, sd_scale = fp_lit 1 0, sd_offset = fp_lit 0 0\<rparr>,
    \<lparr>sd_stable_id = 0x876c2529dbbc2c58, sd_name = ''ESC_EPBErrorStatus'', sd_unit = '''',
      sd_parts = [part_lit 0 2 1],
      sd_invalid_signal_index = 4294967295, sd_can_id = 0x125, sd_frame_index = 9, sd_part_count = 1,
      sd_width = 1, sd_is_signed = 0, sd_calibrated = 0, sd_scale = fp_lit 1 0, sd_offset = fp_lit 0 0\<rparr>,
    \<lparr>sd_stable_id = 0x27478bea9b2d8781, sd_name = ''ESC_BrakePedalSwitchInvalid'', sd_unit = '''',
      sd_parts = [part_lit 0 1 1],
      sd_invalid_signal_index = 4294967295, sd_can_id = 0x125, sd_frame_index = 9, sd_part_count = 1,
      sd_width = 1, sd_is_signed = 0, sd_calibrated = 0, sd_scale = fp_lit 1 0, sd_offset = fp_lit 0 0\<rparr>,
    \<lparr>sd_stable_id = 0x3c7b9abbf05fd95f, sd_name = ''ESC_HHC_ErrorStatus'', sd_unit = '''',
      sd_parts = [part_lit 4 22 1],
      sd_invalid_signal_index = 4294967295, sd_can_id = 0x125, sd_frame_index = 9, sd_part_count = 1,
      sd_width = 1, sd_is_signed = 0, sd_calibrated = 0, sd_scale = fp_lit 1 0, sd_offset = fp_lit 0 0\<rparr>,
    \<lparr>sd_stable_id = 0x9fa41f6f14d8778f, sd_name = ''ESC_HDC_Active'', sd_unit = '''',
      sd_parts = [part_lit 4 19 2],
      sd_invalid_signal_index = 4294967295, sd_can_id = 0x125, sd_frame_index = 9, sd_part_count = 1,
      sd_width = 2, sd_is_signed = 0, sd_calibrated = 0, sd_scale = fp_lit 1 0, sd_offset = fp_lit 0 0\<rparr>,
    \<lparr>sd_stable_id = 0x09cee238148660ec, sd_name = ''ESC_HAZActive'', sd_unit = '''',
      sd_parts = [part_lit 4 11 1],
      sd_invalid_signal_index = 4294967295, sd_can_id = 0x125, sd_frame_index = 9, sd_part_count = 1,
      sd_width = 1, sd_is_signed = 0, sd_calibrated = 0, sd_scale = fp_lit 1 0, sd_offset = fp_lit 0 0\<rparr>,
    \<lparr>sd_stable_id = 0xac296500a043b13f, sd_name = ''BCM_DoorControlLight_Resp'', sd_unit = '''',
      sd_parts = [part_lit 0 25 1],
      sd_invalid_signal_index = 4294967295, sd_can_id = 0x287, sd_frame_index = 55, sd_part_count = 1,
      sd_width = 1, sd_is_signed = 0, sd_calibrated = 0, sd_scale = fp_lit 1 0, sd_offset = fp_lit 0 0\<rparr>,
    \<lparr>sd_stable_id = 0x7f09a281d88f4fd4, sd_name = ''BCM_RoofControlStatus'', sd_unit = '''',
      sd_parts = [part_lit 0 14 2],
      sd_invalid_signal_index = 4294967295, sd_can_id = 0x287, sd_frame_index = 55, sd_part_count = 1,
      sd_width = 2, sd_is_signed = 0, sd_calibrated = 0, sd_scale = fp_lit 1 0, sd_offset = fp_lit 0 0\<rparr>,
    \<lparr>sd_stable_id = 0xe2a7a54f45d2a6f6, sd_name = ''BCM_CurtainControlStatus'', sd_unit = '''',
      sd_parts = [part_lit 0 12 2],
      sd_invalid_signal_index = 4294967295, sd_can_id = 0x287, sd_frame_index = 55, sd_part_count = 1,
      sd_width = 2, sd_is_signed = 0, sd_calibrated = 0, sd_scale = fp_lit 1 0, sd_offset = fp_lit 0 0\<rparr>,
    \<lparr>sd_stable_id = 0x7425dac06cf8e719, sd_name = ''BCM_CPDswback'', sd_unit = '''',
      sd_parts = [part_lit 0 11 1],
      sd_invalid_signal_index = 4294967295, sd_can_id = 0x287, sd_frame_index = 55, sd_part_count = 1,
      sd_width = 1, sd_is_signed = 0, sd_calibrated = 0, sd_scale = fp_lit 1 0, sd_offset = fp_lit 0 0\<rparr>]"

lemma ROADCAST_SIGNALS_09_ok: "block_ok ROADCAST_CAN_IDS 815 90 10 ROADCAST_SIGNALS_09"
  by (simp add: ROADCAST_SIGNALS_09_def signal_eval)

definition ROADCAST_SIGNALS_10 :: "roadcast_signal_definition list" where
  "ROADCAST_SIGNALS_10 = [
    \<lparr>sd_stable_id = 0xae7b0940d98601d8, sd_name = ''BCM_CPDsecswback'', sd_unit = '''',
      sd_parts = [part_lit 0 10 1],
      sd_invalid_signal_index = 4294967295, sd_can_id = 0x287, sd_frame_index = 55, sd_part_count = 1,
      sd_width = 1, sd_is_signed = 0, sd_calibrated = 0, sd_scale = fp_lit 1 0, sd_offset = fp_lit 0 0\<rparr>,
    \<lparr>sd_stable_id = 0x16218d9135ace619, sd_name = ''BCM_WashingStsRespond'', sd_unit = '''',
      sd_parts = [part_lit 0 8 2],
      sd_invalid_signal_index = 4294967295, sd_can_id = 0x287, sd_frame_index = 55, sd_part_count = 1,
      sd_width = 2, sd_is_signed = 0, sd_calibrated = 0, sd_scale = fp_lit 1 0, sd_offset = fp_lit 0 0\<rparr>,
    \<lparr>sd_stable_id = 0x2eff6cb086edcc22, sd_name = ''BCM_VehicleSpeedAutoLockSetResp'', sd_unit = '''',
      sd_parts = [part_lit 0 6 2],
      sd_invalid_signal_index = 4294967295, sd_can_id = 0x287, sd_frame_index = 55, sd_part_count = 1,
      sd_width = 2, sd_is_signed = 0, sd_calibrated = 0, sd_scale = fp_lit 1 0, sd_offset = fp_lit 0 0\<rparr>,
    \<lparr>sd_stable_id = 0xcd57a060dafe2bcc, sd_name = ''BCM_AnimLightTypeSetResp'', sd_unit = '''',
      sd_parts = [part_lit 0 3 3],
      sd_invalid_signal_index = 4294967295, sd_can_id = 0x287, sd_frame_index = 55, sd_part_count = 1,
      sd_width = 3, sd_is_signed = 0, sd_calibrated = 0, sd_scale = fp_lit 1 0, sd_offset = fp_lit 0 0\<rparr>,
    \<lparr>sd_stable_id = 0xdb28d05acb92f073, sd_name = ''L_Sunroof_Operation_State'', sd_unit = '''',
      sd_parts = [part_lit 4 20 4],
      sd_invalid_signal_index = 4294967295, sd_can_id = 0x287, sd_frame_index = 55, sd_part_count = 1,
      sd_width = 4, sd_is_signed = 0, sd_calibrated = 0, sd_scale = fp_lit 1 0, sd_offset = fp_lit 0 0\<rparr>,
    \<lparr>sd_stable_id = 0x63a43df4e06b13f7, sd_name = ''BCM_SceneModeState'', sd_unit = '''',
      sd_parts = [part_lit 4 17 1],
      sd_invalid_signal_index = 4294967295, sd_can_id = 0x287, sd_frame_index = 55, sd_part_count = 1,
      sd_width = 1, sd_is_signed = 0, sd_calibrated = 0, sd_scale = fp_lit 1 0, sd_offset = fp_lit 0 0\<rparr>,
    \<lparr>sd_stable_id = 0x3c666b25c6698977, sd_name = ''BCM_AVM_ButtonPress'', sd_unit = '''',
      sd_parts = [part_lit 4 16 1],
      sd_invalid_signal_index = 4294967295, sd_can_id = 0x287, sd_frame_index = 55, sd_part_count = 1,
      sd_width = 1, sd_is_signed = 0, sd_calibrated = 0, sd_scale = fp_lit 1 0, sd_offset = fp_lit 0 0\<rparr>,
    \<lparr>sd_stable_id = 0x190195997b52b574, sd_name = ''BCM_sunroof_valid'', sd_unit = '''',
      sd_parts = [part_lit 4 15 1],
      sd_invalid_signal_index = 4294967295, sd_can_id = 0x287, sd_frame_index = 55, sd_part_count = 1,
      sd_width = 1, sd_is_signed = 0, sd_calibrated = 0, sd_scale = fp_lit 1 0, sd_offset = fp_lit 0 0\<rparr>,
    \<lparr>sd_stable_id = 0x690da8ff9485d635, sd_name = ''L_sunroof_Val_Opened'', sd_unit = '''',
      sd_parts = [part_lit 4 8 7],
      sd_invalid_signal_index = 4294967295, sd_can_id = 0x287, sd_frame_index = 55, sd_part_count = 1,
      sd_width = 7, sd_is_signed = 0, sd_calibrated = 0, sd_scale = fp_lit 1 0, sd_offset = fp_lit 0 0\<rparr>,
    \<lparr>sd_stable_id = 0x2a0232b3a22a180a, sd_name = ''L_sunroof_ap_event'', sd_unit = '''',
      sd_parts = [part_lit 4 7 1],
      sd_invalid_signal_index = 4294967295, sd_can_id = 0x287, sd_frame_index = 55, sd_part_count = 1,
      sd_width = 1, sd_is_signed = 0, sd_calibrated = 0, sd_scale = fp_lit 1 0, sd_offset = fp_lit 0 0\<rparr>]"

lemma ROADCAST_SIGNALS_10_ok: "block_ok ROADCAST_CAN_IDS 815 100 10 ROADCAST_SIGNALS_10"
  by (simp add: ROADCAST_SIGNALS_10_def signal_eval)

definition ROADCAST_SIGNALS_11 :: "roadcast_signal_definition list" where
  "ROADCAST_SIGNALS_11 = [
    \<lparr>sd_stable_id = 0xb9e2b87e1b81fdb4, sd_name = ''BCM_sunroof_Error'', sd_unit = '''',
      sd_parts = [part_lit 4 6 1],
      sd_invalid_signal_index = 4294967295, sd_can_id = 0x287, sd_frame_index = 55, sd_part_count = 1,
      sd_width = 1, sd_is_signed = 0, sd_calibrated = 0, sd_scale = fp_lit 1 0, sd_offset = fp_lit 0 0\<rparr>,
    \<lparr>sd_stable_id = 0x74f8b32af60b6f15, sd_name = ''L_Rollo_Action_Status'', sd_unit = '''',
      sd_parts = [part_lit 4 3 3],
      sd_invalid_signal_index = 4294967295, sd_can_id = 0x287, sd_frame_index = 55, sd_part_count = 1,
      sd_width = 3, sd_is_signed = 0, sd_calibrated = 0, sd_scale = fp_lit 1 0, sd_offset = fp_lit 0 0\<rparr>,
    \<lparr>sd_stable_id = 0x374cabacdafb983f, sd_name = ''L_Sunroof_Position'', sd_unit = '''',
      sd_parts = [part_lit 4 0 3],
      sd_invalid_signal_index = 4294967295, sd_can_id = 0x287, sd_frame_index = 55, sd_part_count = 1,
      sd_width = 3, sd_is_signed = 0, sd_calibrated = 0, sd_scale = fp_lit 1 0, sd_offset = fp_lit 0 0\<rparr>,
    \<lparr>sd_stable_id = 0x810acc4d72f9118f, sd_name = ''DSCU_UserIDSavingPopUp'', sd_unit = '''',
      sd_parts = [part_lit 0 29 1],
      sd_invalid_signal_index = 4294967295, sd_can_id = 0x2D2, sd_frame_index = 79, sd_part_count = 1,
      sd_width = 1, sd_is_signed = 0, sd_calibrated = 0, sd_scale = fp_lit 1 0, sd_offset = fp_lit 0 0\<rparr>,
    \<lparr>sd_stable_id = 0x438baff8f65fca37, sd_name = ''DSCU_SceneModeState'', sd_unit = '''',
      sd_parts = [part_lit 0 28 1],
      sd_invalid_signal_index = 4294967295, sd_can_id = 0x2D2, sd_frame_index = 79, sd_part_count = 1,
      sd_width = 1, sd_is_signed = 0, sd_calibrated = 0, sd_scale = fp_lit 1 0, sd_offset = fp_lit 0 0\<rparr>,
    \<lparr>sd_stable_id = 0x2b26610b79710d07, sd_name = ''DSCU_SeatMemorySts'', sd_unit = '''',
      sd_parts = [part_lit 0 27 1],
      sd_invalid_signal_index = 4294967295, sd_can_id = 0x2D2, sd_frame_index = 79, sd_part_count = 1,
      sd_width = 1, sd_is_signed = 0, sd_calibrated = 0, sd_scale = fp_lit 1 0, sd_offset = fp_lit 0 0\<rparr>,
    \<lparr>sd_stable_id = 0xb6d0e661597d1002, sd_name = ''DSCU_RearMirrorReverseInclineSts'', sd_unit = '''',
      sd_parts = [part_lit 0 25 2],
      sd_invalid_signal_index = 4294967295, sd_can_id = 0x2D2, sd_frame_index = 79, sd_part_count = 1,
      sd_width = 2, sd_is_signed = 0, sd_calibrated = 0, sd_scale = fp_lit 1 0, sd_offset = fp_lit 0 0\<rparr>,
    \<lparr>sd_stable_id = 0x03e4d472f029f338, sd_name = ''DSCU_MmryScsIndReq'', sd_unit = '''',
      sd_parts = [part_lit 0 24 1],
      sd_invalid_signal_index = 4294967295, sd_can_id = 0x2D2, sd_frame_index = 79, sd_part_count = 1,
      sd_width = 1, sd_is_signed = 0, sd_calibrated = 0, sd_scale = fp_lit 1 0, sd_offset = fp_lit 0 0\<rparr>,
    \<lparr>sd_stable_id = 0xe9bb8abe63911674, sd_name = ''DSCU_PosnSt'', sd_unit = '''',
      sd_parts = [part_lit 0 12 4],
      sd_invalid_signal_index = 4294967295, sd_can_id = 0x2D2, sd_frame_index = 79, sd_part_count = 1,
      sd_width = 4, sd_is_signed = 0, sd_calibrated = 0, sd_scale = fp_lit 1 0, sd_offset = fp_lit 0 0\<rparr>,
    \<lparr>sd_stable_id = 0x8787062424a7e50d, sd_name = ''DSCU_EasyAccessResp'', sd_unit = '''',
      sd_parts = [part_lit 0 10 2],
      sd_invalid_signal_index = 4294967295, sd_can_id = 0x2D2, sd_frame_index = 79, sd_part_count = 1,
      sd_width = 2, sd_is_signed = 0, sd_calibrated = 0, sd_scale = fp_lit 1 0, sd_offset = fp_lit 0 0\<rparr>]"

lemma ROADCAST_SIGNALS_11_ok: "block_ok ROADCAST_CAN_IDS 815 110 10 ROADCAST_SIGNALS_11"
  by (simp add: ROADCAST_SIGNALS_11_def signal_eval)

definition ROADCAST_SIGNALS_12 :: "roadcast_signal_definition list" where
  "ROADCAST_SIGNALS_12 = [
    \<lparr>sd_stable_id = 0xc202c917ebf7e430, sd_name = ''DSCU_MemorySet'', sd_unit = '''',
      sd_parts = [part_lit 0 9 1],
      sd_invalid_signal_index = 4294967295, sd_can_id = 0x2D2, sd_frame_index = 79, sd_part_count = 1,
      sd_width = 1, sd_is_signed = 0, sd_calibrated = 0, sd_scale = fp_lit 1 0, sd_offset = fp_lit 0 0\<rparr>,
    \<lparr>sd_stable_id = 0x8be8f0b0744f209b, sd_name = ''DSCU_DrvSeatAutoHeatResp'', sd_unit = '''',
      sd_parts = [part_lit 0 7 1],
      sd_invalid_signal_index = 4294967295, sd_can_id = 0x2D2, sd_frame_index = 79, sd_part_count = 1,
      sd_width = 1, sd_is_signed = 0, sd_calibrated = 0, sd_scale = fp_lit 1 0, sd_offset = fp_lit 0 0\<rparr>,
    \<lparr>sd_stable_id = 0xcd739e45c9ac5c80, sd_name = ''DSCU_PassSeatAutoHeatResp'', sd_unit = '''',
      sd_parts = [part_lit 0 6 1],
      sd_invalid_signal_index = 4294967295, sd_can_id = 0x2D2, sd_frame_index = 79, sd_part_count = 1,
      sd_width = 1, sd_is_signed = 0, sd_calibrated = 0, sd_scale = fp_lit 1 0, sd_offset = fp_lit 0 0\<rparr>,
    \<lparr>sd_stable_id = 0x984a9a3e8cd5f91d, sd_name = ''DSCU_DrvSeatTimeHeatResp'', sd_unit = '''',
      sd_parts = [part_lit 0 3 3],
      sd_invalid_signal_index = 4294967295, sd_can_id = 0x2D2, sd_frame_index = 79, sd_part_count = 1,
      sd_width = 3, sd_is_signed = 0, sd_calibrated = 0, sd_scale = fp_lit 1 0, sd_offset = fp_lit 0 0\<rparr>,
    \<lparr>sd_stable_id = 0xa3e2ec791c964982, sd_name = ''DSCU_PassSeatTimeHeatResp'', sd_unit = '''',
      sd_parts = [part_lit 0 0 3],
      sd_invalid_signal_index = 4294967295, sd_can_id = 0x2D2, sd_frame_index = 79, sd_part_count = 1,
      sd_width = 3, sd_is_signed = 0, sd_calibrated = 0, sd_scale = fp_lit 1 0, sd_offset = fp_lit 0 0\<rparr>,
    \<lparr>sd_stable_id = 0x5c3ceb576b6d2c93, sd_name = ''DSCU_DrvSeatAutoHeatLevelResp'', sd_unit = '''',
      sd_parts = [part_lit 4 30 2],
      sd_invalid_signal_index = 4294967295, sd_can_id = 0x2D2, sd_frame_index = 79, sd_part_count = 1,
      sd_width = 2, sd_is_signed = 0, sd_calibrated = 0, sd_scale = fp_lit 1 0, sd_offset = fp_lit 0 0\<rparr>,
    \<lparr>sd_stable_id = 0xc08087bceea0bd37, sd_name = ''DSCU_PassSeatAutoeHeatLevelResp'', sd_unit = '''',
      sd_parts = [part_lit 4 28 2],
      sd_invalid_signal_index = 4294967295, sd_can_id = 0x2D2, sd_frame_index = 79, sd_part_count = 1,
      sd_width = 2, sd_is_signed = 0, sd_calibrated = 0, sd_scale = fp_lit 1 0, sd_offset = fp_lit 0 0\<rparr>,
    \<lparr>sd_stable_id = 0xad1463fb02bc41f9, sd_name = ''DSCU_UserIDPopUp'', sd_unit = '''',
      sd_parts = [part_lit 4 26 2],
      sd_invalid_signal_index = 4294967295, sd_can_id = 0x2D2, sd_frame_index = 79, sd_part_count = 1,
      sd_width = 2, sd_is_signed = 0, sd_calibrated = 0, sd_scale = fp_lit 1 0, sd_offset = fp_lit 0 0\<rparr>,
    \<lparr>sd_stable_id = 0x88302e13331b19fb, sd_name = ''DSCU_FaceIDPopUp'', sd_unit = '''',
      sd_parts = [part_lit 4 24 2],
      sd_invalid_signal_index = 4294967295, sd_can_id = 0x2D2, sd_frame_index = 79, sd_part_count = 1,
      sd_width = 2, sd_is_signed = 0, sd_calibrated = 0, sd_scale = fp_lit 1 0, sd_offset = fp_lit 0 0\<rparr>,
    \<lparr>sd_stable_id = 0xb2af82bc08d8d127, sd_name = ''DSCU_DrvrSeatLenPosPerc'', sd_unit = '''',
      sd_parts = [part_lit 4 16 8],
      sd_invalid_signal_index = 4294967295, sd_can_id = 0x2D2, sd_frame_index = 79, sd_part_count = 1,
      sd_width = 8, sd_is_signed = 0, sd_calibrated = 0, sd_scale = fp_lit 1 0, sd_offset = fp_lit 0 0\<rparr>]"

lemma ROADCAST_SIGNALS_12_ok: "block_ok ROADCAST_CAN_IDS 815 120 10 ROADCAST_SIGNALS_12"
  by (simp add: ROADCAST_SIGNALS_12_def signal_eval)

definition ROADCAST_SIGNALS_13 :: "roadcast_signal_definition list" where
  "ROADCAST_SIGNALS_13 = [
    \<lparr>sd_stable_id = 0x7894851141f13e83, sd_name = ''DSCU_DrvrSeatBackrPosPerc'', sd_unit = '''',
      sd_parts = [part_lit 4 8 8],
      sd_invalid_signal_index = 4294967295, sd_can_id = 0x2D2, sd_frame_index = 79, sd_part_count = 1,
      sd_width = 8, sd_is_signed = 0, sd_calibrated = 0, sd_scale = fp_lit 1 0, sd_offset = fp_lit 0 0\<rparr>,
    \<lparr>sd_stable_id = 0x2e13bcf53a248f54, sd_name = ''DSCU_DrvrSeatHeiPosPerc'', sd_unit = '''',
      sd_parts = [part_lit 4 0 8],
      sd_invalid_signal_index = 4294967295, sd_can_id = 0x2D2, sd_frame_index = 79, sd_part_count = 1,
      sd_width = 8, sd_is_signed = 0, sd_calibrated = 0, sd_scale = fp_lit 1 0, sd_offset = fp_lit 0 0\<rparr>,
    \<lparr>sd_stable_id = 0x71f9bd0a55872e5a, sd_name = ''BCM_TurnIndicatorLeft'', sd_unit = '''',
      sd_parts = [part_lit 0 31 1],
      sd_invalid_signal_index = 4294967295, sd_can_id = 0x1F0, sd_frame_index = 32, sd_part_count = 1,
      sd_width = 1, sd_is_signed = 0, sd_calibrated = 0, sd_scale = fp_lit 1 0, sd_offset = fp_lit 0 0\<rparr>,
    \<lparr>sd_stable_id = 0x2033e4e038a69507, sd_name = ''BCM_GloveBoxSwReq'', sd_unit = '''',
      sd_parts = [part_lit 0 30 1],
      sd_invalid_signal_index = 4294967295, sd_can_id = 0x1F0, sd_frame_index = 32, sd_part_count = 1,
      sd_width = 1, sd_is_signed = 0, sd_calibrated = 0, sd_scale = fp_lit 1 0, sd_offset = fp_lit 0 0\<rparr>,
    \<lparr>sd_stable_id = 0x017aa4f026425b5f, sd_name = ''BCM_AntiPinchWarnSetResp'', sd_unit = '''',
      sd_parts = [part_lit 0 29 1],
      sd_invalid_signal_index = 4294967295, sd_can_id = 0x1F0, sd_frame_index = 32, sd_part_count = 1,
      sd_width = 1, sd_is_signed = 0, sd_calibrated = 0, sd_scale = fp_lit 1 0, sd_offset = fp_lit 0 0\<rparr>,
    \<lparr>sd_stable_id = 0xeccfec4bd2feb847, sd_name = ''BCM_TurnIndicatorRight'', sd_unit = '''',
      sd_parts = [part_lit 0 28 1],
      sd_invalid_signal_index = 4294967295, sd_can_id = 0x1F0, sd_frame_index = 32, sd_part_count = 1,
      sd_width = 1, sd_is_signed = 0, sd_calibrated = 0, sd_scale = fp_lit 1 0, sd_offset = fp_lit 0 0\<rparr>,
    \<lparr>sd_stable_id = 0x69e730d7c812d006, sd_name = ''BCM_TurnLeverSts'', sd_unit = '''',
      sd_parts = [part_lit 0 26 2],
      sd_invalid_signal_index = 4294967295, sd_can_id = 0x1F0, sd_frame_index = 32, sd_part_count = 1,
      sd_width = 2, sd_is_signed = 0, sd_calibrated = 0, sd_scale = fp_lit 1 0, sd_offset = fp_lit 0 0\<rparr>,
    \<lparr>sd_stable_id = 0xbf37b2bfe6a1eb1e, sd_name = ''BCM_HighBeamLeverSts'', sd_unit = '''',
      sd_parts = [part_lit 0 25 1],
      sd_invalid_signal_index = 4294967295, sd_can_id = 0x1F0, sd_frame_index = 32, sd_part_count = 1,
      sd_width = 1, sd_is_signed = 0, sd_calibrated = 0, sd_scale = fp_lit 1 0, sd_offset = fp_lit 0 0\<rparr>,
    \<lparr>sd_stable_id = 0x601e4811b69bf93d, sd_name = ''BCM_HighBeamRelayFailSts'', sd_unit = '''',
      sd_parts = [part_lit 0 24 1],
      sd_invalid_signal_index = 4294967295, sd_can_id = 0x1F0, sd_frame_index = 32, sd_part_count = 1,
      sd_width = 1, sd_is_signed = 0, sd_calibrated = 0, sd_scale = fp_lit 1 0, sd_offset = fp_lit 0 0\<rparr>,
    \<lparr>sd_stable_id = 0xe3e913cf3203f1ea, sd_name = ''BCM_LowBeamSts'', sd_unit = '''',
      sd_parts = [part_lit 0 23 1],
      sd_invalid_signal_index = 4294967295, sd_can_id = 0x1F0, sd_frame_index = 32, sd_part_count = 1,
      sd_width = 1, sd_is_signed = 0, sd_calibrated = 0, sd_scale = fp_lit 1 0, sd_offset = fp_lit 0 0\<rparr>]"

lemma ROADCAST_SIGNALS_13_ok: "block_ok ROADCAST_CAN_IDS 815 130 10 ROADCAST_SIGNALS_13"
  by (simp add: ROADCAST_SIGNALS_13_def signal_eval)

definition ROADCAST_SIGNALS_14 :: "roadcast_signal_definition list" where
  "ROADCAST_SIGNALS_14 = [
    \<lparr>sd_stable_id = 0x11c0f8bcd0faaf06, sd_name = ''BCM_AutoLightSts'', sd_unit = '''',
      sd_parts = [part_lit 0 22 1],
      sd_invalid_signal_index = 4294967295, sd_can_id = 0x1F0, sd_frame_index = 32, sd_part_count = 1,
      sd_width = 1, sd_is_signed = 0, sd_calibrated = 0, sd_scale = fp_lit 1 0, sd_offset = fp_lit 0 0\<rparr>,
    \<lparr>sd_stable_id = 0x35da9fae134ad1de, sd_name = ''BCM_HighBeamSts'', sd_unit = '''',
      sd_parts = [part_lit 0 21 1],
      sd_invalid_signal_index = 4294967295, sd_can_id = 0x1F0, sd_frame_index = 32, sd_part_count = 1,
      sd_width = 1, sd_is_signed = 0, sd_calibrated = 0, sd_scale = fp_lit 1 0, sd_offset = fp_lit 0 0\<rparr>,
    \<lparr>sd_stable_id = 0x7ee75d2bedb94d22, sd_name = ''BCM_PositionLightSts'', sd_unit = '''',
      sd_parts = [part_lit 0 20 1],
      sd_invalid_signal_index = 4294967295, sd_can_id = 0x1F0, sd_frame_index = 32, sd_part_count = 1,
      sd_width = 1, sd_is_signed = 0, sd_calibrated = 0, sd_scale = fp_lit 1 0, sd_offset = fp_lit 0 0\<rparr>,
    \<lparr>sd_stable_id = 0xa0c9afaa24c3cad4, sd_name = ''BCM_FrontFogLightSts'', sd_unit = '''',
      sd_parts = [part_lit 0 17 1],
      sd_invalid_signal_index = 4294967295, sd_can_id = 0x1F0, sd_frame_index = 32, sd_part_count = 1,
      sd_width = 1, sd_is_signed = 0, sd_calibrated = 0, sd_scale = fp_lit 1 0, sd_offset = fp_lit 0 0\<rparr>,
    \<lparr>sd_stable_id = 0x56860abd547b2a35, sd_name = ''BCM_RearFogLightSts'', sd_unit = '''',
      sd_parts = [part_lit 0 16 1],
      sd_invalid_signal_index = 4294967295, sd_can_id = 0x1F0, sd_frame_index = 32, sd_part_count = 1,
      sd_width = 1, sd_is_signed = 0, sd_calibrated = 0, sd_scale = fp_lit 1 0, sd_offset = fp_lit 0 0\<rparr>,
    \<lparr>sd_stable_id = 0x46a5c5ebc41893d3, sd_name = ''BCM_LightLeftOn'', sd_unit = '''',
      sd_parts = [part_lit 0 15 1],
      sd_invalid_signal_index = 4294967295, sd_can_id = 0x1F0, sd_frame_index = 32, sd_part_count = 1,
      sd_width = 1, sd_is_signed = 0, sd_calibrated = 0, sd_scale = fp_lit 1 0, sd_offset = fp_lit 0 0\<rparr>,
    \<lparr>sd_stable_id = 0x9910131096972fd0, sd_name = ''BCM_FrontWinHeatSts'', sd_unit = '''',
      sd_parts = [part_lit 0 12 2],
      sd_invalid_signal_index = 4294967295, sd_can_id = 0x1F0, sd_frame_index = 32, sd_part_count = 1,
      sd_width = 2, sd_is_signed = 0, sd_calibrated = 0, sd_scale = fp_lit 1 0, sd_offset = fp_lit 0 0\<rparr>,
    \<lparr>sd_stable_id = 0x834d034d2a34571b, sd_name = ''BCM_GreatRainfallwarning'', sd_unit = '''',
      sd_parts = [part_lit 0 10 1],
      sd_invalid_signal_index = 4294967295, sd_can_id = 0x1F0, sd_frame_index = 32, sd_part_count = 1,
      sd_width = 1, sd_is_signed = 0, sd_calibrated = 0, sd_scale = fp_lit 1 0, sd_offset = fp_lit 0 0\<rparr>,
    \<lparr>sd_stable_id = 0xaf7c7038ded68e90, sd_name = ''BCM_HeadlightOnwarning'', sd_unit = '''',
      sd_parts = [part_lit 0 9 1],
      sd_invalid_signal_index = 4294967295, sd_can_id = 0x1F0, sd_frame_index = 32, sd_part_count = 1,
      sd_width = 1, sd_is_signed = 0, sd_calibrated = 0, sd_scale = fp_lit 1 0, sd_offset = fp_lit 0 0\<rparr>,
    \<lparr>sd_stable_id = 0x7a3119b6d8e35237, sd_name = ''BCM_HazardSts'', sd_unit = '''',
      sd_parts = [part_lit 0 8 1],
      sd_invalid_signal_index = 4294967295, sd_can_id = 0x1F0, sd_frame_index = 32, sd_part_count = 1,
      sd_width = 1, sd_is_signed = 0, sd_calibrated = 0, sd_scale = fp_lit 1 0, sd_offset = fp_lit 0 0\<rparr>]"

lemma ROADCAST_SIGNALS_14_ok: "block_ok ROADCAST_CAN_IDS 815 140 10 ROADCAST_SIGNALS_14"
  by (simp add: ROADCAST_SIGNALS_14_def signal_eval)

definition ROADCAST_SIGNALS_15 :: "roadcast_signal_definition list" where
  "ROADCAST_SIGNALS_15 = [
    \<lparr>sd_stable_id = 0x86548fa663ca6999, sd_name = ''BCM_SWHeatingSts'', sd_unit = '''',
      sd_parts = [part_lit 4 10 2],
      sd_invalid_signal_index = 4294967295, sd_can_id = 0x1F0, sd_frame_index = 32, sd_part_count = 1,
      sd_width = 2, sd_is_signed = 0, sd_calibrated = 0, sd_scale = fp_lit 1 0, sd_offset = fp_lit 0 0\<rparr>,
    \<lparr>sd_stable_id = 0xda7e199cb5f993a2, sd_name = ''BCM_FwashheatStatus'', sd_unit = '''',
      sd_parts = [part_lit 4 9 1],
      sd_invalid_signal_index = 4294967295, sd_can_id = 0x1F0, sd_frame_index = 32, sd_part_count = 1,
      sd_width = 1, sd_is_signed = 0, sd_calibrated = 0, sd_scale = fp_lit 1 0, sd_offset = fp_lit 0 0\<rparr>,
    \<lparr>sd_stable_id = 0x8634de65667aa831, sd_name = ''BCM_Drv_Wdw_valid'', sd_unit = '''',
      sd_parts = [part_lit 0 31 1],
      sd_invalid_signal_index = 4294967295, sd_can_id = 0x285, sd_frame_index = 53, sd_part_count = 1,
      sd_width = 1, sd_is_signed = 0, sd_calibrated = 0, sd_scale = fp_lit 1 0, sd_offset = fp_lit 0 0\<rparr>,
    \<lparr>sd_stable_id = 0xde47fb779e308d58, sd_name = ''BCM_Drv_Val_Wdw_Opened'', sd_unit = '''',
      sd_parts = [part_lit 0 24 7],
      sd_invalid_signal_index = 4294967295, sd_can_id = 0x285, sd_frame_index = 53, sd_part_count = 1,
      sd_width = 7, sd_is_signed = 0, sd_calibrated = 0, sd_scale = fp_lit 1 0, sd_offset = fp_lit 0 0\<rparr>,
    \<lparr>sd_stable_id = 0x6d39f929f516244d, sd_name = ''BCM_Drv_Wdw_OD_Sts'', sd_unit = '''',
      sd_parts = [part_lit 0 23 1],
      sd_invalid_signal_index = 4294967295, sd_can_id = 0x285, sd_frame_index = 53, sd_part_count = 1,
      sd_width = 1, sd_is_signed = 0, sd_calibrated = 0, sd_scale = fp_lit 1 0, sd_offset = fp_lit 0 0\<rparr>,
    \<lparr>sd_stable_id = 0xcde32629a55fa00f, sd_name = ''BCM_Drv_Wdw_Obs_InhibitSts'', sd_unit = '''',
      sd_parts = [part_lit 0 22 1],
      sd_invalid_signal_index = 4294967295, sd_can_id = 0x285, sd_frame_index = 53, sd_part_count = 1,
      sd_width = 1, sd_is_signed = 0, sd_calibrated = 0, sd_scale = fp_lit 1 0, sd_offset = fp_lit 0 0\<rparr>,
    \<lparr>sd_stable_id = 0x421ecd3ac46683e7, sd_name = ''BCM_Drv_Wdw_Running_Sts'', sd_unit = '''',
      sd_parts = [part_lit 0 19 3],
      sd_invalid_signal_index = 4294967295, sd_can_id = 0x285, sd_frame_index = 53, sd_part_count = 1,
      sd_width = 3, sd_is_signed = 0, sd_calibrated = 0, sd_scale = fp_lit 1 0, sd_offset = fp_lit 0 0\<rparr>,
    \<lparr>sd_stable_id = 0xf7de5598e50e8b6a, sd_name = ''BCM_Drv_Wdw_PositionSts'', sd_unit = '''',
      sd_parts = [part_lit 0 17 2],
      sd_invalid_signal_index = 4294967295, sd_can_id = 0x285, sd_frame_index = 53, sd_part_count = 1,
      sd_width = 2, sd_is_signed = 0, sd_calibrated = 0, sd_scale = fp_lit 1 0, sd_offset = fp_lit 0 0\<rparr>,
    \<lparr>sd_stable_id = 0x685c1a151d5be711, sd_name = ''BCM_Drv_Wdw_Error'', sd_unit = '''',
      sd_parts = [part_lit 0 16 1],
      sd_invalid_signal_index = 4294967295, sd_can_id = 0x285, sd_frame_index = 53, sd_part_count = 1,
      sd_width = 1, sd_is_signed = 0, sd_calibrated = 0, sd_scale = fp_lit 1 0, sd_offset = fp_lit 0 0\<rparr>,
    \<lparr>sd_stable_id = 0x084bf368ee9533c3, sd_name = ''BCM_RLD_Wdw_valid'', sd_unit = '''',
      sd_parts = [part_lit 0 15 1],
      sd_invalid_signal_index = 4294967295, sd_can_id = 0x285, sd_frame_index = 53, sd_part_count = 1,
      sd_width = 1, sd_is_signed = 0, sd_calibrated = 0, sd_scale = fp_lit 1 0, sd_offset = fp_lit 0 0\<rparr>]"

lemma ROADCAST_SIGNALS_15_ok: "block_ok ROADCAST_CAN_IDS 815 150 10 ROADCAST_SIGNALS_15"
  by (simp add: ROADCAST_SIGNALS_15_def signal_eval)

definition ROADCAST_SIGNALS_16 :: "roadcast_signal_definition list" where
  "ROADCAST_SIGNALS_16 = [
    \<lparr>sd_stable_id = 0x6b51efa5917feb02, sd_name = ''BCM_RLD_Val_Wdw_Opened'', sd_unit = '''',
      sd_parts = [part_lit 0 8 7],
      sd_invalid_signal_index = 4294967295, sd_can_id = 0x285, sd_frame_index = 53, sd_part_count = 1,
      sd_width = 7, sd_is_signed = 0, sd_calibrated = 0, sd_scale = fp_lit 1 0, sd_offset = fp_lit 0 0\<rparr>,
    \<lparr>sd_stable_id = 0xaf2a2fa14bed9b9f, sd_name = ''BCM_RLD_Wdw_OD_Sts'', sd_unit = '''',
      sd_parts = [part_lit 0 7 1],
      sd_invalid_signal_index = 4294967295, sd_can_id = 0x285, sd_frame_index = 53, sd_part_count = 1,
      sd_width = 1, sd_is_signed = 0, sd_calibrated = 0, sd_scale = fp_lit 1 0, sd_offset = fp_lit 0 0\<rparr>,
    \<lparr>sd_stable_id = 0x6a2f58f23e379f51, sd_name = ''BCM_RLD_Wdw_Obs_InhibitSts'', sd_unit = '''',
      sd_parts = [part_lit 0 6 1],
      sd_invalid_signal_index = 4294967295, sd_can_id = 0x285, sd_frame_index = 53, sd_part_count = 1,
      sd_width = 1, sd_is_signed = 0, sd_calibrated = 0, sd_scale = fp_lit 1 0, sd_offset = fp_lit 0 0\<rparr>,
    \<lparr>sd_stable_id = 0x7e37684a9da29a05, sd_name = ''BCM_RLD_Wdw_Running_Sts'', sd_unit = '''',
      sd_parts = [part_lit 0 3 3],
      sd_invalid_signal_index = 4294967295, sd_can_id = 0x285, sd_frame_index = 53, sd_part_count = 1,
      sd_width = 3, sd_is_signed = 0, sd_calibrated = 0, sd_scale = fp_lit 1 0, sd_offset = fp_lit 0 0\<rparr>,
    \<lparr>sd_stable_id = 0xae0cbff8ba12d210, sd_name = ''BCM_RLD_Wdw_PositionSts'', sd_unit = '''',
      sd_parts = [part_lit 0 1 2],
      sd_invalid_signal_index = 4294967295, sd_can_id = 0x285, sd_frame_index = 53, sd_part_count = 1,
      sd_width = 2, sd_is_signed = 0, sd_calibrated = 0, sd_scale = fp_lit 1 0, sd_offset = fp_lit 0 0\<rparr>,
    \<lparr>sd_stable_id = 0xcb0bb7cebbb3e517, sd_name = ''BCM_RLD_Wdw_Error'', sd_unit = '''',
      sd_parts = [part_lit 0 0 1],
      sd_invalid_signal_index = 4294967295, sd_can_id = 0x285, sd_frame_index = 53, sd_part_count = 1,
      sd_width = 1, sd_is_signed = 0, sd_calibrated = 0, sd_scale = fp_lit 1 0, sd_offset = fp_lit 0 0\<rparr>,
    \<lparr>sd_stable_id = 0xe80bf1742006916f, sd_name = ''BCM_FrontLeftDoorAjarStatus'', sd_unit = '''',
      sd_parts = [part_lit 4 31 1],
      sd_invalid_signal_index = 4294967295, sd_can_id = 0x285, sd_frame_index = 53, sd_part_count = 1,
      sd_width = 1, sd_is_signed = 0, sd_calibrated = 0, sd_scale = fp_lit 1 0, sd_offset = fp_lit 0 0\<rparr>,
    \<lparr>sd_stable_id = 0x3f2627586a4f8308, sd_name = ''BCM_RearLeftDoorAjarStatus'', sd_unit = '''',
      sd_parts = [part_lit 4 30 1],
      sd_invalid_signal_index = 4294967295, sd_can_id = 0x285, sd_frame_index = 53, sd_part_count = 1,
      sd_width = 1, sd_is_signed = 0, sd_calibrated = 0, sd_scale = fp_lit 1 0, sd_offset = fp_lit 0 0\<rparr>,
    \<lparr>sd_stable_id = 0x0b76556414d78dc2, sd_name = ''BCM_DoorLockStatusRL'', sd_unit = '''',
      sd_parts = [part_lit 4 28 2],
      sd_invalid_signal_index = 4294967295, sd_can_id = 0x285, sd_frame_index = 53, sd_part_count = 1,
      sd_width = 2, sd_is_signed = 0, sd_calibrated = 0, sd_scale = fp_lit 1 0, sd_offset = fp_lit 0 0\<rparr>,
    \<lparr>sd_stable_id = 0x950e570f000795b8, sd_name = ''BCM_DoorLockStatusDrv'', sd_unit = '''',
      sd_parts = [part_lit 4 26 2],
      sd_invalid_signal_index = 4294967295, sd_can_id = 0x285, sd_frame_index = 53, sd_part_count = 1,
      sd_width = 2, sd_is_signed = 0, sd_calibrated = 0, sd_scale = fp_lit 1 0, sd_offset = fp_lit 0 0\<rparr>]"

lemma ROADCAST_SIGNALS_16_ok: "block_ok ROADCAST_CAN_IDS 815 160 10 ROADCAST_SIGNALS_16"
  by (simp add: ROADCAST_SIGNALS_16_def signal_eval)

definition ROADCAST_SIGNALS_17 :: "roadcast_signal_definition list" where
  "ROADCAST_SIGNALS_17 = [
    \<lparr>sd_stable_id = 0xe94abadbd4041b52, sd_name = ''BCM_MechaKey_LockAction'', sd_unit = '''',
      sd_parts = [part_lit 4 25 1],
      sd_invalid_signal_index = 4294967295, sd_can_id = 0x285, sd_frame_index = 53, sd_part_count = 1,
      sd_width = 1, sd_is_signed = 0, sd_calibrated = 0, sd_scale = fp_lit 1 0, sd_offset = fp_lit 0 0\<rparr>,
    \<lparr>sd_stable_id = 0xb378fc9dcf51e0ec, sd_name = ''BCM_RearMirrorReverseInclineSts'', sd_unit = '''',
      sd_parts = [part_lit 4 20 2],
      sd_invalid_signal_index = 4294967295, sd_can_id = 0x285, sd_frame_index = 53, sd_part_count = 1,
      sd_width = 2, sd_is_signed = 0, sd_calibrated = 0, sd_scale = fp_lit 1 0, sd_offset = fp_lit 0 0\<rparr>,
    \<lparr>sd_stable_id = 0xe64166509121f8a7, sd_name = ''BCM_RearMirrorFoldSetResp'', sd_unit = '''',
      sd_parts = [part_lit 4 15 1],
      sd_invalid_signal_index = 4294967295, sd_can_id = 0x285, sd_frame_index = 53, sd_part_count = 1,
      sd_width = 1, sd_is_signed = 0, sd_calibrated = 0, sd_scale = fp_lit 1 0, sd_offset = fp_lit 0 0\<rparr>,
    \<lparr>sd_stable_id = 0x541891d08c4af732, sd_name = ''BCM_HeadlightAdjustmentSts'', sd_unit = '''',
      sd_parts = [part_lit 4 9 4],
      sd_invalid_signal_index = 4294967295, sd_can_id = 0x285, sd_frame_index = 53, sd_part_count = 1,
      sd_width = 4, sd_is_signed = 0, sd_calibrated = 0, sd_scale = fp_lit 1 0, sd_offset = fp_lit 0 0\<rparr>,
    \<lparr>sd_stable_id = 0xabfc17799134ba2a, sd_name = ''BCM_ExternalLockingReimnd'', sd_unit = '''',
      sd_parts = [part_lit 4 6 2],
      sd_invalid_signal_index = 4294967295, sd_can_id = 0x285, sd_frame_index = 53, sd_part_count = 1,
      sd_width = 2, sd_is_signed = 0, sd_calibrated = 0, sd_scale = fp_lit 1 0, sd_offset = fp_lit 0 0\<rparr>,
    \<lparr>sd_stable_id = 0x46306dab4fc098ea, sd_name = ''BCM_Pas_Wdw_valid'', sd_unit = '''',
      sd_parts = [part_lit 0 31 1],
      sd_invalid_signal_index = 4294967295, sd_can_id = 0x286, sd_frame_index = 54, sd_part_count = 1,
      sd_width = 1, sd_is_signed = 0, sd_calibrated = 0, sd_scale = fp_lit 1 0, sd_offset = fp_lit 0 0\<rparr>,
    \<lparr>sd_stable_id = 0x1ff7d0b8b7c41c55, sd_name = ''BCM_Pas_Val_Wdw_Opened'', sd_unit = '''',
      sd_parts = [part_lit 0 24 7],
      sd_invalid_signal_index = 4294967295, sd_can_id = 0x286, sd_frame_index = 54, sd_part_count = 1,
      sd_width = 7, sd_is_signed = 0, sd_calibrated = 0, sd_scale = fp_lit 1 0, sd_offset = fp_lit 0 0\<rparr>,
    \<lparr>sd_stable_id = 0xb2305ba6fd304630, sd_name = ''BCM_Pas_Wdw_OD_Sts'', sd_unit = '''',
      sd_parts = [part_lit 0 23 1],
      sd_invalid_signal_index = 4294967295, sd_can_id = 0x286, sd_frame_index = 54, sd_part_count = 1,
      sd_width = 1, sd_is_signed = 0, sd_calibrated = 0, sd_scale = fp_lit 1 0, sd_offset = fp_lit 0 0\<rparr>,
    \<lparr>sd_stable_id = 0x13175ee969d0c6ea, sd_name = ''BCM_Pas_Wdw_Obs_InhibitSts'', sd_unit = '''',
      sd_parts = [part_lit 0 22 1],
      sd_invalid_signal_index = 4294967295, sd_can_id = 0x286, sd_frame_index = 54, sd_part_count = 1,
      sd_width = 1, sd_is_signed = 0, sd_calibrated = 0, sd_scale = fp_lit 1 0, sd_offset = fp_lit 0 0\<rparr>,
    \<lparr>sd_stable_id = 0x2814d3c6cc700554, sd_name = ''BCM_Pas_Wdw_Running_Sts'', sd_unit = '''',
      sd_parts = [part_lit 0 19 3],
      sd_invalid_signal_index = 4294967295, sd_can_id = 0x286, sd_frame_index = 54, sd_part_count = 1,
      sd_width = 3, sd_is_signed = 0, sd_calibrated = 0, sd_scale = fp_lit 1 0, sd_offset = fp_lit 0 0\<rparr>]"

lemma ROADCAST_SIGNALS_17_ok: "block_ok ROADCAST_CAN_IDS 815 170 10 ROADCAST_SIGNALS_17"
  by (simp add: ROADCAST_SIGNALS_17_def signal_eval)

definition ROADCAST_SIGNALS_18 :: "roadcast_signal_definition list" where
  "ROADCAST_SIGNALS_18 = [
    \<lparr>sd_stable_id = 0x4c101058b70b9c65, sd_name = ''BCM_Pas_Wdw_PositionSts'', sd_unit = '''',
      sd_parts = [part_lit 0 17 2],
      sd_invalid_signal_index = 4294967295, sd_can_id = 0x286, sd_frame_index = 54, sd_part_count = 1,
      sd_width = 2, sd_is_signed = 0, sd_calibrated = 0, sd_scale = fp_lit 1 0, sd_offset = fp_lit 0 0\<rparr>,
    \<lparr>sd_stable_id = 0xfa7c58a54e38dbbe, sd_name = ''BCM_Pas_Wdw_Error'', sd_unit = '''',
      sd_parts = [part_lit 0 16 1],
      sd_invalid_signal_index = 4294967295, sd_can_id = 0x286, sd_frame_index = 54, sd_part_count = 1,
      sd_width = 1, sd_is_signed = 0, sd_calibrated = 0, sd_scale = fp_lit 1 0, sd_offset = fp_lit 0 0\<rparr>,
    \<lparr>sd_stable_id = 0x72f967debf3cf4ca, sd_name = ''BCM_RRD_Wdw_valid'', sd_unit = '''',
      sd_parts = [part_lit 0 15 1],
      sd_invalid_signal_index = 4294967295, sd_can_id = 0x286, sd_frame_index = 54, sd_part_count = 1,
      sd_width = 1, sd_is_signed = 0, sd_calibrated = 0, sd_scale = fp_lit 1 0, sd_offset = fp_lit 0 0\<rparr>,
    \<lparr>sd_stable_id = 0xfbb5f2ecc8ef3e75, sd_name = ''BCM_RRD_Val_Wdw_Opened'', sd_unit = '''',
      sd_parts = [part_lit 0 8 7],
      sd_invalid_signal_index = 4294967295, sd_can_id = 0x286, sd_frame_index = 54, sd_part_count = 1,
      sd_width = 7, sd_is_signed = 0, sd_calibrated = 0, sd_scale = fp_lit 1 0, sd_offset = fp_lit 0 0\<rparr>,
    \<lparr>sd_stable_id = 0x2b3398af657fec90, sd_name = ''BCM_RRD_Wdw_OD_Sts'', sd_unit = '''',
      sd_parts = [part_lit 0 7 1],
      sd_invalid_signal_index = 4294967295, sd_can_id = 0x286, sd_frame_index = 54, sd_part_count = 1,
      sd_width = 1, sd_is_signed = 0, sd_calibrated = 0, sd_scale = fp_lit 1 0, sd_offset = fp_lit 0 0\<rparr>,
    \<lparr>sd_stable_id = 0xf8496ec9a3e3694a, sd_name = ''BCM_RRD_Wdw_Obs_InhibitSts'', sd_unit = '''',
      sd_parts = [part_lit 0 6 1],
      sd_invalid_signal_index = 4294967295, sd_can_id = 0x286, sd_frame_index = 54, sd_part_count = 1,
      sd_width = 1, sd_is_signed = 0, sd_calibrated = 0, sd_scale = fp_lit 1 0, sd_offset = fp_lit 0 0\<rparr>,
    \<lparr>sd_stable_id = 0x508eb3fb15676bf4, sd_name = ''BCM_RRD_Wdw_Running_Sts'', sd_unit = '''',
      sd_parts = [part_lit 0 3 3],
      sd_invalid_signal_index = 4294967295, sd_can_id = 0x286, sd_frame_index = 54, sd_part_count = 1,
      sd_width = 3, sd_is_signed = 0, sd_calibrated = 0, sd_scale = fp_lit 1 0, sd_offset = fp_lit 0 0\<rparr>,
    \<lparr>sd_stable_id = 0xd4d3995ff1afc345, sd_name = ''BCM_RRD_Wdw_PositionSts'', sd_unit = '''',
      sd_parts = [part_lit 0 1 2],
      sd_invalid_signal_index = 4294967295, sd_can_id = 0x286, sd_frame_index = 54, sd_part_count = 1,
      sd_width = 2, sd_is_signed = 0, sd_calibrated = 0, sd_scale = fp_lit 1 0, sd_offset = fp_lit 0 0\<rparr>,
    \<lparr>sd_stable_id = 0x9d1e94b8450567de, sd_name = ''BCM_RRD_Wdw_Error'', sd_unit = '''',
      sd_parts = [part_lit 0 0 1],
      sd_invalid_signal_index = 4294967295, sd_can_id = 0x286, sd_frame_index = 54, sd_part_count = 1,
      sd_width = 1, sd_is_signed = 0, sd_calibrated = 0, sd_scale = fp_lit 1 0, sd_offset = fp_lit 0 0\<rparr>,
    \<lparr>sd_stable_id = 0x37abb1ee664ae925, sd_name = ''BCM_FrontRightDoorAjarStatus'', sd_unit = '''',
      sd_parts = [part_lit 4 31 1],
      sd_invalid_signal_index = 4294967295, sd_can_id = 0x286, sd_frame_index = 54, sd_part_count = 1,
      sd_width = 1, sd_is_signed = 0, sd_calibrated = 0, sd_scale = fp_lit 1 0, sd_offset = fp_lit 0 0\<rparr>]"

lemma ROADCAST_SIGNALS_18_ok: "block_ok ROADCAST_CAN_IDS 815 180 10 ROADCAST_SIGNALS_18"
  by (simp add: ROADCAST_SIGNALS_18_def signal_eval)

definition ROADCAST_SIGNALS_19 :: "roadcast_signal_definition list" where
  "ROADCAST_SIGNALS_19 = [
    \<lparr>sd_stable_id = 0x32a226886d997f36, sd_name = ''BCM_RearRightDoorAjarStatus'', sd_unit = '''',
      sd_parts = [part_lit 4 30 1],
      sd_invalid_signal_index = 4294967295, sd_can_id = 0x286, sd_frame_index = 54, sd_part_count = 1,
      sd_width = 1, sd_is_signed = 0, sd_calibrated = 0, sd_scale = fp_lit 1 0, sd_offset = fp_lit 0 0\<rparr>,
    \<lparr>sd_stable_id = 0xb2fca7fd4bb25fc5, sd_name = ''BCM_DoorLockStatusRR'', sd_unit = '''',
      sd_parts = [part_lit 4 28 2],
      sd_invalid_signal_index = 4294967295, sd_can_id = 0x286, sd_frame_index = 54, sd_part_count = 1,
      sd_width = 2, sd_is_signed = 0, sd_calibrated = 0, sd_scale = fp_lit 1 0, sd_offset = fp_lit 0 0\<rparr>,
    \<lparr>sd_stable_id = 0xce5da507ad780298, sd_name = ''BCM_DoorLockStatusPass'', sd_unit = '''',
      sd_parts = [part_lit 4 26 2],
      sd_invalid_signal_index = 4294967295, sd_can_id = 0x286, sd_frame_index = 54, sd_part_count = 1,
      sd_width = 2, sd_is_signed = 0, sd_calibrated = 0, sd_scale = fp_lit 1 0, sd_offset = fp_lit 0 0\<rparr>,
    \<lparr>sd_stable_id = 0x7d8bebba18c0ec57, sd_name = ''TPMS_FLTyreWarn'', sd_unit = '''',
      sd_parts = [part_lit 0 30 2],
      sd_invalid_signal_index = 4294967295, sd_can_id = 0x2FD, sd_frame_index = 90, sd_part_count = 1,
      sd_width = 2, sd_is_signed = 0, sd_calibrated = 0, sd_scale = fp_lit 1 0, sd_offset = fp_lit 0 0\<rparr>,
    \<lparr>sd_stable_id = 0x79289396b2443b02, sd_name = ''TPMS_FLTyre_Temperature'', sd_unit = '''',
      sd_parts = [part_lit 0 28 1],
      sd_invalid_signal_index = 4294967295, sd_can_id = 0x2FD, sd_frame_index = 90, sd_part_count = 1,
      sd_width = 1, sd_is_signed = 0, sd_calibrated = 0, sd_scale = fp_lit 1 0, sd_offset = fp_lit 0 0\<rparr>,
    \<lparr>sd_stable_id = 0xc30175ebf3503588, sd_name = ''TPMS_FLTyre_Fast_Leak'', sd_unit = '''',
      sd_parts = [part_lit 0 27 1],
      sd_invalid_signal_index = 4294967295, sd_can_id = 0x2FD, sd_frame_index = 90, sd_part_count = 1,
      sd_width = 1, sd_is_signed = 0, sd_calibrated = 0, sd_scale = fp_lit 1 0, sd_offset = fp_lit 0 0\<rparr>,
    \<lparr>sd_stable_id = 0x9043ce3605cfd40b, sd_name = ''TPMS_FLTyre_Sensor_Failure'', sd_unit = '''',
      sd_parts = [part_lit 0 26 1],
      sd_invalid_signal_index = 4294967295, sd_can_id = 0x2FD, sd_frame_index = 90, sd_part_count = 1,
      sd_width = 1, sd_is_signed = 0, sd_calibrated = 0, sd_scale = fp_lit 1 0, sd_offset = fp_lit 0 0\<rparr>,
    \<lparr>sd_stable_id = 0x897933d4f77b81a1, sd_name = ''BCM_PearlightResp'', sd_unit = '''',
      sd_parts = [part_lit 0 25 1],
      sd_invalid_signal_index = 4294967295, sd_can_id = 0x2FD, sd_frame_index = 90, sd_part_count = 1,
      sd_width = 1, sd_is_signed = 0, sd_calibrated = 0, sd_scale = fp_lit 1 0, sd_offset = fp_lit 0 0\<rparr>,
    \<lparr>sd_stable_id = 0xe9f68a48d3d68ac1, sd_name = ''TPMS_0x1F1_TimeoutFlag'', sd_unit = '''',
      sd_parts = [part_lit 0 24 1],
      sd_invalid_signal_index = 4294967295, sd_can_id = 0x2FD, sd_frame_index = 90, sd_part_count = 1,
      sd_width = 1, sd_is_signed = 0, sd_calibrated = 0, sd_scale = fp_lit 1 0, sd_offset = fp_lit 0 0\<rparr>,
    \<lparr>sd_stable_id = 0x01a0da0fe223bd25, sd_name = ''TPMS_FRTyreWarn'', sd_unit = '''',
      sd_parts = [part_lit 0 22 2],
      sd_invalid_signal_index = 4294967295, sd_can_id = 0x2FD, sd_frame_index = 90, sd_part_count = 1,
      sd_width = 2, sd_is_signed = 0, sd_calibrated = 0, sd_scale = fp_lit 1 0, sd_offset = fp_lit 0 0\<rparr>]"

lemma ROADCAST_SIGNALS_19_ok: "block_ok ROADCAST_CAN_IDS 815 190 10 ROADCAST_SIGNALS_19"
  by (simp add: ROADCAST_SIGNALS_19_def signal_eval)

definition ROADCAST_SIGNALS_20 :: "roadcast_signal_definition list" where
  "ROADCAST_SIGNALS_20 = [
    \<lparr>sd_stable_id = 0xdcfebbc256deda88, sd_name = ''TPMS_FRTyre_Temperature'', sd_unit = '''',
      sd_parts = [part_lit 0 20 1],
      sd_invalid_signal_index = 4294967295, sd_can_id = 0x2FD, sd_frame_index = 90, sd_part_count = 1,
      sd_width = 1, sd_is_signed = 0, sd_calibrated = 0, sd_scale = fp_lit 1 0, sd_offset = fp_lit 0 0\<rparr>,
    \<lparr>sd_stable_id = 0x998d3e6304a6321e, sd_name = ''TPMS_FRTyre_Fast_Leak'', sd_unit = '''',
      sd_parts = [part_lit 0 19 1],
      sd_invalid_signal_index = 4294967295, sd_can_id = 0x2FD, sd_frame_index = 90, sd_part_count = 1,
      sd_width = 1, sd_is_signed = 0, sd_calibrated = 0, sd_scale = fp_lit 1 0, sd_offset = fp_lit 0 0\<rparr>,
    \<lparr>sd_stable_id = 0x167b560431072d15, sd_name = ''TPMS_FRTyre_Sensor_Failure'', sd_unit = '''',
      sd_parts = [part_lit 0 18 1],
      sd_invalid_signal_index = 4294967295, sd_can_id = 0x2FD, sd_frame_index = 90, sd_part_count = 1,
      sd_width = 1, sd_is_signed = 0, sd_calibrated = 0, sd_scale = fp_lit 1 0, sd_offset = fp_lit 0 0\<rparr>,
    \<lparr>sd_stable_id = 0x6529a18721dbd14b, sd_name = ''TPMS_RLTyreWarn'', sd_unit = '''',
      sd_parts = [part_lit 0 14 2],
      sd_invalid_signal_index = 4294967295, sd_can_id = 0x2FD, sd_frame_index = 90, sd_part_count = 1,
      sd_width = 2, sd_is_signed = 0, sd_calibrated = 0, sd_scale = fp_lit 1 0, sd_offset = fp_lit 0 0\<rparr>,
    \<lparr>sd_stable_id = 0x590f259fe95366c6, sd_name = ''TPMS_RLTyre_Temperature'', sd_unit = '''',
      sd_parts = [part_lit 0 12 1],
      sd_invalid_signal_index = 4294967295, sd_can_id = 0x2FD, sd_frame_index = 90, sd_part_count = 1,
      sd_width = 1, sd_is_signed = 0, sd_calibrated = 0, sd_scale = fp_lit 1 0, sd_offset = fp_lit 0 0\<rparr>,
    \<lparr>sd_stable_id = 0x308e121ab17c5f1c, sd_name = ''TPMS_RLTyre_Fast_Leak'', sd_unit = '''',
      sd_parts = [part_lit 0 11 1],
      sd_invalid_signal_index = 4294967295, sd_can_id = 0x2FD, sd_frame_index = 90, sd_part_count = 1,
      sd_width = 1, sd_is_signed = 0, sd_calibrated = 0, sd_scale = fp_lit 1 0, sd_offset = fp_lit 0 0\<rparr>,
    \<lparr>sd_stable_id = 0x4fb826aa0ff02d2f, sd_name = ''TPMS_RLTyre_Sensor_Failure'', sd_unit = '''',
      sd_parts = [part_lit 0 10 1],
      sd_invalid_signal_index = 4294967295, sd_can_id = 0x2FD, sd_frame_index = 90, sd_part_count = 1,
      sd_width = 1, sd_is_signed = 0, sd_calibrated = 0, sd_scale = fp_lit 1 0, sd_offset = fp_lit 0 0\<rparr>,
    \<lparr>sd_stable_id = 0xaa5c9e13879eb9d1, sd_name = ''TPMS_RRTyreWarn'', sd_unit = '''',
      sd_parts = [part_lit 0 6 2],
      sd_invalid_signal_index = 4294967295, sd_can_id = 0x2FD, sd_frame_index = 90, sd_part_count = 1,
      sd_width = 2, sd_is_signed = 0, sd_calibrated = 0, sd_scale = fp_lit 1 0, sd_offset = fp_lit 0 0\<rparr>,
    \<lparr>sd_stable_id = 0xf0c1ddd073fa77c9, sd_name = ''BCM_EnergyLevel'', sd_unit = '''',
      sd_parts = [part_lit 0 5 1],
      sd_invalid_signal_index = 4294967295, sd_can_id = 0x2FD, sd_frame_index = 90, sd_part_count = 1,
      sd_width = 1, sd_is_signed = 0, sd_calibrated = 0, sd_scale = fp_lit 1 0, sd_offset = fp_lit 0 0\<rparr>,
    \<lparr>sd_stable_id = 0x38e7643239f22e64, sd_name = ''TPMS_RRTyre_Temperature'', sd_unit = '''',
      sd_parts = [part_lit 0 4 1],
      sd_invalid_signal_index = 4294967295, sd_can_id = 0x2FD, sd_frame_index = 90, sd_part_count = 1,
      sd_width = 1, sd_is_signed = 0, sd_calibrated = 0, sd_scale = fp_lit 1 0, sd_offset = fp_lit 0 0\<rparr>]"

lemma ROADCAST_SIGNALS_20_ok: "block_ok ROADCAST_CAN_IDS 815 200 10 ROADCAST_SIGNALS_20"
  by (simp add: ROADCAST_SIGNALS_20_def signal_eval)

end
