(* ===== verification/Catalog_Table_2.thy ===== *)
theory Catalog_Table_2
  imports Catalog
begin

text \<open>
  Entries 210 to 419 of \<^verbatim>\<open>ROADCAST_SIGNALS\<close> in \<^verbatim>\<open>src/catalog_generated.c\<close>, ten to a block, with the
  \<^verbatim>\<open>SIGNAL_PARTS_n\<close> array of each entry written in its place.  Every block satisfies \<open>block_ok\<close>.
\<close>

definition ROADCAST_SIGNALS_21 :: "roadcast_signal_definition list" where
  "ROADCAST_SIGNALS_21 = [
    \<lparr>sd_stable_id = 0x32e665ea58ea1c5a, sd_name = ''TPMS_RRTyre_Fast_Leak'', sd_unit = '''',
      sd_parts = [part_lit 0 3 1],
      sd_invalid_signal_index = 4294967295, sd_can_id = 0x2FD, sd_frame_index = 90, sd_part_count = 1,
      sd_width = 1, sd_is_signed = 0, sd_calibrated = 0, sd_scale = fp_lit 1 0, sd_offset = fp_lit 0 0\<rparr>,
    \<lparr>sd_stable_id = 0x9b7c5ccd6fad6671, sd_name = ''TPMS_RRTyre_Sensor_Failure'', sd_unit = '''',
      sd_parts = [part_lit 0 2 1],
      sd_invalid_signal_index = 4294967295, sd_can_id = 0x2FD, sd_frame_index = 90, sd_part_count = 1,
      sd_width = 1, sd_is_signed = 0, sd_calibrated = 0, sd_scale = fp_lit 1 0, sd_offset = fp_lit 0 0\<rparr>,
    \<lparr>sd_stable_id = 0x129c1099ca6d7117, sd_name = ''BCM_DM_SwitchModeStsDispExt'', sd_unit = '''',
      sd_parts = [part_lit 0 0 2],
      sd_invalid_signal_index = 4294967295, sd_can_id = 0x2FD, sd_frame_index = 90, sd_part_count = 1,
      sd_width = 2, sd_is_signed = 0, sd_calibrated = 0, sd_scale = fp_lit 1 0, sd_offset = fp_lit 0 0\<rparr>,
    \<lparr>sd_stable_id = 0x2e62c09ce209257d, sd_name = ''TPMS_SystemSt'', sd_unit = '''',
      sd_parts = [part_lit 4 30 2],
      sd_invalid_signal_index = 4294967295, sd_can_id = 0x2FD, sd_frame_index = 90, sd_part_count = 1,
      sd_width = 2, sd_is_signed = 0, sd_calibrated = 0, sd_scale = fp_lit 1 0, sd_offset = fp_lit 0 0\<rparr>,
    \<lparr>sd_stable_id = 0x8acfae0735c26d12, sd_name = ''BCM_DMSVehicleMode'', sd_unit = '''',
      sd_parts = [part_lit 4 22 2],
      sd_invalid_signal_index = 4294967295, sd_can_id = 0x2FD, sd_frame_index = 90, sd_part_count = 1,
      sd_width = 2, sd_is_signed = 0, sd_calibrated = 0, sd_scale = fp_lit 1 0, sd_offset = fp_lit 0 0\<rparr>,
    \<lparr>sd_stable_id = 0x038c7b99c93af612, sd_name = ''BCM_0x283_TimeoutFlag'', sd_unit = '''',
      sd_parts = [part_lit 4 12 1],
      sd_invalid_signal_index = 4294967295, sd_can_id = 0x2FD, sd_frame_index = 90, sd_part_count = 1,
      sd_width = 1, sd_is_signed = 0, sd_calibrated = 0, sd_scale = fp_lit 1 0, sd_offset = fp_lit 0 0\<rparr>,
    \<lparr>sd_stable_id = 0x1efc50bbd3ec6647, sd_name = ''BCM_MMICustomSwitchSts'', sd_unit = '''',
      sd_parts = [part_lit 4 8 2],
      sd_invalid_signal_index = 4294967295, sd_can_id = 0x2FD, sd_frame_index = 90, sd_part_count = 1,
      sd_width = 2, sd_is_signed = 0, sd_calibrated = 0, sd_scale = fp_lit 1 0, sd_offset = fp_lit 0 0\<rparr>,
    \<lparr>sd_stable_id = 0xae4ff20c4ee0a458, sd_name = ''SAS_SteerWheelAngle'', sd_unit = '''',
      sd_parts = [part_lit 0 24 8, part_lit 0 16 8],
      sd_invalid_signal_index = 4294967295, sd_can_id = 0x0E0, sd_frame_index = 4, sd_part_count = 2,
      sd_width = 16, sd_is_signed = 0, sd_calibrated = 0, sd_scale = fp_lit 1 0, sd_offset = fp_lit 0 0\<rparr>,
    \<lparr>sd_stable_id = 0xa78c447ec620be43, sd_name = ''SAS_SteerWheelRotSpd'', sd_unit = '''',
      sd_parts = [part_lit 0 8 8],
      sd_invalid_signal_index = 4294967295, sd_can_id = 0x0E0, sd_frame_index = 4, sd_part_count = 1,
      sd_width = 8, sd_is_signed = 0, sd_calibrated = 0, sd_scale = fp_lit 1 0, sd_offset = fp_lit 0 0\<rparr>,
    \<lparr>sd_stable_id = 0x208afb745563d1f1, sd_name = ''SAS_CalibrationSts'', sd_unit = '''',
      sd_parts = [part_lit 0 1 1],
      sd_invalid_signal_index = 4294967295, sd_can_id = 0x0E0, sd_frame_index = 4, sd_part_count = 1,
      sd_width = 1, sd_is_signed = 0, sd_calibrated = 0, sd_scale = fp_lit 1 0, sd_offset = fp_lit 0 0\<rparr>]"

lemma ROADCAST_SIGNALS_21_ok: "block_ok ROADCAST_CAN_IDS 815 210 10 ROADCAST_SIGNALS_21"
  by (simp add: ROADCAST_SIGNALS_21_def signal_eval)

definition ROADCAST_SIGNALS_22 :: "roadcast_signal_definition list" where
  "ROADCAST_SIGNALS_22 = [
    \<lparr>sd_stable_id = 0x58615932bccca07f, sd_name = ''SAS_FailureSts'', sd_unit = '''',
      sd_parts = [part_lit 0 0 1],
      sd_invalid_signal_index = 4294967295, sd_can_id = 0x0E0, sd_frame_index = 4, sd_part_count = 1,
      sd_width = 1, sd_is_signed = 0, sd_calibrated = 0, sd_scale = fp_lit 1 0, sd_offset = fp_lit 0 0\<rparr>,
    \<lparr>sd_stable_id = 0x4c701908b046080f, sd_name = ''SAS_Status_AliveCounter'', sd_unit = '''',
      sd_parts = [part_lit 4 24 4],
      sd_invalid_signal_index = 4294967295, sd_can_id = 0x0E0, sd_frame_index = 4, sd_part_count = 1,
      sd_width = 4, sd_is_signed = 0, sd_calibrated = 0, sd_scale = fp_lit 1 0, sd_offset = fp_lit 0 0\<rparr>,
    \<lparr>sd_stable_id = 0xc10affce69703583, sd_name = ''SAS_Status_Checksum'', sd_unit = '''',
      sd_parts = [part_lit 4 16 8],
      sd_invalid_signal_index = 4294967295, sd_can_id = 0x0E0, sd_frame_index = 4, sd_part_count = 1,
      sd_width = 8, sd_is_signed = 0, sd_calibrated = 0, sd_scale = fp_lit 1 0, sd_offset = fp_lit 0 0\<rparr>,
    \<lparr>sd_stable_id = 0x7f9d6733b543a3ff, sd_name = ''EMS_SSMStatus'', sd_unit = '''',
      sd_parts = [part_lit 4 21 3],
      sd_invalid_signal_index = 4294967295, sd_can_id = 0x085, sd_frame_index = 0, sd_part_count = 1,
      sd_width = 3, sd_is_signed = 0, sd_calibrated = 0, sd_scale = fp_lit 1 0, sd_offset = fp_lit 0 0\<rparr>,
    \<lparr>sd_stable_id = 0x68ac4d2691abd2aa, sd_name = ''EMS_EngStatus'', sd_unit = '''',
      sd_parts = [part_lit 4 16 3],
      sd_invalid_signal_index = 4294967295, sd_can_id = 0x085, sd_frame_index = 0, sd_part_count = 1,
      sd_width = 3, sd_is_signed = 0, sd_calibrated = 0, sd_scale = fp_lit 1 0, sd_offset = fp_lit 0 0\<rparr>,
    \<lparr>sd_stable_id = 0x7b68529699e46173, sd_name = ''EMS_AccelPedalPosition'', sd_unit = '''',
      sd_parts = [part_lit 4 8 8],
      sd_invalid_signal_index = 226, sd_can_id = 0x085, sd_frame_index = 0, sd_part_count = 1,
      sd_width = 8, sd_is_signed = 0, sd_calibrated = 0, sd_scale = fp_lit 1 0, sd_offset = fp_lit 0 0\<rparr>,
    \<lparr>sd_stable_id = 0x12ea04af8e6931c2, sd_name = ''EMS_AccelPedalPositionInvalid'', sd_unit = '''',
      sd_parts = [part_lit 4 4 1],
      sd_invalid_signal_index = 4294967295, sd_can_id = 0x085, sd_frame_index = 0, sd_part_count = 1,
      sd_width = 1, sd_is_signed = 0, sd_calibrated = 0, sd_scale = fp_lit 1 0, sd_offset = fp_lit 0 0\<rparr>,
    \<lparr>sd_stable_id = 0x2da04e5e8028c791, sd_name = ''IPK_IPKTotalOdometer'', sd_unit = '''',
      sd_parts = [part_lit 0 24 8, part_lit 0 16 8, part_lit 0 8 8],
      sd_invalid_signal_index = 4294967295, sd_can_id = 0x3F1, sd_frame_index = 103, sd_part_count = 3,
      sd_width = 24, sd_is_signed = 0, sd_calibrated = 0, sd_scale = fp_lit 1 0, sd_offset = fp_lit 0 0\<rparr>,
    \<lparr>sd_stable_id = 0xc92119ddfb8d4902, sd_name = ''IPK_DTEodometer'', sd_unit = '''',
      sd_parts = [part_lit 0 0 8, part_lit 4 24 4],
      sd_invalid_signal_index = 4294967295, sd_can_id = 0x3F1, sd_frame_index = 103, sd_part_count = 2,
      sd_width = 12, sd_is_signed = 0, sd_calibrated = 0, sd_scale = fp_lit 1 0, sd_offset = fp_lit 0 0\<rparr>,
    \<lparr>sd_stable_id = 0x9af1b63a7e13e39b, sd_name = ''IPK_ServiceMaintainInterval'', sd_unit = '''',
      sd_parts = [part_lit 4 16 8, part_lit 4 8 8],
      sd_invalid_signal_index = 4294967295, sd_can_id = 0x3F1, sd_frame_index = 103, sd_part_count = 2,
      sd_width = 16, sd_is_signed = 0, sd_calibrated = 0, sd_scale = fp_lit 1 0, sd_offset = fp_lit 0 0\<rparr>]"

lemma ROADCAST_SIGNALS_22_ok: "block_ok ROADCAST_CAN_IDS 815 220 10 ROADCAST_SIGNALS_22"
  by (simp add: ROADCAST_SIGNALS_22_def signal_eval)

definition ROADCAST_SIGNALS_23 :: "roadcast_signal_definition list" where
  "ROADCAST_SIGNALS_23 = [
    \<lparr>sd_stable_id = 0x1f623d7bd6186f93, sd_name = ''EMS_EngineCoolantTemperature'', sd_unit = '''',
      sd_parts = [part_lit 0 24 8],
      sd_invalid_signal_index = 4294967295, sd_can_id = 0x288, sd_frame_index = 56, sd_part_count = 1,
      sd_width = 8, sd_is_signed = 0, sd_calibrated = 0, sd_scale = fp_lit 1 0, sd_offset = fp_lit 0 0\<rparr>,
    \<lparr>sd_stable_id = 0xc20d21d517682ef8, sd_name = ''EMS_EngineMILTelltale'', sd_unit = '''',
      sd_parts = [part_lit 0 21 1],
      sd_invalid_signal_index = 4294967295, sd_can_id = 0x288, sd_frame_index = 56, sd_part_count = 1,
      sd_width = 1, sd_is_signed = 0, sd_calibrated = 0, sd_scale = fp_lit 1 0, sd_offset = fp_lit 0 0\<rparr>,
    \<lparr>sd_stable_id = 0xe1666b1181ed764a, sd_name = ''L_RS_RainfallLevel'', sd_unit = '''',
      sd_parts = [part_lit 4 14 2],
      sd_invalid_signal_index = 4294967295, sd_can_id = 0x28B, sd_frame_index = 57, sd_part_count = 1,
      sd_width = 2, sd_is_signed = 0, sd_calibrated = 0, sd_scale = fp_lit 1 0, sd_offset = fp_lit 0 0\<rparr>,
    \<lparr>sd_stable_id = 0xcd0564f8f6852b56, sd_name = ''L_AFU_AFUSwitchResp'', sd_unit = '''',
      sd_parts = [part_lit 0 30 2],
      sd_invalid_signal_index = 4294967295, sd_can_id = 0x374, sd_frame_index = 97, sd_part_count = 1,
      sd_width = 2, sd_is_signed = 0, sd_calibrated = 0, sd_scale = fp_lit 1 0, sd_offset = fp_lit 0 0\<rparr>,
    \<lparr>sd_stable_id = 0xa76c3f0cd5787b8c, sd_name = ''L_AFU_FraganceTaste'', sd_unit = '''',
      sd_parts = [part_lit 0 28 2],
      sd_invalid_signal_index = 4294967295, sd_can_id = 0x374, sd_frame_index = 97, sd_part_count = 1,
      sd_width = 2, sd_is_signed = 0, sd_calibrated = 0, sd_scale = fp_lit 1 0, sd_offset = fp_lit 0 0\<rparr>,
    \<lparr>sd_stable_id = 0xbc6e7171eb7cf1b6, sd_name = ''L_AFU_FraganceConcentration'', sd_unit = '''',
      sd_parts = [part_lit 0 26 2],
      sd_invalid_signal_index = 4294967295, sd_can_id = 0x374, sd_frame_index = 97, sd_part_count = 1,
      sd_width = 2, sd_is_signed = 0, sd_calibrated = 0, sd_scale = fp_lit 1 0, sd_offset = fp_lit 0 0\<rparr>,
    \<lparr>sd_stable_id = 0x97085995369ce6bf, sd_name = ''L_AFU_FraganceBoxID'', sd_unit = '''',
      sd_parts = [part_lit 0 24 2],
      sd_invalid_signal_index = 4294967295, sd_can_id = 0x374, sd_frame_index = 97, sd_part_count = 1,
      sd_width = 2, sd_is_signed = 0, sd_calibrated = 0, sd_scale = fp_lit 1 0, sd_offset = fp_lit 0 0\<rparr>,
    \<lparr>sd_stable_id = 0x3f367b4f6fb2c3a4, sd_name = ''L_AFU_FraganceRatio'', sd_unit = '''',
      sd_parts = [part_lit 0 20 4],
      sd_invalid_signal_index = 4294967295, sd_can_id = 0x374, sd_frame_index = 97, sd_part_count = 1,
      sd_width = 4, sd_is_signed = 0, sd_calibrated = 0, sd_scale = fp_lit 1 0, sd_offset = fp_lit 0 0\<rparr>,
    \<lparr>sd_stable_id = 0xc5945cb6bfe1a449, sd_name = ''AC_KeySoundSts'', sd_unit = '''',
      sd_parts = [part_lit 0 17 3],
      sd_invalid_signal_index = 4294967295, sd_can_id = 0x374, sd_frame_index = 97, sd_part_count = 1,
      sd_width = 3, sd_is_signed = 0, sd_calibrated = 0, sd_scale = fp_lit 1 0, sd_offset = fp_lit 0 0\<rparr>,
    \<lparr>sd_stable_id = 0x1676eaff69d0c226, sd_name = ''AC_AQSReciInd'', sd_unit = '''',
      sd_parts = [part_lit 0 16 1],
      sd_invalid_signal_index = 4294967295, sd_can_id = 0x374, sd_frame_index = 97, sd_part_count = 1,
      sd_width = 1, sd_is_signed = 0, sd_calibrated = 0, sd_scale = fp_lit 1 0, sd_offset = fp_lit 0 0\<rparr>]"

lemma ROADCAST_SIGNALS_23_ok: "block_ok ROADCAST_CAN_IDS 815 230 10 ROADCAST_SIGNALS_23"
  by (simp add: ROADCAST_SIGNALS_23_def signal_eval)

definition ROADCAST_SIGNALS_24 :: "roadcast_signal_definition list" where
  "ROADCAST_SIGNALS_24 = [
    \<lparr>sd_stable_id = 0x0cdda91da42bfdc7, sd_name = ''AC_AirFilterWarnResp'', sd_unit = '''',
      sd_parts = [part_lit 0 15 1],
      sd_invalid_signal_index = 4294967295, sd_can_id = 0x374, sd_frame_index = 97, sd_part_count = 1,
      sd_width = 1, sd_is_signed = 0, sd_calibrated = 0, sd_scale = fp_lit 1 0, sd_offset = fp_lit 0 0\<rparr>,
    \<lparr>sd_stable_id = 0xb383bd5f6ed4dec7, sd_name = ''AC_AirFilterWarnPopupReq'', sd_unit = '''',
      sd_parts = [part_lit 0 13 2],
      sd_invalid_signal_index = 4294967295, sd_can_id = 0x374, sd_frame_index = 97, sd_part_count = 1,
      sd_width = 2, sd_is_signed = 0, sd_calibrated = 0, sd_scale = fp_lit 1 0, sd_offset = fp_lit 0 0\<rparr>,
    \<lparr>sd_stable_id = 0x20d80f2254ef3a65, sd_name = ''AC_SceneModeState'', sd_unit = '''',
      sd_parts = [part_lit 0 11 1],
      sd_invalid_signal_index = 4294967295, sd_can_id = 0x374, sd_frame_index = 97, sd_part_count = 1,
      sd_width = 1, sd_is_signed = 0, sd_calibrated = 0, sd_scale = fp_lit 1 0, sd_offset = fp_lit 0 0\<rparr>,
    \<lparr>sd_stable_id = 0xc6cab2793e708fa8, sd_name = ''AC_GcleanState'', sd_unit = '''',
      sd_parts = [part_lit 0 10 1],
      sd_invalid_signal_index = 4294967295, sd_can_id = 0x374, sd_frame_index = 97, sd_part_count = 1,
      sd_width = 1, sd_is_signed = 0, sd_calibrated = 0, sd_scale = fp_lit 1 0, sd_offset = fp_lit 0 0\<rparr>,
    \<lparr>sd_stable_id = 0x3a1afe48554df349, sd_name = ''AC_VentilationOntimeState'', sd_unit = '''',
      sd_parts = [part_lit 0 9 1],
      sd_invalid_signal_index = 4294967295, sd_can_id = 0x374, sd_frame_index = 97, sd_part_count = 1,
      sd_width = 1, sd_is_signed = 0, sd_calibrated = 0, sd_scale = fp_lit 1 0, sd_offset = fp_lit 0 0\<rparr>,
    \<lparr>sd_stable_id = 0x07550d9379c91c5f, sd_name = ''AC_VentilationInvalid'', sd_unit = '''',
      sd_parts = [part_lit 0 8 1],
      sd_invalid_signal_index = 4294967295, sd_can_id = 0x374, sd_frame_index = 97, sd_part_count = 1,
      sd_width = 1, sd_is_signed = 0, sd_calibrated = 0, sd_scale = fp_lit 1 0, sd_offset = fp_lit 0 0\<rparr>,
    \<lparr>sd_stable_id = 0x022bc7d8249ba864, sd_name = ''L_AFU_AirFragCh1Type'', sd_unit = '''',
      sd_parts = [part_lit 0 3 5],
      sd_invalid_signal_index = 4294967295, sd_can_id = 0x374, sd_frame_index = 97, sd_part_count = 1,
      sd_width = 5, sd_is_signed = 0, sd_calibrated = 0, sd_scale = fp_lit 1 0, sd_offset = fp_lit 0 0\<rparr>,
    \<lparr>sd_stable_id = 0xd611a31355fba2d0, sd_name = ''AC_DeodorizeResp'', sd_unit = '''',
      sd_parts = [part_lit 0 2 1],
      sd_invalid_signal_index = 4294967295, sd_can_id = 0x374, sd_frame_index = 97, sd_part_count = 1,
      sd_width = 1, sd_is_signed = 0, sd_calibrated = 0, sd_scale = fp_lit 1 0, sd_offset = fp_lit 0 0\<rparr>,
    \<lparr>sd_stable_id = 0xc976eb40d5b9b868, sd_name = ''AC_ActiveACState'', sd_unit = '''',
      sd_parts = [part_lit 0 1 1],
      sd_invalid_signal_index = 4294967295, sd_can_id = 0x374, sd_frame_index = 97, sd_part_count = 1,
      sd_width = 1, sd_is_signed = 0, sd_calibrated = 0, sd_scale = fp_lit 1 0, sd_offset = fp_lit 0 0\<rparr>,
    \<lparr>sd_stable_id = 0xcdc49763d0b309a7, sd_name = ''AC_HEATMAX_St'', sd_unit = '''',
      sd_parts = [part_lit 0 0 1],
      sd_invalid_signal_index = 4294967295, sd_can_id = 0x374, sd_frame_index = 97, sd_part_count = 1,
      sd_width = 1, sd_is_signed = 0, sd_calibrated = 0, sd_scale = fp_lit 1 0, sd_offset = fp_lit 0 0\<rparr>]"

lemma ROADCAST_SIGNALS_24_ok: "block_ok ROADCAST_CAN_IDS 815 240 10 ROADCAST_SIGNALS_24"
  by (simp add: ROADCAST_SIGNALS_24_def signal_eval)

definition ROADCAST_SIGNALS_25 :: "roadcast_signal_definition list" where
  "ROADCAST_SIGNALS_25 = [
    \<lparr>sd_stable_id = 0x9fca6d57dfc8b08d, sd_name = ''L_AFU_AirFragCh2Type'', sd_unit = '''',
      sd_parts = [part_lit 4 27 5],
      sd_invalid_signal_index = 4294967295, sd_can_id = 0x374, sd_frame_index = 97, sd_part_count = 1,
      sd_width = 5, sd_is_signed = 0, sd_calibrated = 0, sd_scale = fp_lit 1 0, sd_offset = fp_lit 0 0\<rparr>,
    \<lparr>sd_stable_id = 0x91fcb9399f05e902, sd_name = ''L_AFU_AirFragCh3Type'', sd_unit = '''',
      sd_parts = [part_lit 4 19 5],
      sd_invalid_signal_index = 4294967295, sd_can_id = 0x374, sd_frame_index = 97, sd_part_count = 1,
      sd_width = 5, sd_is_signed = 0, sd_calibrated = 0, sd_scale = fp_lit 1 0, sd_offset = fp_lit 0 0\<rparr>,
    \<lparr>sd_stable_id = 0x818c75bd43184ade, sd_name = ''L_AFU_FraganceChChgSts'', sd_unit = '''',
      sd_parts = [part_lit 4 17 2],
      sd_invalid_signal_index = 4294967295, sd_can_id = 0x374, sd_frame_index = 97, sd_part_count = 1,
      sd_width = 2, sd_is_signed = 0, sd_calibrated = 0, sd_scale = fp_lit 1 0, sd_offset = fp_lit 0 0\<rparr>,
    \<lparr>sd_stable_id = 0xb5d6ba08815e276a, sd_name = ''AC_ACForbiddenrReminder'', sd_unit = '''',
      sd_parts = [part_lit 4 16 1],
      sd_invalid_signal_index = 4294967295, sd_can_id = 0x374, sd_frame_index = 97, sd_part_count = 1,
      sd_width = 1, sd_is_signed = 0, sd_calibrated = 0, sd_scale = fp_lit 1 0, sd_offset = fp_lit 0 0\<rparr>,
    \<lparr>sd_stable_id = 0xee68999a6e900fd9, sd_name = ''AC_AQM_CO2_Den'', sd_unit = '''',
      sd_parts = [part_lit 4 11 5, part_lit 4 0 4],
      sd_invalid_signal_index = 4294967295, sd_can_id = 0x374, sd_frame_index = 97, sd_part_count = 2,
      sd_width = 9, sd_is_signed = 0, sd_calibrated = 0, sd_scale = fp_lit 1 0, sd_offset = fp_lit 0 0\<rparr>,
    \<lparr>sd_stable_id = 0xfcae31654857cb52, sd_name = ''AC_ION_POP_Req'', sd_unit = '''',
      sd_parts = [part_lit 4 10 1],
      sd_invalid_signal_index = 4294967295, sd_can_id = 0x374, sd_frame_index = 97, sd_part_count = 1,
      sd_width = 1, sd_is_signed = 0, sd_calibrated = 0, sd_scale = fp_lit 1 0, sd_offset = fp_lit 0 0\<rparr>,
    \<lparr>sd_stable_id = 0x65b893eb975a9228, sd_name = ''L_AFU_AirFragInitSts'', sd_unit = '''',
      sd_parts = [part_lit 4 8 2],
      sd_invalid_signal_index = 4294967295, sd_can_id = 0x374, sd_frame_index = 97, sd_part_count = 1,
      sd_width = 2, sd_is_signed = 0, sd_calibrated = 0, sd_scale = fp_lit 1 0, sd_offset = fp_lit 0 0\<rparr>,
    \<lparr>sd_stable_id = 0x6b9cbba1ddc0f7a7, sd_name = ''AC_AQM_CO2_Alarm'', sd_unit = '''',
      sd_parts = [part_lit 4 7 1],
      sd_invalid_signal_index = 4294967295, sd_can_id = 0x374, sd_frame_index = 97, sd_part_count = 1,
      sd_width = 1, sd_is_signed = 0, sd_calibrated = 0, sd_scale = fp_lit 1 0, sd_offset = fp_lit 0 0\<rparr>,
    \<lparr>sd_stable_id = 0xcd51218fa9c340f8, sd_name = ''AC_AQM_CO2_Level'', sd_unit = '''',
      sd_parts = [part_lit 4 4 3],
      sd_invalid_signal_index = 4294967295, sd_can_id = 0x374, sd_frame_index = 97, sd_part_count = 1,
      sd_width = 3, sd_is_signed = 0, sd_calibrated = 0, sd_scale = fp_lit 1 0, sd_offset = fp_lit 0 0\<rparr>,
    \<lparr>sd_stable_id = 0xefc2363d18642c38, sd_name = ''PAS_Buzzer_Alarm_Pattern'', sd_unit = '''',
      sd_parts = [part_lit 0 29 3],
      sd_invalid_signal_index = 4294967295, sd_can_id = 0x390, sd_frame_index = 99, sd_part_count = 1,
      sd_width = 3, sd_is_signed = 0, sd_calibrated = 0, sd_scale = fp_lit 1 0, sd_offset = fp_lit 0 0\<rparr>]"

lemma ROADCAST_SIGNALS_25_ok: "block_ok ROADCAST_CAN_IDS 815 250 10 ROADCAST_SIGNALS_25"
  by (simp add: ROADCAST_SIGNALS_25_def signal_eval)

definition ROADCAST_SIGNALS_26 :: "roadcast_signal_definition list" where
  "ROADCAST_SIGNALS_26 = [
    \<lparr>sd_stable_id = 0xa38472dbe1a1480c, sd_name = ''PAS_PDC_MODE'', sd_unit = '''',
      sd_parts = [part_lit 0 26 3],
      sd_invalid_signal_index = 4294967295, sd_can_id = 0x390, sd_frame_index = 99, sd_part_count = 1,
      sd_width = 3, sd_is_signed = 0, sd_calibrated = 0, sd_scale = fp_lit 1 0, sd_offset = fp_lit 0 0\<rparr>,
    \<lparr>sd_stable_id = 0xfe7f40fc3e094d12, sd_name = ''PAS_PDC_ButtonPress'', sd_unit = '''',
      sd_parts = [part_lit 0 25 1],
      sd_invalid_signal_index = 4294967295, sd_can_id = 0x390, sd_frame_index = 99, sd_part_count = 1,
      sd_width = 1, sd_is_signed = 0, sd_calibrated = 0, sd_scale = fp_lit 1 0, sd_offset = fp_lit 0 0\<rparr>,
    \<lparr>sd_stable_id = 0x5bb0f9c1dc5ee767, sd_name = ''PAS_ParkingWarningBeef'', sd_unit = '''',
      sd_parts = [part_lit 0 24 1],
      sd_invalid_signal_index = 4294967295, sd_can_id = 0x390, sd_frame_index = 99, sd_part_count = 1,
      sd_width = 1, sd_is_signed = 0, sd_calibrated = 0, sd_scale = fp_lit 1 0, sd_offset = fp_lit 0 0\<rparr>,
    \<lparr>sd_stable_id = 0x999ad511961310b3, sd_name = ''PAS_PDC_DISTANCE_FL'', sd_unit = '''',
      sd_parts = [part_lit 0 21 3],
      sd_invalid_signal_index = 4294967295, sd_can_id = 0x390, sd_frame_index = 99, sd_part_count = 1,
      sd_width = 3, sd_is_signed = 0, sd_calibrated = 0, sd_scale = fp_lit 1 0, sd_offset = fp_lit 0 0\<rparr>,
    \<lparr>sd_stable_id = 0x82d0aef9c2643f53, sd_name = ''PAS_PDC_Failure'', sd_unit = '''',
      sd_parts = [part_lit 0 19 2],
      sd_invalid_signal_index = 4294967295, sd_can_id = 0x390, sd_frame_index = 99, sd_part_count = 1,
      sd_width = 2, sd_is_signed = 0, sd_calibrated = 0, sd_scale = fp_lit 1 0, sd_offset = fp_lit 0 0\<rparr>,
    \<lparr>sd_stable_id = 0x1525a5e20262fe24, sd_name = ''PAS_PDC_DISTANCE_FML'', sd_unit = '''',
      sd_parts = [part_lit 0 16 3],
      sd_invalid_signal_index = 4294967295, sd_can_id = 0x390, sd_frame_index = 99, sd_part_count = 1,
      sd_width = 3, sd_is_signed = 0, sd_calibrated = 0, sd_scale = fp_lit 1 0, sd_offset = fp_lit 0 0\<rparr>,
    \<lparr>sd_stable_id = 0x1525abe202630856, sd_name = ''PAS_PDC_DISTANCE_FMR'', sd_unit = '''',
      sd_parts = [part_lit 0 13 3],
      sd_invalid_signal_index = 4294967295, sd_can_id = 0x390, sd_frame_index = 99, sd_part_count = 1,
      sd_width = 3, sd_is_signed = 0, sd_calibrated = 0, sd_scale = fp_lit 1 0, sd_offset = fp_lit 0 0\<rparr>,
    \<lparr>sd_stable_id = 0x999af311961343ad, sd_name = ''PAS_PDC_DISTANCE_FR'', sd_unit = '''',
      sd_parts = [part_lit 0 8 3],
      sd_invalid_signal_index = 4294967295, sd_can_id = 0x390, sd_frame_index = 99, sd_part_count = 1,
      sd_width = 3, sd_is_signed = 0, sd_calibrated = 0, sd_scale = fp_lit 1 0, sd_offset = fp_lit 0 0\<rparr>,
    \<lparr>sd_stable_id = 0x9956f51195d97a47, sd_name = ''PAS_PDC_DISTANCE_RL'', sd_unit = '''',
      sd_parts = [part_lit 0 5 3],
      sd_invalid_signal_index = 4294967295, sd_can_id = 0x390, sd_frame_index = 99, sd_part_count = 1,
      sd_width = 3, sd_is_signed = 0, sd_calibrated = 0, sd_scale = fp_lit 1 0, sd_offset = fp_lit 0 0\<rparr>,
    \<lparr>sd_stable_id = 0x683991e1a0885708, sd_name = ''PAS_PDC_DISTANCE_RML'', sd_unit = '''',
      sd_parts = [part_lit 0 0 3],
      sd_invalid_signal_index = 4294967295, sd_can_id = 0x390, sd_frame_index = 99, sd_part_count = 1,
      sd_width = 3, sd_is_signed = 0, sd_calibrated = 0, sd_scale = fp_lit 1 0, sd_offset = fp_lit 0 0\<rparr>]"

lemma ROADCAST_SIGNALS_26_ok: "block_ok ROADCAST_CAN_IDS 815 260 10 ROADCAST_SIGNALS_26"
  by (simp add: ROADCAST_SIGNALS_26_def signal_eval)

definition ROADCAST_SIGNALS_27 :: "roadcast_signal_definition list" where
  "ROADCAST_SIGNALS_27 = [
    \<lparr>sd_stable_id = 0x68397fe1a0883872, sd_name = ''PAS_PDC_DISTANCE_RMR'', sd_unit = '''',
      sd_parts = [part_lit 4 29 3],
      sd_invalid_signal_index = 4294967295, sd_can_id = 0x390, sd_frame_index = 99, sd_part_count = 1,
      sd_width = 3, sd_is_signed = 0, sd_calibrated = 0, sd_scale = fp_lit 1 0, sd_offset = fp_lit 0 0\<rparr>,
    \<lparr>sd_stable_id = 0x9956db1195d94e19, sd_name = ''PAS_PDC_DISTANCE_RR'', sd_unit = '''',
      sd_parts = [part_lit 4 24 3],
      sd_invalid_signal_index = 4294967295, sd_can_id = 0x390, sd_frame_index = 99, sd_part_count = 1,
      sd_width = 3, sd_is_signed = 0, sd_calibrated = 0, sd_scale = fp_lit 1 0, sd_offset = fp_lit 0 0\<rparr>,
    \<lparr>sd_stable_id = 0xbedf25e1d19e05d6, sd_name = ''PAS_PDC_DISTANCE_LSF'', sd_unit = '''',
      sd_parts = [part_lit 4 21 3],
      sd_invalid_signal_index = 4294967295, sd_can_id = 0x390, sd_frame_index = 99, sd_part_count = 1,
      sd_width = 3, sd_is_signed = 0, sd_calibrated = 0, sd_scale = fp_lit 1 0, sd_offset = fp_lit 0 0\<rparr>,
    \<lparr>sd_stable_id = 0x67e0abe1a03c5a60, sd_name = ''PAS_PDC_DISTANCE_RSF'', sd_unit = '''',
      sd_parts = [part_lit 4 18 3],
      sd_invalid_signal_index = 4294967295, sd_can_id = 0x390, sd_frame_index = 99, sd_part_count = 1,
      sd_width = 3, sd_is_signed = 0, sd_calibrated = 0, sd_scale = fp_lit 1 0, sd_offset = fp_lit 0 0\<rparr>,
    \<lparr>sd_stable_id = 0xbedf19e1d19df172, sd_name = ''PAS_PDC_DISTANCE_LSR'', sd_unit = '''',
      sd_parts = [part_lit 4 13 3],
      sd_invalid_signal_index = 4294967295, sd_can_id = 0x390, sd_frame_index = 99, sd_part_count = 1,
      sd_width = 3, sd_is_signed = 0, sd_calibrated = 0, sd_scale = fp_lit 1 0, sd_offset = fp_lit 0 0\<rparr>,
    \<lparr>sd_stable_id = 0x67e0bfe1a03c7c5c, sd_name = ''PAS_PDC_DISTANCE_RSR'', sd_unit = '''',
      sd_parts = [part_lit 4 10 3],
      sd_invalid_signal_index = 4294967295, sd_can_id = 0x390, sd_frame_index = 99, sd_part_count = 1,
      sd_width = 3, sd_is_signed = 0, sd_calibrated = 0, sd_scale = fp_lit 1 0, sd_offset = fp_lit 0 0\<rparr>,
    \<lparr>sd_stable_id = 0x355ac90c72dffd66, sd_name = ''ESC_RLWheelSpeedKPH'', sd_unit = ''km/h'',
      sd_parts = [part_lit 0 24 8, part_lit 0 16 5],
      sd_invalid_signal_index = 4294967295, sd_can_id = 0x123, sd_frame_index = 7, sd_part_count = 2,
      sd_width = 13, sd_is_signed = 0, sd_calibrated = 1, sd_scale = fp_lit 1 0, sd_offset = fp_lit 0 0\<rparr>,
    \<lparr>sd_stable_id = 0xee958c5874674f64, sd_name = ''ESC_RLWheelSpeedInvalid'', sd_unit = '''',
      sd_parts = [part_lit 0 23 1],
      sd_invalid_signal_index = 4294967295, sd_can_id = 0x123, sd_frame_index = 7, sd_part_count = 1,
      sd_width = 1, sd_is_signed = 0, sd_calibrated = 0, sd_scale = fp_lit 1 0, sd_offset = fp_lit 0 0\<rparr>,
    \<lparr>sd_stable_id = 0x2986e54cbf063563, sd_name = ''ESC_RLWheelDirection'', sd_unit = '''',
      sd_parts = [part_lit 0 21 2],
      sd_invalid_signal_index = 4294967295, sd_can_id = 0x123, sd_frame_index = 7, sd_part_count = 1,
      sd_width = 2, sd_is_signed = 0, sd_calibrated = 0, sd_scale = fp_lit 1 0, sd_offset = fp_lit 0 0\<rparr>,
    \<lparr>sd_stable_id = 0xa100bb18c6b1d920, sd_name = ''ESC_RRWheelSpeedKPH'', sd_unit = ''km/h'',
      sd_parts = [part_lit 0 8 8, part_lit 0 0 5],
      sd_invalid_signal_index = 4294967295, sd_can_id = 0x123, sd_frame_index = 7, sd_part_count = 2,
      sd_width = 13, sd_is_signed = 0, sd_calibrated = 1, sd_scale = fp_lit 1 0, sd_offset = fp_lit 0 0\<rparr>]"

lemma ROADCAST_SIGNALS_27_ok: "block_ok ROADCAST_CAN_IDS 815 270 10 ROADCAST_SIGNALS_27"
  by (simp add: ROADCAST_SIGNALS_27_def signal_eval)

definition ROADCAST_SIGNALS_28 :: "roadcast_signal_definition list" where
  "ROADCAST_SIGNALS_28 = [
    \<lparr>sd_stable_id = 0xf7bb24867bff7b02, sd_name = ''ESC_RRWheelSpeedInvalid'', sd_unit = '''',
      sd_parts = [part_lit 0 7 1],
      sd_invalid_signal_index = 4294967295, sd_can_id = 0x123, sd_frame_index = 7, sd_part_count = 1,
      sd_width = 1, sd_is_signed = 0, sd_calibrated = 0, sd_scale = fp_lit 1 0, sd_offset = fp_lit 0 0\<rparr>,
    \<lparr>sd_stable_id = 0xece0b7e2a8055269, sd_name = ''ESC_RRWheelDirection'', sd_unit = '''',
      sd_parts = [part_lit 0 5 2],
      sd_invalid_signal_index = 4294967295, sd_can_id = 0x123, sd_frame_index = 7, sd_part_count = 1,
      sd_width = 2, sd_is_signed = 0, sd_calibrated = 0, sd_scale = fp_lit 1 0, sd_offset = fp_lit 0 0\<rparr>,
    \<lparr>sd_stable_id = 0xe73f0ea95232af0f, sd_name = ''ESC_RearWheelSpeedsKPH_AliveCounter'', sd_unit = '''',
      sd_parts = [part_lit 4 12 4],
      sd_invalid_signal_index = 4294967295, sd_can_id = 0x123, sd_frame_index = 7, sd_part_count = 1,
      sd_width = 4, sd_is_signed = 0, sd_calibrated = 0, sd_scale = fp_lit 1 0, sd_offset = fp_lit 0 0\<rparr>,
    \<lparr>sd_stable_id = 0xbdf3d74c6e9daf33, sd_name = ''ESC_HDC_Switch_Available'', sd_unit = '''',
      sd_parts = [part_lit 4 11 1],
      sd_invalid_signal_index = 4294967295, sd_can_id = 0x123, sd_frame_index = 7, sd_part_count = 1,
      sd_width = 1, sd_is_signed = 0, sd_calibrated = 0, sd_scale = fp_lit 1 0, sd_offset = fp_lit 0 0\<rparr>,
    \<lparr>sd_stable_id = 0x5b1372b62454a93f, sd_name = ''ESC_AVH_Switch_available'', sd_unit = '''',
      sd_parts = [part_lit 4 10 1],
      sd_invalid_signal_index = 4294967295, sd_can_id = 0x123, sd_frame_index = 7, sd_part_count = 1,
      sd_width = 1, sd_is_signed = 0, sd_calibrated = 0, sd_scale = fp_lit 1 0, sd_offset = fp_lit 0 0\<rparr>,
    \<lparr>sd_stable_id = 0xb0177b144d7dcb3a, sd_name = ''ESC_Autohold_SwitchSta'', sd_unit = '''',
      sd_parts = [part_lit 4 9 1],
      sd_invalid_signal_index = 4294967295, sd_can_id = 0x123, sd_frame_index = 7, sd_part_count = 1,
      sd_width = 1, sd_is_signed = 0, sd_calibrated = 0, sd_scale = fp_lit 1 0, sd_offset = fp_lit 0 0\<rparr>,
    \<lparr>sd_stable_id = 0x434af3353401ec83, sd_name = ''ESC_RearWheelSpeedsKPH_Checksum'', sd_unit = '''',
      sd_parts = [part_lit 4 0 8],
      sd_invalid_signal_index = 4294967295, sd_can_id = 0x123, sd_frame_index = 7, sd_part_count = 1,
      sd_width = 8, sd_is_signed = 0, sd_calibrated = 0, sd_scale = fp_lit 1 0, sd_offset = fp_lit 0 0\<rparr>,
    \<lparr>sd_stable_id = 0xf23babad9199ce93, sd_name = ''ESC_FLWheelSpeedRC'', sd_unit = '''',
      sd_parts = [part_lit 0 24 8, part_lit 0 16 4],
      sd_invalid_signal_index = 4294967295, sd_can_id = 0x124, sd_frame_index = 8, sd_part_count = 2,
      sd_width = 12, sd_is_signed = 0, sd_calibrated = 0, sd_scale = fp_lit 1 0, sd_offset = fp_lit 0 0\<rparr>,
    \<lparr>sd_stable_id = 0x1cdd6b2b3eade8d9, sd_name = ''ESC_FRWheelSpeedRC'', sd_unit = '''',
      sd_parts = [part_lit 0 20 4, part_lit 0 8 8],
      sd_invalid_signal_index = 4294967295, sd_can_id = 0x124, sd_frame_index = 8, sd_part_count = 2,
      sd_width = 12, sd_is_signed = 0, sd_calibrated = 0, sd_scale = fp_lit 1 0, sd_offset = fp_lit 0 0\<rparr>,
    \<lparr>sd_stable_id = 0x3a0cff69ae319a9f, sd_name = ''ESC_RLWheelSpeedRC'', sd_unit = '''',
      sd_parts = [part_lit 0 0 8, part_lit 4 24 4],
      sd_invalid_signal_index = 4294967295, sd_can_id = 0x124, sd_frame_index = 8, sd_part_count = 2,
      sd_width = 12, sd_is_signed = 0, sd_calibrated = 0, sd_scale = fp_lit 1 0, sd_offset = fp_lit 0 0\<rparr>]"

lemma ROADCAST_SIGNALS_28_ok: "block_ok ROADCAST_CAN_IDS 815 280 10 ROADCAST_SIGNALS_28"
  by (simp add: ROADCAST_SIGNALS_28_def signal_eval)

definition ROADCAST_SIGNALS_29 :: "roadcast_signal_definition list" where
  "ROADCAST_SIGNALS_29 = [
    \<lparr>sd_stable_id = 0x356109d9176a1e2d, sd_name = ''ESC_RRWheelSpeedRC'', sd_unit = '''',
      sd_parts = [part_lit 4 28 4, part_lit 4 16 8],
      sd_invalid_signal_index = 4294967295, sd_can_id = 0x124, sd_frame_index = 8, sd_part_count = 2,
      sd_width = 12, sd_is_signed = 0, sd_calibrated = 0, sd_scale = fp_lit 1 0, sd_offset = fp_lit 0 0\<rparr>,
    \<lparr>sd_stable_id = 0x0503f76b6bfca7dd, sd_name = ''ESC_FLWheelSpeedRCSts'', sd_unit = '''',
      sd_parts = [part_lit 4 15 1],
      sd_invalid_signal_index = 4294967295, sd_can_id = 0x124, sd_frame_index = 8, sd_part_count = 1,
      sd_width = 1, sd_is_signed = 0, sd_calibrated = 0, sd_scale = fp_lit 1 0, sd_offset = fp_lit 0 0\<rparr>,
    \<lparr>sd_stable_id = 0xb98569a266199197, sd_name = ''ESC_FRWheelSpeedRCSts'', sd_unit = '''',
      sd_parts = [part_lit 4 14 1],
      sd_invalid_signal_index = 4294967295, sd_can_id = 0x124, sd_frame_index = 8, sd_part_count = 1,
      sd_width = 1, sd_is_signed = 0, sd_calibrated = 0, sd_scale = fp_lit 1 0, sd_offset = fp_lit 0 0\<rparr>,
    \<lparr>sd_stable_id = 0x31cf8a9a714b2019, sd_name = ''ESC_RLWheelSpeedRCSts'', sd_unit = '''',
      sd_parts = [part_lit 4 13 1],
      sd_invalid_signal_index = 4294967295, sd_can_id = 0x124, sd_frame_index = 8, sd_part_count = 1,
      sd_width = 1, sd_is_signed = 0, sd_calibrated = 0, sd_scale = fp_lit 1 0, sd_offset = fp_lit 0 0\<rparr>,
    \<lparr>sd_stable_id = 0x45ca73796ac761fb, sd_name = ''ESC_RRWheelSpeedRCSts'', sd_unit = '''',
      sd_parts = [part_lit 4 12 1],
      sd_invalid_signal_index = 4294967295, sd_can_id = 0x124, sd_frame_index = 8, sd_part_count = 1,
      sd_width = 1, sd_is_signed = 0, sd_calibrated = 0, sd_scale = fp_lit 1 0, sd_offset = fp_lit 0 0\<rparr>,
    \<lparr>sd_stable_id = 0x2e0120f0b1ff97de, sd_name = ''ESC_WheelSpeedsRC_AliveCounter'', sd_unit = '''',
      sd_parts = [part_lit 4 8 4],
      sd_invalid_signal_index = 4294967295, sd_can_id = 0x124, sd_frame_index = 8, sd_part_count = 1,
      sd_width = 4, sd_is_signed = 0, sd_calibrated = 0, sd_scale = fp_lit 1 0, sd_offset = fp_lit 0 0\<rparr>,
    \<lparr>sd_stable_id = 0x2f3c49759eda7dba, sd_name = ''ESC_WheelSpeedsRC_Checksum'', sd_unit = '''',
      sd_parts = [part_lit 4 0 8],
      sd_invalid_signal_index = 4294967295, sd_can_id = 0x124, sd_frame_index = 8, sd_part_count = 1,
      sd_width = 8, sd_is_signed = 0, sd_calibrated = 0, sd_scale = fp_lit 1 0, sd_offset = fp_lit 0 0\<rparr>,
    \<lparr>sd_stable_id = 0xdce641139bfb4963, sd_name = ''IPK_AverageFuelConsumptionOneCycel'', sd_unit = '''',
      sd_parts = [part_lit 0 23 1, part_lit 0 8 8],
      sd_invalid_signal_index = 4294967295, sd_can_id = 0x3F6, sd_frame_index = 104, sd_part_count = 2,
      sd_width = 9, sd_is_signed = 0, sd_calibrated = 0, sd_scale = fp_lit 1 0, sd_offset = fp_lit 0 0\<rparr>,
    \<lparr>sd_stable_id = 0xebb18a918f345211, sd_name = ''IPK_DayToSrv'', sd_unit = '''',
      sd_parts = [part_lit 4 24 8, part_lit 4 16 1],
      sd_invalid_signal_index = 4294967295, sd_can_id = 0x3F6, sd_frame_index = 104, sd_part_count = 2,
      sd_width = 9, sd_is_signed = 0, sd_calibrated = 0, sd_scale = fp_lit 1 0, sd_offset = fp_lit 0 0\<rparr>,
    \<lparr>sd_stable_id = 0x9b89a6b0cf671362, sd_name = ''HUD_HUDAciveResp'', sd_unit = '''',
      sd_parts = [part_lit 0 31 1],
      sd_invalid_signal_index = 4294967295, sd_can_id = 0x2CA, sd_frame_index = 77, sd_part_count = 1,
      sd_width = 1, sd_is_signed = 0, sd_calibrated = 0, sd_scale = fp_lit 1 0, sd_offset = fp_lit 0 0\<rparr>]"

lemma ROADCAST_SIGNALS_29_ok: "block_ok ROADCAST_CAN_IDS 815 290 10 ROADCAST_SIGNALS_29"
  by (simp add: ROADCAST_SIGNALS_29_def signal_eval)

definition ROADCAST_SIGNALS_30 :: "roadcast_signal_definition list" where
  "ROADCAST_SIGNALS_30 = [
    \<lparr>sd_stable_id = 0x3264f790e04ac9de, sd_name = ''HUD_SystemStatus'', sd_unit = '''',
      sd_parts = [part_lit 0 29 2],
      sd_invalid_signal_index = 4294967295, sd_can_id = 0x2CA, sd_frame_index = 77, sd_part_count = 1,
      sd_width = 2, sd_is_signed = 0, sd_calibrated = 0, sd_scale = fp_lit 1 0, sd_offset = fp_lit 0 0\<rparr>,
    \<lparr>sd_stable_id = 0x7970b5da07401969, sd_name = ''HUD_SnowingModeActResp'', sd_unit = '''',
      sd_parts = [part_lit 0 28 1],
      sd_invalid_signal_index = 4294967295, sd_can_id = 0x2CA, sd_frame_index = 77, sd_part_count = 1,
      sd_width = 1, sd_is_signed = 0, sd_calibrated = 0, sd_scale = fp_lit 1 0, sd_offset = fp_lit 0 0\<rparr>,
    \<lparr>sd_stable_id = 0x528499ef7ffe2c25, sd_name = ''HUD_SafetyInfoDispResp'', sd_unit = '''',
      sd_parts = [part_lit 0 27 1],
      sd_invalid_signal_index = 4294967295, sd_can_id = 0x2CA, sd_frame_index = 77, sd_part_count = 1,
      sd_width = 1, sd_is_signed = 0, sd_calibrated = 0, sd_scale = fp_lit 1 0, sd_offset = fp_lit 0 0\<rparr>,
    \<lparr>sd_stable_id = 0x1b40e50b93ff1ba7, sd_name = ''HUD_NaviInfoDispResp'', sd_unit = '''',
      sd_parts = [part_lit 0 26 1],
      sd_invalid_signal_index = 4294967295, sd_can_id = 0x2CA, sd_frame_index = 77, sd_part_count = 1,
      sd_width = 1, sd_is_signed = 0, sd_calibrated = 0, sd_scale = fp_lit 1 0, sd_offset = fp_lit 0 0\<rparr>,
    \<lparr>sd_stable_id = 0x56a93503006dd8a9, sd_name = ''HUD_BTInfoDispResp'', sd_unit = '''',
      sd_parts = [part_lit 0 25 1],
      sd_invalid_signal_index = 4294967295, sd_can_id = 0x2CA, sd_frame_index = 77, sd_part_count = 1,
      sd_width = 1, sd_is_signed = 0, sd_calibrated = 0, sd_scale = fp_lit 1 0, sd_offset = fp_lit 0 0\<rparr>,
    \<lparr>sd_stable_id = 0xd0f6c701ecc32505, sd_name = ''HUD_SetButtonStatus'', sd_unit = '''',
      sd_parts = [part_lit 0 24 1],
      sd_invalid_signal_index = 4294967295, sd_can_id = 0x2CA, sd_frame_index = 77, sd_part_count = 1,
      sd_width = 1, sd_is_signed = 0, sd_calibrated = 0, sd_scale = fp_lit 1 0, sd_offset = fp_lit 0 0\<rparr>,
    \<lparr>sd_stable_id = 0xd5124c783cf5c80d, sd_name = ''HUD_UserIDSavingPopUp'', sd_unit = '''',
      sd_parts = [part_lit 0 7 1],
      sd_invalid_signal_index = 4294967295, sd_can_id = 0x2CA, sd_frame_index = 77, sd_part_count = 1,
      sd_width = 1, sd_is_signed = 0, sd_calibrated = 0, sd_scale = fp_lit 1 0, sd_offset = fp_lit 0 0\<rparr>,
    \<lparr>sd_stable_id = 0x872b29ae516e510e, sd_name = ''HUD_HUDVehDrvgDispResp'', sd_unit = '''',
      sd_parts = [part_lit 4 29 1],
      sd_invalid_signal_index = 4294967295, sd_can_id = 0x2CA, sd_frame_index = 77, sd_part_count = 1,
      sd_width = 1, sd_is_signed = 0, sd_calibrated = 0, sd_scale = fp_lit 1 0, sd_offset = fp_lit 0 0\<rparr>,
    \<lparr>sd_stable_id = 0x5569282d2428648e, sd_name = ''FCS_ALAD_SwitchStatus'', sd_unit = '''',
      sd_parts = [part_lit 0 18 1],
      sd_invalid_signal_index = 4294967295, sd_can_id = 0x1B0, sd_frame_index = 29, sd_part_count = 1,
      sd_width = 1, sd_is_signed = 0, sd_calibrated = 0, sd_scale = fp_lit 1 0, sd_offset = fp_lit 0 0\<rparr>,
    \<lparr>sd_stable_id = 0x2805913a71ba7150, sd_name = ''FCS_ALAD_Type'', sd_unit = '''',
      sd_parts = [part_lit 0 10 3],
      sd_invalid_signal_index = 4294967295, sd_can_id = 0x1B0, sd_frame_index = 29, sd_part_count = 1,
      sd_width = 3, sd_is_signed = 0, sd_calibrated = 0, sd_scale = fp_lit 1 0, sd_offset = fp_lit 0 0\<rparr>]"

lemma ROADCAST_SIGNALS_30_ok: "block_ok ROADCAST_CAN_IDS 815 300 10 ROADCAST_SIGNALS_30"
  by (simp add: ROADCAST_SIGNALS_30_def signal_eval)

definition ROADCAST_SIGNALS_31 :: "roadcast_signal_definition list" where
  "ROADCAST_SIGNALS_31 = [
    \<lparr>sd_stable_id = 0xdd409198f7f3917a, sd_name = ''FCS_ALAD_Status'', sd_unit = '''',
      sd_parts = [part_lit 0 4 4],
      sd_invalid_signal_index = 4294967295, sd_can_id = 0x1B0, sd_frame_index = 29, sd_part_count = 1,
      sd_width = 4, sd_is_signed = 0, sd_calibrated = 0, sd_scale = fp_lit 1 0, sd_offset = fp_lit 0 0\<rparr>,
    \<lparr>sd_stable_id = 0x15af77e1ccf9ef74, sd_name = ''FCS_FCS_Status'', sd_unit = '''',
      sd_parts = [part_lit 4 30 2],
      sd_invalid_signal_index = 4294967295, sd_can_id = 0x1B0, sd_frame_index = 29, sd_part_count = 1,
      sd_width = 2, sd_is_signed = 0, sd_calibrated = 0, sd_scale = fp_lit 1 0, sd_offset = fp_lit 0 0\<rparr>,
    \<lparr>sd_stable_id = 0xa9dfa4649e440625, sd_name = ''PAS_AVP_RP_VideoTranCtrlReq'', sd_unit = '''',
      sd_parts = [part_lit 0 27 1],
      sd_invalid_signal_index = 4294967295, sd_can_id = 0x299, sd_frame_index = 63, sd_part_count = 1,
      sd_width = 1, sd_is_signed = 0, sd_calibrated = 0, sd_scale = fp_lit 1 0, sd_offset = fp_lit 0 0\<rparr>,
    \<lparr>sd_stable_id = 0x55fa6b69f8d023f6, sd_name = ''PDC_StopDisplayRequest_Rear'', sd_unit = '''',
      sd_parts = [part_lit 0 26 1],
      sd_invalid_signal_index = 4294967295, sd_can_id = 0x299, sd_frame_index = 63, sd_part_count = 1,
      sd_width = 1, sd_is_signed = 0, sd_calibrated = 0, sd_scale = fp_lit 1 0, sd_offset = fp_lit 0 0\<rparr>,
    \<lparr>sd_stable_id = 0x5b40d1e54bdfc22f, sd_name = ''PDC_StopDisplayRequest_Front'', sd_unit = '''',
      sd_parts = [part_lit 0 25 1],
      sd_invalid_signal_index = 4294967295, sd_can_id = 0x299, sd_frame_index = 63, sd_part_count = 1,
      sd_width = 1, sd_is_signed = 0, sd_calibrated = 0, sd_scale = fp_lit 1 0, sd_offset = fp_lit 0 0\<rparr>,
    \<lparr>sd_stable_id = 0xf36bb6de72700784, sd_name = ''PDC_NearestDistance_Rear'', sd_unit = '''',
      sd_parts = [part_lit 0 16 8, part_lit 0 8 1],
      sd_invalid_signal_index = 4294967295, sd_can_id = 0x299, sd_frame_index = 63, sd_part_count = 2,
      sd_width = 9, sd_is_signed = 0, sd_calibrated = 0, sd_scale = fp_lit 1 0, sd_offset = fp_lit 0 0\<rparr>,
    \<lparr>sd_stable_id = 0xe76943b43ecd48b1, sd_name = ''PDC_NearestDistance_Front'', sd_unit = '''',
      sd_parts = [part_lit 0 0 8, part_lit 4 24 1],
      sd_invalid_signal_index = 4294967295, sd_can_id = 0x299, sd_frame_index = 63, sd_part_count = 2,
      sd_width = 9, sd_is_signed = 0, sd_calibrated = 0, sd_scale = fp_lit 1 0, sd_offset = fp_lit 0 0\<rparr>,
    \<lparr>sd_stable_id = 0xca33819a21ed5921, sd_name = ''FCS_IHBC_Status'', sd_unit = '''',
      sd_parts = [part_lit 0 29 3],
      sd_invalid_signal_index = 4294967295, sd_can_id = 0x2E0, sd_frame_index = 82, sd_part_count = 1,
      sd_width = 3, sd_is_signed = 0, sd_calibrated = 0, sd_scale = fp_lit 1 0, sd_offset = fp_lit 0 0\<rparr>,
    \<lparr>sd_stable_id = 0x1c345631c5df3a17, sd_name = ''FCS_IHBC_Switch'', sd_unit = '''',
      sd_parts = [part_lit 0 26 2],
      sd_invalid_signal_index = 4294967295, sd_can_id = 0x2E0, sd_frame_index = 82, sd_part_count = 1,
      sd_width = 2, sd_is_signed = 0, sd_calibrated = 0, sd_scale = fp_lit 1 0, sd_offset = fp_lit 0 0\<rparr>,
    \<lparr>sd_stable_id = 0xdef2afad235e71c1, sd_name = ''FCS_SLIF_Switch'', sd_unit = '''',
      sd_parts = [part_lit 0 24 2],
      sd_invalid_signal_index = 4294967295, sd_can_id = 0x2E0, sd_frame_index = 82, sd_part_count = 1,
      sd_width = 2, sd_is_signed = 0, sd_calibrated = 0, sd_scale = fp_lit 1 0, sd_offset = fp_lit 0 0\<rparr>]"

lemma ROADCAST_SIGNALS_31_ok: "block_ok ROADCAST_CAN_IDS 815 310 10 ROADCAST_SIGNALS_31"
  by (simp add: ROADCAST_SIGNALS_31_def signal_eval)

definition ROADCAST_SIGNALS_32 :: "roadcast_signal_definition list" where
  "ROADCAST_SIGNALS_32 = [
    \<lparr>sd_stable_id = 0x0a2a1abc1e98e648, sd_name = ''FCS_Sign_Speedlimit'', sd_unit = '''',
      sd_parts = [part_lit 0 16 8],
      sd_invalid_signal_index = 4294967295, sd_can_id = 0x2E0, sd_frame_index = 82, sd_part_count = 1,
      sd_width = 8, sd_is_signed = 0, sd_calibrated = 0, sd_scale = fp_lit 1 0, sd_offset = fp_lit 0 0\<rparr>,
    \<lparr>sd_stable_id = 0x03e075feaa0c2ebf, sd_name = ''FCS_SLIF_Status'', sd_unit = '''',
      sd_parts = [part_lit 0 8 3],
      sd_invalid_signal_index = 4294967295, sd_can_id = 0x2E0, sd_frame_index = 82, sd_part_count = 1,
      sd_width = 3, sd_is_signed = 0, sd_calibrated = 0, sd_scale = fp_lit 1 0, sd_offset = fp_lit 0 0\<rparr>,
    \<lparr>sd_stable_id = 0x30b12976a52a4db8, sd_name = ''FCS_SLIF_WarningMode'', sd_unit = '''',
      sd_parts = [part_lit 0 6 2],
      sd_invalid_signal_index = 4294967295, sd_can_id = 0x2E0, sd_frame_index = 82, sd_part_count = 1,
      sd_width = 2, sd_is_signed = 0, sd_calibrated = 0, sd_scale = fp_lit 1 0, sd_offset = fp_lit 0 0\<rparr>,
    \<lparr>sd_stable_id = 0xef9aa7df8785569f, sd_name = ''FCS_SLIF_Warning'', sd_unit = '''',
      sd_parts = [part_lit 0 5 1],
      sd_invalid_signal_index = 4294967295, sd_can_id = 0x2E0, sd_frame_index = 82, sd_part_count = 1,
      sd_width = 1, sd_is_signed = 0, sd_calibrated = 0, sd_scale = fp_lit 1 0, sd_offset = fp_lit 0 0\<rparr>,
    \<lparr>sd_stable_id = 0x1fd59ef32d39d17f, sd_name = ''FCS_SLIF_WarningSwitch'', sd_unit = '''',
      sd_parts = [part_lit 0 3 2],
      sd_invalid_signal_index = 4294967295, sd_can_id = 0x2E0, sd_frame_index = 82, sd_part_count = 1,
      sd_width = 2, sd_is_signed = 0, sd_calibrated = 0, sd_scale = fp_lit 1 0, sd_offset = fp_lit 0 0\<rparr>,
    \<lparr>sd_stable_id = 0x7a128d1ba33d8324, sd_name = ''FCS_SLIF_WarningOffset'', sd_unit = '''',
      sd_parts = [part_lit 4 9 3],
      sd_invalid_signal_index = 4294967295, sd_can_id = 0x2E0, sd_frame_index = 82, sd_part_count = 1,
      sd_width = 3, sd_is_signed = 0, sd_calibrated = 0, sd_scale = fp_lit 1 0, sd_offset = fp_lit 0 0\<rparr>,
    \<lparr>sd_stable_id = 0xebc7a14d76cf3d37, sd_name = ''FCS_SLIF_MiscSts'', sd_unit = '''',
      sd_parts = [part_lit 4 8 1],
      sd_invalid_signal_index = 4294967295, sd_can_id = 0x2E0, sd_frame_index = 82, sd_part_count = 1,
      sd_width = 1, sd_is_signed = 0, sd_calibrated = 0, sd_scale = fp_lit 1 0, sd_offset = fp_lit 0 0\<rparr>,
    \<lparr>sd_stable_id = 0x4a3a9a72d4b6a24d, sd_name = ''RSRS_SystemStatus'', sd_unit = '''',
      sd_parts = [part_lit 0 30 2],
      sd_invalid_signal_index = 4294967295, sd_can_id = 0x2E4, sd_frame_index = 84, sd_part_count = 1,
      sd_width = 2, sd_is_signed = 0, sd_calibrated = 0, sd_scale = fp_lit 1 0, sd_offset = fp_lit 0 0\<rparr>,
    \<lparr>sd_stable_id = 0xa7db4156dffa4295, sd_name = ''RSRS_LCA_Status'', sd_unit = '''',
      sd_parts = [part_lit 0 28 2],
      sd_invalid_signal_index = 4294967295, sd_can_id = 0x2E4, sd_frame_index = 84, sd_part_count = 1,
      sd_width = 2, sd_is_signed = 0, sd_calibrated = 0, sd_scale = fp_lit 1 0, sd_offset = fp_lit 0 0\<rparr>,
    \<lparr>sd_stable_id = 0xefdbdf0fbb3ca671, sd_name = ''RSRS_RCTA_Status'', sd_unit = '''',
      sd_parts = [part_lit 0 26 2],
      sd_invalid_signal_index = 4294967295, sd_can_id = 0x2E4, sd_frame_index = 84, sd_part_count = 1,
      sd_width = 2, sd_is_signed = 0, sd_calibrated = 0, sd_scale = fp_lit 1 0, sd_offset = fp_lit 0 0\<rparr>]"

lemma ROADCAST_SIGNALS_32_ok: "block_ok ROADCAST_CAN_IDS 815 320 10 ROADCAST_SIGNALS_32"
  by (simp add: ROADCAST_SIGNALS_32_def signal_eval)

definition ROADCAST_SIGNALS_33 :: "roadcast_signal_definition list" where
  "ROADCAST_SIGNALS_33 = [
    \<lparr>sd_stable_id = 0xc8fa38cea224c359, sd_name = ''RSRS_RCW_Status'', sd_unit = '''',
      sd_parts = [part_lit 0 24 2],
      sd_invalid_signal_index = 4294967295, sd_can_id = 0x2E4, sd_frame_index = 84, sd_part_count = 1,
      sd_width = 2, sd_is_signed = 0, sd_calibrated = 0, sd_scale = fp_lit 1 0, sd_offset = fp_lit 0 0\<rparr>,
    \<lparr>sd_stable_id = 0x52b7815e4ff825f0, sd_name = ''RSRS_LCA_WarningLeft'', sd_unit = '''',
      sd_parts = [part_lit 0 22 2],
      sd_invalid_signal_index = 4294967295, sd_can_id = 0x2E4, sd_frame_index = 84, sd_part_count = 1,
      sd_width = 2, sd_is_signed = 0, sd_calibrated = 0, sd_scale = fp_lit 1 0, sd_offset = fp_lit 0 0\<rparr>,
    \<lparr>sd_stable_id = 0x9b60cee1227c4745, sd_name = ''RSRS_LCA_WarningRight'', sd_unit = '''',
      sd_parts = [part_lit 0 20 2],
      sd_invalid_signal_index = 4294967295, sd_can_id = 0x2E4, sd_frame_index = 84, sd_part_count = 1,
      sd_width = 2, sd_is_signed = 0, sd_calibrated = 0, sd_scale = fp_lit 1 0, sd_offset = fp_lit 0 0\<rparr>,
    \<lparr>sd_stable_id = 0x205190a4b51f41cc, sd_name = ''RSRS_RCTA_WarningLeft'', sd_unit = '''',
      sd_parts = [part_lit 0 19 1],
      sd_invalid_signal_index = 4294967295, sd_can_id = 0x2E4, sd_frame_index = 84, sd_part_count = 1,
      sd_width = 1, sd_is_signed = 0, sd_calibrated = 0, sd_scale = fp_lit 1 0, sd_offset = fp_lit 0 0\<rparr>,
    \<lparr>sd_stable_id = 0xf4d535900c46eab9, sd_name = ''RSRS_RCTA_WarningRight'', sd_unit = '''',
      sd_parts = [part_lit 0 18 1],
      sd_invalid_signal_index = 4294967295, sd_can_id = 0x2E4, sd_frame_index = 84, sd_part_count = 1,
      sd_width = 1, sd_is_signed = 0, sd_calibrated = 0, sd_scale = fp_lit 1 0, sd_offset = fp_lit 0 0\<rparr>,
    \<lparr>sd_stable_id = 0xc9044734f44bc6d7, sd_name = ''RSRS_DOW_Status'', sd_unit = '''',
      sd_parts = [part_lit 0 14 2],
      sd_invalid_signal_index = 4294967295, sd_can_id = 0x2E4, sd_frame_index = 84, sd_part_count = 1,
      sd_width = 2, sd_is_signed = 0, sd_calibrated = 0, sd_scale = fp_lit 1 0, sd_offset = fp_lit 0 0\<rparr>,
    \<lparr>sd_stable_id = 0x9fce1269c965485e, sd_name = ''RSRS_DOW_WarningLeft'', sd_unit = '''',
      sd_parts = [part_lit 0 12 2],
      sd_invalid_signal_index = 4294967295, sd_can_id = 0x2E4, sd_frame_index = 84, sd_part_count = 1,
      sd_width = 2, sd_is_signed = 0, sd_calibrated = 0, sd_scale = fp_lit 1 0, sd_offset = fp_lit 0 0\<rparr>,
    \<lparr>sd_stable_id = 0x59ea4cb545b4a7d3, sd_name = ''RSRS_DOW_WarningRight'', sd_unit = '''',
      sd_parts = [part_lit 0 10 2],
      sd_invalid_signal_index = 4294967295, sd_can_id = 0x2E4, sd_frame_index = 84, sd_part_count = 1,
      sd_width = 2, sd_is_signed = 0, sd_calibrated = 0, sd_scale = fp_lit 1 0, sd_offset = fp_lit 0 0\<rparr>,
    \<lparr>sd_stable_id = 0x362d72ebb44e400f, sd_name = ''RSRS_LCA_AudioSwitch'', sd_unit = '''',
      sd_parts = [part_lit 0 9 1],
      sd_invalid_signal_index = 4294967295, sd_can_id = 0x2E4, sd_frame_index = 84, sd_part_count = 1,
      sd_width = 1, sd_is_signed = 0, sd_calibrated = 0, sd_scale = fp_lit 1 0, sd_offset = fp_lit 0 0\<rparr>,
    \<lparr>sd_stable_id = 0x8413086be5919e62, sd_name = ''FCS_ELK_SwitchStatus'', sd_unit = '''',
      sd_parts = [part_lit 0 31 1],
      sd_invalid_signal_index = 4294967295, sd_can_id = 0x114, sd_frame_index = 5, sd_part_count = 1,
      sd_width = 1, sd_is_signed = 0, sd_calibrated = 0, sd_scale = fp_lit 1 0, sd_offset = fp_lit 0 0\<rparr>]"

lemma ROADCAST_SIGNALS_33_ok: "block_ok ROADCAST_CAN_IDS 815 330 10 ROADCAST_SIGNALS_33"
  by (simp add: ROADCAST_SIGNALS_33_def signal_eval)

definition ROADCAST_SIGNALS_34 :: "roadcast_signal_definition list" where
  "ROADCAST_SIGNALS_34 = [
    \<lparr>sd_stable_id = 0x7e23a7673144617e, sd_name = ''FCS_ELK_Status'', sd_unit = '''',
      sd_parts = [part_lit 0 27 3],
      sd_invalid_signal_index = 4294967295, sd_can_id = 0x114, sd_frame_index = 5, sd_part_count = 1,
      sd_width = 3, sd_is_signed = 0, sd_calibrated = 0, sd_scale = fp_lit 1 0, sd_offset = fp_lit 0 0\<rparr>,
    \<lparr>sd_stable_id = 0xa22aa37abd1b9dad, sd_name = ''FRS_AEB_WarningType'', sd_unit = '''',
      sd_parts = [part_lit 0 0 2],
      sd_invalid_signal_index = 4294967295, sd_can_id = 0x1A2, sd_frame_index = 25, sd_part_count = 1,
      sd_width = 2, sd_is_signed = 0, sd_calibrated = 0, sd_scale = fp_lit 1 0, sd_offset = fp_lit 0 0\<rparr>,
    \<lparr>sd_stable_id = 0xba960eae497303f3, sd_name = ''FRS_AEB_Switch'', sd_unit = '''',
      sd_parts = [part_lit 4 22 2],
      sd_invalid_signal_index = 4294967295, sd_can_id = 0x1A2, sd_frame_index = 25, sd_part_count = 1,
      sd_width = 2, sd_is_signed = 0, sd_calibrated = 0, sd_scale = fp_lit 1 0, sd_offset = fp_lit 0 0\<rparr>,
    \<lparr>sd_stable_id = 0xc41c31bb877fdcd5, sd_name = ''FRS_AEB_Status'', sd_unit = '''',
      sd_parts = [part_lit 4 19 3],
      sd_invalid_signal_index = 4294967295, sd_can_id = 0x1A2, sd_frame_index = 25, sd_part_count = 1,
      sd_width = 3, sd_is_signed = 0, sd_calibrated = 0, sd_scale = fp_lit 1 0, sd_offset = fp_lit 0 0\<rparr>,
    \<lparr>sd_stable_id = 0x17065e6340b15a65, sd_name = ''FRS_AEB_FCWSenlevel'', sd_unit = '''',
      sd_parts = [part_lit 4 14 2],
      sd_invalid_signal_index = 4294967295, sd_can_id = 0x1A2, sd_frame_index = 25, sd_part_count = 1,
      sd_width = 2, sd_is_signed = 0, sd_calibrated = 0, sd_scale = fp_lit 1 0, sd_offset = fp_lit 0 0\<rparr>,
    \<lparr>sd_stable_id = 0xbf27e5e84a528dce, sd_name = ''FRS_ALOD_SLIF_Response'', sd_unit = '''',
      sd_parts = [part_lit 0 16 1],
      sd_invalid_signal_index = 4294967295, sd_can_id = 0x1A3, sd_frame_index = 26, sd_part_count = 1,
      sd_width = 1, sd_is_signed = 0, sd_calibrated = 0, sd_scale = fp_lit 1 0, sd_offset = fp_lit 0 0\<rparr>,
    \<lparr>sd_stable_id = 0x016795478f5f18a6, sd_name = ''FRS_ALOD_Status'', sd_unit = '''',
      sd_parts = [part_lit 0 12 4],
      sd_invalid_signal_index = 4294967295, sd_can_id = 0x1A3, sd_frame_index = 26, sd_part_count = 1,
      sd_width = 4, sd_is_signed = 0, sd_calibrated = 0, sd_scale = fp_lit 1 0, sd_offset = fp_lit 0 0\<rparr>,
    \<lparr>sd_stable_id = 0x055275544c0431e9, sd_name = ''FRS_ALOD_ControlType'', sd_unit = '''',
      sd_parts = [part_lit 0 9 3],
      sd_invalid_signal_index = 4294967295, sd_can_id = 0x1A3, sd_frame_index = 26, sd_part_count = 1,
      sd_width = 3, sd_is_signed = 0, sd_calibrated = 0, sd_scale = fp_lit 1 0, sd_offset = fp_lit 0 0\<rparr>,
    \<lparr>sd_stable_id = 0x17a16f7065f06710, sd_name = ''FRS_ALOD_Warning'', sd_unit = '''',
      sd_parts = [part_lit 0 5 3],
      sd_invalid_signal_index = 4294967295, sd_can_id = 0x1A3, sd_frame_index = 26, sd_part_count = 1,
      sd_width = 3, sd_is_signed = 0, sd_calibrated = 0, sd_scale = fp_lit 1 0, sd_offset = fp_lit 0 0\<rparr>,
    \<lparr>sd_stable_id = 0xb8335928e8741ce0, sd_name = ''FRS_ALOD_Info'', sd_unit = '''',
      sd_parts = [part_lit 4 27 5],
      sd_invalid_signal_index = 4294967295, sd_can_id = 0x1A3, sd_frame_index = 26, sd_part_count = 1,
      sd_width = 5, sd_is_signed = 0, sd_calibrated = 0, sd_scale = fp_lit 1 0, sd_offset = fp_lit 0 0\<rparr>]"

lemma ROADCAST_SIGNALS_34_ok: "block_ok ROADCAST_CAN_IDS 815 340 10 ROADCAST_SIGNALS_34"
  by (simp add: ROADCAST_SIGNALS_34_def signal_eval)

definition ROADCAST_SIGNALS_35 :: "roadcast_signal_definition list" where
  "ROADCAST_SIGNALS_35 = [
    \<lparr>sd_stable_id = 0xee9376bc9c914afc, sd_name = ''PEPS_RKECommand'', sd_unit = '''',
      sd_parts = [part_lit 0 27 4],
      sd_invalid_signal_index = 4294967295, sd_can_id = 0x27F, sd_frame_index = 49, sd_part_count = 1,
      sd_width = 4, sd_is_signed = 0, sd_calibrated = 0, sd_scale = fp_lit 1 0, sd_offset = fp_lit 0 0\<rparr>,
    \<lparr>sd_stable_id = 0xcce67f30f9c2d67f, sd_name = ''PEPS_LOCK_CMD'', sd_unit = '''',
      sd_parts = [part_lit 0 24 3],
      sd_invalid_signal_index = 4294967295, sd_can_id = 0x27F, sd_frame_index = 49, sd_part_count = 1,
      sd_width = 3, sd_is_signed = 0, sd_calibrated = 0, sd_scale = fp_lit 1 0, sd_offset = fp_lit 0 0\<rparr>,
    \<lparr>sd_stable_id = 0xa1a60140370dc0b1, sd_name = ''PEPS_FOB_NUM'', sd_unit = '''',
      sd_parts = [part_lit 0 21 3],
      sd_invalid_signal_index = 4294967295, sd_can_id = 0x27F, sd_frame_index = 49, sd_part_count = 1,
      sd_width = 3, sd_is_signed = 0, sd_calibrated = 0, sd_scale = fp_lit 1 0, sd_offset = fp_lit 0 0\<rparr>,
    \<lparr>sd_stable_id = 0x0d6e42dfe69f29bc, sd_name = ''PEPS_Warning_Stop_Emergency'', sd_unit = '''',
      sd_parts = [part_lit 0 9 1],
      sd_invalid_signal_index = 4294967295, sd_can_id = 0x27F, sd_frame_index = 49, sd_part_count = 1,
      sd_width = 1, sd_is_signed = 0, sd_calibrated = 0, sd_scale = fp_lit 1 0, sd_offset = fp_lit 0 0\<rparr>,
    \<lparr>sd_stable_id = 0x7c21f96443c4c3ed, sd_name = ''PEPS_Warning_Stop_Moving'', sd_unit = '''',
      sd_parts = [part_lit 0 8 1],
      sd_invalid_signal_index = 4294967295, sd_can_id = 0x27F, sd_frame_index = 49, sd_part_count = 1,
      sd_width = 1, sd_is_signed = 0, sd_calibrated = 0, sd_scale = fp_lit 1 0, sd_offset = fp_lit 0 0\<rparr>,
    \<lparr>sd_stable_id = 0xf8377f1b20dd2462, sd_name = ''DSCU_DrvHeatSts'', sd_unit = '''',
      sd_parts = [part_lit 0 29 3],
      sd_invalid_signal_index = 4294967295, sd_can_id = 0x2C1, sd_frame_index = 69, sd_part_count = 1,
      sd_width = 3, sd_is_signed = 0, sd_calibrated = 0, sd_scale = fp_lit 1 0, sd_offset = fp_lit 0 0\<rparr>,
    \<lparr>sd_stable_id = 0x830c550ea37f4e6b, sd_name = ''DSCU_PassHeatingSts'', sd_unit = '''',
      sd_parts = [part_lit 0 24 3],
      sd_invalid_signal_index = 4294967295, sd_can_id = 0x2C1, sd_frame_index = 69, sd_part_count = 1,
      sd_width = 3, sd_is_signed = 0, sd_calibrated = 0, sd_scale = fp_lit 1 0, sd_offset = fp_lit 0 0\<rparr>,
    \<lparr>sd_stable_id = 0xdb5cff8e0686c2d9, sd_name = ''DSCU_DrvVentSts'', sd_unit = '''',
      sd_parts = [part_lit 0 13 3],
      sd_invalid_signal_index = 4294967295, sd_can_id = 0x2C1, sd_frame_index = 69, sd_part_count = 1,
      sd_width = 3, sd_is_signed = 0, sd_calibrated = 0, sd_scale = fp_lit 1 0, sd_offset = fp_lit 0 0\<rparr>,
    \<lparr>sd_stable_id = 0x2e45ad898e25558b, sd_name = ''DSCU_PassVentSts_Reserved'', sd_unit = '''',
      sd_parts = [part_lit 0 8 3],
      sd_invalid_signal_index = 4294967295, sd_can_id = 0x2C1, sd_frame_index = 69, sd_part_count = 1,
      sd_width = 3, sd_is_signed = 0, sd_calibrated = 0, sd_scale = fp_lit 1 0, sd_offset = fp_lit 0 0\<rparr>,
    \<lparr>sd_stable_id = 0x6005719bc0dc6aa0, sd_name = ''HVSM_FwashheatSts'', sd_unit = '''',
      sd_parts = [part_lit 0 3 2],
      sd_invalid_signal_index = 4294967295, sd_can_id = 0x2C1, sd_frame_index = 69, sd_part_count = 1,
      sd_width = 2, sd_is_signed = 0, sd_calibrated = 0, sd_scale = fp_lit 1 0, sd_offset = fp_lit 0 0\<rparr>]"

lemma ROADCAST_SIGNALS_35_ok: "block_ok ROADCAST_CAN_IDS 815 350 10 ROADCAST_SIGNALS_35"
  by (simp add: ROADCAST_SIGNALS_35_def signal_eval)

definition ROADCAST_SIGNALS_36 :: "roadcast_signal_definition list" where
  "ROADCAST_SIGNALS_36 = [
    \<lparr>sd_stable_id = 0x8440da74e0096b05, sd_name = ''DSCU_DrvMassageSts'', sd_unit = '''',
      sd_parts = [part_lit 4 29 3],
      sd_invalid_signal_index = 4294967295, sd_can_id = 0x2C1, sd_frame_index = 69, sd_part_count = 1,
      sd_width = 3, sd_is_signed = 0, sd_calibrated = 0, sd_scale = fp_lit 1 0, sd_offset = fp_lit 0 0\<rparr>,
    \<lparr>sd_stable_id = 0x0c70881c3f579873, sd_name = ''HVSM_SwHeatSts'', sd_unit = '''',
      sd_parts = [part_lit 4 14 2],
      sd_invalid_signal_index = 4294967295, sd_can_id = 0x2C1, sd_frame_index = 69, sd_part_count = 1,
      sd_width = 2, sd_is_signed = 0, sd_calibrated = 0, sd_scale = fp_lit 1 0, sd_offset = fp_lit 0 0\<rparr>,
    \<lparr>sd_stable_id = 0x8404e8ade4a17fcf, sd_name = ''HVSM_FrntWinHeatSts'', sd_unit = '''',
      sd_parts = [part_lit 4 12 2],
      sd_invalid_signal_index = 4294967295, sd_can_id = 0x2C1, sd_frame_index = 69, sd_part_count = 1,
      sd_width = 2, sd_is_signed = 0, sd_calibrated = 0, sd_scale = fp_lit 1 0, sd_offset = fp_lit 0 0\<rparr>,
    \<lparr>sd_stable_id = 0x45c5fb3c90242c68, sd_name = ''DSCU_RemoteControlSt'', sd_unit = '''',
      sd_parts = [part_lit 4 7 1],
      sd_invalid_signal_index = 4294967295, sd_can_id = 0x2C1, sd_frame_index = 69, sd_part_count = 1,
      sd_width = 1, sd_is_signed = 0, sd_calibrated = 0, sd_scale = fp_lit 1 0, sd_offset = fp_lit 0 0\<rparr>,
    \<lparr>sd_stable_id = 0x8fd62fd25a21cd5e, sd_name = ''ACU_DrvSeatbeltBucklestatus'', sd_unit = '''',
      sd_parts = [part_lit 0 31 1],
      sd_invalid_signal_index = 4294967295, sd_can_id = 0x380, sd_frame_index = 98, sd_part_count = 1,
      sd_width = 1, sd_is_signed = 0, sd_calibrated = 0, sd_scale = fp_lit 1 0, sd_offset = fp_lit 0 0\<rparr>,
    \<lparr>sd_stable_id = 0xf6fdc1f48227c1cf, sd_name = ''ACU_PassSeatbeltWarning'', sd_unit = '''',
      sd_parts = [part_lit 0 30 1],
      sd_invalid_signal_index = 4294967295, sd_can_id = 0x380, sd_frame_index = 98, sd_part_count = 1,
      sd_width = 1, sd_is_signed = 0, sd_calibrated = 0, sd_scale = fp_lit 1 0, sd_offset = fp_lit 0 0\<rparr>,
    \<lparr>sd_stable_id = 0xdc6584eb81473faf, sd_name = ''ACU_PassSeatOccupantSensorStat'', sd_unit = '''',
      sd_parts = [part_lit 0 29 1],
      sd_invalid_signal_index = 4294967295, sd_can_id = 0x380, sd_frame_index = 98, sd_part_count = 1,
      sd_width = 1, sd_is_signed = 0, sd_calibrated = 0, sd_scale = fp_lit 1 0, sd_offset = fp_lit 0 0\<rparr>,
    \<lparr>sd_stable_id = 0xd7203475b0d01388, sd_name = ''ACU_AirbagWarningStatus'', sd_unit = '''',
      sd_parts = [part_lit 0 25 2],
      sd_invalid_signal_index = 4294967295, sd_can_id = 0x380, sd_frame_index = 98, sd_part_count = 1,
      sd_width = 2, sd_is_signed = 0, sd_calibrated = 0, sd_scale = fp_lit 1 0, sd_offset = fp_lit 0 0\<rparr>,
    \<lparr>sd_stable_id = 0xc11a17be5313ce17, sd_name = ''ACU_DrvSeatbeltBuckleInvalid'', sd_unit = '''',
      sd_parts = [part_lit 0 23 1],
      sd_invalid_signal_index = 4294967295, sd_can_id = 0x380, sd_frame_index = 98, sd_part_count = 1,
      sd_width = 1, sd_is_signed = 0, sd_calibrated = 0, sd_scale = fp_lit 1 0, sd_offset = fp_lit 0 0\<rparr>,
    \<lparr>sd_stable_id = 0xd01763d0e91b644d, sd_name = ''ACU_ChimeTelltaleReq_AliveCounter'', sd_unit = '''',
      sd_parts = [part_lit 0 16 4],
      sd_invalid_signal_index = 4294967295, sd_can_id = 0x380, sd_frame_index = 98, sd_part_count = 1,
      sd_width = 4, sd_is_signed = 0, sd_calibrated = 0, sd_scale = fp_lit 1 0, sd_offset = fp_lit 0 0\<rparr>]"

lemma ROADCAST_SIGNALS_36_ok: "block_ok ROADCAST_CAN_IDS 815 360 10 ROADCAST_SIGNALS_36"
  by (simp add: ROADCAST_SIGNALS_36_def signal_eval)

definition ROADCAST_SIGNALS_37 :: "roadcast_signal_definition list" where
  "ROADCAST_SIGNALS_37 = [
    \<lparr>sd_stable_id = 0x7f57a57d8d9db27d, sd_name = ''ACU_ChimeTelltaleReq_Checksum'', sd_unit = '''',
      sd_parts = [part_lit 0 8 8],
      sd_invalid_signal_index = 4294967295, sd_can_id = 0x380, sd_frame_index = 98, sd_part_count = 1,
      sd_width = 8, sd_is_signed = 0, sd_calibrated = 0, sd_scale = fp_lit 1 0, sd_offset = fp_lit 0 0\<rparr>,
    \<lparr>sd_stable_id = 0x760fd35cb56fb5de, sd_name = ''ACU_CrashOutputSts'', sd_unit = '''',
      sd_parts = [part_lit 0 0 8],
      sd_invalid_signal_index = 4294967295, sd_can_id = 0x380, sd_frame_index = 98, sd_part_count = 1,
      sd_width = 8, sd_is_signed = 0, sd_calibrated = 0, sd_scale = fp_lit 1 0, sd_offset = fp_lit 0 0\<rparr>,
    \<lparr>sd_stable_id = 0x625b8fc301107379, sd_name = ''EPS_EpasFailed'', sd_unit = '''',
      sd_parts = [part_lit 0 15 1],
      sd_invalid_signal_index = 4294967295, sd_can_id = 0x150, sd_frame_index = 13, sd_part_count = 1,
      sd_width = 1, sd_is_signed = 0, sd_calibrated = 0, sd_scale = fp_lit 1 0, sd_offset = fp_lit 0 0\<rparr>,
    \<lparr>sd_stable_id = 0x8ce3cda3b816c05a, sd_name = ''IPK_Trip1_km'', sd_unit = '''',
      sd_parts = [part_lit 0 31 1, part_lit 0 16 8, part_lit 0 8 8],
      sd_invalid_signal_index = 4294967295, sd_can_id = 0x2C5, sd_frame_index = 73, sd_part_count = 3,
      sd_width = 17, sd_is_signed = 0, sd_calibrated = 0, sd_scale = fp_lit 1 0, sd_offset = fp_lit 0 0\<rparr>,
    \<lparr>sd_stable_id = 0xd6f3f9a3bfd1c494, sd_name = ''IPK_OdometerSts'', sd_unit = '''',
      sd_parts = [part_lit 0 30 1],
      sd_invalid_signal_index = 4294967295, sd_can_id = 0x2C5, sd_frame_index = 73, sd_part_count = 1,
      sd_width = 1, sd_is_signed = 0, sd_calibrated = 0, sd_scale = fp_lit 1 0, sd_offset = fp_lit 0 0\<rparr>,
    \<lparr>sd_stable_id = 0x84beb6123eec1ec0, sd_name = ''IPK_RstTrip1'', sd_unit = '''',
      sd_parts = [part_lit 0 26 4],
      sd_invalid_signal_index = 4294967295, sd_can_id = 0x2C5, sd_frame_index = 73, sd_part_count = 1,
      sd_width = 4, sd_is_signed = 0, sd_calibrated = 0, sd_scale = fp_lit 1 0, sd_offset = fp_lit 0 0\<rparr>,
    \<lparr>sd_stable_id = 0x092bf84bb3a00676, sd_name = ''IPK_Trip1_Duration'', sd_unit = '''',
      sd_parts = [part_lit 0 0 8, part_lit 4 24 8],
      sd_invalid_signal_index = 4294967295, sd_can_id = 0x2C5, sd_frame_index = 73, sd_part_count = 2,
      sd_width = 16, sd_is_signed = 0, sd_calibrated = 0, sd_scale = fp_lit 1 0, sd_offset = fp_lit 0 0\<rparr>,
    \<lparr>sd_stable_id = 0x61da0116de70cff0, sd_name = ''IPK_Trip2_km'', sd_unit = '''',
      sd_parts = [part_lit 0 31 1, part_lit 0 16 8, part_lit 0 8 8],
      sd_invalid_signal_index = 4294967295, sd_can_id = 0x2C6, sd_frame_index = 74, sd_part_count = 3,
      sd_width = 17, sd_is_signed = 0, sd_calibrated = 0, sd_scale = fp_lit 1 0, sd_offset = fp_lit 0 0\<rparr>,
    \<lparr>sd_stable_id = 0xa74bf50b947d834c, sd_name = ''IPK_RstTrip2'', sd_unit = '''',
      sd_parts = [part_lit 0 27 4],
      sd_invalid_signal_index = 4294967295, sd_can_id = 0x2C6, sd_frame_index = 74, sd_part_count = 1,
      sd_width = 4, sd_is_signed = 0, sd_calibrated = 0, sd_scale = fp_lit 1 0, sd_offset = fp_lit 0 0\<rparr>,
    \<lparr>sd_stable_id = 0xa6b1f940a612eb27, sd_name = ''IPK_Rst_Trip2Sts'', sd_unit = '''',
      sd_parts = [part_lit 0 26 1],
      sd_invalid_signal_index = 4294967295, sd_can_id = 0x2C6, sd_frame_index = 74, sd_part_count = 1,
      sd_width = 1, sd_is_signed = 0, sd_calibrated = 0, sd_scale = fp_lit 1 0, sd_offset = fp_lit 0 0\<rparr>]"

lemma ROADCAST_SIGNALS_37_ok: "block_ok ROADCAST_CAN_IDS 815 370 10 ROADCAST_SIGNALS_37"
  by (simp add: ROADCAST_SIGNALS_37_def signal_eval)

definition ROADCAST_SIGNALS_38 :: "roadcast_signal_definition list" where
  "ROADCAST_SIGNALS_38 = [
    \<lparr>sd_stable_id = 0xe26450a1caccf30c, sd_name = ''IPK_Trip2_Duration'', sd_unit = '''',
      sd_parts = [part_lit 0 0 8, part_lit 4 24 8],
      sd_invalid_signal_index = 4294967295, sd_can_id = 0x2C6, sd_frame_index = 74, sd_part_count = 2,
      sd_width = 16, sd_is_signed = 0, sd_calibrated = 0, sd_scale = fp_lit 1 0, sd_offset = fp_lit 0 0\<rparr>,
    \<lparr>sd_stable_id = 0x919110bc1968f99c, sd_name = ''IPK_Trip2_AverageVehicleSpeed'', sd_unit = '''',
      sd_parts = [part_lit 4 16 8],
      sd_invalid_signal_index = 4294967295, sd_can_id = 0x2C6, sd_frame_index = 74, sd_part_count = 1,
      sd_width = 8, sd_is_signed = 0, sd_calibrated = 0, sd_scale = fp_lit 1 0, sd_offset = fp_lit 0 0\<rparr>,
    \<lparr>sd_stable_id = 0xde8329499aead429, sd_name = ''VCU_EVDTEodometer'', sd_unit = '''',
      sd_parts = [part_lit 0 24 8, part_lit 0 16 4],
      sd_invalid_signal_index = 4294967295, sd_can_id = 0x214, sd_frame_index = 36, sd_part_count = 2,
      sd_width = 12, sd_is_signed = 0, sd_calibrated = 0, sd_scale = fp_lit 1 0, sd_offset = fp_lit 0 0\<rparr>,
    \<lparr>sd_stable_id = 0xf13d4031d9599117, sd_name = ''VCU_ShowModeEnable'', sd_unit = '''',
      sd_parts = [part_lit 0 21 1],
      sd_invalid_signal_index = 4294967295, sd_can_id = 0x214, sd_frame_index = 36, sd_part_count = 1,
      sd_width = 1, sd_is_signed = 0, sd_calibrated = 0, sd_scale = fp_lit 1 0, sd_offset = fp_lit 0 0\<rparr>,
    \<lparr>sd_stable_id = 0xefd1b2f8a6ca9514, sd_name = ''VCU_Discharge_SOC_value'', sd_unit = '''',
      sd_parts = [part_lit 0 8 8],
      sd_invalid_signal_index = 4294967295, sd_can_id = 0x214, sd_frame_index = 36, sd_part_count = 1,
      sd_width = 8, sd_is_signed = 0, sd_calibrated = 0, sd_scale = fp_lit 1 0, sd_offset = fp_lit 0 0\<rparr>,
    \<lparr>sd_stable_id = 0x4f23c45adf8424dd, sd_name = ''VCU_HVMaintenanceSwtichStsResp'', sd_unit = '''',
      sd_parts = [part_lit 4 30 2],
      sd_invalid_signal_index = 4294967295, sd_can_id = 0x214, sd_frame_index = 36, sd_part_count = 1,
      sd_width = 2, sd_is_signed = 0, sd_calibrated = 0, sd_scale = fp_lit 1 0, sd_offset = fp_lit 0 0\<rparr>,
    \<lparr>sd_stable_id = 0x7d8923d5791e4b1e, sd_name = ''VCU_PtModAct'', sd_unit = '''',
      sd_parts = [part_lit 4 22 2],
      sd_invalid_signal_index = 4294967295, sd_can_id = 0x214, sd_frame_index = 36, sd_part_count = 1,
      sd_width = 2, sd_is_signed = 0, sd_calibrated = 0, sd_scale = fp_lit 1 0, sd_offset = fp_lit 0 0\<rparr>,
    \<lparr>sd_stable_id = 0x6ef83ca0542aa42b, sd_name = ''VCU_PtModBlkd'', sd_unit = '''',
      sd_parts = [part_lit 4 21 1],
      sd_invalid_signal_index = 4294967295, sd_can_id = 0x214, sd_frame_index = 36, sd_part_count = 1,
      sd_width = 1, sd_is_signed = 0, sd_calibrated = 0, sd_scale = fp_lit 1 0, sd_offset = fp_lit 0 0\<rparr>,
    \<lparr>sd_stable_id = 0x43d2303ca3ce8d4c, sd_name = ''VCU_EngFltIndcn'', sd_unit = '''',
      sd_parts = [part_lit 4 16 4],
      sd_invalid_signal_index = 4294967295, sd_can_id = 0x214, sd_frame_index = 36, sd_part_count = 1,
      sd_width = 4, sd_is_signed = 0, sd_calibrated = 0, sd_scale = fp_lit 1 0, sd_offset = fp_lit 0 0\<rparr>,
    \<lparr>sd_stable_id = 0xe5b2bfc56a6cc9ee, sd_name = ''VCU_SaveElecSwitchModeFctSts'', sd_unit = '''',
      sd_parts = [part_lit 4 15 1],
      sd_invalid_signal_index = 4294967295, sd_can_id = 0x214, sd_frame_index = 36, sd_part_count = 1,
      sd_width = 1, sd_is_signed = 0, sd_calibrated = 0, sd_scale = fp_lit 1 0, sd_offset = fp_lit 0 0\<rparr>]"

lemma ROADCAST_SIGNALS_38_ok: "block_ok ROADCAST_CAN_IDS 815 380 10 ROADCAST_SIGNALS_38"
  by (simp add: ROADCAST_SIGNALS_38_def signal_eval)

definition ROADCAST_SIGNALS_39 :: "roadcast_signal_definition list" where
  "ROADCAST_SIGNALS_39 = [
    \<lparr>sd_stable_id = 0x6a03c662d37de6db, sd_name = ''VCU_SaveElecModeReq'', sd_unit = '''',
      sd_parts = [part_lit 4 14 1],
      sd_invalid_signal_index = 4294967295, sd_can_id = 0x214, sd_frame_index = 36, sd_part_count = 1,
      sd_width = 1, sd_is_signed = 0, sd_calibrated = 0, sd_scale = fp_lit 1 0, sd_offset = fp_lit 0 0\<rparr>,
    \<lparr>sd_stable_id = 0x8fa84c96c0dbec21, sd_name = ''BMSH_BattSOC'', sd_unit = ''%'',
      sd_parts = [part_lit 4 26 6, part_lit 4 16 4],
      sd_invalid_signal_index = 4294967295, sd_can_id = 0x17A, sd_frame_index = 21, sd_part_count = 2,
      sd_width = 10, sd_is_signed = 0, sd_calibrated = 1, sd_scale = fp_lit 10000000000000001 17, sd_offset = fp_lit 0 0\<rparr>,
    \<lparr>sd_stable_id = 0x124cd6f775baf9bf, sd_name = ''VCU_PwrCnsAvg1'', sd_unit = '''',
      sd_parts = [part_lit 0 24 8, part_lit 0 16 2],
      sd_invalid_signal_index = 4294967295, sd_can_id = 0x3A2, sd_frame_index = 101, sd_part_count = 2,
      sd_width = 10, sd_is_signed = 0, sd_calibrated = 0, sd_scale = fp_lit 1 0, sd_offset = fp_lit 0 0\<rparr>,
    \<lparr>sd_stable_id = 0x08680022f548c20e, sd_name = ''VCU_TrlrModPrpsnSts'', sd_unit = '''',
      sd_parts = [part_lit 0 22 2],
      sd_invalid_signal_index = 4294967295, sd_can_id = 0x3A2, sd_frame_index = 101, sd_part_count = 1,
      sd_width = 2, sd_is_signed = 0, sd_calibrated = 0, sd_scale = fp_lit 1 0, sd_offset = fp_lit 0 0\<rparr>,
    \<lparr>sd_stable_id = 0xfa1910a6171848ea, sd_name = ''VCU_TrlrModRemind'', sd_unit = '''',
      sd_parts = [part_lit 0 21 1],
      sd_invalid_signal_index = 4294967295, sd_can_id = 0x3A2, sd_frame_index = 101, sd_part_count = 1,
      sd_width = 1, sd_is_signed = 0, sd_calibrated = 0, sd_scale = fp_lit 1 0, sd_offset = fp_lit 0 0\<rparr>,
    \<lparr>sd_stable_id = 0xcefa0060a1a7173f, sd_name = ''VCU_GearRemind'', sd_unit = '''',
      sd_parts = [part_lit 0 18 3],
      sd_invalid_signal_index = 4294967295, sd_can_id = 0x3A2, sd_frame_index = 101, sd_part_count = 1,
      sd_width = 3, sd_is_signed = 0, sd_calibrated = 0, sd_scale = fp_lit 1 0, sd_offset = fp_lit 0 0\<rparr>,
    \<lparr>sd_stable_id = 0x768a1b3acd9aab2f, sd_name = ''VCU_EVDTEodometerDynDisChg'', sd_unit = '''',
      sd_parts = [part_lit 0 8 8, part_lit 0 0 4],
      sd_invalid_signal_index = 4294967295, sd_can_id = 0x3A2, sd_frame_index = 101, sd_part_count = 2,
      sd_width = 12, sd_is_signed = 0, sd_calibrated = 0, sd_scale = fp_lit 1 0, sd_offset = fp_lit 0 0\<rparr>,
    \<lparr>sd_stable_id = 0x15c2b95385c674c0, sd_name = ''VCU_ChrgDischrgPwrAct'', sd_unit = ''kW'',
      sd_parts = [part_lit 4 24 8],
      sd_invalid_signal_index = 4294967295, sd_can_id = 0x3A2, sd_frame_index = 101, sd_part_count = 1,
      sd_width = 8, sd_is_signed = 0, sd_calibrated = 1, sd_scale = fp_lit 10000000000000001 17, sd_offset = fp_lit (- 12800000000000001) 15\<rparr>,
    \<lparr>sd_stable_id = 0xacc70e9d88102cdc, sd_name = ''VCU_EVDTEodometerDisChg'', sd_unit = '''',
      sd_parts = [part_lit 4 16 8, part_lit 4 8 4],
      sd_invalid_signal_index = 4294967295, sd_can_id = 0x3A2, sd_frame_index = 101, sd_part_count = 2,
      sd_width = 12, sd_is_signed = 0, sd_calibrated = 0, sd_scale = fp_lit 1 0, sd_offset = fp_lit 0 0\<rparr>,
    \<lparr>sd_stable_id = 0xc27f1ec4cc44a87e, sd_name = ''VCU_EVDTEodometerDyn'', sd_unit = '''',
      sd_parts = [part_lit 0 24 8, part_lit 0 16 4],
      sd_invalid_signal_index = 4294967295, sd_can_id = 0x315, sd_frame_index = 93, sd_part_count = 2,
      sd_width = 12, sd_is_signed = 0, sd_calibrated = 0, sd_scale = fp_lit 1 0, sd_offset = fp_lit 0 0\<rparr>]"

lemma ROADCAST_SIGNALS_39_ok: "block_ok ROADCAST_CAN_IDS 815 390 10 ROADCAST_SIGNALS_39"
  by (simp add: ROADCAST_SIGNALS_39_def signal_eval)

definition ROADCAST_SIGNALS_40 :: "roadcast_signal_definition list" where
  "ROADCAST_SIGNALS_40 = [
    \<lparr>sd_stable_id = 0x5559faa9ef77df17, sd_name = ''VCU_DrvPwrAct'', sd_unit = ''kW'',
      sd_parts = [part_lit 0 20 4, part_lit 0 8 8],
      sd_invalid_signal_index = 4294967295, sd_can_id = 0x315, sd_frame_index = 93, sd_part_count = 2,
      sd_width = 12, sd_is_signed = 0, sd_calibrated = 1, sd_scale = fp_lit 10000000000000001 17, sd_offset = fp_lit (- 204) 0\<rparr>,
    \<lparr>sd_stable_id = 0x6f1c21ed383fcec8, sd_name = ''VCU_ThermalPwrAct'', sd_unit = ''kW'',
      sd_parts = [part_lit 0 0 8],
      sd_invalid_signal_index = 4294967295, sd_can_id = 0x315, sd_frame_index = 93, sd_part_count = 1,
      sd_width = 8, sd_is_signed = 0, sd_calibrated = 1, sd_scale = fp_lit 80000000000000002 18, sd_offset = fp_lit 0 0\<rparr>,
    \<lparr>sd_stable_id = 0xde0ea26337a2742b, sd_name = ''VCU_DCDCPwrAct'', sd_unit = '''',
      sd_parts = [part_lit 4 24 8],
      sd_invalid_signal_index = 4294967295, sd_can_id = 0x315, sd_frame_index = 93, sd_part_count = 1,
      sd_width = 8, sd_is_signed = 0, sd_calibrated = 0, sd_scale = fp_lit 1 0, sd_offset = fp_lit 0 0\<rparr>,
    \<lparr>sd_stable_id = 0xe3837551e3419003, sd_name = ''VCU_PwrCnsAvg'', sd_unit = '''',
      sd_parts = [part_lit 4 16 8, part_lit 4 8 3],
      sd_invalid_signal_index = 4294967295, sd_can_id = 0x315, sd_frame_index = 93, sd_part_count = 2,
      sd_width = 11, sd_is_signed = 0, sd_calibrated = 0, sd_scale = fp_lit 1 0, sd_offset = fp_lit 0 0\<rparr>,
    \<lparr>sd_stable_id = 0xbc99bf27eb6f4d2f, sd_name = ''VCU_AvgCnsDstSg'', sd_unit = '''',
      sd_parts = [part_lit 4 11 1],
      sd_invalid_signal_index = 4294967295, sd_can_id = 0x315, sd_frame_index = 93, sd_part_count = 1,
      sd_width = 1, sd_is_signed = 0, sd_calibrated = 0, sd_scale = fp_lit 1 0, sd_offset = fp_lit 0 0\<rparr>,
    \<lparr>sd_stable_id = 0x777e1f894e7a3635, sd_name = ''OBC_DischrgPwrExceedWarn'', sd_unit = '''',
      sd_parts = [part_lit 0 31 1],
      sd_invalid_signal_index = 4294967295, sd_can_id = 0x2EA, sd_frame_index = 85, sd_part_count = 1,
      sd_width = 1, sd_is_signed = 0, sd_calibrated = 0, sd_scale = fp_lit 1 0, sd_offset = fp_lit 0 0\<rparr>,
    \<lparr>sd_stable_id = 0x1c13df5696ac8192, sd_name = ''OBC_MaxACInpISetFdb'', sd_unit = '''',
      sd_parts = [part_lit 0 24 7],
      sd_invalid_signal_index = 4294967295, sd_can_id = 0x2EA, sd_frame_index = 85, sd_part_count = 1,
      sd_width = 7, sd_is_signed = 0, sd_calibrated = 0, sd_scale = fp_lit 1 0, sd_offset = fp_lit 0 0\<rparr>,
    \<lparr>sd_stable_id = 0x7fc23d317942a62f, sd_name = ''OBC_ChrgrSt'', sd_unit = '''',
      sd_parts = [part_lit 0 28 4],
      sd_invalid_signal_index = 4294967295, sd_can_id = 0x220, sd_frame_index = 38, sd_part_count = 1,
      sd_width = 4, sd_is_signed = 0, sd_calibrated = 0, sd_scale = fp_lit 1 0, sd_offset = fp_lit 0 0\<rparr>,
    \<lparr>sd_stable_id = 0xc69284e8ee442fd2, sd_name = ''OBC_OnBdFailSt'', sd_unit = '''',
      sd_parts = [part_lit 0 26 2],
      sd_invalid_signal_index = 4294967295, sd_can_id = 0x220, sd_frame_index = 38, sd_part_count = 1,
      sd_width = 2, sd_is_signed = 0, sd_calibrated = 0, sd_scale = fp_lit 1 0, sd_offset = fp_lit 0 0\<rparr>,
    \<lparr>sd_stable_id = 0xdb13e21da108bdd3, sd_name = ''OBC_OnBdDisChrgrCCline_PHEV'', sd_unit = '''',
      sd_parts = [part_lit 0 24 2],
      sd_invalid_signal_index = 4294967295, sd_can_id = 0x220, sd_frame_index = 38, sd_part_count = 1,
      sd_width = 2, sd_is_signed = 0, sd_calibrated = 0, sd_scale = fp_lit 1 0, sd_offset = fp_lit 0 0\<rparr>]"

lemma ROADCAST_SIGNALS_40_ok: "block_ok ROADCAST_CAN_IDS 815 400 10 ROADCAST_SIGNALS_40"
  by (simp add: ROADCAST_SIGNALS_40_def signal_eval)

definition ROADCAST_SIGNALS_41 :: "roadcast_signal_definition list" where
  "ROADCAST_SIGNALS_41 = [
    \<lparr>sd_stable_id = 0xdcd6fdaf1bd9cb61, sd_name = ''OBC_OnBdCCline'', sd_unit = '''',
      sd_parts = [part_lit 4 16 2],
      sd_invalid_signal_index = 4294967295, sd_can_id = 0x220, sd_frame_index = 38, sd_part_count = 1,
      sd_width = 2, sd_is_signed = 0, sd_calibrated = 0, sd_scale = fp_lit 1 0, sd_offset = fp_lit 0 0\<rparr>,
    \<lparr>sd_stable_id = 0xef9f11558e3c3f24, sd_name = ''OBC_OnBdCPline'', sd_unit = '''',
      sd_parts = [part_lit 4 9 3],
      sd_invalid_signal_index = 4294967295, sd_can_id = 0x220, sd_frame_index = 38, sd_part_count = 1,
      sd_width = 3, sd_is_signed = 0, sd_calibrated = 0, sd_scale = fp_lit 1 0, sd_offset = fp_lit 0 0\<rparr>,
    \<lparr>sd_stable_id = 0xdf1e12df281bbe5d, sd_name = ''BMSH_BattCurr'', sd_unit = ''A'',
      sd_parts = [part_lit 0 24 8, part_lit 0 16 6],
      sd_invalid_signal_index = 4294967295, sd_can_id = 0x250, sd_frame_index = 42, sd_part_count = 2,
      sd_width = 14, sd_is_signed = 0, sd_calibrated = 1, sd_scale = fp_lit 10000000000000001 17, sd_offset = fp_lit (- 50019999999999999) 14\<rparr>,
    \<lparr>sd_stable_id = 0x190456d466e1a843, sd_name = ''BMSH_HVBusVolt'', sd_unit = ''V'',
      sd_parts = [part_lit 0 22 2, part_lit 0 8 8],
      sd_invalid_signal_index = 4294967295, sd_can_id = 0x250, sd_frame_index = 42, sd_part_count = 2,
      sd_width = 10, sd_is_signed = 0, sd_calibrated = 1, sd_scale = fp_lit 1 0, sd_offset = fp_lit 0 0\<rparr>,
    \<lparr>sd_stable_id = 0xe219c18aa7103428, sd_name = ''BMSH_stMode'', sd_unit = '''',
      sd_parts = [part_lit 4 19 5],
      sd_invalid_signal_index = 4294967295, sd_can_id = 0x250, sd_frame_index = 42, sd_part_count = 1,
      sd_width = 5, sd_is_signed = 0, sd_calibrated = 0, sd_scale = fp_lit 1 0, sd_offset = fp_lit 0 0\<rparr>,
    \<lparr>sd_stable_id = 0x1ade5e292f5b3611, sd_name = ''BMSH_FastChgCC2ConntState'', sd_unit = '''',
      sd_parts = [part_lit 4 14 2],
      sd_invalid_signal_index = 4294967295, sd_can_id = 0x250, sd_frame_index = 42, sd_part_count = 1,
      sd_width = 2, sd_is_signed = 0, sd_calibrated = 0, sd_scale = fp_lit 1 0, sd_offset = fp_lit 0 0\<rparr>,
    \<lparr>sd_stable_id = 0x5a8802c9b84b0096, sd_name = ''BMSH_BattFaultLampState'', sd_unit = '''',
      sd_parts = [part_lit 4 8 2],
      sd_invalid_signal_index = 4294967295, sd_can_id = 0x250, sd_frame_index = 42, sd_part_count = 1,
      sd_width = 2, sd_is_signed = 0, sd_calibrated = 0, sd_scale = fp_lit 1 0, sd_offset = fp_lit 0 0\<rparr>,
    \<lparr>sd_stable_id = 0x07aeb2bd7b9b7cc8, sd_name = ''BMSH_ChargeLEDCtrl'', sd_unit = '''',
      sd_parts = [part_lit 4 4 4],
      sd_invalid_signal_index = 4294967295, sd_can_id = 0x250, sd_frame_index = 42, sd_part_count = 1,
      sd_width = 4, sd_is_signed = 0, sd_calibrated = 0, sd_scale = fp_lit 1 0, sd_offset = fp_lit 0 0\<rparr>,
    \<lparr>sd_stable_id = 0xdd813255bc1167ee, sd_name = ''BMSH_0x178_TimeoutFlag'', sd_unit = '''',
      sd_parts = [part_lit 4 3 1],
      sd_invalid_signal_index = 4294967295, sd_can_id = 0x250, sd_frame_index = 42, sd_part_count = 1,
      sd_width = 1, sd_is_signed = 0, sd_calibrated = 0, sd_scale = fp_lit 1 0, sd_offset = fp_lit 0 0\<rparr>,
    \<lparr>sd_stable_id = 0x5f109bf5c077dbbe, sd_name = ''BMSH_0x211_TimeoutFlag'', sd_unit = '''',
      sd_parts = [part_lit 4 2 1],
      sd_invalid_signal_index = 4294967295, sd_can_id = 0x250, sd_frame_index = 42, sd_part_count = 1,
      sd_width = 1, sd_is_signed = 0, sd_calibrated = 0, sd_scale = fp_lit 1 0, sd_offset = fp_lit 0 0\<rparr>]"

lemma ROADCAST_SIGNALS_41_ok: "block_ok ROADCAST_CAN_IDS 815 410 10 ROADCAST_SIGNALS_41"
  by (simp add: ROADCAST_SIGNALS_41_def signal_eval)

end
