(* ===== verification/Catalog_Table_3.thy ===== *)
theory Catalog_Table_3
  imports Catalog
begin

text \<open>
  Entries 420 to 629 of \<^verbatim>\<open>ROADCAST_SIGNALS\<close> in \<^verbatim>\<open>src/catalog_generated.c\<close>, ten to a block, with the
  \<^verbatim>\<open>SIGNAL_PARTS_n\<close> array of each entry written in its place.  Every block satisfies \<open>block_ok\<close>.
\<close>

definition ROADCAST_SIGNALS_42 :: "roadcast_signal_definition list" where
  "ROADCAST_SIGNALS_42 = [
    \<lparr>sd_stable_id = 0x54353bf2a203e22b, sd_name = ''BMSH_DCDispCurr'', sd_unit = '''',
      sd_parts = [part_lit 4 18 6, part_lit 4 8 8],
      sd_invalid_signal_index = 4294967295, sd_can_id = 0x359, sd_frame_index = 96, sd_part_count = 2,
      sd_width = 14, sd_is_signed = 0, sd_calibrated = 0, sd_scale = fp_lit 1 0, sd_offset = fp_lit 0 0\<rparr>,
    \<lparr>sd_stable_id = 0x47f999229a1169e3, sd_name = ''BMSH_ACChgTimeRemain'', sd_unit = ''min'',
      sd_parts = [part_lit 4 28 4, part_lit 4 16 7],
      sd_invalid_signal_index = 4294967295, sd_can_id = 0x17B, sd_frame_index = 22, sd_part_count = 2,
      sd_width = 11, sd_is_signed = 0, sd_calibrated = 1, sd_scale = fp_lit 1 0, sd_offset = fp_lit 0 0\<rparr>,
    \<lparr>sd_stable_id = 0x48c647ad2cfe56f7, sd_name = ''BMSH_ThermalOutofControl'', sd_unit = '''',
      sd_parts = [part_lit 4 23 1],
      sd_invalid_signal_index = 4294967295, sd_can_id = 0x17B, sd_frame_index = 22, sd_part_count = 1,
      sd_width = 1, sd_is_signed = 0, sd_calibrated = 0, sd_scale = fp_lit 1 0, sd_offset = fp_lit 0 0\<rparr>,
    \<lparr>sd_stable_id = 0xc2b71d8ccc25d3e5, sd_name = ''BMSH_DCChgPwr'', sd_unit = '''',
      sd_parts = [part_lit 0 24 8, part_lit 0 16 2],
      sd_invalid_signal_index = 4294967295, sd_can_id = 0x0B7, sd_frame_index = 2, sd_part_count = 2,
      sd_width = 10, sd_is_signed = 0, sd_calibrated = 0, sd_scale = fp_lit 1 0, sd_offset = fp_lit 0 0\<rparr>,
    \<lparr>sd_stable_id = 0xa4399b05416e5809, sd_name = ''BMSH_V2XdchaSwtFb'', sd_unit = '''',
      sd_parts = [part_lit 0 22 2],
      sd_invalid_signal_index = 4294967295, sd_can_id = 0x0B7, sd_frame_index = 2, sd_part_count = 1,
      sd_width = 2, sd_is_signed = 0, sd_calibrated = 0, sd_scale = fp_lit 1 0, sd_offset = fp_lit 0 0\<rparr>,
    \<lparr>sd_stable_id = 0xd1942a310fed2e89, sd_name = ''BMSH_DchaStopReasonIndcn'', sd_unit = '''',
      sd_parts = [part_lit 0 20 2],
      sd_invalid_signal_index = 4294967295, sd_can_id = 0x0B7, sd_frame_index = 2, sd_part_count = 1,
      sd_width = 2, sd_is_signed = 0, sd_calibrated = 0, sd_scale = fp_lit 1 0, sd_offset = fp_lit 0 0\<rparr>,
    \<lparr>sd_stable_id = 0x7203092430237524, sd_name = ''OBC_OnBdDisChrgrEnergy'', sd_unit = '''',
      sd_parts = [part_lit 0 16 8, part_lit 0 8 4],
      sd_invalid_signal_index = 4294967295, sd_can_id = 0x221, sd_frame_index = 39, sd_part_count = 2,
      sd_width = 12, sd_is_signed = 0, sd_calibrated = 0, sd_scale = fp_lit 1 0, sd_offset = fp_lit 0 0\<rparr>,
    \<lparr>sd_stable_id = 0x3360740302c90b5e, sd_name = ''OBC_OnBdDisChrgrCCline_EV'', sd_unit = '''',
      sd_parts = [part_lit 0 12 2],
      sd_invalid_signal_index = 4294967295, sd_can_id = 0x221, sd_frame_index = 39, sd_part_count = 1,
      sd_width = 2, sd_is_signed = 0, sd_calibrated = 0, sd_scale = fp_lit 1 0, sd_offset = fp_lit 0 0\<rparr>,
    \<lparr>sd_stable_id = 0xfac0a4257f62ffc9, sd_name = ''OBC_iInAct'', sd_unit = ''A'',
      sd_parts = [part_lit 4 24 8, part_lit 4 16 2],
      sd_invalid_signal_index = 4294967295, sd_can_id = 0x221, sd_frame_index = 39, sd_part_count = 2,
      sd_width = 10, sd_is_signed = 0, sd_calibrated = 1, sd_scale = fp_lit 10000000000000001 17, sd_offset = fp_lit 0 0\<rparr>,
    \<lparr>sd_stable_id = 0x832e364e51198ffd, sd_name = ''OBC_uInAct'', sd_unit = ''V'',
      sd_parts = [part_lit 4 19 5, part_lit 4 8 8],
      sd_invalid_signal_index = 4294967295, sd_can_id = 0x221, sd_frame_index = 39, sd_part_count = 2,
      sd_width = 13, sd_is_signed = 0, sd_calibrated = 1, sd_scale = fp_lit 10000000000000001 17, sd_offset = fp_lit 0 0\<rparr>]"

lemma ROADCAST_SIGNALS_42_ok: "block_ok ROADCAST_CAN_IDS 815 420 10 ROADCAST_SIGNALS_42"
  by (simp add: ROADCAST_SIGNALS_42_def signal_eval)

definition ROADCAST_SIGNALS_43 :: "roadcast_signal_definition list" where
  "ROADCAST_SIGNALS_43 = [
    \<lparr>sd_stable_id = 0x89a8ce65fa964797, sd_name = ''OBC_TotDischTime'', sd_unit = '''',
      sd_parts = [part_lit 0 16 8, part_lit 0 8 5],
      sd_invalid_signal_index = 4294967295, sd_can_id = 0x339, sd_frame_index = 94, sd_part_count = 2,
      sd_width = 13, sd_is_signed = 0, sd_calibrated = 0, sd_scale = fp_lit 1 0, sd_offset = fp_lit 0 0\<rparr>,
    \<lparr>sd_stable_id = 0x1fff42632efd9b4d, sd_name = ''VCU_ePTModeSelect'', sd_unit = '''',
      sd_parts = [part_lit 0 14 2],
      sd_invalid_signal_index = 4294967295, sd_can_id = 0x162, sd_frame_index = 16, sd_part_count = 1,
      sd_width = 2, sd_is_signed = 0, sd_calibrated = 0, sd_scale = fp_lit 1 0, sd_offset = fp_lit 0 0\<rparr>,
    \<lparr>sd_stable_id = 0xf7772148a9dfe1d3, sd_name = ''VCU_NoPluginModStatus'', sd_unit = '''',
      sd_parts = [part_lit 0 11 1],
      sd_invalid_signal_index = 4294967295, sd_can_id = 0x162, sd_frame_index = 16, sd_part_count = 1,
      sd_width = 1, sd_is_signed = 0, sd_calibrated = 0, sd_scale = fp_lit 1 0, sd_offset = fp_lit 0 0\<rparr>,
    \<lparr>sd_stable_id = 0x63ef1067ce23c757, sd_name = ''VCU_ePTModeActual'', sd_unit = '''',
      sd_parts = [part_lit 0 8 3],
      sd_invalid_signal_index = 4294967295, sd_can_id = 0x162, sd_frame_index = 16, sd_part_count = 1,
      sd_width = 3, sd_is_signed = 0, sd_calibrated = 0, sd_scale = fp_lit 1 0, sd_offset = fp_lit 0 0\<rparr>,
    \<lparr>sd_stable_id = 0xa2fabed392ac0f1c, sd_name = ''VCU_DriverRemind'', sd_unit = '''',
      sd_parts = [part_lit 0 4 1],
      sd_invalid_signal_index = 4294967295, sd_can_id = 0x162, sd_frame_index = 16, sd_part_count = 1,
      sd_width = 1, sd_is_signed = 0, sd_calibrated = 0, sd_scale = fp_lit 1 0, sd_offset = fp_lit 0 0\<rparr>,
    \<lparr>sd_stable_id = 0x4eefe906483c04bd, sd_name = ''VCU_ePTReady'', sd_unit = '''',
      sd_parts = [part_lit 0 0 1],
      sd_invalid_signal_index = 4294967295, sd_can_id = 0x162, sd_frame_index = 16, sd_part_count = 1,
      sd_width = 1, sd_is_signed = 0, sd_calibrated = 0, sd_scale = fp_lit 1 0, sd_offset = fp_lit 0 0\<rparr>,
    \<lparr>sd_stable_id = 0xef30b5a46a93617f, sd_name = ''VCU_ePTRegencyLevInd'', sd_unit = '''',
      sd_parts = [part_lit 4 19 3],
      sd_invalid_signal_index = 4294967295, sd_can_id = 0x162, sd_frame_index = 16, sd_part_count = 1,
      sd_width = 3, sd_is_signed = 0, sd_calibrated = 1, sd_scale = fp_lit 1 0, sd_offset = fp_lit 0 0\<rparr>,
    \<lparr>sd_stable_id = 0x438fecd7fc11dd22, sd_name = ''VCU_LimpHomeSts'', sd_unit = '''',
      sd_parts = [part_lit 4 10 1],
      sd_invalid_signal_index = 4294967295, sd_can_id = 0x162, sd_frame_index = 16, sd_part_count = 1,
      sd_width = 1, sd_is_signed = 0, sd_calibrated = 0, sd_scale = fp_lit 1 0, sd_offset = fp_lit 0 0\<rparr>,
    \<lparr>sd_stable_id = 0xea53ed9fa6b23256, sd_name = ''CHM_FwashheatSts'', sd_unit = '''',
      sd_parts = [part_lit 0 30 2],
      sd_invalid_signal_index = 4294967295, sd_can_id = 0x2C3, sd_frame_index = 71, sd_part_count = 1,
      sd_width = 2, sd_is_signed = 0, sd_calibrated = 0, sd_scale = fp_lit 1 0, sd_offset = fp_lit 0 0\<rparr>,
    \<lparr>sd_stable_id = 0xe8dc32031d0b5981, sd_name = ''CHM_SwHeatSts'', sd_unit = '''',
      sd_parts = [part_lit 0 28 2],
      sd_invalid_signal_index = 4294967295, sd_can_id = 0x2C3, sd_frame_index = 71, sd_part_count = 1,
      sd_width = 2, sd_is_signed = 0, sd_calibrated = 0, sd_scale = fp_lit 1 0, sd_offset = fp_lit 0 0\<rparr>]"

lemma ROADCAST_SIGNALS_43_ok: "block_ok ROADCAST_CAN_IDS 815 430 10 ROADCAST_SIGNALS_43"
  by (simp add: ROADCAST_SIGNALS_43_def signal_eval)

definition ROADCAST_SIGNALS_44 :: "roadcast_signal_definition list" where
  "ROADCAST_SIGNALS_44 = [
    \<lparr>sd_stable_id = 0xb43806a0c5c02fc5, sd_name = ''CHM_FwindheatSts'', sd_unit = '''',
      sd_parts = [part_lit 0 26 2],
      sd_invalid_signal_index = 4294967295, sd_can_id = 0x2C3, sd_frame_index = 71, sd_part_count = 1,
      sd_width = 2, sd_is_signed = 0, sd_calibrated = 0, sd_scale = fp_lit 1 0, sd_offset = fp_lit 0 0\<rparr>,
    \<lparr>sd_stable_id = 0x5c937ddeed521815, sd_name = ''TCM_SwHeat_ErrorState'', sd_unit = '''',
      sd_parts = [part_lit 0 16 4],
      sd_invalid_signal_index = 4294967295, sd_can_id = 0x2C3, sd_frame_index = 71, sd_part_count = 1,
      sd_width = 4, sd_is_signed = 0, sd_calibrated = 0, sd_scale = fp_lit 1 0, sd_offset = fp_lit 0 0\<rparr>,
    \<lparr>sd_stable_id = 0xe5e848195ca09539, sd_name = ''BCM_DM_TargetModeReq'', sd_unit = '''',
      sd_parts = [part_lit 0 13 3],
      sd_invalid_signal_index = 4294967295, sd_can_id = 0x283, sd_frame_index = 51, sd_part_count = 1,
      sd_width = 3, sd_is_signed = 0, sd_calibrated = 1, sd_scale = fp_lit 1 0, sd_offset = fp_lit 0 0\<rparr>,
    \<lparr>sd_stable_id = 0x606b33cbdc62a486, sd_name = ''BCM_DM_SwitchModeSts'', sd_unit = '''',
      sd_parts = [part_lit 0 10 3],
      sd_invalid_signal_index = 4294967295, sd_can_id = 0x283, sd_frame_index = 51, sd_part_count = 1,
      sd_width = 3, sd_is_signed = 0, sd_calibrated = 0, sd_scale = fp_lit 1 0, sd_offset = fp_lit 0 0\<rparr>,
    \<lparr>sd_stable_id = 0x7c9a37265661674e, sd_name = ''BCM_DM_SwitchModeStsDisp'', sd_unit = '''',
      sd_parts = [part_lit 4 18 3],
      sd_invalid_signal_index = 4294967295, sd_can_id = 0x283, sd_frame_index = 51, sd_part_count = 1,
      sd_width = 3, sd_is_signed = 0, sd_calibrated = 0, sd_scale = fp_lit 1 0, sd_offset = fp_lit 0 0\<rparr>,
    \<lparr>sd_stable_id = 0xdd82197443d7d3da, sd_name = ''PEPS_WarnEmergencyOFF'', sd_unit = '''',
      sd_parts = [part_lit 0 26 2],
      sd_invalid_signal_index = 4294967295, sd_can_id = 0x274, sd_frame_index = 48, sd_part_count = 1,
      sd_width = 2, sd_is_signed = 0, sd_calibrated = 0, sd_scale = fp_lit 1 0, sd_offset = fp_lit 0 0\<rparr>,
    \<lparr>sd_stable_id = 0xd1bf69cf18016875, sd_name = ''PEPS_AutoPoweroffSetResp'', sd_unit = '''',
      sd_parts = [part_lit 0 23 1],
      sd_invalid_signal_index = 4294967295, sd_can_id = 0x274, sd_frame_index = 48, sd_part_count = 1,
      sd_width = 1, sd_is_signed = 0, sd_calibrated = 0, sd_scale = fp_lit 1 0, sd_offset = fp_lit 0 0\<rparr>,
    \<lparr>sd_stable_id = 0xd91341b5fedbc9a2, sd_name = ''PEPS_PoweroffCancelResp'', sd_unit = '''',
      sd_parts = [part_lit 0 22 1],
      sd_invalid_signal_index = 4294967295, sd_can_id = 0x274, sd_frame_index = 48, sd_part_count = 1,
      sd_width = 1, sd_is_signed = 0, sd_calibrated = 0, sd_scale = fp_lit 1 0, sd_offset = fp_lit 0 0\<rparr>,
    \<lparr>sd_stable_id = 0x35ee9896ca0361c6, sd_name = ''PEPS_PoweroffWarning'', sd_unit = '''',
      sd_parts = [part_lit 0 21 1],
      sd_invalid_signal_index = 4294967295, sd_can_id = 0x274, sd_frame_index = 48, sd_part_count = 1,
      sd_width = 1, sd_is_signed = 0, sd_calibrated = 0, sd_scale = fp_lit 1 0, sd_offset = fp_lit 0 0\<rparr>,
    \<lparr>sd_stable_id = 0xbbf5ee4f4f8210f5, sd_name = ''PEPS_PowerKeepTimeSetResp'', sd_unit = '''',
      sd_parts = [part_lit 0 16 4],
      sd_invalid_signal_index = 4294967295, sd_can_id = 0x274, sd_frame_index = 48, sd_part_count = 1,
      sd_width = 4, sd_is_signed = 0, sd_calibrated = 0, sd_scale = fp_lit 1 0, sd_offset = fp_lit 0 0\<rparr>]"

lemma ROADCAST_SIGNALS_44_ok: "block_ok ROADCAST_CAN_IDS 815 440 10 ROADCAST_SIGNALS_44"
  by (simp add: ROADCAST_SIGNALS_44_def signal_eval)

definition ROADCAST_SIGNALS_45 :: "roadcast_signal_definition list" where
  "ROADCAST_SIGNALS_45 = [
    \<lparr>sd_stable_id = 0xcff29850cb6676d9, sd_name = ''ESC_cst_status'', sd_unit = '''',
      sd_parts = [part_lit 0 12 1],
      sd_invalid_signal_index = 4294967295, sd_can_id = 0x128, sd_frame_index = 10, sd_part_count = 1,
      sd_width = 1, sd_is_signed = 0, sd_calibrated = 0, sd_scale = fp_lit 1 0, sd_offset = fp_lit 0 0\<rparr>,
    \<lparr>sd_stable_id = 0xd5b164be8cf9673b, sd_name = ''ESC_CST_Switch_available'', sd_unit = '''',
      sd_parts = [part_lit 0 11 1],
      sd_invalid_signal_index = 4294967295, sd_can_id = 0x128, sd_frame_index = 10, sd_part_count = 1,
      sd_width = 1, sd_is_signed = 0, sd_calibrated = 0, sd_scale = fp_lit 1 0, sd_offset = fp_lit 0 0\<rparr>,
    \<lparr>sd_stable_id = 0x393810e6631b49d9, sd_name = ''ESC_EPB_ApplyAvailable'', sd_unit = '''',
      sd_parts = [part_lit 0 9 1],
      sd_invalid_signal_index = 4294967295, sd_can_id = 0x128, sd_frame_index = 10, sd_part_count = 1,
      sd_width = 1, sd_is_signed = 0, sd_calibrated = 0, sd_scale = fp_lit 1 0, sd_offset = fp_lit 0 0\<rparr>,
    \<lparr>sd_stable_id = 0x6ad982a14466a05a, sd_name = ''ESC_EPB_ReleaseAvailable'', sd_unit = '''',
      sd_parts = [part_lit 0 8 1],
      sd_invalid_signal_index = 4294967295, sd_can_id = 0x128, sd_frame_index = 10, sd_part_count = 1,
      sd_width = 1, sd_is_signed = 0, sd_calibrated = 0, sd_scale = fp_lit 1 0, sd_offset = fp_lit 0 0\<rparr>,
    \<lparr>sd_stable_id = 0xfa8fc63202676825, sd_name = ''ESC_EPB_AutoApplyStatus'', sd_unit = '''',
      sd_parts = [part_lit 0 6 1],
      sd_invalid_signal_index = 4294967295, sd_can_id = 0x128, sd_frame_index = 10, sd_part_count = 1,
      sd_width = 1, sd_is_signed = 0, sd_calibrated = 0, sd_scale = fp_lit 1 0, sd_offset = fp_lit 0 0\<rparr>,
    \<lparr>sd_stable_id = 0x3be0d74f30544b35, sd_name = ''ESC_EPB_SoftSwitchAvailable'', sd_unit = '''',
      sd_parts = [part_lit 0 4 2],
      sd_invalid_signal_index = 4294967295, sd_can_id = 0x128, sd_frame_index = 10, sd_part_count = 1,
      sd_width = 2, sd_is_signed = 0, sd_calibrated = 0, sd_scale = fp_lit 1 0, sd_offset = fp_lit 0 0\<rparr>,
    \<lparr>sd_stable_id = 0x7cbf7686a9484979, sd_name = ''ESC_ISAStatus'', sd_unit = '''',
      sd_parts = [part_lit 0 2 2],
      sd_invalid_signal_index = 4294967295, sd_can_id = 0x128, sd_frame_index = 10, sd_part_count = 1,
      sd_width = 2, sd_is_signed = 0, sd_calibrated = 0, sd_scale = fp_lit 1 0, sd_offset = fp_lit 0 0\<rparr>,
    \<lparr>sd_stable_id = 0x6335f463cd669d44, sd_name = ''ESC_ISA_Switch_Available'', sd_unit = '''',
      sd_parts = [part_lit 0 1 1],
      sd_invalid_signal_index = 4294967295, sd_can_id = 0x128, sd_frame_index = 10, sd_part_count = 1,
      sd_width = 1, sd_is_signed = 0, sd_calibrated = 0, sd_scale = fp_lit 1 0, sd_offset = fp_lit 0 0\<rparr>,
    \<lparr>sd_stable_id = 0x1730ebe5a7a1117c, sd_name = ''ESC_RoadInclnRoadIncln'', sd_unit = ''%'',
      sd_parts = [part_lit 4 24 8, part_lit 4 16 3],
      sd_invalid_signal_index = 4294967295, sd_can_id = 0x128, sd_frame_index = 10, sd_part_count = 2,
      sd_width = 11, sd_is_signed = 0, sd_calibrated = 1, sd_scale = fp_lit (- 10000000000000001) 17, sd_offset = fp_lit 100 0\<rparr>,
    \<lparr>sd_stable_id = 0x0ffcd765f362d331, sd_name = ''ESC_Regen_AliveCounter'', sd_unit = '''',
      sd_parts = [part_lit 4 12 4],
      sd_invalid_signal_index = 4294967295, sd_can_id = 0x128, sd_frame_index = 10, sd_part_count = 1,
      sd_width = 4, sd_is_signed = 0, sd_calibrated = 0, sd_scale = fp_lit 1 0, sd_offset = fp_lit 0 0\<rparr>]"

lemma ROADCAST_SIGNALS_45_ok: "block_ok ROADCAST_CAN_IDS 815 450 10 ROADCAST_SIGNALS_45"
  by (simp add: ROADCAST_SIGNALS_45_def signal_eval)

definition ROADCAST_SIGNALS_46 :: "roadcast_signal_definition list" where
  "ROADCAST_SIGNALS_46 = [
    \<lparr>sd_stable_id = 0x89b8499119d514af, sd_name = ''ESC_VBF_Switch_available'', sd_unit = '''',
      sd_parts = [part_lit 4 11 1],
      sd_invalid_signal_index = 4294967295, sd_can_id = 0x128, sd_frame_index = 10, sd_part_count = 1,
      sd_width = 1, sd_is_signed = 0, sd_calibrated = 0, sd_scale = fp_lit 1 0, sd_offset = fp_lit 0 0\<rparr>,
    \<lparr>sd_stable_id = 0xdaa26e773949929d, sd_name = ''ESC_VBF_status'', sd_unit = '''',
      sd_parts = [part_lit 4 10 1],
      sd_invalid_signal_index = 4294967295, sd_can_id = 0x128, sd_frame_index = 10, sd_part_count = 1,
      sd_width = 1, sd_is_signed = 0, sd_calibrated = 0, sd_scale = fp_lit 1 0, sd_offset = fp_lit 0 0\<rparr>,
    \<lparr>sd_stable_id = 0xa30d8dbd1a7d10c9, sd_name = ''ESC_Regen_Checksum'', sd_unit = '''',
      sd_parts = [part_lit 4 0 8],
      sd_invalid_signal_index = 4294967295, sd_can_id = 0x128, sd_frame_index = 10, sd_part_count = 1,
      sd_width = 8, sd_is_signed = 0, sd_calibrated = 0, sd_scale = fp_lit 1 0, sd_offset = fp_lit 0 0\<rparr>,
    \<lparr>sd_stable_id = 0x69736532cc630200, sd_name = ''VCU_ModeGearDisplaySts'', sd_unit = '''',
      sd_parts = [part_lit 0 19 5],
      sd_invalid_signal_index = 4294967295, sd_can_id = 0x165, sd_frame_index = 17, sd_part_count = 1,
      sd_width = 5, sd_is_signed = 0, sd_calibrated = 0, sd_scale = fp_lit 1 0, sd_offset = fp_lit 0 0\<rparr>,
    \<lparr>sd_stable_id = 0xbc90dd3782ffd4fa, sd_name = ''VCU_SmartTravelingRejt'', sd_unit = '''',
      sd_parts = [part_lit 0 1 2],
      sd_invalid_signal_index = 4294967295, sd_can_id = 0x165, sd_frame_index = 17, sd_part_count = 1,
      sd_width = 2, sd_is_signed = 0, sd_calibrated = 0, sd_scale = fp_lit 1 0, sd_offset = fp_lit 0 0\<rparr>,
    \<lparr>sd_stable_id = 0x893f8af9c0bf199d, sd_name = ''VCU_SOCpointSetsts'', sd_unit = '''',
      sd_parts = [part_lit 4 24 7],
      sd_invalid_signal_index = 4294967295, sd_can_id = 0x165, sd_frame_index = 17, sd_part_count = 1,
      sd_width = 7, sd_is_signed = 0, sd_calibrated = 0, sd_scale = fp_lit 1 0, sd_offset = fp_lit 0 0\<rparr>,
    \<lparr>sd_stable_id = 0xdc28db8bd63ef7f5, sd_name = ''PEPS_PowerModeValidity'', sd_unit = '''',
      sd_parts = [part_lit 0 30 2],
      sd_invalid_signal_index = 4294967295, sd_can_id = 0x1E2, sd_frame_index = 30, sd_part_count = 1,
      sd_width = 2, sd_is_signed = 0, sd_calibrated = 0, sd_scale = fp_lit 1 0, sd_offset = fp_lit 0 0\<rparr>,
    \<lparr>sd_stable_id = 0x39b7346d02c1d3d7, sd_name = ''PEPS_PowerMode'', sd_unit = '''',
      sd_parts = [part_lit 0 27 3],
      sd_invalid_signal_index = 4294967295, sd_can_id = 0x1E2, sd_frame_index = 30, sd_part_count = 1,
      sd_width = 3, sd_is_signed = 0, sd_calibrated = 0, sd_scale = fp_lit 1 0, sd_offset = fp_lit 0 0\<rparr>,
    \<lparr>sd_stable_id = 0x02c9db6b6de8ea95, sd_name = ''PEPS_RemoteControlSt'', sd_unit = '''',
      sd_parts = [part_lit 0 24 1],
      sd_invalid_signal_index = 4294967295, sd_can_id = 0x1E2, sd_frame_index = 30, sd_part_count = 1,
      sd_width = 1, sd_is_signed = 0, sd_calibrated = 0, sd_scale = fp_lit 1 0, sd_offset = fp_lit 0 0\<rparr>,
    \<lparr>sd_stable_id = 0x760f149f6aeb97da, sd_name = ''ESC_ParkingBrakeFail'', sd_unit = '''',
      sd_parts = [part_lit 0 30 1],
      sd_invalid_signal_index = 4294967295, sd_can_id = 0x12F, sd_frame_index = 11, sd_part_count = 1,
      sd_width = 1, sd_is_signed = 0, sd_calibrated = 0, sd_scale = fp_lit 1 0, sd_offset = fp_lit 0 0\<rparr>]"

lemma ROADCAST_SIGNALS_46_ok: "block_ok ROADCAST_CAN_IDS 815 460 10 ROADCAST_SIGNALS_46"
  by (simp add: ROADCAST_SIGNALS_46_def signal_eval)

definition ROADCAST_SIGNALS_47 :: "roadcast_signal_definition list" where
  "ROADCAST_SIGNALS_47 = [
    \<lparr>sd_stable_id = 0x3390ab93c2e936ee, sd_name = ''ESC_ISA_Disp_WithoutSeatbelt'', sd_unit = '''',
      sd_parts = [part_lit 0 26 1],
      sd_invalid_signal_index = 4294967295, sd_can_id = 0x12F, sd_frame_index = 11, sd_part_count = 1,
      sd_width = 1, sd_is_signed = 0, sd_calibrated = 0, sd_scale = fp_lit 1 0, sd_offset = fp_lit 0 0\<rparr>,
    \<lparr>sd_stable_id = 0xbcc1d9daa48ef498, sd_name = ''ESC_ShowModeEnable'', sd_unit = '''',
      sd_parts = [part_lit 0 13 1],
      sd_invalid_signal_index = 4294967295, sd_can_id = 0x12F, sd_frame_index = 11, sd_part_count = 1,
      sd_width = 1, sd_is_signed = 0, sd_calibrated = 0, sd_scale = fp_lit 1 0, sd_offset = fp_lit 0 0\<rparr>,
    \<lparr>sd_stable_id = 0x77961782d2df3554, sd_name = ''ESC_TrlrModBCSts'', sd_unit = '''',
      sd_parts = [part_lit 4 30 2],
      sd_invalid_signal_index = 4294967295, sd_can_id = 0x12F, sd_frame_index = 11, sd_part_count = 1,
      sd_width = 2, sd_is_signed = 0, sd_calibrated = 0, sd_scale = fp_lit 1 0, sd_offset = fp_lit 0 0\<rparr>,
    \<lparr>sd_stable_id = 0x8fd4ecd7f6425be5, sd_name = ''FCS_Driveoff_Switch'', sd_unit = '''',
      sd_parts = [part_lit 4 10 2],
      sd_invalid_signal_index = 4294967295, sd_can_id = 0x1A6, sd_frame_index = 28, sd_part_count = 1,
      sd_width = 2, sd_is_signed = 0, sd_calibrated = 0, sd_scale = fp_lit 1 0, sd_offset = fp_lit 0 0\<rparr>,
    \<lparr>sd_stable_id = 0x86110b3aa9abac90, sd_name = ''VCU_StartActive'', sd_unit = '''',
      sd_parts = [part_lit 4 31 1],
      sd_invalid_signal_index = 4294967295, sd_can_id = 0x1A5, sd_frame_index = 27, sd_part_count = 1,
      sd_width = 1, sd_is_signed = 0, sd_calibrated = 0, sd_scale = fp_lit 1 0, sd_offset = fp_lit 0 0\<rparr>,
    \<lparr>sd_stable_id = 0xc4446bc1be182716, sd_name = ''VCU_CruiseControlSts'', sd_unit = '''',
      sd_parts = [part_lit 4 25 3],
      sd_invalid_signal_index = 4294967295, sd_can_id = 0x1A5, sd_frame_index = 27, sd_part_count = 1,
      sd_width = 3, sd_is_signed = 0, sd_calibrated = 0, sd_scale = fp_lit 1 0, sd_offset = fp_lit 0 0\<rparr>,
    \<lparr>sd_stable_id = 0x92d30e2c5ce999e7, sd_name = ''VCU_CruiseSwitchSts'', sd_unit = '''',
      sd_parts = [part_lit 4 24 1],
      sd_invalid_signal_index = 4294967295, sd_can_id = 0x1A5, sd_frame_index = 27, sd_part_count = 1,
      sd_width = 1, sd_is_signed = 0, sd_calibrated = 0, sd_scale = fp_lit 1 0, sd_offset = fp_lit 0 0\<rparr>,
    \<lparr>sd_stable_id = 0x90fd9118fcd89eb6, sd_name = ''BCM_Warning_LOW_BATTU'', sd_unit = '''',
      sd_parts = [part_lit 0 14 1],
      sd_invalid_signal_index = 4294967295, sd_can_id = 0x272, sd_frame_index = 47, sd_part_count = 1,
      sd_width = 1, sd_is_signed = 0, sd_calibrated = 0, sd_scale = fp_lit 1 0, sd_offset = fp_lit 0 0\<rparr>,
    \<lparr>sd_stable_id = 0x28e73dcf9e48c9b2, sd_name = ''PEPS_Warning_BatterySaving'', sd_unit = '''',
      sd_parts = [part_lit 0 5 1],
      sd_invalid_signal_index = 4294967295, sd_can_id = 0x272, sd_frame_index = 47, sd_part_count = 1,
      sd_width = 1, sd_is_signed = 0, sd_calibrated = 0, sd_scale = fp_lit 1 0, sd_offset = fp_lit 0 0\<rparr>,
    \<lparr>sd_stable_id = 0xfcb05a15449cd710, sd_name = ''PEPS_WelcomeLightSetResp'', sd_unit = '''',
      sd_parts = [part_lit 4 9 1],
      sd_invalid_signal_index = 4294967295, sd_can_id = 0x272, sd_frame_index = 47, sd_part_count = 1,
      sd_width = 1, sd_is_signed = 0, sd_calibrated = 0, sd_scale = fp_lit 1 0, sd_offset = fp_lit 0 0\<rparr>]"

lemma ROADCAST_SIGNALS_47_ok: "block_ok ROADCAST_CAN_IDS 815 470 10 ROADCAST_SIGNALS_47"
  by (simp add: ROADCAST_SIGNALS_47_def signal_eval)

definition ROADCAST_SIGNALS_48 :: "roadcast_signal_definition list" where
  "ROADCAST_SIGNALS_48 = [
    \<lparr>sd_stable_id = 0x1b247bb37299bf3f, sd_name = ''PEPS_KeyInReminderCfgResult'', sd_unit = '''',
      sd_parts = [part_lit 4 7 1],
      sd_invalid_signal_index = 4294967295, sd_can_id = 0x272, sd_frame_index = 47, sd_part_count = 1,
      sd_width = 1, sd_is_signed = 0, sd_calibrated = 0, sd_scale = fp_lit 1 0, sd_offset = fp_lit 0 0\<rparr>,
    \<lparr>sd_stable_id = 0x0183db47e9a73e86, sd_name = ''PEPS_TrunkUnlockWithoutKeyCfgResult'', sd_unit = '''',
      sd_parts = [part_lit 4 6 1],
      sd_invalid_signal_index = 4294967295, sd_can_id = 0x272, sd_frame_index = 47, sd_part_count = 1,
      sd_width = 1, sd_is_signed = 0, sd_calibrated = 0, sd_scale = fp_lit 1 0, sd_offset = fp_lit 0 0\<rparr>,
    \<lparr>sd_stable_id = 0x4f2430133a614d86, sd_name = ''PEPS_TrunkUnlockDistanceCfgResult'', sd_unit = '''',
      sd_parts = [part_lit 4 5 1],
      sd_invalid_signal_index = 4294967295, sd_can_id = 0x272, sd_frame_index = 47, sd_part_count = 1,
      sd_width = 1, sd_is_signed = 0, sd_calibrated = 0, sd_scale = fp_lit 1 0, sd_offset = fp_lit 0 0\<rparr>,
    \<lparr>sd_stable_id = 0xe5da775a05ddfb2b, sd_name = ''PEPS_TerminalNotOFFWarnCfgResult'', sd_unit = '''',
      sd_parts = [part_lit 4 4 1],
      sd_invalid_signal_index = 4294967295, sd_can_id = 0x272, sd_frame_index = 47, sd_part_count = 1,
      sd_width = 1, sd_is_signed = 0, sd_calibrated = 0, sd_scale = fp_lit 1 0, sd_offset = fp_lit 0 0\<rparr>,
    \<lparr>sd_stable_id = 0xe83aec5149fa52ab, sd_name = ''PEPS_AnyDoorOpenWarnCfgResult'', sd_unit = '''',
      sd_parts = [part_lit 4 3 1],
      sd_invalid_signal_index = 4294967295, sd_can_id = 0x272, sd_frame_index = 47, sd_part_count = 1,
      sd_width = 1, sd_is_signed = 0, sd_calibrated = 0, sd_scale = fp_lit 1 0, sd_offset = fp_lit 0 0\<rparr>,
    \<lparr>sd_stable_id = 0xeb186897a9827bc5, sd_name = ''PEPS_APUCfgResult'', sd_unit = '''',
      sd_parts = [part_lit 4 2 1],
      sd_invalid_signal_index = 4294967295, sd_can_id = 0x272, sd_frame_index = 47, sd_part_count = 1,
      sd_width = 1, sd_is_signed = 0, sd_calibrated = 0, sd_scale = fp_lit 1 0, sd_offset = fp_lit 0 0\<rparr>,
    \<lparr>sd_stable_id = 0xb7cad1cb16c48b55, sd_name = ''PEPS_WALCfgResult'', sd_unit = '''',
      sd_parts = [part_lit 4 1 1],
      sd_invalid_signal_index = 4294967295, sd_can_id = 0x272, sd_frame_index = 47, sd_part_count = 1,
      sd_width = 1, sd_is_signed = 0, sd_calibrated = 0, sd_scale = fp_lit 1 0, sd_offset = fp_lit 0 0\<rparr>,
    \<lparr>sd_stable_id = 0x4c64222d11ced3aa, sd_name = ''PEPS_SATOCfgResult'', sd_unit = '''',
      sd_parts = [part_lit 4 0 1],
      sd_invalid_signal_index = 4294967295, sd_can_id = 0x272, sd_frame_index = 47, sd_part_count = 1,
      sd_width = 1, sd_is_signed = 0, sd_calibrated = 0, sd_scale = fp_lit 1 0, sd_offset = fp_lit 0 0\<rparr>,
    \<lparr>sd_stable_id = 0x11b08547b83f8fa7, sd_name = ''iTPMS_FLTyreWarn'', sd_unit = '''',
      sd_parts = [part_lit 0 30 2],
      sd_invalid_signal_index = 4294967295, sd_can_id = 0x1EB, sd_frame_index = 31, sd_part_count = 1,
      sd_width = 2, sd_is_signed = 0, sd_calibrated = 0, sd_scale = fp_lit 1 0, sd_offset = fp_lit 0 0\<rparr>,
    \<lparr>sd_stable_id = 0xa5e6b50f92df9515, sd_name = ''iTPMS_FRTyreWarn'', sd_unit = '''',
      sd_parts = [part_lit 0 28 2],
      sd_invalid_signal_index = 4294967295, sd_can_id = 0x1EB, sd_frame_index = 31, sd_part_count = 1,
      sd_width = 2, sd_is_signed = 0, sd_calibrated = 0, sd_scale = fp_lit 1 0, sd_offset = fp_lit 0 0\<rparr>]"

lemma ROADCAST_SIGNALS_48_ok: "block_ok ROADCAST_CAN_IDS 815 480 10 ROADCAST_SIGNALS_48"
  by (simp add: ROADCAST_SIGNALS_48_def signal_eval)

definition ROADCAST_SIGNALS_49 :: "roadcast_signal_definition list" where
  "ROADCAST_SIGNALS_49 = [
    \<lparr>sd_stable_id = 0x8d056cde21b4ca7b, sd_name = ''iTPMS_RLTyreWarn'', sd_unit = '''',
      sd_parts = [part_lit 0 26 2],
      sd_invalid_signal_index = 4294967295, sd_can_id = 0x1EB, sd_frame_index = 31, sd_part_count = 1,
      sd_width = 2, sd_is_signed = 0, sd_calibrated = 0, sd_scale = fp_lit 1 0, sd_offset = fp_lit 0 0\<rparr>,
    \<lparr>sd_stable_id = 0xc09bad6f5d9e78e1, sd_name = ''iTPMS_RRTyreWarn'', sd_unit = '''',
      sd_parts = [part_lit 0 24 2],
      sd_invalid_signal_index = 4294967295, sd_can_id = 0x1EB, sd_frame_index = 31, sd_part_count = 1,
      sd_width = 2, sd_is_signed = 0, sd_calibrated = 0, sd_scale = fp_lit 1 0, sd_offset = fp_lit 0 0\<rparr>,
    \<lparr>sd_stable_id = 0x9a0a1edb19cc9ae6, sd_name = ''iTPMS_comTyreWarn'', sd_unit = '''',
      sd_parts = [part_lit 0 22 2],
      sd_invalid_signal_index = 4294967295, sd_can_id = 0x1EB, sd_frame_index = 31, sd_part_count = 1,
      sd_width = 2, sd_is_signed = 0, sd_calibrated = 0, sd_scale = fp_lit 1 0, sd_offset = fp_lit 0 0\<rparr>,
    \<lparr>sd_stable_id = 0xdc38613894b9d4ed, sd_name = ''iTPMS_SystemSt'', sd_unit = '''',
      sd_parts = [part_lit 0 20 2],
      sd_invalid_signal_index = 4294967295, sd_can_id = 0x1EB, sd_frame_index = 31, sd_part_count = 1,
      sd_width = 2, sd_is_signed = 0, sd_calibrated = 0, sd_scale = fp_lit 1 0, sd_offset = fp_lit 0 0\<rparr>,
    \<lparr>sd_stable_id = 0xa0ed5f3ec113ed99, sd_name = ''iTPMSCalPsbl'', sd_unit = '''',
      sd_parts = [part_lit 0 19 1],
      sd_invalid_signal_index = 4294967295, sd_can_id = 0x1EB, sd_frame_index = 31, sd_part_count = 1,
      sd_width = 1, sd_is_signed = 0, sd_calibrated = 0, sd_scale = fp_lit 1 0, sd_offset = fp_lit 0 0\<rparr>,
    \<lparr>sd_stable_id = 0xf716b717a465ea5a, sd_name = ''iTPMSCalsts'', sd_unit = '''',
      sd_parts = [part_lit 0 16 3],
      sd_invalid_signal_index = 4294967295, sd_can_id = 0x1EB, sd_frame_index = 31, sd_part_count = 1,
      sd_width = 3, sd_is_signed = 0, sd_calibrated = 0, sd_scale = fp_lit 1 0, sd_offset = fp_lit 0 0\<rparr>,
    \<lparr>sd_stable_id = 0xd2ff9a5aca56a821, sd_name = ''PTG_OpenSts'', sd_unit = '''',
      sd_parts = [part_lit 0 24 8],
      sd_invalid_signal_index = 4294967295, sd_can_id = 0x2C8, sd_frame_index = 75, sd_part_count = 1,
      sd_width = 8, sd_is_signed = 0, sd_calibrated = 0, sd_scale = fp_lit 1 0, sd_offset = fp_lit 0 0\<rparr>,
    \<lparr>sd_stable_id = 0xc88565aab80c01db, sd_name = ''PTG_PinchEvent'', sd_unit = '''',
      sd_parts = [part_lit 0 23 1],
      sd_invalid_signal_index = 4294967295, sd_can_id = 0x2C8, sd_frame_index = 75, sd_part_count = 1,
      sd_width = 1, sd_is_signed = 0, sd_calibrated = 0, sd_scale = fp_lit 1 0, sd_offset = fp_lit 0 0\<rparr>,
    \<lparr>sd_stable_id = 0x62aae7e4846f6e67, sd_name = ''PTG_OperateSts'', sd_unit = '''',
      sd_parts = [part_lit 0 21 2],
      sd_invalid_signal_index = 4294967295, sd_can_id = 0x2C8, sd_frame_index = 75, sd_part_count = 1,
      sd_width = 2, sd_is_signed = 0, sd_calibrated = 0, sd_scale = fp_lit 1 0, sd_offset = fp_lit 0 0\<rparr>,
    \<lparr>sd_stable_id = 0xd65bcf8eaf0d2a9d, sd_name = ''PTG_TrunkUpBasicPositionResp'', sd_unit = '''',
      sd_parts = [part_lit 0 13 3],
      sd_invalid_signal_index = 4294967295, sd_can_id = 0x2C8, sd_frame_index = 75, sd_part_count = 1,
      sd_width = 3, sd_is_signed = 0, sd_calibrated = 0, sd_scale = fp_lit 1 0, sd_offset = fp_lit 0 0\<rparr>]"

lemma ROADCAST_SIGNALS_49_ok: "block_ok ROADCAST_CAN_IDS 815 490 10 ROADCAST_SIGNALS_49"
  by (simp add: ROADCAST_SIGNALS_49_def signal_eval)

definition ROADCAST_SIGNALS_50 :: "roadcast_signal_definition list" where
  "ROADCAST_SIGNALS_50 = [
    \<lparr>sd_stable_id = 0xfdb2e6b629f9b56e, sd_name = ''PTG_SystemFault'', sd_unit = '''',
      sd_parts = [part_lit 0 7 1],
      sd_invalid_signal_index = 4294967295, sd_can_id = 0x2C8, sd_frame_index = 75, sd_part_count = 1,
      sd_width = 1, sd_is_signed = 0, sd_calibrated = 0, sd_scale = fp_lit 1 0, sd_offset = fp_lit 0 0\<rparr>,
    \<lparr>sd_stable_id = 0x756190e65f4a4d55, sd_name = ''L_Roll_Val_Opened'', sd_unit = '''',
      sd_parts = [part_lit 0 25 7],
      sd_invalid_signal_index = 4294967295, sd_can_id = 0x290, sd_frame_index = 58, sd_part_count = 1,
      sd_width = 7, sd_is_signed = 0, sd_calibrated = 0, sd_scale = fp_lit 1 0, sd_offset = fp_lit 0 0\<rparr>,
    \<lparr>sd_stable_id = 0x6f1d995e8a644ba3, sd_name = ''BCM_MusicRhythmSts'', sd_unit = '''',
      sd_parts = [part_lit 0 23 1],
      sd_invalid_signal_index = 4294967295, sd_can_id = 0x290, sd_frame_index = 58, sd_part_count = 1,
      sd_width = 1, sd_is_signed = 0, sd_calibrated = 0, sd_scale = fp_lit 1 0, sd_offset = fp_lit 0 0\<rparr>,
    \<lparr>sd_stable_id = 0x9bd286f4f38a3446, sd_name = ''BCM_ExtLightOutput'', sd_unit = '''',
      sd_parts = [part_lit 0 22 1],
      sd_invalid_signal_index = 4294967295, sd_can_id = 0x290, sd_frame_index = 58, sd_part_count = 1,
      sd_width = 1, sd_is_signed = 0, sd_calibrated = 0, sd_scale = fp_lit 1 0, sd_offset = fp_lit 0 0\<rparr>,
    \<lparr>sd_stable_id = 0x9944b055ca9d3a74, sd_name = ''BCM_FrontWiperServiceModeReqSts'', sd_unit = '''',
      sd_parts = [part_lit 0 19 1],
      sd_invalid_signal_index = 4294967295, sd_can_id = 0x290, sd_frame_index = 58, sd_part_count = 1,
      sd_width = 1, sd_is_signed = 0, sd_calibrated = 0, sd_scale = fp_lit 1 0, sd_offset = fp_lit 0 0\<rparr>,
    \<lparr>sd_stable_id = 0x37689a4355d89241, sd_name = ''BCM_FailReason2MMI'', sd_unit = '''',
      sd_parts = [part_lit 0 16 3],
      sd_invalid_signal_index = 4294967295, sd_can_id = 0x290, sd_frame_index = 58, sd_part_count = 1,
      sd_width = 3, sd_is_signed = 0, sd_calibrated = 0, sd_scale = fp_lit 1 0, sd_offset = fp_lit 0 0\<rparr>,
    \<lparr>sd_stable_id = 0x3ab1added3cdbeda, sd_name = ''TBOX_MMI_RemoteViewModeReq'', sd_unit = '''',
      sd_parts = [part_lit 0 19 2],
      sd_invalid_signal_index = 4294967295, sd_can_id = 0x295, sd_frame_index = 61, sd_part_count = 1,
      sd_width = 2, sd_is_signed = 0, sd_calibrated = 0, sd_scale = fp_lit 1 0, sd_offset = fp_lit 0 0\<rparr>,
    \<lparr>sd_stable_id = 0xd5d1418baf823097, sd_name = ''TBOX_RVSSts'', sd_unit = '''',
      sd_parts = [part_lit 0 15 1],
      sd_invalid_signal_index = 4294967295, sd_can_id = 0x295, sd_frame_index = 61, sd_part_count = 1,
      sd_width = 1, sd_is_signed = 0, sd_calibrated = 0, sd_scale = fp_lit 1 0, sd_offset = fp_lit 0 0\<rparr>,
    \<lparr>sd_stable_id = 0xbd81644a102b318a, sd_name = ''TBOX_VLSupdateSts'', sd_unit = '''',
      sd_parts = [part_lit 0 14 1],
      sd_invalid_signal_index = 4294967295, sd_can_id = 0x295, sd_frame_index = 61, sd_part_count = 1,
      sd_width = 1, sd_is_signed = 0, sd_calibrated = 0, sd_scale = fp_lit 1 0, sd_offset = fp_lit 0 0\<rparr>,
    \<lparr>sd_stable_id = 0xd12eb08456cd0d8b, sd_name = ''TBOX_MMI_RemoteViewChangeReq'', sd_unit = '''',
      sd_parts = [part_lit 0 11 3],
      sd_invalid_signal_index = 4294967295, sd_can_id = 0x295, sd_frame_index = 61, sd_part_count = 1,
      sd_width = 3, sd_is_signed = 0, sd_calibrated = 0, sd_scale = fp_lit 1 0, sd_offset = fp_lit 0 0\<rparr>]"

lemma ROADCAST_SIGNALS_50_ok: "block_ok ROADCAST_CAN_IDS 815 500 10 ROADCAST_SIGNALS_50"
  by (simp add: ROADCAST_SIGNALS_50_def signal_eval)

definition ROADCAST_SIGNALS_51 :: "roadcast_signal_definition list" where
  "ROADCAST_SIGNALS_51 = [
    \<lparr>sd_stable_id = 0xdce8a4b1b5f39be6, sd_name = ''TBOX_MMI_TransmissionReq'', sd_unit = '''',
      sd_parts = [part_lit 0 8 3],
      sd_invalid_signal_index = 4294967295, sd_can_id = 0x295, sd_frame_index = 61, sd_part_count = 1,
      sd_width = 3, sd_is_signed = 0, sd_calibrated = 0, sd_scale = fp_lit 1 0, sd_offset = fp_lit 0 0\<rparr>,
    \<lparr>sd_stable_id = 0xb83ed7b04b0e06ef, sd_name = ''BMSH_BattVolt'', sd_unit = ''V'',
      sd_parts = [part_lit 4 27 5, part_lit 4 16 8],
      sd_invalid_signal_index = 4294967295, sd_can_id = 0x178, sd_frame_index = 20, sd_part_count = 2,
      sd_width = 13, sd_is_signed = 0, sd_calibrated = 1, sd_scale = fp_lit 10000000000000001 17, sd_offset = fp_lit 0 0\<rparr>,
    \<lparr>sd_stable_id = 0x5ff49601e1b9ae0d, sd_name = ''FRS_ALOD_Mode'', sd_unit = '''',
      sd_parts = [part_lit 4 24 4],
      sd_invalid_signal_index = 4294967295, sd_can_id = 0x1A1, sd_frame_index = 24, sd_part_count = 1,
      sd_width = 4, sd_is_signed = 0, sd_calibrated = 0, sd_scale = fp_lit 1 0, sd_offset = fp_lit 0 0\<rparr>,
    \<lparr>sd_stable_id = 0xeacf9e688bb3e400, sd_name = ''Byte0_680'', sd_unit = '''',
      sd_parts = [part_lit 0 24 8],
      sd_invalid_signal_index = 4294967295, sd_can_id = 0x680, sd_frame_index = 108, sd_part_count = 1,
      sd_width = 8, sd_is_signed = 0, sd_calibrated = 0, sd_scale = fp_lit 1 0, sd_offset = fp_lit 0 0\<rparr>,
    \<lparr>sd_stable_id = 0x5c3cc68e909fe8b3, sd_name = ''Byte1_680'', sd_unit = '''',
      sd_parts = [part_lit 0 16 8],
      sd_invalid_signal_index = 4294967295, sd_can_id = 0x680, sd_frame_index = 108, sd_part_count = 1,
      sd_width = 8, sd_is_signed = 0, sd_calibrated = 0, sd_scale = fp_lit 1 0, sd_offset = fp_lit 0 0\<rparr>,
    \<lparr>sd_stable_id = 0x90506a610f396ffa, sd_name = ''Byte2_680'', sd_unit = '''',
      sd_parts = [part_lit 0 8 8],
      sd_invalid_signal_index = 4294967295, sd_can_id = 0x680, sd_frame_index = 108, sd_part_count = 1,
      sd_width = 8, sd_is_signed = 0, sd_calibrated = 0, sd_scale = fp_lit 1 0, sd_offset = fp_lit 0 0\<rparr>,
    \<lparr>sd_stable_id = 0x6dd93074986eb24d, sd_name = ''Byte3_680'', sd_unit = '''',
      sd_parts = [part_lit 0 0 8],
      sd_invalid_signal_index = 4294967295, sd_can_id = 0x680, sd_frame_index = 108, sd_part_count = 1,
      sd_width = 8, sd_is_signed = 0, sd_calibrated = 0, sd_scale = fp_lit 1 0, sd_offset = fp_lit 0 0\<rparr>,
    \<lparr>sd_stable_id = 0xbcd6ac9a89e8b884, sd_name = ''Byte4_680'', sd_unit = '''',
      sd_parts = [part_lit 4 24 8],
      sd_invalid_signal_index = 4294967295, sd_can_id = 0x680, sd_frame_index = 108, sd_part_count = 1,
      sd_width = 8, sd_is_signed = 0, sd_calibrated = 0, sd_scale = fp_lit 1 0, sd_offset = fp_lit 0 0\<rparr>,
    \<lparr>sd_stable_id = 0x9b55ee82f6cd4457, sd_name = ''Byte5_680'', sd_unit = '''',
      sd_parts = [part_lit 4 16 8],
      sd_invalid_signal_index = 4294967295, sd_can_id = 0x680, sd_frame_index = 108, sd_part_count = 1,
      sd_width = 8, sd_is_signed = 0, sd_calibrated = 0, sd_scale = fp_lit 1 0, sd_offset = fp_lit 0 0\<rparr>,
    \<lparr>sd_stable_id = 0x3f116aab5c47798e, sd_name = ''Byte6_680'', sd_unit = '''',
      sd_parts = [part_lit 4 8 8],
      sd_invalid_signal_index = 4294967295, sd_can_id = 0x680, sd_frame_index = 108, sd_part_count = 1,
      sd_width = 8, sd_is_signed = 0, sd_calibrated = 0, sd_scale = fp_lit 1 0, sd_offset = fp_lit 0 0\<rparr>]"

lemma ROADCAST_SIGNALS_51_ok: "block_ok ROADCAST_CAN_IDS 815 510 10 ROADCAST_SIGNALS_51"
  by (simp add: ROADCAST_SIGNALS_51_def signal_eval)

definition ROADCAST_SIGNALS_52 :: "roadcast_signal_definition list" where
  "ROADCAST_SIGNALS_52 = [
    \<lparr>sd_stable_id = 0xc7a5b0bc714e23f1, sd_name = ''Byte7_680'', sd_unit = '''',
      sd_parts = [part_lit 4 0 8],
      sd_invalid_signal_index = 4294967295, sd_can_id = 0x680, sd_frame_index = 108, sd_part_count = 1,
      sd_width = 8, sd_is_signed = 0, sd_calibrated = 0, sd_scale = fp_lit 1 0, sd_offset = fp_lit 0 0\<rparr>,
    \<lparr>sd_stable_id = 0x96f100288049369b, sd_name = ''DVR_WIFI_password_Byte0'', sd_unit = '''',
      sd_parts = [part_lit 0 24 8],
      sd_invalid_signal_index = 4294967295, sd_can_id = 0x3FE, sd_frame_index = 107, sd_part_count = 1,
      sd_width = 8, sd_is_signed = 0, sd_calibrated = 0, sd_scale = fp_lit 1 0, sd_offset = fp_lit 0 0\<rparr>,
    \<lparr>sd_stable_id = 0x96f0ff28804934e8, sd_name = ''DVR_WIFI_password_Byte1'', sd_unit = '''',
      sd_parts = [part_lit 0 16 8],
      sd_invalid_signal_index = 4294967295, sd_can_id = 0x3FE, sd_frame_index = 107, sd_part_count = 1,
      sd_width = 8, sd_is_signed = 0, sd_calibrated = 0, sd_scale = fp_lit 1 0, sd_offset = fp_lit 0 0\<rparr>,
    \<lparr>sd_stable_id = 0x96f1022880493a01, sd_name = ''DVR_WIFI_password_Byte2'', sd_unit = '''',
      sd_parts = [part_lit 0 8 8],
      sd_invalid_signal_index = 4294967295, sd_can_id = 0x3FE, sd_frame_index = 107, sd_part_count = 1,
      sd_width = 8, sd_is_signed = 0, sd_calibrated = 0, sd_scale = fp_lit 1 0, sd_offset = fp_lit 0 0\<rparr>,
    \<lparr>sd_stable_id = 0x96f101288049384e, sd_name = ''DVR_WIFI_password_Byte3'', sd_unit = '''',
      sd_parts = [part_lit 0 0 8],
      sd_invalid_signal_index = 4294967295, sd_can_id = 0x3FE, sd_frame_index = 107, sd_part_count = 1,
      sd_width = 8, sd_is_signed = 0, sd_calibrated = 0, sd_scale = fp_lit 1 0, sd_offset = fp_lit 0 0\<rparr>,
    \<lparr>sd_stable_id = 0x96f1042880493d67, sd_name = ''DVR_WIFI_password_Byte4'', sd_unit = '''',
      sd_parts = [part_lit 4 24 8],
      sd_invalid_signal_index = 4294967295, sd_can_id = 0x3FE, sd_frame_index = 107, sd_part_count = 1,
      sd_width = 8, sd_is_signed = 0, sd_calibrated = 0, sd_scale = fp_lit 1 0, sd_offset = fp_lit 0 0\<rparr>,
    \<lparr>sd_stable_id = 0x96f1032880493bb4, sd_name = ''DVR_WIFI_password_Byte5'', sd_unit = '''',
      sd_parts = [part_lit 4 16 8],
      sd_invalid_signal_index = 4294967295, sd_can_id = 0x3FE, sd_frame_index = 107, sd_part_count = 1,
      sd_width = 8, sd_is_signed = 0, sd_calibrated = 0, sd_scale = fp_lit 1 0, sd_offset = fp_lit 0 0\<rparr>,
    \<lparr>sd_stable_id = 0x96f10628804940cd, sd_name = ''DVR_WIFI_password_Byte6'', sd_unit = '''',
      sd_parts = [part_lit 4 8 8],
      sd_invalid_signal_index = 4294967295, sd_can_id = 0x3FE, sd_frame_index = 107, sd_part_count = 1,
      sd_width = 8, sd_is_signed = 0, sd_calibrated = 0, sd_scale = fp_lit 1 0, sd_offset = fp_lit 0 0\<rparr>,
    \<lparr>sd_stable_id = 0x96f1052880493f1a, sd_name = ''DVR_WIFI_password_Byte7'', sd_unit = '''',
      sd_parts = [part_lit 4 0 8],
      sd_invalid_signal_index = 4294967295, sd_can_id = 0x3FE, sd_frame_index = 107, sd_part_count = 1,
      sd_width = 8, sd_is_signed = 0, sd_calibrated = 0, sd_scale = fp_lit 1 0, sd_offset = fp_lit 0 0\<rparr>,
    \<lparr>sd_stable_id = 0x5ff5ae5b4ebb8c52, sd_name = ''DVR_WIFI_Account_Byte0'', sd_unit = '''',
      sd_parts = [part_lit 0 24 8],
      sd_invalid_signal_index = 4294967295, sd_can_id = 0x3FD, sd_frame_index = 106, sd_part_count = 1,
      sd_width = 8, sd_is_signed = 0, sd_calibrated = 0, sd_scale = fp_lit 1 0, sd_offset = fp_lit 0 0\<rparr>]"

lemma ROADCAST_SIGNALS_52_ok: "block_ok ROADCAST_CAN_IDS 815 520 10 ROADCAST_SIGNALS_52"
  by (simp add: ROADCAST_SIGNALS_52_def signal_eval)

definition ROADCAST_SIGNALS_53 :: "roadcast_signal_definition list" where
  "ROADCAST_SIGNALS_53 = [
    \<lparr>sd_stable_id = 0x5ff5af5b4ebb8e05, sd_name = ''DVR_WIFI_Account_Byte1'', sd_unit = '''',
      sd_parts = [part_lit 0 16 8],
      sd_invalid_signal_index = 4294967295, sd_can_id = 0x3FD, sd_frame_index = 106, sd_part_count = 1,
      sd_width = 8, sd_is_signed = 0, sd_calibrated = 0, sd_scale = fp_lit 1 0, sd_offset = fp_lit 0 0\<rparr>,
    \<lparr>sd_stable_id = 0x5ff5ac5b4ebb88ec, sd_name = ''DVR_WIFI_Account_Byte2'', sd_unit = '''',
      sd_parts = [part_lit 0 8 8],
      sd_invalid_signal_index = 4294967295, sd_can_id = 0x3FD, sd_frame_index = 106, sd_part_count = 1,
      sd_width = 8, sd_is_signed = 0, sd_calibrated = 0, sd_scale = fp_lit 1 0, sd_offset = fp_lit 0 0\<rparr>,
    \<lparr>sd_stable_id = 0x5ff5ad5b4ebb8a9f, sd_name = ''DVR_WIFI_Account_Byte3'', sd_unit = '''',
      sd_parts = [part_lit 0 0 8],
      sd_invalid_signal_index = 4294967295, sd_can_id = 0x3FD, sd_frame_index = 106, sd_part_count = 1,
      sd_width = 8, sd_is_signed = 0, sd_calibrated = 0, sd_scale = fp_lit 1 0, sd_offset = fp_lit 0 0\<rparr>,
    \<lparr>sd_stable_id = 0x5ff5aa5b4ebb8586, sd_name = ''DVR_WIFI_Account_Byte4'', sd_unit = '''',
      sd_parts = [part_lit 4 24 8],
      sd_invalid_signal_index = 4294967295, sd_can_id = 0x3FD, sd_frame_index = 106, sd_part_count = 1,
      sd_width = 8, sd_is_signed = 0, sd_calibrated = 0, sd_scale = fp_lit 1 0, sd_offset = fp_lit 0 0\<rparr>,
    \<lparr>sd_stable_id = 0x5ff5ab5b4ebb8739, sd_name = ''DVR_WIFI_Account_Byte5'', sd_unit = '''',
      sd_parts = [part_lit 4 16 8],
      sd_invalid_signal_index = 4294967295, sd_can_id = 0x3FD, sd_frame_index = 106, sd_part_count = 1,
      sd_width = 8, sd_is_signed = 0, sd_calibrated = 0, sd_scale = fp_lit 1 0, sd_offset = fp_lit 0 0\<rparr>,
    \<lparr>sd_stable_id = 0x5ff5a85b4ebb8220, sd_name = ''DVR_WIFI_Account_Byte6'', sd_unit = '''',
      sd_parts = [part_lit 4 8 8],
      sd_invalid_signal_index = 4294967295, sd_can_id = 0x3FD, sd_frame_index = 106, sd_part_count = 1,
      sd_width = 8, sd_is_signed = 0, sd_calibrated = 0, sd_scale = fp_lit 1 0, sd_offset = fp_lit 0 0\<rparr>,
    \<lparr>sd_stable_id = 0x3c717c272f739aa4, sd_name = ''DVR_WIFI_ConnectStatus'', sd_unit = '''',
      sd_parts = [part_lit 4 6 2],
      sd_invalid_signal_index = 4294967295, sd_can_id = 0x3FD, sd_frame_index = 106, sd_part_count = 1,
      sd_width = 2, sd_is_signed = 0, sd_calibrated = 0, sd_scale = fp_lit 1 0, sd_offset = fp_lit 0 0\<rparr>,
    \<lparr>sd_stable_id = 0x1476dad98e7d2e65, sd_name = ''IPK_EVDTEodometer'', sd_unit = '''',
      sd_parts = [part_lit 0 24 8, part_lit 0 16 4],
      sd_invalid_signal_index = 4294967295, sd_can_id = 0x3F7, sd_frame_index = 105, sd_part_count = 2,
      sd_width = 12, sd_is_signed = 0, sd_calibrated = 0, sd_scale = fp_lit 1 0, sd_offset = fp_lit 0 0\<rparr>,
    \<lparr>sd_stable_id = 0x5959b9aa23ffa16b, sd_name = ''IPK_Second'', sd_unit = '''',
      sd_parts = [part_lit 0 26 6],
      sd_invalid_signal_index = 4294967295, sd_can_id = 0x3F0, sd_frame_index = 102, sd_part_count = 1,
      sd_width = 6, sd_is_signed = 0, sd_calibrated = 0, sd_scale = fp_lit 1 0, sd_offset = fp_lit 0 0\<rparr>,
    \<lparr>sd_stable_id = 0x5f67ddada76f31db, sd_name = ''IPK_Minute'', sd_unit = '''',
      sd_parts = [part_lit 0 18 6],
      sd_invalid_signal_index = 4294967295, sd_can_id = 0x3F0, sd_frame_index = 102, sd_part_count = 1,
      sd_width = 6, sd_is_signed = 0, sd_calibrated = 0, sd_scale = fp_lit 1 0, sd_offset = fp_lit 0 0\<rparr>]"

lemma ROADCAST_SIGNALS_53_ok: "block_ok ROADCAST_CAN_IDS 815 530 10 ROADCAST_SIGNALS_53"
  by (simp add: ROADCAST_SIGNALS_53_def signal_eval)

definition ROADCAST_SIGNALS_54 :: "roadcast_signal_definition list" where
  "ROADCAST_SIGNALS_54 = [
    \<lparr>sd_stable_id = 0x9421a29b0e1b89dd, sd_name = ''IPK_Hour'', sd_unit = '''',
      sd_parts = [part_lit 0 11 5],
      sd_invalid_signal_index = 4294967295, sd_can_id = 0x3F0, sd_frame_index = 102, sd_part_count = 1,
      sd_width = 5, sd_is_signed = 0, sd_calibrated = 0, sd_scale = fp_lit 1 0, sd_offset = fp_lit 0 0\<rparr>,
    \<lparr>sd_stable_id = 0xe5561f9a16d59eb3, sd_name = ''IPK_TimeDisplayMode'', sd_unit = '''',
      sd_parts = [part_lit 0 10 1],
      sd_invalid_signal_index = 4294967295, sd_can_id = 0x3F0, sd_frame_index = 102, sd_part_count = 1,
      sd_width = 1, sd_is_signed = 0, sd_calibrated = 0, sd_scale = fp_lit 1 0, sd_offset = fp_lit 0 0\<rparr>,
    \<lparr>sd_stable_id = 0xe23dff85497fc12f, sd_name = ''IPK_Day'', sd_unit = '''',
      sd_parts = [part_lit 0 3 5],
      sd_invalid_signal_index = 4294967295, sd_can_id = 0x3F0, sd_frame_index = 102, sd_part_count = 1,
      sd_width = 5, sd_is_signed = 0, sd_calibrated = 0, sd_scale = fp_lit 1 0, sd_offset = fp_lit 0 0\<rparr>,
    \<lparr>sd_stable_id = 0x73b1fc4b8a758667, sd_name = ''IPK_Month'', sd_unit = '''',
      sd_parts = [part_lit 4 28 4],
      sd_invalid_signal_index = 4294967295, sd_can_id = 0x3F0, sd_frame_index = 102, sd_part_count = 1,
      sd_width = 4, sd_is_signed = 0, sd_calibrated = 0, sd_scale = fp_lit 1 0, sd_offset = fp_lit 0 0\<rparr>,
    \<lparr>sd_stable_id = 0x6b0f0317ce501fc6, sd_name = ''IPK_Year'', sd_unit = '''',
      sd_parts = [part_lit 4 18 6],
      sd_invalid_signal_index = 4294967295, sd_can_id = 0x3F0, sd_frame_index = 102, sd_part_count = 1,
      sd_width = 6, sd_is_signed = 0, sd_calibrated = 0, sd_scale = fp_lit 1 0, sd_offset = fp_lit 0 0\<rparr>,
    \<lparr>sd_stable_id = 0xae1637d2931978f1, sd_name = ''PAS_SDW_MODE'', sd_unit = '''',
      sd_parts = [part_lit 0 29 3],
      sd_invalid_signal_index = 4294967295, sd_can_id = 0x392, sd_frame_index = 100, sd_part_count = 1,
      sd_width = 3, sd_is_signed = 0, sd_calibrated = 0, sd_scale = fp_lit 1 0, sd_offset = fp_lit 0 0\<rparr>,
    \<lparr>sd_stable_id = 0xe6818a6fa701a7d1, sd_name = ''PAS_SDW_Hatch_FR'', sd_unit = '''',
      sd_parts = [part_lit 0 28 1],
      sd_invalid_signal_index = 4294967295, sd_can_id = 0x392, sd_frame_index = 100, sd_part_count = 1,
      sd_width = 1, sd_is_signed = 0, sd_calibrated = 0, sd_scale = fp_lit 1 0, sd_offset = fp_lit 0 0\<rparr>,
    \<lparr>sd_stable_id = 0xe681946fa701b8cf, sd_name = ''PAS_SDW_Hatch_FL'', sd_unit = '''',
      sd_parts = [part_lit 0 27 1],
      sd_invalid_signal_index = 4294967295, sd_can_id = 0x392, sd_frame_index = 100, sd_part_count = 1,
      sd_width = 1, sd_is_signed = 0, sd_calibrated = 0, sd_scale = fp_lit 1 0, sd_offset = fp_lit 0 0\<rparr>,
    \<lparr>sd_stable_id = 0xafe4d4b8c7ea798a, sd_name = ''PAS_SDW_Hatch_FMR'', sd_unit = '''',
      sd_parts = [part_lit 0 26 1],
      sd_invalid_signal_index = 4294967295, sd_can_id = 0x392, sd_frame_index = 100, sd_part_count = 1,
      sd_width = 1, sd_is_signed = 0, sd_calibrated = 0, sd_scale = fp_lit 1 0, sd_offset = fp_lit 0 0\<rparr>,
    \<lparr>sd_stable_id = 0xafe4d6b8c7ea7cf0, sd_name = ''PAS_SDW_Hatch_FML'', sd_unit = '''',
      sd_parts = [part_lit 0 25 1],
      sd_invalid_signal_index = 4294967295, sd_can_id = 0x392, sd_frame_index = 100, sd_part_count = 1,
      sd_width = 1, sd_is_signed = 0, sd_calibrated = 0, sd_scale = fp_lit 1 0, sd_offset = fp_lit 0 0\<rparr>]"

lemma ROADCAST_SIGNALS_54_ok: "block_ok ROADCAST_CAN_IDS 815 540 10 ROADCAST_SIGNALS_54"
  by (simp add: ROADCAST_SIGNALS_54_def signal_eval)

definition ROADCAST_SIGNALS_55 :: "roadcast_signal_definition list" where
  "ROADCAST_SIGNALS_55 = [
    \<lparr>sd_stable_id = 0x5d3d40b92a20d50e, sd_name = ''PAS_SDW_Hatch_RMR'', sd_unit = '''',
      sd_parts = [part_lit 0 24 1],
      sd_invalid_signal_index = 4294967295, sd_can_id = 0x392, sd_frame_index = 100, sd_part_count = 1,
      sd_width = 1, sd_is_signed = 0, sd_calibrated = 0, sd_scale = fp_lit 1 0, sd_offset = fp_lit 0 0\<rparr>,
    \<lparr>sd_stable_id = 0x5d3d2ab92a20afac, sd_name = ''PAS_SDW_Hatch_RML'', sd_unit = '''',
      sd_parts = [part_lit 0 23 1],
      sd_invalid_signal_index = 4294967295, sd_can_id = 0x392, sd_frame_index = 100, sd_part_count = 1,
      sd_width = 1, sd_is_signed = 0, sd_calibrated = 0, sd_scale = fp_lit 1 0, sd_offset = fp_lit 0 0\<rparr>,
    \<lparr>sd_stable_id = 0xe6c5826fa73b6705, sd_name = ''PAS_SDW_Hatch_RR'', sd_unit = '''',
      sd_parts = [part_lit 0 22 1],
      sd_invalid_signal_index = 4294967295, sd_can_id = 0x392, sd_frame_index = 100, sd_part_count = 1,
      sd_width = 1, sd_is_signed = 0, sd_calibrated = 0, sd_scale = fp_lit 1 0, sd_offset = fp_lit 0 0\<rparr>,
    \<lparr>sd_stable_id = 0xe6c5946fa73b859b, sd_name = ''PAS_SDW_Hatch_RL'', sd_unit = '''',
      sd_parts = [part_lit 0 21 1],
      sd_invalid_signal_index = 4294967295, sd_can_id = 0x392, sd_frame_index = 100, sd_part_count = 1,
      sd_width = 1, sd_is_signed = 0, sd_calibrated = 0, sd_scale = fp_lit 1 0, sd_offset = fp_lit 0 0\<rparr>,
    \<lparr>sd_stable_id = 0x651d42b152b55020, sd_name = ''PAS_SDW_Scan_FR'', sd_unit = '''',
      sd_parts = [part_lit 0 20 1],
      sd_invalid_signal_index = 4294967295, sd_can_id = 0x392, sd_frame_index = 100, sd_part_count = 1,
      sd_width = 1, sd_is_signed = 0, sd_calibrated = 0, sd_scale = fp_lit 1 0, sd_offset = fp_lit 0 0\<rparr>,
    \<lparr>sd_stable_id = 0x651d60b152b5831a, sd_name = ''PAS_SDW_Scan_FL'', sd_unit = '''',
      sd_parts = [part_lit 0 19 1],
      sd_invalid_signal_index = 4294967295, sd_can_id = 0x392, sd_frame_index = 100, sd_part_count = 1,
      sd_width = 1, sd_is_signed = 0, sd_calibrated = 0, sd_scale = fp_lit 1 0, sd_offset = fp_lit 0 0\<rparr>,
    \<lparr>sd_stable_id = 0x86719f4f8a705a2d, sd_name = ''PAS_SDW_Scan_FMR'', sd_unit = '''',
      sd_parts = [part_lit 0 18 1],
      sd_invalid_signal_index = 4294967295, sd_can_id = 0x392, sd_frame_index = 100, sd_part_count = 1,
      sd_width = 1, sd_is_signed = 0, sd_calibrated = 0, sd_scale = fp_lit 1 0, sd_offset = fp_lit 0 0\<rparr>,
    \<lparr>sd_stable_id = 0x8671814f8a702733, sd_name = ''PAS_SDW_Scan_FML'', sd_unit = '''',
      sd_parts = [part_lit 0 17 1],
      sd_invalid_signal_index = 4294967295, sd_can_id = 0x392, sd_frame_index = 100, sd_part_count = 1,
      sd_width = 1, sd_is_signed = 0, sd_calibrated = 0, sd_scale = fp_lit 1 0, sd_offset = fp_lit 0 0\<rparr>,
    \<lparr>sd_stable_id = 0xee48b34fc53a0a69, sd_name = ''PAS_SDW_Scan_RMR'', sd_unit = '''',
      sd_parts = [part_lit 0 16 1],
      sd_invalid_signal_index = 4294967295, sd_can_id = 0x392, sd_frame_index = 100, sd_part_count = 1,
      sd_width = 1, sd_is_signed = 0, sd_calibrated = 0, sd_scale = fp_lit 1 0, sd_offset = fp_lit 0 0\<rparr>,
    \<lparr>sd_stable_id = 0xee48ad4fc53a0037, sd_name = ''PAS_SDW_Scan_RML'', sd_unit = '''',
      sd_parts = [part_lit 0 15 1],
      sd_invalid_signal_index = 4294967295, sd_can_id = 0x392, sd_frame_index = 100, sd_part_count = 1,
      sd_width = 1, sd_is_signed = 0, sd_calibrated = 0, sd_scale = fp_lit 1 0, sd_offset = fp_lit 0 0\<rparr>]"

lemma ROADCAST_SIGNALS_55_ok: "block_ok ROADCAST_CAN_IDS 815 550 10 ROADCAST_SIGNALS_55"
  by (simp add: ROADCAST_SIGNALS_55_def signal_eval)

definition ROADCAST_SIGNALS_56 :: "roadcast_signal_definition list" where
  "ROADCAST_SIGNALS_56 = [
    \<lparr>sd_stable_id = 0x65460ab152d7f60c, sd_name = ''PAS_SDW_Scan_RR'', sd_unit = '''',
      sd_parts = [part_lit 0 14 1],
      sd_invalid_signal_index = 4294967295, sd_can_id = 0x392, sd_frame_index = 100, sd_part_count = 1,
      sd_width = 1, sd_is_signed = 0, sd_calibrated = 0, sd_scale = fp_lit 1 0, sd_offset = fp_lit 0 0\<rparr>,
    \<lparr>sd_stable_id = 0x654620b152d81b6e, sd_name = ''PAS_SDW_Scan_RL'', sd_unit = '''',
      sd_parts = [part_lit 0 13 1],
      sd_invalid_signal_index = 4294967295, sd_can_id = 0x392, sd_frame_index = 100, sd_part_count = 1,
      sd_width = 1, sd_is_signed = 0, sd_calibrated = 0, sd_scale = fp_lit 1 0, sd_offset = fp_lit 0 0\<rparr>,
    \<lparr>sd_stable_id = 0x174e3389b10ebb02, sd_name = ''PAS_SDW_DISTANCE_FR'', sd_unit = '''',
      sd_parts = [part_lit 0 11 2],
      sd_invalid_signal_index = 4294967295, sd_can_id = 0x392, sd_frame_index = 100, sd_part_count = 1,
      sd_width = 2, sd_is_signed = 0, sd_calibrated = 0, sd_scale = fp_lit 1 0, sd_offset = fp_lit 0 0\<rparr>,
    \<lparr>sd_stable_id = 0x174e2589b10ea338, sd_name = ''PAS_SDW_DISTANCE_FL'', sd_unit = '''',
      sd_parts = [part_lit 0 9 2],
      sd_invalid_signal_index = 4294967295, sd_can_id = 0x392, sd_frame_index = 100, sd_part_count = 1,
      sd_width = 2, sd_is_signed = 0, sd_calibrated = 0, sd_scale = fp_lit 1 0, sd_offset = fp_lit 0 0\<rparr>,
    \<lparr>sd_stable_id = 0xa87034f7dbe1e65b, sd_name = ''PAS_SDW_DISTANCE_FMR'', sd_unit = '''',
      sd_parts = [part_lit 0 6 2],
      sd_invalid_signal_index = 4294967295, sd_can_id = 0x392, sd_frame_index = 100, sd_part_count = 1,
      sd_width = 2, sd_is_signed = 0, sd_calibrated = 0, sd_scale = fp_lit 1 0, sd_offset = fp_lit 0 0\<rparr>,
    \<lparr>sd_stable_id = 0xa87022f7dbe1c7c5, sd_name = ''PAS_SDW_DISTANCE_FML'', sd_unit = '''',
      sd_parts = [part_lit 0 4 2],
      sd_invalid_signal_index = 4294967295, sd_can_id = 0x392, sd_frame_index = 100, sd_part_count = 1,
      sd_width = 2, sd_is_signed = 0, sd_calibrated = 0, sd_scale = fp_lit 1 0, sd_offset = fp_lit 0 0\<rparr>,
    \<lparr>sd_stable_id = 0x104728f816ab6037, sd_name = ''PAS_SDW_DISTANCE_RMR'', sd_unit = '''',
      sd_parts = [part_lit 0 2 2],
      sd_invalid_signal_index = 4294967295, sd_can_id = 0x392, sd_frame_index = 100, sd_part_count = 1,
      sd_width = 2, sd_is_signed = 0, sd_calibrated = 0, sd_scale = fp_lit 1 0, sd_offset = fp_lit 0 0\<rparr>,
    \<lparr>sd_stable_id = 0x10472ef816ab6a69, sd_name = ''PAS_SDW_DISTANCE_RML'', sd_unit = '''',
      sd_parts = [part_lit 0 0 2],
      sd_invalid_signal_index = 4294967295, sd_can_id = 0x392, sd_frame_index = 100, sd_part_count = 1,
      sd_width = 2, sd_is_signed = 0, sd_calibrated = 0, sd_scale = fp_lit 1 0, sd_offset = fp_lit 0 0\<rparr>,
    \<lparr>sd_stable_id = 0x1776fb89b13160ee, sd_name = ''PAS_SDW_DISTANCE_RR'', sd_unit = '''',
      sd_parts = [part_lit 4 30 2],
      sd_invalid_signal_index = 4294967295, sd_can_id = 0x392, sd_frame_index = 100, sd_part_count = 1,
      sd_width = 2, sd_is_signed = 0, sd_calibrated = 0, sd_scale = fp_lit 1 0, sd_offset = fp_lit 0 0\<rparr>,
    \<lparr>sd_stable_id = 0x1776e589b1313b8c, sd_name = ''PAS_SDW_DISTANCE_RL'', sd_unit = '''',
      sd_parts = [part_lit 4 28 2],
      sd_invalid_signal_index = 4294967295, sd_can_id = 0x392, sd_frame_index = 100, sd_part_count = 1,
      sd_width = 2, sd_is_signed = 0, sd_calibrated = 0, sd_scale = fp_lit 1 0, sd_offset = fp_lit 0 0\<rparr>]"

lemma ROADCAST_SIGNALS_56_ok: "block_ok ROADCAST_CAN_IDS 815 560 10 ROADCAST_SIGNALS_56"
  by (simp add: ROADCAST_SIGNALS_56_def signal_eval)

definition ROADCAST_SIGNALS_57 :: "roadcast_signal_definition list" where
  "ROADCAST_SIGNALS_57 = [
    \<lparr>sd_stable_id = 0xc3c9cd04dbb4ca3e, sd_name = ''PAS_PDC_Hatch_FR'', sd_unit = '''',
      sd_parts = [part_lit 4 23 1],
      sd_invalid_signal_index = 4294967295, sd_can_id = 0x392, sd_frame_index = 100, sd_part_count = 1,
      sd_width = 1, sd_is_signed = 0, sd_calibrated = 0, sd_scale = fp_lit 1 0, sd_offset = fp_lit 0 0\<rparr>,
    \<lparr>sd_stable_id = 0xc3c9d704dbb4db3c, sd_name = ''PAS_PDC_Hatch_FL'', sd_unit = '''',
      sd_parts = [part_lit 4 22 1],
      sd_invalid_signal_index = 4294967295, sd_can_id = 0x392, sd_frame_index = 100, sd_part_count = 1,
      sd_width = 1, sd_is_signed = 0, sd_calibrated = 0, sd_scale = fp_lit 1 0, sd_offset = fp_lit 0 0\<rparr>,
    \<lparr>sd_stable_id = 0x64d6cd4154531527, sd_name = ''PAS_PDC_Hatch_FMR'', sd_unit = '''',
      sd_parts = [part_lit 4 21 1],
      sd_invalid_signal_index = 4294967295, sd_can_id = 0x392, sd_frame_index = 100, sd_part_count = 1,
      sd_width = 1, sd_is_signed = 0, sd_calibrated = 0, sd_scale = fp_lit 1 0, sd_offset = fp_lit 0 0\<rparr>,
    \<lparr>sd_stable_id = 0x64d6b3415452e8f9, sd_name = ''PAS_PDC_Hatch_FML'', sd_unit = '''',
      sd_parts = [part_lit 4 20 1],
      sd_invalid_signal_index = 4294967295, sd_can_id = 0x392, sd_frame_index = 100, sd_part_count = 1,
      sd_width = 1, sd_is_signed = 0, sd_calibrated = 0, sd_scale = fp_lit 1 0, sd_offset = fp_lit 0 0\<rparr>,
    \<lparr>sd_stable_id = 0x122ff941b68ab6eb, sd_name = ''PAS_PDC_Hatch_RMR'', sd_unit = '''',
      sd_parts = [part_lit 4 19 1],
      sd_invalid_signal_index = 4294967295, sd_can_id = 0x392, sd_frame_index = 100, sd_part_count = 1,
      sd_width = 1, sd_is_signed = 0, sd_calibrated = 0, sd_scale = fp_lit 1 0, sd_offset = fp_lit 0 0\<rparr>,
    \<lparr>sd_stable_id = 0x12300741b68aceb5, sd_name = ''PAS_PDC_Hatch_RML'', sd_unit = '''',
      sd_parts = [part_lit 4 18 1],
      sd_invalid_signal_index = 4294967295, sd_can_id = 0x392, sd_frame_index = 100, sd_part_count = 1,
      sd_width = 1, sd_is_signed = 0, sd_calibrated = 0, sd_scale = fp_lit 1 0, sd_offset = fp_lit 0 0\<rparr>,
    \<lparr>sd_stable_id = 0xc40dc504dbee8972, sd_name = ''PAS_PDC_Hatch_RR'', sd_unit = '''',
      sd_parts = [part_lit 4 17 1],
      sd_invalid_signal_index = 4294967295, sd_can_id = 0x392, sd_frame_index = 100, sd_part_count = 1,
      sd_width = 1, sd_is_signed = 0, sd_calibrated = 0, sd_scale = fp_lit 1 0, sd_offset = fp_lit 0 0\<rparr>,
    \<lparr>sd_stable_id = 0xc40dd704dbeea808, sd_name = ''PAS_PDC_Hatch_RL'', sd_unit = '''',
      sd_parts = [part_lit 4 16 1],
      sd_invalid_signal_index = 4294967295, sd_can_id = 0x392, sd_frame_index = 100, sd_part_count = 1,
      sd_width = 1, sd_is_signed = 0, sd_calibrated = 0, sd_scale = fp_lit 1 0, sd_offset = fp_lit 0 0\<rparr>,
    \<lparr>sd_stable_id = 0x84476e7431856f4d, sd_name = ''PAS_SoundZone_FR'', sd_unit = '''',
      sd_parts = [part_lit 4 14 2],
      sd_invalid_signal_index = 4294967295, sd_can_id = 0x392, sd_frame_index = 100, sd_part_count = 1,
      sd_width = 2, sd_is_signed = 0, sd_calibrated = 0, sd_scale = fp_lit 1 0, sd_offset = fp_lit 0 0\<rparr>,
    \<lparr>sd_stable_id = 0x8447507431853c53, sd_name = ''PAS_SoundZone_FL'', sd_unit = '''',
      sd_parts = [part_lit 4 12 2],
      sd_invalid_signal_index = 4294967295, sd_can_id = 0x392, sd_frame_index = 100, sd_part_count = 1,
      sd_width = 2, sd_is_signed = 0, sd_calibrated = 0, sd_scale = fp_lit 1 0, sd_offset = fp_lit 0 0\<rparr>]"

lemma ROADCAST_SIGNALS_57_ok: "block_ok ROADCAST_CAN_IDS 815 570 10 ROADCAST_SIGNALS_57"
  by (simp add: ROADCAST_SIGNALS_57_def signal_eval)

definition ROADCAST_SIGNALS_58 :: "roadcast_signal_definition list" where
  "ROADCAST_SIGNALS_58 = [
    \<lparr>sd_stable_id = 0x84035674314b79b9, sd_name = ''PAS_SoundZone_RR'', sd_unit = '''',
      sd_parts = [part_lit 4 10 2],
      sd_invalid_signal_index = 4294967295, sd_can_id = 0x392, sd_frame_index = 100, sd_part_count = 1,
      sd_width = 2, sd_is_signed = 0, sd_calibrated = 0, sd_scale = fp_lit 1 0, sd_offset = fp_lit 0 0\<rparr>,
    \<lparr>sd_stable_id = 0x84037074314ba5e7, sd_name = ''PAS_SoundZone_RL'', sd_unit = '''',
      sd_parts = [part_lit 4 8 2],
      sd_invalid_signal_index = 4294967295, sd_can_id = 0x392, sd_frame_index = 100, sd_part_count = 1,
      sd_width = 2, sd_is_signed = 0, sd_calibrated = 0, sd_scale = fp_lit 1 0, sd_offset = fp_lit 0 0\<rparr>,
    \<lparr>sd_stable_id = 0x3a705f9a4ec480e0, sd_name = ''BMSH_ChgTimeRemain'', sd_unit = '''',
      sd_parts = [part_lit 0 8 8, part_lit 0 0 3],
      sd_invalid_signal_index = 4294967295, sd_can_id = 0x354, sd_frame_index = 95, sd_part_count = 2,
      sd_width = 11, sd_is_signed = 0, sd_calibrated = 0, sd_scale = fp_lit 1 0, sd_offset = fp_lit 0 0\<rparr>,
    \<lparr>sd_stable_id = 0xb4fcab15fda014e0, sd_name = ''VIMS_MMI_GestureMuteResp'', sd_unit = '''',
      sd_parts = [part_lit 0 31 1],
      sd_invalid_signal_index = 4294967295, sd_can_id = 0x2FF, sd_frame_index = 92, sd_part_count = 1,
      sd_width = 1, sd_is_signed = 0, sd_calibrated = 0, sd_scale = fp_lit 1 0, sd_offset = fp_lit 0 0\<rparr>,
    \<lparr>sd_stable_id = 0xe2db9bcc66115832, sd_name = ''VIMS_MMI_CameraSoundReq'', sd_unit = '''',
      sd_parts = [part_lit 0 30 1],
      sd_invalid_signal_index = 4294967295, sd_can_id = 0x2FF, sd_frame_index = 92, sd_part_count = 1,
      sd_width = 1, sd_is_signed = 0, sd_calibrated = 0, sd_scale = fp_lit 1 0, sd_offset = fp_lit 0 0\<rparr>,
    \<lparr>sd_stable_id = 0xc5935a0438acf27c, sd_name = ''VIMS_MMI_MusicLikeReq'', sd_unit = '''',
      sd_parts = [part_lit 0 29 1],
      sd_invalid_signal_index = 4294967295, sd_can_id = 0x2FF, sd_frame_index = 92, sd_part_count = 1,
      sd_width = 1, sd_is_signed = 0, sd_calibrated = 0, sd_scale = fp_lit 1 0, sd_offset = fp_lit 0 0\<rparr>,
    \<lparr>sd_stable_id = 0x644f60ef3e8de172, sd_name = ''VIMS_MMI_RacingReq'', sd_unit = '''',
      sd_parts = [part_lit 0 28 1],
      sd_invalid_signal_index = 4294967295, sd_can_id = 0x2FF, sd_frame_index = 92, sd_part_count = 1,
      sd_width = 1, sd_is_signed = 0, sd_calibrated = 0, sd_scale = fp_lit 1 0, sd_offset = fp_lit 0 0\<rparr>,
    \<lparr>sd_stable_id = 0x1951c5e3d21d9423, sd_name = ''VIMS_MMI_MuteReq'', sd_unit = '''',
      sd_parts = [part_lit 0 27 1],
      sd_invalid_signal_index = 4294967295, sd_can_id = 0x2FF, sd_frame_index = 92, sd_part_count = 1,
      sd_width = 1, sd_is_signed = 0, sd_calibrated = 0, sd_scale = fp_lit 1 0, sd_offset = fp_lit 0 0\<rparr>,
    \<lparr>sd_stable_id = 0xafde08ebbd89616c, sd_name = ''VIMS_MMISystemStatus'', sd_unit = '''',
      sd_parts = [part_lit 0 26 1],
      sd_invalid_signal_index = 4294967295, sd_can_id = 0x2FF, sd_frame_index = 92, sd_part_count = 1,
      sd_width = 1, sd_is_signed = 0, sd_calibrated = 0, sd_scale = fp_lit 1 0, sd_offset = fp_lit 0 0\<rparr>,
    \<lparr>sd_stable_id = 0x9b9d25cf9d2d3ef8, sd_name = ''VIMS_MMI_CameraVideoResp'', sd_unit = '''',
      sd_parts = [part_lit 0 24 2],
      sd_invalid_signal_index = 4294967295, sd_can_id = 0x2FF, sd_frame_index = 92, sd_part_count = 1,
      sd_width = 2, sd_is_signed = 0, sd_calibrated = 0, sd_scale = fp_lit 1 0, sd_offset = fp_lit 0 0\<rparr>]"

lemma ROADCAST_SIGNALS_58_ok: "block_ok ROADCAST_CAN_IDS 815 580 10 ROADCAST_SIGNALS_58"
  by (simp add: ROADCAST_SIGNALS_58_def signal_eval)

definition ROADCAST_SIGNALS_59 :: "roadcast_signal_definition list" where
  "ROADCAST_SIGNALS_59 = [
    \<lparr>sd_stable_id = 0x5af0d47c0fe1efcf, sd_name = ''VIMS_MMI_GestureMusicLikeResp'', sd_unit = '''',
      sd_parts = [part_lit 0 17 1],
      sd_invalid_signal_index = 4294967295, sd_can_id = 0x2FF, sd_frame_index = 92, sd_part_count = 1,
      sd_width = 1, sd_is_signed = 0, sd_calibrated = 0, sd_scale = fp_lit 1 0, sd_offset = fp_lit 0 0\<rparr>,
    \<lparr>sd_stable_id = 0x96ffe95dd0cff073, sd_name = ''VIMS_MMI_GestureRacingResp'', sd_unit = '''',
      sd_parts = [part_lit 0 16 1],
      sd_invalid_signal_index = 4294967295, sd_can_id = 0x2FF, sd_frame_index = 92, sd_part_count = 1,
      sd_width = 1, sd_is_signed = 0, sd_calibrated = 0, sd_scale = fp_lit 1 0, sd_offset = fp_lit 0 0\<rparr>,
    \<lparr>sd_stable_id = 0x40445b33da542165, sd_name = ''L_AFU_FraganceRatioCh1'', sd_unit = '''',
      sd_parts = [part_lit 4 12 4],
      sd_invalid_signal_index = 4294967295, sd_can_id = 0x2FE, sd_frame_index = 91, sd_part_count = 1,
      sd_width = 4, sd_is_signed = 0, sd_calibrated = 0, sd_scale = fp_lit 1 0, sd_offset = fp_lit 0 0\<rparr>,
    \<lparr>sd_stable_id = 0x50718cc79f9ed88f, sd_name = ''AC_LeftSetTemperatureLevel'', sd_unit = '''',
      sd_parts = [part_lit 4 8 4],
      sd_invalid_signal_index = 4294967295, sd_can_id = 0x2FE, sd_frame_index = 91, sd_part_count = 1,
      sd_width = 4, sd_is_signed = 0, sd_calibrated = 0, sd_scale = fp_lit 1 0, sd_offset = fp_lit 0 0\<rparr>,
    \<lparr>sd_stable_id = 0x40445933da541dff, sd_name = ''L_AFU_FraganceRatioCh3'', sd_unit = '''',
      sd_parts = [part_lit 4 4 4],
      sd_invalid_signal_index = 4294967295, sd_can_id = 0x2FE, sd_frame_index = 91, sd_part_count = 1,
      sd_width = 4, sd_is_signed = 0, sd_calibrated = 0, sd_scale = fp_lit 1 0, sd_offset = fp_lit 0 0\<rparr>,
    \<lparr>sd_stable_id = 0x40445833da541c4c, sd_name = ''L_AFU_FraganceRatioCh2'', sd_unit = '''',
      sd_parts = [part_lit 4 0 4],
      sd_invalid_signal_index = 4294967295, sd_can_id = 0x2FE, sd_frame_index = 91, sd_part_count = 1,
      sd_width = 4, sd_is_signed = 0, sd_calibrated = 0, sd_scale = fp_lit 1 0, sd_offset = fp_lit 0 0\<rparr>,
    \<lparr>sd_stable_id = 0xa79949ebc49f46bd, sd_name = ''PEPS_TrunkUnlockCfgResult'', sd_unit = '''',
      sd_parts = [part_lit 0 11 1],
      sd_invalid_signal_index = 4294967295, sd_can_id = 0x2FC, sd_frame_index = 89, sd_part_count = 1,
      sd_width = 1, sd_is_signed = 0, sd_calibrated = 0, sd_scale = fp_lit 1 0, sd_offset = fp_lit 0 0\<rparr>,
    \<lparr>sd_stable_id = 0x8f9e81342c0cccae, sd_name = ''PEPS_0x1E2_TimeoutFlag'', sd_unit = '''',
      sd_parts = [part_lit 4 16 1],
      sd_invalid_signal_index = 4294967295, sd_can_id = 0x2FC, sd_frame_index = 89, sd_part_count = 1,
      sd_width = 1, sd_is_signed = 0, sd_calibrated = 0, sd_scale = fp_lit 1 0, sd_offset = fp_lit 0 0\<rparr>,
    \<lparr>sd_stable_id = 0x09960f94c6d95b3d, sd_name = ''PEPS_0x272_TimeoutFlag'', sd_unit = '''',
      sd_parts = [part_lit 4 14 1],
      sd_invalid_signal_index = 4294967295, sd_can_id = 0x2FC, sd_frame_index = 89, sd_part_count = 1,
      sd_width = 1, sd_is_signed = 0, sd_calibrated = 0, sd_scale = fp_lit 1 0, sd_offset = fp_lit 0 0\<rparr>,
    \<lparr>sd_stable_id = 0xd668be0d1a85ce10, sd_name = ''PEPS_FMDMSetResp'', sd_unit = '''',
      sd_parts = [part_lit 4 10 1],
      sd_invalid_signal_index = 4294967295, sd_can_id = 0x2FC, sd_frame_index = 89, sd_part_count = 1,
      sd_width = 1, sd_is_signed = 0, sd_calibrated = 0, sd_scale = fp_lit 1 0, sd_offset = fp_lit 0 0\<rparr>]"

lemma ROADCAST_SIGNALS_59_ok: "block_ok ROADCAST_CAN_IDS 815 590 10 ROADCAST_SIGNALS_59"
  by (simp add: ROADCAST_SIGNALS_59_def signal_eval)

definition ROADCAST_SIGNALS_60 :: "roadcast_signal_definition list" where
  "ROADCAST_SIGNALS_60 = [
    \<lparr>sd_stable_id = 0x78bf564a4d94b324, sd_name = ''BMSH_BattSOCDisp'', sd_unit = '''',
      sd_parts = [part_lit 0 16 8, part_lit 0 8 2],
      sd_invalid_signal_index = 4294967295, sd_can_id = 0x2F4, sd_frame_index = 88, sd_part_count = 2,
      sd_width = 10, sd_is_signed = 0, sd_calibrated = 0, sd_scale = fp_lit 1 0, sd_offset = fp_lit 0 0\<rparr>,
    \<lparr>sd_stable_id = 0x74b2b290dbcc85a2, sd_name = ''VCU_InteEnergyMngStatus'', sd_unit = '''',
      sd_parts = [part_lit 0 22 2],
      sd_invalid_signal_index = 4294967295, sd_can_id = 0x2E2, sd_frame_index = 83, sd_part_count = 1,
      sd_width = 2, sd_is_signed = 0, sd_calibrated = 0, sd_scale = fp_lit 1 0, sd_offset = fp_lit 0 0\<rparr>,
    \<lparr>sd_stable_id = 0x46cd22d0b7546f56, sd_name = ''VCU_SaveModeSelect'', sd_unit = '''',
      sd_parts = [part_lit 0 14 2],
      sd_invalid_signal_index = 4294967295, sd_can_id = 0x2E2, sd_frame_index = 83, sd_part_count = 1,
      sd_width = 2, sd_is_signed = 0, sd_calibrated = 0, sd_scale = fp_lit 1 0, sd_offset = fp_lit 0 0\<rparr>,
    \<lparr>sd_stable_id = 0xfb79c8242b5f16be, sd_name = ''VCU_DivCourteously_Type'', sd_unit = '''',
      sd_parts = [part_lit 0 0 5],
      sd_invalid_signal_index = 4294967295, sd_can_id = 0x2E2, sd_frame_index = 83, sd_part_count = 1,
      sd_width = 5, sd_is_signed = 0, sd_calibrated = 0, sd_scale = fp_lit 1 0, sd_offset = fp_lit 0 0\<rparr>,
    \<lparr>sd_stable_id = 0x71379dcc03d1e410, sd_name = ''VCU_DivCourteously_Point'', sd_unit = '''',
      sd_parts = [part_lit 4 24 5],
      sd_invalid_signal_index = 4294967295, sd_can_id = 0x2E2, sd_frame_index = 83, sd_part_count = 1,
      sd_width = 5, sd_is_signed = 0, sd_calibrated = 0, sd_scale = fp_lit 1 0, sd_offset = fp_lit 0 0\<rparr>,
    \<lparr>sd_stable_id = 0x7c227a5202df291a, sd_name = ''VCU_DivCourteously_Reason'', sd_unit = '''',
      sd_parts = [part_lit 4 16 5],
      sd_invalid_signal_index = 4294967295, sd_can_id = 0x2E2, sd_frame_index = 83, sd_part_count = 1,
      sd_width = 5, sd_is_signed = 0, sd_calibrated = 0, sd_scale = fp_lit 1 0, sd_offset = fp_lit 0 0\<rparr>,
    \<lparr>sd_stable_id = 0x1493cc5f3d6d6f8d, sd_name = ''DSCU_SLV_Position'', sd_unit = '''',
      sd_parts = [part_lit 0 24 8],
      sd_invalid_signal_index = 4294967295, sd_can_id = 0x2DF, sd_frame_index = 81, sd_part_count = 1,
      sd_width = 8, sd_is_signed = 0, sd_calibrated = 0, sd_scale = fp_lit 1 0, sd_offset = fp_lit 0 0\<rparr>,
    \<lparr>sd_stable_id = 0xdc96789d81541ea1, sd_name = ''DSCU_SHV_Position'', sd_unit = '''',
      sd_parts = [part_lit 0 16 8],
      sd_invalid_signal_index = 4294967295, sd_can_id = 0x2DF, sd_frame_index = 81, sd_part_count = 1,
      sd_width = 8, sd_is_signed = 0, sd_calibrated = 0, sd_scale = fp_lit 1 0, sd_offset = fp_lit 0 0\<rparr>,
    \<lparr>sd_stable_id = 0x995d1087c12d640f, sd_name = ''DSCU_SNV_Position'', sd_unit = '''',
      sd_parts = [part_lit 0 8 8],
      sd_invalid_signal_index = 4294967295, sd_can_id = 0x2DF, sd_frame_index = 81, sd_part_count = 1,
      sd_width = 8, sd_is_signed = 0, sd_calibrated = 0, sd_scale = fp_lit 1 0, sd_offset = fp_lit 0 0\<rparr>,
    \<lparr>sd_stable_id = 0xed247eba384b1a18, sd_name = ''DSCU_LNV_Position'', sd_unit = '''',
      sd_parts = [part_lit 0 0 8],
      sd_invalid_signal_index = 4294967295, sd_can_id = 0x2DF, sd_frame_index = 81, sd_part_count = 1,
      sd_width = 8, sd_is_signed = 0, sd_calibrated = 0, sd_scale = fp_lit 1 0, sd_offset = fp_lit 0 0\<rparr>]"

lemma ROADCAST_SIGNALS_60_ok: "block_ok ROADCAST_CAN_IDS 815 600 10 ROADCAST_SIGNALS_60"
  by (simp add: ROADCAST_SIGNALS_60_def signal_eval)

definition ROADCAST_SIGNALS_61 :: "roadcast_signal_definition list" where
  "ROADCAST_SIGNALS_61 = [
    \<lparr>sd_stable_id = 0xf524cf046678538e, sd_name = ''DSCU_SLV_CalibrationSts'', sd_unit = '''',
      sd_parts = [part_lit 4 30 2],
      sd_invalid_signal_index = 4294967295, sd_can_id = 0x2DF, sd_frame_index = 81, sd_part_count = 1,
      sd_width = 2, sd_is_signed = 0, sd_calibrated = 0, sd_scale = fp_lit 1 0, sd_offset = fp_lit 0 0\<rparr>,
    \<lparr>sd_stable_id = 0x9218e29f017ea3ba, sd_name = ''DSCU_SHV_CalibrationSts'', sd_unit = '''',
      sd_parts = [part_lit 4 28 2],
      sd_invalid_signal_index = 4294967295, sd_can_id = 0x2DF, sd_frame_index = 81, sd_part_count = 1,
      sd_width = 2, sd_is_signed = 0, sd_calibrated = 0, sd_scale = fp_lit 1 0, sd_offset = fp_lit 0 0\<rparr>,
    \<lparr>sd_stable_id = 0xcd068cb9631f5284, sd_name = ''DSCU_SNV_CalibrationSts'', sd_unit = '''',
      sd_parts = [part_lit 4 26 2],
      sd_invalid_signal_index = 4294967295, sd_can_id = 0x2DF, sd_frame_index = 81, sd_part_count = 1,
      sd_width = 2, sd_is_signed = 0, sd_calibrated = 0, sd_scale = fp_lit 1 0, sd_offset = fp_lit 0 0\<rparr>,
    \<lparr>sd_stable_id = 0xd880036a8a4c01db, sd_name = ''DSCU_LNV_CalibrationSts'', sd_unit = '''',
      sd_parts = [part_lit 4 24 2],
      sd_invalid_signal_index = 4294967295, sd_can_id = 0x2DF, sd_frame_index = 81, sd_part_count = 1,
      sd_width = 2, sd_is_signed = 0, sd_calibrated = 0, sd_scale = fp_lit 1 0, sd_offset = fp_lit 0 0\<rparr>,
    \<lparr>sd_stable_id = 0x017b311de641a347, sd_name = ''DSCU_SLV_Direction'', sd_unit = '''',
      sd_parts = [part_lit 4 22 2],
      sd_invalid_signal_index = 4294967295, sd_can_id = 0x2DF, sd_frame_index = 81, sd_part_count = 1,
      sd_width = 2, sd_is_signed = 0, sd_calibrated = 0, sd_scale = fp_lit 1 0, sd_offset = fp_lit 0 0\<rparr>,
    \<lparr>sd_stable_id = 0x0df58ac99c94428b, sd_name = ''DSCU_SHV_Direction'', sd_unit = '''',
      sd_parts = [part_lit 4 20 2],
      sd_invalid_signal_index = 4294967295, sd_can_id = 0x2DF, sd_frame_index = 81, sd_part_count = 1,
      sd_width = 2, sd_is_signed = 0, sd_calibrated = 0, sd_scale = fp_lit 1 0, sd_offset = fp_lit 0 0\<rparr>,
    \<lparr>sd_stable_id = 0x2cb561499457f0dd, sd_name = ''DSCU_SNV_Direction'', sd_unit = '''',
      sd_parts = [part_lit 4 18 2],
      sd_invalid_signal_index = 4294967295, sd_can_id = 0x2DF, sd_frame_index = 81, sd_part_count = 1,
      sd_width = 2, sd_is_signed = 0, sd_calibrated = 0, sd_scale = fp_lit 1 0, sd_offset = fp_lit 0 0\<rparr>,
    \<lparr>sd_stable_id = 0xf0ad24892f370374, sd_name = ''DSCU_LNV_Direction'', sd_unit = '''',
      sd_parts = [part_lit 4 16 2],
      sd_invalid_signal_index = 4294967295, sd_can_id = 0x2DF, sd_frame_index = 81, sd_part_count = 1,
      sd_width = 2, sd_is_signed = 0, sd_calibrated = 0, sd_scale = fp_lit 1 0, sd_offset = fp_lit 0 0\<rparr>,
    \<lparr>sd_stable_id = 0xa413a27cb1419556, sd_name = ''DSCU_AdjustMode'', sd_unit = '''',
      sd_parts = [part_lit 4 8 2],
      sd_invalid_signal_index = 4294967295, sd_can_id = 0x2DF, sd_frame_index = 81, sd_part_count = 1,
      sd_width = 2, sd_is_signed = 0, sd_calibrated = 0, sd_scale = fp_lit 1 0, sd_offset = fp_lit 0 0\<rparr>,
    \<lparr>sd_stable_id = 0x16f774b9e6d0087d, sd_name = ''DMM_SetrecognitionStsResp'', sd_unit = '''',
      sd_parts = [part_lit 0 31 1],
      sd_invalid_signal_index = 4294967295, sd_can_id = 0x2D8, sd_frame_index = 80, sd_part_count = 1,
      sd_width = 1, sd_is_signed = 0, sd_calibrated = 0, sd_scale = fp_lit 1 0, sd_offset = fp_lit 0 0\<rparr>]"

lemma ROADCAST_SIGNALS_61_ok: "block_ok ROADCAST_CAN_IDS 815 610 10 ROADCAST_SIGNALS_61"
  by (simp add: ROADCAST_SIGNALS_61_def signal_eval)

definition ROADCAST_SIGNALS_62 :: "roadcast_signal_definition list" where
  "ROADCAST_SIGNALS_62 = [
    \<lparr>sd_stable_id = 0x6a6e1c5aa50e6608, sd_name = ''DMM_SetFatiguedetectionStsResp'', sd_unit = '''',
      sd_parts = [part_lit 0 30 1],
      sd_invalid_signal_index = 4294967295, sd_can_id = 0x2D8, sd_frame_index = 80, sd_part_count = 1,
      sd_width = 1, sd_is_signed = 0, sd_calibrated = 0, sd_scale = fp_lit 1 0, sd_offset = fp_lit 0 0\<rparr>,
    \<lparr>sd_stable_id = 0x81be5a7c0579b6c6, sd_name = ''DMM_SetUnsafeActStsResp'', sd_unit = '''',
      sd_parts = [part_lit 0 29 1],
      sd_invalid_signal_index = 4294967295, sd_can_id = 0x2D8, sd_frame_index = 80, sd_part_count = 1,
      sd_width = 1, sd_is_signed = 0, sd_calibrated = 0, sd_scale = fp_lit 1 0, sd_offset = fp_lit 0 0\<rparr>,
    \<lparr>sd_stable_id = 0x7ccb724eebf26a0a, sd_name = ''VIMS_FaceRecoPenReq'', sd_unit = '''',
      sd_parts = [part_lit 0 24 2],
      sd_invalid_signal_index = 4294967295, sd_can_id = 0x2D8, sd_frame_index = 80, sd_part_count = 1,
      sd_width = 2, sd_is_signed = 0, sd_calibrated = 0, sd_scale = fp_lit 1 0, sd_offset = fp_lit 0 0\<rparr>,
    \<lparr>sd_stable_id = 0xb6181c67d4c1d402, sd_name = ''DMM_RestoreFactorySettingsResult'', sd_unit = '''',
      sd_parts = [part_lit 0 22 2],
      sd_invalid_signal_index = 4294967295, sd_can_id = 0x2D8, sd_frame_index = 80, sd_part_count = 1,
      sd_width = 2, sd_is_signed = 0, sd_calibrated = 0, sd_scale = fp_lit 1 0, sd_offset = fp_lit 0 0\<rparr>,
    \<lparr>sd_stable_id = 0xe079bde0121b510c, sd_name = ''DMM_FrStatus'', sd_unit = '''',
      sd_parts = [part_lit 0 18 3],
      sd_invalid_signal_index = 4294967295, sd_can_id = 0x2D8, sd_frame_index = 80, sd_part_count = 1,
      sd_width = 3, sd_is_signed = 0, sd_calibrated = 0, sd_scale = fp_lit 1 0, sd_offset = fp_lit 0 0\<rparr>,
    \<lparr>sd_stable_id = 0x1f3ef9ddf4a56906, sd_name = ''DMM_SyncDriver1'', sd_unit = '''',
      sd_parts = [part_lit 0 17 1],
      sd_invalid_signal_index = 4294967295, sd_can_id = 0x2D8, sd_frame_index = 80, sd_part_count = 1,
      sd_width = 1, sd_is_signed = 0, sd_calibrated = 0, sd_scale = fp_lit 1 0, sd_offset = fp_lit 0 0\<rparr>,
    \<lparr>sd_stable_id = 0x1f3ef8ddf4a56753, sd_name = ''DMM_SyncDriver2'', sd_unit = '''',
      sd_parts = [part_lit 0 16 1],
      sd_invalid_signal_index = 4294967295, sd_can_id = 0x2D8, sd_frame_index = 80, sd_part_count = 1,
      sd_width = 1, sd_is_signed = 0, sd_calibrated = 0, sd_scale = fp_lit 1 0, sd_offset = fp_lit 0 0\<rparr>,
    \<lparr>sd_stable_id = 0x1f3ef7ddf4a565a0, sd_name = ''DMM_SyncDriver3'', sd_unit = '''',
      sd_parts = [part_lit 0 15 1],
      sd_invalid_signal_index = 4294967295, sd_can_id = 0x2D8, sd_frame_index = 80, sd_part_count = 1,
      sd_width = 1, sd_is_signed = 0, sd_calibrated = 0, sd_scale = fp_lit 1 0, sd_offset = fp_lit 0 0\<rparr>,
    \<lparr>sd_stable_id = 0x1f3efeddf4a57185, sd_name = ''DMM_SyncDriver4'', sd_unit = '''',
      sd_parts = [part_lit 0 14 1],
      sd_invalid_signal_index = 4294967295, sd_can_id = 0x2D8, sd_frame_index = 80, sd_part_count = 1,
      sd_width = 1, sd_is_signed = 0, sd_calibrated = 0, sd_scale = fp_lit 1 0, sd_offset = fp_lit 0 0\<rparr>,
    \<lparr>sd_stable_id = 0x1f3efdddf4a56fd2, sd_name = ''DMM_SyncDriver5'', sd_unit = '''',
      sd_parts = [part_lit 0 13 1],
      sd_invalid_signal_index = 4294967295, sd_can_id = 0x2D8, sd_frame_index = 80, sd_part_count = 1,
      sd_width = 1, sd_is_signed = 0, sd_calibrated = 0, sd_scale = fp_lit 1 0, sd_offset = fp_lit 0 0\<rparr>]"

lemma ROADCAST_SIGNALS_62_ok: "block_ok ROADCAST_CAN_IDS 815 620 10 ROADCAST_SIGNALS_62"
  by (simp add: ROADCAST_SIGNALS_62_def signal_eval)

end
