(* ===== verification/Catalog_Table_4.thy ===== *)
theory Catalog_Table_4
  imports Catalog
begin

text \<open>
  Entries 630 to 814 of \<^verbatim>\<open>ROADCAST_SIGNALS\<close> in \<^verbatim>\<open>src/catalog_generated.c\<close>, ten to a block, with the
  \<^verbatim>\<open>SIGNAL_PARTS_n\<close> array of each entry written in its place.  Every block satisfies \<open>block_ok\<close>.
\<close>

definition ROADCAST_SIGNALS_63 :: "roadcast_signal_definition list" where
  "ROADCAST_SIGNALS_63 = [
    \<lparr>sd_stable_id = 0x3e090701a6059e60, sd_name = ''DMM_FrUserID'', sd_unit = '''',
      sd_parts = [part_lit 0 10 3],
      sd_invalid_signal_index = 4294967295, sd_can_id = 0x2D8, sd_frame_index = 80, sd_part_count = 1,
      sd_width = 3, sd_is_signed = 0, sd_calibrated = 0, sd_scale = fp_lit 1 0, sd_offset = fp_lit 0 0\<rparr>,
    \<lparr>sd_stable_id = 0xeae78abbfcf02e24, sd_name = ''DMM_FrOprCode'', sd_unit = '''',
      sd_parts = [part_lit 0 8 2],
      sd_invalid_signal_index = 4294967295, sd_can_id = 0x2D8, sd_frame_index = 80, sd_part_count = 1,
      sd_width = 2, sd_is_signed = 0, sd_calibrated = 0, sd_scale = fp_lit 1 0, sd_offset = fp_lit 0 0\<rparr>,
    \<lparr>sd_stable_id = 0x3722f8ecdaa7b340, sd_name = ''DMM_FrRegisterProgressSts'', sd_unit = '''',
      sd_parts = [part_lit 0 4 4],
      sd_invalid_signal_index = 4294967295, sd_can_id = 0x2D8, sd_frame_index = 80, sd_part_count = 1,
      sd_width = 4, sd_is_signed = 0, sd_calibrated = 0, sd_scale = fp_lit 1 0, sd_offset = fp_lit 0 0\<rparr>,
    \<lparr>sd_stable_id = 0x28bf2999450c8ef3, sd_name = ''DMM_fatigue_Warning_status'', sd_unit = '''',
      sd_parts = [part_lit 0 2 2],
      sd_invalid_signal_index = 4294967295, sd_can_id = 0x2D8, sd_frame_index = 80, sd_part_count = 1,
      sd_width = 2, sd_is_signed = 0, sd_calibrated = 0, sd_scale = fp_lit 1 0, sd_offset = fp_lit 0 0\<rparr>,
    \<lparr>sd_stable_id = 0x322aa2bb29f63e70, sd_name = ''DMM_AtmosphereLamp_color'', sd_unit = '''',
      sd_parts = [part_lit 4 28 4],
      sd_invalid_signal_index = 4294967295, sd_can_id = 0x2D8, sd_frame_index = 80, sd_part_count = 1,
      sd_width = 4, sd_is_signed = 0, sd_calibrated = 0, sd_scale = fp_lit 1 0, sd_offset = fp_lit 0 0\<rparr>,
    \<lparr>sd_stable_id = 0x01e55e71f16f69b2, sd_name = ''DMM_AtmosphereLamp_brightness'', sd_unit = '''',
      sd_parts = [part_lit 4 19 5],
      sd_invalid_signal_index = 4294967295, sd_can_id = 0x2D8, sd_frame_index = 80, sd_part_count = 1,
      sd_width = 5, sd_is_signed = 0, sd_calibrated = 0, sd_scale = fp_lit 1 0, sd_offset = fp_lit 0 0\<rparr>,
    \<lparr>sd_stable_id = 0x4e39736f2d928270, sd_name = ''DMM_AtmosphereLamp_Randompattern'', sd_unit = '''',
      sd_parts = [part_lit 4 17 2],
      sd_invalid_signal_index = 4294967295, sd_can_id = 0x2D8, sd_frame_index = 80, sd_part_count = 1,
      sd_width = 2, sd_is_signed = 0, sd_calibrated = 0, sd_scale = fp_lit 1 0, sd_offset = fp_lit 0 0\<rparr>,
    \<lparr>sd_stable_id = 0x96874a0ada811377, sd_name = ''VIMS_DriverMoniterOpenReq'', sd_unit = '''',
      sd_parts = [part_lit 4 16 1],
      sd_invalid_signal_index = 4294967295, sd_can_id = 0x2D8, sd_frame_index = 80, sd_part_count = 1,
      sd_width = 1, sd_is_signed = 0, sd_calibrated = 0, sd_scale = fp_lit 1 0, sd_offset = fp_lit 0 0\<rparr>,
    \<lparr>sd_stable_id = 0xb5408dbe4f60be66, sd_name = ''DMM_BackLightad'', sd_unit = '''',
      sd_parts = [part_lit 4 11 5],
      sd_invalid_signal_index = 4294967295, sd_can_id = 0x2D8, sd_frame_index = 80, sd_part_count = 1,
      sd_width = 5, sd_is_signed = 0, sd_calibrated = 0, sd_scale = fp_lit 1 0, sd_offset = fp_lit 0 0\<rparr>,
    \<lparr>sd_stable_id = 0x153f46cd721d6aca, sd_name = ''DMM_IPK_theme'', sd_unit = '''',
      sd_parts = [part_lit 4 9 2],
      sd_invalid_signal_index = 4294967295, sd_can_id = 0x2D8, sd_frame_index = 80, sd_part_count = 1,
      sd_width = 2, sd_is_signed = 0, sd_calibrated = 0, sd_scale = fp_lit 1 0, sd_offset = fp_lit 0 0\<rparr>]"

lemma ROADCAST_SIGNALS_63_ok: "block_ok ROADCAST_CAN_IDS 815 630 10 ROADCAST_SIGNALS_63"
  by (simp add: ROADCAST_SIGNALS_63_def signal_eval)

definition ROADCAST_SIGNALS_64 :: "roadcast_signal_definition list" where
  "ROADCAST_SIGNALS_64 = [
    \<lparr>sd_stable_id = 0x31a6fd636990debb, sd_name = ''DMM_IPK_Drivingmode'', sd_unit = '''',
      sd_parts = [part_lit 4 6 2],
      sd_invalid_signal_index = 4294967295, sd_can_id = 0x2D8, sd_frame_index = 80, sd_part_count = 1,
      sd_width = 2, sd_is_signed = 0, sd_calibrated = 0, sd_scale = fp_lit 1 0, sd_offset = fp_lit 0 0\<rparr>,
    \<lparr>sd_stable_id = 0xc25e045708bdf4ff, sd_name = ''DMM_FragranceSpecies'', sd_unit = '''',
      sd_parts = [part_lit 4 4 2],
      sd_invalid_signal_index = 4294967295, sd_can_id = 0x2D8, sd_frame_index = 80, sd_part_count = 1,
      sd_width = 2, sd_is_signed = 0, sd_calibrated = 0, sd_scale = fp_lit 1 0, sd_offset = fp_lit 0 0\<rparr>,
    \<lparr>sd_stable_id = 0x254562b2743e8340, sd_name = ''DMM_FragranceConcentration'', sd_unit = '''',
      sd_parts = [part_lit 4 2 2],
      sd_invalid_signal_index = 4294967295, sd_can_id = 0x2D8, sd_frame_index = 80, sd_part_count = 1,
      sd_width = 2, sd_is_signed = 0, sd_calibrated = 0, sd_scale = fp_lit 1 0, sd_offset = fp_lit 0 0\<rparr>,
    \<lparr>sd_stable_id = 0x2913141ed56db2ac, sd_name = ''DMM_FragranceSwitchEnable'', sd_unit = '''',
      sd_parts = [part_lit 4 0 2],
      sd_invalid_signal_index = 4294967295, sd_can_id = 0x2D8, sd_frame_index = 80, sd_part_count = 1,
      sd_width = 2, sd_is_signed = 0, sd_calibrated = 0, sd_scale = fp_lit 1 0, sd_offset = fp_lit 0 0\<rparr>,
    \<lparr>sd_stable_id = 0x8a7d84c46cae1bd0, sd_name = ''ADB_AFSActiveResp'', sd_unit = '''',
      sd_parts = [part_lit 0 25 1],
      sd_invalid_signal_index = 4294967295, sd_can_id = 0x2CD, sd_frame_index = 78, sd_part_count = 1,
      sd_width = 1, sd_is_signed = 0, sd_calibrated = 0, sd_scale = fp_lit 1 0, sd_offset = fp_lit 0 0\<rparr>,
    \<lparr>sd_stable_id = 0xc33e6a55131af698, sd_name = ''AirPtcModeReq'', sd_unit = '''',
      sd_parts = [part_lit 0 20 2],
      sd_invalid_signal_index = 4294967295, sd_can_id = 0x2C9, sd_frame_index = 76, sd_part_count = 1,
      sd_width = 2, sd_is_signed = 0, sd_calibrated = 0, sd_scale = fp_lit 1 0, sd_offset = fp_lit 0 0\<rparr>,
    \<lparr>sd_stable_id = 0xb32f796df751167d, sd_name = ''AirPtcEnad'', sd_unit = '''',
      sd_parts = [part_lit 0 19 1],
      sd_invalid_signal_index = 4294967295, sd_can_id = 0x2C9, sd_frame_index = 76, sd_part_count = 1,
      sd_width = 1, sd_is_signed = 0, sd_calibrated = 0, sd_scale = fp_lit 1 0, sd_offset = fp_lit 0 0\<rparr>,
    \<lparr>sd_stable_id = 0xae95d38810ccf3c5, sd_name = ''AVM_View_RGearModeResponse'', sd_unit = '''',
      sd_parts = [part_lit 0 31 1],
      sd_invalid_signal_index = 4294967295, sd_can_id = 0x2C4, sd_frame_index = 72, sd_part_count = 1,
      sd_width = 1, sd_is_signed = 0, sd_calibrated = 0, sd_scale = fp_lit 1 0, sd_offset = fp_lit 0 0\<rparr>,
    \<lparr>sd_stable_id = 0x936cf5f3ec559923, sd_name = ''AVM_View_DGearModeResponse'', sd_unit = '''',
      sd_parts = [part_lit 0 30 1],
      sd_invalid_signal_index = 4294967295, sd_can_id = 0x2C4, sd_frame_index = 72, sd_part_count = 1,
      sd_width = 1, sd_is_signed = 0, sd_calibrated = 0, sd_scale = fp_lit 1 0, sd_offset = fp_lit 0 0\<rparr>,
    \<lparr>sd_stable_id = 0x70a8d32af2a2f926, sd_name = ''AVM_PAS_TopViewSettingResponse'', sd_unit = '''',
      sd_parts = [part_lit 0 29 1],
      sd_invalid_signal_index = 4294967295, sd_can_id = 0x2C4, sd_frame_index = 72, sd_part_count = 1,
      sd_width = 1, sd_is_signed = 0, sd_calibrated = 0, sd_scale = fp_lit 1 0, sd_offset = fp_lit 0 0\<rparr>]"

lemma ROADCAST_SIGNALS_64_ok: "block_ok ROADCAST_CAN_IDS 815 640 10 ROADCAST_SIGNALS_64"
  by (simp add: ROADCAST_SIGNALS_64_def signal_eval)

definition ROADCAST_SIGNALS_65 :: "roadcast_signal_definition list" where
  "ROADCAST_SIGNALS_65 = [
    \<lparr>sd_stable_id = 0xca1a0910d198f60e, sd_name = ''AVM_PAS_VolumeLevelRequest'', sd_unit = '''',
      sd_parts = [part_lit 0 27 2],
      sd_invalid_signal_index = 4294967295, sd_can_id = 0x2C4, sd_frame_index = 72, sd_part_count = 1,
      sd_width = 2, sd_is_signed = 0, sd_calibrated = 0, sd_scale = fp_lit 1 0, sd_offset = fp_lit 0 0\<rparr>,
    \<lparr>sd_stable_id = 0x37d0b007c95bf1ea, sd_name = ''PAS_PDC_warning_mute'', sd_unit = '''',
      sd_parts = [part_lit 0 26 1],
      sd_invalid_signal_index = 4294967295, sd_can_id = 0x2C4, sd_frame_index = 72, sd_part_count = 1,
      sd_width = 1, sd_is_signed = 0, sd_calibrated = 0, sd_scale = fp_lit 1 0, sd_offset = fp_lit 0 0\<rparr>,
    \<lparr>sd_stable_id = 0x9f0da90c67e7031b, sd_name = ''RHVSM_DrvVentSts'', sd_unit = '''',
      sd_parts = [part_lit 0 13 3],
      sd_invalid_signal_index = 4294967295, sd_can_id = 0x2C2, sd_frame_index = 70, sd_part_count = 1,
      sd_width = 3, sd_is_signed = 0, sd_calibrated = 0, sd_scale = fp_lit 1 0, sd_offset = fp_lit 0 0\<rparr>,
    \<lparr>sd_stable_id = 0xfb4ecfb3c935e22c, sd_name = ''RHVSM_PassVentSts'', sd_unit = '''',
      sd_parts = [part_lit 0 8 3],
      sd_invalid_signal_index = 4294967295, sd_can_id = 0x2C2, sd_frame_index = 70, sd_part_count = 1,
      sd_width = 3, sd_is_signed = 0, sd_calibrated = 0, sd_scale = fp_lit 1 0, sd_offset = fp_lit 0 0\<rparr>,
    \<lparr>sd_stable_id = 0x1c6edbd07d40e872, sd_name = ''DVR_SystemSts'', sd_unit = '''',
      sd_parts = [part_lit 0 28 4],
      sd_invalid_signal_index = 4294967295, sd_can_id = 0x2B1, sd_frame_index = 68, sd_part_count = 1,
      sd_width = 4, sd_is_signed = 0, sd_calibrated = 0, sd_scale = fp_lit 1 0, sd_offset = fp_lit 0 0\<rparr>,
    \<lparr>sd_stable_id = 0xfe8e0bc8e4fa7bd4, sd_name = ''DVR_RecordingCycleSts'', sd_unit = '''',
      sd_parts = [part_lit 0 26 2],
      sd_invalid_signal_index = 4294967295, sd_can_id = 0x2B1, sd_frame_index = 68, sd_part_count = 1,
      sd_width = 2, sd_is_signed = 0, sd_calibrated = 0, sd_scale = fp_lit 1 0, sd_offset = fp_lit 0 0\<rparr>,
    \<lparr>sd_stable_id = 0xd6ec833303ce52a5, sd_name = ''DVR_TapeSts'', sd_unit = '''',
      sd_parts = [part_lit 0 24 2],
      sd_invalid_signal_index = 4294967295, sd_can_id = 0x2B1, sd_frame_index = 68, sd_part_count = 1,
      sd_width = 2, sd_is_signed = 0, sd_calibrated = 0, sd_scale = fp_lit 1 0, sd_offset = fp_lit 0 0\<rparr>,
    \<lparr>sd_stable_id = 0x1a6329e3870ec92a, sd_name = ''DVR_SDcardSts'', sd_unit = '''',
      sd_parts = [part_lit 0 21 3],
      sd_invalid_signal_index = 4294967295, sd_can_id = 0x2B1, sd_frame_index = 68, sd_part_count = 1,
      sd_width = 3, sd_is_signed = 0, sd_calibrated = 0, sd_scale = fp_lit 1 0, sd_offset = fp_lit 0 0\<rparr>,
    \<lparr>sd_stable_id = 0x88c16969f3497b5f, sd_name = ''DVR_ResolutionSts'', sd_unit = '''',
      sd_parts = [part_lit 0 19 2],
      sd_invalid_signal_index = 4294967295, sd_can_id = 0x2B1, sd_frame_index = 68, sd_part_count = 1,
      sd_width = 2, sd_is_signed = 0, sd_calibrated = 0, sd_scale = fp_lit 1 0, sd_offset = fp_lit 0 0\<rparr>,
    \<lparr>sd_stable_id = 0x318df96d5f7dcb7e, sd_name = ''DVR_SDFormatResult'', sd_unit = '''',
      sd_parts = [part_lit 0 16 3],
      sd_invalid_signal_index = 4294967295, sd_can_id = 0x2B1, sd_frame_index = 68, sd_part_count = 1,
      sd_width = 3, sd_is_signed = 0, sd_calibrated = 0, sd_scale = fp_lit 1 0, sd_offset = fp_lit 0 0\<rparr>]"

lemma ROADCAST_SIGNALS_65_ok: "block_ok ROADCAST_CAN_IDS 815 650 10 ROADCAST_SIGNALS_65"
  by (simp add: ROADCAST_SIGNALS_65_def signal_eval)

definition ROADCAST_SIGNALS_66 :: "roadcast_signal_definition list" where
  "ROADCAST_SIGNALS_66 = [
    \<lparr>sd_stable_id = 0x6e61e27252556f4e, sd_name = ''DVR_SystemVersionSts'', sd_unit = '''',
      sd_parts = [part_lit 0 8 8, part_lit 0 0 4],
      sd_invalid_signal_index = 4294967295, sd_can_id = 0x2B1, sd_frame_index = 68, sd_part_count = 2,
      sd_width = 12, sd_is_signed = 0, sd_calibrated = 0, sd_scale = fp_lit 1 0, sd_offset = fp_lit 0 0\<rparr>,
    \<lparr>sd_stable_id = 0x6b335c6f0d5dfd81, sd_name = ''DVR_HomeResult'', sd_unit = '''',
      sd_parts = [part_lit 0 6 2],
      sd_invalid_signal_index = 4294967295, sd_can_id = 0x2B1, sd_frame_index = 68, sd_part_count = 1,
      sd_width = 2, sd_is_signed = 0, sd_calibrated = 0, sd_scale = fp_lit 1 0, sd_offset = fp_lit 0 0\<rparr>,
    \<lparr>sd_stable_id = 0x7f67a2182c5774c3, sd_name = ''DVR_RestoreFactorySettingsResult'', sd_unit = '''',
      sd_parts = [part_lit 0 4 2],
      sd_invalid_signal_index = 4294967295, sd_can_id = 0x2B1, sd_frame_index = 68, sd_part_count = 1,
      sd_width = 2, sd_is_signed = 0, sd_calibrated = 0, sd_scale = fp_lit 1 0, sd_offset = fp_lit 0 0\<rparr>,
    \<lparr>sd_stable_id = 0xb8dfdb3e6afcf34e, sd_name = ''DVR_CommandRespList'', sd_unit = '''',
      sd_parts = [part_lit 4 27 5],
      sd_invalid_signal_index = 4294967295, sd_can_id = 0x2B1, sd_frame_index = 68, sd_part_count = 1,
      sd_width = 5, sd_is_signed = 0, sd_calibrated = 0, sd_scale = fp_lit 1 0, sd_offset = fp_lit 0 0\<rparr>,
    \<lparr>sd_stable_id = 0x06f7ec1fb7939b44, sd_name = ''DVR_EnterUpdateModeResult'', sd_unit = '''',
      sd_parts = [part_lit 4 24 3],
      sd_invalid_signal_index = 4294967295, sd_can_id = 0x2B1, sd_frame_index = 68, sd_part_count = 1,
      sd_width = 3, sd_is_signed = 0, sd_calibrated = 0, sd_scale = fp_lit 1 0, sd_offset = fp_lit 0 0\<rparr>,
    \<lparr>sd_stable_id = 0x201e661e3d24a3d4, sd_name = ''DVR_CurrentVideo_counts'', sd_unit = '''',
      sd_parts = [part_lit 4 20 4],
      sd_invalid_signal_index = 4294967295, sd_can_id = 0x2B1, sd_frame_index = 68, sd_part_count = 1,
      sd_width = 4, sd_is_signed = 0, sd_calibrated = 0, sd_scale = fp_lit 1 0, sd_offset = fp_lit 0 0\<rparr>,
    \<lparr>sd_stable_id = 0x10565c57e4ec0770, sd_name = ''DVR_ParkingCrashWarning'', sd_unit = '''',
      sd_parts = [part_lit 4 19 1],
      sd_invalid_signal_index = 4294967295, sd_can_id = 0x2B1, sd_frame_index = 68, sd_part_count = 1,
      sd_width = 1, sd_is_signed = 0, sd_calibrated = 0, sd_scale = fp_lit 1 0, sd_offset = fp_lit 0 0\<rparr>,
    \<lparr>sd_stable_id = 0xaa1025719f0ed1e1, sd_name = ''DVR_CommandResult'', sd_unit = '''',
      sd_parts = [part_lit 4 16 3],
      sd_invalid_signal_index = 4294967295, sd_can_id = 0x2B1, sd_frame_index = 68, sd_part_count = 1,
      sd_width = 3, sd_is_signed = 0, sd_calibrated = 0, sd_scale = fp_lit 1 0, sd_offset = fp_lit 0 0\<rparr>,
    \<lparr>sd_stable_id = 0x288e191835206d5a, sd_name = ''DVR_CurrentVideoLockStatus'', sd_unit = '''',
      sd_parts = [part_lit 4 10 6, part_lit 4 0 8],
      sd_invalid_signal_index = 4294967295, sd_can_id = 0x2B1, sd_frame_index = 68, sd_part_count = 2,
      sd_width = 14, sd_is_signed = 0, sd_calibrated = 0, sd_scale = fp_lit 1 0, sd_offset = fp_lit 0 0\<rparr>,
    \<lparr>sd_stable_id = 0xf5e6a70408f6f8d5, sd_name = ''DVR_ControlRequest'', sd_unit = '''',
      sd_parts = [part_lit 4 8 2],
      sd_invalid_signal_index = 4294967295, sd_can_id = 0x2B1, sd_frame_index = 68, sd_part_count = 1,
      sd_width = 2, sd_is_signed = 0, sd_calibrated = 0, sd_scale = fp_lit 1 0, sd_offset = fp_lit 0 0\<rparr>]"

lemma ROADCAST_SIGNALS_66_ok: "block_ok ROADCAST_CAN_IDS 815 660 10 ROADCAST_SIGNALS_66"
  by (simp add: ROADCAST_SIGNALS_66_def signal_eval)

definition ROADCAST_SIGNALS_67 :: "roadcast_signal_definition list" where
  "ROADCAST_SIGNALS_67 = [
    \<lparr>sd_stable_id = 0x9769d6e544ba5c65, sd_name = ''AVM_status'', sd_unit = '''',
      sd_parts = [part_lit 0 31 1],
      sd_invalid_signal_index = 4294967295, sd_can_id = 0x2AB, sd_frame_index = 67, sd_part_count = 1,
      sd_width = 1, sd_is_signed = 0, sd_calibrated = 0, sd_scale = fp_lit 1 0, sd_offset = fp_lit 0 0\<rparr>,
    \<lparr>sd_stable_id = 0x69fb1f1e3b7a3b05, sd_name = ''AVM_MMI_Failure'', sd_unit = '''',
      sd_parts = [part_lit 0 30 1],
      sd_invalid_signal_index = 4294967295, sd_can_id = 0x2AB, sd_frame_index = 67, sd_part_count = 1,
      sd_width = 1, sd_is_signed = 0, sd_calibrated = 0, sd_scale = fp_lit 1 0, sd_offset = fp_lit 0 0\<rparr>,
    \<lparr>sd_stable_id = 0xea66a3a5b89a1540, sd_name = ''AVM_APA_Failure'', sd_unit = '''',
      sd_parts = [part_lit 0 29 1],
      sd_invalid_signal_index = 4294967295, sd_can_id = 0x2AB, sd_frame_index = 67, sd_part_count = 1,
      sd_width = 1, sd_is_signed = 0, sd_calibrated = 0, sd_scale = fp_lit 1 0, sd_offset = fp_lit 0 0\<rparr>,
    \<lparr>sd_stable_id = 0x566ebd87e6866303, sd_name = ''AVM_ViewModeResp'', sd_unit = '''',
      sd_parts = [part_lit 0 24 4],
      sd_invalid_signal_index = 4294967295, sd_can_id = 0x2AB, sd_frame_index = 67, sd_part_count = 1,
      sd_width = 4, sd_is_signed = 0, sd_calibrated = 0, sd_scale = fp_lit 1 0, sd_offset = fp_lit 0 0\<rparr>,
    \<lparr>sd_stable_id = 0xc8888aaf92acbedb, sd_name = ''AVM_CarIconColorResp'', sd_unit = '''',
      sd_parts = [part_lit 0 17 3],
      sd_invalid_signal_index = 4294967295, sd_can_id = 0x2AB, sd_frame_index = 67, sd_part_count = 1,
      sd_width = 3, sd_is_signed = 0, sd_calibrated = 0, sd_scale = fp_lit 1 0, sd_offset = fp_lit 0 0\<rparr>,
    \<lparr>sd_stable_id = 0xf42abc35e926ef50, sd_name = ''AVM_TrunningEnterAVMFuncResp'', sd_unit = '''',
      sd_parts = [part_lit 0 16 1],
      sd_invalid_signal_index = 4294967295, sd_can_id = 0x2AB, sd_frame_index = 67, sd_part_count = 1,
      sd_width = 1, sd_is_signed = 0, sd_calibrated = 0, sd_scale = fp_lit 1 0, sd_offset = fp_lit 0 0\<rparr>,
    \<lparr>sd_stable_id = 0xa1d2a5cfaa6e722d, sd_name = ''AVM_ControlRequest'', sd_unit = '''',
      sd_parts = [part_lit 0 13 3],
      sd_invalid_signal_index = 4294967295, sd_can_id = 0x2AB, sd_frame_index = 67, sd_part_count = 1,
      sd_width = 3, sd_is_signed = 0, sd_calibrated = 0, sd_scale = fp_lit 1 0, sd_offset = fp_lit 0 0\<rparr>,
    \<lparr>sd_stable_id = 0xb128e0c037bcd836, sd_name = ''AVM_CarIconTransparentResp'', sd_unit = '''',
      sd_parts = [part_lit 0 12 1],
      sd_invalid_signal_index = 4294967295, sd_can_id = 0x2AB, sd_frame_index = 67, sd_part_count = 1,
      sd_width = 1, sd_is_signed = 0, sd_calibrated = 0, sd_scale = fp_lit 1 0, sd_offset = fp_lit 0 0\<rparr>,
    \<lparr>sd_stable_id = 0x5cacdb655530c239, sd_name = ''AVM_OnroadCalibResp'', sd_unit = '''',
      sd_parts = [part_lit 0 11 1],
      sd_invalid_signal_index = 4294967295, sd_can_id = 0x2AB, sd_frame_index = 67, sd_part_count = 1,
      sd_width = 1, sd_is_signed = 0, sd_calibrated = 0, sd_scale = fp_lit 1 0, sd_offset = fp_lit 0 0\<rparr>,
    \<lparr>sd_stable_id = 0x292e1b36ca57ca3c, sd_name = ''AVM_HighTrunningEnterAVMFuncResp'', sd_unit = '''',
      sd_parts = [part_lit 0 9 1],
      sd_invalid_signal_index = 4294967295, sd_can_id = 0x2AB, sd_frame_index = 67, sd_part_count = 1,
      sd_width = 1, sd_is_signed = 0, sd_calibrated = 0, sd_scale = fp_lit 1 0, sd_offset = fp_lit 0 0\<rparr>]"

lemma ROADCAST_SIGNALS_67_ok: "block_ok ROADCAST_CAN_IDS 815 670 10 ROADCAST_SIGNALS_67"
  by (simp add: ROADCAST_SIGNALS_67_def signal_eval)

definition ROADCAST_SIGNALS_68 :: "roadcast_signal_definition list" where
  "ROADCAST_SIGNALS_68 = [
    \<lparr>sd_stable_id = 0xa47f13bb77440cb8, sd_name = ''AVM_PAS_ParkingWarningBeef'', sd_unit = '''',
      sd_parts = [part_lit 0 8 1],
      sd_invalid_signal_index = 4294967295, sd_can_id = 0x2AB, sd_frame_index = 67, sd_part_count = 1,
      sd_width = 1, sd_is_signed = 0, sd_calibrated = 0, sd_scale = fp_lit 1 0, sd_offset = fp_lit 0 0\<rparr>,
    \<lparr>sd_stable_id = 0xc24eef5a17f87eeb, sd_name = ''AVM_APA_Function_Select'', sd_unit = '''',
      sd_parts = [part_lit 0 6 2],
      sd_invalid_signal_index = 4294967295, sd_can_id = 0x2AB, sd_frame_index = 67, sd_part_count = 1,
      sd_width = 2, sd_is_signed = 0, sd_calibrated = 0, sd_scale = fp_lit 1 0, sd_offset = fp_lit 0 0\<rparr>,
    \<lparr>sd_stable_id = 0x2a1cbfe8c4d34c35, sd_name = ''AVM_PSC_Function_Select'', sd_unit = '''',
      sd_parts = [part_lit 0 4 2],
      sd_invalid_signal_index = 4294967295, sd_can_id = 0x2AB, sd_frame_index = 67, sd_part_count = 1,
      sd_width = 2, sd_is_signed = 0, sd_calibrated = 0, sd_scale = fp_lit 1 0, sd_offset = fp_lit 0 0\<rparr>,
    \<lparr>sd_stable_id = 0xf5ae678628eee91d, sd_name = ''AVM_DynamicPGS_Resp'', sd_unit = '''',
      sd_parts = [part_lit 4 23 1],
      sd_invalid_signal_index = 4294967295, sd_can_id = 0x2AB, sd_frame_index = 67, sd_part_count = 1,
      sd_width = 1, sd_is_signed = 0, sd_calibrated = 0, sd_scale = fp_lit 1 0, sd_offset = fp_lit 0 0\<rparr>,
    \<lparr>sd_stable_id = 0x0697e1e77c81f1b9, sd_name = ''AVM_SoftKeyResponse'', sd_unit = '''',
      sd_parts = [part_lit 4 22 1],
      sd_invalid_signal_index = 4294967295, sd_can_id = 0x2AB, sd_frame_index = 67, sd_part_count = 1,
      sd_width = 1, sd_is_signed = 0, sd_calibrated = 0, sd_scale = fp_lit 1 0, sd_offset = fp_lit 0 0\<rparr>,
    \<lparr>sd_stable_id = 0x83a025515b36e2b8, sd_name = ''AVM_FactoryMode'', sd_unit = '''',
      sd_parts = [part_lit 4 21 1],
      sd_invalid_signal_index = 4294967295, sd_can_id = 0x2AB, sd_frame_index = 67, sd_part_count = 1,
      sd_width = 1, sd_is_signed = 0, sd_calibrated = 0, sd_scale = fp_lit 1 0, sd_offset = fp_lit 0 0\<rparr>,
    \<lparr>sd_stable_id = 0x5f197c88c2bbf784, sd_name = ''AVM_BSD_StateResp'', sd_unit = '''',
      sd_parts = [part_lit 4 20 1],
      sd_invalid_signal_index = 4294967295, sd_can_id = 0x2AB, sd_frame_index = 67, sd_part_count = 1,
      sd_width = 1, sd_is_signed = 0, sd_calibrated = 0, sd_scale = fp_lit 1 0, sd_offset = fp_lit 0 0\<rparr>,
    \<lparr>sd_stable_id = 0xe6c73b96729c3264, sd_name = ''AVM_MODEnableResp'', sd_unit = '''',
      sd_parts = [part_lit 4 19 1],
      sd_invalid_signal_index = 4294967295, sd_can_id = 0x2AB, sd_frame_index = 67, sd_part_count = 1,
      sd_width = 1, sd_is_signed = 0, sd_calibrated = 0, sd_scale = fp_lit 1 0, sd_offset = fp_lit 0 0\<rparr>,
    \<lparr>sd_stable_id = 0xb052ec0a65aca82a, sd_name = ''AVM_PDEnableResp'', sd_unit = '''',
      sd_parts = [part_lit 4 18 1],
      sd_invalid_signal_index = 4294967295, sd_can_id = 0x2AB, sd_frame_index = 67, sd_part_count = 1,
      sd_width = 1, sd_is_signed = 0, sd_calibrated = 0, sd_scale = fp_lit 1 0, sd_offset = fp_lit 0 0\<rparr>,
    \<lparr>sd_stable_id = 0xd0fcccc03fdc38f6, sd_name = ''AVM_TurnONRequest'', sd_unit = '''',
      sd_parts = [part_lit 4 16 2],
      sd_invalid_signal_index = 4294967295, sd_can_id = 0x2AB, sd_frame_index = 67, sd_part_count = 1,
      sd_width = 2, sd_is_signed = 0, sd_calibrated = 0, sd_scale = fp_lit 1 0, sd_offset = fp_lit 0 0\<rparr>]"

lemma ROADCAST_SIGNALS_68_ok: "block_ok ROADCAST_CAN_IDS 815 680 10 ROADCAST_SIGNALS_68"
  by (simp add: ROADCAST_SIGNALS_68_def signal_eval)

definition ROADCAST_SIGNALS_69 :: "roadcast_signal_definition list" where
  "ROADCAST_SIGNALS_69 = [
    \<lparr>sd_stable_id = 0xf10133f74b97edad, sd_name = ''AVM_3DTouringViewKeyResponse'', sd_unit = '''',
      sd_parts = [part_lit 4 15 1],
      sd_invalid_signal_index = 4294967295, sd_can_id = 0x2AB, sd_frame_index = 67, sd_part_count = 1,
      sd_width = 1, sd_is_signed = 0, sd_calibrated = 0, sd_scale = fp_lit 1 0, sd_offset = fp_lit 0 0\<rparr>,
    \<lparr>sd_stable_id = 0xf789516599a1946e, sd_name = ''AVM_CameraFltSts'', sd_unit = '''',
      sd_parts = [part_lit 4 10 4],
      sd_invalid_signal_index = 4294967295, sd_can_id = 0x2AB, sd_frame_index = 67, sd_part_count = 1,
      sd_width = 4, sd_is_signed = 0, sd_calibrated = 0, sd_scale = fp_lit 1 0, sd_offset = fp_lit 0 0\<rparr>,
    \<lparr>sd_stable_id = 0x0cc0833c0f4ec4b9, sd_name = ''AVM_RestoreFactorySettingsFeedback'', sd_unit = '''',
      sd_parts = [part_lit 4 8 2],
      sd_invalid_signal_index = 4294967295, sd_can_id = 0x2AB, sd_frame_index = 67, sd_part_count = 1,
      sd_width = 2, sd_is_signed = 0, sd_calibrated = 0, sd_scale = fp_lit 1 0, sd_offset = fp_lit 0 0\<rparr>,
    \<lparr>sd_stable_id = 0xfb609b99a858ab7b, sd_name = ''AVM_ViewModeRespExtend'', sd_unit = '''',
      sd_parts = [part_lit 4 4 4],
      sd_invalid_signal_index = 4294967295, sd_can_id = 0x2AB, sd_frame_index = 67, sd_part_count = 1,
      sd_width = 4, sd_is_signed = 0, sd_calibrated = 0, sd_scale = fp_lit 1 0, sd_offset = fp_lit 0 0\<rparr>,
    \<lparr>sd_stable_id = 0x11028e8cea6a9ec7, sd_name = ''AVM_ViewTouchBeef'', sd_unit = '''',
      sd_parts = [part_lit 4 3 1],
      sd_invalid_signal_index = 4294967295, sd_can_id = 0x2AB, sd_frame_index = 67, sd_part_count = 1,
      sd_width = 1, sd_is_signed = 0, sd_calibrated = 0, sd_scale = fp_lit 1 0, sd_offset = fp_lit 0 0\<rparr>,
    \<lparr>sd_stable_id = 0xfe6e2802b44d5105, sd_name = ''ETC_SelfCheckSts'', sd_unit = '''',
      sd_parts = [part_lit 0 31 1],
      sd_invalid_signal_index = 4294967295, sd_can_id = 0x29F, sd_frame_index = 66, sd_part_count = 1,
      sd_width = 1, sd_is_signed = 0, sd_calibrated = 0, sd_scale = fp_lit 1 0, sd_offset = fp_lit 0 0\<rparr>,
    \<lparr>sd_stable_id = 0x53316d16285a0b6e, sd_name = ''ETC_TamperSts'', sd_unit = '''',
      sd_parts = [part_lit 0 30 1],
      sd_invalid_signal_index = 4294967295, sd_can_id = 0x29F, sd_frame_index = 66, sd_part_count = 1,
      sd_width = 1, sd_is_signed = 0, sd_calibrated = 0, sd_scale = fp_lit 1 0, sd_offset = fp_lit 0 0\<rparr>,
    \<lparr>sd_stable_id = 0x3c2f33e01b65b7ad, sd_name = ''ETC_DealFailure'', sd_unit = '''',
      sd_parts = [part_lit 0 29 1],
      sd_invalid_signal_index = 4294967295, sd_can_id = 0x29F, sd_frame_index = 66, sd_part_count = 1,
      sd_width = 1, sd_is_signed = 0, sd_calibrated = 0, sd_scale = fp_lit 1 0, sd_offset = fp_lit 0 0\<rparr>,
    \<lparr>sd_stable_id = 0x2056edf609d98130, sd_name = ''ETC_TrafficSts'', sd_unit = '''',
      sd_parts = [part_lit 0 28 1],
      sd_invalid_signal_index = 4294967295, sd_can_id = 0x29F, sd_frame_index = 66, sd_part_count = 1,
      sd_width = 1, sd_is_signed = 0, sd_calibrated = 0, sd_scale = fp_lit 1 0, sd_offset = fp_lit 0 0\<rparr>,
    \<lparr>sd_stable_id = 0x7cf32d9b272f1027, sd_name = ''ETC_ActiveSts'', sd_unit = '''',
      sd_parts = [part_lit 0 27 1],
      sd_invalid_signal_index = 4294967295, sd_can_id = 0x29F, sd_frame_index = 66, sd_part_count = 1,
      sd_width = 1, sd_is_signed = 0, sd_calibrated = 0, sd_scale = fp_lit 1 0, sd_offset = fp_lit 0 0\<rparr>]"

lemma ROADCAST_SIGNALS_69_ok: "block_ok ROADCAST_CAN_IDS 815 690 10 ROADCAST_SIGNALS_69"
  by (simp add: ROADCAST_SIGNALS_69_def signal_eval)

definition ROADCAST_SIGNALS_70 :: "roadcast_signal_definition list" where
  "ROADCAST_SIGNALS_70 = [
    \<lparr>sd_stable_id = 0xeda11f6ee33682fa, sd_name = ''ETC_DealSucAmount'', sd_unit = '''',
      sd_parts = [part_lit 0 16 8, part_lit 0 8 8, part_lit 0 0 8, part_lit 4 24 8],
      sd_invalid_signal_index = 4294967295, sd_can_id = 0x29F, sd_frame_index = 66, sd_part_count = 4,
      sd_width = 32, sd_is_signed = 0, sd_calibrated = 0, sd_scale = fp_lit 1 0, sd_offset = fp_lit 0 0\<rparr>,
    \<lparr>sd_stable_id = 0x771cfc891b1d3f17, sd_name = ''DstToEmptyIndcdDstToEmpty1'', sd_unit = '''',
      sd_parts = [part_lit 0 24 8, part_lit 0 16 3],
      sd_invalid_signal_index = 4294967295, sd_can_id = 0x29B, sd_frame_index = 65, sd_part_count = 2,
      sd_width = 11, sd_is_signed = 0, sd_calibrated = 0, sd_scale = fp_lit 1 0, sd_offset = fp_lit 0 0\<rparr>,
    \<lparr>sd_stable_id = 0x4089fb3ab0b32c9f, sd_name = ''AcEgyDistbn'', sd_unit = '''',
      sd_parts = [part_lit 0 19 5, part_lit 0 8 5],
      sd_invalid_signal_index = 4294967295, sd_can_id = 0x29B, sd_frame_index = 65, sd_part_count = 2,
      sd_width = 10, sd_is_signed = 0, sd_calibrated = 0, sd_scale = fp_lit 1 0, sd_offset = fp_lit 0 0\<rparr>,
    \<lparr>sd_stable_id = 0x771cfd891b1d40ca, sd_name = ''DstToEmptyIndcdDstToEmpty2'', sd_unit = '''',
      sd_parts = [part_lit 0 13 3, part_lit 0 0 8],
      sd_invalid_signal_index = 4294967295, sd_can_id = 0x29B, sd_frame_index = 65, sd_part_count = 2,
      sd_width = 11, sd_is_signed = 0, sd_calibrated = 0, sd_scale = fp_lit 1 0, sd_offset = fp_lit 0 0\<rparr>,
    \<lparr>sd_stable_id = 0x4fbc20309efa4852, sd_name = ''TotDrvPwrAct'', sd_unit = ''kW'',
      sd_parts = [part_lit 4 24 8, part_lit 4 16 3],
      sd_invalid_signal_index = 4294967295, sd_can_id = 0x29B, sd_frame_index = 65, sd_part_count = 2,
      sd_width = 11, sd_is_signed = 0, sd_calibrated = 0, sd_scale = fp_lit 10000000000000001 17, sd_offset = fp_lit (- 10240000000000001) 14\<rparr>,
    \<lparr>sd_stable_id = 0x37865eeceefa3c0e, sd_name = ''ThmEgyDistbn'', sd_unit = '''',
      sd_parts = [part_lit 4 19 5, part_lit 4 8 5],
      sd_invalid_signal_index = 4294967295, sd_can_id = 0x29B, sd_frame_index = 65, sd_part_count = 2,
      sd_width = 10, sd_is_signed = 0, sd_calibrated = 0, sd_scale = fp_lit 1 0, sd_offset = fp_lit 0 0\<rparr>,
    \<lparr>sd_stable_id = 0x2ac031eeae5d2913, sd_name = ''HvConvPwrAct'', sd_unit = '''',
      sd_parts = [part_lit 4 13 3, part_lit 4 0 7],
      sd_invalid_signal_index = 4294967295, sd_can_id = 0x29B, sd_frame_index = 65, sd_part_count = 2,
      sd_width = 10, sd_is_signed = 0, sd_calibrated = 0, sd_scale = fp_lit 1 0, sd_offset = fp_lit 0 0\<rparr>,
    \<lparr>sd_stable_id = 0x0794832e6b25e9dd, sd_name = ''FuCnsAvgIndcdFuCnsIndcdVal1'', sd_unit = '''',
      sd_parts = [part_lit 0 24 8, part_lit 0 16 1],
      sd_invalid_signal_index = 4294967295, sd_can_id = 0x29A, sd_frame_index = 64, sd_part_count = 2,
      sd_width = 9, sd_is_signed = 0, sd_calibrated = 0, sd_scale = fp_lit 1 0, sd_offset = fp_lit 0 0\<rparr>,
    \<lparr>sd_stable_id = 0xc4624f823829d50c, sd_name = ''PwrCnsAvgIndcdPwrCns1'', sd_unit = '''',
      sd_parts = [part_lit 0 17 7, part_lit 0 8 4],
      sd_invalid_signal_index = 4294967295, sd_can_id = 0x29A, sd_frame_index = 64, sd_part_count = 2,
      sd_width = 11, sd_is_signed = 0, sd_calibrated = 0, sd_scale = fp_lit 1 0, sd_offset = fp_lit 0 0\<rparr>,
    \<lparr>sd_stable_id = 0xc46252823829da25, sd_name = ''PwrCnsAvgIndcdPwrCns2'', sd_unit = '''',
      sd_parts = [part_lit 0 12 4, part_lit 0 0 7],
      sd_invalid_signal_index = 4294967295, sd_can_id = 0x29A, sd_frame_index = 64, sd_part_count = 2,
      sd_width = 11, sd_is_signed = 0, sd_calibrated = 0, sd_scale = fp_lit 1 0, sd_offset = fp_lit 0 0\<rparr>]"

lemma ROADCAST_SIGNALS_70_ok: "block_ok ROADCAST_CAN_IDS 815 700 10 ROADCAST_SIGNALS_70"
  by (simp add: ROADCAST_SIGNALS_70_def signal_eval)

definition ROADCAST_SIGNALS_71 :: "roadcast_signal_definition list" where
  "ROADCAST_SIGNALS_71 = [
    \<lparr>sd_stable_id = 0x0794802e6b25e4c4, sd_name = ''FuCnsAvgIndcdFuCnsIndcdVal2'', sd_unit = '''',
      sd_parts = [part_lit 0 7 1, part_lit 4 24 8],
      sd_invalid_signal_index = 4294967295, sd_can_id = 0x29A, sd_frame_index = 64, sd_part_count = 2,
      sd_width = 9, sd_is_signed = 0, sd_calibrated = 0, sd_scale = fp_lit 1 0, sd_offset = fp_lit 0 0\<rparr>,
    \<lparr>sd_stable_id = 0x0794812e6b25e677, sd_name = ''FuCnsAvgIndcdFuCnsIndcdVal3'', sd_unit = '''',
      sd_parts = [part_lit 4 16 8, part_lit 4 8 1],
      sd_invalid_signal_index = 4294967295, sd_can_id = 0x29A, sd_frame_index = 64, sd_part_count = 2,
      sd_width = 9, sd_is_signed = 0, sd_calibrated = 0, sd_scale = fp_lit 1 0, sd_offset = fp_lit 0 0\<rparr>,
    \<lparr>sd_stable_id = 0xc46251823829d872, sd_name = ''PwrCnsAvgIndcdPwrCns3'', sd_unit = '''',
      sd_parts = [part_lit 4 9 7, part_lit 4 0 4],
      sd_invalid_signal_index = 4294967295, sd_can_id = 0x29A, sd_frame_index = 64, sd_part_count = 2,
      sd_width = 11, sd_is_signed = 0, sd_calibrated = 0, sd_scale = fp_lit 1 0, sd_offset = fp_lit 0 0\<rparr>,
    \<lparr>sd_stable_id = 0xeff3d152a220a9dd, sd_name = ''EgyAvgCnsDstSg'', sd_unit = '''',
      sd_parts = [part_lit 4 4 1],
      sd_invalid_signal_index = 4294967295, sd_can_id = 0x29A, sd_frame_index = 64, sd_part_count = 1,
      sd_width = 1, sd_is_signed = 0, sd_calibrated = 0, sd_scale = fp_lit 1 0, sd_offset = fp_lit 0 0\<rparr>,
    \<lparr>sd_stable_id = 0x0eb1681b49f5c4cd, sd_name = ''TBOX_ALSwitchSet'', sd_unit = '''',
      sd_parts = [part_lit 0 24 2],
      sd_invalid_signal_index = 4294967295, sd_can_id = 0x297, sd_frame_index = 62, sd_part_count = 1,
      sd_width = 2, sd_is_signed = 0, sd_calibrated = 0, sd_scale = fp_lit 1 0, sd_offset = fp_lit 0 0\<rparr>,
    \<lparr>sd_stable_id = 0xee99722bf785fb2d, sd_name = ''TBOX_ALColourSet'', sd_unit = '''',
      sd_parts = [part_lit 0 16 7],
      sd_invalid_signal_index = 4294967295, sd_can_id = 0x297, sd_frame_index = 62, sd_part_count = 1,
      sd_width = 7, sd_is_signed = 0, sd_calibrated = 0, sd_scale = fp_lit 1 0, sd_offset = fp_lit 0 0\<rparr>,
    \<lparr>sd_stable_id = 0xc1f7aa7bc97af4aa, sd_name = ''AVM_APA_SystemSts'', sd_unit = '''',
      sd_parts = [part_lit 0 29 3],
      sd_invalid_signal_index = 4294967295, sd_can_id = 0x294, sd_frame_index = 60, sd_part_count = 1,
      sd_width = 3, sd_is_signed = 0, sd_calibrated = 0, sd_scale = fp_lit 1 0, sd_offset = fp_lit 0 0\<rparr>,
    \<lparr>sd_stable_id = 0x8ab2c96072b16be0, sd_name = ''AVM_APA_AutoSearchSts'', sd_unit = '''',
      sd_parts = [part_lit 0 25 3],
      sd_invalid_signal_index = 4294967295, sd_can_id = 0x294, sd_frame_index = 60, sd_part_count = 1,
      sd_width = 3, sd_is_signed = 0, sd_calibrated = 0, sd_scale = fp_lit 1 0, sd_offset = fp_lit 0 0\<rparr>,
    \<lparr>sd_stable_id = 0xa3debbaba4b31ffa, sd_name = ''AVM_APA_ParkOutChkResult'', sd_unit = '''',
      sd_parts = [part_lit 0 24 1],
      sd_invalid_signal_index = 4294967295, sd_can_id = 0x294, sd_frame_index = 60, sd_part_count = 1,
      sd_width = 1, sd_is_signed = 0, sd_calibrated = 0, sd_scale = fp_lit 1 0, sd_offset = fp_lit 0 0\<rparr>,
    \<lparr>sd_stable_id = 0x325a4f3188e9d429, sd_name = ''AVM_APA_CurrentPathNum'', sd_unit = '''',
      sd_parts = [part_lit 0 20 4],
      sd_invalid_signal_index = 4294967295, sd_can_id = 0x294, sd_frame_index = 60, sd_part_count = 1,
      sd_width = 4, sd_is_signed = 0, sd_calibrated = 0, sd_scale = fp_lit 1 0, sd_offset = fp_lit 0 0\<rparr>]"

lemma ROADCAST_SIGNALS_71_ok: "block_ok ROADCAST_CAN_IDS 815 710 10 ROADCAST_SIGNALS_71"
  by (simp add: ROADCAST_SIGNALS_71_def signal_eval)

definition ROADCAST_SIGNALS_72 :: "roadcast_signal_definition list" where
  "ROADCAST_SIGNALS_72 = [
    \<lparr>sd_stable_id = 0x6f18a91563786df4, sd_name = ''AVM_APA_TotalPathNum'', sd_unit = '''',
      sd_parts = [part_lit 0 16 4],
      sd_invalid_signal_index = 4294967295, sd_can_id = 0x294, sd_frame_index = 60, sd_part_count = 1,
      sd_width = 4, sd_is_signed = 0, sd_calibrated = 0, sd_scale = fp_lit 1 0, sd_offset = fp_lit 0 0\<rparr>,
    \<lparr>sd_stable_id = 0xee6d0ed3a090c484, sd_name = ''AVM_APA_SuspendedReason'', sd_unit = '''',
      sd_parts = [part_lit 0 13 3],
      sd_invalid_signal_index = 4294967295, sd_can_id = 0x294, sd_frame_index = 60, sd_part_count = 1,
      sd_width = 3, sd_is_signed = 0, sd_calibrated = 0, sd_scale = fp_lit 1 0, sd_offset = fp_lit 0 0\<rparr>,
    \<lparr>sd_stable_id = 0xc3af8a9b195bc06b, sd_name = ''AVM_APA_AbortReason'', sd_unit = '''',
      sd_parts = [part_lit 0 8 5],
      sd_invalid_signal_index = 4294967295, sd_can_id = 0x294, sd_frame_index = 60, sd_part_count = 1,
      sd_width = 5, sd_is_signed = 0, sd_calibrated = 0, sd_scale = fp_lit 1 0, sd_offset = fp_lit 0 0\<rparr>,
    \<lparr>sd_stable_id = 0x9662b0ccd5c416cc, sd_name = ''AVM_APA_CurrentParkType'', sd_unit = '''',
      sd_parts = [part_lit 0 5 3],
      sd_invalid_signal_index = 4294967295, sd_can_id = 0x294, sd_frame_index = 60, sd_part_count = 1,
      sd_width = 3, sd_is_signed = 0, sd_calibrated = 0, sd_scale = fp_lit 1 0, sd_offset = fp_lit 0 0\<rparr>,
    \<lparr>sd_stable_id = 0x2a9e43a1f800396f, sd_name = ''AVM_APA_OverrideReason'', sd_unit = '''',
      sd_parts = [part_lit 0 2 3],
      sd_invalid_signal_index = 4294967295, sd_can_id = 0x294, sd_frame_index = 60, sd_part_count = 1,
      sd_width = 3, sd_is_signed = 0, sd_calibrated = 0, sd_scale = fp_lit 1 0, sd_offset = fp_lit 0 0\<rparr>,
    \<lparr>sd_stable_id = 0xfe8a86ddb5e33646, sd_name = ''AVM_APA_VehicleDirection'', sd_unit = '''',
      sd_parts = [part_lit 0 0 2],
      sd_invalid_signal_index = 4294967295, sd_can_id = 0x294, sd_frame_index = 60, sd_part_count = 1,
      sd_width = 2, sd_is_signed = 0, sd_calibrated = 0, sd_scale = fp_lit 1 0, sd_offset = fp_lit 0 0\<rparr>,
    \<lparr>sd_stable_id = 0xa2e721dff4f4f5b6, sd_name = ''AVM_APA_CurrentStepNum'', sd_unit = '''',
      sd_parts = [part_lit 4 28 4],
      sd_invalid_signal_index = 4294967295, sd_can_id = 0x294, sd_frame_index = 60, sd_part_count = 1,
      sd_width = 4, sd_is_signed = 0, sd_calibrated = 0, sd_scale = fp_lit 1 0, sd_offset = fp_lit 0 0\<rparr>,
    \<lparr>sd_stable_id = 0xa11881b779414736, sd_name = ''AVM_APA_TerminatedType'', sd_unit = '''',
      sd_parts = [part_lit 4 26 2],
      sd_invalid_signal_index = 4294967295, sd_can_id = 0x294, sd_frame_index = 60, sd_part_count = 1,
      sd_width = 2, sd_is_signed = 0, sd_calibrated = 0, sd_scale = fp_lit 1 0, sd_offset = fp_lit 0 0\<rparr>,
    \<lparr>sd_stable_id = 0x5bb00951c9a81942, sd_name = ''AVM_APA_ParkOutSystemStatus'', sd_unit = '''',
      sd_parts = [part_lit 4 25 1],
      sd_invalid_signal_index = 4294967295, sd_can_id = 0x294, sd_frame_index = 60, sd_part_count = 1,
      sd_width = 1, sd_is_signed = 0, sd_calibrated = 0, sd_scale = fp_lit 1 0, sd_offset = fp_lit 0 0\<rparr>,
    \<lparr>sd_stable_id = 0xb17fab7b33d886ea, sd_name = ''AVM_APA_VoicePrompts'', sd_unit = '''',
      sd_parts = [part_lit 4 20 4],
      sd_invalid_signal_index = 4294967295, sd_can_id = 0x294, sd_frame_index = 60, sd_part_count = 1,
      sd_width = 4, sd_is_signed = 0, sd_calibrated = 0, sd_scale = fp_lit 1 0, sd_offset = fp_lit 0 0\<rparr>]"

lemma ROADCAST_SIGNALS_72_ok: "block_ok ROADCAST_CAN_IDS 815 720 10 ROADCAST_SIGNALS_72"
  by (simp add: ROADCAST_SIGNALS_72_def signal_eval)

definition ROADCAST_SIGNALS_73 :: "roadcast_signal_definition list" where
  "ROADCAST_SIGNALS_73 = [
    \<lparr>sd_stable_id = 0x149873c9f3eeeff3, sd_name = ''PAS_PrkgDockDisReq'', sd_unit = '''',
      sd_parts = [part_lit 4 18 2],
      sd_invalid_signal_index = 4294967295, sd_can_id = 0x294, sd_frame_index = 60, sd_part_count = 1,
      sd_width = 2, sd_is_signed = 0, sd_calibrated = 0, sd_scale = fp_lit 1 0, sd_offset = fp_lit 0 0\<rparr>,
    \<lparr>sd_stable_id = 0xadbbe42a4be03b27, sd_name = ''AVM_HalfScrnDispReq'', sd_unit = '''',
      sd_parts = [part_lit 4 8 3],
      sd_invalid_signal_index = 4294967295, sd_can_id = 0x294, sd_frame_index = 60, sd_part_count = 1,
      sd_width = 3, sd_is_signed = 0, sd_calibrated = 0, sd_scale = fp_lit 1 0, sd_offset = fp_lit 0 0\<rparr>,
    \<lparr>sd_stable_id = 0x9b70d27ad91e17b3, sd_name = ''TBOX_ShareModeSts'', sd_unit = '''',
      sd_parts = [part_lit 0 26 1],
      sd_invalid_signal_index = 4294967295, sd_can_id = 0x292, sd_frame_index = 59, sd_part_count = 1,
      sd_width = 1, sd_is_signed = 0, sd_calibrated = 0, sd_scale = fp_lit 1 0, sd_offset = fp_lit 0 0\<rparr>,
    \<lparr>sd_stable_id = 0x76b78ff0574aa353, sd_name = ''TBOX_Inquire_GPS'', sd_unit = '''',
      sd_parts = [part_lit 0 25 1],
      sd_invalid_signal_index = 4294967295, sd_can_id = 0x292, sd_frame_index = 59, sd_part_count = 1,
      sd_width = 1, sd_is_signed = 0, sd_calibrated = 0, sd_scale = fp_lit 1 0, sd_offset = fp_lit 0 0\<rparr>,
    \<lparr>sd_stable_id = 0xae85c2736a46ed26, sd_name = ''TBOX_SystemSts'', sd_unit = '''',
      sd_parts = [part_lit 0 24 1],
      sd_invalid_signal_index = 4294967295, sd_can_id = 0x292, sd_frame_index = 59, sd_part_count = 1,
      sd_width = 1, sd_is_signed = 0, sd_calibrated = 0, sd_scale = fp_lit 1 0, sd_offset = fp_lit 0 0\<rparr>,
    \<lparr>sd_stable_id = 0x933f8b376222e9d6, sd_name = ''TBOX_GloveBoxPermission'', sd_unit = '''',
      sd_parts = [part_lit 4 14 2],
      sd_invalid_signal_index = 4294967295, sd_can_id = 0x292, sd_frame_index = 59, sd_part_count = 1,
      sd_width = 2, sd_is_signed = 0, sd_calibrated = 0, sd_scale = fp_lit 1 0, sd_offset = fp_lit 0 0\<rparr>,
    \<lparr>sd_stable_id = 0xee14c777784fadaa, sd_name = ''TBOX_TrailerReminderStatus'', sd_unit = '''',
      sd_parts = [part_lit 4 12 2],
      sd_invalid_signal_index = 4294967295, sd_can_id = 0x292, sd_frame_index = 59, sd_part_count = 1,
      sd_width = 2, sd_is_signed = 0, sd_calibrated = 0, sd_scale = fp_lit 1 0, sd_offset = fp_lit 0 0\<rparr>,
    \<lparr>sd_stable_id = 0x55bb9a2e64cee3bd, sd_name = ''TCM_Req_TurnIndicationAct'', sd_unit = '''',
      sd_parts = [part_lit 0 14 2],
      sd_invalid_signal_index = 4294967295, sd_can_id = 0x281, sd_frame_index = 50, sd_part_count = 1,
      sd_width = 2, sd_is_signed = 0, sd_calibrated = 0, sd_scale = fp_lit 1 0, sd_offset = fp_lit 0 0\<rparr>,
    \<lparr>sd_stable_id = 0x289425fcb7e5b20d, sd_name = ''TCM_SW_Trip'', sd_unit = '''',
      sd_parts = [part_lit 0 0 2],
      sd_invalid_signal_index = 4294967295, sd_can_id = 0x281, sd_frame_index = 50, sd_part_count = 1,
      sd_width = 2, sd_is_signed = 0, sd_calibrated = 0, sd_scale = fp_lit 1 0, sd_offset = fp_lit 0 0\<rparr>,
    \<lparr>sd_stable_id = 0x4fa5bf7fabbdf234, sd_name = ''TCM_IntegrationSwtCtrl_AliveCounter'', sd_unit = '''',
      sd_parts = [part_lit 4 12 4],
      sd_invalid_signal_index = 4294967295, sd_can_id = 0x281, sd_frame_index = 50, sd_part_count = 1,
      sd_width = 4, sd_is_signed = 0, sd_calibrated = 0, sd_scale = fp_lit 1 0, sd_offset = fp_lit 0 0\<rparr>]"

lemma ROADCAST_SIGNALS_73_ok: "block_ok ROADCAST_CAN_IDS 815 730 10 ROADCAST_SIGNALS_73"
  by (simp add: ROADCAST_SIGNALS_73_def signal_eval)

definition ROADCAST_SIGNALS_74 :: "roadcast_signal_definition list" where
  "ROADCAST_SIGNALS_74 = [
    \<lparr>sd_stable_id = 0xe5abd2631942031c, sd_name = ''TCM_IntegrationSwtCtrl_Checksum'', sd_unit = '''',
      sd_parts = [part_lit 4 0 8],
      sd_invalid_signal_index = 4294967295, sd_can_id = 0x281, sd_frame_index = 50, sd_part_count = 1,
      sd_width = 8, sd_is_signed = 0, sd_calibrated = 0, sd_scale = fp_lit 1 0, sd_offset = fp_lit 0 0\<rparr>,
    \<lparr>sd_stable_id = 0x3df203c32e6923a3, sd_name = ''SWSM_Right_Bt_00'', sd_unit = '''',
      sd_parts = [part_lit 0 31 1],
      sd_invalid_signal_index = 4294967295, sd_can_id = 0x26F, sd_frame_index = 46, sd_part_count = 1,
      sd_width = 1, sd_is_signed = 0, sd_calibrated = 0, sd_scale = fp_lit 1 0, sd_offset = fp_lit 0 0\<rparr>,
    \<lparr>sd_stable_id = 0x3df202c32e6921f0, sd_name = ''SWSM_Right_Bt_01'', sd_unit = '''',
      sd_parts = [part_lit 0 30 1],
      sd_invalid_signal_index = 4294967295, sd_can_id = 0x26F, sd_frame_index = 46, sd_part_count = 1,
      sd_width = 1, sd_is_signed = 0, sd_calibrated = 0, sd_scale = fp_lit 1 0, sd_offset = fp_lit 0 0\<rparr>,
    \<lparr>sd_stable_id = 0x3df205c32e692709, sd_name = ''SWSM_Right_Bt_02'', sd_unit = '''',
      sd_parts = [part_lit 0 29 1],
      sd_invalid_signal_index = 4294967295, sd_can_id = 0x26F, sd_frame_index = 46, sd_part_count = 1,
      sd_width = 1, sd_is_signed = 0, sd_calibrated = 0, sd_scale = fp_lit 1 0, sd_offset = fp_lit 0 0\<rparr>,
    \<lparr>sd_stable_id = 0x3df204c32e692556, sd_name = ''SWSM_Right_Bt_03'', sd_unit = '''',
      sd_parts = [part_lit 0 28 1],
      sd_invalid_signal_index = 4294967295, sd_can_id = 0x26F, sd_frame_index = 46, sd_part_count = 1,
      sd_width = 1, sd_is_signed = 0, sd_calibrated = 0, sd_scale = fp_lit 1 0, sd_offset = fp_lit 0 0\<rparr>,
    \<lparr>sd_stable_id = 0x3df207c32e692a6f, sd_name = ''SWSM_Right_Bt_04'', sd_unit = '''',
      sd_parts = [part_lit 0 27 1],
      sd_invalid_signal_index = 4294967295, sd_can_id = 0x26F, sd_frame_index = 46, sd_part_count = 1,
      sd_width = 1, sd_is_signed = 0, sd_calibrated = 0, sd_scale = fp_lit 1 0, sd_offset = fp_lit 0 0\<rparr>,
    \<lparr>sd_stable_id = 0x3df206c32e6928bc, sd_name = ''SWSM_Right_Bt_05'', sd_unit = '''',
      sd_parts = [part_lit 0 26 1],
      sd_invalid_signal_index = 4294967295, sd_can_id = 0x26F, sd_frame_index = 46, sd_part_count = 1,
      sd_width = 1, sd_is_signed = 0, sd_calibrated = 0, sd_scale = fp_lit 1 0, sd_offset = fp_lit 0 0\<rparr>,
    \<lparr>sd_stable_id = 0x3df209c32e692dd5, sd_name = ''SWSM_Right_Bt_06'', sd_unit = '''',
      sd_parts = [part_lit 0 25 1],
      sd_invalid_signal_index = 4294967295, sd_can_id = 0x26F, sd_frame_index = 46, sd_part_count = 1,
      sd_width = 1, sd_is_signed = 0, sd_calibrated = 0, sd_scale = fp_lit 1 0, sd_offset = fp_lit 0 0\<rparr>,
    \<lparr>sd_stable_id = 0x3df208c32e692c22, sd_name = ''SWSM_Right_Bt_07'', sd_unit = '''',
      sd_parts = [part_lit 0 24 1],
      sd_invalid_signal_index = 4294967295, sd_can_id = 0x26F, sd_frame_index = 46, sd_part_count = 1,
      sd_width = 1, sd_is_signed = 0, sd_calibrated = 0, sd_scale = fp_lit 1 0, sd_offset = fp_lit 0 0\<rparr>,
    \<lparr>sd_stable_id = 0x94362cdd5878c318, sd_name = ''SWSM_Left_Bt_06'', sd_unit = '''',
      sd_parts = [part_lit 0 23 1],
      sd_invalid_signal_index = 4294967295, sd_can_id = 0x26F, sd_frame_index = 46, sd_part_count = 1,
      sd_width = 1, sd_is_signed = 0, sd_calibrated = 0, sd_scale = fp_lit 1 0, sd_offset = fp_lit 0 0\<rparr>]"

lemma ROADCAST_SIGNALS_74_ok: "block_ok ROADCAST_CAN_IDS 815 740 10 ROADCAST_SIGNALS_74"
  by (simp add: ROADCAST_SIGNALS_74_def signal_eval)

definition ROADCAST_SIGNALS_75 :: "roadcast_signal_definition list" where
  "ROADCAST_SIGNALS_75 = [
    \<lparr>sd_stable_id = 0x94362fdd5878c831, sd_name = ''SWSM_Left_Bt_05'', sd_unit = '''',
      sd_parts = [part_lit 0 22 1],
      sd_invalid_signal_index = 4294967295, sd_can_id = 0x26F, sd_frame_index = 46, sd_part_count = 1,
      sd_width = 1, sd_is_signed = 0, sd_calibrated = 0, sd_scale = fp_lit 1 0, sd_offset = fp_lit 0 0\<rparr>,
    \<lparr>sd_stable_id = 0x5cf9322c91af0e29, sd_name = ''IPK_ThemeLinkSwitchStatus'', sd_unit = '''',
      sd_parts = [part_lit 0 12 1],
      sd_invalid_signal_index = 4294967295, sd_can_id = 0x260, sd_frame_index = 44, sd_part_count = 1,
      sd_width = 1, sd_is_signed = 0, sd_calibrated = 0, sd_scale = fp_lit 1 0, sd_offset = fp_lit 0 0\<rparr>,
    \<lparr>sd_stable_id = 0x693e5e34ced8a59d, sd_name = ''IPK_EngSpeedDisp'', sd_unit = '''',
      sd_parts = [part_lit 4 8 8, part_lit 4 0 5],
      sd_invalid_signal_index = 4294967295, sd_can_id = 0x260, sd_frame_index = 44, sd_part_count = 2,
      sd_width = 13, sd_is_signed = 0, sd_calibrated = 0, sd_scale = fp_lit 1 0, sd_offset = fp_lit 0 0\<rparr>,
    \<lparr>sd_stable_id = 0xc7eeb79aadec57fb, sd_name = ''IdleChrgFctSts'', sd_unit = '''',
      sd_parts = [part_lit 0 27 3],
      sd_invalid_signal_index = 4294967295, sd_can_id = 0x255, sd_frame_index = 43, sd_part_count = 1,
      sd_width = 3, sd_is_signed = 0, sd_calibrated = 0, sd_scale = fp_lit 1 0, sd_offset = fp_lit 0 0\<rparr>,
    \<lparr>sd_stable_id = 0x5171c9f8c393d892, sd_name = ''DstEstimdToEmptyForDrvgElec'', sd_unit = '''',
      sd_parts = [part_lit 4 24 8, part_lit 4 16 2],
      sd_invalid_signal_index = 4294967295, sd_can_id = 0x255, sd_frame_index = 43, sd_part_count = 2,
      sd_width = 10, sd_is_signed = 0, sd_calibrated = 0, sd_scale = fp_lit 1 0, sd_offset = fp_lit 0 0\<rparr>,
    \<lparr>sd_stable_id = 0xafaab3d190b36cd0, sd_name = ''DstEstimdToEmptyForDrvgElecPredTyp2'', sd_unit = '''',
      sd_parts = [part_lit 4 18 6, part_lit 4 8 4],
      sd_invalid_signal_index = 4294967295, sd_can_id = 0x255, sd_frame_index = 43, sd_part_count = 2,
      sd_width = 10, sd_is_signed = 0, sd_calibrated = 0, sd_scale = fp_lit 1 0, sd_offset = fp_lit 0 0\<rparr>,
    \<lparr>sd_stable_id = 0x007486a554a7ab5b, sd_name = ''HP_BacklightLevelSts'', sd_unit = '''',
      sd_parts = [part_lit 0 28 4],
      sd_invalid_signal_index = 4294967295, sd_can_id = 0x226, sd_frame_index = 41, sd_part_count = 1,
      sd_width = 4, sd_is_signed = 0, sd_calibrated = 0, sd_scale = fp_lit 1 0, sd_offset = fp_lit 0 0\<rparr>,
    \<lparr>sd_stable_id = 0x67c742cb4a408cb6, sd_name = ''HP_AciveSts'', sd_unit = '''',
      sd_parts = [part_lit 0 26 2],
      sd_invalid_signal_index = 4294967295, sd_can_id = 0x226, sd_frame_index = 41, sd_part_count = 1,
      sd_width = 2, sd_is_signed = 0, sd_calibrated = 0, sd_scale = fp_lit 1 0, sd_offset = fp_lit 0 0\<rparr>,
    \<lparr>sd_stable_id = 0x2e265e4b1f165de2, sd_name = ''HP_BacklightMode'', sd_unit = '''',
      sd_parts = [part_lit 0 24 2],
      sd_invalid_signal_index = 4294967295, sd_can_id = 0x226, sd_frame_index = 41, sd_part_count = 1,
      sd_width = 2, sd_is_signed = 0, sd_calibrated = 0, sd_scale = fp_lit 1 0, sd_offset = fp_lit 0 0\<rparr>,
    \<lparr>sd_stable_id = 0x00fe11f189eca2cd, sd_name = ''IB_BrakeModeSetResponse'', sd_unit = '''',
      sd_parts = [part_lit 0 29 3],
      sd_invalid_signal_index = 4294967295, sd_can_id = 0x225, sd_frame_index = 40, sd_part_count = 1,
      sd_width = 3, sd_is_signed = 0, sd_calibrated = 0, sd_scale = fp_lit 1 0, sd_offset = fp_lit 0 0\<rparr>]"

lemma ROADCAST_SIGNALS_75_ok: "block_ok ROADCAST_CAN_IDS 815 750 10 ROADCAST_SIGNALS_75"
  by (simp add: ROADCAST_SIGNALS_75_def signal_eval)

definition ROADCAST_SIGNALS_76 :: "roadcast_signal_definition list" where
  "ROADCAST_SIGNALS_76 = [
    \<lparr>sd_stable_id = 0x8af45e0c81919218, sd_name = ''TCU_WarningMsgRed'', sd_unit = '''',
      sd_parts = [part_lit 0 22 1],
      sd_invalid_signal_index = 4294967295, sd_can_id = 0x218, sd_frame_index = 37, sd_part_count = 1,
      sd_width = 1, sd_is_signed = 0, sd_calibrated = 0, sd_scale = fp_lit 1 0, sd_offset = fp_lit 0 0\<rparr>,
    \<lparr>sd_stable_id = 0xad962d70c71e3335, sd_name = ''TCU_WarningMsgYellow'', sd_unit = '''',
      sd_parts = [part_lit 0 21 1],
      sd_invalid_signal_index = 4294967295, sd_can_id = 0x218, sd_frame_index = 37, sd_part_count = 1,
      sd_width = 1, sd_is_signed = 0, sd_calibrated = 0, sd_scale = fp_lit 1 0, sd_offset = fp_lit 0 0\<rparr>,
    \<lparr>sd_stable_id = 0x75d35f16661076df, sd_name = ''TCU_DriverRemind'', sd_unit = '''',
      sd_parts = [part_lit 0 17 4],
      sd_invalid_signal_index = 4294967295, sd_can_id = 0x218, sd_frame_index = 37, sd_part_count = 1,
      sd_width = 4, sd_is_signed = 0, sd_calibrated = 0, sd_scale = fp_lit 1 0, sd_offset = fp_lit 0 0\<rparr>,
    \<lparr>sd_stable_id = 0x1748e46252f55057, sd_name = ''TCU_WarningMsgGearboxOvertemp'', sd_unit = '''',
      sd_parts = [part_lit 0 16 1],
      sd_invalid_signal_index = 4294967295, sd_can_id = 0x218, sd_frame_index = 37, sd_part_count = 1,
      sd_width = 1, sd_is_signed = 0, sd_calibrated = 0, sd_scale = fp_lit 1 0, sd_offset = fp_lit 0 0\<rparr>,
    \<lparr>sd_stable_id = 0x0e95d7c76b768c24, sd_name = ''TCU_ParkFailureReport'', sd_unit = '''',
      sd_parts = [part_lit 0 7 1],
      sd_invalid_signal_index = 4294967295, sd_can_id = 0x218, sd_frame_index = 37, sd_part_count = 1,
      sd_width = 1, sd_is_signed = 0, sd_calibrated = 0, sd_scale = fp_lit 1 0, sd_offset = fp_lit 0 0\<rparr>,
    \<lparr>sd_stable_id = 0x5a7fa1520de6d5ba, sd_name = ''TCU_OvertempLevel'', sd_unit = '''',
      sd_parts = [part_lit 0 2 2],
      sd_invalid_signal_index = 4294967295, sd_can_id = 0x218, sd_frame_index = 37, sd_part_count = 1,
      sd_width = 2, sd_is_signed = 0, sd_calibrated = 0, sd_scale = fp_lit 1 0, sd_offset = fp_lit 0 0\<rparr>,
    \<lparr>sd_stable_id = 0x66f7e4009843ec42, sd_name = ''BMSH_RemindChargeFull'', sd_unit = '''',
      sd_parts = [part_lit 0 12 1],
      sd_invalid_signal_index = 4294967295, sd_can_id = 0x212, sd_frame_index = 35, sd_part_count = 1,
      sd_width = 1, sd_is_signed = 0, sd_calibrated = 0, sd_scale = fp_lit 1 0, sd_offset = fp_lit 0 0\<rparr>,
    \<lparr>sd_stable_id = 0x30fc366ca0b4445a, sd_name = ''BMSH_BookChargeRemind'', sd_unit = '''',
      sd_parts = [part_lit 0 8 4],
      sd_invalid_signal_index = 4294967295, sd_can_id = 0x212, sd_frame_index = 35, sd_part_count = 1,
      sd_width = 4, sd_is_signed = 0, sd_calibrated = 0, sd_scale = fp_lit 1 0, sd_offset = fp_lit 0 0\<rparr>,
    \<lparr>sd_stable_id = 0x3f681b0afeed9cda, sd_name = ''BMSH_ChargeEnable'', sd_unit = '''',
      sd_parts = [part_lit 0 28 4],
      sd_invalid_signal_index = 4294967295, sd_can_id = 0x211, sd_frame_index = 34, sd_part_count = 1,
      sd_width = 4, sd_is_signed = 0, sd_calibrated = 0, sd_scale = fp_lit 1 0, sd_offset = fp_lit 0 0\<rparr>,
    \<lparr>sd_stable_id = 0x5cc04351a4428b63, sd_name = ''BMSH_OBC_CellMaxChgVolt'', sd_unit = ''V'',
      sd_parts = [part_lit 0 16 8, part_lit 0 8 1],
      sd_invalid_signal_index = 4294967295, sd_can_id = 0x211, sd_frame_index = 34, sd_part_count = 2,
      sd_width = 9, sd_is_signed = 0, sd_calibrated = 1, sd_scale = fp_lit 1 2, sd_offset = fp_lit 0 0\<rparr>]"

lemma ROADCAST_SIGNALS_76_ok: "block_ok ROADCAST_CAN_IDS 815 760 10 ROADCAST_SIGNALS_76"
  by (simp add: ROADCAST_SIGNALS_76_def signal_eval)

definition ROADCAST_SIGNALS_77 :: "roadcast_signal_definition list" where
  "ROADCAST_SIGNALS_77 = [
    \<lparr>sd_stable_id = 0x381ec6de989702a5, sd_name = ''BMSH_OBC_CellMinDischgVolt'', sd_unit = ''V'',
      sd_parts = [part_lit 0 9 7, part_lit 0 0 2],
      sd_invalid_signal_index = 4294967295, sd_can_id = 0x211, sd_frame_index = 34, sd_part_count = 2,
      sd_width = 9, sd_is_signed = 0, sd_calibrated = 1, sd_scale = fp_lit 1 2, sd_offset = fp_lit 0 0\<rparr>,
    \<lparr>sd_stable_id = 0x5293d1454c2c004c, sd_name = ''BMSH_ChargeOutVolSetP'', sd_unit = ''V'',
      sd_parts = [part_lit 0 2 6, part_lit 4 24 8],
      sd_invalid_signal_index = 4294967295, sd_can_id = 0x211, sd_frame_index = 34, sd_part_count = 2,
      sd_width = 14, sd_is_signed = 0, sd_calibrated = 1, sd_scale = fp_lit 10000000000000001 17, sd_offset = fp_lit 0 0\<rparr>,
    \<lparr>sd_stable_id = 0x46aedd66935a4078, sd_name = ''BMSH_BookTrvlReq'', sd_unit = '''',
      sd_parts = [part_lit 4 11 1],
      sd_invalid_signal_index = 4294967295, sd_can_id = 0x211, sd_frame_index = 34, sd_part_count = 1,
      sd_width = 1, sd_is_signed = 0, sd_calibrated = 0, sd_scale = fp_lit 1 0, sd_offset = fp_lit 0 0\<rparr>,
    \<lparr>sd_stable_id = 0x03421e9c66ac51a3, sd_name = ''LOGOWorkSts'', sd_unit = '''',
      sd_parts = [part_lit 0 31 1],
      sd_invalid_signal_index = 4294967295, sd_can_id = 0x1FB, sd_frame_index = 33, sd_part_count = 1,
      sd_width = 1, sd_is_signed = 0, sd_calibrated = 0, sd_scale = fp_lit 1 0, sd_offset = fp_lit 0 0\<rparr>,
    \<lparr>sd_stable_id = 0x8302ed550ca4bede, sd_name = ''LOGOErrorSts'', sd_unit = '''',
      sd_parts = [part_lit 0 30 1],
      sd_invalid_signal_index = 4294967295, sd_can_id = 0x1FB, sd_frame_index = 33, sd_part_count = 1,
      sd_width = 1, sd_is_signed = 0, sd_calibrated = 0, sd_scale = fp_lit 1 0, sd_offset = fp_lit 0 0\<rparr>,
    \<lparr>sd_stable_id = 0xf498df6bd9fe3495, sd_name = ''PAS_APA_Quit_Indication'', sd_unit = '''',
      sd_parts = [part_lit 0 27 5],
      sd_invalid_signal_index = 4294967295, sd_can_id = 0x191, sd_frame_index = 23, sd_part_count = 1,
      sd_width = 5, sd_is_signed = 0, sd_calibrated = 0, sd_scale = fp_lit 1 0, sd_offset = fp_lit 0 0\<rparr>,
    \<lparr>sd_stable_id = 0x501a1f88e7ddb904, sd_name = ''PAS_APA_Recover_INT_Indication'', sd_unit = '''',
      sd_parts = [part_lit 0 24 3],
      sd_invalid_signal_index = 4294967295, sd_can_id = 0x191, sd_frame_index = 23, sd_part_count = 1,
      sd_width = 3, sd_is_signed = 0, sd_calibrated = 0, sd_scale = fp_lit 1 0, sd_offset = fp_lit 0 0\<rparr>,
    \<lparr>sd_stable_id = 0x241b398bd1a89bb5, sd_name = ''PAS_APA_DrRqst'', sd_unit = '''',
      sd_parts = [part_lit 0 19 5],
      sd_invalid_signal_index = 4294967295, sd_can_id = 0x191, sd_frame_index = 23, sd_part_count = 1,
      sd_width = 5, sd_is_signed = 0, sd_calibrated = 0, sd_scale = fp_lit 1 0, sd_offset = fp_lit 0 0\<rparr>,
    \<lparr>sd_stable_id = 0x2aa46ef041ebcc47, sd_name = ''PAS_APA_Parkslot_State'', sd_unit = '''',
      sd_parts = [part_lit 0 17 2],
      sd_invalid_signal_index = 4294967295, sd_can_id = 0x191, sd_frame_index = 23, sd_part_count = 1,
      sd_width = 2, sd_is_signed = 0, sd_calibrated = 0, sd_scale = fp_lit 1 0, sd_offset = fp_lit 0 0\<rparr>,
    \<lparr>sd_stable_id = 0x440302e56ab651cc, sd_name = ''PAS_APA_ButtonPress'', sd_unit = '''',
      sd_parts = [part_lit 0 16 1],
      sd_invalid_signal_index = 4294967295, sd_can_id = 0x191, sd_frame_index = 23, sd_part_count = 1,
      sd_width = 1, sd_is_signed = 0, sd_calibrated = 0, sd_scale = fp_lit 1 0, sd_offset = fp_lit 0 0\<rparr>]"

lemma ROADCAST_SIGNALS_77_ok: "block_ok ROADCAST_CAN_IDS 815 770 10 ROADCAST_SIGNALS_77"
  by (simp add: ROADCAST_SIGNALS_77_def signal_eval)

definition ROADCAST_SIGNALS_78 :: "roadcast_signal_definition list" where
  "ROADCAST_SIGNALS_78 = [
    \<lparr>sd_stable_id = 0x659d8f9614dc260a, sd_name = ''PAS_SVA_Mode'', sd_unit = '''',
      sd_parts = [part_lit 0 13 3],
      sd_invalid_signal_index = 4294967295, sd_can_id = 0x191, sd_frame_index = 23, sd_part_count = 1,
      sd_width = 3, sd_is_signed = 0, sd_calibrated = 0, sd_scale = fp_lit 1 0, sd_offset = fp_lit 0 0\<rparr>,
    \<lparr>sd_stable_id = 0x5035f04faace8407, sd_name = ''PAS_SVA_Status'', sd_unit = '''',
      sd_parts = [part_lit 0 8 1],
      sd_invalid_signal_index = 4294967295, sd_can_id = 0x191, sd_frame_index = 23, sd_part_count = 1,
      sd_width = 1, sd_is_signed = 0, sd_calibrated = 0, sd_scale = fp_lit 1 0, sd_offset = fp_lit 0 0\<rparr>,
    \<lparr>sd_stable_id = 0x2d2ad9b5eebf3933, sd_name = ''PAS_APA_SelectedSide'', sd_unit = '''',
      sd_parts = [part_lit 0 6 2],
      sd_invalid_signal_index = 4294967295, sd_can_id = 0x191, sd_frame_index = 23, sd_part_count = 1,
      sd_width = 2, sd_is_signed = 0, sd_calibrated = 0, sd_scale = fp_lit 1 0, sd_offset = fp_lit 0 0\<rparr>,
    \<lparr>sd_stable_id = 0xf9e15fb4fa0d712f, sd_name = ''PAS_APA_Indication'', sd_unit = '''',
      sd_parts = [part_lit 0 3 3],
      sd_invalid_signal_index = 4294967295, sd_can_id = 0x191, sd_frame_index = 23, sd_part_count = 1,
      sd_width = 3, sd_is_signed = 0, sd_calibrated = 0, sd_scale = fp_lit 1 0, sd_offset = fp_lit 0 0\<rparr>,
    \<lparr>sd_stable_id = 0x8804b3dca43e6b9b, sd_name = ''PAS_APA_Status'', sd_unit = '''',
      sd_parts = [part_lit 0 0 3],
      sd_invalid_signal_index = 4294967295, sd_can_id = 0x191, sd_frame_index = 23, sd_part_count = 1,
      sd_width = 3, sd_is_signed = 0, sd_calibrated = 0, sd_scale = fp_lit 1 0, sd_offset = fp_lit 0 0\<rparr>,
    \<lparr>sd_stable_id = 0xc03d6d1e071c9b11, sd_name = ''PAS_APA_EndCurrentVoiceReq'', sd_unit = '''',
      sd_parts = [part_lit 4 30 1],
      sd_invalid_signal_index = 4294967295, sd_can_id = 0x191, sd_frame_index = 23, sd_part_count = 1,
      sd_width = 1, sd_is_signed = 0, sd_calibrated = 0, sd_scale = fp_lit 1 0, sd_offset = fp_lit 0 0\<rparr>,
    \<lparr>sd_stable_id = 0x98234a8b2453c434, sd_name = ''PAS_APA_Process_bar'', sd_unit = '''',
      sd_parts = [part_lit 4 17 7],
      sd_invalid_signal_index = 4294967295, sd_can_id = 0x191, sd_frame_index = 23, sd_part_count = 1,
      sd_width = 7, sd_is_signed = 0, sd_calibrated = 0, sd_scale = fp_lit 1 0, sd_offset = fp_lit 0 0\<rparr>,
    \<lparr>sd_stable_id = 0xdc7d4bd323542aa7, sd_name = ''PAS_SVA_AudibleWarning'', sd_unit = '''',
      sd_parts = [part_lit 4 16 1],
      sd_invalid_signal_index = 4294967295, sd_can_id = 0x191, sd_frame_index = 23, sd_part_count = 1,
      sd_width = 1, sd_is_signed = 0, sd_calibrated = 0, sd_scale = fp_lit 1 0, sd_offset = fp_lit 0 0\<rparr>,
    \<lparr>sd_stable_id = 0xa0f6b9f48f5f98e4, sd_name = ''PAS_SVA_APA_Status_AliveCounter'', sd_unit = '''',
      sd_parts = [part_lit 4 12 4],
      sd_invalid_signal_index = 4294967295, sd_can_id = 0x191, sd_frame_index = 23, sd_part_count = 1,
      sd_width = 4, sd_is_signed = 0, sd_calibrated = 0, sd_scale = fp_lit 1 0, sd_offset = fp_lit 0 0\<rparr>,
    \<lparr>sd_stable_id = 0xc8cf5c197750544c, sd_name = ''PAS_SVA_APA_Status_Checksum'', sd_unit = '''',
      sd_parts = [part_lit 4 0 8],
      sd_invalid_signal_index = 4294967295, sd_can_id = 0x191, sd_frame_index = 23, sd_part_count = 1,
      sd_width = 8, sd_is_signed = 0, sd_calibrated = 0, sd_scale = fp_lit 1 0, sd_offset = fp_lit 0 0\<rparr>]"

lemma ROADCAST_SIGNALS_78_ok: "block_ok ROADCAST_CAN_IDS 815 780 10 ROADCAST_SIGNALS_78"
  by (simp add: ROADCAST_SIGNALS_78_def signal_eval)

definition ROADCAST_SIGNALS_79 :: "roadcast_signal_definition list" where
  "ROADCAST_SIGNALS_79 = [
    \<lparr>sd_stable_id = 0x17a9c2ef069d6765, sd_name = ''IPU_DcDcActvd'', sd_unit = '''',
      sd_parts = [part_lit 4 31 1],
      sd_invalid_signal_index = 4294967295, sd_can_id = 0x176, sd_frame_index = 19, sd_part_count = 1,
      sd_width = 1, sd_is_signed = 0, sd_calibrated = 0, sd_scale = fp_lit 1 0, sd_offset = fp_lit 0 0\<rparr>,
    \<lparr>sd_stable_id = 0x73a39e476a9dfe2a, sd_name = ''VCU_EPedlModSts'', sd_unit = '''',
      sd_parts = [part_lit 0 30 2],
      sd_invalid_signal_index = 4294967295, sd_can_id = 0x169, sd_frame_index = 18, sd_part_count = 1,
      sd_width = 2, sd_is_signed = 0, sd_calibrated = 0, sd_scale = fp_lit 1 0, sd_offset = fp_lit 0 0\<rparr>,
    \<lparr>sd_stable_id = 0x424579f5641f2f51, sd_name = ''VCU_EpedlInhbnSts'', sd_unit = '''',
      sd_parts = [part_lit 0 28 1],
      sd_invalid_signal_index = 4294967295, sd_can_id = 0x169, sd_frame_index = 18, sd_part_count = 1,
      sd_width = 1, sd_is_signed = 0, sd_calibrated = 0, sd_scale = fp_lit 1 0, sd_offset = fp_lit 0 0\<rparr>,
    \<lparr>sd_stable_id = 0xbb6f182947e14c35, sd_name = ''VCU_EPedlDrvrIndcnMsg'', sd_unit = '''',
      sd_parts = [part_lit 0 26 2],
      sd_invalid_signal_index = 4294967295, sd_can_id = 0x169, sd_frame_index = 18, sd_part_count = 1,
      sd_width = 2, sd_is_signed = 0, sd_calibrated = 0, sd_scale = fp_lit 1 0, sd_offset = fp_lit 0 0\<rparr>,
    \<lparr>sd_stable_id = 0xd8fa49a2b30613dd, sd_name = ''DispOfPrpsnMod'', sd_unit = '''',
      sd_parts = [part_lit 4 4 4],
      sd_invalid_signal_index = 4294967295, sd_can_id = 0x161, sd_frame_index = 15, sd_part_count = 1,
      sd_width = 4, sd_is_signed = 0, sd_calibrated = 0, sd_scale = fp_lit 1 0, sd_offset = fp_lit 0 0\<rparr>,
    \<lparr>sd_stable_id = 0xa29762d481feeaae, sd_name = ''VCU_RegencyLevelSwReq'', sd_unit = '''',
      sd_parts = [part_lit 4 26 1],
      sd_invalid_signal_index = 4294967295, sd_can_id = 0x160, sd_frame_index = 14, sd_part_count = 1,
      sd_width = 1, sd_is_signed = 0, sd_calibrated = 0, sd_scale = fp_lit 1 0, sd_offset = fp_lit 0 0\<rparr>,
    \<lparr>sd_stable_id = 0xdad7dd0423e63ab2, sd_name = ''DDM_MmryScsIndReq'', sd_unit = '''',
      sd_parts = [part_lit 0 5 1],
      sd_invalid_signal_index = 4294967295, sd_can_id = 0x139, sd_frame_index = 12, sd_part_count = 1,
      sd_width = 1, sd_is_signed = 0, sd_calibrated = 0, sd_scale = fp_lit 1 0, sd_offset = fp_lit 0 0\<rparr>,
    \<lparr>sd_stable_id = 0x1e2b4afdc362c7b1, sd_name = ''DDM_MmryFailIndReq'', sd_unit = '''',
      sd_parts = [part_lit 0 1 1],
      sd_invalid_signal_index = 4294967295, sd_can_id = 0x139, sd_frame_index = 12, sd_part_count = 1,
      sd_width = 1, sd_is_signed = 0, sd_calibrated = 0, sd_scale = fp_lit 1 0, sd_offset = fp_lit 0 0\<rparr>,
    \<lparr>sd_stable_id = 0x15a8ddb10c005115, sd_name = ''DDM_RMirrorPlayBackStopCmd'', sd_unit = '''',
      sd_parts = [part_lit 4 14 2],
      sd_invalid_signal_index = 4294967295, sd_can_id = 0x139, sd_frame_index = 12, sd_part_count = 1,
      sd_width = 2, sd_is_signed = 0, sd_calibrated = 0, sd_scale = fp_lit 1 0, sd_offset = fp_lit 0 0\<rparr>,
    \<lparr>sd_stable_id = 0x2acd1412750e96eb, sd_name = ''ESC_FLWheelSpeedKPH'', sd_unit = ''km/h'',
      sd_parts = [part_lit 0 24 8, part_lit 0 16 5],
      sd_invalid_signal_index = 4294967295, sd_can_id = 0x122, sd_frame_index = 6, sd_part_count = 2,
      sd_width = 13, sd_is_signed = 0, sd_calibrated = 1, sd_scale = fp_lit 1 0, sd_offset = fp_lit 0 0\<rparr>]"

lemma ROADCAST_SIGNALS_79_ok: "block_ok ROADCAST_CAN_IDS 815 790 10 ROADCAST_SIGNALS_79"
  by (simp add: ROADCAST_SIGNALS_79_def signal_eval)

definition ROADCAST_SIGNALS_80 :: "roadcast_signal_definition list" where
  "ROADCAST_SIGNALS_80 = [
    \<lparr>sd_stable_id = 0x5be8d20699755449, sd_name = ''ESC_FLWheelSpeedInvalid'', sd_unit = '''',
      sd_parts = [part_lit 0 23 1],
      sd_invalid_signal_index = 4294967295, sd_can_id = 0x122, sd_frame_index = 6, sd_part_count = 1,
      sd_width = 1, sd_is_signed = 0, sd_calibrated = 0, sd_scale = fp_lit 1 0, sd_offset = fp_lit 0 0\<rparr>,
    \<lparr>sd_stable_id = 0xe0915fa05ca1c740, sd_name = ''ESC_FLWheelDirection'', sd_unit = '''',
      sd_parts = [part_lit 0 21 2],
      sd_invalid_signal_index = 4294967295, sd_can_id = 0x122, sd_frame_index = 6, sd_part_count = 1,
      sd_width = 2, sd_is_signed = 0, sd_calibrated = 0, sd_scale = fp_lit 1 0, sd_offset = fp_lit 0 0\<rparr>,
    \<lparr>sd_stable_id = 0x769bedba4cf1821d, sd_name = ''ESC_FRWheelSpeedKPH'', sd_unit = ''km/h'',
      sd_parts = [part_lit 0 8 8, part_lit 0 0 5],
      sd_invalid_signal_index = 4294967295, sd_can_id = 0x122, sd_frame_index = 6, sd_part_count = 2,
      sd_width = 13, sd_is_signed = 0, sd_calibrated = 1, sd_scale = fp_lit 1 0, sd_offset = fp_lit 0 0\<rparr>,
    \<lparr>sd_stable_id = 0x1a9ff7a537fe8d97, sd_name = ''ESC_FRWheelSpeedInvalid'', sd_unit = '''',
      sd_parts = [part_lit 0 7 1],
      sd_invalid_signal_index = 4294967295, sd_can_id = 0x122, sd_frame_index = 6, sd_part_count = 1,
      sd_width = 1, sd_is_signed = 0, sd_calibrated = 0, sd_scale = fp_lit 1 0, sd_offset = fp_lit 0 0\<rparr>,
    \<lparr>sd_stable_id = 0x9d60c8c0214f7c4e, sd_name = ''ESC_FRWheelDirection'', sd_unit = '''',
      sd_parts = [part_lit 0 5 2],
      sd_invalid_signal_index = 4294967295, sd_can_id = 0x122, sd_frame_index = 6, sd_part_count = 1,
      sd_width = 2, sd_is_signed = 0, sd_calibrated = 0, sd_scale = fp_lit 1 0, sd_offset = fp_lit 0 0\<rparr>,
    \<lparr>sd_stable_id = 0x0168b6b0933ae401, sd_name = ''ESC_FrontWheelSpeedsKPH_AliveCounter'', sd_unit = '''',
      sd_parts = [part_lit 4 12 4],
      sd_invalid_signal_index = 4294967295, sd_can_id = 0x122, sd_frame_index = 6, sd_part_count = 1,
      sd_width = 4, sd_is_signed = 0, sd_calibrated = 0, sd_scale = fp_lit 1 0, sd_offset = fp_lit 0 0\<rparr>,
    \<lparr>sd_stable_id = 0xd1d520f6c440aa59, sd_name = ''ESC_FrontWheelSpeedsKPH_Checksum'', sd_unit = '''',
      sd_parts = [part_lit 4 0 8],
      sd_invalid_signal_index = 4294967295, sd_can_id = 0x122, sd_frame_index = 6, sd_part_count = 1,
      sd_width = 8, sd_is_signed = 0, sd_calibrated = 0, sd_scale = fp_lit 1 0, sd_offset = fp_lit 0 0\<rparr>,
    \<lparr>sd_stable_id = 0xe34fdededd52391c, sd_name = ''VCU_GWRCSwtAvl'', sd_unit = '''',
      sd_parts = [part_lit 0 6 1],
      sd_invalid_signal_index = 4294967295, sd_can_id = 0x0BA, sd_frame_index = 3, sd_part_count = 1,
      sd_width = 1, sd_is_signed = 0, sd_calibrated = 0, sd_scale = fp_lit 1 0, sd_offset = fp_lit 0 0\<rparr>,
    \<lparr>sd_stable_id = 0xae040bb467a20628, sd_name = ''VCU_GWRCResponse'', sd_unit = '''',
      sd_parts = [part_lit 0 5 1],
      sd_invalid_signal_index = 4294967295, sd_can_id = 0x0BA, sd_frame_index = 3, sd_part_count = 1,
      sd_width = 1, sd_is_signed = 0, sd_calibrated = 0, sd_scale = fp_lit 1 0, sd_offset = fp_lit 0 0\<rparr>,
    \<lparr>sd_stable_id = 0x97f2da24e51c04f0, sd_name = ''VCU_RegenTrqAct'', sd_unit = '''',
      sd_parts = [part_lit 0 20 4, part_lit 0 8 8],
      sd_invalid_signal_index = 4294967295, sd_can_id = 0x0A6, sd_frame_index = 1, sd_part_count = 2,
      sd_width = 12, sd_is_signed = 0, sd_calibrated = 0, sd_scale = fp_lit 1 0, sd_offset = fp_lit 0 0\<rparr>]"

lemma ROADCAST_SIGNALS_80_ok: "block_ok ROADCAST_CAN_IDS 815 800 10 ROADCAST_SIGNALS_80"
  by (simp add: ROADCAST_SIGNALS_80_def signal_eval)

definition ROADCAST_SIGNALS_81 :: "roadcast_signal_definition list" where
  "ROADCAST_SIGNALS_81 = [
    \<lparr>sd_stable_id = 0xc7938a99deb500f4, sd_name = ''VCU_RegenTrqActQualifier'', sd_unit = '''',
      sd_parts = [part_lit 0 2 1],
      sd_invalid_signal_index = 4294967295, sd_can_id = 0x0A6, sd_frame_index = 1, sd_part_count = 1,
      sd_width = 1, sd_is_signed = 0, sd_calibrated = 0, sd_scale = fp_lit 1 0, sd_offset = fp_lit 0 0\<rparr>,
    \<lparr>sd_stable_id = 0x0b834869bdf49864, sd_name = ''VCU_AccelPedalPositionInvalid'', sd_unit = '''',
      sd_parts = [part_lit 0 0 1],
      sd_invalid_signal_index = 4294967295, sd_can_id = 0x0A6, sd_frame_index = 1, sd_part_count = 1,
      sd_width = 1, sd_is_signed = 0, sd_calibrated = 0, sd_scale = fp_lit 1 0, sd_offset = fp_lit 0 0\<rparr>,
    \<lparr>sd_stable_id = 0xb0475b9e69ecb0e1, sd_name = ''VCU_AccelPedalPosition'', sd_unit = ''%'',
      sd_parts = [part_lit 4 24 8],
      sd_invalid_signal_index = 811, sd_can_id = 0x0A6, sd_frame_index = 1, sd_part_count = 1,
      sd_width = 8, sd_is_signed = 0, sd_calibrated = 1, sd_scale = fp_lit 40000000000000002 17, sd_offset = fp_lit 0 0\<rparr>,
    \<lparr>sd_stable_id = 0xec9d0189074261ad, sd_name = ''Diag_req'', sd_unit = '''',
      sd_parts = [part_lit 0 24 8, part_lit 0 16 8, part_lit 0 8 8, part_lit 0 0 8, part_lit 4 24 8, part_lit 4 16 8, part_lit 4 8 8, part_lit 4 0 8],
      sd_invalid_signal_index = 4294967295, sd_can_id = 0x7DF, sd_frame_index = 110, sd_part_count = 8,
      sd_width = 64, sd_is_signed = 0, sd_calibrated = 0, sd_scale = fp_lit 1 0, sd_offset = fp_lit 0 0\<rparr>,
    \<lparr>sd_stable_id = 0xe1a80046d86ceff7, sd_name = ''Diag_req'', sd_unit = '''',
      sd_parts = [part_lit 0 24 8, part_lit 0 16 8, part_lit 0 8 8, part_lit 0 0 8, part_lit 4 24 8, part_lit 4 16 8, part_lit 4 8 8, part_lit 4 0 8],
      sd_invalid_signal_index = 4294967295, sd_can_id = 0x7C1, sd_frame_index = 109, sd_part_count = 8,
      sd_width = 64, sd_is_signed = 0, sd_calibrated = 0, sd_scale = fp_lit 1 0, sd_offset = fp_lit 0 0\<rparr>]"

lemma ROADCAST_SIGNALS_81_ok: "block_ok ROADCAST_CAN_IDS 815 810 5 ROADCAST_SIGNALS_81"
  by (simp add: ROADCAST_SIGNALS_81_def signal_eval)

end
