(* ===== verification/Catalog_Table.thy ===== *)
theory Catalog_Table
  imports Catalog_Table_1 Catalog_Table_2 Catalog_Table_3 Catalog_Table_4 Schema_Encoding
begin

text \<open>
  The generated catalogue of \<^verbatim>\<open>src/catalog_generated.c\<close> as a whole, and the proof that it satisfies what
  the decoder and the schema encoder need of a catalogue.
\<close>

definition ROADCAST_CAN_SCHEMA_HASH :: u64 where
  "ROADCAST_CAN_SCHEMA_HASH = 0x01f4aa2d759cf647"

definition signal_blocks :: "roadcast_signal_definition list list" where
  "signal_blocks = [
    ROADCAST_SIGNALS_00, ROADCAST_SIGNALS_01, ROADCAST_SIGNALS_02, ROADCAST_SIGNALS_03,
    ROADCAST_SIGNALS_04, ROADCAST_SIGNALS_05, ROADCAST_SIGNALS_06, ROADCAST_SIGNALS_07,
    ROADCAST_SIGNALS_08, ROADCAST_SIGNALS_09, ROADCAST_SIGNALS_10, ROADCAST_SIGNALS_11,
    ROADCAST_SIGNALS_12, ROADCAST_SIGNALS_13, ROADCAST_SIGNALS_14, ROADCAST_SIGNALS_15,
    ROADCAST_SIGNALS_16, ROADCAST_SIGNALS_17, ROADCAST_SIGNALS_18, ROADCAST_SIGNALS_19,
    ROADCAST_SIGNALS_20, ROADCAST_SIGNALS_21, ROADCAST_SIGNALS_22, ROADCAST_SIGNALS_23,
    ROADCAST_SIGNALS_24, ROADCAST_SIGNALS_25, ROADCAST_SIGNALS_26, ROADCAST_SIGNALS_27,
    ROADCAST_SIGNALS_28, ROADCAST_SIGNALS_29, ROADCAST_SIGNALS_30, ROADCAST_SIGNALS_31,
    ROADCAST_SIGNALS_32, ROADCAST_SIGNALS_33, ROADCAST_SIGNALS_34, ROADCAST_SIGNALS_35,
    ROADCAST_SIGNALS_36, ROADCAST_SIGNALS_37, ROADCAST_SIGNALS_38, ROADCAST_SIGNALS_39,
    ROADCAST_SIGNALS_40, ROADCAST_SIGNALS_41, ROADCAST_SIGNALS_42, ROADCAST_SIGNALS_43,
    ROADCAST_SIGNALS_44, ROADCAST_SIGNALS_45, ROADCAST_SIGNALS_46, ROADCAST_SIGNALS_47,
    ROADCAST_SIGNALS_48, ROADCAST_SIGNALS_49, ROADCAST_SIGNALS_50, ROADCAST_SIGNALS_51,
    ROADCAST_SIGNALS_52, ROADCAST_SIGNALS_53, ROADCAST_SIGNALS_54, ROADCAST_SIGNALS_55,
    ROADCAST_SIGNALS_56, ROADCAST_SIGNALS_57, ROADCAST_SIGNALS_58, ROADCAST_SIGNALS_59,
    ROADCAST_SIGNALS_60, ROADCAST_SIGNALS_61, ROADCAST_SIGNALS_62, ROADCAST_SIGNALS_63,
    ROADCAST_SIGNALS_64, ROADCAST_SIGNALS_65, ROADCAST_SIGNALS_66, ROADCAST_SIGNALS_67,
    ROADCAST_SIGNALS_68, ROADCAST_SIGNALS_69, ROADCAST_SIGNALS_70, ROADCAST_SIGNALS_71,
    ROADCAST_SIGNALS_72, ROADCAST_SIGNALS_73, ROADCAST_SIGNALS_74, ROADCAST_SIGNALS_75,
    ROADCAST_SIGNALS_76, ROADCAST_SIGNALS_77, ROADCAST_SIGNALS_78, ROADCAST_SIGNALS_79,
    ROADCAST_SIGNALS_80, ROADCAST_SIGNALS_81]"

definition ROADCAST_SIGNALS :: "roadcast_signal_definition list" where
  "ROADCAST_SIGNALS = concat signal_blocks"


lemmas block_oks =
    ROADCAST_SIGNALS_00_ok ROADCAST_SIGNALS_01_ok ROADCAST_SIGNALS_02_ok
    ROADCAST_SIGNALS_03_ok ROADCAST_SIGNALS_04_ok ROADCAST_SIGNALS_05_ok
    ROADCAST_SIGNALS_06_ok ROADCAST_SIGNALS_07_ok ROADCAST_SIGNALS_08_ok
    ROADCAST_SIGNALS_09_ok ROADCAST_SIGNALS_10_ok ROADCAST_SIGNALS_11_ok
    ROADCAST_SIGNALS_12_ok ROADCAST_SIGNALS_13_ok ROADCAST_SIGNALS_14_ok
    ROADCAST_SIGNALS_15_ok ROADCAST_SIGNALS_16_ok ROADCAST_SIGNALS_17_ok
    ROADCAST_SIGNALS_18_ok ROADCAST_SIGNALS_19_ok ROADCAST_SIGNALS_20_ok
    ROADCAST_SIGNALS_21_ok ROADCAST_SIGNALS_22_ok ROADCAST_SIGNALS_23_ok
    ROADCAST_SIGNALS_24_ok ROADCAST_SIGNALS_25_ok ROADCAST_SIGNALS_26_ok
    ROADCAST_SIGNALS_27_ok ROADCAST_SIGNALS_28_ok ROADCAST_SIGNALS_29_ok
    ROADCAST_SIGNALS_30_ok ROADCAST_SIGNALS_31_ok ROADCAST_SIGNALS_32_ok
    ROADCAST_SIGNALS_33_ok ROADCAST_SIGNALS_34_ok ROADCAST_SIGNALS_35_ok
    ROADCAST_SIGNALS_36_ok ROADCAST_SIGNALS_37_ok ROADCAST_SIGNALS_38_ok
    ROADCAST_SIGNALS_39_ok ROADCAST_SIGNALS_40_ok ROADCAST_SIGNALS_41_ok
    ROADCAST_SIGNALS_42_ok ROADCAST_SIGNALS_43_ok ROADCAST_SIGNALS_44_ok
    ROADCAST_SIGNALS_45_ok ROADCAST_SIGNALS_46_ok ROADCAST_SIGNALS_47_ok
    ROADCAST_SIGNALS_48_ok ROADCAST_SIGNALS_49_ok ROADCAST_SIGNALS_50_ok
    ROADCAST_SIGNALS_51_ok ROADCAST_SIGNALS_52_ok ROADCAST_SIGNALS_53_ok
    ROADCAST_SIGNALS_54_ok ROADCAST_SIGNALS_55_ok ROADCAST_SIGNALS_56_ok
    ROADCAST_SIGNALS_57_ok ROADCAST_SIGNALS_58_ok ROADCAST_SIGNALS_59_ok
    ROADCAST_SIGNALS_60_ok ROADCAST_SIGNALS_61_ok ROADCAST_SIGNALS_62_ok
    ROADCAST_SIGNALS_63_ok ROADCAST_SIGNALS_64_ok ROADCAST_SIGNALS_65_ok
    ROADCAST_SIGNALS_66_ok ROADCAST_SIGNALS_67_ok ROADCAST_SIGNALS_68_ok
    ROADCAST_SIGNALS_69_ok ROADCAST_SIGNALS_70_ok ROADCAST_SIGNALS_71_ok
    ROADCAST_SIGNALS_72_ok ROADCAST_SIGNALS_73_ok ROADCAST_SIGNALS_74_ok
    ROADCAST_SIGNALS_75_ok ROADCAST_SIGNALS_76_ok ROADCAST_SIGNALS_77_ok
    ROADCAST_SIGNALS_78_ok ROADCAST_SIGNALS_79_ok ROADCAST_SIGNALS_80_ok
    ROADCAST_SIGNALS_81_ok

lemmas block_lengths = block_oks [THEN block_ok_length]

lemma length_ROADCAST_SIGNALS [simp]: "length ROADCAST_SIGNALS = ROADCAST_SIGNAL_COUNT"
  by (simp add: ROADCAST_SIGNALS_def signal_blocks_def block_lengths)

lemma blocks_ok_generated: "blocks_ok ROADCAST_CAN_IDS ROADCAST_SIGNAL_COUNT 0 signal_blocks"
  by (simp add: signal_blocks_def block_oks block_lengths)

lemmas ROADCAST_SIGNALS_checked =
  blocks_ok_sound [where before = "[]", simplified, OF blocks_ok_generated, folded ROADCAST_SIGNALS_def]

lemma catalog_ok_generated: "catalog_ok ROADCAST_CAN_IDS ROADCAST_SIGNALS"
  using ROADCAST_SIGNALS_checked by (simp add: catalog_ok_def list_all_iff)

lemma invalid_same_frame_generated: "invalid_same_frame ROADCAST_SIGNALS"
  using ROADCAST_SIGNALS_checked by (simp add: invalid_same_frame_def list_all_iff)

interpretation generated: catalogue ROADCAST_CAN_IDS ROADCAST_SIGNALS
  by unfold_locales (rule catalog_ok_generated, rule invalid_same_frame_generated)

section \<open>Properties\<close>

text \<open>
  C25: The generated catalogue is well formed: 815 entries, every part lies inside its frame, the parts of an
  entry add up to its declared width of 1 to 64 bits, every frame index selects the CAN identifier the entry
  names, every invalid-flag index is inside the table and in the frame of the signal it qualifies, and names
  and units fit the wire format.
\<close>

theorem generated_catalogue_well_formed:
  "length ROADCAST_SIGNALS = ROADCAST_SIGNAL_COUNT \<and> catalog_ok ROADCAST_CAN_IDS ROADCAST_SIGNALS
    \<and> invalid_same_frame ROADCAST_SIGNALS"
  using generated.ok generated.same_frame by simp

text \<open>
  C19: Decoding a full set of frames gives, for each of the 815 signals and with no undefined behaviour, the raw
  value spelled by its parts in its frame, the physical value of that raw value, the calibration flag of the
  catalogue, the frame's timestamps, and the frame's state except that a valid signal whose invalid flag is set
  becomes invalid.
\<close>

theorem decode_signals_correct:
  assumes "length frames = ROADCAST_FRAME_COUNT" and "\<forall>f \<in> set frames. length (f_data f) = 8"
    and "length vals = ROADCAST_SIGNAL_COUNT"
  shows "\<exists>vs. roadcast_decode_signals fc ROADCAST_SIGNALS frames vals = Some vs \<and> length vs = ROADCAST_SIGNAL_COUNT
    \<and> (\<forall>i < ROADCAST_SIGNAL_COUNT. let d = ROADCAST_SIGNALS ! i; f = frames ! unat (sd_frame_index d); v = vs ! i in
        unat (sv_raw v) = raw_nat (f_data f) 0 (sd_parts d)
        \<and> roadcast_decode_signal_physical fc d (sv_raw v) = Some (sv_physical v)
        \<and> sv_calibrated v = sd_calibrated d
        \<and> sv_first_observed_ns v = f_first_observed_ns f \<and> sv_last_change_ns v = f_last_change_ns f
        \<and> sv_state v = (if f_state f = ROADCAST_OBSERVATION_VALID \<and> sd_invalid_signal_index d \<noteq> UINT32_MAX
              \<and> sv_raw (vs ! unat (sd_invalid_signal_index d)) \<noteq> 0
            then ROADCAST_OBSERVATION_INVALID else f_state f))"
proof -
  have frames: "frames_ok ROADCAST_CAN_IDS frames"
    using assms(1,2) by (simp add: frames_ok_def list_all_iff)
  obtain vs where vs: "roadcast_decode_signals fc ROADCAST_SIGNALS frames vals = Some vs"
    and len: "length vs = ROADCAST_SIGNAL_COUNT"
    and val: "\<And>i. i < ROADCAST_SIGNAL_COUNT \<Longrightarrow> value_agrees fc frames (ROADCAST_SIGNALS ! i) (vs ! i)"
    and tim: "\<And>i. i < ROADCAST_SIGNAL_COUNT \<Longrightarrow> times_agree frames (ROADCAST_SIGNALS ! i) (vs ! i)"
    and st: "\<And>i. i < ROADCAST_SIGNAL_COUNT \<Longrightarrow>
      sv_state (vs ! i) = signal_state ROADCAST_SIGNALS frames (ROADCAST_SIGNALS ! i)"
    using generated.decode_signals_ok [OF frames, of vals fc] assms(3) by auto
  have flag: "raw_of frames (ROADCAST_SIGNALS ! j) = 0 \<longleftrightarrow> sv_raw (vs ! j) = 0" if "j < ROADCAST_SIGNAL_COUNT" for j
    using val [OF that] by (auto simp: value_agrees_def unat_eq_0)
  have inv: "unat (sd_invalid_signal_index (ROADCAST_SIGNALS ! i)) < ROADCAST_SIGNAL_COUNT"
    if "i < ROADCAST_SIGNAL_COUNT" "sd_invalid_signal_index (ROADCAST_SIGNALS ! i) \<noteq> UINT32_MAX" for i
    using generated.invalid_index_less [of i] that by simp
  show ?thesis
    using vs len val tim st flag inv by (fastforce simp: Let_def value_agrees_def times_agree_def signal_state_def)
qed

theorem decode_signals_correct_witness:
  "\<exists>vs. roadcast_decode_signals False ROADCAST_SIGNALS
      (replicate 111 \<lparr>f_can_id = 0, f_state = 2, f_data = replicate 8 255, f_first_observed_ns = 5, f_last_change_ns = 6\<rparr>)
      (replicate 815 \<lparr>sv_raw = 0, sv_physical = 0, sv_first_observed_ns = 0, sv_last_change_ns = 0, sv_state = 0, sv_calibrated = 0\<rparr>) = Some vs \<and> length vs = 815"
  using decode_signals_correct [of "replicate 111 \<lparr>f_can_id = 0, f_state = 2, f_data = replicate 8 255,
      f_first_observed_ns = 5, f_last_change_ns = 6\<rparr>"
      "replicate 815 \<lparr>sv_raw = 0, sv_physical = 0, sv_first_observed_ns = 0, sv_last_change_ns = 0, sv_state = 0, sv_calibrated = 0\<rparr>" False]
  by auto

text \<open>
  C20: Schema discovery is lossless and makes progress: from any start index inside the catalogue, the daemon's
  2016-byte payload buffer receives a chunk of at least one entry that the client's decoder accepts, and the
  decoded entries are the catalogue's own from that index on, with the index of the next request after them.
\<close>

theorem schema_discovery_roundtrip:
  assumes "unat start < ROADCAST_SIGNAL_COUNT" and "length out = 2016"
  shows "\<exists>len count out'. roadcast_encode_schema_chunk ROADCAST_SIGNALS ROADCAST_CAN_SCHEMA_HASH out 2016 start
      = Some (len, count, out') \<and> 0 < unat count \<and> len \<le> 2016 \<and> unat start + unat count \<le> ROADCAST_SIGNAL_COUNT
    \<and> (\<forall>cap \<ge> unat count. roadcast_decode_schema_chunk (take len out') cap
        = Some (Ok (ROADCAST_SCHEMA_VERSION, of_nat ROADCAST_SIGNAL_COUNT, start, ROADCAST_CAN_SCHEMA_HASH,
            take (unat count) (drop (unat start) (schema_of ROADCAST_SIGNALS)))))"
  using generated.schema_chunk_roundtrip [of 2016 out start ROADCAST_CAN_SCHEMA_HASH] assms
  by (simp del: of_nat_numeral) metis

theorem schema_discovery_roundtrip_witness:
  "\<exists>len count out'. roadcast_encode_schema_chunk ROADCAST_SIGNALS ROADCAST_CAN_SCHEMA_HASH (replicate 2016 0) 2016 814
      = Some (len, count, out') \<and> unat count = 1"
  using schema_discovery_roundtrip [of 814 "replicate 2016 0"] by auto

end
