(* ===== verification/Daemon.thy ===== *)
theory Daemon
  imports Daemon_Progress Catalog_Table
begin

text \<open>
  The daemon with the generated catalogue, and its properties: what holds in every state the event loop can
  reach, from the server that \<^verbatim>\<open>main\<close> sets up and under any behaviour of the peers, the clock and libuv.
\<close>

interpretation roadcastd: sized_catalogue ROADCAST_CAN_IDS ROADCAST_SIGNALS
  by unfold_locales simp_all

definition reachable_server :: "env \<Rightarrow> bool \<Rightarrow> server \<Rightarrow> bool" where
  "reachable_server e fc s \<longleftrightarrow> (\<exists>hz slots frames sequence timestamp_ns errors fallbacks s0.
     frames_wf frames \<and> 1 \<le> unat slots \<and> unat slots \<le> CLIENT_QUEUE_SLOTS
     \<and> initial_server fc ROADCAST_SIGNALS hz slots (frames, sequence, timestamp_ns) errors fallbacks = Some s0
     \<and> reachable e fc ROADCAST_SIGNALS ROADCAST_CAN_SCHEMA_HASH s0 s)"

lemma reachable_server_ok:
  assumes "reachable_server e fc s"
  shows "server_inv s" and "signals_agree fc ROADCAST_SIGNALS (s_frames s) (s_signals s)"
proof -
  obtain hz slots frames sq ts se fb s0 where s0: "frames_wf frames" "1 \<le> unat slots" "unat slots \<le> CLIENT_QUEUE_SLOTS"
      "initial_server fc ROADCAST_SIGNALS hz slots (frames, sq, ts) se fb = Some s0"
      "reachable e fc ROADCAST_SIGNALS ROADCAST_CAN_SCHEMA_HASH s0 s"
    using assms by (auto simp: reachable_server_def)
  obtain s1 where "initial_server fc ROADCAST_SIGNALS hz slots (frames, sq, ts) se fb = Some s1" "server_inv s1"
      "signals_agree fc ROADCAST_SIGNALS (s_frames s1) (s_signals s1)"
    by (rule roadcastd.initial_server_ok [OF s0(1-3), of fc hz sq ts se fb])
  with s0(4) have "server_inv s0" "signals_agree fc ROADCAST_SIGNALS (s_frames s0) (s_signals s0)"
    by auto
  from roadcastd.reachable_ok [OF s0(5) this]
  show "server_inv s" "signals_agree fc ROADCAST_SIGNALS (s_frames s) (s_signals s)" by auto
qed

definition daemon_inv :: "bool \<Rightarrow> server \<Rightarrow> bool" where
  "daemon_inv fc s \<longleftrightarrow> server_inv s \<and> signals_agree fc ROADCAST_SIGNALS (s_frames s) (s_signals s)"

lemma reachable_server_step:
  "reachable_server e fc s \<Longrightarrow> event_ok ev s
    \<Longrightarrow> daemon_step e fc ROADCAST_SIGNALS ROADCAST_CAN_SCHEMA_HASH ev s = Some s' \<Longrightarrow> reachable_server e fc s'"
  unfolding reachable_server_def by (meson reachable.step)

text \<open>A quiet environment and a server fresh from \<^verbatim>\<open>main\<close>, for the examples.\<close>

definition quiet_env :: env where
  "quiet_env = \<lparr>e_clock = (\<lambda>_. 20000000000), e_calloc = (\<lambda>_. True), e_write_queue_size = (\<lambda>_. 0), e_uv_write = (\<lambda>_. 0),
     e_uv_pipe_init = (\<lambda>_. 0), e_uv_accept = (\<lambda>_. 0), e_uv_fileno = (\<lambda>_. 0), e_getsockopt_peercred = (\<lambda>_. (0, 12, 1000, 42)),
     e_uv_read_start = (\<lambda>_. 0)\<rparr>"

definition blank_frames :: "roadcast_frame list" where
  "blank_frames = replicate ROADCAST_FRAME_COUNT zero_frame"

lemma blank_frames_wf: "frames_wf blank_frames"
  by (simp add: frames_wf_def blank_frames_def zero_frame_def frame_wf_def list_all_iff)

lemma fresh_server:
  obtains s where "initial_server fc ROADCAST_SIGNALS 60 20 (blank_frames, 0, 7) 0 0 = Some s" and "reachable_server e fc s"
    and "server_inv s" and "s_clients s = replicate MAX_CLIENTS zero_client" and "s_client_queue_slots s = 20"
    and "s_calls s = 0" and "\<not> s_shutting_down s" and "s_frames s = blank_frames" and "s_sample_sequence s = 0"
proof -
  have slots: "1 \<le> unat (20 :: u32)" "unat (20 :: u32) \<le> CLIENT_QUEUE_SLOTS" by simp_all
  obtain s where s: "initial_server fc ROADCAST_SIGNALS 60 20 (blank_frames, 0, 7) 0 0 = Some s" "server_inv s"
    by (rule roadcastd.initial_server_ok [OF blank_frames_wf slots, of fc 60 0 7 0 0])
  have "reachable_server e fc s"
    unfolding reachable_server_def using s(1) blank_frames_wf slots reachable.start by blast
  moreover have "s_clients s = replicate MAX_CLIENTS zero_client" "s_client_queue_slots s = 20" "s_calls s = 0"
      "\<not> s_shutting_down s" "s_frames s = blank_frames" "s_sample_sequence s = 0"
    using s(1) by (auto simp: initial_server_def split: Option.bind_splits)
  ultimately show thesis
    using s by (intro that)
qed

text \<open>The same server with a given client in its first slot.\<close>

definition client_ready :: "client \<Rightarrow> bool" where
  "client_ready c \<longleftrightarrow> c_output c = c_output zero_client \<and> c_pending_bytes c = 0 \<and> session_inv c \<and> client_wf c \<and> c_active c"

lemma server_with_client:
  assumes "client_ready c"
  obtains s where "daemon_inv fc s" and "s_clients s ! 0 = c" and "s_frames s = blank_frames" and "s_sample_sequence s = 0"
    and "s_client_queue_slots s = 20" and "s_calls s = 0" and "\<not> s_shutting_down s"
proof -
  obtain s where s: "reachable_server quiet_env fc s" "s_clients s = replicate MAX_CLIENTS zero_client"
      "s_client_queue_slots s = 20" "s_calls s = 0" "\<not> s_shutting_down s" "s_frames s = blank_frames" "s_sample_sequence s = 0"
    by (rule fresh_server)
  let ?s = "s\<lparr>s_clients := (s_clients s)[0 := c]\<rparr>"
  note inv = reachable_server_ok [OF s(1)]
  have "queue_inv s zero_client" "server_data_wf s"
    using inv(1) s(2) by (auto simp: server_inv_def conn_inv_def)
  moreover have "c_pending_bytes zero_client = 0"
    by (simp add: zero_client_def)
  ultimately have "conn_inv (s, c)"
    using assms queue_inv_cong [of c zero_client s] by (simp add: client_ready_def conn_inv_def)
  moreover have "\<not> c_active zero_client"
    by (simp add: zero_client_def)
  then have "active_clients_for_uid s uid < 8" for uid
    by (simp add: active_clients_for_uid_def s(2))
  ultimately have "server_inv ?s"
    using assms by (intro server_inv_admit [OF inv(1)]) (auto simp: client_ready_def)
  then have "daemon_inv fc ?s"
    using inv(2) by (simp add: daemon_inv_def)
  with s show thesis by (intro that [of ?s]) simp_all
qed

definition example_client :: "bool \<Rightarrow> bool \<Rightarrow> client" where
  "example_client greeted subscribed = zero_client\<lparr>c_active := True, c_greeted := greeted, c_subscribed := subscribed,
     c_hello_deadline_ns := 1, c_setup_deadline_ns := 1\<rparr>"

lemma example_client_ready: "(subscribed \<longrightarrow> greeted) \<Longrightarrow> client_ready (example_client greeted subscribed)"
  by (simp add: client_ready_def example_client_def session_inv_def client_wf_def zero_client_def frames_wf_def signals_wf_def
      indices_wf_def list_all_iff frame_wf_def zero_frame_def value_wf_def zero_signal_def)

section \<open>Properties\<close>

text \<open>
  C3: The daemon never runs into undefined behaviour.  In every state that the event loop can reach, every
  callback libuv may make (a connection, bytes from a peer whatever they are, a finished or failed write, a
  close, a new sample, a timer, a signal) runs to its end: no access outside a buffer or table, no loop that
  does not return.
\<close>

theorem daemon_never_stuck:
  assumes "reachable_server e fc s" and "event_ok ev s"
  shows "\<exists>s'. daemon_step e fc ROADCAST_SIGNALS ROADCAST_CAN_SCHEMA_HASH ev s = Some s'"
  using roadcastd.daemon_step_ok [OF reachable_server_ok [OF assms(1)] assms(2)] by blast

theorem daemon_never_stuck_witness:
  "\<exists>s s'. initial_server False ROADCAST_SIGNALS 60 20 (blank_frames, 0, 7) 0 0 = Some s
    \<and> daemon_step quiet_env False ROADCAST_SIGNALS ROADCAST_CAN_SCHEMA_HASH (Connection 0) s = Some s'"
proof -
  obtain s where s: "initial_server False ROADCAST_SIGNALS 60 20 (blank_frames, 0, 7) 0 0 = Some s"
      "reachable_server quiet_env False s"
    by (rule fresh_server)
  have "event_ok (Connection 0) s" by (simp add: event_ok_def)
  from daemon_never_stuck [OF s(2) this] s(1) show ?thesis by blast
qed

text \<open>
  C8: The limits of the client table hold in every reachable state: at most eight active clients of one user,
  no client both active and closing, nothing but a greeted client in a subscription, a snapshot or a catch-up,
  and a slot that is neither active nor closing is blank.
\<close>

theorem client_table_invariant:
  assumes "reachable_server e fc s"
  shows "length (s_clients s) = MAX_CLIENTS \<and> (\<forall>uid. active_clients_for_uid s uid \<le> MAX_CLIENTS_PER_UID)
    \<and> (\<forall>c \<in> set (s_clients s). \<not> (c_active c \<and> c_closing c)
        \<and> (c_subscribed c \<or> c_snapshot_active c \<or> c_snapshot_complete c \<or> c_catchup_active c \<longrightarrow> c_greeted c)
        \<and> (\<not> c_active c \<and> \<not> c_closing c \<longrightarrow> c = zero_client))"
  using reachable_server_ok(1) [OF assms]
  by (simp add: server_inv_def client_wf_def conn_inv_def session_inv_def)

theorem client_table_invariant_witness:
  "\<exists>s. initial_server False ROADCAST_SIGNALS 60 20 (blank_frames, 0, 7) 0 0 = Some s
    \<and> length (s_clients s) = 16 \<and> active_clients_for_uid s 1000 \<le> 8"
proof -
  obtain s where s: "initial_server False ROADCAST_SIGNALS 60 20 (blank_frames, 0, 7) 0 0 = Some s"
      "reachable_server quiet_env False s"
    by (rule fresh_server)
  from client_table_invariant [OF s(2)] s(1) show ?thesis by blast
qed

text \<open>
  C7: The memory a peer can hold is bounded.  In every reachable state the bytes a client has pending are the
  lengths of its output slots in use, each a whole message of 32 to 2048 bytes, and stay within the configured
  number of slots times 2048; its input never exceeds the 4096-byte buffer.
\<close>

theorem queue_bounds:
  assumes "reachable_server e fc s" and "c \<in> set (s_clients s)"
  shows "c_pending_bytes c = sum_list (map o_length (filter o_in_use (c_output c)))
    \<and> (\<forall>slot \<in> set (c_output c). o_in_use slot \<longrightarrow> ROADCAST_HEADER_SIZE \<le> o_length slot \<and> o_length slot \<le> CLIENT_MESSAGE_CAP)
    \<and> c_pending_bytes c \<le> unat (s_client_queue_slots s) * CLIENT_MESSAGE_CAP
    \<and> unat (s_client_queue_slots s) \<le> CLIENT_QUEUE_SLOTS
    \<and> length (c_input c) = CLIENT_INPUT_CAP \<and> c_input_length c \<le> CLIENT_INPUT_CAP"
proof -
  have inv: "conn_inv (s, c)" and slots: "unat (s_client_queue_slots s) \<le> 20"
    using reachable_server_ok(1) [OF assms(1)] assms(2) by (auto simp: server_inv_def)
  note q = conn_invD(1) [OF inv]
  have wf: "slot_wf slot" if "slot \<in> set (c_output c)" for slot
    using q that by (auto simp: queue_inv_def list_all_iff)
  have sums: "sum_list (map o_length xs) = sum_list (map o_length (filter o_in_use xs))" if "\<forall>x \<in> set xs. slot_wf x" for xs
    using that by (induction xs) (auto simp: slot_wf_def)
  have "c_pending_bytes c = sum_list (map o_length (c_output c))"
    using q by (simp add: queue_inv_def)
  also have "\<dots> = sum_list (map o_length (filter o_in_use (c_output c)))"
    by (rule sums) (use wf in blast)
  finally have "c_pending_bytes c = sum_list (map o_length (filter o_in_use (c_output c)))" .
  moreover have "c_pending_bytes c \<le> unat (s_client_queue_slots s) * 2048"
    using pending_bound [OF q] by (simp add: queue_byte_limit_def)
  ultimately show ?thesis
    using wf slots conn_invD(2) [OF inv] by (auto simp: slot_wf_def session_inv_def)
qed

theorem queue_bounds_witness:
  "\<exists>s c. initial_server False ROADCAST_SIGNALS 60 20 (blank_frames, 0, 7) 0 0 = Some s \<and> c \<in> set (s_clients s)
    \<and> c_pending_bytes c \<le> unat (s_client_queue_slots s) * 2048"
proof -
  obtain s where s: "initial_server False ROADCAST_SIGNALS 60 20 (blank_frames, 0, 7) 0 0 = Some s"
      "reachable_server quiet_env False s" and cs: "s_clients s = replicate MAX_CLIENTS zero_client"
    by (rule fresh_server)
  have c: "zero_client \<in> set (s_clients s)" by (simp add: cs)
  from queue_bounds [OF s(2) c] s(1) c show ?thesis by blast
qed



text \<open>
  C5: The daemon decodes incrementally, and nothing is lost by it.  For any new set of frames, decoding again
  only the signals of the frames that changed, applying the invalid flags and reconciling the timestamps gives
  what decoding every signal from scratch and reconciling it with the stored value would give.
\<close>

theorem incremental_decode_equals_full:
  assumes "reachable_server e fc s" and "frames_wf latest"
    and "roadcast_decode_signals fc ROADCAST_SIGNALS latest (replicate ROADCAST_SIGNAL_COUNT zero_signal) = Some ws"
  shows "update_signals fc ROADCAST_SIGNALS (map2 frame_differs latest (s_frames s)) latest timestamp_ns (s_signals s)
    = Some (map2 (reconcile_signal timestamp_ns) (s_signals s) ws)"
proof -
  have "frames_wf (s_frames s)"
    using reachable_server_ok(1) [OF assms(1)] by (simp add: server_inv_def server_data_wf_def)
  then show ?thesis
    using roadcastd.update_signals_eq(1) [OF roadcastd.frames_wf_ok [OF assms(2)] roadcastd.frames_wf_ok
        reachable_server_ok(2) [OF assms(1)] assms(3)] by simp
qed

definition busy_frames :: "roadcast_frame list" where
  "busy_frames = replicate ROADCAST_FRAME_COUNT (zero_frame\<lparr>f_state := ROADCAST_OBSERVATION_VALID, f_data := replicate 8 255\<rparr>)"

lemma busy_frames_wf: "frames_wf busy_frames"
  by (simp add: frames_wf_def busy_frames_def zero_frame_def frame_wf_def list_all_iff)

theorem incremental_decode_equals_full_witness:
  "\<exists>s ws. initial_server False ROADCAST_SIGNALS 60 20 (blank_frames, 0, 7) 0 0 = Some s
    \<and> update_signals False ROADCAST_SIGNALS (map2 frame_differs busy_frames (s_frames s)) busy_frames 9 (s_signals s)
      = Some (map2 (reconcile_signal 9) (s_signals s) ws)"
proof -
  obtain s where s: "initial_server False ROADCAST_SIGNALS 60 20 (blank_frames, 0, 7) 0 0 = Some s"
      "reachable_server quiet_env False s"
    by (rule fresh_server)
  obtain ws where "roadcast_decode_signals False ROADCAST_SIGNALS busy_frames (replicate 815 zero_signal) = Some ws"
    by (rule roadcastd.full_decode [OF roadcastd.frames_wf_ok [OF busy_frames_wf], of False])
  from incremental_decode_equals_full [OF s(2) busy_frames_wf this, of 9] s(1) show ?thesis by blast
qed

text \<open>
  C4: A live update is complete or announced as lost.  When a new sample changes some frame, every subscriber
  is sent, in order, update batches that carry exactly the frames that changed and then signal batches that
  carry exactly the signals that changed, each batch within one message; or the daemon stops after some of
  these messages, and then the client has been closed or marked for a resync.
\<close>

theorem live_update_complete_or_resync:
  assumes "daemon_inv fc s" and "frames_wf latest" and "s_sample_sequence s < sequence"
    and "\<exists>k < ROADCAST_FRAME_COUNT. frame_differs (latest ! k) (s_frames s ! k)"
    and "i < MAX_CLIENTS" and "is_subscriber (s_clients s ! i)"
  shows "\<exists>s' fgroups sgroups. distribute_latest_sample e fc ROADCAST_SIGNALS (latest, sequence, timestamp_ns) s = Some s'
    \<and> concat fgroups = map (\<lambda>k. latest ! k) (filter (\<lambda>k. frame_differs (latest ! k) (s_frames s ! k)) [0..<ROADCAST_FRAME_COUNT])
    \<and> concat sgroups = map (\<lambda>k. \<lparr>su_index = of_nat k, su_value = s_signals s' ! k\<rparr>)
        (filter (\<lambda>k. signal_differs (s_signals s' ! k) (s_signals s ! k)) [0..<ROADCAST_SIGNAL_COUNT])
    \<and> (\<forall>g \<in> set fgroups. g \<noteq> [] \<and> length g \<le> FRAMES_PER_MESSAGE) \<and> (\<forall>g \<in> set sgroups. g \<noteq> [] \<and> length g \<le> SIGNALS_PER_MESSAGE)
    \<and> (let msgs = update_messages (s_change_sequence s + 1) timestamp_ns sequence fgroups sgroups;
           c = s_clients s ! i; c' = s_clients s' ! i in
        is_subscriber c' \<and> c_stream c' = c_stream c @ msgs
        \<or> (\<not> c_active c' \<or> c_needs_resync c') \<and> (\<exists>ms. c_stream c' = c_stream c @ ms \<and> prefix ms msgs))"
proof -
  have some: "changed_indices frame_differs 111 latest (s_frames s) \<noteq> []"
    using assms(4) by (auto simp: changed_indices_def filter_empty_conv)
  have inv: "server_inv s" "signals_agree fc ROADCAST_SIGNALS (s_frames s) (s_signals s)"
    using assms(1) by (auto simp: daemon_inv_def)
  obtain s' fgroups sgroups where
    run: "distribute_latest_sample e fc ROADCAST_SIGNALS (latest, sequence, timestamp_ns) s = Some s'"
    and fg: "concat fgroups = map (\<lambda>k. latest ! k) (changed_indices frame_differs ROADCAST_FRAME_COUNT latest (s_frames s))"
    and sg: "concat sgroups = map (\<lambda>k. \<lparr>su_index = of_nat k, su_value = s_signals s' ! k\<rparr>)
      (changed_indices signal_differs ROADCAST_SIGNAL_COUNT (s_signals s') (s_signals s))"
    and fits: "\<forall>g \<in> set fgroups. g \<noteq> [] \<and> length g \<le> FRAMES_PER_MESSAGE" "\<forall>g \<in> set sgroups. g \<noteq> [] \<and> length g \<le> SIGNALS_PER_MESSAGE"
    and sent: "sent_all (update_messages (s_change_sequence s + 1) timestamp_ns sequence fgroups sgroups) (s_clients s ! i) (s_clients s' ! i)
      \<or> (\<not> c_active (s_clients s' ! i) \<or> c_needs_resync (s_clients s' ! i))
        \<and> (\<exists>ms. c_stream (s_clients s' ! i) = c_stream (s_clients s ! i) @ ms
            \<and> prefix ms (update_messages (s_change_sequence s + 1) timestamp_ns sequence fgroups sgroups))"
    by (rule roadcastd.distribute_delivers [OF inv assms(2,3,5,6) some, of e timestamp_ns]) (rule that, assumption+)
  let ?msgs = "update_messages (s_change_sequence s + 1) timestamp_ns sequence fgroups sgroups"
  have "is_subscriber (s_clients s' ! i) \<and> c_stream (s_clients s' ! i) = c_stream (s_clients s ! i) @ ?msgs"
    if "sent_all ?msgs (s_clients s ! i) (s_clients s' ! i)"
    using sent_allD [OF that] assms(6) by (auto simp: is_subscriber_def)
  with sent have last: "is_subscriber (s_clients s' ! i) \<and> c_stream (s_clients s' ! i) = c_stream (s_clients s ! i) @ ?msgs
      \<or> (\<not> c_active (s_clients s' ! i) \<or> c_needs_resync (s_clients s' ! i))
        \<and> (\<exists>ms. c_stream (s_clients s' ! i) = c_stream (s_clients s ! i) @ ms \<and> prefix ms ?msgs)"
    by blast
  show ?thesis
    using run fg sg fits last unfolding changed_indices_def Let_def
    by (intro exI [of _ s'] exI [of _ fgroups] exI [of _ sgroups] conjI) assumption+
qed

theorem live_update_complete_or_resync_witness:
  "\<exists>s s'. daemon_inv False s \<and> is_subscriber (s_clients s ! 0)
    \<and> distribute_latest_sample quiet_env False ROADCAST_SIGNALS (busy_frames, 1, 9) s = Some s'"
proof -
  obtain s where s: "daemon_inv False s" "s_clients s ! 0 = example_client True True"
    "s_frames s = blank_frames" "s_sample_sequence s = 0"
    by (rule server_with_client [OF example_client_ready [of True True], of False]) simp_all
  have sub: "is_subscriber (s_clients s ! 0)"
    by (simp add: s(2) is_subscriber_def example_client_def zero_client_def)
  have "\<exists>k < 111. frame_differs (busy_frames ! k) (s_frames s ! k)"
    by (rule exI [of _ 0]) (simp add: s(3) busy_frames_def blank_frames_def frame_differs_def zero_frame_def)
  from live_update_complete_or_resync [OF s(1) busy_frames_wf _ this _ sub, of 1 quiet_env 9] s(1,4) sub
  show ?thesis by auto
qed

text \<open>
  C10: Catching up never blocks the event loop.  Whatever the environment answers, one run of the catch-up loop
  ends within 43 turns: each turn but the last uses up an output slot or starts a round that has something to
  send.
\<close>

theorem catchup_loop_bounded:
  assumes "conn_inv (s, c)"
  shows "\<exists>ok s' c'. drive_turns (2 * CLIENT_QUEUE_SLOTS + 3) e (s, c) = Some (ok, s', c') \<and> drive_loop e (s, c) = Some (ok, s', c')"
proof -
  have "drive_measure (s, c) < 2 * CLIENT_QUEUE_SLOTS + 3"
    using drive_measure_bound [OF assms] by simp
  then have "drive_turns (2 * CLIENT_QUEUE_SLOTS + 3) e (s, c) = drive_loop e (s, c)"
    by (rule drive_turns_enough)
  moreover obtain ok s' c' where "drive_loop e (s, c) = Some (ok, s', c')"
    using drive_loop_ok [OF assms, of e] by (auto elim: handler_okE)
  ultimately show ?thesis by auto
qed

theorem catchup_loop_bounded_witness:
  "\<exists>s c ok s' c'. conn_inv (s, c) \<and> drive_turns (2 * CLIENT_QUEUE_SLOTS + 3) quiet_env (s, c) = Some (ok, s', c')"
proof -
  obtain s where "server_inv s"
    by (rule fresh_server)
  then have "conn_inv (s, zero_client)"
    by (intro zero_client_inv) (auto simp: server_inv_def)
  from catchup_loop_bounded [OF this, of quiet_env] this show ?thesis by blast
qed



text \<open>
  C11: Connections that stall are closed.  At a heartbeat, a client that has not greeted by its hello deadline,
  or has greeted and not subscribed by its setup deadline, is closed, and nothing more is written to it.
\<close>

theorem overdue_client_closed:
  assumes "server_inv s" and "i < MAX_CLIENTS" and "overdue (e_clock e (s_calls s)) (s_clients s ! i)"
  shows "\<exists>s'. on_heartbeat e source_state s = Some s' \<and> \<not> c_active (s_clients s' ! i) \<and> c_closing (s_clients s' ! i)
    \<and> c_stream (s_clients s' ! i) = c_stream (s_clients s ! i)"
  by (rule heartbeat_closes [OF assms])

theorem overdue_client_closed_witness:
  "\<exists>s s'. daemon_inv False s \<and> c_active (s_clients s ! 0) \<and> on_heartbeat quiet_env 1 s = Some s'
    \<and> c_closing (s_clients s' ! 0)"
proof -
  obtain s where s: "daemon_inv False s" "s_clients s ! 0 = example_client False False" "s_calls s = 0"
    by (rule server_with_client [OF example_client_ready [of False False], of False]) simp_all
  have "overdue (e_clock quiet_env (s_calls s)) (s_clients s ! 0)" "c_active (s_clients s ! 0)"
    by (simp_all add: s(2) overdue_def example_client_def zero_client_def quiet_env_def)
  with overdue_client_closed [of s 0 quiet_env 1] s(1) show ?thesis
    by (auto simp: daemon_inv_def)
qed

text \<open>
  C36: Commands are refused by their header alone where they must be: a command with another protocol version,
  with flags, or with a type the daemon does not know, and every command but HELLO from a client that has not
  greeted, is refused and leaves the server and the client as they are.
\<close>

theorem commands_refused:
  assumes "h_version header \<noteq> ROADCAST_PROTOCOL_VERSION \<or> h_flags header \<noteq> 0
      \<or> h_type header \<notin> {ROADCAST_MSG_HELLO, ROADCAST_MSG_GET_SNAPSHOT, ROADCAST_MSG_SUBSCRIBE_ALL, ROADCAST_MSG_PING,
          ROADCAST_MSG_GET_SCHEMA, ROADCAST_MSG_GET_SIGNAL_SNAPSHOT}
      \<or> \<not> c_greeted c \<and> h_type header \<noteq> ROADCAST_MSG_HELLO"
  shows "process_command e sigs schema_hash header payload (s, c) = Some (False, s, c)"
  using assms by (auto simp: process_command_def index_command_def)

theorem commands_refused_witness:
  "\<forall>s. process_command quiet_env ROADCAST_SIGNALS ROADCAST_CAN_SCHEMA_HASH
     \<lparr>h_version = ROADCAST_PROTOCOL_VERSION, h_type = ROADCAST_MSG_SUBSCRIBE_ALL, h_flags = 0, h_payload_bytes = 0,
       h_sequence = 0, h_timestamp_ns = 0\<rparr> [] (s, example_client False False) = Some (False, s, example_client False False)"
  by (rule allI, rule commands_refused) (simp add: example_client_def zero_client_def)

end
