(* ===== verification/Vhal_Elf.thy ===== *)
theory Vhal_Elf
  imports Frames
begin

text \<open>
  Symbol resolution, \<^verbatim>\<open>roadcast_vhal_resolve_symbols\<close> in \<^verbatim>\<open>src/vhal_source.c\<close>: the executable of the vehicle
  service is mapped and its symbol table is searched for the receive buffers \<^verbatim>\<open>MMI_Rx_XXX\<close> of the CAN frames.
  The mapping is a byte list and may hold anything.  The ELF structures are read out of it by \<^verbatim>\<open>memcpy\<close>, on a
  little-endian machine, at the offsets that the ELF-64 format gives their fields.

  The lemmas: no contents of the file make the resolver read outside the mapping; the load address is that of
  the lowest loadable segment; and a resolved address is that of the first defined symbol with the frame's name.
\<close>

section \<open>ELF structures\<close>

fun le_nat :: "bytes \<Rightarrow> nat" where
  "le_nat [] = 0"
| "le_nat (b # bs) = unat b + 256 * le_nat bs"

definition le_field :: "bytes \<Rightarrow> nat \<Rightarrow> nat \<Rightarrow> ('w :: len) word" where
  "le_field bs off n = of_nat (le_nat (take n (drop off bs)))"

record elf64_ehdr =
  e_version :: u32
  e_phoff :: u64
  e_shoff :: u64
  e_ehsize :: u16
  e_phentsize :: u16
  e_phnum :: u16
  e_shentsize :: u16
  e_shnum :: u16

record elf64_phdr =
  p_type :: u32
  p_offset :: u64
  p_vaddr :: u64

record elf64_shdr =
  sh_type :: u32
  sh_offset :: u64
  sh_size :: u64
  sh_link :: u32
  sh_entsize :: u64

record elf64_sym =
  st_name :: u32
  st_shndx :: u16
  st_value :: u64

abbreviation (input) SIZEOF_EHDR :: nat where "SIZEOF_EHDR \<equiv> 64"
abbreviation (input) SIZEOF_PHDR :: nat where "SIZEOF_PHDR \<equiv> 56"
abbreviation (input) SIZEOF_SHDR :: nat where "SIZEOF_SHDR \<equiv> 64"
abbreviation (input) SIZEOF_SYM :: nat where "SIZEOF_SYM \<equiv> 24"
abbreviation (input) PT_LOAD :: u32 where "PT_LOAD \<equiv> 1"
abbreviation (input) SHT_SYMTAB :: u32 where "SHT_SYMTAB \<equiv> 2"
abbreviation (input) SHT_STRTAB :: u32 where "SHT_STRTAB \<equiv> 3"
abbreviation (input) SHT_DYNSYM :: u32 where "SHT_DYNSYM \<equiv> 11"
abbreviation (input) SHN_UNDEF :: u16 where "SHN_UNDEF \<equiv> 0"

definition ehdr_of :: "bytes \<Rightarrow> elf64_ehdr" where
  "ehdr_of bs = \<lparr>e_version = le_field bs 20 4, e_phoff = le_field bs 32 8, e_shoff = le_field bs 40 8,
     e_ehsize = le_field bs 52 2, e_phentsize = le_field bs 54 2, e_phnum = le_field bs 56 2,
     e_shentsize = le_field bs 58 2, e_shnum = le_field bs 60 2\<rparr>"

definition phdr_of :: "bytes \<Rightarrow> elf64_phdr" where
  "phdr_of bs = \<lparr>p_type = le_field bs 0 4, p_offset = le_field bs 8 8, p_vaddr = le_field bs 16 8\<rparr>"

definition shdr_of :: "bytes \<Rightarrow> elf64_shdr" where
  "shdr_of bs = \<lparr>sh_type = le_field bs 4 4, sh_offset = le_field bs 24 8, sh_size = le_field bs 32 8,
     sh_link = le_field bs 40 4, sh_entsize = le_field bs 56 8\<rparr>"

definition sym_of :: "bytes \<Rightarrow> elf64_sym" where
  "sym_of bs = \<lparr>st_name = le_field bs 0 4, st_shndx = le_field bs 6 2, st_value = le_field bs 8 8\<rparr>"

section \<open>Operations\<close>

text \<open>\<open>True\<close> is the result 0 of the C function, the table lies within the file.\<close>

definition checked_table :: "nat \<Rightarrow> u64 \<Rightarrow> nat \<Rightarrow> nat \<Rightarrow> bool" where
  "checked_table file_size off count element_size =
    (if element_size = 0 \<or> unat off > file_size then False
     else if count > (file_size - unat off) div element_size then False
     else True)"

definition elf_ident_ok :: "bytes \<Rightarrow> bool option" where
  "elf_ident_ok m =
    (if length m < SIZEOF_EHDR then Some False
     else do {
       magic \<leftarrow> slice m 0 4;
       cls \<leftarrow> rd m 4;
       data \<leftarrow> rd m 5;
       version \<leftarrow> rd m 6;
       Some (magic = [0x7F, 0x45, 0x4C, 0x46] \<and> cls = 2 \<and> data = 1 \<and> version = 1) })"

definition header_ok :: "nat \<Rightarrow> elf64_ehdr \<Rightarrow> bool" where
  "header_ok file_size header \<longleftrightarrow>
     e_version header = 1 \<and> unat (e_ehsize header) = SIZEOF_EHDR
     \<and> \<not> (e_phnum header > 0 \<and> unat (e_phentsize header) \<noteq> SIZEOF_PHDR)
     \<and> \<not> (e_shnum header > 0 \<and> unat (e_shentsize header) \<noteq> SIZEOF_SHDR)
     \<and> checked_table file_size (e_phoff header) (unat (e_phnum header)) SIZEOF_PHDR
     \<and> checked_table file_size (e_shoff header) (unat (e_shnum header)) SIZEOF_SHDR"

definition lowest_load :: "bytes \<Rightarrow> elf64_ehdr \<Rightarrow> (u64 \<times> u64) option" where
  "lowest_load m header = for_loop 0 (unat (e_phnum header)) (\<lambda>i (best_vaddr, best_offset). do {
     bs \<leftarrow> slice m (unat (e_phoff header) + i * SIZEOF_PHDR) SIZEOF_PHDR;
     let program = phdr_of bs;
     if p_type program = PT_LOAD \<and> p_vaddr program < best_vaddr
     then Some (p_vaddr program, p_offset program)
     else Some (best_vaddr, best_offset) }) (UINT64_MAX, 0)"

definition section_at :: "bytes \<Rightarrow> elf64_ehdr \<Rightarrow> nat \<Rightarrow> elf64_shdr option" where
  "section_at m header i = map_option shdr_of (slice m (unat (e_shoff header) + i * SIZEOF_SHDR) SIZEOF_SHDR)"

text \<open>The search for the first section of a type, from section \<open>i\<close> on with \<open>n\<close> sections left.\<close>

fun find_section :: "bytes \<Rightarrow> elf64_ehdr \<Rightarrow> u32 \<Rightarrow> nat \<Rightarrow> nat \<Rightarrow> elf64_shdr option option" where
  "find_section m header ty i 0 = Some None"
| "find_section m header ty i (Suc n) = do {
     section \<leftarrow> section_at m header i;
     if sh_type section = ty then Some (Some section) else find_section m header ty (Suc i) n }"

definition find_symbols :: "bytes \<Rightarrow> elf64_ehdr \<Rightarrow> elf64_shdr option option" where
  "find_symbols m header = do {
     found \<leftarrow> find_section m header SHT_SYMTAB 0 (unat (e_shnum header));
     case found of
       Some symbols \<Rightarrow> Some (Some symbols)
     | None \<Rightarrow> find_section m header SHT_DYNSYM 0 (unat (e_shnum header)) }"

text \<open>\<^verbatim>\<open>memchr(name, 0, n)\<close> and \<^verbatim>\<open>strcmp(name, expected) == 0\<close> on the mapping.\<close>

fun has_nul :: "bytes \<Rightarrow> nat \<Rightarrow> nat \<Rightarrow> bool option" where
  "has_nul m off 0 = Some False"
| "has_nul m off (Suc n) = do { b \<leftarrow> rd m off; if b = 0 then Some True else has_nul m (Suc off) n }"

fun str_eq :: "bytes \<Rightarrow> nat \<Rightarrow> bytes \<Rightarrow> bool option" where
  "str_eq m off [] = do { b \<leftarrow> rd m off; Some (b = 0) }"
| "str_eq m off (c # cs) = do { b \<leftarrow> rd m off; if b = c then str_eq m (Suc off) cs else Some False }"

text \<open>The expected name, \<^verbatim>\<open>snprintf(expected, sizeof(expected), "MMI_Rx_%03X", id)\<close>.\<close>

definition hex_digit :: "nat \<Rightarrow> u8" where
  "hex_digit n = of_nat (if n < 10 then 48 + n else 55 + n)"

fun hex_upper :: "nat \<Rightarrow> bytes" where
  "hex_upper n = (if n < 16 then [hex_digit n] else hex_upper (n div 16) @ [hex_digit (n mod 16)])"

declare hex_upper.simps [simp del]

definition expected_name :: "u16 \<Rightarrow> bytes" where
  "expected_name can_id = (let digits = hex_upper (unat can_id)
     in map of_char ''MMI_Rx_'' @ replicate (3 - length digits) 48 @ digits)"

text \<open>The loop over the frames: the first unresolved frame with the symbol's name takes its value.\<close>

fun claim_symbol :: "bytes \<Rightarrow> nat \<Rightarrow> u64 \<Rightarrow> nat \<Rightarrow> nat \<Rightarrow> u64 list \<times> nat \<Rightarrow> (u64 list \<times> nat) option" where
  "claim_symbol m name v i 0 st = Some st"
| "claim_symbol m name v i (Suc n) (values, found) = do {
     can_id \<leftarrow> rd ROADCAST_CAN_IDS i;
     old \<leftarrow> rd values i;
     same \<leftarrow> (if old = 0 then str_eq m name (expected_name can_id) else Some False);
     if same then do {
       values \<leftarrow> poke i [v] values;
       Some (values, found + 1) }
     else claim_symbol m name v (Suc i) n (values, found) }"

definition visit_symbol :: "bytes \<Rightarrow> elf64_shdr \<Rightarrow> elf64_sym \<Rightarrow> u64 list \<times> nat \<Rightarrow> (u64 list \<times> nat) option" where
  "visit_symbol m strings symbol st =
    (if st_shndx symbol = SHN_UNDEF \<or> unat (st_name symbol) \<ge> unat (sh_size strings) then Some st
     else do {
       let name = unat (sh_offset strings) + unat (st_name symbol);
       nul \<leftarrow> has_nul m name (unat (sh_size strings) - unat (st_name symbol));
       if \<not> nul then Some st
       else claim_symbol m name (st_value symbol) 0 ROADCAST_FRAME_COUNT st })"

fun scan_symbols :: "bytes \<Rightarrow> elf64_shdr \<Rightarrow> elf64_shdr \<Rightarrow> nat \<Rightarrow> nat \<Rightarrow> u64 list \<times> nat \<Rightarrow> (u64 list \<times> nat) option" where
  "scan_symbols m symbols strings i 0 st = Some st"
| "scan_symbols m symbols strings i (Suc n) (values, found) =
    (if found < ROADCAST_FRAME_COUNT then do {
       bs \<leftarrow> slice m (unat (sh_offset symbols) + i * SIZEOF_SYM) SIZEOF_SYM;
       st \<leftarrow> visit_symbol m strings (sym_of bs) (values, found);
       scan_symbols m symbols strings (Suc i) n st }
     else Some (values, found))"

definition symbols_ok :: "nat \<Rightarrow> elf64_ehdr \<Rightarrow> elf64_shdr \<Rightarrow> bool" where
  "symbols_ok file_size header symbols \<longleftrightarrow>
     \<not> (unat (sh_link symbols) \<ge> unat (e_shnum header)) \<and> unat (sh_entsize symbols) = SIZEOF_SYM
     \<and> unat (sh_size symbols) mod SIZEOF_SYM = 0
     \<and> checked_table file_size (sh_offset symbols) (unat (sh_size symbols)) 1"

text \<open>
  The whole search over the mapped file; \<^verbatim>\<open>goto done\<close> with the result -1 is \<open>Fail\<close>.
\<close>

definition resolve_mapped :: "bytes \<Rightarrow> (u64 list \<times> u64 \<times> u64) ret option" where
  "resolve_mapped m = do {
     ident \<leftarrow> elf_ident_ok m;
     if \<not> ident then Some Fail
     else do {
       bs \<leftarrow> slice m 0 SIZEOF_EHDR;
       let header = ehdr_of bs;
       if \<not> header_ok (length m) header then Some Fail
       else do {
         (best_vaddr, best_offset) \<leftarrow> lowest_load m header;
         if best_vaddr = UINT64_MAX then Some Fail
         else do {
           found_symbols \<leftarrow> find_symbols m header;
           case found_symbols of
             None \<Rightarrow> Some Fail
           | Some symbols \<Rightarrow>
               if \<not> symbols_ok (length m) header symbols then Some Fail
               else do {
                 strings \<leftarrow> section_at m header (unat (sh_link symbols));
                 if sh_type strings \<noteq> SHT_STRTAB
                    \<or> \<not> checked_table (length m) (sh_offset strings) (unat (sh_size strings)) 1
                 then Some Fail
                 else do {
                   (values, found) \<leftarrow> scan_symbols m symbols strings 0 (unat (sh_size symbols) div SIZEOF_SYM)
                     (replicate ROADCAST_FRAME_COUNT 0, 0);
                   Some (Ok (values, best_vaddr, best_offset)) } } } } } }"

text \<open>
  Opening, measuring and mapping the file is the system's: \<open>file\<close> is what it maps, \<^const>\<open>None\<close> when one of the
  calls fails.  An empty file is refused.
\<close>

definition roadcast_vhal_resolve_symbols :: "bytes option \<Rightarrow> (u64 list \<times> u64 \<times> u64) ret option" where
  "roadcast_vhal_resolve_symbols file = (case file of
     None \<Rightarrow> Some Fail
   | Some m \<Rightarrow> if length m = 0 then Some Fail else resolve_mapped m)"

section \<open>Memory safety\<close>

lemma checked_table_bound:
  "checked_table fsize off count width \<Longrightarrow> unat off + count * width \<le> fsize"
proof -
  assume "checked_table fsize off count width"
  then have off: "unat off \<le> fsize" and "count \<le> (fsize - unat off) div width"
    by (auto simp: checked_table_def split: if_splits)
  from this(2) have "count * width \<le> (fsize - unat off) div width * width"
    by (rule mult_le_mono1)
  also have "\<dots> \<le> fsize - unat off"
    by (rule div_times_less_eq_dividend)
  finally show ?thesis using off by simp
qed

lemma checked_table_entry:
  assumes "checked_table fsize off count width" and "i < count"
  shows "unat off + i * width + width \<le> fsize"
proof -
  have "(i + 1) * width \<le> count * width"
    using assms(2) by (intro mult_right_mono) auto
  with checked_table_bound [OF assms(1)] show ?thesis by simp
qed

lemma header_okD:
  assumes "header_ok fsize header"
  shows "i < unat (e_phnum header) \<Longrightarrow> unat (e_phoff header) + i * SIZEOF_PHDR + SIZEOF_PHDR \<le> fsize"
    and "i < unat (e_shnum header) \<Longrightarrow> unat (e_shoff header) + i * SIZEOF_SHDR + SIZEOF_SHDR \<le> fsize"
  using assms by (auto simp: header_ok_def intro: checked_table_entry)

lemma section_at_ok:
  assumes "header_ok (length m) header" and "i < unat (e_shnum header)"
  shows "section_at m header i = Some (shdr_of (take SIZEOF_SHDR (drop (unat (e_shoff header) + i * SIZEOF_SHDR) m)))"
  using header_okD(2) [OF assms] by (simp add: section_at_def slice_Some)

lemma find_section_safe:
  assumes "header_ok (length m) header" and "i + n \<le> unat (e_shnum header)"
  shows "\<exists>r. find_section m header ty i n = Some r"
  using assms(2) by (induction n arbitrary: i) (auto simp: section_at_ok [OF assms(1)])

lemma find_symbols_safe:
  assumes "header_ok (length m) header"
  shows "\<exists>r. find_symbols m header = Some r"
proof -
  obtain r where "find_section m header SHT_SYMTAB 0 (unat (e_shnum header)) = Some r"
    using find_section_safe [OF assms, of 0] by auto
  then show ?thesis
    using find_section_safe [OF assms, of 0] by (cases r) (auto simp: find_symbols_def)
qed

text \<open>\<^verbatim>\<open>memchr\<close> finds a NUL within its range exactly when there is one.\<close>

lemma has_nul_eq: "off + n \<le> length m \<Longrightarrow> has_nul m off n = Some (0 \<in> set (take n (drop off m)))"
  by (induction n arbitrary: off) (auto simp: rd_Some Cons_nth_drop_Suc [symmetric])

text \<open>The string at an offset, up to its NUL.\<close>

definition string_at :: "bytes \<Rightarrow> nat \<Rightarrow> bytes" where
  "string_at m off = takeWhile (\<lambda>b. b \<noteq> 0) (drop off m)"

lemma str_eq_eq:
  assumes "0 \<in> set (drop off m)" and "0 \<notin> set cs"
  shows "str_eq m off cs = Some (string_at m off = cs)"
  using assms
proof (induction cs arbitrary: off)
  case Nil
  then have "off < length m" by (cases "off < length m") auto
  then show ?case
    by (simp add: rd_Some string_at_def Cons_nth_drop_Suc [symmetric])
next
  case (Cons c cs)
  then have len: "off < length m" by (cases "off < length m") auto
  then have d: "drop off m = m ! off # drop (Suc off) m"
    by (simp add: Cons_nth_drop_Suc)
  show ?case
  proof (cases "m ! off = c")
    case True
    with Cons.prems d have "0 \<in> set (drop (Suc off) m)" by auto
    with Cons.IH Cons.prems True len d show ?thesis
      by (auto simp: rd_Some string_at_def)
  next
    case False
    with len d show ?thesis
      by (auto simp: rd_Some string_at_def)
  qed
qed

lemma unat_hex_digit: "n < 16 \<Longrightarrow> unat (hex_digit n) = (if n < 10 then 48 + n else 55 + n)"
  by (simp add: hex_digit_def unat_of_nat_small)

lemma hex_digit_nonzero: "n < 16 \<Longrightarrow> hex_digit n \<noteq> 0"
  using unat_hex_digit [of n] by (auto split: if_splits)

lemma hex_digit_inject: "n < 16 \<Longrightarrow> k < 16 \<Longrightarrow> hex_digit n = hex_digit k \<longleftrightarrow> n = k"
proof -
  assume "n < 16" "k < 16"
  then have "unat (hex_digit n) = unat (hex_digit k) \<Longrightarrow> n = k"
    by (simp add: unat_hex_digit split: if_splits)
  then show ?thesis by auto
qed

lemma hex_digit_zero: "hex_digit 0 = 48"
  by (simp add: hex_digit_def)

lemma hex_upper_nonzero: "0 \<notin> set (hex_upper n)"
proof (induction n rule: hex_upper.induct)
  case (1 n)
  then show ?case
    using hex_digit_nonzero [of n] hex_digit_nonzero [of "n mod 16"] by (subst hex_upper.simps) (auto split: if_splits)
qed

lemma expected_name_nonzero: "0 \<notin> set (expected_name can_id)"
  using hex_upper_nonzero [of "unat can_id"] by (auto simp: expected_name_def Let_def)

section \<open>What is resolved\<close>

lemma expected_name_short:
  assumes "unat can_id < 4096"
  shows "expected_name can_id = map of_char ''MMI_Rx_''
    @ [hex_digit (unat can_id div 256), hex_digit (unat can_id div 16 mod 16), hex_digit (unat can_id mod 16)]"
proof -
  let ?n = "unat can_id"
  consider "?n < 16" | "16 \<le> ?n" "?n < 256" | "256 \<le> ?n" by linarith
  then show ?thesis
  proof cases
    case 1
    then show ?thesis by (simp add: expected_name_def hex_upper.simps hex_digit_zero numeral_2_eq_2)
  next
    case 2
    then have "?n div 16 < 16" by linarith
    with 2 show ?thesis
      by (simp add: expected_name_def hex_upper.simps [of ?n] hex_upper.simps [of "?n div 16"] hex_digit_zero numeral_2_eq_2)
  next
    case 3
    have "\<not> ?n div 16 < 16" "?n div 16 div 16 < 16" "?n div 16 div 16 = ?n div 256"
      using 3 assms by (auto simp: div_mult2_eq [symmetric])
    with 3 show ?thesis
      by (simp add: expected_name_def hex_upper.simps [of ?n] hex_upper.simps [of "?n div 16"] hex_upper.simps [of "?n div 256"])
  qed
qed

lemma three_digits: "n = 256 * (n div 256) + 16 * (n div 16 mod 16) + n mod (16 :: nat)"
proof -
  have "n div 16 = 16 * (n div 256) + n div 16 mod 16"
    using mult_div_mod_eq [of 16 "n div 16"] by (simp add: div_mult2_eq [symmetric])
  then show ?thesis
    using mult_div_mod_eq [of 16 n] by linarith
qed

lemma expected_names_differ:
  assumes "i < ROADCAST_FRAME_COUNT" and "j < ROADCAST_FRAME_COUNT"
    and "expected_name (ROADCAST_CAN_IDS ! i) = expected_name (ROADCAST_CAN_IDS ! j)"
  shows "i = j"
proof -
  let ?a = "unat (ROADCAST_CAN_IDS ! i)" and ?b = "unat (ROADCAST_CAN_IDS ! j)"
  have small: "?a < 4096" "?b < 4096"
    using bspec [OF ROADCAST_CAN_IDS_small nth_mem [of i]] bspec [OF ROADCAST_CAN_IDS_small nth_mem [of j]] assms(1,2)
    by simp_all
  then have "?a div 256 < 16" "?b div 256 < 16" by simp_all
  with assms(3) have "?a div 256 = ?b div 256" "?a div 16 mod 16 = ?b div 16 mod 16" "?a mod 16 = ?b mod 16"
    by (simp_all add: expected_name_short small hex_digit_inject)
  then have "?a = ?b"
    by (metis three_digits)
  then have "ROADCAST_CAN_IDS ! i = ROADCAST_CAN_IDS ! j"
    by (simp only: word_unat_eq_iff)
  then show ?thesis
    using nth_eq_iff_index_eq [OF ROADCAST_CAN_IDS_distinct] assms(1,2) by simp
qed

text \<open>A symbol names a frame's buffer: it is defined, and its name ends within the string table.\<close>

definition symbol_names :: "bytes \<Rightarrow> elf64_shdr \<Rightarrow> elf64_sym \<Rightarrow> nat \<Rightarrow> bool" where
  "symbol_names m strings symbol i \<longleftrightarrow> st_shndx symbol \<noteq> SHN_UNDEF \<and> unat (st_name symbol) < unat (sh_size strings)
     \<and> 0 \<in> set (take (unat (sh_size strings) - unat (st_name symbol)) (drop (unat (sh_offset strings) + unat (st_name symbol)) m))
     \<and> string_at m (unat (sh_offset strings) + unat (st_name symbol)) = expected_name (ROADCAST_CAN_IDS ! i)"

lemma symbol_names_unique:
  "symbol_names m strings symbol i \<Longrightarrow> symbol_names m strings symbol j \<Longrightarrow> i < ROADCAST_FRAME_COUNT
    \<Longrightarrow> j < ROADCAST_FRAME_COUNT \<Longrightarrow> i = j"
  by (rule expected_names_differ) (auto simp: symbol_names_def)

lemma claim_symbol_run:
  assumes "0 \<in> set (drop name m)" and "length values = ROADCAST_FRAME_COUNT" and "i + n = ROADCAST_FRAME_COUNT"
  obtains (none) "claim_symbol m name v i n (values, found) = Some (values, found)"
      and "\<forall>j \<in> {i..<ROADCAST_FRAME_COUNT}. \<not> (values ! j = 0 \<and> string_at m name = expected_name (ROADCAST_CAN_IDS ! j))"
    | (claimed) j where "claim_symbol m name v i n (values, found) = Some (values[j := v], found + 1)"
      and "j < ROADCAST_FRAME_COUNT" and "values ! j = 0" and "string_at m name = expected_name (ROADCAST_CAN_IDS ! j)"
  using assms(3)
proof (induction n arbitrary: i thesis)
  case 0
  then show ?case by auto
next
  case (Suc n)
  then have i: "i < ROADCAST_FRAME_COUNT" by simp
  show ?case
  proof (cases "values ! i = 0 \<and> string_at m name = expected_name (ROADCAST_CAN_IDS ! i)")
    case True
    with i assms(1,2) show ?thesis
      by (intro Suc.prems(2) [of i])
        (simp_all add: rd_Some str_eq_eq [OF assms(1) expected_name_nonzero])
  next
    case False
    then have step: "claim_symbol m name v i (Suc n) (values, found) = claim_symbol m name v (Suc i) n (values, found)"
      using i assms(1,2) by (auto simp: rd_Some str_eq_eq [OF assms(1) expected_name_nonzero])
    have n: "Suc i + n = ROADCAST_FRAME_COUNT" using Suc.prems(3) by simp
    show ?thesis
    proof (rule Suc.IH [OF _ _ n])
      assume *: "claim_symbol m name v (Suc i) n (values, found) = Some (values, found)"
        "\<forall>j \<in> {Suc i..<ROADCAST_FRAME_COUNT}. \<not> (values ! j = 0 \<and> string_at m name = expected_name (ROADCAST_CAN_IDS ! j))"
      show thesis
        by (rule Suc.prems(1)) (use * step False in \<open>auto simp: le_eq_less_or_eq Suc_le_eq\<close>)
    next
      fix j assume "claim_symbol m name v (Suc i) n (values, found) = Some (values[j := v], found + 1)"
        "j < ROADCAST_FRAME_COUNT" "values ! j = 0" "string_at m name = expected_name (ROADCAST_CAN_IDS ! j)"
      with step show thesis by (intro Suc.prems(2) [of j]) simp_all
    qed
  qed
qed

lemma visit_symbol_run:
  assumes "checked_table (length m) (sh_offset strings) (unat (sh_size strings)) 1" and "length values = ROADCAST_FRAME_COUNT"
  obtains (none) "visit_symbol m strings symbol (values, found) = Some (values, found)"
      and "\<forall>j < ROADCAST_FRAME_COUNT. \<not> (values ! j = 0 \<and> symbol_names m strings symbol j)"
    | (claimed) j where "visit_symbol m strings symbol (values, found) = Some (values[j := st_value symbol], found + 1)"
      and "j < ROADCAST_FRAME_COUNT" and "values ! j = 0" and "symbol_names m strings symbol j"
proof -
  let ?off = "unat (sh_offset strings) + unat (st_name symbol)" and ?n = "unat (sh_size strings) - unat (st_name symbol)"
  show thesis
  proof (cases "st_shndx symbol = SHN_UNDEF \<or> unat (st_name symbol) \<ge> unat (sh_size strings)")
    case True
    then show ?thesis by (intro none) (auto simp: visit_symbol_def symbol_names_def)
  next
    case False
    with checked_table_bound [OF assms(1)] have "?off + ?n \<le> length m" by simp
    note nul = has_nul_eq [OF this]
    show ?thesis
    proof (cases "0 \<in> set (take ?n (drop ?off m))")
      case no: False
      with False nul show ?thesis by (intro none) (auto simp: visit_symbol_def symbol_names_def Let_def)
    next
      case True
      then have z: "0 \<in> set (drop ?off m)" by (meson in_set_takeD)
      have step: "visit_symbol m strings symbol (values, found) = claim_symbol m ?off (st_value symbol) 0 111 (values, found)"
        using False True nul by (simp add: visit_symbol_def Let_def)
      show ?thesis
      proof (rule claim_symbol_run [OF z assms(2), of 0 111 "st_value symbol" found])
        assume *: "claim_symbol m ?off (st_value symbol) 0 111 (values, found) = Some (values, found)"
          "\<forall>j \<in> {0..<111}. \<not> (values ! j = 0 \<and> string_at m ?off = expected_name (ROADCAST_CAN_IDS ! j))"
        show thesis by (rule none) (use * step in \<open>auto simp: symbol_names_def\<close>)
      next
        fix j assume *: "claim_symbol m ?off (st_value symbol) 0 111 (values, found) = Some (values[j := st_value symbol], found + 1)"
          "j < 111" "values ! j = 0" "string_at m ?off = expected_name (ROADCAST_CAN_IDS ! j)"
        show thesis by (rule claimed [of j]) (use * step False True in \<open>auto simp: symbol_names_def\<close>)
      qed simp
    qed
  qed
qed

definition symbol_at :: "bytes \<Rightarrow> elf64_shdr \<Rightarrow> nat \<Rightarrow> elf64_sym" where
  "symbol_at m symbols i = sym_of (take SIZEOF_SYM (drop (unat (sh_offset symbols) + i * SIZEOF_SYM) m))"

text \<open>The address a frame should get from a list of symbols: the first that names it and is not zero.\<close>

definition resolved :: "bytes \<Rightarrow> elf64_shdr \<Rightarrow> elf64_sym list \<Rightarrow> nat \<Rightarrow> u64" where
  "resolved m strings ss i =
    (case find (\<lambda>s. st_value s \<noteq> 0 \<and> symbol_names m strings s i) ss of None \<Rightarrow> 0 | Some s \<Rightarrow> st_value s)"

lemma resolved_Nil [simp]: "resolved m strings [] i = 0"
  by (simp add: resolved_def)

lemma resolved_zero_iff:
  "resolved m strings ss i = 0 \<longleftrightarrow> (\<forall>s \<in> set ss. symbol_names m strings s i \<longrightarrow> st_value s = 0)"
  unfolding resolved_def by (auto simp: find_None_iff find_Some_iff split: option.splits)

lemma resolved_append:
  "resolved m strings (ss @ ts) i = (if resolved m strings ss i \<noteq> 0 then resolved m strings ss i else resolved m strings ts i)"
  by (induction ss) (auto simp: resolved_def)

lemma resolved_single: "resolved m strings [s] i = (if symbol_names m strings s i then st_value s else 0)"
  by (simp add: resolved_def)

lemma resolved_from: "resolved m strings ss i \<noteq> 0 \<Longrightarrow> \<exists>s \<in> set ss. symbol_names m strings s i \<and> st_value s = resolved m strings ss i"
proof (cases "find (\<lambda>s. st_value s \<noteq> 0 \<and> symbol_names m strings s i) ss")
  case (Some s)
  then have "s \<in> set ss" "symbol_names m strings s i"
    by (auto simp: find_Some_iff)
  then show ?thesis using Some by (auto simp: resolved_def)
qed (simp add: resolved_def)

text \<open>One symbol adds what it names; the count of resolved frames keeps up when its value is not zero.\<close>

definition addresses :: "bytes \<Rightarrow> elf64_shdr \<Rightarrow> elf64_sym list \<Rightarrow> u64 list" where
  "addresses m strings ss = map (resolved m strings ss) [0..<ROADCAST_FRAME_COUNT]"

lemma addresses_simps [simp]:
  "length (addresses m strings ss) = ROADCAST_FRAME_COUNT"
  "i < ROADCAST_FRAME_COUNT \<Longrightarrow> addresses m strings ss ! i = resolved m strings ss i"
  by (simp_all add: addresses_def)

abbreviation (input) count_nonzero :: "u64 list \<Rightarrow> nat" where
  "count_nonzero vs \<equiv> length (filter (\<lambda>v. v \<noteq> 0) vs)"

lemma count_nonzero_update:
  "i < length vs \<Longrightarrow> vs ! i = 0 \<Longrightarrow> v \<noteq> 0 \<Longrightarrow> count_nonzero (vs[i := v]) = Suc (count_nonzero vs)"
proof (induction vs arbitrary: i)
  case (Cons x vs)
  then show ?case by (cases i) auto
qed simp

definition not_null :: "bytes \<Rightarrow> elf64_shdr \<Rightarrow> elf64_sym \<Rightarrow> bool" where
  "not_null m strings symbol \<longleftrightarrow> (\<forall>i < ROADCAST_FRAME_COUNT. symbol_names m strings symbol i \<longrightarrow> st_value symbol \<noteq> 0)"

lemma visit_symbol_resolves:
  assumes "checked_table (length m) (sh_offset strings) (unat (sh_size strings)) 1"
  obtains found' where "visit_symbol m strings symbol (addresses m strings ss, found) = Some (addresses m strings (ss @ [symbol]), found')"
    and "found = count_nonzero (addresses m strings ss)
      \<longrightarrow> not_null m strings symbol \<longrightarrow> found' = count_nonzero (addresses m strings (ss @ [symbol]))"
proof (rule visit_symbol_run [OF assms addresses_simps(1), where symbol = symbol and found = found])
  assume *: "visit_symbol m strings symbol (addresses m strings ss, found) = Some (addresses m strings ss, found)"
    "\<forall>j < 111. \<not> (addresses m strings ss ! j = 0 \<and> symbol_names m strings symbol j)"
  then have "addresses m strings (ss @ [symbol]) = addresses m strings ss"
    by (intro nth_equalityI) (auto simp: resolved_append resolved_single)
  with * show thesis by (intro that) auto
next
  fix j
  assume *: "visit_symbol m strings symbol (addresses m strings ss, found)
      = Some ((addresses m strings ss)[j := st_value symbol], found + 1)"
    and j: "j < 111" "addresses m strings ss ! j = 0" "symbol_names m strings symbol j"
  have eq: "(addresses m strings ss)[j := st_value symbol] = addresses m strings (ss @ [symbol])"
  proof (rule nth_equalityI)
    fix i assume "i < length ((addresses m strings ss)[j := st_value symbol])"
    with j symbol_names_unique [OF j(3), of i]
    show "(addresses m strings ss)[j := st_value symbol] ! i = addresses m strings (ss @ [symbol]) ! i"
      by (auto simp: nth_list_update resolved_append resolved_single)
  qed simp
  have "count_nonzero (addresses m strings (ss @ [symbol])) = Suc (count_nonzero (addresses m strings ss))"
    if "st_value symbol \<noteq> 0"
    unfolding eq [symmetric] by (rule count_nonzero_update) (use j that in simp_all)
  with * j show thesis by (intro that [of "found + 1"]) (auto simp: eq not_null_def)
qed

lemma all_nonzero:
  assumes "count_nonzero vs = length vs" and "v \<in> set vs"
  shows "v \<noteq> 0"
  using length_filter_less [OF assms(2), of "\<lambda>v. v \<noteq> 0"] assms(1) by auto

text \<open>
  The scan works through a prefix of the symbols; it is the whole table when no symbol of a frame has the value
  zero, because then the scan only stops early when every frame is resolved.
\<close>

definition symbols_at :: "bytes \<Rightarrow> elf64_shdr \<Rightarrow> nat \<Rightarrow> nat \<Rightarrow> elf64_sym list" where
  "symbols_at m symbols i n = map (symbol_at m symbols) [i..<i + n]"

lemma symbols_at_simps [simp]:
  "symbols_at m symbols i 0 = []"
  "symbols_at m symbols i (Suc n) = symbol_at m symbols i # symbols_at m symbols (Suc i) n"
  by (simp_all add: symbols_at_def upt_conv_Cons del: upt_Suc)

lemma scan_symbols_run:
  assumes strings: "checked_table (length m) (sh_offset strings) (unat (sh_size strings)) 1"
    and "unat (sh_offset symbols) + (i + n) * SIZEOF_SYM \<le> length m"
  shows "\<exists>k found'. k \<le> n
    \<and> scan_symbols m symbols strings i n (addresses m strings ss, found)
      = Some (addresses m strings (ss @ symbols_at m symbols i k), found')
    \<and> (found = count_nonzero (addresses m strings ss) \<longrightarrow> list_all (not_null m strings) (symbols_at m symbols i n)
       \<longrightarrow> addresses m strings (ss @ symbols_at m symbols i k) = addresses m strings (ss @ symbols_at m symbols i n))"
  using assms(2)
proof (induction n arbitrary: i ss found)
  case 0
  show ?case by (rule exI [of _ 0], rule exI [of _ found]) simp
next
  case (Suc n)
  let ?s = "symbol_at m symbols i"
  show ?case
  proof (cases "found < ROADCAST_FRAME_COUNT")
    case False
    have "addresses m strings (ss @ ts) = addresses m strings ss" if "found = count_nonzero (addresses m strings ss)" for ts
    proof -
      have "count_nonzero (addresses m strings ss) = length (addresses m strings ss)"
        using False that length_filter_le [of "\<lambda>v. v \<noteq> 0" "addresses m strings ss"] by simp
      from all_nonzero [OF this nth_mem] show ?thesis
        by (intro nth_equalityI) (auto simp: resolved_append)
    qed
    then show ?thesis
      by (intro exI [of _ 0] exI [of _ found]) (simp add: False)
  next
    case True
    have rest: "unat (sh_offset symbols) + (Suc i + n) * SIZEOF_SYM \<le> length m"
      using Suc.prems by simp
    have fits: "unat (sh_offset symbols) + i * SIZEOF_SYM + SIZEOF_SYM \<le> length m"
      using Suc.prems by (simp add: algebra_simps)
    obtain found1 where v: "visit_symbol m strings ?s (addresses m strings ss, found) = Some (addresses m strings (ss @ [?s]), found1)"
      "found = count_nonzero (addresses m strings ss) \<longrightarrow> not_null m strings ?s
        \<longrightarrow> found1 = count_nonzero (addresses m strings (ss @ [?s]))"
      by (rule visit_symbol_resolves [OF strings])
    have "scan_symbols m symbols strings i (Suc n) (addresses m strings ss, found)
        = scan_symbols m symbols strings (Suc i) n (addresses m strings (ss @ [?s]), found1)"
      using True fits v(1) by (simp add: slice_Some symbol_at_def)
    moreover obtain k found2 where "k \<le> n"
      "scan_symbols m symbols strings (Suc i) n (addresses m strings (ss @ [?s]), found1)
        = Some (addresses m strings ((ss @ [?s]) @ symbols_at m symbols (Suc i) k), found2)"
      "found1 = count_nonzero (addresses m strings (ss @ [?s])) \<longrightarrow> list_all (not_null m strings) (symbols_at m symbols (Suc i) n)
       \<longrightarrow> addresses m strings ((ss @ [?s]) @ symbols_at m symbols (Suc i) k)
         = addresses m strings ((ss @ [?s]) @ symbols_at m symbols (Suc i) n)"
      using Suc.IH [OF rest, of "ss @ [?s]" found1] by (elim exE conjE) (rule that)
    ultimately show ?thesis
      using v(2) by (intro exI [of _ "Suc k"] exI [of _ found2]) simp
  qed
qed

section \<open>The load address\<close>

definition segments :: "bytes \<Rightarrow> elf64_ehdr \<Rightarrow> elf64_phdr list" where
  "segments m header = map (\<lambda>i. phdr_of (take SIZEOF_PHDR (drop (unat (e_phoff header) + i * SIZEOF_PHDR) m))) [0..<unat (e_phnum header)]"

definition lowest_segment :: "elf64_phdr list \<Rightarrow> u64 \<Rightarrow> u64 \<Rightarrow> bool" where
  "lowest_segment ps vaddr off \<longleftrightarrow> (vaddr = UINT64_MAX \<or> (\<exists>p \<in> set ps. p_type p = PT_LOAD \<and> p_vaddr p = vaddr \<and> p_offset p = off))
     \<and> (\<forall>p \<in> set ps. p_type p = PT_LOAD \<longrightarrow> vaddr \<le> p_vaddr p)"

lemma UINT64_MAX_greatest: "(v :: u64) \<le> UINT64_MAX"
  by (simp add: word_le_nat_alt unat_le_max)

lemma lowest_segment_snoc:
  assumes "lowest_segment ps vaddr off"
  shows "p_type p = PT_LOAD \<Longrightarrow> p_vaddr p < vaddr \<Longrightarrow> lowest_segment (ps @ [p]) (p_vaddr p) (p_offset p)"
    and "\<not> (p_type p = PT_LOAD \<and> p_vaddr p < vaddr) \<Longrightarrow> lowest_segment (ps @ [p]) vaddr off"
  using assms by (auto simp: lowest_segment_def not_less dest: order.strict_implies_order)

lemma lowest_load_run:
  assumes "header_ok (length m) header"
  shows "\<exists>vaddr off. lowest_load m header = Some (vaddr, off) \<and> lowest_segment (segments m header) vaddr off"
proof -
  let ?seg = "\<lambda>i. phdr_of (take SIZEOF_PHDR (drop (unat (e_phoff header) + i * SIZEOF_PHDR) m))"
  let ?I = "\<lambda>k (vaddr, off). lowest_segment (map ?seg [0..<k]) vaddr off"
  have "\<exists>st. lowest_load m header = Some st \<and> ?I (0 + unat (e_phnum header)) st"
    unfolding lowest_load_def
  proof (rule for_loop_invariant)
    show "?I 0 (UINT64_MAX, 0)" by (simp add: lowest_segment_def)
  next
    fix k st assume "k < 0 + unat (e_phnum header)" and I: "?I k st"
    then have "unat (e_phoff header) + k * SIZEOF_PHDR + SIZEOF_PHDR \<le> length m"
      using header_okD(1) [OF assms] by simp
    with I show "\<exists>st'. (case st of (best_vaddr, best_offset) \<Rightarrow> do {
       bs \<leftarrow> slice m (unat (e_phoff header) + k * SIZEOF_PHDR) SIZEOF_PHDR;
       let program = phdr_of bs;
       if p_type program = PT_LOAD \<and> p_vaddr program < best_vaddr
       then Some (p_vaddr program, p_offset program)
       else Some (best_vaddr, best_offset) }) = Some st' \<and> ?I (Suc k) st'"
      by (cases st) (auto simp: slice_Some Let_def intro: lowest_segment_snoc)
  qed
  then show ?thesis by (auto simp: segments_def)
qed

section \<open>The whole search\<close>

lemma find_section_from:
  "find_section m header ty i n = Some (Some s) \<Longrightarrow> sh_type s = ty"
  by (induction m header ty i n rule: find_section.induct) (auto split: if_splits Option.bind_splits)

lemma symbols_okD:
  assumes "symbols_ok fsize header symbols"
  shows "unat (sh_link symbols) < unat (e_shnum header)"
    and "unat (sh_offset symbols) + (0 + unat (sh_size symbols) div SIZEOF_SYM) * SIZEOF_SYM \<le> fsize"
  using assms checked_table_bound [of fsize "sh_offset symbols" "unat (sh_size symbols)" 1]
  by (auto simp: symbols_ok_def)

lemma addresses_Nil: "addresses m strings [] = replicate ROADCAST_FRAME_COUNT 0"
  by (rule nth_equalityI) simp_all

lemma resolve_mapped_run:
  obtains (refused) "resolve_mapped m = Some Fail"
  | (found) header symbols strings vaddr off k where "resolve_mapped m
      = Some (Ok (addresses m strings (symbols_at m symbols 0 k), vaddr, off))"
    and "header = ehdr_of (take SIZEOF_EHDR m)" and "find_symbols m header = Some (Some symbols)"
    and "section_at m header (unat (sh_link symbols)) = Some strings"
    and "k \<le> unat (sh_size symbols) div SIZEOF_SYM"
    and "vaddr \<noteq> UINT64_MAX" and "lowest_segment (segments m header) vaddr off"
    and "list_all (not_null m strings) (symbols_at m symbols 0 (unat (sh_size symbols) div SIZEOF_SYM))
      \<longrightarrow> addresses m strings (symbols_at m symbols 0 k)
        = addresses m strings (symbols_at m symbols 0 (unat (sh_size symbols) div SIZEOF_SYM))"
proof (cases "elf_ident_ok m = Some True")
  case False
  then have "elf_ident_ok m = Some False"
    by (auto simp: elf_ident_ok_def slice_Some rd_Some)
  then show ?thesis by (intro refused) (simp add: resolve_mapped_def)
next
  case ident: True
  then have "64 \<le> length m" by (auto simp: elf_ident_ok_def split: if_splits)
  then have slice: "slice m 0 64 = Some (take 64 m)" by (simp add: slice_Some)
  let ?h = "ehdr_of (take 64 m)"
  show ?thesis
  proof (cases "header_ok (length m) ?h")
    case False
    with ident slice show ?thesis by (intro refused) (simp add: resolve_mapped_def)
  next
    case ok: True
    obtain vaddr off where load: "lowest_load m ?h = Some (vaddr, off)" "lowest_segment (segments m ?h) vaddr off"
      using lowest_load_run [OF ok] by blast
    obtain fs where fs: "find_symbols m ?h = Some fs"
      using find_symbols_safe [OF ok] by blast
    show ?thesis
    proof (cases "vaddr = UINT64_MAX \<or> fs = None \<or> \<not> symbols_ok (length m) ?h (the fs)")
      case True
      with ident slice ok load fs show ?thesis
        by (intro refused) (auto simp: resolve_mapped_def Let_def split: option.splits)
    next
      case False
      then obtain symbols where s: "fs = Some symbols" "symbols_ok (length m) ?h symbols" "vaddr \<noteq> UINT64_MAX" by auto
      obtain strings where strings: "section_at m ?h (unat (sh_link symbols)) = Some strings"
        using section_at_ok [OF ok symbols_okD(1) [OF s(2)]] by blast
      show ?thesis
      proof (cases "sh_type strings \<noteq> SHT_STRTAB \<or> \<not> checked_table (length m) (sh_offset strings) (unat (sh_size strings)) 1")
        case True
        with ident slice ok load fs s strings show ?thesis
          by (intro refused) (auto simp: resolve_mapped_def Let_def split: option.splits)
      next
        case False
        then have tab: "checked_table (length m) (sh_offset strings) (unat (sh_size strings)) 1" by simp
        let ?n = "unat (sh_size symbols) div SIZEOF_SYM"
        have "addresses m strings [] = replicate ROADCAST_FRAME_COUNT 0" "count_nonzero (addresses m strings []) = 0"
          by (simp_all add: addresses_Nil)
        then obtain k n where k: "k \<le> ?n"
          "scan_symbols m symbols strings 0 ?n (replicate ROADCAST_FRAME_COUNT 0, 0) = Some (addresses m strings (symbols_at m symbols 0 k), n)"
          "list_all (not_null m strings) (symbols_at m symbols 0 ?n)
            \<longrightarrow> addresses m strings (symbols_at m symbols 0 k) = addresses m strings (symbols_at m symbols 0 ?n)"
          using scan_symbols_run [OF tab symbols_okD(2) [OF s(2)], of "[]" 0] by auto
        show ?thesis
          by (rule found [OF _ refl _ strings k(1) s(3) load(2) k(3)])
            (use ident slice ok load fs s strings False k(2) in \<open>auto simp: resolve_mapped_def Let_def\<close>)
      qed
    qed
  qed
qed

lemma resolve_symbols_total: "\<exists>r. roadcast_vhal_resolve_symbols elf = Some r"
proof (cases elf)
  case (Some m)
  have "\<exists>r. resolve_mapped m = Some r"
    by (rule resolve_mapped_run [of m]) auto
  with Some show ?thesis by (simp add: roadcast_vhal_resolve_symbols_def)
qed (simp add: roadcast_vhal_resolve_symbols_def)

section \<open>Properties\<close>

text \<open>
  C30: No executable can lead the symbol resolver astray.  Whatever bytes the mapped file holds (truncated or
  overlapping tables, offsets and counts that overflow, names without an end), the resolver returns without
  reading outside the mapping.
\<close>

theorem resolve_symbols_memory_safe:
  "\<exists>r. roadcast_vhal_resolve_symbols elf = Some r"
  by (rule resolve_symbols_total)

text \<open>
  C31: What the resolver returns is what the executable says.  The load address and offset are those of the
  loadable segment with the lowest address.  Every address found is the value of a defined symbol of the symbol
  table with the name of the frame's buffer; and if no such symbol has the value zero, every frame gets the value
  of the first symbol with its name, and zero exactly when there is none.
\<close>

theorem resolve_symbols_correct:
  assumes "roadcast_vhal_resolve_symbols (Some m) = Some (Ok (values, load_vaddr, load_offset))"
  shows "\<exists>header symbols strings. header = ehdr_of (take SIZEOF_EHDR m) \<and> find_symbols m header = Some (Some symbols)
    \<and> section_at m header (unat (sh_link symbols)) = Some strings
    \<and> (\<exists>p \<in> set (segments m header). p_type p = PT_LOAD \<and> p_vaddr p = load_vaddr \<and> p_offset p = load_offset)
    \<and> (\<forall>p \<in> set (segments m header). p_type p = PT_LOAD \<longrightarrow> load_vaddr \<le> p_vaddr p)
    \<and> length values = ROADCAST_FRAME_COUNT
    \<and> (let table = symbols_at m symbols 0 (unat (sh_size symbols) div SIZEOF_SYM) in
        (\<forall>i < ROADCAST_FRAME_COUNT. values ! i \<noteq> 0 \<longrightarrow> (\<exists>s \<in> set table. symbol_names m strings s i \<and> st_value s = values ! i))
        \<and> (list_all (not_null m strings) table \<longrightarrow> (\<forall>i < ROADCAST_FRAME_COUNT. values ! i =
             (case find (\<lambda>s. symbol_names m strings s i) table of None \<Rightarrow> 0 | Some s \<Rightarrow> st_value s))))"
proof (rule resolve_mapped_run [of m])
  assume "resolve_mapped m = Some Fail"
  with assms show ?thesis by (auto simp: roadcast_vhal_resolve_symbols_def split: if_splits)
next
  fix header and symbols strings :: elf64_shdr and vaddr off k
  let ?n = "unat (sh_size symbols) div SIZEOF_SYM"
  let ?table = "symbols_at m symbols 0 ?n"
  assume run: "resolve_mapped m = Some (Ok (addresses m strings (symbols_at m symbols 0 k), vaddr, off))"
    and head: "header = ehdr_of (take SIZEOF_EHDR m)" "find_symbols m header = Some (Some symbols)"
      "section_at m header (unat (sh_link symbols)) = Some strings"
    and k: "k \<le> ?n"
    and load: "vaddr \<noteq> UINT64_MAX" "lowest_segment (segments m header) vaddr off"
    and all: "list_all (not_null m strings) ?table \<longrightarrow>
      addresses m strings (symbols_at m symbols 0 k) = addresses m strings ?table"
  have res: "values = addresses m strings (symbols_at m symbols 0 k)" "load_vaddr = vaddr" "load_offset = off"
    using assms run by (auto simp: roadcast_vhal_resolve_symbols_def split: if_splits)
  have sub: "set (symbols_at m symbols 0 k) \<subseteq> set ?table"
    using k by (auto simp: symbols_at_def)
  have found: "\<exists>s \<in> set ?table. symbol_names m strings s i \<and> st_value s = values ! i" if "i < 111" "values ! i \<noteq> 0" for i
    using resolved_from [of m strings "symbols_at m symbols 0 k" i] that sub by (auto simp: res)
  have exact: "values ! i = (case find (\<lambda>s. symbol_names m strings s i) ?table of None \<Rightarrow> 0 | Some s \<Rightarrow> st_value s)"
    if "list_all (not_null m strings) ?table" "i < 111" for i
  proof -
    have "find (\<lambda>s. st_value s \<noteq> 0 \<and> symbol_names m strings s i) ?table = find (\<lambda>s. symbol_names m strings s i) ?table"
      by (rule find_cong [OF refl]) (use that in \<open>auto simp: list_all_iff not_null_def\<close>)
    with that all show ?thesis by (simp add: res resolved_def)
  qed
  have "\<exists>p \<in> set (segments m header). p_type p = PT_LOAD \<and> p_vaddr p = load_vaddr \<and> p_offset p = load_offset"
    "\<forall>p \<in> set (segments m header). p_type p = PT_LOAD \<longrightarrow> load_vaddr \<le> p_vaddr p"
    using load by (simp_all add: lowest_segment_def res)
  moreover have "length values = 111" by (simp add: res)
  ultimately show ?thesis
    using head found exact unfolding Let_def
    by (intro exI [of _ header] exI [of _ symbols] exI [of _ strings] conjI allI impI) blast+
qed

text \<open>A small executable with one segment and one symbol.\<close>

definition example_elf :: bytes where
  "example_elf =
     [0x7F, 0x45, 0x4C, 0x46, 2, 1, 1] @ replicate 9 0 @ [3, 0, 183, 0, 1, 0, 0, 0] @ replicate 8 0
     @ [64, 0, 0, 0, 0, 0, 0, 0] @ [120, 0, 0, 0, 0, 0, 0, 0] @ replicate 4 0
     @ [64, 0, 56, 0, 1, 0, 64, 0, 2, 0, 0, 0]
     @ [1, 0, 0, 0, 5, 0, 0, 0] @ replicate 8 0 @ [0, 0, 64, 0, 0, 0, 0, 0] @ replicate 32 0
     @ [0, 0, 0, 0, 2, 0, 0, 0] @ replicate 16 0 @ [248, 0, 0, 0, 0, 0, 0, 0] @ [24, 0, 0, 0, 0, 0, 0, 0]
     @ [1, 0, 0, 0, 0, 0, 0, 0] @ replicate 8 0 @ [24, 0, 0, 0, 0, 0, 0, 0]
     @ [0, 0, 0, 0, 3, 0, 0, 0] @ replicate 16 0 @ [16, 1, 0, 0, 0, 0, 0, 0] @ [12, 0, 0, 0, 0, 0, 0, 0] @ replicate 24 0
     @ [1, 0, 0, 0, 17, 0, 1, 0] @ [0x34, 0x12, 64, 0, 0, 0, 0, 0] @ replicate 8 0
     @ [0] @ map of_char ''MMI_Rx_085'' @ [0]"

lemma le_nat_zeros [simp]: "le_nat (replicate n 0) = 0"
  by (induction n) simp_all

lemma example_elf_parts:
  "length example_elf = 284"
  "elf_ident_ok example_elf = Some True"
  "ehdr_of (take 64 example_elf) = \<lparr>e_version = 1, e_phoff = 64, e_shoff = 120, e_ehsize = 64, e_phentsize = 56,
     e_phnum = 1, e_shentsize = 64, e_shnum = 2\<rparr>"
  "phdr_of (take 56 (drop 64 example_elf)) = \<lparr>p_type = 1, p_offset = 0, p_vaddr = 0x400000\<rparr>"
  "shdr_of (take 64 (drop 120 example_elf)) = \<lparr>sh_type = 2, sh_offset = 248, sh_size = 24, sh_link = 1, sh_entsize = 24\<rparr>"
  "shdr_of (take 64 (drop 184 example_elf)) = \<lparr>sh_type = 3, sh_offset = 272, sh_size = 12, sh_link = 0, sh_entsize = 0\<rparr>"
  "sym_of (take 24 (drop 248 example_elf)) = \<lparr>st_name = 1, st_shndx = 1, st_value = 0x401234\<rparr>"
  "drop 273 example_elf = map of_char ''MMI_Rx_085'' @ [0]"
  by (simp_all add: example_elf_def elf_ident_ok_def slice_def rd_def ehdr_of_def phdr_of_def shdr_of_def sym_of_def le_field_def)

lemma example_elf_symbol: "has_nul example_elf 273 11 = Some True"
  "str_eq example_elf 273 (expected_name 0x085) = Some True"
proof -
  have "string_at example_elf 273 = map of_char ''MMI_Rx_085''"
    by (simp add: string_at_def example_elf_parts)
  moreover have "expected_name 0x085 = map of_char ''MMI_Rx_085''"
    by (simp add: expected_name_short hex_digit_def)
  ultimately show "str_eq example_elf 273 (expected_name 0x085) = Some True"
    by (subst str_eq_eq) (auto simp: example_elf_parts expected_name_nonzero)
qed (simp add: has_nul_eq example_elf_parts)

lemma example_elf_resolves:
  "roadcast_vhal_resolve_symbols (Some example_elf) = Some (Ok (0x401234 # replicate 110 0, 0x400000, 0))"
proof -
  have id: "ROADCAST_CAN_IDS ! 0 = 0x085" by (simp add: ROADCAST_CAN_IDS_def)
  have claim: "claim_symbol example_elf 273 0x401234 0 111 (replicate 111 0, 0) = Some (0x401234 # replicate 110 0, 1)"
  proof -
    have "claim_symbol example_elf 273 0x401234 0 (Suc 110) (replicate 111 0, 0) = Some (0x401234 # replicate 110 0, 1)"
      unfolding claim_symbol.simps by (simp add: id rd_def example_elf_symbol poke_def)
    then show ?thesis by simp
  qed
  have visit: "visit_symbol example_elf \<lparr>sh_type = 3, sh_offset = 272, sh_size = 12, sh_link = 0, sh_entsize = 0\<rparr>
      \<lparr>st_name = 1, st_shndx = 1, st_value = 0x401234\<rparr> (replicate 111 0, 0) = Some (0x401234 # replicate 110 0, 1)"
    by (simp add: visit_symbol_def example_elf_symbol claim)
  let ?h = "\<lparr>e_version = 1, e_phoff = 64, e_shoff = 120, e_ehsize = 64, e_phentsize = 56, e_phnum = 1, e_shentsize = 64, e_shnum = 2\<rparr>"
  let ?symbols = "\<lparr>sh_type = 2, sh_offset = 248, sh_size = 24, sh_link = 1, sh_entsize = 24\<rparr>"
  let ?strings = "\<lparr>sh_type = 3, sh_offset = 272, sh_size = 12, sh_link = 0, sh_entsize = 0\<rparr>"
  have parts: "header_ok 284 ?h" "symbols_ok 284 ?h ?symbols" "checked_table 284 272 12 1"
    by (simp_all add: header_ok_def checked_table_def symbols_ok_def)
  have load: "lowest_load example_elf ?h = Some (0x400000, 0)"
    by (simp add: lowest_load_def slice_Some example_elf_parts)
  have sections: "section_at example_elf ?h 0 = Some ?symbols" "section_at example_elf ?h 1 = Some ?strings"
    by (simp_all add: section_at_def slice_Some example_elf_parts)
  have "find_section example_elf ?h SHT_SYMTAB 0 (Suc (Suc 0)) = Some (Some ?symbols)"
    by (simp add: sections)
  then have symbols: "find_symbols example_elf ?h = Some (Some ?symbols)"
    by (simp add: find_symbols_def numeral_2_eq_2 [symmetric])
  have scan: "scan_symbols example_elf ?symbols ?strings 0 1 (replicate 111 0, 0) = Some (0x401234 # replicate 110 0, 1)"
    by (simp add: slice_Some example_elf_parts visit)
  have "resolve_mapped example_elf = Some (Ok (0x401234 # replicate 110 0, 0x400000, 0))"
    by (simp add: resolve_mapped_def slice_Some example_elf_parts parts load symbols sections scan del: One_nat_def)
  moreover have "example_elf \<noteq> []" using example_elf_parts(1) by auto
  ultimately show ?thesis by (simp add: roadcast_vhal_resolve_symbols_def)
qed

theorem resolve_symbols_correct_witness:
  "\<exists>header. header = ehdr_of (take 64 example_elf)
    \<and> (\<exists>p \<in> set (segments example_elf header). p_type p = PT_LOAD \<and> p_vaddr p = 0x400000 \<and> p_offset p = 0)"
  using resolve_symbols_correct [OF example_elf_resolves] by blast

end
