(* ===== verification/Vhal_Source.thy ===== *)
theory Vhal_Source
  imports Posix Vhal_Elf Wire Batches
begin

text \<open>
  The vehicle HAL source, the rest of \<^verbatim>\<open>src/vhal_source.c\<close>: finding the process, reading its start time and
  memory map, opening the source, reading one sample of all frames, and closing it.

  The operating system is the parameter \<open>os\<close>.  Each answer is indexed by the number of calls made so far, so
  that every behaviour of the system is some \<open>os\<close>.  A call that transfers data answers with its result, the
  error number and the bytes.  Calls that are interrupted are repeated; a system that interrupts for ever is a
  loop that does not return, \<^const>\<open>None\<close>, as is undefined behaviour.
\<close>

type_synonym transfer = "int \<times> int \<times> bytes"

record os =
  os_proc :: "nat \<Rightarrow> (bytes \<times> bytes option) list option"
  os_open :: "nat \<Rightarrow> int"
  os_pread :: "nat \<Rightarrow> int \<Rightarrow> nat \<Rightarrow> u64 \<Rightarrow> transfer"
  os_readlink :: "nat \<Rightarrow> bytes option"
  os_file :: "nat \<Rightarrow> bytes option"
  os_maps :: "nat \<Rightarrow> bytes list option"
  os_calloc :: "nat \<Rightarrow> bool"
  os_clock :: "nat \<Rightarrow> u64"
  os_vm_readv :: "nat \<Rightarrow> int \<Rightarrow> u64 list \<Rightarrow> transfer"

text \<open>
  The source.  An entry of \<^verbatim>\<open>local_iov\<close> points to the data of a frame and is that frame's index; an entry of
  \<^verbatim>\<open>remote_iov\<close> is an address; both arrays are absent until they are allocated.
\<close>

record roadcast_vhal_source =
  v_pid :: int
  v_mem_fd :: int
  v_identity_fd :: int
  v_start_time_ticks :: u64
  v_vm_readv_retry_ns :: u64
  v_addresses :: "u64 list"
  v_local_iov :: "nat list option"
  v_remote_iov :: "u64 list option"
  v_resolved_count :: nat

definition closed_source :: roadcast_vhal_source where
  "closed_source = \<lparr>v_pid = 0, v_mem_fd = - 1, v_identity_fd = - 1, v_start_time_ticks = 0, v_vm_readv_retry_ns = 0,
     v_addresses = replicate ROADCAST_FRAME_COUNT 0, v_local_iov = None, v_remote_iov = None, v_resolved_count = 0\<rparr>"

definition roadcast_vhal_close :: "roadcast_vhal_source \<Rightarrow> roadcast_vhal_source" where
  "roadcast_vhal_close source = closed_source"

section \<open>Text\<close>

text \<open>\<^verbatim>\<open>strstr\<close>: the needle occurs in the haystack.\<close>

fun strstr :: "bytes \<Rightarrow> bytes \<Rightarrow> bool" where
  "strstr [] needle = (needle = [])"
| "strstr (b # bs) needle = (take (length needle) (b # bs) = needle \<or> strstr bs needle)"

definition is_digit :: "u8 \<Rightarrow> bool" where
  "is_digit b \<longleftrightarrow> 48 \<le> b \<and> b \<le> 57"

definition is_space :: "u8 \<Rightarrow> bool" where
  "is_space b \<longleftrightarrow> b = 32 \<or> 9 \<le> b \<and> b \<le> 13"

definition dec_value :: "bytes \<Rightarrow> nat" where
  "dec_value ds = foldl (\<lambda>n d. 10 * n + (unat d - 48)) 0 ds"

text \<open>\<^verbatim>\<open>atoi\<close> of a name that starts with a digit; the kernel's process numbers fit an int.\<close>

definition atoi :: "bytes \<Rightarrow> int" where
  "atoi bs = int (dec_value (takeWhile is_digit bs))"

text \<open>
  \<^verbatim>\<open>strtoull\<close> in base 10: leading white space and a sign, then digits.  The result is the value, the error flag
  and what follows the digits; without digits nothing is consumed.
\<close>

definition strtoull :: "bytes \<Rightarrow> u64 \<times> bool \<times> bytes" where
  "strtoull bs = (let
     t = dropWhile is_space bs;
     neg = (t \<noteq> [] \<and> hd t = 45);
     t = (if t \<noteq> [] \<and> (hd t = 45 \<or> hd t = 43) then tl t else t);
     n = dec_value (takeWhile is_digit t)
   in if takeWhile is_digit t = [] then (0, False, bs)
      else if n > 18446744073709551615 then (UINT64_MAX, True, dropWhile is_digit t)
      else (if neg then - of_nat n else of_nat n, False, dropWhile is_digit t))"

section \<open>Finding the process\<close>

text \<open>
  One entry of \<^verbatim>\<open>/proc\<close>: its name, and the first bytes of its command line if the file could be opened and read.
  The result is -1 when no command line names the process.
\<close>

fun find_entry :: "bytes \<Rightarrow> (bytes \<times> bytes option) list \<Rightarrow> int" where
  "find_entry needle [] = - 1"
| "find_entry needle ((name, cmdline) # entries) =
    (if name = [] \<or> \<not> is_digit (hd name) then find_entry needle entries
     else case cmdline of
       None \<Rightarrow> find_entry needle entries
     | Some command \<Rightarrow>
         if command = [] then find_entry needle entries
         else if strstr (c_string (take 4095 command)) needle then atoi name
         else find_entry needle entries)"

definition find_pid :: "os \<Rightarrow> bytes \<Rightarrow> nat \<Rightarrow> int \<times> nat" where
  "find_pid os needle n = (case os_proc os n of None \<Rightarrow> (- 1, Suc n) | Some entries \<Rightarrow> (find_entry needle entries, Suc n))"

definition read_executable_path :: "os \<Rightarrow> nat \<Rightarrow> bytes option \<times> nat" where
  "read_executable_path os n = (map_option (\<lambda>path. c_string (take 4095 path)) (os_readlink os n), Suc n)"

section \<open>The memory map\<close>

definition hex_value :: "u8 \<Rightarrow> nat option" where
  "hex_value b = (if is_digit b then Some (unat b - 48)
     else if 97 \<le> b \<and> b \<le> 102 then Some (unat b - 87)
     else if 65 \<le> b \<and> b \<le> 70 then Some (unat b - 55) else None)"

definition is_hex :: "u8 \<Rightarrow> bool" where
  "is_hex b \<longleftrightarrow> hex_value b \<noteq> None"

text \<open>
  \<^verbatim>\<open>%x\<close> of \<^verbatim>\<open>sscanf\<close>: white space, then hexadecimal digits.  The kernel writes its numbers without a sign or
  prefix and within 64 bits, and only these are treated here.
\<close>

definition scan_hex :: "bytes \<Rightarrow> (u64 \<times> bytes) option" where
  "scan_hex bs = (let t = dropWhile is_space bs; ds = takeWhile is_hex t in
     if ds = [] then None
     else Some (foldl (\<lambda>n d. 16 * n + of_nat (the (hex_value d))) 0 ds, dropWhile is_hex t))"

text \<open>\<^verbatim>\<open>%s\<close>, with a maximal length: white space, then what is not white space.\<close>

definition scan_word :: "nat \<Rightarrow> bytes \<Rightarrow> (bytes \<times> bytes) option" where
  "scan_word width bs = (let t = dropWhile is_space bs; w = takeWhile (\<lambda>b. \<not> is_space b) (take width t) in
     if w = [] then None else Some (w, drop (length w) t))"

definition scan_char :: "u8 \<Rightarrow> bytes \<Rightarrow> bytes option" where
  "scan_char c bs = (if bs \<noteq> [] \<and> hd bs = c then Some (tl bs) else None)"

text \<open>
  The \<^verbatim>\<open>sscanf\<close> of one line: the start and the offset if at least four conversions succeeded, and the rest of
  the line from \<^verbatim>\<open>path_offset\<close> on, which stays 0 when the last two words are missing.
\<close>

definition scan_mapping :: "bytes \<Rightarrow> (u64 \<times> u64 \<times> bytes) option" where
  "scan_mapping line = do {
     (start, t) \<leftarrow> scan_hex line;
     t \<leftarrow> scan_char 45 t;
     (end_address, t) \<leftarrow> scan_hex t;
     (permissions, t) \<leftarrow> scan_word 7 t;
     (offset, t) \<leftarrow> scan_hex t;
     Some (start, offset, case do {
         (device, t) \<leftarrow> scan_word (length t) t;
         (inode, t) \<leftarrow> scan_word (length t) t;
         Some (dropWhile is_space t) } of None \<Rightarrow> line | Some rest \<Rightarrow> rest) }"

definition mapped_path :: "bytes \<Rightarrow> bytes" where
  "mapped_path rest = takeWhile (\<lambda>b. b \<noteq> 10) (dropWhile (\<lambda>b. b = 32) rest)"

fun find_mapping :: "bytes \<Rightarrow> u64 \<Rightarrow> bytes list \<Rightarrow> u64 option" where
  "find_mapping executable wanted_offset [] = None"
| "find_mapping executable wanted_offset (line # ls) = (case scan_mapping (c_string line) of
     None \<Rightarrow> find_mapping executable wanted_offset ls
   | Some (start, offset, rest) \<Rightarrow>
       if offset = wanted_offset \<and> mapped_path rest = executable then Some start
       else find_mapping executable wanted_offset ls)"

definition find_mapping_base :: "os \<Rightarrow> bytes \<Rightarrow> u64 \<Rightarrow> nat \<Rightarrow> u64 option \<times> nat" where
  "find_mapping_base os executable wanted_offset n = (case os_maps os n of
     None \<Rightarrow> (None, Suc n)
   | Some ls \<Rightarrow> (find_mapping executable wanted_offset ls, Suc n))"

section \<open>The identity of the process\<close>

text \<open>\<^verbatim>\<open>do count = call(); while (count < 0 && errno == EINTR);\<close>\<close>

partial_function (option) retry :: "(nat \<Rightarrow> transfer) \<Rightarrow> nat \<Rightarrow> (transfer \<times> nat) option" where
  "retry call n = (if fst (call n) < 0 \<and> fst (snd (call n)) = EINTR then retry call (Suc n)
     else Some (call n, Suc n))"

text \<open>\<^verbatim>\<open>strrchr\<close>: what follows the last occurrence of a byte.\<close>

definition after_last :: "u8 \<Rightarrow> bytes \<Rightarrow> bytes option" where
  "after_last b bs = (if b \<in> set bs then Some (rev (takeWhile (\<lambda>x. x \<noteq> b) (rev bs))) else None)"

fun skip_fields :: "nat \<Rightarrow> bytes \<Rightarrow> bytes option" where
  "skip_fields 0 t = Some t"
| "skip_fields (Suc n) t = (let t = dropWhile (\<lambda>b. b = 32) t in
     if t = [] then None else skip_fields n (dropWhile (\<lambda>b. b \<noteq> 32) t))"

definition parse_start_time :: "bytes \<Rightarrow> u64 option" where
  "parse_start_time stat_text = do {
     cursor \<leftarrow> after_last 41 stat_text;
     cursor \<leftarrow> skip_fields (22 - 3) cursor;
     let cursor = dropWhile (\<lambda>b. b = 32) cursor;
     let (value, range, rest) = strtoull cursor;
     if range \<or> rest = cursor \<or> rest = [] \<or> (hd rest \<noteq> 32 \<and> hd rest \<noteq> 10) then None
     else Some value }"

definition read_start_time :: "os \<Rightarrow> int \<Rightarrow> nat \<Rightarrow> (u64 option \<times> nat) option" where
  "read_start_time os fd n = do {
     ((len, errno, stat_text), n) \<leftarrow> retry (\<lambda>n. os_pread os n fd 2047 0) n;
     if len \<le> 0 then Some (None, n)
     else Some (parse_start_time (c_string stat_text), n) }"

definition verify_identity :: "os \<Rightarrow> roadcast_vhal_source \<Rightarrow> nat \<Rightarrow> (bool \<times> nat) option" where
  "verify_identity os source n =
    (if v_identity_fd source < 0 then Some (False, n)
     else do {
       (start_time, n) \<leftarrow> read_start_time os (v_identity_fd source) n;
       Some (start_time = Some (v_start_time_ticks source), n) })"

section \<open>Opening\<close>

text \<open>The loop that turns symbol values into addresses in the process; the state is the source.\<close>

definition add_address :: "u64 list \<Rightarrow> u64 \<Rightarrow> nat \<Rightarrow> roadcast_vhal_source \<Rightarrow> roadcast_vhal_source option" where
  "add_address symbol_values bias i source = do {
     v \<leftarrow> rd symbol_values i;
     if v = 0 then Some source
     else do {
       addresses \<leftarrow> poke i [bias + v] (v_addresses source);
       remote \<leftarrow> v_remote_iov source;
       remote \<leftarrow> poke (v_resolved_count source) [bias + v] remote;
       Some (source\<lparr>v_addresses := addresses, v_remote_iov := Some remote,
         v_resolved_count := v_resolved_count source + 1\<rparr>) } }"

definition locate :: "os \<Rightarrow> bytes \<Rightarrow> u64 \<Rightarrow> nat \<Rightarrow> u64 option \<times> nat" where
  "locate os executable load_offset n =
    (case find_mapping_base os executable load_offset n of
       (Some base, n) \<Rightarrow> (Some base, n)
     | (None, n) \<Rightarrow> find_mapping_base os executable 0 n)"

text \<open>
  The part after the process has been found, with its executable and start time known.  \<open>Fail\<close> is the jump to
  \<^verbatim>\<open>fail\<close>.
\<close>

definition attach :: "os \<Rightarrow> bytes \<Rightarrow> roadcast_vhal_source \<Rightarrow> nat \<Rightarrow> (roadcast_vhal_source ret \<times> nat) option" where
  "attach os executable source n = do {
     symbols \<leftarrow> roadcast_vhal_resolve_symbols (os_file os n);
     let n = Suc n;
     case symbols of
       Fail \<Rightarrow> Some (Fail, n)
     | Ok (symbol_values, load_vaddr, load_offset) \<Rightarrow>
         (case locate os executable load_offset n of
            (None, n) \<Rightarrow> Some (Fail, n)
          | (Some map_base, n) \<Rightarrow>
              if \<not> os_calloc os n \<or> \<not> os_calloc os (Suc n) then Some (Fail, Suc (Suc n))
              else do {
                let n = Suc (Suc n);
                let source = source\<lparr>v_local_iov := Some (replicate ROADCAST_FRAME_COUNT 0),
                  v_remote_iov := Some (replicate ROADCAST_FRAME_COUNT 0)\<rparr>;
                source \<leftarrow> for_loop 0 ROADCAST_FRAME_COUNT (add_address symbol_values (map_base - load_vaddr)) source;
                if v_resolved_count source = 0 then Some (Fail, n)
                else do {
                  let source = source\<lparr>v_mem_fd := os_open os n\<rparr>;
                  (same, n) \<leftarrow> verify_identity os source (Suc n);
                  Some (if same then Ok source else Fail, n) } }) }"

definition identify :: "os \<Rightarrow> roadcast_vhal_source \<Rightarrow> nat \<Rightarrow> (roadcast_vhal_source ret \<times> nat) option" where
  "identify os source n = do {
     let source = source\<lparr>v_identity_fd := os_open os n\<rparr>;
     let n = Suc n;
     if v_identity_fd source < 0 then Some (Fail, n)
     else do {
       (start_time, n) \<leftarrow> read_start_time os (v_identity_fd source) n;
       case start_time of
         None \<Rightarrow> Some (Fail, n)
       | Some t \<Rightarrow> Some (Ok (source\<lparr>v_start_time_ticks := t\<rparr>), n) } }"

definition roadcast_vhal_open :: "os \<Rightarrow> bytes \<Rightarrow> nat \<Rightarrow> (bool \<times> roadcast_vhal_source \<times> nat) option" where
  "roadcast_vhal_open os process_name n = do {
     let (pid, n) = find_pid os process_name n;
     let source = closed_source\<lparr>v_pid := pid\<rparr>;
     if pid < 0 then Some (False, source, n)
     else do {
       (identified, n) \<leftarrow> identify os source n;
       case identified of
         Fail \<Rightarrow> Some (False, roadcast_vhal_close source, n)
       | Ok source \<Rightarrow>
           (case read_executable_path os n of
              (None, n) \<Rightarrow> Some (False, roadcast_vhal_close source, n)
            | (Some executable, n) \<Rightarrow> do {
                (attached, n) \<leftarrow> attach os executable source n;
                case attached of
                  Fail \<Rightarrow> Some (False, roadcast_vhal_close source, n)
                | Ok source \<Rightarrow> Some (True, source, n) }) } }"

section \<open>Reading\<close>

definition unavailable :: "roadcast_frame list \<Rightarrow> roadcast_frame list option" where
  "unavailable frames = for_loop 0 ROADCAST_FRAME_COUNT (\<lambda>i frames. do {
     f \<leftarrow> rd frames i;
     can_id \<leftarrow> rd ROADCAST_CAN_IDS i;
     poke i [f\<lparr>f_can_id := can_id, f_state := ROADCAST_OBSERVATION_UNAVAILABLE, f_data := replicate 8 0\<rparr>] frames }) frames"

text \<open>The first loop of \<^verbatim>\<open>roadcast_vhal_read\<close>; the state is the frames, the local vectors and their number.\<close>

definition prepare_frame ::
    "roadcast_vhal_source \<Rightarrow> nat \<Rightarrow> roadcast_frame list \<times> nat list option \<times> nat
      \<Rightarrow> (roadcast_frame list \<times> nat list option \<times> nat) option" where
  "prepare_frame source i = (\<lambda>(frames, local_iov, resolved). do {
     f \<leftarrow> rd frames i;
     can_id \<leftarrow> rd ROADCAST_CAN_IDS i;
     address \<leftarrow> rd (v_addresses source) i;
     let f = f\<lparr>f_can_id := can_id, f_state := (if address \<noteq> 0 then ROADCAST_OBSERVATION_NEVER_OBSERVED
       else ROADCAST_OBSERVATION_UNAVAILABLE)\<rparr>;
     if address = 0 then do {
       frames \<leftarrow> poke i [f\<lparr>f_data := replicate 8 0\<rparr>] frames;
       Some (frames, local_iov, resolved) }
     else do {
       frames \<leftarrow> poke i [f] frames;
       iov \<leftarrow> local_iov;
       iov \<leftarrow> poke resolved [i] iov;
       Some (frames, Some iov, resolved + 1) } })"

text \<open>What \<^verbatim>\<open>process_vm_readv\<close> transferred is spread over the local vectors of eight bytes.\<close>

definition scatter :: "nat list \<Rightarrow> bytes \<Rightarrow> roadcast_frame list \<Rightarrow> roadcast_frame list option" where
  "scatter iov data frames = for_loop 0 (length iov) (\<lambda>k frames. do {
     i \<leftarrow> rd iov k;
     f \<leftarrow> rd frames i;
     let chunk = take 8 (drop (8 * k) data);
     poke i [f\<lparr>f_data := chunk @ drop (length chunk) (f_data f)\<rparr>] frames }) frames"

text \<open>
  Eight bytes of memory through the file, or the error number; EIO is 5.  The check that the file is open repeats
  the caller's, which has just made it, and is left out.
\<close>

definition read_one :: "os \<Rightarrow> roadcast_vhal_source \<Rightarrow> u64 \<Rightarrow> nat \<Rightarrow> ((int + bytes) \<times> nat) option" where
  "read_one os source address n = do {
     ((count, errno, data), n) \<leftarrow> retry (\<lambda>n. os_pread os n (v_mem_fd source) 8 address) n;
     Some (if count = 8 then Inr data else Inl (if count \<ge> 0 then 5 else errno), n) }"

definition fallback_frame ::
    "os \<Rightarrow> roadcast_vhal_source \<Rightarrow> nat \<Rightarrow> roadcast_frame list \<times> int \<times> nat \<Rightarrow> (roadcast_frame list \<times> int \<times> nat) option" where
  "fallback_frame os source i = (\<lambda>(frames, failure_errno, n). do {
     address \<leftarrow> rd (v_addresses source) i;
     if address = 0 then Some (frames, failure_errno, n)
     else do {
       f \<leftarrow> rd frames i;
       (r, n) \<leftarrow> read_one os source address n;
       case r of
         Inr data \<Rightarrow> do {
           frames \<leftarrow> poke i [f\<lparr>f_data := data\<rparr>] frames;
           Some (frames, failure_errno, n) }
       | Inl errno \<Rightarrow> do {
           frames \<leftarrow> poke i [f\<lparr>f_data := replicate 8 0, f_state := ROADCAST_OBSERVATION_UNAVAILABLE\<rparr>] frames;
           Some (frames, if failure_errno = 0 then errno else failure_errno, n) } } })"

text \<open>The results are 0 and 1 for a sample, 1 when it was read through the file, and -1.\<close>

definition give_up :: "roadcast_vhal_source \<Rightarrow> roadcast_frame list \<Rightarrow> nat
    \<Rightarrow> (int \<times> roadcast_frame list \<times> roadcast_vhal_source \<times> nat) option" where
  "give_up source frames n = do { frames \<leftarrow> unavailable frames; Some (- 1, frames, source, n) }"

definition fallback_read :: "os \<Rightarrow> roadcast_vhal_source \<Rightarrow> roadcast_frame list \<Rightarrow> nat
    \<Rightarrow> (int \<times> roadcast_frame list \<times> roadcast_vhal_source \<times> nat) option" where
  "fallback_read os source frames n = do {
     let (source, n) = (if v_mem_fd source < 0 then (source\<lparr>v_mem_fd := os_open os n\<rparr>, Suc n) else (source, n));
     if v_mem_fd source < 0 then give_up source frames n
     else do {
       (frames, failure_errno, n) \<leftarrow> for_loop 0 ROADCAST_FRAME_COUNT (fallback_frame os source) (frames, 0, n);
       (same, n) \<leftarrow> verify_identity os source n;
       if \<not> same then give_up source frames n
       else if failure_errno \<noteq> 0 then Some (- 1, frames, source, n)
       else Some (1, frames, source, n) } }"

definition roadcast_vhal_read :: "os \<Rightarrow> roadcast_vhal_source \<Rightarrow> roadcast_frame list \<Rightarrow> nat
    \<Rightarrow> (int \<times> roadcast_frame list \<times> roadcast_vhal_source \<times> nat) option" where
  "roadcast_vhal_read os source frames n = do {
     (frames, local_iov, resolved) \<leftarrow> for_loop 0 ROADCAST_FRAME_COUNT (prepare_frame source) (frames, v_local_iov source, 0);
     let source = source\<lparr>v_local_iov := local_iov\<rparr>;
     let now_ns = os_clock os n;
     let n = Suc n;
     if now_ns < v_vm_readv_retry_ns source then fallback_read os source frames n
     else do {
       local_iov \<leftarrow> local_iov;
       iov \<leftarrow> slice local_iov 0 resolved;
       remote_iov \<leftarrow> v_remote_iov source;
       remote \<leftarrow> slice remote_iov 0 resolved;
       ((count, errno, data), n) \<leftarrow> retry (\<lambda>n. os_vm_readv os n (v_pid source) remote) n;
       frames \<leftarrow> scatter iov data frames;
       if count = int (resolved * 8) then do {
         (same, n) \<leftarrow> verify_identity os source n;
         if same then Some (0, frames, source, n) else give_up source frames n }
       else if count < 0 \<and> errno = ESRCH then give_up source frames n
       else do {
         let source = (if count < 0 \<and> errno = ENOSYS then source\<lparr>v_vm_readv_retry_ns := UINT64_MAX\<rparr>
           else if count < 0 \<and> (errno = EPERM \<or> errno = EACCES)
           then source\<lparr>v_vm_readv_retry_ns := now_ns + 30000000000\<rparr> else source);
         fallback_read os source frames n } } }"

section \<open>What the system guarantees\<close>

definition interrupted :: "transfer \<Rightarrow> bool" where
  "interrupted r \<longleftrightarrow> fst r < 0 \<and> fst (snd r) = EINTR"

definition transfer_ok :: "nat \<Rightarrow> transfer \<Rightarrow> bool" where
  "transfer_ok len r = (case r of (count, errno, data) \<Rightarrow>
     (0 \<le> count \<longrightarrow> int (length data) = count \<and> length data \<le> len) \<and> (count < 0 \<longrightarrow> data = [] \<and> errno \<noteq> 0))"

text \<open>A call transfers at most what was asked for, a failed call sets \<^verbatim>\<open>errno\<close>, and no call is interrupted for ever.\<close>

definition os_ok :: "os \<Rightarrow> bool" where
  "os_ok os \<longleftrightarrow> (\<forall>n fd len off. transfer_ok len (os_pread os n fd len off))
     \<and> (\<forall>n pid as. transfer_ok (8 * length as) (os_vm_readv os n pid as))
     \<and> (\<forall>n fd len off. \<exists>k. \<not> interrupted (os_pread os (n + k) fd len off))
     \<and> (\<forall>n pid as. \<exists>k. \<not> interrupted (os_vm_readv os (n + k) pid as))"

lemma retry_run:
  assumes "\<not> interrupted (call (n + k))"
  obtains m where "retry call n = Some (call m, Suc m)" and "n \<le> m" and "\<not> interrupted (call m)"
  using assms
proof (induction k arbitrary: n thesis)
  case 0
  then have "retry call n = Some (call n, Suc n)"
    by (subst retry.simps) (auto simp: interrupted_def)
  with 0 show ?case by auto
next
  case (Suc k)
  show ?case
  proof (cases "interrupted (call n)")
    case True
    then have step: "retry call n = retry call (Suc n)"
      by (subst retry.simps) (simp add: interrupted_def)
    obtain m where "retry call (Suc n) = Some (call m, Suc m)" "Suc n \<le> m" "\<not> interrupted (call m)"
      using Suc.IH [of "Suc n"] Suc.prems(2) by auto
    with step show ?thesis by (intro Suc.prems(1) [of m]) auto
  next
    case False
    then have "retry call n = Some (call n, Suc n)"
      by (subst retry.simps) (auto simp: interrupted_def)
    with False show ?thesis by (intro Suc.prems(1) [of n]) auto
  qed
qed

lemma read_start_time_run:
  assumes "os_ok os"
  obtains t m where "read_start_time os fd n = Some (t, m)" and "n < m"
proof -
  obtain k where "\<not> interrupted (os_pread os (n + k) fd 2047 0)"
    using assms unfolding os_ok_def by blast
  then obtain m where "retry (\<lambda>n. os_pread os n fd 2047 0) n = Some (os_pread os m fd 2047 0, Suc m)" "n \<le> m"
    by (rule retry_run)
  moreover obtain count errno data where "os_pread os m fd 2047 0 = (count, errno, data)"
    by (cases "os_pread os m fd 2047 0")
  ultimately show thesis
    by (intro that [of "if count \<le> 0 then None else parse_start_time (c_string data)" "Suc m"])
      (simp_all add: read_start_time_def)
qed

lemma verify_identity_run:
  assumes "os_ok os"
  obtains same m where "verify_identity os source n = Some (same, m)" and "n \<le> m"
proof (cases "v_identity_fd source < 0")
  case False
  obtain t m where "read_start_time os (v_identity_fd source) n = Some (t, m)" "n < m"
    by (rule read_start_time_run [OF assms])
  with False show ?thesis by (intro that) (auto simp: verify_identity_def)
qed (auto simp: verify_identity_def intro: that)

section \<open>An open source\<close>

definition live :: "roadcast_vhal_source \<Rightarrow> nat list" where
  "live source = filter (\<lambda>i. v_addresses source ! i \<noteq> 0) [0..<ROADCAST_FRAME_COUNT]"

text \<open>The remote vectors hold the addresses of the resolved frames, in their order.\<close>

definition source_ok :: "roadcast_vhal_source \<Rightarrow> bool" where
  "source_ok source \<longleftrightarrow> length (v_addresses source) = ROADCAST_FRAME_COUNT
     \<and> (\<exists>iov. v_local_iov source = Some iov \<and> length iov = ROADCAST_FRAME_COUNT)
     \<and> (\<exists>remote. v_remote_iov source = Some remote \<and> length remote = ROADCAST_FRAME_COUNT
          \<and> take (length (live source)) remote = map ((!) (v_addresses source)) (live source))"

definition data_wf :: "roadcast_frame list \<Rightarrow> bool" where
  "data_wf frames \<longleftrightarrow> length frames = ROADCAST_FRAME_COUNT \<and> (\<forall>f \<in> set frames. length (f_data f) = 8)"

lemma data_wf_nth: "data_wf frames \<longleftrightarrow> length frames = 111 \<and> (\<forall>i < 111. length (f_data (frames ! i)) = 8)"
  by (auto simp: data_wf_def all_set_conv_all_nth)

definition prepared :: "roadcast_vhal_source \<Rightarrow> roadcast_frame list \<Rightarrow> nat \<Rightarrow> roadcast_frame" where
  "prepared source frames i = (let f = (frames ! i)\<lparr>f_can_id := ROADCAST_CAN_IDS ! i\<rparr> in
     if v_addresses source ! i = 0
     then f\<lparr>f_state := ROADCAST_OBSERVATION_UNAVAILABLE, f_data := replicate 8 0\<rparr>
     else f\<lparr>f_state := ROADCAST_OBSERVATION_NEVER_OBSERVED\<rparr>)"

lemma length_filter_upt: "length (filter P [0..<n]) \<le> n"
  using length_filter_le [of P "[0..<n]"] by simp

lemma prepare_run:
  assumes "source_ok source" and "length frames = ROADCAST_FRAME_COUNT"
  obtains iov where "for_loop 0 ROADCAST_FRAME_COUNT (prepare_frame source) (frames, v_local_iov source, 0)
      = Some (map (prepared source frames) [0..<ROADCAST_FRAME_COUNT], Some iov, length (live source))"
    and "length iov = ROADCAST_FRAME_COUNT" and "take (length (live source)) iov = live source"
proof -
  obtain iov0 where iov0: "v_local_iov source = Some iov0" "length iov0 = 111" and a: "length (v_addresses source) = 111"
    using assms(1) by (auto simp: source_ok_def)
  let ?live = "\<lambda>k. filter (\<lambda>i. v_addresses source ! i \<noteq> 0) [0..<k]"
  let ?I = "\<lambda>k (fs, iov, r). length fs = 111 \<and> (\<forall>j < 111. fs ! j = (if j < k then prepared source frames j else frames ! j))
    \<and> (\<exists>l. iov = Some l \<and> length l = 111 \<and> take r l = ?live k) \<and> r = length (?live k)"
  have "\<exists>st. for_loop 0 111 (prepare_frame source) (frames, v_local_iov source, 0) = Some st \<and> ?I (0 + 111) st"
  proof (rule for_loop_invariant)
    show "?I 0 (frames, v_local_iov source, 0)" using assms(2) iov0 by simp
  next
    fix k st assume k: "k < 0 + 111" and I: "?I k st"
    obtain fs l r where st: "st = (fs, Some l, r)" using I by (cases st) auto
    then have fs: "length fs = 111" "\<And>j. j < 111 \<Longrightarrow> fs ! j = (if j < k then prepared source frames j else frames ! j)"
      and l: "length l = 111" "take r l = ?live k" "r = length (?live k)"
      using I by auto
    have r: "r < 111" using le_less_trans [OF length_filter_upt [of "\<lambda>i. v_addresses source ! i \<noteq> 0" k]] k by (simp add: l(3))
    have upd: "(fs[k := prepared source frames k]) ! j = (if j < Suc k then prepared source frames j else frames ! j)"
      if "j < 111" for j
      using that fs k by (auto simp: nth_list_update less_Suc_eq)
    show "\<exists>st'. prepare_frame source k st = Some st' \<and> ?I (Suc k) st'"
    proof (cases "v_addresses source ! k = 0")
      case True
      then have "prepare_frame source k st = Some (fs[k := prepared source frames k], Some l, r)"
        using k fs a by (simp add: prepare_frame_def st rd_Some prepared_def Let_def)
      with True upd fs l show ?thesis by auto
    next
      case False
      then have "prepare_frame source k st = Some (fs[k := prepared source frames k], Some (l[r := k]), r + 1)"
        using k fs a r l(1) by (simp add: prepare_frame_def st rd_Some prepared_def Let_def)
      moreover have "take (r + 1) (l[r := k]) = ?live (Suc k)"
        using False l r by (simp add: take_Suc_conv_app_nth)
      ultimately show ?thesis using False upd fs l by auto
    qed
  qed
  then obtain fs l where *: "for_loop 0 111 (prepare_frame source) (frames, v_local_iov source, 0) = Some (fs, Some l, length (live source))"
    "length fs = 111" "\<forall>j < 111. fs ! j = prepared source frames j" "length l = 111" "take (length (live source)) l = live source"
    by (auto simp: live_def)
  then have "fs = map (prepared source frames) [0..<111]"
    by (intro nth_equalityI) simp_all
  with * show thesis by (intro that [of l]) simp_all
qed

section \<open>One sample\<close>

text \<open>\<open>mem n a\<close> are the eight bytes of the process at address \<open>a\<close> when call \<open>n\<close> is made.\<close>

definition memory_of :: "os \<Rightarrow> (nat \<Rightarrow> u64 \<Rightarrow> bytes) \<Rightarrow> bool" where
  "memory_of os mem \<longleftrightarrow> (\<forall>n a. length (mem n a) = 8)
     \<and> (\<forall>n pid as e data. os_vm_readv os n pid as = (int (length as * 8), e, data) \<longrightarrow> data = concat (map (mem n) as))
     \<and> (\<forall>n fd a e data. os_pread os n fd 8 a = (8, e, data) \<longrightarrow> data = mem n a)"

definition no_sample :: "roadcast_frame list \<Rightarrow> bool" where
  "no_sample frames \<longleftrightarrow> length frames = ROADCAST_FRAME_COUNT \<and> (\<forall>i < ROADCAST_FRAME_COUNT. f_can_id (frames ! i) = ROADCAST_CAN_IDS ! i
     \<and> f_state (frames ! i) = ROADCAST_OBSERVATION_UNAVAILABLE \<and> f_data (frames ! i) = replicate 8 0)"

text \<open>Every resolved frame holds what its buffer held during the calls from \<open>lo\<close> to \<open>hi\<close>; the others are unavailable.\<close>

definition sample_of :: "(nat \<Rightarrow> u64 \<Rightarrow> bytes) \<Rightarrow> roadcast_vhal_source \<Rightarrow> nat \<Rightarrow> nat \<Rightarrow> roadcast_frame list \<Rightarrow> bool" where
  "sample_of mem source lo hi frames \<longleftrightarrow> length frames = ROADCAST_FRAME_COUNT \<and> (\<forall>i < ROADCAST_FRAME_COUNT.
     f_can_id (frames ! i) = ROADCAST_CAN_IDS ! i
     \<and> (if v_addresses source ! i = 0
        then f_state (frames ! i) = ROADCAST_OBSERVATION_UNAVAILABLE \<and> f_data (frames ! i) = replicate 8 0
        else f_state (frames ! i) = ROADCAST_OBSERVATION_NEVER_OBSERVED
          \<and> (\<exists>m. lo \<le> m \<and> m < hi \<and> f_data (frames ! i) = mem m (v_addresses source ! i))))"

lemma sample_of_mono:
  assumes "sample_of mem source lo hi frames" and "lo' \<le> lo" and "hi \<le> hi'" and "v_addresses source' = v_addresses source"
  shows "sample_of mem source' lo' hi' frames"
proof -
  have "\<exists>m. lo' \<le> m \<and> m < hi' \<and> P m" if "\<exists>m. lo \<le> m \<and> m < hi \<and> P m" for P
    using that assms(2,3) by (meson le_trans less_le_trans)
  with assms(1,4) show ?thesis by (auto simp: sample_of_def)
qed

lemma unavailable_run:
  assumes "length frames = ROADCAST_FRAME_COUNT"
  obtains frames' where "unavailable frames = Some frames'" and "no_sample frames'"
proof -
  let ?g = "\<lambda>i. (frames ! i)\<lparr>f_can_id := ROADCAST_CAN_IDS ! i, f_state := ROADCAST_OBSERVATION_UNAVAILABLE, f_data := replicate 8 0\<rparr>"
  have "unavailable frames = Some (map ?g [0..<111])"
    unfolding unavailable_def by (rule for_loop_update [OF assms]) (simp add: rd_Some)
  then show thesis by (rule that) (simp add: no_sample_def)
qed

lemma give_up_run:
  assumes "length frames = ROADCAST_FRAME_COUNT"
  obtains frames' where "give_up source frames n = Some (- 1, frames', source, n)" and "no_sample frames'"
  by (rule unavailable_run [OF assms]) (auto simp: give_up_def intro: that)

text \<open>Spreading the data changes the data of the listed frames only; a full transfer fills each of them.\<close>

definition same_frame :: "roadcast_frame \<Rightarrow> roadcast_frame \<Rightarrow> bool" where
  "same_frame f g \<longleftrightarrow> f_can_id g = f_can_id f \<and> f_state g = f_state f \<and> length (f_data g) = length (f_data f)"

lemma scatter_run:
  assumes "distinct iov" and "set iov \<subseteq> {..<ROADCAST_FRAME_COUNT}" and "data_wf frames"
  obtains fs where "scatter iov data frames = Some fs" and "length fs = ROADCAST_FRAME_COUNT"
    and "\<forall>i < ROADCAST_FRAME_COUNT. same_frame (frames ! i) (fs ! i) \<and> (i \<notin> set iov \<longrightarrow> fs ! i = frames ! i)"
    and "length data = 8 * length iov \<longrightarrow> (\<forall>k < length iov. f_data (fs ! (iov ! k)) = take 8 (drop (8 * k) data))"
proof -
  have wf: "length frames = 111" "\<And>i. i < 111 \<Longrightarrow> length (f_data (frames ! i)) = 8"
    using assms(3) by (auto simp: data_wf_nth)
  let ?I = "\<lambda>k fs. length fs = 111
    \<and> (\<forall>i < 111. same_frame (frames ! i) (fs ! i) \<and> (i \<notin> set (take k iov) \<longrightarrow> fs ! i = frames ! i))
    \<and> (length data = 8 * length iov \<longrightarrow> (\<forall>j < k. f_data (fs ! (iov ! j)) = take 8 (drop (8 * j) data)))"
  have "\<exists>fs. scatter iov data frames = Some fs \<and> ?I (0 + length iov) fs"
    unfolding scatter_def
  proof (rule for_loop_invariant)
    show "?I 0 frames" using wf by (simp add: same_frame_def)
  next
    fix k fs assume k: "k < 0 + length iov" and I: "?I k fs"
    let ?i = "iov ! k" and ?chunk = "take 8 (drop (8 * k) data)"
    have i: "?i < 111" using assms(2) k by (metis add_0 lessThan_iff nth_mem subsetD)
    have others: "iov ! j \<noteq> ?i" if "j < k" for j
      using assms(1) k that by (simp add: distinct_conv_nth)
    let ?f = "(fs ! ?i)\<lparr>f_data := ?chunk @ drop (length ?chunk) (f_data (fs ! ?i))\<rparr>"
    have len: "length (f_data (fs ! ?i)) = 8" using I i wf by (simp add: same_frame_def)
    have full: "length ?chunk = 8" if "length data = 8 * length iov" using that k by simp
    have "?I (Suc k) (fs[?i := ?f])"
    proof (intro conjI allI impI)
      fix j assume "length data = 8 * length iov" "j < Suc k"
      then show "f_data (fs[?i := ?f] ! (iov ! j)) = take 8 (drop (8 * j) data)"
        using I i k len full others [of j] by (cases "j = k") (auto simp: nth_list_update_neq)
    qed (use I i len k in \<open>auto simp: nth_list_update same_frame_def take_Suc_conv_app_nth\<close>)
    moreover have "(do { i \<leftarrow> rd iov k; f \<leftarrow> rd fs i; let chunk = take 8 (drop (8 * k) data);
        poke i [f\<lparr>f_data := chunk @ drop (length chunk) (f_data f)\<rparr>] fs }) = Some (fs[?i := ?f])"
      using k i I by (simp add: rd_Some)
    ultimately show "\<exists>fs'. (do { i \<leftarrow> rd iov k; f \<leftarrow> rd fs i; let chunk = take 8 (drop (8 * k) data);
        poke i [f\<lparr>f_data := chunk @ drop (length chunk) (f_data f)\<rparr>] fs }) = Some fs' \<and> ?I (Suc k) fs'"
      by blast
  qed
  then show thesis by (elim exE conjE) (rule that; simp)
qed

lemma read_one_run:
  assumes "os_ok os" and "memory_of os mem"
  obtains m r where "read_one os source a n = Some (r, m)" and "n < m"
    and "(\<exists>q. n \<le> q \<and> q < m \<and> r = Inr (mem q a)) \<or> (\<exists>errno. r = Inl errno \<and> errno \<noteq> 0)"
proof -
  let ?call = "\<lambda>n. os_pread os n (v_mem_fd source) 8 a"
  obtain k where "\<not> interrupted (?call (n + k))"
    using assms(1) unfolding os_ok_def by blast
  then obtain q where q: "retry ?call n = Some (?call q, Suc q)" "n \<le> q"
    by (rule retry_run)
  obtain count errno data where r: "?call q = (count, errno, data)"
    by (cases "?call q")
  have "transfer_ok 8 (?call q)" using assms(1) by (simp add: os_ok_def)
  then have "count < 0 \<Longrightarrow> errno \<noteq> 0" by (simp add: r transfer_ok_def)
  moreover have "count = 8 \<Longrightarrow> data = mem q a"
    using assms(2) r unfolding memory_of_def by blast
  ultimately show thesis
    by (intro that [of "if count = 8 then Inr data else Inl (if count \<ge> 0 then 5 else errno)" "Suc q"])
      (use q r in \<open>auto simp: read_one_def\<close>)
qed

text \<open>A frame \<open>f\<close> after the fallback: \<open>g\<close> holds what its address held, or is unavailable and an error is recorded.\<close>

definition fallback_of :: "(nat \<Rightarrow> u64 \<Rightarrow> bytes) \<Rightarrow> u64 \<Rightarrow> nat \<Rightarrow> roadcast_frame \<Rightarrow> roadcast_frame \<Rightarrow> int \<Rightarrow> nat \<Rightarrow> bool" where
  "fallback_of mem a n f g err m \<longleftrightarrow> f_can_id g = f_can_id f \<and> length (f_data g) = 8 \<and> (a = 0 \<longrightarrow> g = f)
     \<and> (a \<noteq> 0 \<longrightarrow> f_state g = f_state f \<and> (\<exists>q. n \<le> q \<and> q < m \<and> f_data g = mem q a)
          \<or> f_state g = ROADCAST_OBSERVATION_UNAVAILABLE \<and> err \<noteq> 0)"

lemma fallback_of_later:
  "fallback_of mem a n f g err m \<Longrightarrow> m \<le> m' \<Longrightarrow> (err \<noteq> 0 \<Longrightarrow> err' \<noteq> 0) \<Longrightarrow> fallback_of mem a n f g err' m'"
  by (auto simp: fallback_of_def dest: less_le_trans)

lemma fallback_loop_run:
  assumes os: "os_ok os" "memory_of os mem" and frames: "data_wf frames" and addresses: "length (v_addresses source) = ROADCAST_FRAME_COUNT"
  obtains fs err m where "for_loop 0 ROADCAST_FRAME_COUNT (fallback_frame os source) (frames, 0, n) = Some (fs, err, m)"
    and "n \<le> m" and "length fs = ROADCAST_FRAME_COUNT"
    and "\<forall>i < ROADCAST_FRAME_COUNT. fallback_of mem (v_addresses source ! i) n (frames ! i) (fs ! i) err m"
proof -
  have wf: "length frames = 111" "\<And>i. i < 111 \<Longrightarrow> length (f_data (frames ! i)) = 8"
    using frames by (auto simp: data_wf_nth)
  let ?D = "\<lambda>i fs err m. fallback_of mem (v_addresses source ! i) n (frames ! i) (fs ! i) err m"
  let ?I = "\<lambda>k (fs, err, m). n \<le> m \<and> length fs = 111 \<and> (\<forall>i < 111. if i < k then ?D i fs err m else fs ! i = frames ! i)"
  have "\<exists>st. for_loop 0 111 (fallback_frame os source) (frames, 0, n) = Some st \<and> ?I (0 + 111) st"
  proof (rule for_loop_invariant)
    show "?I 0 (frames, 0, n)" using wf by simp
  next
    fix k st assume "k < 0 + 111" and I0: "?I k st"
    then have k: "k < 111" by simp
    obtain fs err m where st: "st = (fs, err, m)" by (cases st)
    have I: "n \<le> m" "length fs = 111" "fs ! k = frames ! k"
      using I0 k by (simp_all add: st)
    have I': "\<forall>i < 111. if i < k then ?D i fs err m else fs ! i = frames ! i"
      using I0 by (simp add: st)
    have step: "?I (Suc k) (fs[k := g], err', m')" if "?D k (fs[k := g]) err' m'" "m \<le> m'" "err \<noteq> 0 \<Longrightarrow> err' \<noteq> 0" for g err' m'
    proof -
      have "?D i fs err' m'" if "i < k" for i
        by (rule fallback_of_later [of _ _ _ _ _ err m]) (use I' that k \<open>m \<le> m'\<close> \<open>err \<noteq> 0 \<Longrightarrow> err' \<noteq> 0\<close> in auto)
      with I I' that(1,2) show ?thesis by (auto simp: nth_list_update less_Suc_eq)
    qed
    show "\<exists>st'. fallback_frame os source k st = Some st' \<and> ?I (Suc k) st'"
    proof (cases "v_addresses source ! k = 0")
      case True
      then have "fallback_frame os source k st = Some (fs[k := fs ! k], err, m)"
        using k addresses by (simp add: fallback_frame_def st rd_Some)
      moreover have "?D k (fs[k := fs ! k]) err m" using True k wf I by (simp add: fallback_of_def)
      ultimately show ?thesis using step by blast
    next
      case False
      obtain r m' where r: "read_one os source (v_addresses source ! k) m = Some (r, m')" "m < m'"
        and rr: "(\<exists>q. m \<le> q \<and> q < m' \<and> r = Inr (mem q (v_addresses source ! k))) \<or> (\<exists>errno. r = Inl errno \<and> errno \<noteq> 0)"
        by (rule read_one_run [OF os])
      define g where "g = (case r of Inr data \<Rightarrow> (fs ! k)\<lparr>f_data := data\<rparr>
        | Inl e \<Rightarrow> (fs ! k)\<lparr>f_data := replicate 8 0, f_state := ROADCAST_OBSERVATION_UNAVAILABLE\<rparr>)"
      define err' where "err' = (case r of Inr _ \<Rightarrow> err | Inl e \<Rightarrow> if err = 0 then e else err)"
      have run: "fallback_frame os source k st = Some (fs[k := g], err', m')"
        using False k I addresses r by (cases r) (simp_all add: fallback_frame_def st rd_Some g_def err'_def)
      have mem8: "length (mem q a) = 8" for q a using os(2) by (simp add: memory_of_def)
      have "?D k (fs[k := g]) err' m'"
        using rr
      proof (elim disjE exE conjE)
        fix q assume q: "m \<le> q" "q < m'" "r = Inr (mem q (v_addresses source ! k))"
        with I(1) have "\<exists>p. n \<le> p \<and> p < m' \<and> mem q (v_addresses source ! k) = mem p (v_addresses source ! k)"
          by (intro exI [of _ q]) simp
        with q(3) show ?thesis using False k I by (simp add: g_def mem8 fallback_of_def)
      next
        fix e assume "r = Inl e" "e \<noteq> 0"
        then show ?thesis using False k I by (auto simp: g_def err'_def fallback_of_def)
      qed
      moreover have "err \<noteq> 0 \<Longrightarrow> err' \<noteq> 0" using rr by (auto simp: err'_def)
      ultimately show ?thesis using run step r(2) by (meson less_imp_le)
    qed
  qed
  then obtain fs err m where "for_loop 0 111 (fallback_frame os source) (frames, 0, n) = Some (fs, err, m)"
      "n \<le> m" "length fs = 111" "\<forall>i < 111. ?D i fs err m"
    by auto
  then show thesis by (rule that)
qed

lemma fallback_read_run:
  assumes os: "os_ok os" "memory_of os mem" and source: "source_ok source" and frames: "data_wf frames"
    and prep: "\<forall>i < ROADCAST_FRAME_COUNT. same_frame (prepared source frames0 i) (frames ! i)
      \<and> (v_addresses source ! i = 0 \<longrightarrow> frames ! i = prepared source frames0 i)"
  obtains rc frames' source' m where "fallback_read os source frames n = Some (rc, frames', source', m)"
    and "source_ok source'" and "v_addresses source' = v_addresses source" and "n \<le> m"
    and "rc = - 1 \<and> data_wf frames' \<or> rc = 1 \<and> sample_of mem source n m frames' \<and> (\<exists>k. verify_identity os source' k = Some (True, m))"
proof -
  define source1 where "source1 = (if v_mem_fd source < 0 then source\<lparr>v_mem_fd := os_open os n\<rparr> else source)"
  define n1 where "n1 = (if v_mem_fd source < 0 then Suc n else n)"
  have s1: "source_ok source1" "v_addresses source1 = v_addresses source"
    using source by (simp_all add: source1_def source_ok_def live_def)
  have n1: "n \<le> n1" by (simp add: n1_def)
  have start: "fallback_read os source frames n = (if v_mem_fd source1 < 0 then give_up source1 frames n1
     else do {
       (frames, failure_errno, n) \<leftarrow> for_loop 0 ROADCAST_FRAME_COUNT (fallback_frame os source1) (frames, 0, n1);
       (same, n) \<leftarrow> verify_identity os source1 n;
       if \<not> same then give_up source1 frames n
       else if failure_errno \<noteq> 0 then Some (- 1, frames, source1, n)
       else Some (1, frames, source1, n) })"
    unfolding fallback_read_def source1_def n1_def by (cases "v_mem_fd source < 0") simp_all
  have no: "data_wf fs" if "no_sample fs" for fs
    using that by (simp add: no_sample_def data_wf_nth)
  show thesis
  proof (cases "v_mem_fd source1 < 0")
    case True
    have "length frames = 111" using frames by (simp add: data_wf_def)
    then obtain fs where "give_up source1 frames n1 = Some (- 1, fs, source1, n1)" "no_sample fs"
      by (rule give_up_run)
    with True start no s1 n1 show ?thesis by (intro that [of "- 1" fs source1 n1]) auto
  next
    case False
    have len1: "length (v_addresses source1) = 111" using s1(1) by (simp add: source_ok_def)
    obtain fs err m where loop: "for_loop 0 111 (fallback_frame os source1) (frames, 0, n1) = Some (fs, err, m)"
      "n1 \<le> m" "length fs = 111" "\<forall>i < 111. fallback_of mem (v_addresses source1 ! i) n1 (frames ! i) (fs ! i) err m"
      by (rule fallback_loop_run [OF os frames len1])
    obtain same m' where v: "verify_identity os source1 m = Some (same, m')" "m \<le> m'"
      by (rule verify_identity_run [OF os(1)])
    obtain fs' where g: "give_up source1 fs m' = Some (- 1, fs', source1, m')" "no_sample fs'"
      using loop(3) by (rule give_up_run)
    have wf: "data_wf fs" using loop(3,4) by (simp add: data_wf_nth fallback_of_def)
    have run: "fallback_read os source frames n = (if \<not> same then Some (- 1, fs', source1, m')
        else if err \<noteq> 0 then Some (- 1, fs, source1, m') else Some (1, fs, source1, m'))"
      using start False loop(1) v(1) g(1) by simp
    have "sample_of mem source n m' fs" if "err = 0"
      unfolding sample_of_def
    proof (intro conjI allI impI)
      fix i :: nat assume i: "i < 111"
      have f: "fallback_of mem (v_addresses source ! i) n1 (frames ! i) (fs ! i) 0 m"
        using loop(4) i that s1 by simp
      show "f_can_id (fs ! i) = ROADCAST_CAN_IDS ! i"
        using f prep i by (auto simp: fallback_of_def same_frame_def prepared_def Let_def)
      show "if v_addresses source ! i = 0
        then f_state (fs ! i) = ROADCAST_OBSERVATION_UNAVAILABLE \<and> f_data (fs ! i) = replicate 8 0
        else f_state (fs ! i) = ROADCAST_OBSERVATION_NEVER_OBSERVED
          \<and> (\<exists>q. n \<le> q \<and> q < m' \<and> f_data (fs ! i) = mem q (v_addresses source ! i))"
      proof (cases "v_addresses source ! i = 0")
        case True
        with f prep i show ?thesis by (simp add: fallback_of_def prepared_def)
      next
        case False
        then have "f_state (fs ! i) = f_state (frames ! i)" "\<exists>q. n1 \<le> q \<and> q < m \<and> f_data (fs ! i) = mem q (v_addresses source ! i)"
          using f by (auto simp: fallback_of_def)
        moreover have "f_state (frames ! i) = ROADCAST_OBSERVATION_NEVER_OBSERVED"
          using prep i False by (simp add: same_frame_def prepared_def)
        ultimately show ?thesis using False n1 v(2) by (auto intro: order_trans less_le_trans)
      qed
    qed (use loop(3) in simp)
    note sample = this
    have later: "n \<le> m'" using n1 loop(2) v(2) by simp
    consider (lost) "\<not> same" | (failed) "same" "err \<noteq> 0" | (taken) "same" "err = 0" by blast
    then show ?thesis
    proof cases
      case lost
      with run s1 later no [OF g(2)] show ?thesis by (intro that [of "- 1" fs' source1 m']) auto
    next
      case failed
      with run s1 later wf show ?thesis by (intro that [of "- 1" fs source1 m']) auto
    next
      case taken
      with run s1 later v sample show ?thesis by (intro that [of 1 fs source1 m']) auto
    qed
  qed
qed

lemma live_props: "distinct (live source)" "set (live source) \<subseteq> {..<ROADCAST_FRAME_COUNT}"
    "length (live source) \<le> ROADCAST_FRAME_COUNT" "i < ROADCAST_FRAME_COUNT \<Longrightarrow> i \<in> set (live source) \<longleftrightarrow> v_addresses source ! i \<noteq> 0"
  using length_filter_upt [of "\<lambda>i. v_addresses source ! i \<noteq> 0" 111] by (auto simp: live_def)

lemma source_ok_local: "source_ok source \<Longrightarrow> length iov = ROADCAST_FRAME_COUNT \<Longrightarrow> source_ok (source\<lparr>v_local_iov := Some iov\<rparr>)"
  by (auto simp: source_ok_def live_def)

lemma source_ok_retry: "source_ok (source\<lparr>v_vm_readv_retry_ns := t\<rparr>) = source_ok source"
  by (simp add: source_ok_def live_def)

text \<open>A full transfer over the resolved addresses gives every resolved frame its own bytes.\<close>

lemma full_transfer:
  assumes mem: "\<And>a. length (mem a) = 8" and "length fs = ROADCAST_FRAME_COUNT"
    and same: "\<forall>i < ROADCAST_FRAME_COUNT. same_frame (prepared source frames i) (fs ! i) \<and> (i \<notin> set (live source) \<longrightarrow> fs ! i = prepared source frames i)"
    and chunks: "\<forall>k < length (live source). f_data (fs ! (live source ! k))
      = take 8 (drop (8 * k) (concat (map mem (map ((!) (v_addresses source)) (live source)))))"
    and i: "i < ROADCAST_FRAME_COUNT"
  shows "f_can_id (fs ! i) = ROADCAST_CAN_IDS ! i"
    and "v_addresses source ! i = 0 \<Longrightarrow> f_state (fs ! i) = ROADCAST_OBSERVATION_UNAVAILABLE \<and> f_data (fs ! i) = replicate 8 0"
    and "v_addresses source ! i \<noteq> 0 \<Longrightarrow> f_state (fs ! i) = ROADCAST_OBSERVATION_NEVER_OBSERVED \<and> f_data (fs ! i) = mem (v_addresses source ! i)"
proof -
  show "f_can_id (fs ! i) = ROADCAST_CAN_IDS ! i"
    using same i by (auto simp: same_frame_def prepared_def Let_def)
  show "f_state (fs ! i) = ROADCAST_OBSERVATION_UNAVAILABLE \<and> f_data (fs ! i) = replicate 8 0" if "v_addresses source ! i = 0"
    using same i that by (auto simp: live_props(4) prepared_def)
  assume a: "v_addresses source ! i \<noteq> 0"
  then obtain k where k: "k < length (live source)" "live source ! k = i"
    using live_props(4) [OF i, of source] by (auto simp: in_set_conv_nth)
  have "take 8 (drop (k * 8) (concat (map mem (map ((!) (v_addresses source)) (live source))) @ []))
      = mem (map ((!) (v_addresses source)) (live source) ! k)"
    by (rule nth_chunk_concat) (use mem k in simp_all)
  then have "f_data (fs ! i) = mem (v_addresses source ! i)"
    using chunks [rule_format, OF k(1)] k by (simp add: mult.commute)
  then show "f_state (fs ! i) = ROADCAST_OBSERVATION_NEVER_OBSERVED \<and> f_data (fs ! i) = mem (v_addresses source ! i)"
    using same i a by (auto simp: same_frame_def prepared_def)
qed

lemma vhal_read_run:
  assumes os: "os_ok os" "memory_of os mem" and source: "source_ok source" and frames: "data_wf frames"
  obtains rc frames' source' m where "roadcast_vhal_read os source frames n = Some (rc, frames', source', m)"
    and "source_ok source'" and "v_addresses source' = v_addresses source" and "n < m"
    and "rc = - 1 \<and> data_wf frames' \<or> (rc = 0 \<or> rc = 1) \<and> sample_of mem source n m frames'
      \<and> (\<exists>k. verify_identity os source' k = Some (True, m))"
proof -
  have len: "length frames = 111" using frames by (simp add: data_wf_def)
  obtain iov where prep: "for_loop 0 111 (prepare_frame source) (frames, v_local_iov source, 0)
      = Some (map (prepared source frames) [0..<111], Some iov, length (live source))"
    and iov: "length iov = 111" "take (length (live source)) iov = live source"
    by (rule prepare_run [OF source len])
  let ?fs = "map (prepared source frames) [0..<111]" and ?s = "source\<lparr>v_local_iov := Some iov\<rparr>"
  have s: "source_ok ?s" using source iov(1) by (rule source_ok_local)
  have wf: "data_wf ?fs"
    using frames by (auto simp: data_wf_nth prepared_def Let_def)
  have liveq: "live ?s = live source" and prepq: "prepared ?s = prepared source"
    by (simp_all add: live_def prepared_def fun_eq_iff)
  have nosample: "data_wf fs" if "no_sample fs" for fs
    using that by (simp add: no_sample_def data_wf_nth)
  show thesis
  proof (cases "os_clock os n < v_vm_readv_retry_ns source")
    case True
    obtain rc fs s' m where "fallback_read os ?s ?fs (Suc n) = Some (rc, fs, s', m)" "source_ok s'"
      "v_addresses s' = v_addresses ?s" "Suc n \<le> m"
      "rc = - 1 \<and> data_wf fs \<or> rc = 1 \<and> sample_of mem ?s (Suc n) m fs \<and> (\<exists>k. verify_identity os s' k = Some (True, m))"
      by (rule fallback_read_run [OF os s wf, of frames "Suc n"]) (auto simp: prepq same_frame_def)
    then show ?thesis
      using prep True by (intro that [of rc fs s' m]) (auto simp: roadcast_vhal_read_def intro: sample_of_mono)
  next
    case False
    obtain remote where remote: "v_remote_iov source = Some remote" "length remote = 111"
        "take (length (live source)) remote = map ((!) (v_addresses source)) (live source)"
      using source by (auto simp: source_ok_def)
    let ?as = "map ((!) (v_addresses source)) (live source)" and ?call = "\<lambda>n. os_vm_readv os n (v_pid source) (map ((!) (v_addresses source)) (live source))"
    obtain k where "\<not> interrupted (?call (Suc n + k))"
      using os(1) unfolding os_ok_def by blast
    then obtain q where q: "retry ?call (Suc n) = Some (?call q, Suc q)" "Suc n \<le> q"
      by (rule retry_run)
    obtain count errno data where r: "?call q = (count, errno, data)" by (cases "?call q")
    obtain fs where sc: "scatter (live source) data ?fs = Some fs" "length fs = 111"
      "\<forall>i < 111. same_frame (?fs ! i) (fs ! i) \<and> (i \<notin> set (live source) \<longrightarrow> fs ! i = ?fs ! i)"
      "length data = 8 * length (live source) \<longrightarrow> (\<forall>k < length (live source). f_data (fs ! (live source ! k)) = take 8 (drop (8 * k) data))"
      by (rule scatter_run [OF live_props(1,2) wf])
    have fs: "data_wf fs" using sc wf by (auto simp: data_wf_nth same_frame_def)
    have same: "\<forall>i < 111. same_frame (prepared source frames i) (fs ! i) \<and> (i \<notin> set (live source) \<longrightarrow> fs ! i = prepared source frames i)"
      using sc(3) by simp
    define s1 where "s1 = (if count < 0 \<and> errno = ENOSYS then ?s\<lparr>v_vm_readv_retry_ns := UINT64_MAX\<rparr>
           else if count < 0 \<and> (errno = EPERM \<or> errno = EACCES)
           then ?s\<lparr>v_vm_readv_retry_ns := os_clock os n + 30000000000\<rparr> else ?s)"
    have run: "roadcast_vhal_read os source frames n = (if count = int (length (live source) * 8) then do {
         (same, n) \<leftarrow> verify_identity os ?s (Suc q);
         if same then Some (0, fs, ?s, n) else give_up ?s fs n }
       else if count < 0 \<and> errno = ESRCH then give_up ?s fs (Suc q)
       else fallback_read os s1 fs (Suc q))"
      using prep False iov remote live_props(3) [of source] q(1) r sc(1)
      by (simp add: roadcast_vhal_read_def slice_Some s1_def Let_def)
    obtain fs' where u: "unavailable fs = Some fs'" "no_sample fs'"
      using sc(2) by (rule unavailable_run)
    have g: "give_up ?s fs m = Some (- 1, fs', ?s, m)" for m
      by (simp add: give_up_def u(1))
    note nosample = nosample [OF u(2)]
    show ?thesis
    proof (cases "count = int (length (live source) * 8)")
      case True
      then have "data = concat (map (mem q) ?as)"
        using os(2) r unfolding memory_of_def by (metis length_map)
      moreover have mem8: "length (mem q a) = 8" for a using os(2) by (simp add: memory_of_def)
      ultimately have chunks: "\<forall>k < length (live source). f_data (fs ! (live source ! k)) = take 8 (drop (8 * k) (concat (map (mem q) ?as)))"
        using sc(4) by (simp add: length_concat comp_def sum_list_triv)
      obtain same' m where v: "verify_identity os ?s (Suc q) = Some (same', m)" "Suc q \<le> m"
        by (rule verify_identity_run [OF os(1)])
      have "sample_of mem source n m fs"
        unfolding sample_of_def using full_transfer [OF mem8 sc(2) same chunks] sc(2) q(2) v(2)
        by (auto intro!: exI [of _ q])
      with run True v q(2) s g nosample show ?thesis
        by (cases "same'") (auto intro!: that)
    next
      case no: False
      show ?thesis
      proof (cases "count < 0 \<and> errno = ESRCH")
        case True
        with run no q(2) s g nosample show ?thesis by (intro that [of "- 1" fs' ?s "Suc q"]) auto
      next
        case False
        have s1: "source_ok s1" "v_addresses s1 = v_addresses source" "prepared s1 = prepared source"
          using s by (auto simp: s1_def source_ok_retry prepared_def fun_eq_iff)
        obtain rc fs2 s2 m where "fallback_read os s1 fs (Suc q) = Some (rc, fs2, s2, m)" "source_ok s2"
          "v_addresses s2 = v_addresses s1" "Suc q \<le> m"
          "rc = - 1 \<and> data_wf fs2 \<or> rc = 1 \<and> sample_of mem s1 (Suc q) m fs2 \<and> (\<exists>k. verify_identity os s2 k = Some (True, m))"
          by (rule fallback_read_run [OF os s1(1) fs, of frames "Suc q"]) (use same s1 live_props(4) in auto)
        with run no False q(2) s1 show ?thesis
          by (intro that [of rc fs2 s2 m]) (auto intro: sample_of_mono)
      qed
    qed
  qed
qed

section \<open>Opening gives a source that can be read\<close>

text \<open>
  No symbol lies at address zero of the process.  The address of a frame is the test whether it was resolved, so
  the vectors of a sample rely on it.
\<close>

definition no_null_address :: "os \<Rightarrow> bool" where
  "no_null_address os \<longleftrightarrow> (\<forall>n k executable values vaddr off base m. roadcast_vhal_resolve_symbols (os_file os n) = Some (Ok (values, vaddr, off))
     \<longrightarrow> locate os executable off k = (Some base, m) \<longrightarrow> (\<forall>v \<in> set values. v \<noteq> 0 \<longrightarrow> base - vaddr + v \<noteq> 0))"

lemma add_addresses_run:
  assumes "length values = ROADCAST_FRAME_COUNT" and "v_addresses s = replicate ROADCAST_FRAME_COUNT 0"
    and "v_remote_iov s = Some remote" and "length remote = ROADCAST_FRAME_COUNT" and "v_resolved_count s = 0"
  obtains remote' where "for_loop 0 ROADCAST_FRAME_COUNT (add_address values bias) s
      = Some (s\<lparr>v_addresses := map (\<lambda>v. if v = 0 then 0 else bias + v) values, v_remote_iov := Some remote',
          v_resolved_count := length (filter (\<lambda>v. v \<noteq> 0) values)\<rparr>)"
    and "length remote' = ROADCAST_FRAME_COUNT"
    and "take (length (filter (\<lambda>v. v \<noteq> 0) values)) remote' = map ((+) bias) (filter (\<lambda>v. v \<noteq> 0) values)"
proof -
  let ?g = "\<lambda>v. if v = 0 then 0 else bias + v"
  let ?found = "\<lambda>k. filter (\<lambda>v. v \<noteq> 0) (take k values)"
  let ?st = "\<lambda>k r. s\<lparr>v_addresses := map ?g (take k values) @ replicate (111 - k) 0, v_remote_iov := Some r, v_resolved_count := length (?found k)\<rparr>"
  let ?I = "\<lambda>k t. \<exists>r. t = ?st k r \<and> length r = 111 \<and> take (length (?found k)) r = map ((+) bias) (?found k)"
  have "\<exists>t. for_loop 0 111 (add_address values bias) s = Some t \<and> ?I (0 + 111) t"
  proof (rule for_loop_invariant)
    have "s = ?st 0 remote" using assms by (cases s) simp
    then show "?I 0 s" using assms(4) by (intro exI [of _ remote]) simp
  next
    fix k t assume "k < 0 + 111" and "?I k t"
    then obtain r where k: "k < 111" and t: "t = ?st k r" and r: "length r = 111" "take (length (?found k)) r = map ((+) bias) (?found k)"
      by auto
    let ?v = "values ! k"
    have next_take: "take (Suc k) values = take k values @ [?v]" using k assms(1) by (simp add: take_Suc_conv_app_nth)
    have pad: "replicate (111 - k) 0 = 0 # replicate (111 - Suc k) (0 :: u64)"
      using k by (simp add: Suc_diff_Suc [symmetric])
    have c: "length (?found k) < 111"
      using k length_filter_le [of "\<lambda>v. v \<noteq> 0" "take k values"] by (simp add: assms(1))
    show "\<exists>t'. add_address values bias k t = Some t' \<and> ?I (Suc k) t'"
    proof (cases "?v = 0")
      case True
      then have "add_address values bias k t = Some (?st (Suc k) r)"
        using k assms(1) by (simp add: add_address_def t rd_Some next_take pad)
      moreover have "?I (Suc k) (?st (Suc k) r)"
        using r True by (intro exI [of _ r]) (simp add: next_take)
      ultimately show ?thesis by blast
    next
      case False
      let ?r = "r[length (?found k) := bias + ?v]"
      have upd: "(map ?g (take k values) @ replicate (111 - k) 0)[k := bias + ?v] = map ?g (take (Suc k) values) @ replicate (111 - Suc k) 0"
        using False k assms(1) by (simp add: next_take pad list_update_append)
      have "add_address values bias k t = Some (?st (Suc k) ?r)"
        using False k assms(1) c r(1) upd by (simp add: add_address_def t rd_Some next_take)
      moreover have "?I (Suc k) (?st (Suc k) ?r)"
        using r c False by (intro exI [of _ ?r]) (simp add: next_take take_Suc_conv_app_nth)
      ultimately show ?thesis by blast
    qed
  qed
  then obtain r where "for_loop 0 111 (add_address values bias) s = Some (?st 111 r)" "length r = 111"
      "take (length (?found 111)) r = map ((+) bias) (?found 111)"
    by auto
  then show thesis using assms(1) by (intro that [of r]) simp_all
qed

lemma filter_positions: "map ((!) xs) (filter (\<lambda>i. P (xs ! i)) [0..<length xs]) = filter P xs"
proof -
  have "filter P xs = filter P (map ((!) xs) [0..<length xs])" by (simp add: map_nth)
  then show ?thesis by (simp add: filter_map comp_def)
qed

lemma resolve_length:
  "roadcast_vhal_resolve_symbols f = Some (Ok (values, vaddr, off)) \<Longrightarrow> length values = ROADCAST_FRAME_COUNT"
proof (cases f)
  case (Some m)
  assume "roadcast_vhal_resolve_symbols f = Some (Ok (values, vaddr, off))"
  with Some show ?thesis
    by (cases rule: resolve_mapped_run [of m]) (auto simp: roadcast_vhal_resolve_symbols_def split: if_splits)
qed (simp add: roadcast_vhal_resolve_symbols_def)

lemma attached_ok:
  assumes "length values = ROADCAST_FRAME_COUNT" and "\<forall>v \<in> set values. v \<noteq> 0 \<longrightarrow> bias + v \<noteq> 0" and "length iov = ROADCAST_FRAME_COUNT"
    and "length remote = ROADCAST_FRAME_COUNT"
    and "take (length (filter (\<lambda>v. v \<noteq> 0) values)) remote = map ((+) bias) (filter (\<lambda>v. v \<noteq> 0) values)"
  shows "source_ok (s\<lparr>v_local_iov := Some iov, v_addresses := map (\<lambda>v. if v = 0 then 0 else bias + v) values, v_remote_iov := Some remote\<rparr>)"
proof -
  let ?as = "map (\<lambda>v. if v = 0 then 0 else bias + v) values"
  have "live (s\<lparr>v_local_iov := Some iov, v_addresses := ?as, v_remote_iov := Some remote\<rparr>) = filter (\<lambda>i. values ! i \<noteq> 0) [0..<length values]"
    unfolding live_def using assms(1,2) by (intro filter_cong) auto
  moreover have "map ((!) ?as) (filter (\<lambda>i. values ! i \<noteq> 0) [0..<length values]) = map ((+) bias) (filter (\<lambda>v. v \<noteq> 0) values)"
    by (subst filter_positions [of "values" "\<lambda>v. v \<noteq> 0", symmetric]) (auto simp: comp_def)
  moreover have "length (filter (\<lambda>i. values ! i \<noteq> 0) [0..<length values]) = length (filter (\<lambda>v. v \<noteq> 0) values)"
    by (subst filter_positions [of "values" "\<lambda>v. v \<noteq> 0", symmetric]) simp
  ultimately show ?thesis
    using assms by (simp add: source_ok_def)
qed

lemma attach_run:
  assumes os: "os_ok os" "no_null_address os" and s: "v_addresses s = replicate ROADCAST_FRAME_COUNT 0" "v_resolved_count s = 0"
  obtains r m where "attach os executable s n = Some (r, m)" and "n < m" and "\<forall>s'. r = Ok s' \<longrightarrow> source_ok s'"
proof -
  obtain symbols where sym: "roadcast_vhal_resolve_symbols (os_file os n) = Some symbols"
    using resolve_symbols_total by blast
  show thesis
  proof (cases symbols)
    case Fail
    with sym show ?thesis by (intro that [of Fail "Suc n"]) (simp_all add: attach_def)
  next
    case (Ok x)
    then obtain vs vaddr off where x: "symbols = Ok (vs, vaddr, off)" by (cases x) auto
    obtain loc m where loc: "locate os executable off (Suc n) = (loc, m)" by (cases "locate os executable off (Suc n)")
    have m: "n < m" using loc by (auto simp: locate_def find_mapping_base_def split: option.splits)
    show ?thesis
    proof (cases "loc = None \<or> \<not> os_calloc os m \<or> \<not> os_calloc os (Suc m)")
      case True
      with sym x loc m show ?thesis
        by (intro that [of Fail "if loc = None then m else Suc (Suc m)"]) (auto simp: attach_def split: option.splits)
    next
      case False
      then obtain base where base: "loc = Some base" "os_calloc os m" "os_calloc os (Suc m)" by auto
      have len: "length vs = 111" using sym x by (intro resolve_length) simp
      have nz: "\<forall>v \<in> set vs. v \<noteq> 0 \<longrightarrow> base - vaddr + v \<noteq> 0"
        using os(2) sym x loc base(1) unfolding no_null_address_def by blast
      let ?s = "s\<lparr>v_local_iov := Some (replicate 111 0), v_remote_iov := Some (replicate 111 0)\<rparr>"
      obtain remote where loop: "for_loop 0 111 (add_address vs (base - vaddr)) ?s
          = Some (?s\<lparr>v_addresses := map (\<lambda>v. if v = 0 then 0 else base - vaddr + v) vs, v_remote_iov := Some remote,
              v_resolved_count := length (filter (\<lambda>v. v \<noteq> 0) vs)\<rparr>)" (is "_ = Some ?s1")
        and remote: "length remote = 111"
          "take (length (filter (\<lambda>v. v \<noteq> 0) vs)) remote = map ((+) (base - vaddr)) (filter (\<lambda>v. v \<noteq> 0) vs)"
        by (rule add_addresses_run [OF len, where s = ?s and remote = "replicate 111 0" and bias = "base - vaddr"]) (use s in simp_all)
      let ?s2 = "?s1\<lparr>v_mem_fd := os_open os (Suc (Suc m))\<rparr>"
      have "source_ok (s\<lparr>v_local_iov := Some (replicate 111 0), v_addresses := map (\<lambda>v. if v = 0 then 0 else base - vaddr + v) vs, v_remote_iov := Some remote\<rparr>)"
        by (rule attached_ok [OF len nz _ remote]) simp
      then have ok: "source_ok ?s2" by (simp add: source_ok_def live_def)
      obtain same k where v: "verify_identity os ?s2 (Suc (Suc (Suc m))) = Some (same, k)" "Suc (Suc (Suc m)) \<le> k"
        by (rule verify_identity_run [OF os(1)])
      show ?thesis
      proof (cases "filter (\<lambda>v. v \<noteq> 0) vs = []")
        case True
        with sym x loc base loop m show ?thesis
          by (intro that [of Fail "Suc (Suc m)"]) (simp_all add: attach_def)
      next
        case False
        have run: "attach os executable s n = Some (if same then Ok ?s2 else Fail, k)"
          using sym x loc base loop False v(1) by (simp add: attach_def)
        show ?thesis
          by (rule that [OF run]) (use m v(2) ok in auto)
      qed
    qed
  qed
qed

lemma vhal_open_run:
  assumes "os_ok os" and "no_null_address os"
  obtains opened source m where "roadcast_vhal_open os process_name n = Some (opened, source, m)" and "n < m"
    and "opened \<longrightarrow> source_ok source"
proof -
  obtain pid where pid: "find_pid os process_name n = (pid, Suc n)"
    by (cases "os_proc os n") (auto simp: find_pid_def)
  let ?s = "closed_source\<lparr>v_pid := pid\<rparr>" let ?s1 = "?s\<lparr>v_identity_fd := os_open os (Suc n)\<rparr>"
  show thesis
  proof (cases "pid < 0 \<or> os_open os (Suc n) < 0")
    case True
    with pid show ?thesis
      by (intro that [of False "if pid < 0 then ?s else closed_source" "if pid < 0 then Suc n else Suc (Suc n)"])
        (auto simp: roadcast_vhal_open_def identify_def roadcast_vhal_close_def)
  next
    case False
    obtain t m where t: "read_start_time os (os_open os (Suc n)) (Suc (Suc n)) = Some (t, m)" "Suc (Suc n) < m"
      by (rule read_start_time_run [OF assms(1)])
    show ?thesis
    proof (cases "t = None \<or> os_readlink os m = None")
      case True
      with pid False t show ?thesis
        by (intro that [of False closed_source "if t = None then m else Suc m"])
          (auto simp: roadcast_vhal_open_def identify_def roadcast_vhal_close_def read_executable_path_def split: option.splits)
    next
      case more: False
      then obtain ticks path where tp: "t = Some ticks" "os_readlink os m = Some path" by auto
      let ?s2 = "?s1\<lparr>v_start_time_ticks := ticks\<rparr>"
      obtain r k where r: "attach os (c_string (take 4095 path)) ?s2 (Suc m) = Some (r, k)" "Suc m < k" "\<forall>s'. r = Ok s' \<longrightarrow> source_ok s'"
        by (rule attach_run [OF assms, of ?s2]) (simp_all add: closed_source_def)
      show ?thesis
        by (rule that [of "r \<noteq> Fail" "case r of Fail \<Rightarrow> closed_source | Ok s' \<Rightarrow> s'" k])
          (use pid False t tp r in \<open>auto simp: roadcast_vhal_open_def identify_def roadcast_vhal_close_def read_executable_path_def split: ret.splits\<close>)
    qed
  qed
qed

section \<open>The start time in the process status\<close>

lemma after_last_append: "b \<notin> set ys \<Longrightarrow> after_last b (xs @ b # ys) = Some ys"
proof -
  assume "b \<notin> set ys"
  then have "takeWhile (\<lambda>x. x \<noteq> b) (rev ys) = rev ys" by (intro takeWhile_eq_all_conv [THEN iffD2]) auto
  then have "takeWhile (\<lambda>x. x \<noteq> b) (rev ys @ b # rev xs) = rev ys" by (simp only: takeWhile_tail simp_thms)
  then show ?thesis by (simp add: after_last_def del: takeWhile_append)
qed

lemma skip_fields_run:
  assumes "list_all (\<lambda>f. f \<noteq> [] \<and> 32 \<notin> set f) ws"
  shows "skip_fields (length ws) (concat (map (\<lambda>f. 32 # f) ws) @ 32 # t) = Some (32 # t)"
  using assms
proof (induction ws)
  case (Cons f ws)
  let ?rest = "concat (map (\<lambda>f. 32 # f) ws) @ 32 # t"
  have f: "f \<noteq> []" "32 \<notin> set f" using Cons.prems by auto
  have rest: "?rest = 32 # tl ?rest" by (cases ws) auto
  have "dropWhile (\<lambda>b. b = 32) (f @ ?rest) = f @ ?rest" using f by (cases f) auto
  moreover have "dropWhile (\<lambda>b. b \<noteq> 32) (f @ ?rest) = ?rest"
  proof -
    have "dropWhile (\<lambda>b. b \<noteq> 32) (f @ ?rest) = dropWhile (\<lambda>b. b \<noteq> 32) ?rest"
      by (rule dropWhile_append2) (use f(2) in auto)
    also have "\<dots> = ?rest" by (subst (1 2) rest) simp
    finally show ?thesis .
  qed
  ultimately show ?case using Cons f by simp
qed simp

lemma is_digit_not: "is_digit b \<Longrightarrow> b \<noteq> 32 \<and> b \<noteq> 45 \<and> b \<noteq> 43 \<and> \<not> is_space b"
  by (auto simp: is_digit_def is_space_def word_le_nat_alt word_eq_iff_unsigned word_unat_eq_iff)

lemma strtoull_digits:
  assumes "ds \<noteq> []" and "list_all is_digit ds" and "dec_value ds \<le> 18446744073709551615"
    and "rest \<noteq> []" and "\<not> is_digit (hd rest)"
  shows "strtoull (ds @ rest) = (of_nat (dec_value ds), False, rest)"
proof -
  have all: "\<forall>b \<in> set ds. is_digit b" using assms(2) by (simp add: list_all_iff)
  have hd: "is_digit (hd ds)" using assms(1) all by simp
  have "dropWhile is_space (ds @ rest) = ds @ rest"
    using assms(1) is_digit_not [OF hd] by (cases ds) auto
  moreover have "takeWhile is_digit (ds @ rest) = ds" "dropWhile is_digit (ds @ rest) = rest"
    using all assms(4,5) by (cases rest; simp add: takeWhile_append2 dropWhile_append2)+
  moreover have "hd (ds @ rest) = hd ds" using assms(1) by simp
  ultimately show ?thesis
    using assms(1,3) is_digit_not [OF hd] by (simp add: strtoull_def Let_def)
qed

section \<open>Properties\<close>


definition example_stat :: bytes where
  "example_stat = map of_char ''7 (a) S'' @ concat (replicate 18 (map of_char '' 1'')) @ map of_char '' 42 0''"

definition example_os :: os where
  "example_os = \<lparr>os_proc = (\<lambda>_. None), os_open = (\<lambda>_. 3),
     os_pread = (\<lambda>_ _ len _. if len = 8 then (8, 0, replicate 8 7) else if length example_stat \<le> len then (int (length example_stat), 0, example_stat) else (- 1, 5, [])),
     os_readlink = (\<lambda>_. None), os_file = (\<lambda>_. None), os_maps = (\<lambda>_. None), os_calloc = (\<lambda>_. True), os_clock = (\<lambda>_. 9),
     os_vm_readv = (\<lambda>_ _ as. (int (length as * 8), 0, concat (map (\<lambda>_. replicate 8 7) as)))\<rparr>"

definition example_source :: roadcast_vhal_source where
  "example_source = closed_source\<lparr>v_pid := 7, v_identity_fd := 3, v_start_time_ticks := 42,
     v_addresses := replicate ROADCAST_FRAME_COUNT 4096, v_local_iov := Some (replicate ROADCAST_FRAME_COUNT 0),
     v_remote_iov := Some (replicate ROADCAST_FRAME_COUNT 4096), v_resolved_count := ROADCAST_FRAME_COUNT\<rparr>"

lemma example_os_ok: "os_ok example_os" "memory_of example_os (\<lambda>_ _. replicate 8 7)"
proof -
  have len: "length (concat (map (\<lambda>_. replicate 8 (7 :: u8)) as)) = length as * 8" for as :: "u64 list"
    by (rule length_concat_const) simp
  show "os_ok example_os"
    unfolding os_ok_def by (intro conjI allI exI [of _ 0]) (auto simp: example_os_def transfer_ok_def interrupted_def len)
  have "length example_stat \<noteq> 8" by (simp add: example_stat_def length_concat sum_list_replicate)
  then show "memory_of example_os (\<lambda>_ _. replicate 8 7)"
    by (auto simp: memory_of_def example_os_def)
qed

lemma example_source_ok: "source_ok example_source"
proof -
  have "live example_source = [0..<111]"
    unfolding live_def by (rule filter_True) (simp add: example_source_def)
  moreover have "map ((!) (replicate 111 (4096 :: u64))) [0..<111] = replicate 111 4096"
    by (rule nth_equalityI) simp_all
  ultimately show ?thesis
    by (simp add: source_ok_def example_source_def closed_source_def)
qed


text \<open>
  C34: The start time is found behind any command name.  The status line of a process holds its name in
  parentheses, and the name may contain spaces, parentheses and digits; the parser returns the twenty-second
  field of the line for every name.
\<close>

theorem start_time_behind_any_name:
  assumes "length ws = 19" and "list_all (\<lambda>f. f \<noteq> [] \<and> 32 \<notin> set f \<and> 41 \<notin> set f) ws"
    and "digits \<noteq> []" and "list_all is_digit digits" and "dec_value digits \<le> 18446744073709551615"
    and "rest \<noteq> []" and "hd rest = 32 \<or> hd rest = 10" and "41 \<notin> set rest"
  shows "parse_start_time (pid @ 32 # 40 # comm @ 41 # concat (map (\<lambda>f. 32 # f) ws) @ 32 # digits @ rest)
    = Some (of_nat (dec_value digits))"
proof -
  let ?ws = "concat (map (\<lambda>f. 32 # f) ws)"
  have no41: "41 \<notin> set (?ws @ 32 # digits @ rest)"
    using assms(2,4,8) by (auto simp: list_all_iff is_digit_def)
  have split: "pid @ 32 # 40 # comm @ 41 # ?ws @ 32 # digits @ rest = (pid @ 32 # 40 # comm) @ 41 # (?ws @ 32 # digits @ rest)"
    by simp
  have "after_last 41 (pid @ 32 # 40 # comm @ 41 # ?ws @ 32 # digits @ rest) = Some (?ws @ 32 # digits @ rest)"
    unfolding split by (rule after_last_append [OF no41])
  moreover have "skip_fields 19 (?ws @ 32 # digits @ rest) = Some (32 # digits @ rest)"
    using skip_fields_run [of ws "digits @ rest"] assms(1,2) by (simp add: list_all_iff)
  moreover have hd: "is_digit (hd digits)" using assms(3,4) by (simp add: list_all_iff)
  then have "dropWhile (\<lambda>b. b = 32) (32 # digits @ rest) = digits @ rest"
    using assms(3) is_digit_not [OF hd] by (cases digits) auto
  moreover have "\<not> is_digit (hd rest)" using assms(7) by (auto simp: is_digit_def)
  then have "strtoull (digits @ rest) = (of_nat (dec_value digits), False, rest)"
    by (rule strtoull_digits [OF assms(3-6)])
  ultimately show ?thesis
    using assms(3,6,7) by (auto simp: parse_start_time_def)
qed

theorem start_time_behind_any_name_witness:
  "parse_start_time (map of_char ''7 (x) 1 2) S'' @ concat (replicate 18 (map of_char '' 1'')) @ map of_char '' 42 0'') = Some 42"
proof -
  have "parse_start_time (map of_char ''7'' @ 32 # 40 # map of_char ''x) 1 2'' @ 41
      # concat (map (\<lambda>f. 32 # f) (map of_char ''S'' # replicate 18 (map of_char ''1''))) @ 32 # map of_char ''42'' @ map of_char '' 0'')
    = Some (of_nat (dec_value (map of_char ''42'')))"
    by (rule start_time_behind_any_name) (simp_all add: list_all_iff is_digit_def dec_value_def)
  then show ?thesis by (simp add: dec_value_def)
qed

end
