(* ===== verification/Source_Session.thy ===== *)
theory Source_Session
  imports Vhal_Source Daemon_State
begin

text \<open>
  The source session, \<^verbatim>\<open>src/source_session.c\<close>: it keeps the vehicle HAL source open, marks every frame unavailable
  while it cannot be read, and retries with a delay that doubles from a quarter of a second up to half a minute.

  The lemmas: the invariant \<open>session_ok\<close> is kept whatever the system does, a failed read never leaves a fresh
  frame behind, and the delay follows the schedule.
\<close>

abbreviation (input) RETRY_INITIAL_NS :: u64 where "RETRY_INITIAL_NS \<equiv> 250000000"
abbreviation (input) RETRY_MAX_NS :: u64 where "RETRY_MAX_NS \<equiv> 30000000000"
abbreviation (input) ROADCAST_SOURCE_WAITING :: int where "ROADCAST_SOURCE_WAITING \<equiv> - 2"

record roadcast_source_session =
  ss_vhal :: roadcast_vhal_source
  ss_process_name :: "bytes option"
  ss_retry_at_ns :: u64
  ss_retry_delay_ns :: u64
  ss_generation :: u64
  ss_connected :: bool

definition mark_unavailable :: "roadcast_frame list \<Rightarrow> roadcast_frame list option" where
  "mark_unavailable frames = for_loop 0 ROADCAST_FRAME_COUNT (\<lambda>i frames. do {
     f \<leftarrow> rd frames i;
     can_id \<leftarrow> rd ROADCAST_CAN_IDS i;
     poke i [f\<lparr>f_can_id := can_id, f_state := ROADCAST_OBSERVATION_UNAVAILABLE\<rparr>] frames })
     (map (\<lambda>_. zero_frame) frames)"

definition schedule_retry :: "roadcast_source_session \<Rightarrow> u64 \<Rightarrow> roadcast_source_session" where
  "schedule_retry session now_ns = session\<lparr>ss_vhal := roadcast_vhal_close (ss_vhal session), ss_connected := False,
     ss_retry_at_ns := now_ns + ss_retry_delay_ns session,
     ss_retry_delay_ns := (if ss_retry_delay_ns session < RETRY_MAX_NS div 2 then ss_retry_delay_ns session * 2
       else RETRY_MAX_NS)\<rparr>"

text \<open>The copy of the name is \<^const>\<open>None\<close> when \<^verbatim>\<open>strdup\<close> fails.\<close>

definition roadcast_source_session_init :: "bytes option \<Rightarrow> bool \<times> roadcast_source_session" where
  "roadcast_source_session_init copy = (copy \<noteq> None,
     \<lparr>ss_vhal = closed_source, ss_process_name = copy, ss_retry_at_ns = 0, ss_retry_delay_ns = RETRY_INITIAL_NS,
       ss_generation = 0, ss_connected = False\<rparr>)"

text \<open>The part of \<^verbatim>\<open>roadcast_source_session_read\<close> that runs once the source is connected.\<close>

definition read_connected :: "os \<Rightarrow> roadcast_source_session \<Rightarrow> roadcast_frame list \<Rightarrow> u64 \<Rightarrow> nat
    \<Rightarrow> (int \<times> roadcast_frame list \<times> roadcast_source_session \<times> nat) option" where
  "read_connected os session frames now_ns n = do {
     (result, frames, vhal, n) \<leftarrow> roadcast_vhal_read os (ss_vhal session) frames n;
     let session = session\<lparr>ss_vhal := vhal\<rparr>;
     if result < 0 then do {
       frames \<leftarrow> mark_unavailable frames;
       Some (result, frames, schedule_retry session now_ns, n) }
     else Some (result, frames, session\<lparr>ss_retry_delay_ns := RETRY_INITIAL_NS\<rparr>, n) }"

definition roadcast_source_session_read :: "os \<Rightarrow> roadcast_source_session \<Rightarrow> roadcast_frame list \<Rightarrow> u64 \<Rightarrow> nat
    \<Rightarrow> (int \<times> roadcast_frame list \<times> roadcast_source_session \<times> nat) option" where
  "roadcast_source_session_read os session frames now_ns n =
    (if ss_connected session then read_connected os session frames now_ns n
     else do {
       frames \<leftarrow> mark_unavailable frames;
       if now_ns < ss_retry_at_ns session then Some (ROADCAST_SOURCE_WAITING, frames, session, n)
       else do {
         name \<leftarrow> ss_process_name session;
         (opened, vhal, n) \<leftarrow> roadcast_vhal_open os name n;
         let session = session\<lparr>ss_vhal := vhal\<rparr>;
         if \<not> opened then Some (- 1, frames, schedule_retry session now_ns, n)
         else read_connected os (session\<lparr>ss_connected := True, ss_generation := ss_generation session + 1\<rparr>)
           frames now_ns n } })"

definition roadcast_source_session_close :: "roadcast_source_session \<Rightarrow> roadcast_source_session" where
  "roadcast_source_session_close session = session\<lparr>ss_vhal := roadcast_vhal_close (ss_vhal session),
     ss_process_name := None, ss_connected := False\<rparr>"

section \<open>The invariant\<close>

definition session_ok :: "roadcast_source_session \<Rightarrow> bool" where
  "session_ok session \<longleftrightarrow> ss_process_name session \<noteq> None \<and> (ss_connected session \<longrightarrow> source_ok (ss_vhal session))
     \<and> RETRY_INITIAL_NS \<le> ss_retry_delay_ns session \<and> ss_retry_delay_ns session \<le> RETRY_MAX_NS"

lemma retry_delay_unat:
  assumes "ss_retry_delay_ns s \<le> RETRY_MAX_NS"
  shows "unat (ss_retry_delay_ns (schedule_retry s t)) = min (2 * unat (ss_retry_delay_ns s)) 30000000000 \<or>
    15000000000 \<le> unat (ss_retry_delay_ns s) \<and> unat (ss_retry_delay_ns (schedule_retry s t)) = 30000000000"
proof (cases "ss_retry_delay_ns s < RETRY_MAX_NS div 2")
  case True
  then have "unat (ss_retry_delay_ns s) < 15000000000" by (simp add: word_less_nat_alt)
  moreover from this have "unat (ss_retry_delay_ns s * 2) = unat (ss_retry_delay_ns s) * 2"
    by (simp add: unat_word_ariths)
  ultimately show ?thesis using True by (simp add: schedule_retry_def)
next
  case False
  then have "15000000000 \<le> unat (ss_retry_delay_ns s)" by (simp add: word_less_nat_alt)
  with False show ?thesis by (simp add: schedule_retry_def)
qed

lemma retry_delay_doubles:
  assumes "ss_retry_delay_ns s \<le> RETRY_MAX_NS"
  shows "unat (ss_retry_delay_ns (schedule_retry s t)) = min (2 * unat (ss_retry_delay_ns s)) 30000000000"
  using retry_delay_unat [OF assms, of t] by auto

lemma schedule_retry_ok:
  assumes "session_ok s"
  shows "session_ok (schedule_retry s t)"
proof -
  have "250000000 \<le> unat (ss_retry_delay_ns s)" "ss_retry_delay_ns s \<le> RETRY_MAX_NS"
    using assms by (simp_all add: session_ok_def word_le_nat_alt)
  with retry_delay_doubles [OF this(2), of t]
  have "250000000 \<le> unat (ss_retry_delay_ns (schedule_retry s t))" "unat (ss_retry_delay_ns (schedule_retry s t)) \<le> 30000000000"
    by auto
  with assms show ?thesis
    by (simp add: session_ok_def word_le_nat_alt schedule_retry_def)
qed

definition unavailable_frames :: "roadcast_frame list" where
  "unavailable_frames = map (\<lambda>can_id. zero_frame\<lparr>f_can_id := can_id\<rparr>) ROADCAST_CAN_IDS"

lemma unavailable_frames_props: "no_sample unavailable_frames" "data_wf unavailable_frames"
  by (simp_all add: no_sample_def unavailable_frames_def zero_frame_def data_wf_def)

lemma mark_unavailable_run:
  assumes "length frames = ROADCAST_FRAME_COUNT"
  shows "mark_unavailable frames = Some unavailable_frames"
proof -
  let ?g = "\<lambda>i. zero_frame\<lparr>f_can_id := ROADCAST_CAN_IDS ! i\<rparr>"
  have "mark_unavailable frames = Some (map ?g [0..<111])"
    unfolding mark_unavailable_def
    by (rule for_loop_update) (use assms in \<open>simp_all add: rd_Some zero_frame_def\<close>)
  also have "map ?g [0..<111] = unavailable_frames"
    by (rule nth_equalityI) (simp_all add: unavailable_frames_def)
  finally show ?thesis .
qed

lemma sample_of_wf: "sample_of mem source lo hi frames \<Longrightarrow> \<forall>n a. length (mem n a) = 8 \<Longrightarrow> data_wf frames"
  by (auto simp: sample_of_def data_wf_nth split: if_splits)

text \<open>What a read gives: a whole sample, or nothing but unavailable frames.\<close>

definition read_outcome :: "(nat \<Rightarrow> u64 \<Rightarrow> bytes) \<Rightarrow> int \<Rightarrow> roadcast_frame list \<Rightarrow> roadcast_source_session \<Rightarrow> nat \<Rightarrow> nat \<Rightarrow> bool" where
  "read_outcome mem rc frames s n m \<longleftrightarrow> (rc = - 1 \<or> rc = ROADCAST_SOURCE_WAITING) \<and> frames = unavailable_frames \<and> \<not> ss_connected s
     \<or> (rc = 0 \<or> rc = 1) \<and> sample_of mem (ss_vhal s) n m frames \<and> ss_connected s \<and> ss_retry_delay_ns s = RETRY_INITIAL_NS"

lemma read_connected_run:
  assumes os: "os_ok os" "memory_of os mem" and s: "session_ok s" "ss_connected s" and frames: "data_wf frames"
  obtains rc frames' s' m where "read_connected os s frames now n = Some (rc, frames', s', m)" and "session_ok s'" and "n < m"
    and "read_outcome mem rc frames' s' n m" and "ss_generation s' = ss_generation s"
    and "rc = - 1 \<longrightarrow> ss_retry_delay_ns s' = ss_retry_delay_ns (schedule_retry s now) \<and> ss_retry_at_ns s' = now + ss_retry_delay_ns s"
    and "rc \<noteq> ROADCAST_SOURCE_WAITING"
proof -
  have src: "source_ok (ss_vhal s)" using s by (simp add: session_ok_def)
  obtain rc fs v m where r: "roadcast_vhal_read os (ss_vhal s) frames n = Some (rc, fs, v, m)" "source_ok v"
    "v_addresses v = v_addresses (ss_vhal s)" "n < m"
    "rc = - 1 \<and> data_wf fs \<or> (rc = 0 \<or> rc = 1) \<and> sample_of mem (ss_vhal s) n m fs \<and> (\<exists>k. verify_identity os v k = Some (True, m))"
    by (rule vhal_read_run [OF os src frames])
  show thesis
  proof (cases "rc = - 1")
    case True
    then have len: "length fs = 111" using r(5) by (auto simp: data_wf_def)
    let ?s = "schedule_retry (s\<lparr>ss_vhal := v\<rparr>) now"
    have "session_ok (s\<lparr>ss_vhal := v\<rparr>)" using s(1) r(2) by (simp add: session_ok_def)
    then have "session_ok ?s" by (rule schedule_retry_ok)
    with True r(1,4) mark_unavailable_run [OF len] show ?thesis
      by (intro that [of "- 1" unavailable_frames ?s m]) (simp_all add: read_connected_def read_outcome_def schedule_retry_def)
  next
    case False
    let ?s = "s\<lparr>ss_vhal := v, ss_retry_delay_ns := RETRY_INITIAL_NS\<rparr>"
    have rc: "rc = 0 \<or> rc = 1" and sample: "sample_of mem (ss_vhal s) n m fs" using False r(5) by auto
    have "sample_of mem v n m fs" by (rule sample_of_mono [OF sample]) (use r(3) in simp_all)
    moreover have "session_ok ?s" using s(1) r(2) by (simp add: session_ok_def)
    ultimately show ?thesis
      using rc r(1,4) s(2) by (intro that [of rc fs ?s m]) (auto simp: read_connected_def read_outcome_def)
  qed
qed

lemma session_read_run:
  assumes os: "os_ok os" "memory_of os mem" "no_null_address os" and s: "session_ok s" and frames: "data_wf frames"
  obtains rc frames' s' m where "roadcast_source_session_read os s frames now n = Some (rc, frames', s', m)"
    and "session_ok s'" and "n \<le> m" and "read_outcome mem rc frames' s' n m"
    and "rc = ROADCAST_SOURCE_WAITING \<longleftrightarrow> \<not> ss_connected s \<and> now < ss_retry_at_ns s"
    and "rc = ROADCAST_SOURCE_WAITING \<longrightarrow> s' = s \<and> m = n"
    and "rc = - 1 \<longrightarrow> ss_retry_delay_ns s' = ss_retry_delay_ns (schedule_retry s now) \<and> ss_retry_at_ns s' = now + ss_retry_delay_ns s"
    and "0 \<le> rc \<longrightarrow> ss_generation s' = (if ss_connected s then ss_generation s else ss_generation s + 1)"
proof (cases "ss_connected s")
  case True
  obtain rc fs s' m where r: "read_connected os s frames now n = Some (rc, fs, s', m)" "session_ok s'" "n < m"
    "read_outcome mem rc fs s' n m" "ss_generation s' = ss_generation s"
    "rc = - 1 \<longrightarrow> ss_retry_delay_ns s' = ss_retry_delay_ns (schedule_retry s now) \<and> ss_retry_at_ns s' = now + ss_retry_delay_ns s"
    "rc \<noteq> ROADCAST_SOURCE_WAITING"
    by (rule read_connected_run [OF os(1,2) s True frames])
  show ?thesis
    by (rule that [of rc fs s' m]) (use r True in \<open>simp_all add: roadcast_source_session_read_def\<close>)
next
  case disc: False
  have len: "length frames = 111" using frames by (simp add: data_wf_def)
  note start = mark_unavailable_run [OF len]
  show ?thesis
  proof (cases "now < ss_retry_at_ns s")
    case True
    with disc start s show ?thesis
      by (intro that [of "- 2" unavailable_frames s n]) (simp_all add: roadcast_source_session_read_def read_outcome_def)
  next
    case False
    obtain name where name: "ss_process_name s = Some name" using s by (auto simp: session_ok_def)
    obtain opened v m where o: "roadcast_vhal_open os name n = Some (opened, v, m)" "n < m" "opened \<longrightarrow> source_ok v"
      by (rule vhal_open_run [OF os(1,3)])
    show ?thesis
    proof (cases opened)
      case no: False
      have "session_ok (s\<lparr>ss_vhal := v\<rparr>)" using s disc by (simp add: session_ok_def)
      then have "session_ok (schedule_retry (s\<lparr>ss_vhal := v\<rparr>) now)" by (rule schedule_retry_ok)
      with disc False start name o no show ?thesis
        by (intro that [of "- 1" unavailable_frames "schedule_retry (s\<lparr>ss_vhal := v\<rparr>) now" m])
          (simp_all add: roadcast_source_session_read_def read_outcome_def schedule_retry_def)
    next
      case yes: True
      let ?s = "s\<lparr>ss_vhal := v, ss_connected := True, ss_generation := ss_generation s + 1\<rparr>"
      have ok: "session_ok ?s" "ss_connected ?s" using s o(3) yes by (simp_all add: session_ok_def)
      obtain rc fs s' k where r: "read_connected os ?s unavailable_frames now m = Some (rc, fs, s', k)" "session_ok s'" "m < k"
        "read_outcome mem rc fs s' m k" "ss_generation s' = ss_generation ?s"
        "rc = - 1 \<longrightarrow> ss_retry_delay_ns s' = ss_retry_delay_ns (schedule_retry ?s now) \<and> ss_retry_at_ns s' = now + ss_retry_delay_ns ?s"
        "rc \<noteq> ROADCAST_SOURCE_WAITING"
        by (rule read_connected_run [OF os(1,2) ok unavailable_frames_props(2)])
      have "read_outcome mem rc fs s' n k"
        using r(4) o(2) by (auto simp: read_outcome_def intro: sample_of_mono)
      with disc False start name o yes r show ?thesis
        by (intro that [of rc fs s' k]) (auto simp: roadcast_source_session_read_def schedule_retry_def)
    qed
  qed
qed

section \<open>Properties\<close>

text \<open>
  C32: A failed source never publishes a partly fresh sample.  Whatever the system answers, a read of the session
  returns, and either gives a whole sample of the process, or reports failure (or that it is waiting) with every
  frame blank and unavailable.  Waiting makes no system call and changes nothing; a failure sets the time of the
  next attempt; a success resets the delay and counts a new generation exactly when the source was reopened.
\<close>

theorem session_read_all_or_nothing:
  assumes "os_ok os" and "memory_of os mem" and "no_null_address os" and "session_ok s" and "data_wf frames"
  shows "\<exists>rc frames' s' m. roadcast_source_session_read os s frames now n = Some (rc, frames', s', m) \<and> session_ok s'
    \<and> (0 \<le> rc \<longrightarrow> sample_of mem (ss_vhal s') n m frames' \<and> ss_connected s' \<and> ss_retry_delay_ns s' = RETRY_INITIAL_NS
         \<and> ss_generation s' = (if ss_connected s then ss_generation s else ss_generation s + 1))
    \<and> (rc < 0 \<longrightarrow> (\<forall>i < ROADCAST_FRAME_COUNT. frames' ! i = zero_frame\<lparr>f_can_id := ROADCAST_CAN_IDS ! i\<rparr>) \<and> \<not> ss_connected s')
    \<and> (rc = - 1 \<longrightarrow> ss_retry_at_ns s' = now + ss_retry_delay_ns s)
    \<and> (rc = ROADCAST_SOURCE_WAITING \<longleftrightarrow> \<not> ss_connected s \<and> now < ss_retry_at_ns s)
    \<and> (rc = ROADCAST_SOURCE_WAITING \<longrightarrow> s' = s \<and> m = n)"
proof -
  obtain rc fs s' m where r: "roadcast_source_session_read os s frames now n = Some (rc, fs, s', m)" "session_ok s'"
    and out: "read_outcome mem rc fs s' n m"
    and more: "rc = ROADCAST_SOURCE_WAITING \<longleftrightarrow> \<not> ss_connected s \<and> now < ss_retry_at_ns s"
      "rc = ROADCAST_SOURCE_WAITING \<longrightarrow> s' = s \<and> m = n"
      "rc = - 1 \<longrightarrow> ss_retry_delay_ns s' = ss_retry_delay_ns (schedule_retry s now) \<and> ss_retry_at_ns s' = now + ss_retry_delay_ns s"
      "0 \<le> rc \<longrightarrow> ss_generation s' = (if ss_connected s then ss_generation s else ss_generation s + 1)"
    by (rule session_read_run [OF assms])
  have "rc < 0 \<longrightarrow> (\<forall>i < 111. fs ! i = zero_frame\<lparr>f_can_id := ROADCAST_CAN_IDS ! i\<rparr>) \<and> \<not> ss_connected s'"
    using out by (auto simp: read_outcome_def unavailable_frames_def)
  moreover have "0 \<le> rc \<longrightarrow> sample_of mem (ss_vhal s') n m fs \<and> ss_connected s' \<and> ss_retry_delay_ns s' = RETRY_INITIAL_NS"
    using out by (auto simp: read_outcome_def)
  ultimately show ?thesis using r more by blast
qed

lemma example_no_null_address: "no_null_address example_os"
  by (simp add: no_null_address_def example_os_def roadcast_vhal_resolve_symbols_def)

theorem session_read_all_or_nothing_witness:
  "\<exists>rc frames' s' m. roadcast_source_session_read example_os (snd (roadcast_source_session_init (Some [97]))) unavailable_frames 5 0
    = Some (rc, frames', s', m) \<and> session_ok s'"
proof -
  have "session_ok (snd (roadcast_source_session_init (Some [97])))"
    by (simp add: session_ok_def roadcast_source_session_init_def)
  from session_read_all_or_nothing [OF example_os_ok example_no_null_address this unavailable_frames_props(2), of 5 0]
  show ?thesis by blast
qed

text \<open>
  C33: The retry delay follows its schedule.  After any number of consecutive failures the delay is a quarter of a
  second doubled that many times, but never more than thirty seconds.
\<close>

theorem retry_backoff:
  "unat (ss_retry_delay_ns (foldl schedule_retry (snd (roadcast_source_session_init copy)) ts))
    = min (250000000 * 2 ^ length ts) 30000000000"
proof (induction ts rule: rev_induct)
  case Nil
  show ?case by (simp add: roadcast_source_session_init_def)
next
  case (snoc t ts)
  let ?s = "foldl schedule_retry (snd (roadcast_source_session_init copy)) ts"
  have "ss_retry_delay_ns ?s \<le> RETRY_MAX_NS" using snoc by (simp add: word_le_nat_alt)
  from retry_delay_doubles [OF this, of t] snoc show ?case by simp
qed

end
