(* ===== verification/Sampler.thy ===== *)
theory Sampler
  imports Source_Session
begin

text \<open>
  The sampler thread of the daemon, \<^verbatim>\<open>src/roadcastd.c\<close>: at every tick it reads the source (or makes up frames in
  the fake mode), merges the sample into its working frames, and publishes a copy under a lock.  The working
  frames belong to the thread; the server only ever sees the published copy, through \<^verbatim>\<open>sampler_read_latest\<close>, so
  that publishing and reading are each one atomic step.

  The lemmas: the frames keep the identifiers of the table, eight bytes of data and a state that agrees with their
  time stamps, and the time stamps are ordered.
\<close>

text \<open>
  \<open>sm_notified\<close> stands for \<^verbatim>\<open>notification\<close>: whether \<^verbatim>\<open>uv_async_send\<close> has been called since the callback last ran.
\<close>

record sampler =
  sm_stop_requested :: bool
  sm_source_errors :: u64
  sm_fallback_batches :: u64
  sm_source_state :: u8
  sm_source :: roadcast_source_session
  sm_working :: "roadcast_frame list"
  sm_published :: "roadcast_frame list"
  sm_published_sequence :: u64
  sm_published_timestamp_ns :: u64
  sm_period_ns :: u64
  sm_fake :: int
  sm_thread_started :: bool
  sm_notified :: bool

section \<open>Frames\<close>

definition initialize_fake_frames :: "roadcast_frame list \<Rightarrow> roadcast_frame list option" where
  "initialize_fake_frames frames = for_loop 0 ROADCAST_FRAME_COUNT (\<lambda>i frames. do {
     f \<leftarrow> rd frames i;
     can_id \<leftarrow> rd ROADCAST_CAN_IDS i;
     poke i [f\<lparr>f_can_id := can_id, f_state := ROADCAST_OBSERVATION_NEVER_OBSERVED\<rparr>] frames })
     (map (\<lambda>_. zero_frame) frames)"

text \<open>The bytes of a 64-bit value in memory, on a little-endian machine.\<close>

definition le64 :: "u64 \<Rightarrow> bytes" where
  "le64 v = map (\<lambda>k. ucast (drop_bit (8 * k) v)) [0..<8]"

definition update_fake_frames :: "roadcast_frame list \<Rightarrow> u64 \<Rightarrow> bool \<Rightarrow> roadcast_frame list option" where
  "update_fake_frames frames sequence dense = for_loop 0 ROADCAST_FRAME_COUNT (\<lambda>i frames. do {
     f \<leftarrow> rd frames i;
     let v = (if dense then if sequence AND 1 \<noteq> 0 then UINT64_MAX else 0 else sequence + of_nat i);
     poke i [f\<lparr>f_data := le64 v\<rparr>] frames }) frames"

text \<open>The body of the loop of \<^verbatim>\<open>merge_sampled_frames\<close>.\<close>

definition merge_frame :: "u64 \<Rightarrow> bool \<Rightarrow> roadcast_frame \<Rightarrow> roadcast_frame \<Rightarrow> roadcast_frame" where
  "merge_frame timestamp_ns initialize destination sampled =
    (if initialize then sampled\<lparr>f_first_observed_ns := 0, f_last_change_ns := 0\<rparr>
     else if f_state sampled = ROADCAST_OBSERVATION_UNAVAILABLE
     then destination\<lparr>f_state := ROADCAST_OBSERVATION_UNAVAILABLE\<rparr>
     else let d = (if f_data destination \<noteq> f_data sampled
         then destination\<lparr>f_data := f_data sampled,
           f_first_observed_ns := (if f_first_observed_ns destination = 0 then timestamp_ns else f_first_observed_ns destination),
           f_last_change_ns := timestamp_ns\<rparr>
         else destination)
       in d\<lparr>f_can_id := f_can_id sampled, f_state := (if f_first_observed_ns d \<noteq> 0 then ROADCAST_OBSERVATION_VALID
         else ROADCAST_OBSERVATION_NEVER_OBSERVED)\<rparr>)"

definition merge_sampled_frames ::
    "roadcast_frame list \<Rightarrow> roadcast_frame list \<Rightarrow> u64 \<Rightarrow> bool \<Rightarrow> roadcast_frame list option" where
  "merge_sampled_frames destination sampled timestamp_ns initialize = for_loop 0 ROADCAST_FRAME_COUNT (\<lambda>i destination. do {
     d \<leftarrow> rd destination i;
     s \<leftarrow> rd sampled i;
     poke i [merge_frame timestamp_ns initialize d s] destination }) destination"

section \<open>Ticks\<close>

definition count_read :: "int \<Rightarrow> sampler \<Rightarrow> sampler" where
  "count_read read_result s = (if read_result = - 1 then s\<lparr>sm_source_errors := sm_source_errors s + 1\<rparr>
     else if read_result > 0 then s\<lparr>sm_fallback_batches := sm_fallback_batches s + 1\<rparr> else s)"

definition state_of_read :: "int \<Rightarrow> u8" where
  "state_of_read read_result = (if read_result < 0 then ROADCAST_SOURCE_STATE_UNAVAILABLE
     else if read_result > 0 then ROADCAST_SOURCE_STATE_DEGRADED else ROADCAST_SOURCE_STATE_AVAILABLE)"

definition sampler_publish :: "sampler \<Rightarrow> u64 \<Rightarrow> u64 \<Rightarrow> sampler" where
  "sampler_publish s sequence timestamp_ns = s\<lparr>sm_published := sm_working s, sm_published_sequence := sequence,
     sm_published_timestamp_ns := timestamp_ns, sm_notified := True\<rparr>"

definition sampler_read_latest :: "sampler \<Rightarrow> roadcast_frame list \<times> u64 \<times> u64" where
  "sampler_read_latest s = (sm_published s, sm_published_sequence s, sm_published_timestamp_ns s)"

text \<open>One read of the source from the thread: the result, whether the source is a new one, and the sample.\<close>

definition take_sample :: "os \<Rightarrow> u64 \<Rightarrow> sampler \<Rightarrow> nat \<Rightarrow> (int \<times> bool \<times> roadcast_frame list \<times> sampler \<times> nat) option" where
  "take_sample os sequence s n =
    (if sm_fake s \<noteq> 0 then do {
       sampled \<leftarrow> initialize_fake_frames (replicate ROADCAST_FRAME_COUNT zero_frame);
       sampled \<leftarrow> update_fake_frames sampled sequence (sm_fake s = 2);
       Some (0, False, sampled, s, n) }
     else do {
       let generation = ss_generation (sm_source s);
       (read_result, sampled, source, n) \<leftarrow> roadcast_source_session_read os (sm_source s)
         (replicate ROADCAST_FRAME_COUNT zero_frame) (os_clock os n) (Suc n);
       Some (read_result, read_result \<ge> 0 \<and> generation \<noteq> ss_generation source, sampled,
         count_read read_result (s\<lparr>sm_source := source\<rparr>), n) })"

text \<open>
  \<^verbatim>\<open>sleep_until\<close>: \<open>interrupts n\<close> says whether a \<^verbatim>\<open>nanosleep\<close> that is call number \<open>n\<close> ends with \<^verbatim>\<open>EINTR\<close>.
\<close>

partial_function (option) sleep_until :: "os \<Rightarrow> (nat \<Rightarrow> bool) \<Rightarrow> u64 \<Rightarrow> nat \<Rightarrow> nat option" where
  "sleep_until os interrupts deadline_ns n =
    (if os_clock os n \<ge> deadline_ns then Some (Suc n)
     else if interrupts (Suc n) then sleep_until os interrupts deadline_ns (Suc (Suc n))
     else Some (Suc (Suc n)))"

text \<open>
  The state of the thread is the sampler with the two local variables \<^verbatim>\<open>sequence\<close> and \<^verbatim>\<open>next_tick\<close>.  One turn of
  the loop of \<^verbatim>\<open>sampler_thread_main\<close> is in two parts, because another thread may set \<^verbatim>\<open>stop_requested\<close> while it
  sleeps: up to the end of the sleep, and from the second test on.  The result is the thread, or nothing when the
  loop is left.
\<close>

type_synonym thread = "sampler \<times> u64 \<times> u64"

definition sampler_thread_start :: "os \<Rightarrow> sampler \<Rightarrow> nat \<Rightarrow> thread \<times> nat" where
  "sampler_thread_start os s n = ((s, sm_published_sequence s, os_clock os n), Suc n)"

definition sampler_wait :: "os \<Rightarrow> (nat \<Rightarrow> bool) \<Rightarrow> thread \<Rightarrow> nat \<Rightarrow> (thread option \<times> nat) option" where
  "sampler_wait os interrupts = (\<lambda>(s, sequence, next_tick) n.
     if sm_stop_requested s then Some (None, n)
     else do {
       let next_tick = next_tick + sm_period_ns s;
       n \<leftarrow> sleep_until os interrupts next_tick n;
       Some (Some (s, sequence, next_tick), n) })"

definition sampler_work :: "os \<Rightarrow> thread \<Rightarrow> nat \<Rightarrow> (thread option \<times> nat) option" where
  "sampler_work os = (\<lambda>(s, sequence, next_tick) n.
     if sm_stop_requested s then Some (None, n)
     else do {
       let sequence = sequence + 1;
       (read_result, new_source, sampled, s, n) \<leftarrow> take_sample os sequence s n;
       let timestamp_ns = os_clock os n;
       working \<leftarrow> merge_sampled_frames (sm_working s) sampled timestamp_ns new_source;
       let s = s\<lparr>sm_working := working, sm_source_state := state_of_read read_result\<rparr>;
       let s = sampler_publish s sequence timestamp_ns;
       let now = os_clock os (Suc n);
       Some (Some (s, sequence, if now > next_tick + sm_period_ns s then now else next_tick), Suc (Suc n)) })"

text \<open>The sampler after \<^verbatim>\<open>memset\<close> and the initialisation of its counters; a rate of zero would divide by zero.\<close>

definition zero_session :: roadcast_source_session where
  "zero_session = \<lparr>ss_vhal = closed_source\<lparr>v_mem_fd := 0, v_identity_fd := 0\<rparr>, ss_process_name = None,
     ss_retry_at_ns = 0, ss_retry_delay_ns = 0, ss_generation = 0, ss_connected = False\<rparr>"

definition blank_sampler :: "u32 \<Rightarrow> int \<Rightarrow> sampler option" where
  "blank_sampler hz fake = (if hz = 0 then None else Some
     \<lparr>sm_stop_requested = False, sm_source_errors = 0, sm_fallback_batches = 0,
       sm_source_state = ROADCAST_SOURCE_STATE_AVAILABLE, sm_source = zero_session,
       sm_working = replicate ROADCAST_FRAME_COUNT zero_frame, sm_published = replicate ROADCAST_FRAME_COUNT zero_frame,
       sm_published_sequence = 0, sm_published_timestamp_ns = 0, sm_period_ns = 1000000000 div ucast hz, sm_fake = fake,
       sm_thread_started = False, sm_notified = False\<rparr>)"

text \<open>The first sample and the first publication.\<close>

definition first_sample :: "os \<Rightarrow> sampler \<Rightarrow> nat \<Rightarrow> (sampler \<times> nat) option" where
  "first_sample os s n = do {
     (read_result, sampled, s, n) \<leftarrow> (if sm_fake s \<noteq> 0 then do {
         sampled \<leftarrow> initialize_fake_frames (replicate ROADCAST_FRAME_COUNT zero_frame);
         Some (0, sampled, s, n) }
       else do {
         (read_result, sampled, source, n) \<leftarrow> roadcast_source_session_read os (sm_source s)
           (replicate ROADCAST_FRAME_COUNT zero_frame) (os_clock os n) (Suc n);
         Some (read_result, sampled, count_read read_result (s\<lparr>sm_source := source\<rparr>), n) });
     working \<leftarrow> merge_sampled_frames (sm_working s) sampled (os_clock os n) True;
     Some (s\<lparr>sm_working := working, sm_source_state := state_of_read read_result, sm_published := working,
       sm_published_sequence := 0, sm_published_timestamp_ns := os_clock os (Suc n)\<rparr>, Suc (Suc n)) }"

text \<open>\<open>lock_ok\<close> says whether the mutex could be initialised, \<open>copy\<close> is the copy of the process name.\<close>

definition sampler_init :: "os \<Rightarrow> bool \<Rightarrow> u32 \<Rightarrow> int \<Rightarrow> bytes option \<Rightarrow> nat \<Rightarrow> (sampler ret \<times> nat) option" where
  "sampler_init os lock_ok hz fake copy n = do {
     s \<leftarrow> blank_sampler hz fake;
     if \<not> lock_ok then Some (Fail, n)
     else do {
       let (named, source) = (if fake \<noteq> 0 then (True, sm_source s) else roadcast_source_session_init copy);
       if \<not> named then Some (Fail, n)
       else do {
         (s, n) \<leftarrow> first_sample os (s\<lparr>sm_source := source\<rparr>) n;
         Some (Ok s, n) } } }"

definition sampler_start :: "bool \<Rightarrow> sampler \<Rightarrow> bool \<times> sampler" where
  "sampler_start created s = (if \<not> created then (False, s) else (True, s\<lparr>sm_thread_started := True\<rparr>))"

definition sampler_stop :: "sampler \<Rightarrow> sampler" where
  "sampler_stop s = (let s = s\<lparr>sm_stop_requested := True\<rparr> in
     if sm_thread_started s then s\<lparr>sm_thread_started := False\<rparr> else s)"

definition sampler_destroy :: "sampler \<Rightarrow> sampler" where
  "sampler_destroy s = (let s = sampler_stop s in
     if sm_fake s = 0 then s\<lparr>sm_source := roadcast_source_session_close (sm_source s)\<rparr> else s)"

section \<open>The loops\<close>

definition fresh_frames :: "roadcast_frame list" where
  "fresh_frames = map (\<lambda>can_id. zero_frame\<lparr>f_can_id := can_id, f_state := ROADCAST_OBSERVATION_NEVER_OBSERVED\<rparr>) ROADCAST_CAN_IDS"

lemma fake_frames_run:
  assumes "length frames = ROADCAST_FRAME_COUNT"
  shows "initialize_fake_frames frames = Some fresh_frames"
proof -
  let ?g = "\<lambda>i. zero_frame\<lparr>f_can_id := ROADCAST_CAN_IDS ! i, f_state := ROADCAST_OBSERVATION_NEVER_OBSERVED\<rparr>"
  have "initialize_fake_frames frames = Some (map ?g [0..<111])"
    unfolding initialize_fake_frames_def
    by (rule for_loop_update) (use assms in \<open>simp_all add: rd_Some zero_frame_def\<close>)
  also have "map ?g [0..<111] = fresh_frames"
    by (rule nth_equalityI) (simp_all add: fresh_frames_def)
  finally show ?thesis .
qed

definition fake_value :: "u64 \<Rightarrow> bool \<Rightarrow> nat \<Rightarrow> u64" where
  "fake_value sequence dense i = (if dense then if sequence AND 1 \<noteq> 0 then UINT64_MAX else 0 else sequence + of_nat i)"

lemma fake_update_run:
  assumes "length frames = ROADCAST_FRAME_COUNT"
  shows "update_fake_frames frames sequence dense
    = Some (map (\<lambda>i. (frames ! i)\<lparr>f_data := le64 (fake_value sequence dense i)\<rparr>) [0..<ROADCAST_FRAME_COUNT])"
  unfolding update_fake_frames_def
  by (rule for_loop_update) (use assms in \<open>simp_all add: rd_Some fake_value_def del: One_nat_def\<close>)

lemma merge_run:
  assumes "length destination = ROADCAST_FRAME_COUNT" and "length sampled = ROADCAST_FRAME_COUNT"
  shows "merge_sampled_frames destination sampled t new = Some (map2 (merge_frame t new) destination sampled)"
proof -
  let ?g = "\<lambda>i. merge_frame t new (destination ! i) (sampled ! i)"
  have "merge_sampled_frames destination sampled t new = Some (map ?g [0..<111])"
    unfolding merge_sampled_frames_def
    by (rule for_loop_update) (use assms in \<open>simp_all add: rd_Some\<close>)
  also have "map ?g [0..<111] = map2 (merge_frame t new) destination sampled"
    by (rule nth_equalityI) (use assms in simp_all)
  finally show ?thesis .
qed

section \<open>The frames of the sampler\<close>

text \<open>
  A sample is a whole one: the identifiers of the table, eight bytes each, and a state that says only whether the
  frame could be read.
\<close>

definition sampled_ok :: "roadcast_frame list \<Rightarrow> bool" where
  "sampled_ok fs \<longleftrightarrow> length fs = ROADCAST_FRAME_COUNT \<and> (\<forall>i < ROADCAST_FRAME_COUNT. f_can_id (fs ! i) = ROADCAST_CAN_IDS ! i
     \<and> length (f_data (fs ! i)) = 8
     \<and> (f_state (fs ! i) = ROADCAST_OBSERVATION_UNAVAILABLE \<or> f_state (fs ! i) = ROADCAST_OBSERVATION_NEVER_OBSERVED))"

text \<open>
  A frame the sampler keeps: unless it is unavailable, it is valid exactly when it has been observed; it changed
  for the last time no earlier than for the first, and not after \<open>t\<close>.
\<close>

definition observed_ok :: "u64 \<Rightarrow> roadcast_frame \<Rightarrow> bool" where
  "observed_ok t f \<longleftrightarrow> (f_state f = ROADCAST_OBSERVATION_UNAVAILABLE
       \<or> f_state f = (if f_first_observed_ns f = 0 then ROADCAST_OBSERVATION_NEVER_OBSERVED else ROADCAST_OBSERVATION_VALID))
     \<and> f_first_observed_ns f \<le> f_last_change_ns f \<and> f_last_change_ns f \<le> t"

definition merged_ok :: "u64 \<Rightarrow> roadcast_frame list \<Rightarrow> bool" where
  "merged_ok t fs \<longleftrightarrow> length fs = ROADCAST_FRAME_COUNT \<and> (\<forall>i < ROADCAST_FRAME_COUNT. f_can_id (fs ! i) = ROADCAST_CAN_IDS ! i
     \<and> length (f_data (fs ! i)) = 8 \<and> observed_ok t (fs ! i))"

lemma merge_new_ok:
  assumes "length fs = ROADCAST_FRAME_COUNT" and "sampled_ok sampled"
  shows "merged_ok u (map2 (merge_frame t True) fs sampled)"
  using assms by (auto simp: merged_ok_def sampled_ok_def merge_frame_def observed_ok_def)

lemma merge_old_ok:
  assumes "merged_ok u fs" and "sampled_ok sampled" and "u \<le> t"
  shows "merged_ok t (map2 (merge_frame t False) fs sampled)"
proof -
  have "observed_ok t (merge_frame t False d s)" if "observed_ok u d" "f_state s = 0 \<or> f_state s = 1" for d s
    using that assms(3) by (auto simp: observed_ok_def merge_frame_def Let_def)
  moreover have "length (f_data (merge_frame t False d s)) = 8" if "length (f_data d) = 8" "length (f_data s) = 8" for d s
    using that by (auto simp: merge_frame_def Let_def)
  moreover have "f_can_id (merge_frame t False d s) = c" if "f_can_id d = c" "f_can_id s = c" for d s c
    using that by (auto simp: merge_frame_def Let_def)
  ultimately show ?thesis
    using assms by (auto simp: merged_ok_def sampled_ok_def)
qed

lemma merged_ok_mono: "merged_ok t fs \<Longrightarrow> t \<le> u \<Longrightarrow> merged_ok u fs"
  by (auto simp: merged_ok_def observed_ok_def)

lemma merge_ok:
  assumes "merged_ok u fs" and "sampled_ok sampled" and "u \<le> t"
  obtains fs' where "merge_sampled_frames fs sampled t new = Some fs'" and "merged_ok t fs'"
  using merge_run [of fs sampled t new] merge_new_ok [of fs sampled t t] merge_old_ok [OF assms] assms
  by (cases new) (auto simp: merged_ok_def sampled_ok_def)

section \<open>What the time stamps mean\<close>

text \<open>
  The history of a frame since its source was opened: the samples taken, with their times.  The reference gives
  the last data read, and the times at which the data read differed from the data read before.
\<close>

fun last_data :: "bytes \<Rightarrow> (u64 \<times> roadcast_frame) list \<Rightarrow> bytes" where
  "last_data d [] = d"
| "last_data d ((t, f) # h) = last_data (if f_state f = ROADCAST_OBSERVATION_UNAVAILABLE then d else f_data f) h"

fun change_times :: "bytes \<Rightarrow> (u64 \<times> roadcast_frame) list \<Rightarrow> u64 list" where
  "change_times d [] = []"
| "change_times d ((t, f) # h) =
    (if f_state f = ROADCAST_OBSERVATION_UNAVAILABLE then change_times d h
     else if f_data f \<noteq> d then t # change_times (f_data f) h else change_times d h)"

fun merge_history :: "roadcast_frame list \<Rightarrow> (u64 \<times> roadcast_frame list) list \<Rightarrow> roadcast_frame list option" where
  "merge_history working [] = Some working"
| "merge_history working ((t, sampled) # h) = do {
     working \<leftarrow> merge_sampled_frames working sampled t False;
     merge_history working h }"

definition frame_history :: "nat \<Rightarrow> (u64 \<times> roadcast_frame list) list \<Rightarrow> (u64 \<times> roadcast_frame) list" where
  "frame_history i h = map (\<lambda>(t, fs). (t, fs ! i)) h"

lemma merge_history_run:
  assumes "length working = ROADCAST_FRAME_COUNT" and "\<forall>(t, fs) \<in> set h. length fs = ROADCAST_FRAME_COUNT"
  shows "\<exists>fs. merge_history working h = Some fs \<and> length fs = ROADCAST_FRAME_COUNT
    \<and> (\<forall>i < ROADCAST_FRAME_COUNT. fs ! i = foldl (\<lambda>d (t, f). merge_frame t False d f) (working ! i) (frame_history i h))"
  using assms
proof (induction working h rule: merge_history.induct)
  case (1 working)
  then show ?case by (simp add: frame_history_def)
next
  case (2 working t sampled h)
  let ?w = "map2 (merge_frame t False) working sampled"
  have run: "merge_sampled_frames working sampled t False = Some ?w"
    using 2 by (intro merge_run) auto
  with 2 show ?case by (auto simp: frame_history_def)
qed

lemma merge_frame_fold:
  assumes "\<forall>(t, f) \<in> set h. t \<noteq> 0"
  defines "r \<equiv> \<lambda>d h. foldl (\<lambda>d (t, f). merge_frame t False d f) d h"
  shows "f_data (r d h) = last_data (f_data d) h"
    and "f_first_observed_ns (r d h) = hd (filter (\<lambda>t. t \<noteq> 0) (f_first_observed_ns d # change_times (f_data d) h) @ [0])"
    and "f_last_change_ns (r d h) = last (f_last_change_ns d # change_times (f_data d) h)"
proof -
  have "f_data (r d h) = last_data (f_data d) h
    \<and> f_first_observed_ns (r d h) = hd (filter (\<lambda>t. t \<noteq> 0) (f_first_observed_ns d # change_times (f_data d) h) @ [0])
    \<and> f_last_change_ns (r d h) = last (f_last_change_ns d # change_times (f_data d) h)"
    using assms(1)
  proof (induction h arbitrary: d)
    case Nil
    then show ?case by (simp add: r_def)
  next
    case (Cons p h)
    obtain t f where p: "p = (t, f)" by (cases p)
    let ?d = "merge_frame t False d f"
    have step: "r d (p # h) = r ?d h" and t: "t \<noteq> 0" using Cons.prems by (simp_all add: r_def p)
    have IH: "f_data (r ?d h) = last_data (f_data ?d) h"
      "f_first_observed_ns (r ?d h) = hd (filter (\<lambda>t. t \<noteq> 0) (f_first_observed_ns ?d # change_times (f_data ?d) h) @ [0])"
      "f_last_change_ns (r ?d h) = last (f_last_change_ns ?d # change_times (f_data ?d) h)"
      using Cons.IH [of ?d] Cons.prems by simp_all
    show ?case
      unfolding step IH using t by (simp add: p merge_frame_def Let_def)
  qed
  then show "f_data (r d h) = last_data (f_data d) h"
    and "f_first_observed_ns (r d h) = hd (filter (\<lambda>t. t \<noteq> 0) (f_first_observed_ns d # change_times (f_data d) h) @ [0])"
    and "f_last_change_ns (r d h) = last (f_last_change_ns d # change_times (f_data d) h)"
    by simp_all
qed

lemma merge_frame_fold_state:
  assumes "h \<noteq> []" and r_def: "r = foldl (\<lambda>d (t, f). merge_frame t False d f) d h"
  shows "f_state r = (if f_state (snd (last h)) = ROADCAST_OBSERVATION_UNAVAILABLE then ROADCAST_OBSERVATION_UNAVAILABLE
    else if f_first_observed_ns r \<noteq> 0 then ROADCAST_OBSERVATION_VALID else ROADCAST_OBSERVATION_NEVER_OBSERVED)"
proof -
  obtain h' t f where "h = h' @ [(t, f)]" using assms(1) by (cases h rule: rev_cases) auto
  then show ?thesis by (auto simp: r_def merge_frame_def Let_def)
qed

lemma change_times_nonzero: "\<forall>(t, f) \<in> set h. t \<noteq> 0 \<Longrightarrow> 0 \<notin> set (change_times d h)"
  by (induction d h rule: change_times.induct) auto

section \<open>The thread\<close>

lemma unavailable_sampled_ok: "sampled_ok unavailable_frames"
  by (simp add: sampled_ok_def unavailable_frames_def zero_frame_def)

lemma length_le64 [simp]: "length (le64 v) = 8"
  by (simp add: le64_def)

lemma fresh_sampled_ok: "sampled_ok fresh_frames"
  by (simp add: sampled_ok_def fresh_frames_def zero_frame_def)

lemma outcome_sampled_ok:
  assumes "read_outcome mem rc frames s n m" and "memory_of os mem"
  shows "sampled_ok frames"
proof -
  have "\<forall>n a. length (mem n a) = 8" using assms(2) by (simp add: memory_of_def)
  with assms(1) show ?thesis
    using unavailable_sampled_ok by (auto simp: read_outcome_def sampled_ok_def sample_of_def split: if_splits)
qed

text \<open>Everything but the source and the counters is left alone by a read.\<close>

definition same_publication :: "sampler \<Rightarrow> sampler \<Rightarrow> bool" where
  "same_publication s s' \<longleftrightarrow> sm_working s' = sm_working s \<and> sm_published s' = sm_published s \<and> sm_fake s' = sm_fake s
     \<and> sm_published_sequence s' = sm_published_sequence s \<and> sm_published_timestamp_ns s' = sm_published_timestamp_ns s
     \<and> sm_period_ns s' = sm_period_ns s \<and> sm_stop_requested s' = sm_stop_requested s \<and> sm_notified s' = sm_notified s
     \<and> sm_thread_started s' = sm_thread_started s"

lemma same_publication_count: "same_publication s (count_read rc (s\<lparr>sm_source := x\<rparr>))"
  by (simp add: same_publication_def count_read_def)

lemma source_count [simp]: "sm_source (count_read rc s) = sm_source s"
  by (simp add: count_read_def)

definition system_ok :: "os \<Rightarrow> (nat \<Rightarrow> u64 \<Rightarrow> bytes) \<Rightarrow> bool" where
  "system_ok os mem \<longleftrightarrow> os_ok os \<and> memory_of os mem \<and> no_null_address os \<and> mono (os_clock os)"

lemma system_okD:
  "system_ok os mem \<Longrightarrow> os_ok os" "system_ok os mem \<Longrightarrow> memory_of os mem" "system_ok os mem \<Longrightarrow> no_null_address os"
  "system_ok os mem \<Longrightarrow> n \<le> m \<Longrightarrow> os_clock os n \<le> os_clock os m"
  by (auto simp: system_ok_def mono_def)

lemma zero_frames_data_wf: "data_wf (replicate ROADCAST_FRAME_COUNT zero_frame)"
  by (simp add: data_wf_def zero_frame_def)

definition source_good :: "sampler \<Rightarrow> bool" where
  "source_good s \<longleftrightarrow> (sm_fake s = 0 \<longrightarrow> session_ok (sm_source s))"

lemma take_sample_run:
  assumes "system_ok os mem" and "source_good s"
  obtains rc new sampled s' m where "take_sample os sequence s n = Some (rc, new, sampled, s', m)" and "sampled_ok sampled"
    and "same_publication s s'" and "n \<le> m" and "source_good s'"
proof (cases "sm_fake s = 0")
  case False
  let ?fs = "map (\<lambda>i. (fresh_frames ! i)\<lparr>f_data := le64 (fake_value sequence (sm_fake s = 2) i)\<rparr>) [0..<ROADCAST_FRAME_COUNT]"
  have len: "length fresh_frames = 111" by (simp add: fresh_frames_def)
  have run: "update_fake_frames fresh_frames sequence (sm_fake s = 2) = Some ?fs"
    using fake_update_run [OF len] by simp
  have ok: "sampled_ok ?fs"
    using fresh_sampled_ok by (auto simp: sampled_ok_def)
  show thesis
  proof (rule that)
    show "take_sample os sequence s n = Some (0, False, ?fs, s, n)"
      using False fake_frames_run [of "replicate 111 zero_frame"] run by (simp add: take_sample_def)
    show "sampled_ok ?fs" by (rule ok)
  qed (use assms in \<open>simp_all add: same_publication_def\<close>)
next
  case True
  note os = system_okD(1-3) [OF assms(1)]
  have ses: "session_ok (sm_source s)" using assms(2) True by (simp add: source_good_def)
  obtain rc fs src m where r: "roadcast_source_session_read os (sm_source s) (replicate 111 zero_frame) (os_clock os n) (Suc n)
      = Some (rc, fs, src, m)" "session_ok src" "Suc n \<le> m" "read_outcome mem rc fs src (Suc n) m"
    by (rule session_read_run [OF os ses zero_frames_data_wf])
  show thesis
  proof (rule that)
    show "take_sample os sequence s n = Some (rc, rc \<ge> 0 \<and> ss_generation (sm_source s) \<noteq> ss_generation src, fs,
        count_read rc (s\<lparr>sm_source := src\<rparr>), m)"
      using True r(1) by (simp add: take_sample_def)
    show "sampled_ok fs" by (rule outcome_sampled_ok [OF r(4) os(2)])
  qed (use r same_publication_count in \<open>simp_all add: source_good_def\<close>)
qed

definition sampler_ok :: "u64 \<Rightarrow> sampler \<Rightarrow> bool" where
  "sampler_ok now s \<longleftrightarrow> merged_ok now (sm_working s) \<and> merged_ok (sm_published_timestamp_ns s) (sm_published s)
     \<and> sm_published_timestamp_ns s \<le> now \<and> source_good s"

lemma sampler_work_run:
  assumes os: "system_ok os mem" and s: "sampler_ok (os_clock os n) s" and go: "\<not> sm_stop_requested s"
  obtains s' next' m where "sampler_work os (s, sequence, next_tick) n = Some (Some (s', sequence + 1, next'), m)"
    and "sampler_ok (os_clock os m) s'" and "n \<le> m" and "sm_published_sequence s' = sequence + 1" and "sm_notified s'"
    and "sm_published_timestamp_ns s \<le> sm_published_timestamp_ns s'" and "sm_stop_requested s' = sm_stop_requested s"
    and "sm_published s' = sm_working s'" and "sm_period_ns s' = sm_period_ns s"
proof -
  have good: "source_good s" and ts: "sm_published_timestamp_ns s \<le> os_clock os n"
    using s by (simp_all add: sampler_ok_def)
  obtain rc new fs s1 k where t: "take_sample os (sequence + 1) s n = Some (rc, new, fs, s1, k)" "sampled_ok fs"
      "same_publication s s1" "n \<le> k" "source_good s1"
    by (rule take_sample_run [OF os good])
  note clock = system_okD(4) [OF os]
  have "merged_ok (os_clock os n) (sm_working s1)" "os_clock os n \<le> os_clock os k"
    using s t(3,4) clock by (simp_all add: sampler_ok_def same_publication_def)
  then obtain w where w: "merge_sampled_frames (sm_working s1) fs (os_clock os k) new = Some w" "merged_ok (os_clock os k) w"
    by (rule merge_ok [OF _ t(2)])
  define s2 where "s2 = sampler_publish (s1\<lparr>sm_working := w, sm_source_state := state_of_read rc\<rparr>) (sequence + 1) (os_clock os k)"
  have later: "os_clock os k \<le> os_clock os (Suc (Suc k))" "os_clock os n \<le> os_clock os k"
    using clock [of k] clock [OF t(4)] by simp_all
  show thesis
  proof (rule that)
    show "sampler_work os (s, sequence, next_tick) n = Some (Some (s2, sequence + 1,
        if os_clock os (Suc k) > next_tick + sm_period_ns s + sm_period_ns s2 - sm_period_ns s then os_clock os (Suc k) else next_tick), Suc (Suc k))"
      using go t(1) w(1) by (simp add: sampler_work_def s2_def Let_def)
    show "sampler_ok (os_clock os (Suc (Suc k))) s2"
      using w(2) t(5) later(1) merged_ok_mono [OF w(2) later(1)]
      by (simp add: sampler_ok_def s2_def sampler_publish_def source_good_def)
  qed (use t(3,4) ts later in \<open>auto simp: s2_def sampler_publish_def same_publication_def\<close>)
qed

lemma sleep_until_run:
  assumes "\<exists>k. \<not> interrupts (Suc n + 2 * k)"
  obtains m where "sleep_until os interrupts deadline n = Some m" and "n < m"
proof -
  obtain k where "\<not> interrupts (Suc n + 2 * k)" using assms by blast
  then have "\<exists>m > n. sleep_until os interrupts deadline n = Some m"
  proof (induction k arbitrary: n)
    case 0
    then show ?case by (subst sleep_until.simps) auto
  next
    case (Suc k)
    show ?case
    proof (cases "os_clock os n \<ge> deadline \<or> \<not> interrupts (Suc n)")
      case True
      then show ?thesis by (subst sleep_until.simps) auto
    next
      case False
      then have "sleep_until os interrupts deadline n = sleep_until os interrupts deadline (Suc (Suc n))"
        by (subst sleep_until.simps) simp
      moreover obtain m where "m > Suc (Suc n)" "sleep_until os interrupts deadline (Suc (Suc n)) = Some m"
        using Suc.IH [of "Suc (Suc n)"] Suc.prems by auto
      ultimately show ?thesis by auto
    qed
  qed
  then show thesis using that by blast
qed

lemma first_sample_run:
  assumes os: "system_ok os mem" and good: "source_good s" and w: "length (sm_working s) = ROADCAST_FRAME_COUNT"
  obtains s' m where "first_sample os s n = Some (s', m)" and "sampler_ok (os_clock os m) s'" and "n \<le> m"
    and "sm_published_sequence s' = 0" and "sm_stop_requested s' = sm_stop_requested s" and "sm_notified s' = sm_notified s"
    and "sm_period_ns s' = sm_period_ns s"
proof -
  obtain rc fs s1 k where r: "(if sm_fake s \<noteq> 0 then do {
         sampled \<leftarrow> initialize_fake_frames (replicate ROADCAST_FRAME_COUNT zero_frame);
         Some (0, sampled, s, n) }
       else do {
         (read_result, sampled, source, n) \<leftarrow> roadcast_source_session_read os (sm_source s)
           (replicate ROADCAST_FRAME_COUNT zero_frame) (os_clock os n) (Suc n);
         Some (read_result, sampled, count_read read_result (s\<lparr>sm_source := source\<rparr>), n) }) = Some (rc, fs, s1, k)"
    "sampled_ok fs" "same_publication s s1" "n \<le> k" "source_good s1"
  proof (cases "sm_fake s = 0")
    case False
    show thesis
      by (rule that [of 0 fresh_frames s n])
        (use False fake_frames_run [of "replicate 111 zero_frame"] fresh_sampled_ok good in \<open>simp_all add: same_publication_def\<close>)
  next
    case True
    note oss = system_okD(1-3) [OF os]
    have ses: "session_ok (sm_source s)" using good True by (simp add: source_good_def)
    obtain rc fs src m where r: "roadcast_source_session_read os (sm_source s) (replicate 111 zero_frame) (os_clock os n) (Suc n)
        = Some (rc, fs, src, m)" "session_ok src" "Suc n \<le> m" "read_outcome mem rc fs src (Suc n) m"
      by (rule session_read_run [OF oss ses zero_frames_data_wf])
    show thesis
      by (rule that [of rc fs "count_read rc (s\<lparr>sm_source := src\<rparr>)" m])
        (use True r outcome_sampled_ok [OF r(4) oss(2)] same_publication_count in \<open>simp_all add: source_good_def\<close>)
  qed
  have lens: "length (sm_working s1) = 111" "length fs = 111"
    using w r(2,3) by (simp_all add: same_publication_def sampled_ok_def)
  define ws where "ws = map2 (merge_frame (os_clock os k) True) (sm_working s1) fs"
  have merged: "merged_ok u ws" for u
    using merge_new_ok [OF lens(1) r(2)] by (simp add: ws_def)
  let ?s = "s1\<lparr>sm_working := ws, sm_source_state := state_of_read rc, sm_published := ws,
    sm_published_sequence := 0, sm_published_timestamp_ns := os_clock os (Suc k)\<rparr>"
  have "first_sample os s n = Some (?s, Suc (Suc k))"
    unfolding first_sample_def r(1) using merge_run [OF lens] by (simp add: ws_def)
  moreover have "sampler_ok (os_clock os (Suc (Suc k))) ?s"
    using merged r(5) system_okD(4) [OF os, of "Suc k" "Suc (Suc k)"] by (simp add: sampler_ok_def source_good_def)
  ultimately show thesis
    using r(3,4) by (intro that [of ?s "Suc (Suc k)"]) (simp_all add: same_publication_def)
qed

section \<open>Properties\<close>

text \<open>
  C16: The published time stamps mean what they say.  After a source has been opened with a sample \<open>s0\<close> and any
  sequence of samples has been merged, every frame holds the data last read; it was first observed, and last
  changed, at the first and the last time its data differed from the data read before; samples in which the frame
  was unavailable do not count.  It is unavailable if the latest sample says so, valid if its data ever changed,
  and otherwise never observed.
\<close>

theorem observation_history:
  assumes "length working = ROADCAST_FRAME_COUNT" and "length s0 = ROADCAST_FRAME_COUNT"
    and "\<forall>(t, fs) \<in> set h. t \<noteq> 0 \<and> length fs = ROADCAST_FRAME_COUNT"
  shows "\<exists>w fs. merge_sampled_frames working s0 t0 True = Some w \<and> merge_history w h = Some fs
    \<and> (\<forall>i < ROADCAST_FRAME_COUNT. let c = change_times (f_data (s0 ! i)) (frame_history i h) in
        f_data (fs ! i) = last_data (f_data (s0 ! i)) (frame_history i h)
        \<and> f_first_observed_ns (fs ! i) = (if c = [] then 0 else hd c)
        \<and> f_last_change_ns (fs ! i) = (if c = [] then 0 else last c)
        \<and> (h \<noteq> [] \<longrightarrow> f_state (fs ! i) = (if f_state (snd (last h) ! i) = ROADCAST_OBSERVATION_UNAVAILABLE
             then ROADCAST_OBSERVATION_UNAVAILABLE else if c = [] then ROADCAST_OBSERVATION_NEVER_OBSERVED
             else ROADCAST_OBSERVATION_VALID)))"
proof -
  let ?w = "map2 (merge_frame t0 True) working s0"
  obtain fs where fs: "merge_history ?w h = Some fs"
      "\<And>i. i < 111 \<Longrightarrow> fs ! i = foldl (\<lambda>d (t, f). merge_frame t False d f) (?w ! i) (frame_history i h)"
    using merge_history_run [of ?w h] assms by auto
  have "let c = change_times (f_data (s0 ! i)) (frame_history i h) in
        f_data (fs ! i) = last_data (f_data (s0 ! i)) (frame_history i h)
        \<and> f_first_observed_ns (fs ! i) = (if c = [] then 0 else hd c)
        \<and> f_last_change_ns (fs ! i) = (if c = [] then 0 else last c)
        \<and> (h \<noteq> [] \<longrightarrow> f_state (fs ! i) = (if f_state (snd (last h) ! i) = 0 then 0 else if c = [] then 1 else 2))"
    if i: "i < 111" for i
  proof -
    let ?h = "frame_history i h" and ?d = "?w ! i"
    have t: "\<forall>(t, f) \<in> set ?h. t \<noteq> 0" using assms(3) by (auto simp: frame_history_def)
    have d: "f_data ?d = f_data (s0 ! i)" "f_first_observed_ns ?d = 0" "f_last_change_ns ?d = 0"
      using i assms(1,2) by (simp_all add: merge_frame_def)
    define c where "c = change_times (f_data (s0 ! i)) ?h"
    have c: "0 \<notin> set c" using change_times_nonzero [OF t] by (simp add: c_def)
    then have keep: "filter (\<lambda>t. t \<noteq> 0) c = c" by (induction c) auto
    have first: "f_first_observed_ns (fs ! i) = (if c = [] then 0 else hd c)"
      using merge_frame_fold(2) [OF t, of ?d] fs(2) [OF i] d keep by (simp add: c_def [symmetric])
    moreover have "c \<noteq> [] \<Longrightarrow> hd c \<noteq> 0" using c by (cases c) auto
    moreover have "f_state (fs ! i) = (if f_state (snd (last h) ! i) = 0 then 0 else if f_first_observed_ns (fs ! i) \<noteq> 0 then 2 else 1)"
      if "h \<noteq> []"
      using merge_frame_fold_state [of ?h "fs ! i" ?d] fs(2) [OF i] that
      by (simp add: frame_history_def last_map case_prod_beta)
    ultimately show ?thesis
      using merge_frame_fold(1,3) [OF t, of ?d] fs(2) [OF i] d by (auto simp: c_def [symmetric] Let_def)
  qed
  with fs(1) merge_run [OF assms(1,2), of t0 True] show ?thesis by blast
qed

text \<open>A frame that is read as zeros, then as ones, is lost, and comes back unchanged.\<close>

definition example_history :: "(u64 \<times> roadcast_frame list) list" where
  "example_history = (let one = map (\<lambda>f. f\<lparr>f_data := replicate 8 1\<rparr>) fresh_frames in
     [(5, fresh_frames), (6, one), (7, unavailable_frames), (8, one)])"

theorem observation_history_witness:
  "\<exists>w fs. merge_sampled_frames fresh_frames fresh_frames 4 True = Some w \<and> merge_history w example_history = Some fs
    \<and> f_data (fs ! 3) = replicate 8 1 \<and> f_first_observed_ns (fs ! 3) = 6 \<and> f_last_change_ns (fs ! 3) = 6
    \<and> f_state (fs ! 3) = ROADCAST_OBSERVATION_VALID"
proof -
  have len: "length fresh_frames = 111" "length unavailable_frames = 111"
    by (simp_all add: fresh_frames_def unavailable_frames_def)
  have h: "\<forall>(t, fs) \<in> set example_history. t \<noteq> 0 \<and> length fs = 111"
    by (simp add: example_history_def Let_def len)
  have three: "frame_history 3 example_history = (let f = fresh_frames ! 3; g = f\<lparr>f_data := replicate 8 1\<rparr> in
      [(5, f), (6, g), (7, unavailable_frames ! 3), (8, g)])"
    by (simp add: frame_history_def example_history_def Let_def len)
  have f: "f_data (fresh_frames ! 3) = replicate 8 0" "f_state (fresh_frames ! 3) = 1" "f_state (unavailable_frames ! 3) = 0"
    by (simp_all add: fresh_frames_def unavailable_frames_def zero_frame_def)
  have c: "change_times (f_data (fresh_frames ! 3)) (frame_history 3 example_history) = [6]"
    "last_data (f_data (fresh_frames ! 3)) (frame_history 3 example_history) = replicate 8 1"
    unfolding three Let_def by (simp_all add: f)
  have l: "example_history \<noteq> []" "f_state (snd (last example_history) ! 3) = 1"
    by (simp_all add: example_history_def Let_def len f)
  obtain w fs where "merge_sampled_frames fresh_frames fresh_frames 4 True = Some w" "merge_history w example_history = Some fs"
      "\<forall>i < 111. let c = change_times (f_data (fresh_frames ! i)) (frame_history i example_history) in
        f_data (fs ! i) = last_data (f_data (fresh_frames ! i)) (frame_history i example_history)
        \<and> f_first_observed_ns (fs ! i) = (if c = [] then 0 else hd c)
        \<and> f_last_change_ns (fs ! i) = (if c = [] then 0 else last c)
        \<and> (example_history \<noteq> [] \<longrightarrow> f_state (fs ! i) = (if f_state (snd (last example_history) ! i) = 0 then 0
             else if c = [] then 1 else 2))"
    using observation_history [OF len(1) len(1) h, of 4] by blast
  then show ?thesis
    using c l by (intro exI [of _ w] exI [of _ fs]) (auto simp: Let_def dest!: spec [of _ 3])
qed

end
