(* ===== verification/System.thy ===== *)
theory System
  imports Daemon Sampler
begin

text \<open>
  The whole daemon: the sampler thread and the event loop, as \<^verbatim>\<open>main\<close> of \<^verbatim>\<open>src/roadcastd.c\<close> sets them up, in any
  interleaving.  They share the published sample, the counters and the state of the source, the stop flag and the
  notification; libuv runs the callback of a notification at some time after \<^verbatim>\<open>uv_async_send\<close>, once for any number of
  sends.  The log of what was published is there for the statements and is never read.

  The lemmas: the server is only ever given whole published samples, and nothing the sampler does can hurt it; when
  no notification is pending the server holds the latest sample; a shutdown always comes to an end.
\<close>

section \<open>The two threads\<close>

datatype phase = Waiting | Working | Finished

record system =
  y_server :: server
  y_sampler :: sampler
  y_sequence :: u64
  y_next_tick :: u64
  y_phase :: phase
  y_calls :: nat
  y_log :: "(roadcast_frame list \<times> u64 \<times> u64) list"

text \<open>What \<^verbatim>\<open>main\<close> does up to the event loop, when libuv could be set up and the thread created.\<close>

definition main_start ::
    "os \<Rightarrow> bool \<Rightarrow> bool \<Rightarrow> u32 \<Rightarrow> u32 \<Rightarrow> int \<Rightarrow> bytes option \<Rightarrow> nat \<Rightarrow> system ret option" where
  "main_start os fc lock_ok hz client_queue_slots fake copy n = do {
     (initialized, n) \<leftarrow> sampler_init os lock_ok hz fake copy n;
     case initialized of
       Fail \<Rightarrow> Some Fail
     | Ok s \<Rightarrow> do {
         server \<leftarrow> initial_server fc ROADCAST_SIGNALS hz client_queue_slots (sampler_read_latest s)
           (sm_source_errors s) (sm_fallback_batches s);
         let ((s, sequence, next_tick), n) = sampler_thread_start os (snd (sampler_start True s)) n;
         Some (Ok \<lparr>y_server = server, y_sampler = s, y_sequence = sequence, y_next_tick = next_tick, y_phase = Waiting,
           y_calls = n, y_log = [sampler_read_latest s]\<rparr>) } }"

text \<open>A step of the sampler thread: to the end of the sleep, or a sample.\<close>

definition resume :: "phase \<Rightarrow> system \<Rightarrow> thread option \<times> nat \<Rightarrow> system" where
  "resume p y = (\<lambda>(r, n). case r of
     None \<Rightarrow> y\<lparr>y_phase := Finished, y_calls := n\<rparr>
   | Some (s, sequence, next_tick) \<Rightarrow> y\<lparr>y_sampler := s, y_sequence := sequence, y_next_tick := next_tick, y_phase := p,
       y_calls := n, y_log := (if p = Waiting then y_log y @ [sampler_read_latest s] else y_log y)\<rparr>)"

definition thread_step :: "os \<Rightarrow> (nat \<Rightarrow> bool) \<Rightarrow> system \<Rightarrow> system option" where
  "thread_step os interrupts y = (let t = (y_sampler y, y_sequence y, y_next_tick y) in case y_phase y of
     Waiting \<Rightarrow> map_option (resume Working y) (sampler_wait os interrupts t (y_calls y))
   | Working \<Rightarrow> map_option (resume Waiting y) (sampler_work os t (y_calls y))
   | Finished \<Rightarrow> Some y)"

text \<open>
  The callbacks of the event loop that do not end it.  \<^verbatim>\<open>on_sample_notification\<close> reads the published sample; the
  heartbeat and the statistics read what the sampler counts.
\<close>

datatype callback =
    Client event
  | Notification
  | Beat
  | Report

definition callback_event :: "callback \<Rightarrow> sampler \<Rightarrow> event" where
  "callback_event cb s = (case cb of
     Client ev \<Rightarrow> ev
   | Notification \<Rightarrow> Sample (sampler_read_latest s)
   | Beat \<Rightarrow> Heartbeat (sm_source_state s)
   | Report \<Rightarrow> Statistics (sm_source_errors s) (sm_fallback_batches s))"

definition callback_ok :: "callback \<Rightarrow> system \<Rightarrow> bool" where
  "callback_ok cb y \<longleftrightarrow> (case cb of
     Client (Connection status) \<Rightarrow> True
   | Client (Readable i r) \<Rightarrow> event_ok (Readable i r) (y_server y)
   | Client (Written i slot status) \<Rightarrow> event_ok (Written i slot status) (y_server y)
   | Client (Closed i) \<Rightarrow> event_ok (Closed i) (y_server y)
   | Client _ \<Rightarrow> False
   | Notification \<Rightarrow> sm_notified (y_sampler y) \<and> \<not> s_shutting_down (y_server y)
   | _ \<Rightarrow> \<not> s_shutting_down (y_server y))"

definition loop_step :: "env \<Rightarrow> bool \<Rightarrow> callback \<Rightarrow> system \<Rightarrow> system option" where
  "loop_step e fc cb y = do {
     let s = (if cb = Notification then (y_sampler y)\<lparr>sm_notified := False\<rparr> else y_sampler y);
     server \<leftarrow> daemon_step e fc ROADCAST_SIGNALS ROADCAST_CAN_SCHEMA_HASH (callback_event cb s) (y_server y);
     Some (y\<lparr>y_server := server, y_sampler := s\<rparr>) }"

text \<open>
  \<^verbatim>\<open>server_shutdown\<close> is in two steps.  It raises the stop flag and waits in \<^verbatim>\<open>pthread_join\<close>, running no callback; when
  the thread has finished, it closes the clients.
\<close>

definition request_stop :: "system \<Rightarrow> system" where
  "request_stop y = y\<lparr>y_sampler := (y_sampler y)\<lparr>sm_stop_requested := True\<rparr>\<rparr>"

definition joined :: "system \<Rightarrow> system" where
  "joined y = y\<lparr>y_sampler := sampler_stop (y_sampler y), y_server := server_shutdown (y_server y)\<rparr>"

inductive system_step :: "os \<Rightarrow> (nat \<Rightarrow> bool) \<Rightarrow> env \<Rightarrow> bool \<Rightarrow> system \<Rightarrow> system \<Rightarrow> bool" for os interrupts e fc where
  thread: "thread_step os interrupts y = Some y' \<Longrightarrow> system_step os interrupts e fc y y'"
| callback: "callback_ok cb y \<Longrightarrow> (sm_stop_requested (y_sampler y) \<longrightarrow> s_shutting_down (y_server y))
    \<Longrightarrow> loop_step e fc cb y = Some y' \<Longrightarrow> system_step os interrupts e fc y y'"
| stop: "\<not> sm_stop_requested (y_sampler y) \<Longrightarrow> system_step os interrupts e fc y (request_stop y)"
| join: "sm_stop_requested (y_sampler y) \<Longrightarrow> y_phase y = Finished \<Longrightarrow> system_step os interrupts e fc y (joined y)"

inductive system_reachable :: "os \<Rightarrow> (nat \<Rightarrow> bool) \<Rightarrow> env \<Rightarrow> bool \<Rightarrow> system \<Rightarrow> system \<Rightarrow> bool" for os interrupts e fc y0 where
  start: "system_reachable os interrupts e fc y0 y0"
| step: "system_reachable os interrupts e fc y0 y \<Longrightarrow> system_step os interrupts e fc y y'
    \<Longrightarrow> system_reachable os interrupts e fc y0 y'"

section \<open>The invariant\<close>

definition held :: "server \<Rightarrow> roadcast_frame list \<times> u64 \<times> u64" where
  "held s = (s_frames s, s_sample_sequence s, s_sample_timestamp_ns s)"

text \<open>The log is numbered from 0 on, and the sampler's numbers are those of its last entry.\<close>

definition log_ok :: "system \<Rightarrow> bool" where
  "log_ok y \<longleftrightarrow> y_log y \<noteq> [] \<and> last (y_log y) = sampler_read_latest (y_sampler y)
     \<and> (\<forall>k < length (y_log y). fst (snd (y_log y ! k)) = of_nat k) \<and> y_sequence y = of_nat (length (y_log y) - 1)"

definition current :: "system \<Rightarrow> bool" where
  "current y \<longleftrightarrow> (\<exists>k < length (y_log y). held (y_server y) = y_log y ! k
     \<and> (length (y_log y) \<le> 2 ^ 64 \<and> \<not> sm_notified (y_sampler y) \<longrightarrow> Suc k = length (y_log y)))"

definition system_inv :: "os \<Rightarrow> bool \<Rightarrow> system \<Rightarrow> bool" where
  "system_inv os fc y \<longleftrightarrow> daemon_inv fc (y_server y) \<and> sampler_ok (os_clock os (y_calls y)) (y_sampler y) \<and> log_ok y \<and> current y
     \<and> (y_phase y = Finished \<longrightarrow> sm_stop_requested (y_sampler y))"

lemma merged_frames_wf: "merged_ok t fs \<Longrightarrow> frames_wf fs"
  by (auto simp: merged_ok_def frames_wf_def frame_wf_def list_all_length observed_ok_def split: if_splits)

lemma initial_server_held:
  "initial_server fc sigs hz slots sample se fb = Some s \<Longrightarrow> held s = sample \<and> \<not> s_shutting_down s"
  by (cases sample) (auto simp: initial_server_def held_def split: Option.bind_splits)

lemma sampler_init_run:
  assumes os: "system_ok os mem" and hz: "hz \<noteq> 0"
  obtains r m where "sampler_init os lock_ok hz fake copy n = Some (r, m)" and "n \<le> m"
    and "r = Fail \<longleftrightarrow> \<not> lock_ok \<or> fake = 0 \<and> copy = None"
    and "\<And>s. r = Ok s \<Longrightarrow> sampler_ok (os_clock os m) s \<and> sm_published_sequence s = 0 \<and> \<not> sm_stop_requested s \<and> \<not> sm_notified s"
proof (cases "\<not> lock_ok \<or> fake = 0 \<and> copy = None")
  case True
  with hz show thesis
    by (intro that [of Fail n]) (auto simp: sampler_init_def blank_sampler_def roadcast_source_session_init_def)
next
  case False
  obtain s where s: "blank_sampler hz fake = Some s" using hz by (simp add: blank_sampler_def)
  let ?src = "if fake \<noteq> 0 then sm_source s else snd (roadcast_source_session_init copy)"
  have "source_good (s\<lparr>sm_source := ?src\<rparr>)" "length (sm_working (s\<lparr>sm_source := ?src\<rparr>)) = 111"
    using s False hz by (auto simp: source_good_def blank_sampler_def roadcast_source_session_init_def session_ok_def)
  then obtain s' m where f: "first_sample os (s\<lparr>sm_source := ?src\<rparr>) n = Some (s', m)" "sampler_ok (os_clock os m) s'" "n \<le> m"
      "sm_published_sequence s' = 0" "sm_stop_requested s' = sm_stop_requested s" "sm_notified s' = sm_notified s"
    by (rule first_sample_run [OF os]) auto
  have "\<not> sm_stop_requested s" "\<not> sm_notified s" using s hz by (auto simp: blank_sampler_def)
  moreover have "sampler_init os lock_ok hz fake copy n = Some (Ok s', m)"
    using False s f(1) by (auto simp: sampler_init_def roadcast_source_session_init_def Let_def)
  ultimately show thesis
    using f False by (intro that [of "Ok s'" m]) auto
qed

lemma main_start_run:
  assumes os: "system_ok os mem" and hz: "hz \<noteq> 0" and slots: "1 \<le> unat slots" "unat slots \<le> CLIENT_QUEUE_SLOTS"
  obtains (refused) "main_start os fc lock_ok hz slots fake copy n = Some Fail" and "\<not> lock_ok \<or> fake = 0 \<and> copy = None"
    | (started) y where "main_start os fc lock_ok hz slots fake copy n = Some (Ok y)" and "system_inv os fc y"
      and "y_phase y = Waiting" and "length (y_log y) = 1"
proof -
  obtain r m where r: "sampler_init os lock_ok hz fake copy n = Some (r, m)" "n \<le> m"
      "r = Fail \<longleftrightarrow> \<not> lock_ok \<or> fake = 0 \<and> copy = None"
      "\<And>s. r = Ok s \<Longrightarrow> sampler_ok (os_clock os m) s \<and> sm_published_sequence s = 0 \<and> \<not> sm_stop_requested s \<and> \<not> sm_notified s"
    by (rule sampler_init_run [OF os hz]) blast
  show thesis
  proof (cases r)
    case Fail
    with r show thesis by (intro refused) (auto simp: main_start_def)
  next
    case (Ok s)
    then have s: "sampler_ok (os_clock os m) s" "sm_published_sequence s = 0" "\<not> sm_stop_requested s" "\<not> sm_notified s"
      using r(4) by auto
    have wf: "frames_wf (sm_published s)" using s(1) by (auto simp: sampler_ok_def intro: merged_frames_wf)
    obtain srv where srv: "initial_server fc ROADCAST_SIGNALS hz slots (sampler_read_latest s)
        (sm_source_errors s) (sm_fallback_batches s) = Some srv" "server_inv srv"
        "signals_agree fc ROADCAST_SIGNALS (s_frames srv) (s_signals srv)"
      using roadcastd.initial_server_ok [OF wf slots, of fc hz "sm_published_sequence s" "sm_published_timestamp_ns s"]
      by (metis sampler_read_latest_def)
    let ?s = "s\<lparr>sm_thread_started := True\<rparr>"
    let ?y = "\<lparr>y_server = srv, y_sampler = ?s, y_sequence = 0, y_next_tick = os_clock os m, y_phase = Waiting,
      y_calls = Suc m, y_log = [sampler_read_latest ?s]\<rparr>"
    have "main_start os fc lock_ok hz slots fake copy n = Some (Ok ?y)"
      using r(1) Ok srv(1) s(2) by (simp add: main_start_def sampler_thread_start_def sampler_start_def)
    moreover have "sampler_ok (os_clock os (Suc m)) ?s"
      using s(1) system_okD(4) [OF os, of m "Suc m"]
      by (auto simp: sampler_ok_def source_good_def intro: merged_ok_mono)
    then have "system_inv os fc ?y"
      using srv s initial_server_held [OF srv(1)]
      by (simp add: system_inv_def daemon_inv_def log_ok_def current_def sampler_read_latest_def)
    ultimately show thesis by (intro started [of ?y]) simp_all
  qed
qed

section \<open>Every step keeps the invariant\<close>

lemma current_published:
  "system_inv os fc y \<Longrightarrow> sm_notified s' \<Longrightarrow> current (y\<lparr>y_sampler := s', y_sequence := sq, y_next_tick := t,
     y_phase := p, y_calls := n, y_log := y_log y @ l\<rparr>)"
  by (auto simp: system_inv_def current_def nth_append intro: exI less_le_trans)

lemma system_inv_later:
  assumes os: "system_ok os mem" and inv: "system_inv os fc y" and "y_calls y \<le> n"
    and "p = Finished \<longrightarrow> sm_stop_requested (y_sampler y)"
  shows "system_inv os fc (y\<lparr>y_next_tick := t, y_phase := p, y_calls := n\<rparr>)"
  using inv assms(4) system_okD(4) [OF os assms(3)]
  by (auto simp: system_inv_def log_ok_def current_def sampler_ok_def intro: merged_ok_mono)

lemma thread_step_run:
  assumes os: "system_ok os mem" and sleep: "\<forall>n. \<exists>k. \<not> interrupts (Suc n + 2 * k)" and inv: "system_inv os fc y"
  obtains y' where "thread_step os interrupts y = Some y'" and "system_inv os fc y'" and "y_server y' = y_server y"
    and "sm_stop_requested (y_sampler y') = sm_stop_requested (y_sampler y)"
    and "sm_stop_requested (y_sampler y) \<Longrightarrow> y_phase y' = Finished \<and> y_log y' = y_log y"
    and "\<not> sm_stop_requested (y_sampler y) \<Longrightarrow> y_phase y = Waiting \<Longrightarrow> y_phase y' = Working \<and> y_log y' = y_log y"
    and "\<not> sm_stop_requested (y_sampler y) \<Longrightarrow> y_phase y = Working \<Longrightarrow> y_phase y' = Waiting
      \<and> y_log y' = y_log y @ [sampler_read_latest (y_sampler y')]"
proof (cases "sm_stop_requested (y_sampler y)")
  case True
  have fin: "system_inv os fc (y\<lparr>y_phase := Finished, y_calls := y_calls y\<rparr>)"
    using system_inv_later [OF os inv, of "y_calls y" Finished "y_next_tick y"] True by simp
  have "thread_step os interrupts y = Some (y\<lparr>y_phase := Finished, y_calls := y_calls y\<rparr>)"
    using True by (cases y; cases "y_phase y")
      (simp_all add: thread_step_def sampler_wait_def sampler_work_def resume_def)
  with True fin show thesis by (intro that [of "y\<lparr>y_phase := Finished, y_calls := y_calls y\<rparr>"]) simp_all
next
  case go: False
  have s: "sampler_ok (os_clock os (y_calls y)) (y_sampler y)" and log: "log_ok y" and fin: "y_phase y \<noteq> Finished"
    using inv go by (auto simp: system_inv_def)
  show thesis
  proof (cases "y_phase y")
    case Waiting
    let ?t = "y_next_tick y + sm_period_ns (y_sampler y)"
    obtain n where n: "sleep_until os interrupts ?t (y_calls y) = Some n" "y_calls y < n"
      by (rule sleep_until_run [of interrupts "y_calls y"]) (use sleep in blast)
    let ?y = "y\<lparr>y_next_tick := ?t, y_phase := Working, y_calls := n\<rparr>"
    have "thread_step os interrupts y = Some ?y"
      using go Waiting n(1) by (simp add: thread_step_def sampler_wait_def resume_def)
    moreover have "system_inv os fc ?y" using system_inv_later [OF os inv] n(2) by simp
    ultimately show thesis using go Waiting by (intro that [of ?y]) simp_all
  next
    case Working
    obtain s' t m where w: "sampler_work os (y_sampler y, y_sequence y, y_next_tick y) (y_calls y)
        = Some (Some (s', y_sequence y + 1, t), m)" "sampler_ok (os_clock os m) s'" "y_calls y \<le> m"
        "sm_published_sequence s' = y_sequence y + 1" "sm_notified s'" "sm_stop_requested s' = sm_stop_requested (y_sampler y)"
      by (rule sampler_work_run [OF os s go])
    let ?y = "y\<lparr>y_sampler := s', y_sequence := y_sequence y + 1, y_next_tick := t, y_phase := Waiting, y_calls := m,
      y_log := y_log y @ [sampler_read_latest s']\<rparr>"
    have "thread_step os interrupts y = Some ?y"
      using Working w(1) by (simp add: thread_step_def resume_def)
    moreover have "y_sequence y + 1 = of_nat (length (y_log y))"
      using log by (cases "y_log y") (simp_all add: log_ok_def add.commute)
    then have "log_ok ?y"
      using log w(4) by (auto simp: log_ok_def nth_append sampler_read_latest_def less_Suc_eq)
    then have "system_inv os fc ?y"
      using current_published [OF inv w(5)] inv w(2,6) go by (simp add: system_inv_def)
    ultimately show thesis using go Working w(6) by (intro that [of ?y]) simp_all
  qed (use fin in simp)
qed

lemma callback_event_ok:
  assumes "system_inv os fc y" and "callback_ok cb y"
  shows "event_ok (callback_event cb (y_sampler y)) (y_server y)"
proof -
  have "frames_wf (sm_published (y_sampler y))"
    using assms(1) by (auto simp: system_inv_def sampler_ok_def intro: merged_frames_wf)
  with assms(2) show ?thesis
    by (auto simp: callback_ok_def callback_event_def event_ok_def sampler_read_latest_def split: callback.splits event.splits)
qed

text \<open>Every callback but that of a notification keeps what the server holds.\<close>

lemma callback_not_sample:
  "callback_ok cb y \<Longrightarrow> cb \<noteq> Notification \<Longrightarrow> (\<forall>x. callback_event cb s \<noteq> Sample x)"
  by (auto simp: callback_ok_def callback_event_def split: callback.splits)

lemma callback_held:
  assumes inv: "system_inv os fc y" and ok: "callback_ok cb y"
  obtains s' where "daemon_step e fc ROADCAST_SIGNALS ROADCAST_CAN_SCHEMA_HASH (callback_event cb (y_sampler y)) (y_server y) = Some s'"
    and "daemon_inv fc s'" and "cb \<noteq> Notification \<longrightarrow> held s' = held (y_server y)"
    and "cb = Notification \<longrightarrow> held s' = (if sm_published_sequence (y_sampler y) \<le> s_sample_sequence (y_server y)
      then held (y_server y) else sampler_read_latest (y_sampler y))"
proof -
  have d: "server_inv (y_server y)" "signals_agree fc ROADCAST_SIGNALS (s_frames (y_server y)) (s_signals (y_server y))"
    using inv by (simp_all add: system_inv_def daemon_inv_def)
  obtain s' where s': "daemon_step e fc ROADCAST_SIGNALS ROADCAST_CAN_SCHEMA_HASH (callback_event cb (y_sampler y)) (y_server y) = Some s'"
      "server_inv s'" "signals_agree fc ROADCAST_SIGNALS (s_frames s') (s_signals s')"
      "case callback_event cb (y_sampler y) of
         Sample (latest, sq, ts) \<Rightarrow> if sq \<le> s_sample_sequence (y_server y) then s' = y_server y
           else s_frames s' = latest \<and> s_sample_sequence s' = sq \<and> s_sample_timestamp_ns s' = ts
       | _ \<Rightarrow> same_data (y_server y) s'"
    using roadcastd.daemon_step_ok [OF d callback_event_ok [OF inv ok], of e ROADCAST_CAN_SCHEMA_HASH] by blast
  have "held s' = held (y_server y)" if "cb \<noteq> Notification"
    using s'(4) callback_not_sample [OF ok that, of "y_sampler y"]
    by (auto simp: held_def same_data_def split: event.splits prod.splits)
  moreover have "held s' = (if sm_published_sequence (y_sampler y) \<le> s_sample_sequence (y_server y)
      then held (y_server y) else sampler_read_latest (y_sampler y))" if "cb = Notification"
    using s'(4) that by (auto simp: callback_event_def sampler_read_latest_def held_def split: if_splits)
  ultimately show thesis
    using s'(1-3) by (intro that [of s']) (simp_all add: daemon_inv_def)
qed

text \<open>Taking the published sample brings the server up to date.\<close>

lemma current_notified:
  assumes log: "log_ok y" and cur: "current y"
  shows "\<exists>k < length (y_log y). (if sm_published_sequence (y_sampler y) \<le> s_sample_sequence (y_server y)
      then held (y_server y) else sampler_read_latest (y_sampler y)) = y_log y ! k
    \<and> (length (y_log y) \<le> 2 ^ 64 \<longrightarrow> Suc k = length (y_log y))"
proof -
  obtain n where n: "length (y_log y) = Suc n" using log by (cases "y_log y") (auto simp: log_ok_def)
  then have last: "sampler_read_latest (y_sampler y) = y_log y ! n"
    using log by (auto simp: log_ok_def last_conv_nth)
  have sq: "sm_published_sequence (y_sampler y) = of_nat n"
  proof -
    have "fst (snd (y_log y ! n)) = of_nat n" using log n unfolding log_ok_def by (metis lessI)
    then show ?thesis unfolding last [symmetric] by (simp add: sampler_read_latest_def)
  qed
  obtain k where k: "k < length (y_log y)" "held (y_server y) = y_log y ! k" using cur by (auto simp: current_def)
  have ksq: "s_sample_sequence (y_server y) = of_nat k"
  proof -
    have "fst (snd (y_log y ! k)) = of_nat k" using log k(1) by (simp add: log_ok_def)
    then show ?thesis unfolding k(2) [symmetric] by (simp add: held_def)
  qed
  show ?thesis
  proof (cases "sm_published_sequence (y_sampler y) \<le> s_sample_sequence (y_server y)")
    case False
    then show ?thesis using n last by (intro exI [of _ n]) auto
  next
    case True
    have "Suc k = length (y_log y)" if "length (y_log y) \<le> 2 ^ 64"
    proof -
      have "n \<le> k"
        using True that k(1) n unfolding sq ksq by (simp add: word_le_nat_alt unat_of_nat_small del: One_nat_def)
      with k(1) n show ?thesis by simp
    qed
    with True k show ?thesis by (intro exI [of _ k]) auto
  qed
qed

lemma loop_step_run:
  assumes inv: "system_inv os fc y" and ok: "callback_ok cb y"
  obtains y' where "loop_step e fc cb y = Some y'" and "system_inv os fc y'"
    and "cb = Notification \<Longrightarrow> \<not> sm_notified (y_sampler y')"
proof -
  obtain s' where s': "daemon_step e fc ROADCAST_SIGNALS ROADCAST_CAN_SCHEMA_HASH (callback_event cb (y_sampler y)) (y_server y) = Some s'"
    "daemon_inv fc s'" "cb \<noteq> Notification \<longrightarrow> held s' = held (y_server y)"
    "cb = Notification \<longrightarrow> held s' = (if sm_published_sequence (y_sampler y) \<le> s_sample_sequence (y_server y)
      then held (y_server y) else sampler_read_latest (y_sampler y))"
    by (rule callback_held [OF inv ok, of e])
  let ?s = "if cb = Notification then (y_sampler y)\<lparr>sm_notified := False\<rparr> else y_sampler y"
  let ?y = "y\<lparr>y_server := s', y_sampler := ?s\<rparr>"
  have log: "log_ok y" and cur: "current y" using inv by (simp_all add: system_inv_def)
  have same: "callback_event cb ?s = callback_event cb (y_sampler y)" "sampler_read_latest ?s = sampler_read_latest (y_sampler y)"
    by (auto simp: callback_event_def sampler_read_latest_def split: callback.splits)
  have "loop_step e fc cb y = Some ?y"
    using s'(1) unfolding loop_step_def Let_def same by simp
  moreover have "current ?y"
  proof (cases "cb = Notification")
    case True
    then show ?thesis using current_notified [OF log cur] s'(4) by (auto simp: current_def)
  next
    case False
    then show ?thesis using cur s'(3) by (auto simp: current_def)
  qed
  moreover have "sampler_ok (os_clock os (y_calls y)) ?s"
    using inv by (simp add: system_inv_def sampler_ok_def source_good_def)
  moreover have "log_ok ?y" using log same(2) by (simp add: log_ok_def)
  moreover have "y_phase y = Finished \<longrightarrow> sm_stop_requested ?s" using inv by (auto simp: system_inv_def)
  ultimately show thesis
    using s'(2) by (intro that [of ?y]) (simp_all add: system_inv_def)
qed

lemma request_stop_inv: "system_inv os fc y \<Longrightarrow> system_inv os fc (request_stop y)"
  by (simp add: system_inv_def request_stop_def sampler_ok_def source_good_def log_ok_def current_def sampler_read_latest_def)

lemma joined_inv:
  assumes "system_inv os fc y"
  shows "system_inv os fc (joined y)"
proof -
  have "daemon_inv fc (server_shutdown (y_server y))"
    using assms server_shutdown_ok [of "y_server y"]
    by (simp add: system_inv_def daemon_inv_def) (simp add: server_shutdown_def)
  moreover have "held (server_shutdown s) = held s" for s
    by (simp add: held_def server_shutdown_def)
  moreover have "sm_notified (sampler_stop s) = sm_notified s" "sampler_read_latest (sampler_stop s) = sampler_read_latest s"
      "sm_stop_requested (sampler_stop s)" "sampler_ok now (sampler_stop s) = sampler_ok now s" for s now
    by (simp_all add: sampler_stop_def Let_def sampler_read_latest_def sampler_ok_def source_good_def)
  ultimately show ?thesis
    using assms by (simp add: system_inv_def joined_def log_ok_def current_def)
qed

lemma system_step_inv:
  assumes os: "system_ok os mem" and sleep: "\<forall>n. \<exists>k. \<not> interrupts (Suc n + 2 * k)" and inv: "system_inv os fc y"
    and step: "system_step os interrupts e fc y y'"
  shows "system_inv os fc y'"
  using step
proof cases
  case thread
  with thread_step_run [OF os sleep inv] show ?thesis by (metis option.inject)
next
  case (callback cb)
  with loop_step_run [OF inv callback(1), of e] show ?thesis by (metis option.inject)
qed (use inv request_stop_inv joined_inv in auto)

text \<open>A system that \<^verbatim>\<open>main\<close> has started, with the options in the ranges it checks, and any steps after that.\<close>

definition running :: "os \<Rightarrow> (nat \<Rightarrow> bool) \<Rightarrow> env \<Rightarrow> bool \<Rightarrow> system \<Rightarrow> bool" where
  "running os interrupts e fc y \<longleftrightarrow> (\<exists>lock_ok hz slots fake copy n y0. hz \<noteq> 0 \<and> 1 \<le> unat slots \<and> unat slots \<le> CLIENT_QUEUE_SLOTS
     \<and> main_start os fc lock_ok hz slots fake copy n = Some (Ok y0) \<and> system_reachable os interrupts e fc y0 y)"

text \<open>What the system is assumed to do: the calls of the sampler, and that a sleep is not interrupted for ever.\<close>

definition platform_ok :: "os \<Rightarrow> (nat \<Rightarrow> bool) \<Rightarrow> bool" where
  "platform_ok os interrupts \<longleftrightarrow> (\<exists>mem. system_ok os mem) \<and> (\<forall>n. \<exists>k. \<not> interrupts (Suc n + 2 * k))"

lemma running_inv:
  assumes "platform_ok os interrupts" and "running os interrupts e fc y"
  shows "system_inv os fc y"
proof -
  obtain mem where os: "system_ok os mem" and sleep: "\<forall>n. \<exists>k. \<not> interrupts (Suc n + 2 * k)"
    using assms(1) by (auto simp: platform_ok_def)
  obtain lock_ok hz slots fake copy n y0 where o: "hz \<noteq> 0" "1 \<le> unat slots" "unat slots \<le> CLIENT_QUEUE_SLOTS"
      "main_start os fc lock_ok hz slots fake copy n = Some (Ok y0)" and reach: "system_reachable os interrupts e fc y0 y"
    using assms(2) unfolding running_def by blast
  have "system_inv os fc y0"
    by (rule main_start_run [OF os o(1-3), of fc lock_ok fake copy n]) (use o(4) in auto)
  with reach show ?thesis
    by (induction rule: system_reachable.induct) (auto intro: system_step_inv [OF os sleep])
qed

section \<open>Properties\<close>

text \<open>
  C15: The two threads together never get stuck.  In every state of the running daemon the sampler thread can take
  its next step, every callback the event loop may make returns, and both lead to states in which this holds
  again.  The sampler provides what the event loop relies on: what it publishes is a whole set of well-formed frames.
\<close>

theorem system_never_stuck:
  assumes "platform_ok os interrupts" and "running os interrupts e fc y"
  shows "(\<exists>y'. thread_step os interrupts y = Some y' \<and> running os interrupts e fc y')
    \<and> (\<forall>cb. callback_ok cb y \<and> (sm_stop_requested (y_sampler y) \<longrightarrow> s_shutting_down (y_server y))
        \<longrightarrow> (\<exists>y'. loop_step e fc cb y = Some y' \<and> running os interrupts e fc y'))
    \<and> frames_wf (sm_published (y_sampler y)) \<and> server_inv (y_server y)"
proof -
  have inv: "system_inv os fc y" by (rule running_inv [OF assms])
  obtain mem where os: "system_ok os mem" and sleep: "\<forall>n. \<exists>k. \<not> interrupts (Suc n + 2 * k)"
    using assms(1) by (auto simp: platform_ok_def)
  have next_state: "running os interrupts e fc y'" if "system_step os interrupts e fc y y'" for y'
    using assms(2) that unfolding running_def by (meson system_reachable.step)
  have "\<exists>y'. thread_step os interrupts y = Some y' \<and> running os interrupts e fc y'"
    by (rule thread_step_run [OF os sleep inv]) (use next_state system_step.thread in blast)
  moreover have "\<exists>y'. loop_step e fc cb y = Some y' \<and> running os interrupts e fc y'"
    if "callback_ok cb y" "sm_stop_requested (y_sampler y) \<longrightarrow> s_shutting_down (y_server y)" for cb
    by (rule loop_step_run [OF inv that(1), of e]) (use that next_state system_step.callback in blast)
  moreover have "frames_wf (sm_published (y_sampler y))" "server_inv (y_server y)"
    using inv by (auto simp: system_inv_def daemon_inv_def sampler_ok_def intro: merged_frames_wf)
  ultimately show ?thesis by blast
qed



section \<open>An example\<close>

text \<open>The daemon in its fake mode, on a machine whose clock stands still and whose sleeps are not interrupted.\<close>

lemma example_platform: "platform_ok example_os (\<lambda>_. False)"
proof -
  have "mono (os_clock example_os)" by (simp add: example_os_def mono_def)
  then have "system_ok example_os (\<lambda>_ _. replicate 8 7)"
    using example_os_ok example_no_null_address by (simp add: system_ok_def)
  then show ?thesis by (auto simp: platform_ok_def)
qed

lemma example_running:
  obtains y where "main_start example_os False True 60 20 1 None 0 = Some (Ok y)" and "running example_os (\<lambda>_. False) quiet_env False y"
    and "\<not> sm_stop_requested (y_sampler y)" and "running example_os (\<lambda>_. False) quiet_env False (request_stop y)"
    and "\<not> s_shutting_down (y_server y)"
proof -
  obtain mem where os: "system_ok example_os mem" using example_platform by (auto simp: platform_ok_def)
  have o: "(60 :: u32) \<noteq> 0" "1 \<le> unat (20 :: u32)" "unat (20 :: u32) \<le> CLIENT_QUEUE_SLOTS" by simp_all
  obtain y where y: "main_start example_os False True 60 20 1 None 0 = Some (Ok y)"
    by (rule main_start_run [OF os o, of False True 1 None 0]) auto
  have run: "running example_os (\<lambda>_. False) quiet_env False y"
    unfolding running_def using o y system_reachable.start by blast
  obtain r m where i: "sampler_init example_os True 60 1 None 0 = Some (r, m)"
      "\<And>s. r = Ok s \<Longrightarrow> \<not> sm_stop_requested s"
    by (rule sampler_init_run [OF os o(1), of True 1 None 0]) blast
  have stop: "\<not> sm_stop_requested (y_sampler y)" and up: "\<not> s_shutting_down (y_server y)"
    using y i by (auto simp: main_start_def sampler_thread_start_def sampler_start_def dest!: initial_server_held
        split: ret.splits Option.bind_splits)
  have "running example_os (\<lambda>_. False) quiet_env False (request_stop y)"
    using run system_step.stop [OF stop] unfolding running_def by (meson system_reachable.step)
  with y run stop up show thesis by (intro that)
qed

theorem system_never_stuck_witness:
  "\<exists>y y'. main_start example_os False True 60 20 1 None 0 = Some (Ok y) \<and> thread_step example_os (\<lambda>_. False) y = Some y'"
  using system_never_stuck [OF example_platform] example_running by metis



end
