(* ===== verification/End_To_End.thy ===== *)
theory End_To_End
  imports Client_Inv System
begin

text \<open>
  The daemon and the client library together: what the daemon sends of a new sample is what the client's reader thread
  needs to bring its cache to the daemon's state.
\<close>

section \<open>Messages on the wire\<close>

text \<open>
  The reader's next two reads, at call \<open>n\<close> of the net, return the header and the payload of \<open>msg\<close>; in how many pieces
  the bytes arrive does not matter.
\<close>

definition arrives :: "net \<Rightarrow> nat \<Rightarrow> bytes \<Rightarrow> nat \<Rightarrow> bool" where
  "arrives net n msg m \<longleftrightarrow> \<not> n_stop net n \<and> (\<exists>k. let deadline_ns = op_deadline net 0 (Suc n) in
     read_exact net 32 [] deadline_ns (Suc (Suc n)) = Some (True, take 32 msg, k)
     \<and> (if length msg = 32 then m = k
        else read_exact net (length msg - 32) [] deadline_ns k = Some (True, drop 32 msg, m)))"

inductive arrive_all :: "net \<Rightarrow> nat \<Rightarrow> bytes list \<Rightarrow> nat \<Rightarrow> bool" for net where
  none: "arrive_all net n [] n"
| more: "arrives net n msg k \<Longrightarrow> arrive_all net k msgs m \<Longrightarrow> arrive_all net n (msg # msgs) m"

inductive_cases arrive_allE: "arrive_all net n (msg # msgs) m"

lemma unat_u32_small: "n < 4294967296 \<Longrightarrow> unat (of_nat n :: u32) = n"
  by (simp add: unat_of_nat_small)

lemma arrives_round:
  assumes a: "arrives net n (message_bytes ty sq ts p) m" and ok: "buffers_ok c" and p: "0 < length p" "length p \<le> k_payload_capacity c"
    "length p \<le> ROADCAST_MAX_PAYLOAD"
  shows "reader_round net c n = handle_message net (c\<lparr>k_payload := p @ drop (length p) (k_payload c)\<rparr>)
    (message_header ty sq ts (length p)) m"
proof -
  let ?d = "op_deadline net 0 (Suc n)"
  obtain k where k: "\<not> n_stop net n" "read_exact net 32 [] ?d (Suc (Suc n)) = Some (True, header_bytes (message_header ty sq ts (length p)), k)"
      "read_exact net (length p) [] ?d k = Some (True, p, m)"
    using a p(1) by (auto simp: arrives_def Let_def message_bytes_def)
  have n: "unat (h_payload_bytes (message_header ty sq ts (length p))) = length p"
    using p(3) by (simp add: message_header_def unat_u32_small)
  have d: "roadcast_decode_header (header_bytes (message_header ty sq ts (length p))) = Some (Ok (message_header ty sq ts (length p)))"
    using decode_header_bytes [of "message_header ty sq ts (length p)" "[]"] p(3) by (simp add: n)
  have "h_payload_bytes (message_header ty sq ts (length p)) \<noteq> 0"
    using n p(1) by auto
  moreover have "h_version (message_header ty sq ts (length p)) = ROADCAST_PROTOCOL_VERSION" "h_flags (message_header ty sq ts (length p)) = 0"
    by (simp_all add: message_header_def)
  moreover have "poke 0 p (k_payload c) = Some (p @ drop (length p) (k_payload c))"
    using ok p(2) by (simp add: buffers_ok_def poke_Some)
  ultimately show ?thesis
    unfolding reader_round_def read_message_def Let_def
    using k p(2) by (simp add: d n)
qed
section \<open>Applying a batch\<close>

definition overlay :: "'a list \<Rightarrow> nat list \<Rightarrow> 'a list \<Rightarrow> 'a list" where
  "overlay new ks old = fold (\<lambda>k xs. xs[k := new ! k]) ks old"

lemma overlay_simps [simp]:
  "overlay new [] old = old" "overlay new (k # ks) old = overlay new ks (old[k := new ! k])"
  "length (overlay new ks old) = length old" "overlay new (ks @ ls) old = overlay new ls (overlay new ks old)"
  by (simp_all add: overlay_def) (induction ks arbitrary: old; simp)+

lemma overlay_nth: "j < length old \<Longrightarrow> overlay new ks old ! j = (if j \<in> set ks then new ! j else old ! j)"
  by (induction ks arbitrary: old) (auto simp: nth_list_update)

lemma drop_take_Cons:
  assumes "take (Suc k) (drop i xs) = y # ys"
  shows "i < length xs" and "xs ! i = y" and "take k (drop (Suc i) xs) = ys"
proof -
  show i: "i < length xs"
    using assms by (cases "i < length xs") auto
  then show "xs ! i = y" and "take k (drop (Suc i) xs) = ys"
    using assms by (simp_all add: Cons_nth_drop_Suc [symmetric])
qed

lemma apply_frames_exact:
  assumes "take (length ks) (drop i (k_frame_scratch c)) = map (\<lambda>k. latest ! k) ks"
    and "\<forall>k \<in> set ks. frame_target c (f_can_id (latest ! k)) = Some (of_nat k)" and "\<forall>k \<in> set ks. k < unat (k_frame_count c)"
    and "unat (k_frame_count c) \<le> 65535" and "length frames = unat (k_frame_count c)"
  shows "apply_frames c i (length ks) frames = Some (True, overlay latest ks frames)"
  using assms
proof (induction ks arbitrary: i frames)
  case (Cons k ks)
  have head: "rd (k_frame_scratch c) i = Some (latest ! k)" "take (length ks) (drop (Suc i) (k_frame_scratch c)) = map (\<lambda>k. latest ! k) ks"
    using drop_take_Cons [of "length ks" i "k_frame_scratch c"] Cons.prems(1) by (simp_all add: rd_Some)
  have "unat (of_nat k :: u16) = k"
    using Cons.prems(3,4) by (simp add: unat_of_nat_small)
  then show ?case
    using Cons.prems Cons.IH [OF head(2)] by (simp add: head(1))
qed simp

lemma apply_signals_exact:
  assumes "take (length ks) (drop i (k_signal_scratch c)) = map (\<lambda>k. \<lparr>su_index = of_nat k, su_value = vals ! k\<rparr>) ks"
    and "\<forall>k \<in> set ks. k < unat (k_signal_count c)" and "length signals = unat (k_signal_count c)"
  shows "apply_signals c i (length ks) signals = Some (True, overlay vals ks signals)"
  using assms
proof (induction ks arbitrary: i signals)
  case (Cons k ks)
  have head: "rd (k_signal_scratch c) i = Some \<lparr>su_index = of_nat k, su_value = vals ! k\<rparr>"
      "take (length ks) (drop (Suc i) (k_signal_scratch c)) = map (\<lambda>k. \<lparr>su_index = of_nat k, su_value = vals ! k\<rparr>) ks"
    using drop_take_Cons [of "length ks" i "k_signal_scratch c"] Cons.prems(1) by (simp_all add: rd_Some)
  have k: "unat (of_nat k :: u32) = k"
    using Cons.prems(2) unsigned_less [of "k_signal_count c", where ?'a = nat] by (simp add: unat_of_nat_small)
  then have "\<not> k_signal_count c \<le> of_nat k"
    using Cons.prems(2) by (simp add: word_le_nat_alt)
  then show ?case
    using Cons.prems Cons.IH [OF head(2)] by (simp add: head(1) k)
qed simp

section \<open>A client that follows the daemon\<close>

text \<open>The client has the daemon's catalogue and room for its largest batches.\<close>

definition tracks :: "roadcast_client \<Rightarrow> bool" where
  "tracks c \<longleftrightarrow> live_ok c \<and> lookup_total (k_can_id_to_index c) (k_frames c) \<and> map f_can_id (k_frames c) = ROADCAST_CAN_IDS
     \<and> k_frame_count c = of_nat ROADCAST_FRAME_COUNT \<and> k_signal_count c = of_nat ROADCAST_SIGNAL_COUNT
     \<and> 2008 \<le> k_payload_capacity c \<and> FRAMES_PER_MESSAGE \<le> k_frame_scratch_capacity c
     \<and> SIGNALS_PER_MESSAGE \<le> k_signal_scratch_capacity c"

lemma can_ids: "distinct ROADCAST_CAN_IDS" "length ROADCAST_CAN_IDS = 111" "\<forall>id \<in> set ROADCAST_CAN_IDS. unat id < 2048"
  by (code_simp, simp add: ROADCAST_CAN_IDS_def, simp add: ROADCAST_CAN_IDS_def)

lemma tracks_target:
  assumes "tracks c" and "k < 111"
  shows "frame_target c (ROADCAST_CAN_IDS ! k) = Some (of_nat k)"
proof -
  define id where "id = ROADCAST_CAN_IDS ! k"
  have id: "unat id < 2048"
    using can_ids(2,3) assms(2) by (simp add: id_def)
  have ids: "f_can_id (k_frames c ! j) = ROADCAST_CAN_IDS ! j" if "j < 111" for j
    using assms(1) that nth_map [of j "k_frames c" f_can_id] can_ids(2) by (metis length_map tracks_def)
  have len: "length (k_frames c) = 111"
    using assms(1) can_ids(2) by (metis length_map tracks_def)
  define t where "t = k_can_id_to_index c ! unat id"
  have t: "unat t < 111"
    using assms ids [of k] len id by (auto simp: tracks_def lookup_total_def id_def t_def all_set_conv_all_nth)
  have "unat (f_can_id (k_frames c ! unat t)) = unat id"
    using assms(1) t id len by (simp add: tracks_def live_ok_def lookup_ok_def t_def)
  then have "ROADCAST_CAN_IDS ! unat t = ROADCAST_CAN_IDS ! k"
    using ids [OF t] by (simp add: id_def word_unat_eq_iff)
  then have "unat t = k"
    using can_ids(1,2) t assms(2) by (simp add: nth_eq_iff_index_eq)
  then have "t = of_nat k"
    by auto
  moreover have "length (k_can_id_to_index c) = 2048"
    using assms(1) by (simp add: tracks_def live_ok_def cache_ok_def buffers_ok_def)
  ultimately show ?thesis
    using id by (simp add: frame_target_def rd_Some id_def [symmetric] t_def)
qed

lemma overlay_ids:
  assumes "map f_can_id new = ids" and "map f_can_id old = ids"
  shows "map f_can_id (overlay new ks old) = ids"
proof (rule nth_equalityI)
  show "length (map f_can_id (overlay new ks old)) = length ids"
    using assms(2) by (metis length_map overlay_simps(3))
  fix j assume "j < length (map f_can_id (overlay new ks old))"
  then have j: "j < length old"
    by simp
  then have "j < length new"
    using assms by (metis length_map)
  then have "f_can_id (new ! j) = ids ! j" "f_can_id (old ! j) = ids ! j"
    using assms j by (metis nth_map)+
  then show "map f_can_id (overlay new ks old) ! j = ids ! j"
    using j by (simp add: overlay_nth)
qed

lemma lookup_total_ids:
  assumes "map f_can_id fs = map f_can_id gs"
  shows "lookup_total table fs = lookup_total table gs"
proof -
  have total: "lookup_total table fs \<longleftrightarrow> (\<forall>id \<in> set (map f_can_id fs). unat id < 2048 \<longrightarrow> unat (table ! unat id) < length (map f_can_id fs))" for fs
    by (simp add: lookup_total_def)
  show ?thesis
    unfolding total assms ..
qed

lemma loaded:
  assumes "buffers_ok c" and "length p \<le> k_payload_capacity c" and "length p \<le> 65536"
    and c1_def: "c1 = c\<lparr>k_payload := p @ drop (length p) (k_payload c)\<rparr>" and h_def: "h = message_header ty sq ts (length p)"
  shows "received c h c1" and "message_payload c1 h = Some p" and "h_type h = ty" and "h_sequence h = sq" and "h_timestamp_ns h = ts"
    and "unat (h_payload_bytes h) = length p"
proof -
  show n: "unat (h_payload_bytes h) = length p"
    using assms(3) by (simp add: h_def message_header_def unat_u32_small)
  have l: "length (k_payload c1) = length (k_payload c)"
    using assms(1,2) by (simp add: c1_def buffers_ok_def)
  then show "received c h c1"
    using assms(1,2) n by (simp add: received_def c1_def buffers_ok_def)
  show "message_payload c1 h = Some p"
    using assms(1,2) by (simp add: message_payload_def n slice_Some c1_def)
  show "h_type h = ty" and "h_sequence h = sq" and "h_timestamp_ns h = ts"
    by (simp_all add: h_def message_header_def)
qed

lemma frame_message:
  assumes tracks: "tracks c" and ks: "ks \<noteq> []" "length ks \<le> 71" "\<forall>k \<in> set ks. k < 111"
    and wf: "frames_wf latest" and ids: "map f_can_id latest = ROADCAST_CAN_IDS"
    and a: "arrives net n (message_bytes ROADCAST_MSG_UPDATE_BATCH cs ts
      (batch_bytes frame_record_bytes sq (of_nat ROADCAST_FRAME_COUNT) UINT32_MAX (map (\<lambda>k. latest ! k) ks))) m"
  obtains c' where "reader_round net c n = Some (True, c', m)" and "tracks c'" and "k_frames c' = overlay latest ks (k_frames c)"
    and "k_signals c' = k_signals c" and "k_sample_sequence c' = sq" and "k_change_sequence c' = cs" and "k_sample_timestamp_ns c' = ts"
proof -
  let ?fs = "map (\<lambda>k. latest ! k) ks"
  define p where "p = batch_bytes frame_record_bytes sq (of_nat ROADCAST_FRAME_COUNT) UINT32_MAX ?fs"
  define h where "h = message_header ROADCAST_MSG_UPDATE_BATCH cs ts (length p)"
  define c1 where "c1 = c\<lparr>k_payload := p @ drop (length p) (k_payload c)\<rparr>"
  define c2 where "c2 = c1\<lparr>k_frame_scratch := ?fs @ drop (length ks) (k_frame_scratch c)\<rparr>"
  define c3 where "c3 = c2\<lparr>k_frames := overlay latest ks (k_frames c), k_sample_sequence := sq, k_change_sequence := cs,
    k_sample_timestamp_ns := ts\<rparr>"
  have fwf: "\<forall>f \<in> set ?fs. frame_wf f"
    using wf ks(3) by (auto simp: frames_wf_def list_all_length)
  have len: "length p = 20 + length ks * 28"
    using length_frame_batch [OF fwf] by (simp add: p_def)
  have c: "buffers_ok c" "live_ok c" "length (k_frame_scratch c) = k_frame_scratch_capacity c" "71 \<le> k_frame_scratch_capacity c"
      "2008 \<le> k_payload_capacity c" "k_frame_count c = 111" "length (k_frames c) = 111"
    using tracks by (simp_all add: tracks_def live_ok_def cache_ok_def)
  have fits: "length p \<le> k_payload_capacity c" "length p \<le> 65536" "0 < length p"
    using len ks(2) c(5) by simp_all
  note l = loaded [OF c(1) fits(1,2) c1_def h_def]
  have "roadcast_decode_frame_batch p (k_frame_scratch_capacity c1) = Some (Ok (sq, 111, UINT32_MAX, ?fs))"
    using ks(2) c(4) fwf by (subst decode_frame_batch_iff) (simp add: p_def page_ok_def c1_def)
  then have decoded: "decode_frame_batch c1 h = Some (Ok (sq, length ks, c2))"
    unfolding decode_frame_batch_def l(2) using c(3,4,6) ks(2) by (simp add: c1_def c2_def poke_Some)
  have "apply_frames c2 0 (length ks) (k_frames c) = Some (True, overlay latest ks (k_frames c))"
  proof (rule apply_frames_exact)
    show "take (length ks) (drop 0 (k_frame_scratch c2)) = ?fs"
      by (simp add: c2_def)
    have "frame_target c2 id = frame_target c id" for id
      by (simp add: frame_target_def c2_def c1_def)
    moreover have "f_can_id (latest ! k) = ROADCAST_CAN_IDS ! k" if "k < 111" for k
      using ids that wf by (metis frames_wf_def nth_map)
    ultimately show "\<forall>k \<in> set ks. frame_target c2 (f_can_id (latest ! k)) = Some (of_nat k)"
      using tracks_target [OF tracks] ks(3) by simp
  qed (use ks(3) c in \<open>simp_all add: c2_def c1_def\<close>)
  then have live: "apply_live_frame_batch c1 h = Some (True, c3)"
    by (simp add: apply_live_frame_batch_def decoded apply_decoded_frames_def cache_of_def c3_def) (simp add: c2_def c1_def l(4,5))
  have "live_ok c1"
    using c(2) received_ok [OF l(1)] core_same(3) [OF received_ok(1) [OF l(1)]] by (simp add: live_ok_def)
  then have "live_ok c3"
    using apply_live_frame_batch_run [OF _ l(1)] live by simp
  moreover have "map f_can_id (k_frames c3) = ROADCAST_CAN_IDS"
    using tracks ids by (simp add: c3_def tracks_def overlay_ids)
  moreover have "lookup_total (k_can_id_to_index c3) (k_frames c3)"
    using tracks lookup_total_ids [of "k_frames c3" "k_frames c"] calculation(2) by (simp add: tracks_def c3_def c2_def c1_def)
  ultimately have "tracks c3"
    using tracks by (simp add: tracks_def) (simp add: c3_def c2_def c1_def)
  moreover have "reader_round net c n = Some (True, c3, m)"
    using arrives_round [OF a [folded p_def] c(1) fits(3,1,2)] l(3) live by (simp add: c1_def h_def handle_message_def)
  ultimately show thesis
    by (intro that [of c3]) (simp_all add: c3_def c2_def c1_def)
qed

lemma signal_message:
  assumes tracks: "tracks c" and ks: "ks \<noteq> []" "length ks \<le> 49" "\<forall>k \<in> set ks. k < 815" and wf: "signals_wf vals"
    and a: "arrives net n (message_bytes ROADCAST_MSG_SIGNAL_UPDATE_BATCH cs ts
      (batch_bytes signal_record_bytes sq (of_nat ROADCAST_SIGNAL_COUNT) UINT32_MAX
        (map (\<lambda>k. \<lparr>su_index = of_nat k, su_value = vals ! k\<rparr>) ks))) m"
  obtains c' where "reader_round net c n = Some (True, c', m)" and "tracks c'" and "k_signals c' = overlay vals ks (k_signals c)"
    and "k_frames c' = k_frames c" and "k_sample_sequence c' = sq" and "k_change_sequence c' = cs" and "k_sample_timestamp_ns c' = ts"
proof -
  let ?us = "map (\<lambda>k. \<lparr>su_index = of_nat k, su_value = vals ! k\<rparr>) ks"
  define p where "p = batch_bytes signal_record_bytes sq (of_nat ROADCAST_SIGNAL_COUNT) UINT32_MAX ?us"
  define h where "h = message_header ROADCAST_MSG_SIGNAL_UPDATE_BATCH cs ts (length p)"
  define c1 where "c1 = c\<lparr>k_payload := p @ drop (length p) (k_payload c)\<rparr>"
  define c2 where "c2 = c1\<lparr>k_signal_scratch := ?us @ drop (length ks) (k_signal_scratch c)\<rparr>"
  define c3 where "c3 = c2\<lparr>k_signals := overlay vals ks (k_signals c), k_sample_sequence := sq, k_change_sequence := cs,
    k_sample_timestamp_ns := ts\<rparr>"
  have uwf: "\<forall>u \<in> set ?us. update_wf u"
    using wf ks(3) by (auto simp: signals_wf_def list_all_length update_wf_def value_wf_def)
  have len: "length p = 20 + length ks * 40"
    by (simp add: p_def length_signal_batch)
  have c: "buffers_ok c" "live_ok c" "length (k_signal_scratch c) = k_signal_scratch_capacity c" "49 \<le> k_signal_scratch_capacity c"
      "2008 \<le> k_payload_capacity c" "k_signal_count c = 815" "length (k_signals c) = 815"
    using tracks by (simp_all add: tracks_def live_ok_def cache_ok_def)
  have fits: "length p \<le> k_payload_capacity c" "length p \<le> 65536" "0 < length p"
    using len ks(2) c(5) by simp_all
  note l = loaded [OF c(1) fits(1,2) c1_def h_def]
  have "roadcast_decode_signal_batch p (k_signal_scratch_capacity c1) = Some (Ok (sq, 815, UINT32_MAX, ?us))"
    using ks(2) c(4) uwf by (subst decode_signal_batch_iff) (simp add: p_def page_ok_def c1_def)
  then have decoded: "decode_signal_batch c1 h = Some (Ok (sq, length ks, c2))"
    unfolding decode_signal_batch_def l(2) using c(3,4,6) ks(2) by (simp add: c1_def c2_def poke_Some)
  have "apply_signals c2 0 (length ks) (k_signals c) = Some (True, overlay vals ks (k_signals c))"
    by (rule apply_signals_exact) (use ks(3) c in \<open>simp_all add: c2_def c1_def\<close>)
  then have live: "apply_live_signal_batch c1 h = Some (True, c3)"
    by (simp add: apply_live_signal_batch_def decoded apply_decoded_signals_def cache_of_def c3_def) (simp add: c2_def c1_def l(4,5))
  have "live_ok c1"
    using c(2) received_ok [OF l(1)] core_same(3) [OF received_ok(1) [OF l(1)]] by (simp add: live_ok_def)
  then have "live_ok c3"
    using apply_live_signal_batch_run [OF _ l(1)] live by simp
  then have "tracks c3"
    using tracks by (simp add: tracks_def) (simp add: c3_def c2_def c1_def)
  moreover have "reader_round net c n = Some (True, c3, m)"
    using arrives_round [OF a [folded p_def] c(1) fits(3,1,2)] l(3) live by (simp add: c1_def h_def handle_message_def)
  ultimately show thesis
    by (intro that [of c3]) (simp_all add: c3_def c2_def c1_def)
qed

section \<open>A whole update\<close>

lemma concat_map_split:
  assumes "concat gs = map f xs"
  obtains kss where "gs = map (map f) kss" and "concat kss = xs"
proof -
  have "\<exists>kss. gs = map (map f) kss \<and> concat kss = xs"
    using assms
  proof (induction gs arbitrary: xs)
    case (Cons g gs)
    have "map f xs = g @ concat gs"
      using Cons.prems by simp
    then obtain ys zs where x: "xs = ys @ zs" "g = map f ys" "concat gs = map f zs"
      by (auto simp: map_eq_append_conv)
    obtain kss where "gs = map (map f) kss" "concat kss = zs"
      using Cons.IH [OF x(3)] by blast
    then show ?case
      using x by (intro exI [of _ "ys # kss"]) simp
  qed simp
  then show thesis
    using that by blast
qed

lemma reader_reaches_first:
  assumes "reader_round net c n = Some (True, c1, k)" and "reader_reaches net c1 k c2 m"
  shows "reader_reaches net c n c2 m"
  using assms(2) by induction (use assms(1) in \<open>auto intro: reader_reaches.intros\<close>)

definition at_sample :: "u64 \<Rightarrow> u64 \<Rightarrow> u64 \<Rightarrow> roadcast_client \<Rightarrow> bool" where
  "at_sample sq cs ts c \<longleftrightarrow> k_sample_sequence c = sq \<and> k_change_sequence c = cs \<and> k_sample_timestamp_ns c = ts"

lemma signal_messages:
  assumes "tracks c" and "signals_wf vals"
    and "\<forall>ks \<in> set kss. ks \<noteq> [] \<and> length ks \<le> 49 \<and> (\<forall>k \<in> set ks. k < 815)"
    and "arrive_all net n (update_messages cs ts sq [] (map (map (\<lambda>k. \<lparr>su_index = of_nat k, su_value = vals ! k\<rparr>)) kss)) m"
  shows "\<exists>c'. reader_reaches net c n c' m \<and> tracks c' \<and> k_signals c' = overlay vals (concat kss) (k_signals c)
    \<and> k_frames c' = k_frames c \<and> (kss \<noteq> [] \<or> at_sample sq cs ts c \<longrightarrow> at_sample sq cs ts c')"
  using assms(1,3,4)
proof (induction kss arbitrary: c n)
  case Nil
  then show ?case
    by (auto simp: update_messages_def elim: arrive_all.cases intro: reader_reaches.start)
next
  case (Cons ks kss)
  let ?rest = "update_messages cs ts sq [] (map (map (\<lambda>k. \<lparr>su_index = of_nat k, su_value = vals ! k\<rparr>)) kss)"
  obtain k where k: "arrives net n (message_bytes ROADCAST_MSG_SIGNAL_UPDATE_BATCH cs ts
      (batch_bytes signal_record_bytes sq (of_nat ROADCAST_SIGNAL_COUNT) UINT32_MAX
        (map (\<lambda>k. \<lparr>su_index = of_nat k, su_value = vals ! k\<rparr>) ks))) k" "arrive_all net k ?rest m"
    using Cons.prems(3) by (auto simp: update_messages_def elim: arrive_allE)
  obtain c1 where c1: "reader_round net c n = Some (True, c1, k)" "tracks c1" "k_signals c1 = overlay vals ks (k_signals c)"
      "k_frames c1 = k_frames c" "at_sample sq cs ts c1"
    by (rule signal_message [OF Cons.prems(1) _ _ _ assms(2) k(1)]) (use Cons.prems(2) in \<open>auto simp: at_sample_def\<close>)
  obtain c' where "reader_reaches net c1 k c' m" "tracks c'" "k_signals c' = overlay vals (concat kss) (k_signals c1)"
      "k_frames c' = k_frames c1" "kss \<noteq> [] \<or> at_sample sq cs ts c1 \<longrightarrow> at_sample sq cs ts c'"
    using Cons.IH [OF c1(2) _ k(2)] Cons.prems(2) by auto
  then show ?case
    using c1 reader_reaches_first [OF c1(1)] by (intro exI [of _ c']) simp
qed

lemma update_messages_received:
  assumes "tracks c" and "frames_wf latest" and "map f_can_id latest = ROADCAST_CAN_IDS" and "signals_wf vals"
    and "\<forall>ks \<in> set fss. ks \<noteq> [] \<and> length ks \<le> 71 \<and> (\<forall>k \<in> set ks. k < 111)" and "fss \<noteq> []"
    and "\<forall>ks \<in> set kss. ks \<noteq> [] \<and> length ks \<le> 49 \<and> (\<forall>k \<in> set ks. k < 815)"
    and "arrive_all net n (update_messages cs ts sq (map (map (\<lambda>k. latest ! k)) fss)
      (map (map (\<lambda>k. \<lparr>su_index = of_nat k, su_value = vals ! k\<rparr>)) kss)) m"
  shows "\<exists>c'. reader_reaches net c n c' m \<and> tracks c' \<and> k_signals c' = overlay vals (concat kss) (k_signals c)
    \<and> k_frames c' = overlay latest (concat fss) (k_frames c) \<and> at_sample sq cs ts c'"
proof -
  have "\<exists>c'. reader_reaches net c n c' m \<and> tracks c' \<and> k_signals c' = overlay vals (concat kss) (k_signals c)
      \<and> k_frames c' = overlay latest (concat fss) (k_frames c) \<and> (fss \<noteq> [] \<or> at_sample sq cs ts c \<longrightarrow> at_sample sq cs ts c')"
    using assms(1,5,8)
  proof (induction fss arbitrary: c n)
    case Nil
    then show ?case
      using signal_messages [OF Nil.prems(1) assms(4,7), of net n cs ts sq m] by auto
  next
    case (Cons ks fss)
    let ?rest = "update_messages cs ts sq (map (map (\<lambda>k. latest ! k)) fss)
      (map (map (\<lambda>k. \<lparr>su_index = of_nat k, su_value = vals ! k\<rparr>)) kss)"
    obtain k where k: "arrives net n (message_bytes ROADCAST_MSG_UPDATE_BATCH cs ts
        (batch_bytes frame_record_bytes sq (of_nat ROADCAST_FRAME_COUNT) UINT32_MAX (map (\<lambda>k. latest ! k) ks))) k" "arrive_all net k ?rest m"
      using Cons.prems(3) by (auto simp: update_messages_def elim: arrive_allE)
    obtain c1 where c1: "reader_round net c n = Some (True, c1, k)" "tracks c1" "k_frames c1 = overlay latest ks (k_frames c)"
        "k_signals c1 = k_signals c" "at_sample sq cs ts c1"
      by (rule frame_message [OF Cons.prems(1) _ _ _ assms(2,3) k(1)]) (use Cons.prems(2) in \<open>auto simp: at_sample_def\<close>)
    obtain c' where "reader_reaches net c1 k c' m" "tracks c'" "k_signals c' = overlay vals (concat kss) (k_signals c1)"
        "k_frames c' = overlay latest (concat fss) (k_frames c1)" "fss \<noteq> [] \<or> at_sample sq cs ts c1 \<longrightarrow> at_sample sq cs ts c'"
      using Cons.IH [OF c1(2) _ k(2)] Cons.prems(2) by auto
    then show ?case
      using c1 reader_reaches_first [OF c1(1)] by (intro exI [of _ c']) simp
  qed
  then show ?thesis
    using assms(6) by blast
qed

text \<open>The cache agrees with the daemon's state in everything that the daemon counts as a change.\<close>

definition mirrors :: "roadcast_client \<Rightarrow> server \<Rightarrow> bool" where
  "mirrors c s \<longleftrightarrow> tracks c \<and> (\<forall>k < ROADCAST_FRAME_COUNT. \<not> frame_differs (k_frames c ! k) (s_frames s ! k))
     \<and> (\<forall>k < ROADCAST_SIGNAL_COUNT. \<not> signal_differs (k_signals c ! k) (s_signals s ! k))"

lemma mirrors_data: "mirrors c s \<Longrightarrow> s_signals s' = s_signals s \<Longrightarrow>
    (\<And>k. k < 111 \<Longrightarrow> \<not> frame_differs (s_frames s' ! k) (s_frames s ! k)) \<Longrightarrow> mirrors c s'"
  by (auto simp: mirrors_def frame_differs_def)

lemma overlay_follows:
  assumes "length old = n" and "\<And>k. k < n \<Longrightarrow> \<not> differs (old ! k) (past ! k)"
    and "\<And>a b d. \<not> differs a b \<Longrightarrow> \<not> differs d b \<Longrightarrow> \<not> differs a d" and "\<And>a. \<not> differs a a" and "k < n"
  shows "\<not> differs (overlay new (changed_indices differs n new past) old ! k) (new ! k)"
  using assms by (auto simp: overlay_nth changed_indices_def)

lemma update_followed:
  assumes dinv: "daemon_inv fc s" and wf: "frames_wf latest" and ids: "map f_can_id latest = ROADCAST_CAN_IDS"
    and i: "i < MAX_CLIENTS" and sub: "is_subscriber (s_clients s ! i)" and c: "mirrors c s"
    and run: "distribute_latest_sample e fc ROADCAST_SIGNALS (latest, sq, ts) s = Some s'" and sub': "is_subscriber (s_clients s' ! i)"
    and arrive: "arrive_all net n (drop (length (c_stream (s_clients s ! i))) (c_stream (s_clients s' ! i))) m"
  obtains c' where "reader_reaches net c n c' m" and "mirrors c' s'"
    and "s_sample_sequence s < sq \<and> (\<exists>k < ROADCAST_FRAME_COUNT. frame_differs (latest ! k) (s_frames s ! k)) \<longrightarrow>
      at_sample sq (s_change_sequence s + 1) ts c'"
proof -
  note goal = that
  have inv: "server_inv s" "signals_agree fc ROADCAST_SIGNALS (s_frames s) (s_signals s)"
    using dinv by (auto simp: daemon_inv_def)
  have none: "m = n" if "s_clients s' = s_clients s"
    using arrive that by (auto elim: arrive_all.cases)
  show thesis
  proof (cases "s_sample_sequence s < sq")
    case False
    then have "s' = s"
      using run by (simp add: distribute_latest_sample_def not_less)
    then show thesis
      using none c False by (intro goal [of c]) (auto intro: reader_reaches.start)
  next
    case new: True
    let ?fchg = "changed_indices frame_differs ROADCAST_FRAME_COUNT latest (s_frames s)"
    show thesis
    proof (cases "?fchg = []")
      case True
      have same: "s' = store_sample latest (s_signals s) sq ts s"
        by (cases rule: roadcastd.distribute_run [OF inv wf new, of e ts]) (use run True in simp_all)
      have "\<not> frame_differs (latest ! k) (s_frames s ! k)" if "k < 111" for k
        using True that by (auto simp: changed_indices_def filter_empty_conv)
      moreover have "s_clients s' = s_clients s"
        by (simp add: same)
      ultimately show thesis
        using none mirrors_data [OF c, of s'] by (intro goal [of c]) (auto simp: same intro: reader_reaches.start)
    next
      case False
      obtain s2 fgroups sgroups where d: "distribute_latest_sample e fc ROADCAST_SIGNALS (latest, sq, ts) s = Some s2"
          "s_frames s2 = latest" "concat fgroups = map (\<lambda>k. latest ! k) ?fchg"
          "concat sgroups = map (\<lambda>k. \<lparr>su_index = of_nat k, su_value = s_signals s2 ! k\<rparr>)
            (changed_indices signal_differs ROADCAST_SIGNAL_COUNT (s_signals s2) (s_signals s))"
          "\<forall>g \<in> set fgroups. g \<noteq> [] \<and> length g \<le> FRAMES_PER_MESSAGE"
          "\<forall>g \<in> set sgroups. g \<noteq> [] \<and> length g \<le> SIGNALS_PER_MESSAGE"
          "sent_all (update_messages (s_change_sequence s + 1) ts sq fgroups sgroups) (s_clients s ! i) (s_clients s2 ! i)
            \<or> (\<not> c_active (s_clients s2 ! i) \<or> c_needs_resync (s_clients s2 ! i))
              \<and> (\<exists>ms. c_stream (s_clients s2 ! i) = c_stream (s_clients s ! i) @ ms
                  \<and> prefix ms (update_messages (s_change_sequence s + 1) ts sq fgroups sgroups))"
        by (rule roadcastd.distribute_delivers [OF inv wf new i sub False, of e ts]) (rule that, assumption+)
      have s2: "s2 = s'"
        using d(1) run by simp
      let ?schg = "changed_indices signal_differs ROADCAST_SIGNAL_COUNT (s_signals s') (s_signals s)"
      obtain fss where fss: "fgroups = map (map (\<lambda>k. latest ! k)) fss" "concat fss = ?fchg"
        by (rule concat_map_split [OF d(3)])
      obtain kss where kss: "sgroups = map (map (\<lambda>k. \<lparr>su_index = of_nat k, su_value = s_signals s2 ! k\<rparr>)) kss"
          "concat kss = changed_indices signal_differs ROADCAST_SIGNAL_COUNT (s_signals s2) (s_signals s)"
        by (rule concat_map_split [OF d(4)])
      have "sent_all (update_messages (s_change_sequence s + 1) ts sq fgroups sgroups) (s_clients s ! i) (s_clients s' ! i)"
        using d(7) sub' s2 by (auto simp: is_subscriber_def)
      then have msgs: "arrive_all net n (update_messages (s_change_sequence s + 1) ts sq fgroups sgroups) m"
        using arrive sent_allD(1) by fastforce
      have swf: "signals_wf (s_signals s')" "length (s_signals s) = 815"
        using roadcastd.distribute_ok [OF inv wf, of e sq ts] run inv(1) by (auto simp: server_inv_def server_data_wf_def signals_wf_def)
      have "\<forall>ks \<in> set fss. \<forall>k \<in> set ks. k < 111"
        using fss(2) changed_less by (metis (mono_tags, lifting) UN_I set_concat)
      then have fb: "\<forall>ks \<in> set fss. ks \<noteq> [] \<and> length ks \<le> 71 \<and> (\<forall>k \<in> set ks. k < 111)"
        using d(5) by (simp add: fss(1))
      have "\<forall>ks \<in> set kss. \<forall>k \<in> set ks. k < 815"
        using kss(2) changed_less by (metis (mono_tags, lifting) UN_I set_concat)
      then have kb: "\<forall>ks \<in> set kss. ks \<noteq> [] \<and> length ks \<le> 49 \<and> (\<forall>k \<in> set ks. k < 815)"
        using d(6) by (simp add: kss(1))
      have "fss \<noteq> []"
        using fss(2) False by auto
      have t: "tracks c" "\<And>k. k < 111 \<Longrightarrow> \<not> frame_differs (k_frames c ! k) (s_frames s ! k)"
          "\<And>k. k < 815 \<Longrightarrow> \<not> signal_differs (k_signals c ! k) (s_signals s ! k)"
        using c by (auto simp: mirrors_def)
      obtain c' where c': "reader_reaches net c n c' m" "tracks c'" "k_signals c' = overlay (s_signals s') ?schg (k_signals c)"
          "k_frames c' = overlay latest ?fchg (k_frames c)" "at_sample sq (s_change_sequence s + 1) ts c'"
        using update_messages_received [OF t(1) wf ids swf(1) fb \<open>fss \<noteq> []\<close> kb, of net n "s_change_sequence s + 1" ts sq m] msgs fss kss s2
        by auto
      have lens: "length (k_frames c) = 111" "length (k_signals c) = 815"
        using t(1) by (simp_all add: tracks_def live_ok_def cache_ok_def)
      have "\<not> frame_differs (k_frames c' ! k) (s_frames s' ! k)" if "k < 111" for k
        unfolding c'(4) d(2) [unfolded s2] by (rule overlay_follows [where differs = frame_differs, OF lens(1) t(2) _ _ that]) (auto simp: frame_differs_def)
      moreover have "\<not> signal_differs (k_signals c' ! k) (s_signals s' ! k)" if "k < 815" for k
        unfolding c'(3) by (rule overlay_follows [where differs = signal_differs, OF lens(2) t(3) _ _ that]) (auto simp: signal_differs_def)
      ultimately show thesis
        using c'(1,2,5) by (intro goal [of c']) (simp_all add: mirrors_def)
    qed
  qed
qed

section \<open>An update that fits\<close>

lemma update_fits:
  assumes dinv: "daemon_inv fc s" and wf: "frames_wf latest" and i: "i < MAX_CLIENTS" and sub: "is_subscriber (s_clients s ! i)"
    and acc: "accepting e" and free: "FRAME_BATCH_CHUNKS + SIGNAL_BATCH_CHUNKS \<le> free_slots s (s_clients s ! i)"
  obtains s' ms where "distribute_latest_sample e fc ROADCAST_SIGNALS (latest, sq, ts) s = Some s'" and "is_subscriber (s_clients s' ! i)"
    and "c_stream (s_clients s' ! i) = c_stream (s_clients s ! i) @ ms" and "\<forall>msg \<in> set ms. 32 < length msg"
proof -
  note goal = that
  have inv: "server_inv s" "signals_agree fc ROADCAST_SIGNALS (s_frames s) (s_signals s)"
    using dinv by (auto simp: daemon_inv_def)
  show thesis
  proof (cases "s_sample_sequence s < sq")
    case False
    then show thesis
      using sub by (intro goal [of s "[]"]) (simp_all add: distribute_latest_sample_def not_less)
  next
    case new: True
    let ?fchg = "changed_indices frame_differs ROADCAST_FRAME_COUNT latest (s_frames s)"
    show thesis
    proof (cases "?fchg = []")
      case True
      show thesis
        by (cases rule: roadcastd.distribute_run [OF inv wf new, of e ts])
           (use True sub in \<open>auto intro!: goal [of "store_sample latest (s_signals s) sq ts s" "[]"]\<close>)
    next
      case False
      obtain s' fgroups sgroups where d: "distribute_latest_sample e fc ROADCAST_SIGNALS (latest, sq, ts) s = Some s'"
          "accepting e \<and> FRAME_BATCH_CHUNKS + SIGNAL_BATCH_CHUNKS \<le> free_slots s (s_clients s ! i) \<longrightarrow>
            sent_all (update_messages (s_change_sequence s + 1) ts sq fgroups sgroups) (s_clients s ! i) (s_clients s' ! i)"
        by (rule roadcastd.distribute_delivers [OF inv wf new i sub False, of e ts]) (rule that, assumption+)
      then have sent: "sent_all (update_messages (s_change_sequence s + 1) ts sq fgroups sgroups) (s_clients s ! i) (s_clients s' ! i)"
        using acc free by blast
      have "\<forall>msg \<in> set (update_messages (s_change_sequence s + 1) ts sq fgroups sgroups). 32 < length msg"
        by (auto simp: update_messages_def batch_bytes_def)
      then show thesis
        using d(1) sub sent_allD [OF sent]
        by (intro goal [of s' "update_messages (s_change_sequence s + 1) ts sq fgroups sgroups"])
           (simp_all add: is_subscriber_def)
    qed
  qed
qed

section \<open>Examples\<close>

text \<open>A connection that delivers the given messages, each in one piece for the header and one for the payload.\<close>

definition script_net :: "bytes list \<Rightarrow> net" where
  "script_net msgs = closed_net\<lparr>n_recv := \<lambda>n _. let msg = (if n div 4 < length msgs then msgs ! (n div 4) else []) in
     if n mod 4 = 2 then (int (length (take 32 msg)), 0, take 32 msg)
     else if n mod 4 = 3 then (int (length (drop 32 msg)), 0, drop 32 msg) else (0, 0, [])\<rparr>"

lemma read_whole:
  assumes "n_recv net n len = (int len, 0, data)" and "length data = len" and "0 < len"
  shows "read_exact net len [] deadline n = Some (True, data, Suc n)"
  using read_exact_step [of "[]" len net n "int len" 0 data deadline] assms
  by (simp add: read_exact.simps [of net len data deadline "Suc n"])

lemma script_arrives:
  assumes "\<forall>msg \<in> set msgs. 32 < length msg" and "j \<le> length msgs"
  shows "arrive_all (script_net msgs) (4 * j) (drop j msgs) (4 * length msgs)"
  using assms(2)
proof (induction "length msgs - j" arbitrary: j)
  case 0
  then show ?case
    by (simp add: arrive_all.none)
next
  case (Suc d)
  then have j: "j < length msgs"
    by simp
  let ?net = "script_net msgs"
  have long: "32 < length (msgs ! j)"
    using assms(1) j by simp
  have d: "(4 * j + 2) div 4 = j" "(4 * j + 2) mod 4 = 2" "(4 * j + 3) div 4 = j" "(4 * j + 3) mod 4 = 3"
    by presburger+
  have recv: "n_recv ?net n len = (let msg = (if n div 4 < length msgs then msgs ! (n div 4) else []) in
     if n mod 4 = 2 then (int (length (take 32 msg)), 0, take 32 msg)
     else if n mod 4 = 3 then (int (length (drop 32 msg)), 0, drop 32 msg) else (0, 0, []))" for n len
    by (simp add: script_net_def)
  have "n_recv ?net (4 * j + 2) 32 = (int 32, 0, take 32 (msgs ! j))"
      "n_recv ?net (4 * j + 3) (length (msgs ! j) - 32) = (int (length (msgs ! j) - 32), 0, drop 32 (msgs ! j))"
    unfolding recv d Let_def using j long by simp_all
  from read_whole [OF this(1)] read_whole [OF this(2)]
  have r: "read_exact ?net 32 [] dl (4 * j + 2) = Some (True, take 32 (msgs ! j), 4 * j + 3)"
      "read_exact ?net (length (msgs ! j) - 32) [] dl (4 * j + 3) = Some (True, drop 32 (msgs ! j), 4 * j + 4)" for dl
    using long by (simp_all add: numeral_eq_Suc)
  have "arrives ?net (4 * j) (msgs ! j) (4 * Suc j)"
    using r long by (simp add: arrives_def Let_def script_net_def [of msgs] closed_net_def)
  moreover have "drop j msgs = msgs ! j # drop (Suc j) msgs"
    using j by (simp add: Cons_nth_drop_Suc)
  ultimately show ?case
    using Suc.hyps(1) [of "Suc j"] Suc.hyps(2) j by (simp add: arrive_all.more)
qed

definition empty_client :: roadcast_client where
  "empty_client = new_client\<lparr>k_payload := replicate PAYLOAD_CAP 0, k_payload_capacity := PAYLOAD_CAP,
     k_frame_scratch := replicate FRAMES_PER_MESSAGE zero_frame, k_frame_scratch_capacity := FRAMES_PER_MESSAGE,
     k_signal_scratch := replicate SIGNALS_PER_MESSAGE \<lparr>su_index = 0, su_value = zero_signal\<rparr>,
     k_signal_scratch_capacity := SIGNALS_PER_MESSAGE, k_schema := replicate ROADCAST_SIGNAL_COUNT zero_schema_entry,
     k_frames := replicate ROADCAST_FRAME_COUNT zero_frame, k_signals := replicate ROADCAST_SIGNAL_COUNT zero_signal,
     k_frame_count := of_nat ROADCAST_FRAME_COUNT, k_signal_count := of_nat ROADCAST_SIGNAL_COUNT\<rparr>"

lemma commit_keeps:
  assumes "commit_synchronization c sync = Some c'"
  shows "k_payload_capacity c' = k_payload_capacity c" and "k_frame_scratch_capacity c' = k_frame_scratch_capacity c"
    and "k_signal_scratch_capacity c' = k_signal_scratch_capacity c"
  using assms by (auto simp: commit_synchronization_def split: Option.bind_splits)

definition identified :: "roadcast_frame list \<Rightarrow> roadcast_frame list" where
  "identified fs = map2 (\<lambda>id f. f\<lparr>f_can_id := id\<rparr>) ROADCAST_CAN_IDS fs"

lemma identified_ids: "length fs = 111 \<Longrightarrow> map f_can_id (identified fs) = ROADCAST_CAN_IDS"
  using can_ids(2) by (auto intro!: nth_equalityI simp: identified_def)

lemma identified_wf: "frames_wf fs \<Longrightarrow> frames_wf (identified fs)"
  using can_ids(2) by (auto simp: frames_wf_def identified_def list_all_length frame_wf_def)

lemma mirror_exists:
  assumes "server_inv s"
  obtains c where "mirrors c s"
proof -
  have fwf: "frames_wf (s_frames s)" and swf: "signals_wf (s_signals s)"
    using assms by (auto simp: server_inv_def server_data_wf_def)
  let ?sync = "\<lparr>sy_frames = identified (s_frames s), sy_signals = s_signals s, sy_sample_sequence = 0, sy_change_sequence = 0,
    sy_sample_timestamp_ns = 0\<rparr>"
  have u: "update_wf \<lparr>su_index = 0, su_value = zero_signal\<rparr>"
    by (simp add: update_wf_def zero_signal_def)
  have ok: "cache_ok empty_client" "sync_ok empty_client ?sync"
    using zero_wf u identified_wf [OF fwf] swf
    by (simp_all add: cache_ok_def buffers_ok_def empty_client_def new_client_def sync_ok_def frames_wf_def signals_wf_def list_all_iff)
  obtain c where c: "commit_synchronization empty_client ?sync = Some c" "live_ok c" "lookup_total (k_can_id_to_index c) (k_frames c)"
      "k_frames c = identified (s_frames s)" "k_signals c = s_signals s" "k_signal_count c = 815" "k_frame_count c = 111"
    using commit_run [OF ok] by (auto simp: returns_def empty_client_def)
  have "tracks c"
    using c commit_keeps [OF c(1)] identified_ids [of "s_frames s"] fwf by (simp add: tracks_def empty_client_def frames_wf_def)
  then have "mirrors c s"
    using c(4,5) fwf can_ids(2) by (simp add: mirrors_def frame_differs_def signal_differs_def identified_def frames_wf_def)
  then show thesis
    by (rule that)
qed

section \<open>Properties\<close>


lemma quiet_accepting: "accepting quiet_env"
  by (simp add: accepting_def quiet_env_def)

lemma example_free: "s_client_queue_slots s = 20 \<Longrightarrow> free_slots s (example_client greeted subscribed) = 20"
  by (simp add: free_slots_def example_client_def zero_client_def)




end
