(* ===== verification/Spec2Isabelle.thy ===== *)
theory Spec2Isabelle
  imports End_To_End
begin

text \<open>
  A verification library for roadcast, which samples the CAN frames that a vehicle HAL process holds in memory and
  distributes them, raw and decoded, to local clients over a Unix socket.

  \<^bold>\<open>The program.\<close>  The daemon (\<^verbatim>\<open>src/roadcastd.c\<close>) runs two threads.  The sampler thread reads, at a fixed rate, one sample of
  all frames through a source session (\<^verbatim>\<open>src/source_session.c\<close>) from the memory of the HAL process (\<^verbatim>\<open>src/vhal_source.c\<close>),
  merges it with the previous one and publishes it.  The libuv loop takes the published sample, decodes the signals of the
  frames that changed with the signal catalogue (\<^verbatim>\<open>src/catalog.c\<close>, \<^verbatim>\<open>src/catalog_generated.c\<close>), and sends every subscriber
  the changed frames and signals in the wire format of \<^verbatim>\<open>src/protocol.c\<close>; it also serves handshakes, schema pages,
  snapshot pages, subscriptions and heartbeats.  The client library (\<^verbatim>\<open>src/client.c\<close>) connects, discovers the schema, takes
  a snapshot, subscribes, and keeps a cache up to date in a reader thread.

  \<^bold>\<open>Conventions.\<close>  Integers are words of the C width.  A buffer or array is a list and every access to it is checked:
  \<^const>\<open>None\<close> is an access outside an object (or a loop that does not return), so that every theorem that a computation is
  \<open>Some\<close> is a theorem of memory safety and of termination.  A function that returns -1 for failure has a result of type
  \<open>'a ret\<close>, \<open>Fail\<close> or \<open>Ok\<close>.  Code outside the repository is a parameter: libuv and the clock of the loop are an \<open>env\<close>, the
  operating system of the VHAL source an \<open>os\<close>, the socket, clock and allocator of the client a \<open>net\<close>, each a record of
  answers indexed by the number of calls made so far, so that every behaviour is some value of the parameter.  What the
  theorems assume of them are the named predicates \<open>os_ok\<close>, \<open>memory_of\<close>, \<open>system_ok\<close>, \<open>event_ok\<close>, \<open>accepting\<close>, \<open>net_ok\<close> and
  \<open>quiet_from\<close>.  Nothing is ever assumed of what a peer sends.

  \<^bold>\<open>Theories.\<close>
  \<^item> \<open>Prelude\<close>, \<open>Posix\<close>: checked memory, result types, loops, shared lemmas; C strings and error numbers.
  \<^item> \<open>Wire\<close>, \<open>Protocol\<close>, \<open>Batches\<close>, \<open>Schema\<close> (\<^verbatim>\<open>src/protocol.c\<close>, \<^verbatim>\<open>include/roadcast_protocol.h\<close>): big-endian fields, the fixed-layout
    messages, frame and signal batches, schema chunks.  The locale \<open>record_codec\<close> holds what both batch codecs share.  Shown: the
    codecs are exact (a payload is accepted iff it is the encoding of what is returned), decoders stay inside any payload, and
    encoders refuse what does not fit.
  \<^item> \<open>Binary64\<close>, \<open>Catalog\<close>, \<open>Signals\<close>, \<open>Schema_Encoding\<close> (\<^verbatim>\<open>src/catalog.c\<close>): double arithmetic on bit patterns, extraction of raw
    values, two-pass decoding, schema pages.  The locale \<open>catalogue\<close> states what decoding needs of a table.  \<open>Frames\<close>, \<open>Catalog_Table_1\<close>
    to \<open>Catalog_Table_4\<close> and \<open>Catalog_Table\<close> are the generated tables, and the interpretation of the locale on them.
  \<^item> \<open>Daemon_State\<close>, \<open>Daemon_Queue\<close>, \<open>Daemon_Session\<close>, \<open>Daemon_Session_Inv\<close>, \<open>Daemon_Handlers\<close>, \<open>Distribution\<close>, \<open>Daemon_Server\<close>,
    \<open>Daemon_Progress\<close>, \<open>Daemon\<close> (\<^verbatim>\<open>src/roadcastd.c\<close>): the records \<open>server\<close> and \<open>client\<close>, the output queue, the session of a connection
    (paging, catch-up, commands), the callbacks, the distribution of a sample, the event loop as a step function with the
    relation \<open>reachable\<close>, and the properties.  A handler acts on a pair of the server and one client; the locale \<open>connection_handler\<close>
    is its contract, interpreted for reads, writes, broadcasts and heartbeats.  \<open>c_stream\<close> records what was handed to libuv.
    Shown: no callback gets stuck, the queue and the client table stay within their bounds, incremental decoding equals
    full decoding, an update is complete or announced as lost, a subscription completes, overdue clients are closed.
  \<^item> \<open>Vhal_Elf\<close>, \<open>Vhal_Source\<close>, \<open>Source_Session\<close> (\<^verbatim>\<open>src/vhal_source.c\<close>, \<^verbatim>\<open>src/source_session.c\<close>): the symbol resolver over an arbitrary
    file, finding and identifying the process, reading its memory, reconnecting with a growing delay.
  \<^item> \<open>Sampler\<close>, \<open>System\<close> (\<^verbatim>\<open>src/roadcastd.c\<close>): the sampler thread, and both threads interleaved in any order.  Shown: the server holds
    one whole published sample, and the latest one when no notification is pending; the system never gets stuck; shutdown
    completes.
  \<^item> \<open>Client_Io\<close>, \<open>Client\<close>, \<open>Client_Inv\<close> (\<^verbatim>\<open>src/client.c\<close>, \<^verbatim>\<open>include/roadcast_client.h\<close>): the socket of the client, its operations, and
    what they keep.  Shown: against any daemon, connecting and the reader thread return and stay inside their buffers, and
    the cache holds well-formed records behind a lookup table that finds them.
  \<^item> \<open>End_To_End\<close>: the daemon and the client together.  Shown: a client that agrees with the daemon agrees with it again when the
    messages of the next sample have arrived; an update fits into 19 free slots.

  \<^bold>\<open>Loops.\<close>  Loops with a bound are structural or have a termination proof, so they need no fuel.  Loops whose end depends on the
  system (reading and writing a socket, waiting for a descriptor, the requests of the client, its reader thread) are
  partial functions, and theorems show that they return: a clock that passes every deadline and interrupted calls that
  do not repeat for ever are enough for one message, and for the loops that the daemon feeds (waiting for the answer to a
  subscription, the reader thread) also that it does not send for ever.  The deadline of the setup does not bound these loops,
  because it is looked at only when no data is waiting.

  \<^bold>\<open>Not modelled.\<close>  Creating, binding and removing the listening socket, the libuv handles, signal handling and the log output of
  the daemon: calls into libuv and the system without a decision of the program.  The command-line client
  (\<^verbatim>\<open>src/roadcastctl.c\<close>) and the smoke test of the client library (\<^verbatim>\<open>src/roadcast_client_smoke.c\<close>), which print.  Mutexes are
  not modelled: code under one is one step.  Memory that is freed is not tracked.
\<close>

end
